(* ===== verification/Prelude.thy ===== *)
theory Prelude
  imports Main "HOL-Library.List_Lexorder" "HOL-Library.Char_ord" "HOL-Library.AList"
begin

text \<open>
  Shared vocabulary of the development: results of code that may raise, the string
  operations of the language the components use, sets turned into sorted lists, and
  dictionaries whose keys are kept sorted (the order in which canonical JSON writes them).
\<close>

named_theorems result_simps \<open>unfolding rules for computations that may raise\<close>
named_theorems dict_simps \<open>laws of sorted dictionaries\<close>
named_theorems eval_simps \<open>definitions to unfold when evaluating on an example\<close>

section \<open>Results of code that may raise\<close>

text \<open>An exception is the left injection of a sum; each component has its own error datatype.\<close>

definition rbind :: "'e + 'a \<Rightarrow> ('a \<Rightarrow> 'e + 'b) \<Rightarrow> 'e + 'b" where
  "rbind m k = (case m of Inl e \<Rightarrow> Inl e | Inr x \<Rightarrow> k x)"

definition require :: "bool \<Rightarrow> 'e \<Rightarrow> 'e + 'a \<Rightarrow> 'e + 'a" where
  "require c e k = (if c then k else Inl e)"

lemma rbind_simps [simp, result_simps]:
  "rbind (Inl e) k = Inl e" "rbind (Inr x) k = k x"
  by (simp_all add: rbind_def)

lemma rbind_eq_Inr [result_simps]: "rbind m k = Inr y \<longleftrightarrow> (\<exists>x. m = Inr x \<and> k x = Inr y)"
  by (cases m) auto

lemma rbind_eq_Inl: "rbind m k = Inl e \<longleftrightarrow> m = Inl e \<or> (\<exists>x. m = Inr x \<and> k x = Inl e)"
  by (cases m) auto

lemma require_simps [simp, result_simps]:
  "require True e k = k" "require False e k = Inl e"
  by (simp_all add: require_def)

lemma require_eq_Inr [result_simps]: "require c e k = Inr y \<longleftrightarrow> c \<and> k = Inr y"
  by (simp add: require_def)

lemma rbindE:
  assumes "rbind m k = Inr y"
  obtains x where "m = Inr x" "k x = Inr y"
  using assms by (auto simp: rbind_eq_Inr)

text \<open>
  Evaluation on examples goes from the outside in: with these congruences the continuation of
  a step is not touched before the step's result is known.
\<close>

lemma rbind_weak_cong: "m = m' \<Longrightarrow> rbind m k = rbind m' k"
  by simp

lemma require_weak_cong: "c = c' \<Longrightarrow> require c e k = require c' e k"
  by simp

lemmas eval_congs = rbind_weak_cong require_weak_cong let_weak_cong

text \<open>Running a computation over a list, left to right, stopping at the first error.\<close>

fun traverse :: "('a \<Rightarrow> 'e + 'b) \<Rightarrow> 'a list \<Rightarrow> 'e + 'b list" where
  "traverse f [] = Inr []"
| "traverse f (x # xs) = rbind (f x) (\<lambda>y. rbind (traverse f xs) (\<lambda>ys. Inr (y # ys)))"

lemma traverse_Inr_iff: "traverse f xs = Inr ys \<longleftrightarrow> list_all2 (\<lambda>x y. f x = Inr y) xs ys"
proof (induction xs arbitrary: ys)
  case (Cons x xs)
  then show ?case
    by (cases ys) (auto simp: rbind_eq_Inr)
qed auto

lemma traverse_all_Inr: "(\<And>x. x \<in> set xs \<Longrightarrow> f x = Inr (g x)) \<Longrightarrow> traverse f xs = Inr (map g xs)"
  by (induction xs) auto

text \<open>A loop that threads a state through a list and may raise.\<close>

fun rfold :: "('a \<Rightarrow> 's \<Rightarrow> 'e + 's) \<Rightarrow> 'a list \<Rightarrow> 's \<Rightarrow> 'e + 's" where
  "rfold f [] s = Inr s"
| "rfold f (x # xs) s = rbind (f x s) (rfold f xs)"

lemma rfold_append: "rfold f (xs @ ys) s = rbind (rfold f xs s) (rfold f ys)"
proof (induction xs arbitrary: s)
  case (Cons x xs)
  then show ?case by (cases "f x s") auto
qed simp

lemma rfold_invariant:
  assumes "\<And>x s s'. x \<in> set xs \<Longrightarrow> P s \<Longrightarrow> f x s = Inr s' \<Longrightarrow> P s'"
    and "P s" and "rfold f xs s = Inr s'"
  shows "P s'"
  using assms
proof (induction xs arbitrary: s)
  case (Cons x xs)
  from Cons.prems(3) obtain t where "f x s = Inr t" "rfold f xs t = Inr s'"
    by (auto elim: rbindE)
  moreover from this(1) Cons.prems(2) have "P t" using Cons.prems(1) [of x s t] by simp
  ultimately show ?case using Cons.IH [of t] Cons.prems(1) by auto
qed simp

section \<open>Strings\<close>

text \<open>
  A string is a list of the code points 0 to 255. White space is what \<open>str.strip\<close> removes in
  that range, and \<open>py_upper\<close> is \<open>str.upper\<close> there: the sharp s becomes two letters, and the two
  letters whose capitals lie outside the range are left as they are.
\<close>

definition is_space :: "char \<Rightarrow> bool" where
  "is_space c = (let n = of_char c :: nat in
     9 \<le> n \<and> n \<le> 13 \<or> 28 \<le> n \<and> n \<le> 32 \<or> n = 133 \<or> n = 160)"

definition py_strip :: "string \<Rightarrow> string" where
  "py_strip s = rev (dropWhile is_space (rev (dropWhile is_space s)))"

text \<open>What \<open>int\<close> and \<open>float\<close> strip from a text is less: not the separators 28 to 31.\<close>

definition num_strip :: "string \<Rightarrow> string" where
  "num_strip s = (let sp = (\<lambda>c. is_space c \<and> \<not> (28 \<le> (of_char c :: nat) \<and> (of_char c :: nat) \<le> 31)) in
     rev (dropWhile sp (rev (dropWhile sp s))))"

definition upper_char :: "char \<Rightarrow> string" where
  "upper_char c = (let n = of_char c :: nat in
     if n = 223 then ''SS''
     else if 97 \<le> n \<and> n \<le> 122 \<or> 224 \<le> n \<and> n \<le> 254 \<and> n \<noteq> 247 then [char_of (n - 32)]
     else [c])"

definition py_upper :: "string \<Rightarrow> string" where
  "py_upper s = concat (map upper_char s)"

lemma dropWhile_rev_dropWhile:
  "dropWhile p (rev (dropWhile p (rev (dropWhile p s)))) = rev (dropWhile p (rev (dropWhile p s)))"
proof (cases "rev (dropWhile p (rev (dropWhile p s)))")
  case (Cons c cs)
  let ?t = "dropWhile p s"
  obtain us where us: "rev ?t = us @ dropWhile p (rev ?t)"
    by (metis takeWhile_dropWhile_id)
  then have "?t = rev (dropWhile p (rev ?t)) @ rev us"
    by (metis rev_append rev_rev_ident)
  with Cons have "?t \<noteq> []" "hd ?t = c"
    by (metis append_Cons list.discI) (metis Cons \<open>?t = _\<close> append_Cons list.sel(1))
  then have "\<not> p c" using hd_dropWhile [of p s] by auto
  with Cons show ?thesis by simp
next
  case Nil
  then show ?thesis by (simp only: dropWhile.simps)
qed

lemma py_strip_idem [simp]: "py_strip (py_strip s) = py_strip s"
  by (simp add: py_strip_def dropWhile_rev_dropWhile)

lemma py_strip_no_space: "(\<And>c. c \<in> set s \<Longrightarrow> \<not> is_space c) \<Longrightarrow> py_strip s = s"
proof -
  assume a: "\<And>c. c \<in> set s \<Longrightarrow> \<not> is_space c"
  have d: "dropWhile is_space t = t" if "set t \<subseteq> set s" for t
    using that a by (cases t) auto
  show "py_strip s = s" by (simp add: py_strip_def d)
qed

text \<open>
  The check every component applies to an identifier: stripped, not empty and at most
  \<open>limit\<close> characters long.
\<close>

definition ident_check :: "nat \<Rightarrow> 'e \<Rightarrow> string \<Rightarrow> 'e + string" where
  "ident_check limit e s =
     (let n = py_strip s in if n = [] \<or> limit < length n then Inl e else Inr n)"

lemma ident_check_idem: "ident_check l e s = Inr n \<Longrightarrow> ident_check l e' n = Inr n"
  by (auto simp: ident_check_def Let_def split: if_splits)

lemma ident_check_Inr_D: "ident_check l e s = Inr n \<Longrightarrow> n = py_strip s \<and> n \<noteq> [] \<and> length n \<le> l"
  by (auto simp: ident_check_def Let_def split: if_splits)

text \<open>\<open>sorted({...})\<close>: the elements once each, in order.\<close>

definition sorted_set :: "'a::linorder list \<Rightarrow> 'a list" where
  "sorted_set xs = sort (remdups xs)"

lemma sorted_set_simps [simp]:
  "set (sorted_set xs) = set xs" "distinct (sorted_set xs)" "sorted (sorted_set xs)"
  "sorted_set [] = []"
  by (simp_all add: sorted_set_def)

lemma sorted_set_id: "sorted xs \<Longrightarrow> distinct xs \<Longrightarrow> sorted_set xs = xs"
  by (simp add: sorted_set_def sorted_sort_id distinct_remdups_id)

lemma sorted_set_eq_iff: "sorted_set xs = sorted_set ys \<longleftrightarrow> set xs = set ys"
proof
  assume "sorted_set xs = sorted_set ys"
  then have "set (sorted_set xs) = set (sorted_set ys)" by simp
  then show "set xs = set ys" by simp
next
  assume "set xs = set ys"
  then show "sorted_set xs = sorted_set ys"
    by (intro sorted_distinct_set_unique) simp_all
qed

section \<open>Dictionaries with sorted keys\<close>

type_synonym ('k, 'v) dict = "('k \<times> 'v) list"

definition dict_ok :: "('k::linorder, 'v) dict \<Rightarrow> bool" where
  "dict_ok d \<longleftrightarrow> sorted_wrt (<) (map fst d)"

abbreviation dict_get :: "('k, 'v) dict \<Rightarrow> 'k \<Rightarrow> 'v option" where
  "dict_get \<equiv> map_of"

fun dict_put :: "'k::linorder \<Rightarrow> 'v \<Rightarrow> ('k, 'v) dict \<Rightarrow> ('k, 'v) dict" where
  "dict_put k v [] = [(k, v)]"
| "dict_put k v ((k', v') # d) =
     (if k < k' then (k, v) # (k', v') # d
      else if k = k' then (k, v) # d
      else (k', v') # dict_put k v d)"

definition dict_del :: "'k \<Rightarrow> ('k, 'v) dict \<Rightarrow> ('k, 'v) dict" where
  "dict_del k d = filter (\<lambda>p. fst p \<noteq> k) d"

definition dict_of :: "('k::linorder \<times> 'v) list \<Rightarrow> ('k, 'v) dict" where
  "dict_of ps = fold (\<lambda>(k, v). dict_put k v) ps []"

lemma dict_get_put [simp, dict_simps]:
  "dict_get (dict_put k v d) = (dict_get d)(k \<mapsto> v)"
  by (induction d) (auto simp: fun_eq_iff)

lemma dict_get_del [simp, dict_simps]: "dict_get (dict_del k d) = (dict_get d)(k := None)"
  by (induction d) (auto simp: dict_del_def fun_eq_iff)

lemma keys_dict_put [simp, dict_simps]: "fst ` set (dict_put k v d) = insert k (fst ` set d)"
  by (induction k v d rule: dict_put.induct) (simp_all add: insert_commute)

lemma keys_dict_del [simp, dict_simps]: "fst ` set (dict_del k d) = fst ` set d - {k}"
  by (auto simp: dict_del_def)

lemma set_dict_put_subset: "set (dict_put k v d) \<subseteq> insert (k, v) (set d)"
  by (induction d) (auto split: if_splits)

lemma dict_ok_Nil [simp]: "dict_ok []"
  by (simp add: dict_ok_def)

lemma dict_ok_Cons: "dict_ok ((k, v) # d) \<longleftrightarrow> (\<forall>k' \<in> fst ` set d. k < k') \<and> dict_ok d"
  by (auto simp: dict_ok_def)

lemma dict_ok_put [simp, intro, dict_simps]: "dict_ok d \<Longrightarrow> dict_ok (dict_put k v d)"
proof (induction d)
  case (Cons p d)
  obtain a b where p: "p = (a, b)" by force
  show ?case
    using Cons unfolding p by (fastforce simp: dict_ok_Cons)
qed (simp add: dict_ok_Cons)

lemma dict_ok_del [simp, intro, dict_simps]: "dict_ok d \<Longrightarrow> dict_ok (dict_del k d)"
  unfolding dict_ok_def dict_del_def
  by (induction d) auto

lemma dict_ok_of [simp]: "dict_ok (dict_of ps)"
proof -
  have "dict_ok (fold (\<lambda>(k, v). dict_put k v) ps d)" if "dict_ok d" for d
    using that by (induction ps arbitrary: d) auto
  then show ?thesis by (simp add: dict_of_def)
qed

lemma dict_ok_distinct: "dict_ok d \<Longrightarrow> distinct (map fst d)"
  by (simp add: dict_ok_def strict_sorted_iff)

text \<open>A sorted dictionary is determined by what it maps.\<close>

lemma dict_ext:
  assumes "dict_ok c" and "dict_ok d" and "dict_get c = dict_get d"
  shows "c = d"
proof -
  have "distinct (map fst c)" "distinct (map fst d)"
    using assms by (simp_all add: dict_ok_distinct)
  with assms(3) have "set c = set d"
    by (simp add: map_of_inject_set)
  moreover have "sorted (map fst c)" "sorted (map fst d)"
    using assms by (auto simp: dict_ok_def strict_sorted_iff)
  moreover have "inj_on fst (set c)"
    using \<open>distinct (map fst c)\<close> by (simp add: distinct_map)
  ultimately show ?thesis
    using \<open>distinct (map fst c)\<close> \<open>distinct (map fst d)\<close>
    by (intro map_sorted_distinct_set_unique [of fst c d]) simp_all
qed

text \<open>
  What a client of a dictionary relies on, as an interface: reading after writing, after
  deleting, the keys, and that the invariant is kept.
\<close>

locale dict_spec =
  fixes get :: "'d \<Rightarrow> 'k \<Rightarrow> 'v option"
    and put :: "'k \<Rightarrow> 'v \<Rightarrow> 'd \<Rightarrow> 'd"
    and del :: "'k \<Rightarrow> 'd \<Rightarrow> 'd"
    and ok :: "'d \<Rightarrow> bool"
  assumes get_put: "get (put k v d) = (get d)(k \<mapsto> v)"
    and get_del: "get (del k d) = (get d)(k := None)"
    and ok_put: "ok d \<Longrightarrow> ok (put k v d)"
    and ok_del: "ok d \<Longrightarrow> ok (del k d)"
    and ext: "ok c \<Longrightarrow> ok d \<Longrightarrow> get c = get d \<Longrightarrow> c = d"
begin

lemma put_put: "ok d \<Longrightarrow> put k v (put k w d) = put k v d"
  by (rule ext) (simp_all add: ok_put get_put)

lemma put_commute: "ok d \<Longrightarrow> k \<noteq> l \<Longrightarrow> put k v (put l w d) = put l w (put k v d)"
  by (rule ext) (auto simp: ok_put get_put)

lemma put_same: "ok d \<Longrightarrow> get d k = Some v \<Longrightarrow> put k v d = d"
  by (rule ext) (auto simp: ok_put get_put)

lemma del_put: "ok d \<Longrightarrow> get d k = None \<Longrightarrow> del k (put k v d) = d"
  by (rule ext) (auto simp: ok_put ok_del get_put get_del)

end

interpretation sdict: dict_spec dict_get dict_put dict_del dict_ok
  by unfold_locales (auto intro: dict_ext)

lemma dict_get_Some_in: "dict_get d k = Some v \<Longrightarrow> (k, v) \<in> set d"
  by (rule map_of_SomeD)

lemma dict_get_None_iff: "dict_get d k = None \<longleftrightarrow> k \<notin> fst ` set d"
  by (rule map_of_eq_None_iff)

lemma dict_ok_get_iff: "dict_ok d \<Longrightarrow> dict_get d k = Some v \<longleftrightarrow> (k, v) \<in> set d"
  by (simp add: dict_ok_distinct map_of_eq_Some_iff)

lemma dict_of_get: "distinct (map fst ps) \<Longrightarrow> dict_get (dict_of ps) = dict_get ps"
proof -
  have "distinct (map fst ps) \<Longrightarrow> dict_get (fold (\<lambda>(k, v). dict_put k v) ps d) = dict_get d ++ dict_get ps" for d :: "('a::linorder, 'b) dict"
  proof (induction ps arbitrary: d)
    case (Cons p ps)
    obtain k v where p: "p = (k, v)" by force
    have "dict_get (dict_put k v d) ++ dict_get ps = dict_get d ++ dict_get (p # ps)"
      using Cons.prems unfolding p by (simp add: map_add_upd_left dom_map_of_conv_image_fst del: fun_upd_apply)
    then show ?case using Cons unfolding p by (simp del: fun_upd_apply)
  qed simp
  then show "distinct (map fst ps) \<Longrightarrow> ?thesis" by (simp add: dict_of_def)
qed

text \<open>\<open>d.get(k, default)\<close> and \<open>d.setdefault(k, v)\<close>.\<close>

definition get_default :: "('k, 'v) dict \<Rightarrow> 'k \<Rightarrow> 'v \<Rightarrow> 'v" where
  "get_default d k v = (case dict_get d k of None \<Rightarrow> v | Some w \<Rightarrow> w)"

definition set_default :: "'k::linorder \<Rightarrow> 'v \<Rightarrow> ('k, 'v) dict \<Rightarrow> ('k, 'v) dict" where
  "set_default k v d = (if dict_get d k = None then dict_put k v d else d)"

lemma set_default_get: "dict_get (set_default k v d) = (if dict_get d k = None then (dict_get d)(k \<mapsto> v) else dict_get d)"
  by (simp add: set_default_def)

lemma set_default_ok: "dict_ok d \<Longrightarrow> dict_ok (set_default k v d)"
  by (simp add: set_default_def)

section \<open>Tables as lists of rows\<close>

lemma find_append: "List.find P (xs @ ys) = (case List.find P xs of None \<Rightarrow> List.find P ys | Some x \<Rightarrow> Some x)"
  by (induction xs) auto

lemma find_None_iff': "List.find P xs = None \<longleftrightarrow> (\<forall>x \<in> set xs. \<not> P x)"
  by (auto simp: find_None_iff)

lemma find_Some_D: "List.find P xs = Some x \<Longrightarrow> x \<in> set xs \<and> P x"
  by (auto simp: find_Some_iff in_set_conv_nth)

text \<open>An update of the rows that meet \<open>P\<close>, seen through a lookup of the same rows or of others.\<close>

lemma find_update_same:
  "(\<And>x. P x \<Longrightarrow> P (f x)) \<Longrightarrow>
     List.find P (map (\<lambda>x. if P x then f x else x) xs) = map_option f (List.find P xs)"
  by (induction xs) auto

lemma find_update_other:
  "(\<And>x. P x \<Longrightarrow> \<not> Q x \<and> \<not> Q (f x)) \<Longrightarrow>
     List.find Q (map (\<lambda>x. if P x then f x else x) xs) = List.find Q xs"
  by (induction xs) auto

end
