(* ===== verification/PyFloat.thy ===== *)
theory PyFloat
  imports Complex_Main "HOL-Library.Log_Nat"
begin

text \<open>
  The language's floats: IEEE 754 binary64 with rounding to nearest, ties to even, written
  over the rationals. A finite value is the rational it denotes (the two zeros are one
  value); \<open>rnd\<close> rounds an exact result to the format and overflows to an infinity.
\<close>

section \<open>Values and rounding\<close>

datatype flt = Fin rat | PInf | NInf | NaN

definition pow2 :: "int \<Rightarrow> rat" where
  "pow2 e = (if 0 \<le> e then 2 ^ nat e else 1 / 2 ^ nat (- e))"

definition round_half_even :: "rat \<Rightarrow> int" where
  "round_half_even x = (let f = \<lfloor>x\<rfloor>; d = x - of_int f in
     if d < 1 / 2 then f else if 1 / 2 < d then f + 1 else if even f then f else f + 1)"

text \<open>The exponent of a positive rational: the bit lengths of numerator and denominator, corrected.\<close>

definition ilog2 :: "rat \<Rightarrow> int" where
  "ilog2 x = (let (n, d) = quotient_of x; k = int (floorlog 2 (nat n)) - int (floorlog 2 (nat d)) in
     if pow2 k \<le> x then k else k - 1)"

definition rnd :: "rat \<Rightarrow> flt" where
  "rnd x = (if x = 0 then Fin 0 else
     let u = pow2 (max (ilog2 \<bar>x\<bar> - 52) (- 1074));
         r = of_int (round_half_even (x / u)) * u in
     if pow2 1024 \<le> r then PInf else if r \<le> - pow2 1024 then NInf else Fin r)"

definition fneg :: "flt \<Rightarrow> flt" where
  "fneg a = (case a of Fin x \<Rightarrow> Fin (- x) | PInf \<Rightarrow> NInf | NInf \<Rightarrow> PInf | NaN \<Rightarrow> NaN)"

fun fadd :: "flt \<Rightarrow> flt \<Rightarrow> flt" where
  "fadd (Fin x) (Fin y) = rnd (x + y)"
| "fadd NaN b = NaN"
| "fadd a NaN = NaN"
| "fadd PInf NInf = NaN"
| "fadd NInf PInf = NaN"
| "fadd PInf b = PInf"
| "fadd a PInf = PInf"
| "fadd NInf b = NInf"
| "fadd a NInf = NInf"

definition fsub :: "flt \<Rightarrow> flt \<Rightarrow> flt" where
  "fsub a b = fadd a (fneg b)"

text \<open>Comparison; every comparison with a NaN is false.\<close>

fun flt_less :: "flt \<Rightarrow> flt \<Rightarrow> bool" where
  "flt_less (Fin x) (Fin y) = (x < y)"
| "flt_less NaN b = False"
| "flt_less a NaN = False"
| "flt_less PInf b = False"
| "flt_less a NInf = False"
| "flt_less NInf b = True"
| "flt_less a PInf = True"

fun flt_eq :: "flt \<Rightarrow> flt \<Rightarrow> bool" where
  "flt_eq NaN b = False"
| "flt_eq a b = (a = b)"

definition flt_le :: "flt \<Rightarrow> flt \<Rightarrow> bool" where
  "flt_le a b \<longleftrightarrow> flt_less a b \<or> flt_eq a b"

definition flt_finite :: "flt \<Rightarrow> bool" where
  "flt_finite a = (case a of Fin _ \<Rightarrow> True | _ \<Rightarrow> False)"

text \<open>\<open>max(0.0, x)\<close>: the first argument unless the second is greater.\<close>

definition fmax0 :: "flt \<Rightarrow> flt" where
  "fmax0 a = (if flt_less (Fin 0) a then a else Fin 0)"

fun fmul :: "flt \<Rightarrow> flt \<Rightarrow> flt" where
  "fmul (Fin x) (Fin y) = rnd (x * y)"
| "fmul NaN b = NaN"
| "fmul a NaN = NaN"
| "fmul (Fin x) PInf = (if x = 0 then NaN else if 0 < x then PInf else NInf)"
| "fmul (Fin x) NInf = (if x = 0 then NaN else if 0 < x then NInf else PInf)"
| "fmul PInf (Fin x) = (if x = 0 then NaN else if 0 < x then PInf else NInf)"
| "fmul NInf (Fin x) = (if x = 0 then NaN else if 0 < x then NInf else PInf)"
| "fmul PInf PInf = PInf"
| "fmul NInf NInf = PInf"
| "fmul PInf NInf = NInf"
| "fmul NInf PInf = NInf"

definition fabs :: "flt \<Rightarrow> flt" where
  "fabs x = (case x of Fin r \<Rightarrow> Fin \<bar>r\<bar> | NInf \<Rightarrow> PInf | _ \<Rightarrow> x)"

definition fmin :: "flt \<Rightarrow> flt \<Rightarrow> flt" where
  "fmin a b = (if flt_less b a then b else a)"

text \<open>The division of floats; the divisor is not zero.\<close>

fun fdiv :: "flt \<Rightarrow> flt \<Rightarrow> flt" where
  "fdiv (Fin x) (Fin y) = rnd (x / y)"
| "fdiv NaN b = NaN"
| "fdiv a NaN = NaN"
| "fdiv PInf (Fin y) = (if y < 0 then NInf else PInf)"
| "fdiv NInf (Fin y) = (if y < 0 then PInf else NInf)"
| "fdiv (Fin x) b = Fin 0"
| "fdiv a b = NaN"

text \<open>\<open>float(i)\<close> of an integer; \<open>None\<close> is the OverflowError of one too large.\<close>

definition float_of_int :: "int \<Rightarrow> flt option" where
  "float_of_int i = (case rnd (of_int i) of Fin x \<Rightarrow> Some (Fin x) | _ \<Rightarrow> None)"

section \<open>Rounding is exact on the integers up to two to the 53\<close>

lemma flt_finite_simps [simp]:
  "flt_finite (Fin x)" "\<not> flt_finite PInf" "\<not> flt_finite NInf" "\<not> flt_finite NaN"
  by (simp_all add: flt_finite_def)

lemma pow2_pos [simp]: "0 < pow2 e"
  by (simp add: pow2_def)

lemma pow2_nonzero [simp]: "pow2 e \<noteq> 0"
  using pow2_pos [of e] by (simp del: pow2_pos)

lemma round_half_even_of_int [simp]: "round_half_even (of_int i) = i"
  by (simp add: round_half_even_def)

lemma ilog2_of_pos_int:
  assumes "0 < i"
  shows "ilog2 (of_int i) = int (floorlog 2 (nat i)) - 1"
proof -
  let ?k = "floorlog 2 (nat i)"
  have k: "0 < ?k" and le: "2 ^ (?k - 1) \<le> nat i"
    using assms floorlog_bounds [of "nat i" 2] by (auto simp: floorlog_def)
  have one: "floorlog 2 (Suc 0) = 1" by (simp add: floorlog_def)
  have "(2::int) ^ (?k - 1) \<le> i"
    using le assms by (metis nat_numeral nat_power_eq of_nat_le_iff int_nat_eq order_less_imp_le of_nat_numeral of_nat_power)
  then have "(2::rat) ^ (?k - 1) \<le> of_int i"
    by (metis of_int_le_iff of_int_numeral of_int_power)
  moreover have "pow2 (int ?k - 1) = 2 ^ (?k - 1)"
    using k by (simp add: pow2_def nat_diff_distrib')
  ultimately show ?thesis
    by (simp add: ilog2_def one)
qed

lemma rnd_of_int:
  assumes "\<bar>i\<bar> \<le> 2 ^ 53"
  shows "rnd (of_int i) = Fin (of_int i)"
proof (cases "i = 0")
  case False
  let ?k = "floorlog 2 (nat \<bar>i\<bar>)"
  have kpos: "0 < ?k" and kle: "2 ^ (?k - 1) \<le> nat \<bar>i\<bar>"
    using False floorlog_bounds [of "nat \<bar>i\<bar>" 2] by (auto simp: floorlog_def)
  have "nat \<bar>i\<bar> \<le> 2 ^ 53" using assms by (simp add: nat_le_iff)
  with kle have "(2::nat) ^ (?k - 1) \<le> 2 ^ 53" by linarith
  then have k54: "?k \<le> 54" by (simp only: power_increasing_iff [of 2] one_less_numeral_iff semiring_norm)
  have e: "ilog2 \<bar>of_int i\<bar> = int ?k - 1"
    using ilog2_of_pos_int [of "\<bar>i\<bar>"] False by simp
  have m: "max (ilog2 \<bar>of_int i\<bar> - 52) (- 1074) = int ?k - 53"
    using e by simp
  let ?u = "pow2 (int ?k - 53)"
  have "\<exists>j. of_int i / ?u = (of_int j :: rat)"
  proof (cases "?k \<le> 53")
    case True
    then have "of_int i / ?u = (of_int (i * 2 ^ (53 - ?k)) :: rat)"
      by (cases "?k = 53") (simp_all add: pow2_def nat_diff_distrib')
    then show ?thesis by blast
  next
    case False
    then have k: "?k = 54" using k54 by simp
    then have "2 ^ 53 \<le> nat \<bar>i\<bar>" using kle by simp
    then have "\<bar>i\<bar> = 2 ^ 53" using assms by (simp add: le_nat_iff)
    then have "i = 2 ^ 53 \<or> i = - (2 ^ 53)" by linarith
    then have "of_int i / ?u = (of_int (2 ^ 52) :: rat) \<or> of_int i / ?u = (of_int (- (2 ^ 52)) :: rat)"
      using k by (auto simp: pow2_def)
    then show ?thesis by blast
  qed
  then obtain j where j: "of_int i / ?u = (of_int j :: rat)" by blast
  have r: "of_int (round_half_even (of_int i / ?u)) * ?u = (of_int i :: rat)"
    by (simp add: j) (simp add: j [symmetric])
  have "(2::int) ^ 53 < 2 ^ 1024" by simp
  with assms have "i < 2 ^ 1024" "- (2 ^ 1024) < i" by linarith+
  then have "(of_int i :: rat) < of_int (2 ^ 1024)" "(of_int (- (2 ^ 1024)) :: rat) < of_int i"
    by (simp_all only: of_int_less_iff)
  then have "\<not> pow2 1024 \<le> (of_int i :: rat)" "\<not> of_int i \<le> - pow2 1024"
    by (simp_all add: pow2_def)
  with False r show ?thesis
    by (simp add: rnd_def m Let_def)
qed (simp add: rnd_def)

corollary fadd_of_int:
  "\<bar>a + b\<bar> \<le> 2 ^ 53 \<Longrightarrow> fadd (Fin (of_int a)) (Fin (of_int b)) = Fin (of_int (a + b))"
  using rnd_of_int [of "a + b"] by simp

corollary fsub_of_int:
  "\<bar>a - b\<bar> \<le> 2 ^ 53 \<Longrightarrow> fsub (Fin (of_int a)) (Fin (of_int b)) = Fin (of_int (a - b))"
  using rnd_of_int [of "a - b"] by (simp add: fsub_def fneg_def)

lemma float_of_int_exact: "\<bar>i\<bar> \<le> 2 ^ 53 \<Longrightarrow> float_of_int i = Some (Fin (of_int i))"
  by (simp add: float_of_int_def rnd_of_int)

section \<open>Signs survive rounding\<close>

lemma round_half_even_nonneg: "0 \<le> x \<Longrightarrow> 0 \<le> round_half_even x"
  by (simp add: round_half_even_def Let_def)

lemma rnd_nonneg: "0 \<le> x \<Longrightarrow> rnd x = PInf \<or> (\<exists>y. 0 \<le> y \<and> rnd x = Fin y)"
proof -
  assume x: "0 \<le> x"
  let ?u = "pow2 (max (ilog2 \<bar>x\<bar> - 52) (- 1074))"
  have u: "0 < ?u" by simp
  with x have "0 \<le> x / ?u" by (intro divide_nonneg_pos)
  then have "0 \<le> round_half_even (x / ?u)" by (rule round_half_even_nonneg)
  then have r: "0 \<le> of_int (round_half_even (x / ?u)) * ?u"
    using u by (intro mult_nonneg_nonneg) (simp_all only: of_int_0_le_iff less_imp_le)
  moreover have "- pow2 1024 < 0" by simp
  ultimately have "\<not> of_int (round_half_even (x / ?u)) * ?u \<le> - pow2 1024" by linarith
  with r show ?thesis by (simp add: rnd_def Let_def)
qed

text \<open>Powers of two are exact, and overflow from the one out of the range on.\<close>

lemma rnd_pow2:
  assumes "52 \<le> n"
  shows "rnd (2 ^ n) = (if 1024 \<le> n then PInf else Fin (2 ^ n))"
proof -
  have "floorlog 2 (2 ^ n :: nat) = Suc n"
    using floorlog_power [of 1 2 n] by (simp add: floorlog_def)
  moreover have "nat (2 ^ n) = 2 ^ n" by (simp add: nat_power_eq)
  moreover have "ilog2 (2 ^ n) = int (floorlog 2 (nat (2 ^ n))) - 1"
    using ilog2_of_pos_int [of "2 ^ n"] by simp
  ultimately have l: "ilog2 (2 ^ n) = int n" by (simp only:)
  have u: "pow2 (max (int n - 52) (- 1074)) = 2 ^ (n - 52)"
    using assms by (simp add: pow2_def nat_diff_distrib')
  have "2 ^ n = (2::rat) ^ 52 * 2 ^ (n - 52)"
    using assms by (simp only: power_add [symmetric]) simp
  then have q: "(2::rat) ^ n / 2 ^ (n - 52) = of_int (2 ^ 52)" and r: "of_int (2 ^ 52) * 2 ^ (n - 52) = (2::rat) ^ n"
    by simp_all
  have p: "pow2 1024 \<le> (2::rat) ^ n \<longleftrightarrow> 1024 \<le> n" "\<not> (2::rat) ^ n \<le> - pow2 1024"
  proof -
    have "(2::rat) ^ 1024 \<le> 2 ^ n \<longleftrightarrow> 1024 \<le> n" by (rule power_increasing_iff) simp
    then show "pow2 1024 \<le> (2::rat) ^ n \<longleftrightarrow> 1024 \<le> n" by (simp only: pow2_def) simp
    have "0 < (2::rat) ^ n" "0 < pow2 1024" by simp_all
    then show "\<not> (2::rat) ^ n \<le> - pow2 1024" by linarith
  qed
  have a: "\<bar>(2::rat) ^ n\<bar> = 2 ^ n" "(2::rat) ^ n \<noteq> 0" by simp_all
  show ?thesis
    by (simp only: rnd_def Let_def a l u q round_half_even_of_int r p if_False)
qed

end
