(* ===== verification/PyTime.thy ===== *)
theory PyTime
  imports Prelude
begin

text \<open>
  Points in time and their text. A time is a number of microseconds since
  0001-01-01T00:00:00 UTC; \<open>isoformat\<close> writes it the way the components store every
  normalised timestamp. Stored texts are compared as strings by the code and by SQL: the last
  section shows that this comparison is the comparison of the times.
\<close>

section \<open>Calendar\<close>

definition leap_year :: "nat \<Rightarrow> bool" where
  "leap_year y \<longleftrightarrow> y mod 4 = 0 \<and> (y mod 100 \<noteq> 0 \<or> y mod 400 = 0)"

definition year_len :: "nat \<Rightarrow> nat" where
  "year_len y = (if leap_year y then 366 else 365)"

definition month_lens :: "nat \<Rightarrow> nat list" where
  "month_lens y = [31, if leap_year y then 29 else 28, 31, 30, 31, 30, 31, 31, 30, 31, 30, 31]"

function find_year :: "nat \<Rightarrow> nat \<Rightarrow> nat \<times> nat" where
  "find_year y n = (if n < year_len y then (y, n) else find_year (Suc y) (n - year_len y))"
  by pat_completeness auto
termination
  by (relation "measure snd") (auto simp: year_len_def)

declare find_year.simps [simp del]

fun find_month :: "nat \<Rightarrow> nat list \<Rightarrow> nat \<Rightarrow> nat \<times> nat" where
  "find_month m [] r = (m, r)"
| "find_month m (l # ls) r = (if r < l then (m, r) else find_month (Suc m) ls (r - l))"

text \<open>The date of a day number: year, month and day, the last two from 1.\<close>

definition civil :: "nat \<Rightarrow> nat \<times> nat \<times> nat" where
  "civil n = (let (y, r) = find_year 1 n; (m, d) = find_month 1 (month_lens y) r in (y, m, Suc d))"

section \<open>Text\<close>

definition digit :: "nat \<Rightarrow> char" where
  "digit n = char_of (48 + n)"

fun pad :: "nat \<Rightarrow> nat \<Rightarrow> string" where
  "pad 0 n = []"
| "pad (Suc k) n = pad k (n div 10) @ [digit (n mod 10)]"

definition date_text :: "nat \<Rightarrow> string" where
  "date_text n = (let (y, m, d) = civil n in pad 4 y @ ''-'' @ pad 2 m @ ''-'' @ pad 2 d)"

definition clock_text :: "nat \<Rightarrow> string" where
  "clock_text s = pad 2 (s div 3600) @ '':'' @ pad 2 (s div 60 mod 60) @ '':'' @ pad 2 (s mod 60)"

definition micro_text :: "nat \<Rightarrow> string" where
  "micro_text u = (if u = 0 then '''' else ''.'' @ pad 6 u) @ ''+00:00''"

definition isoformat :: "int \<Rightarrow> string" where
  "isoformat t = (let n = nat t in
     date_text (n div 86400000000) @ ''T'' @ clock_text (n div 1000000 mod 86400)
       @ micro_text (n mod 1000000))"

text \<open>The representable times: year 1 to year 9999.\<close>

definition max_time :: int where
  "max_time = 315537897600000000"

definition time_ok :: "int \<Rightarrow> bool" where
  "time_ok t \<longleftrightarrow> 0 \<le> t \<and> t < max_time"

section \<open>The text orders as the time does\<close>

lemma append_less_iff:
  "length xs = length ys \<Longrightarrow> xs @ us < ys @ vs \<longleftrightarrow> xs < ys \<or> xs = ys \<and> us < (vs :: 'a::linorder list)"
  by (induction xs ys rule: list_induct2) auto

lemma length_pad [simp]: "length (pad k n) = k"
  by (induction k arbitrary: n) auto

lemma digit_values [eval_simps]:
  "digit 0 = CHR ''0''" "digit (Suc 0) = CHR ''1''" "digit 1 = CHR ''1''" "digit 2 = CHR ''2''"
  "digit 3 = CHR ''3''" "digit 4 = CHR ''4''" "digit 5 = CHR ''5''" "digit 6 = CHR ''6''"
  "digit 7 = CHR ''7''" "digit 8 = CHR ''8''" "digit 9 = CHR ''9''"
  by code_simp+

lemma digit_less_iff: "a < 10 \<Longrightarrow> b < 10 \<Longrightarrow> digit a < digit b \<longleftrightarrow> a < b"
  by (simp add: digit_def less_char_def)

lemma digit_inj: "a < 10 \<Longrightarrow> b < 10 \<Longrightarrow> digit a = digit b \<longleftrightarrow> a = b"
  using digit_less_iff [of a b] digit_less_iff [of b a]
  by (cases a b rule: linorder_cases) auto

lemma div_mod_less_iff:
  fixes a b k :: nat
  assumes "0 < k"
  shows "a < b \<longleftrightarrow> a div k < b div k \<or> a div k = b div k \<and> a mod k < b mod k"
proof (cases "a div k" "b div k" rule: linorder_cases)
  case less
  then have "a < b" by (metis div_le_mono not_less)
  with less show ?thesis by simp
next
  case equal
  have "a = k * (b div k) + a mod k" "b = k * (b div k) + b mod k"
    using equal by (metis mult_div_mod_eq)+
  then have "a < b \<longleftrightarrow> a mod k < b mod k" by linarith
  with equal show ?thesis by simp
next
  case greater
  then have "b < a" by (metis div_le_mono not_less)
  with greater show ?thesis by simp
qed

lemma div_mod_eq_iff: "(a::nat) = b \<longleftrightarrow> a div k = b div k \<and> a mod k = b mod k"
  by (metis mult_div_mod_eq)

lemma pad_order:
  "a < 10 ^ k \<Longrightarrow> b < 10 ^ k \<Longrightarrow> (pad k a < pad k b \<longleftrightarrow> a < b) \<and> (pad k a = pad k b \<longleftrightarrow> a = b)"
proof (induction k arbitrary: a b)
  case (Suc k)
  then have b: "a div 10 < 10 ^ k" "b div 10 < 10 ^ k"
    by (auto simp: less_mult_imp_div_less mult.commute)
  note div_mod_less_iff [of 10 a b] div_mod_eq_iff [of a b 10]
  then show ?case
    using Suc.IH [OF b] by (auto simp: append_less_iff digit_less_iff digit_inj)
qed simp

lemmas pad_less_iff = pad_order [THEN conjunct1]
lemmas pad_eq_iff = pad_order [THEN conjunct2]

lemma find_year_ge: "y \<le> fst (find_year y n)"
proof (induction y n rule: find_year.induct)
  case (1 y n)
  then show ?case by (subst find_year.simps) auto
qed

lemma find_year_mono:
  "n < m \<Longrightarrow> fst (find_year y n) < fst (find_year y m)
     \<or> fst (find_year y n) = fst (find_year y m) \<and> snd (find_year y n) < snd (find_year y m)"
proof (induction y n arbitrary: m rule: find_year.induct)
  case (1 y n)
  consider "m < year_len y" | "n < year_len y" "\<not> m < year_len y" | "\<not> n < year_len y"
    using "1.prems" by linarith
  then show ?case
  proof cases
    case 1
    with "1.prems" show ?thesis by (simp add: find_year.simps)
  next
    case 2
    then show ?thesis
      using find_year_ge [of "Suc y" "m - year_len y"]
      by (simp add: find_year.simps [of y])
  next
    case 3
    with "1.prems" have "n - year_len y < m - year_len y" by linarith
    with 3 "1.IH" "1.prems" show ?thesis by (simp add: find_year.simps [of y])
  qed
qed

lemma find_year_rest: "snd (find_year y n) < year_len (fst (find_year y n))"
proof (induction y n rule: find_year.induct)
  case (1 y n)
  then show ?case by (subst (1 2) find_year.simps) auto
qed

lemma find_month_ge: "m \<le> fst (find_month m ls r)"
  by (induction m ls r rule: find_month.induct) auto

lemma find_month_mono:
  "r < s \<Longrightarrow> fst (find_month m ls r) < fst (find_month m ls s)
     \<or> fst (find_month m ls r) = fst (find_month m ls s) \<and> snd (find_month m ls r) < snd (find_month m ls s)"
proof (induction m ls r arbitrary: s rule: find_month.induct)
  case (2 m l ls r)
  show ?case
  proof (cases "r < l")
    case True
    then show ?thesis
      using "2.prems" find_month_ge [of "Suc m" ls "s - l"] by auto
  next
    case False
    with "2.prems" have "r - l < s - l" by linarith
    from "2.IH" [OF False this] False "2.prems" show ?thesis by auto
  qed
qed simp

lemma find_month_bounds:
  "r < sum_list ls \<Longrightarrow> \<forall>l \<in> set ls. l \<le> b \<Longrightarrow>
     fst (find_month m ls r) < m + length ls \<and> snd (find_month m ls r) < b"
  by (induction m ls r rule: find_month.induct) auto

lemma civil_mono:
  assumes "n < m" and "civil n = (y, mo, d)" and "civil m = (y', mo', d')"
  shows "y < y' \<or> y = y' \<and> (mo < mo' \<or> mo = mo' \<and> d < d')"
proof -
  obtain r where r: "find_year 1 n = (y, r)"
    using assms(2) by (cases "find_year 1 n") (auto simp: civil_def Let_def split: prod.splits)
  obtain r' where r': "find_year 1 m = (y', r')"
    using assms(3) by (cases "find_year 1 m") (auto simp: civil_def Let_def split: prod.splits)
  show ?thesis
    using find_year_mono [OF assms(1), of 1] find_month_mono [of r r' 1 "month_lens y"] assms(2,3) r r'
    by (auto simp: civil_def Let_def split: prod.splits)
qed

lemma civil_bounds:
  assumes "civil n = (y, m, d)"
  shows "m \<le> 12 \<and> d \<le> 31"
proof -
  obtain r where r: "find_year 1 n = (y, r)"
    using assms by (cases "find_year 1 n") (auto simp: civil_def Let_def split: prod.splits)
  with find_year_rest [of 1 n] have "r < sum_list (month_lens y)"
    by (auto simp: year_len_def month_lens_def split: if_splits)
  moreover have "\<forall>l \<in> set (month_lens y). l \<le> 31" by (simp add: month_lens_def)
  ultimately have "fst (find_month 1 (month_lens y) r) < 1 + length (month_lens y)
      \<and> snd (find_month 1 (month_lens y) r) < 31"
    by (rule find_month_bounds)
  with assms r show ?thesis
    by (auto simp: civil_def month_lens_def split: prod.splits simp del: find_month.simps)
qed

text \<open>Years stay below 10000, so four digits are enough.\<close>

definition days_before :: "nat \<Rightarrow> nat" where
  "days_before y = 365 * y + y div 4 + y div 400 - y div 100"

lemma days_before_Suc: "days_before (Suc y) = days_before y + year_len (Suc y)"
proof -
  have "y div 100 \<le> y div 4" "Suc y div 100 \<le> Suc y div 4"
    by (simp_all add: div_le_mono2)
  moreover have "Suc y mod 400 = 0 \<Longrightarrow> Suc y mod 100 = 0" "Suc y mod 100 = 0 \<Longrightarrow> Suc y mod 4 = 0"
    by (auto simp: mod_eq_0_iff_dvd elim: dvd_trans [rotated])
  ultimately show ?thesis
    by (auto simp: days_before_def year_len_def leap_year_def div_Suc; simp only: add_ac)
qed

lemma days_before_mono: "y \<le> z \<Longrightarrow> days_before y \<le> days_before z"
  by (rule lift_Suc_mono_le [of days_before]) (simp_all add: days_before_Suc)

lemma find_year_total:
  "0 < z \<Longrightarrow> days_before (z - 1) + n = days_before (fst (find_year z n) - 1) + snd (find_year z n)"
proof (induction z n rule: find_year.induct)
  case (1 z n)
  show ?case
  proof (cases "n < year_len z")
    case False
    then have "days_before z + (n - year_len z) = days_before (z - 1) + n"
      using days_before_Suc [of "z - 1"] "1.prems" by simp
    with False "1.IH" show ?thesis by (simp add: find_year.simps [of z n])
  qed (simp add: find_year.simps)
qed

lemma civil_year_bound:
  assumes "n < 3652059" and "civil n = (y, m, d)"
  shows "y < 10000"
proof (rule ccontr)
  assume a: "\<not> y < 10000"
  obtain r where r: "find_year 1 n = (y, r)"
    using assms(2) by (cases "find_year 1 n") (auto simp: civil_def Let_def split: prod.splits)
  have "days_before 0 + n = days_before (y - 1) + r"
    using find_year_total [of 1 n] r by simp
  moreover have "days_before 9999 \<le> days_before (y - 1)"
    using a by (intro days_before_mono) linarith
  moreover have "days_before 0 = 0" "days_before 9999 = 3652059"
    by (simp_all add: days_before_def)
  ultimately show False using assms(1) by linarith
qed

lemma date_text_mono:
  assumes "n < m" and "m < 3652059"
  shows "date_text n < date_text m"
proof -
  obtain y mo d y' mo' d' where c: "civil n = (y, mo, d)" "civil m = (y', mo', d')"
    by (cases "civil n", cases "civil m") auto
  have b: "mo \<le> 12" "mo' \<le> 12" "d \<le> 31" "d' \<le> 31" "y < 10000" "y' < 10000"
    using civil_bounds [OF c(1)] civil_bounds [OF c(2)] civil_year_bound [OF _ c(1)]
      civil_year_bound [OF _ c(2)] assms by auto
  from civil_mono [OF assms(1) c] b show ?thesis
    by (auto simp: date_text_def c append_less_iff pad_less_iff pad_eq_iff)
qed

lemma clock_text_mono:
  assumes "n < m" and "m < 86400"
  shows "clock_text n < clock_text m"
proof -
  have b: "n div 3600 < 100" "m div 3600 < 100"
    using assms by (auto simp: less_mult_imp_div_less)
  have "n div 3600 = n div 60 div 60" "m div 3600 = m div 60 div 60"
    by (simp_all flip: div_mult2_eq)
  with assms(1) have "n div 3600 < m div 3600 \<or> n div 3600 = m div 3600 \<and>
      (n div 60 mod 60 < m div 60 mod 60 \<or> n div 60 mod 60 = m div 60 mod 60 \<and> n mod 60 < m mod 60)"
    using div_mod_less_iff [of 60 n m] div_mod_less_iff [of 60 "n div 60" "m div 60"]
      div_mod_eq_iff [of "n div 60" "m div 60" 60] by auto
  moreover have "x mod 60 < 100" for x :: nat
    by (rule less_trans [of _ 60]) simp_all
  ultimately show ?thesis
    using b by (auto simp: clock_text_def append_less_iff pad_less_iff pad_eq_iff)
qed

lemma micro_text_mono: "n < m \<Longrightarrow> m < 1000000 \<Longrightarrow> micro_text n < micro_text m"
  by (auto simp: micro_text_def append_less_iff pad_less_iff less_char_def)

text \<open>A strictly monotone function into a linear order reflects the order.\<close>

lemma mono_reflects:
  fixes f :: "nat \<Rightarrow> 'a::linorder"
  assumes "\<And>n m. n < m \<Longrightarrow> m < b \<Longrightarrow> f n < f m" and "n < b" and "m < b"
  shows "(f n < f m \<longleftrightarrow> n < m) \<and> (f n = f m \<longleftrightarrow> n = m)"
  using assms(1) [of n m] assms(1) [of m n] assms(2,3)
  by (cases n m rule: linorder_cases) auto

lemma length_date_text: "length (date_text n) = 10"
  by (simp add: date_text_def split: prod.splits)

lemma length_clock_text: "length (clock_text n) = 8"
  by (simp add: clock_text_def)

theorem isoformat_less_iff:
  assumes "time_ok s" and "time_ok t"
  shows "isoformat s < isoformat t \<longleftrightarrow> s < t"
proof -
  let ?n = "nat s" and ?m = "nat t"
  have d: "?n div 86400000000 < 3652059" "?m div 86400000000 < 3652059"
    using assms by (auto simp: time_ok_def max_time_def less_mult_imp_div_less)
  have e: "k div 86400000000 = k div 1000000 div 86400" for k :: nat
    by (simp flip: div_mult2_eq)
  note D = mono_reflects [of 3652059 date_text, OF date_text_mono d]
  note C = mono_reflects [of 86400 clock_text, OF clock_text_mono,
      of "?n div 1000000 mod 86400" "?m div 1000000 mod 86400"]
  note U = mono_reflects [of 1000000 micro_text, OF micro_text_mono,
      of "?n mod 1000000" "?m mod 1000000"]
  have "isoformat s < isoformat t \<longleftrightarrow> ?n < ?m"
    using D C U div_mod_less_iff [of 1000000 ?n ?m] div_mod_eq_iff [of "?n div 1000000" "?m div 1000000" 86400]
      div_mod_less_iff [of 86400 "?n div 1000000" "?m div 1000000"]
    by (auto simp: isoformat_def Let_def append_less_iff length_date_text length_clock_text e)
  also have "\<dots> \<longleftrightarrow> s < t" using assms by (auto simp: time_ok_def)
  finally show ?thesis .
qed

corollary isoformat_inject: "time_ok s \<Longrightarrow> time_ok t \<Longrightarrow> isoformat s = isoformat t \<longleftrightarrow> s = t"
  by (metis isoformat_less_iff less_irrefl linorder_less_linear)

corollary isoformat_le_iff: "time_ok s \<Longrightarrow> time_ok t \<Longrightarrow> isoformat s \<le> isoformat t \<longleftrightarrow> s \<le> t"
  by (metis isoformat_less_iff not_less)

section \<open>What reading a timestamp gives\<close>

text \<open>
  The outcome of \<open>datetime.fromisoformat\<close> followed by \<open>astimezone(UTC)\<close> on a text: not a
  timestamp, a timestamp with no zone, one whose UTC value is not representable, or a time.
\<close>

datatype ts_parse = TsBad | TsNaive | TsOverflow | TsAware int

text \<open>\<open>str.replace("Z", "+00:00")\<close>, applied before parsing.\<close>

definition zulu :: "string \<Rightarrow> string" where
  "zulu s = concat (map (\<lambda>c. if c = CHR ''Z'' then ''+00:00'' else [c]) s)"

end
