(* ===== verification/Json.thy ===== *)
theory Json
  imports Prelude PyFloat PyTime
begin

text \<open>
  JSON values as the components hold them, their canonical text and their hashes
  (\<open>src/src/edon/common/hashing.py\<close>), and the parts of the language's run-time library whose
  results the code uses as opaque values: these are the fields of \<open>pyenv\<close>, a parameter of every
  definition that needs one.
\<close>

section \<open>Values\<close>

text \<open>An object holds its members with the keys sorted and once each.\<close>

datatype json =
    JNull
  | JBool bool
  | JInt int
  | JFloat flt
  | JStr string
  | JArr "json list"
  | JObj "(string \<times> json) list"

type_synonym obj = "(string, json) dict"

fun json_ok :: "json \<Rightarrow> bool" where
  "json_ok (JArr xs) = (\<forall>x \<in> set xs. json_ok x)"
| "json_ok (JObj ms) = (dict_ok ms \<and> (\<forall>p \<in> set ms. json_ok (snd p)))"
| "json_ok _ = True"

text \<open>What \<open>json.dumps(value, allow_nan=False)\<close> accepts: every float is finite.\<close>

fun json_finite :: "json \<Rightarrow> bool" where
  "json_finite (JFloat f) = flt_finite f"
| "json_finite (JArr xs) = (\<forall>x \<in> set xs. json_finite x)"
| "json_finite (JObj ms) = (\<forall>p \<in> set ms. json_finite (snd p))"
| "json_finite _ = True"

abbreviation obj_finite :: "obj \<Rightarrow> bool" where
  "obj_finite o' \<equiv> json_finite (JObj o')"

abbreviation obj_ok :: "obj \<Rightarrow> bool" where
  "obj_ok o' \<equiv> json_ok (JObj o')"

text \<open>
  The language's \<open>==\<close> on JSON values: booleans, integers and floats compare by number,
  everything else by structure.
\<close>

definition jnum :: "json \<Rightarrow> flt option" where
  "jnum j = (case j of JBool b \<Rightarrow> Some (Fin (if b then 1 else 0)) | JInt i \<Rightarrow> Some (Fin (of_int i))
     | JFloat f \<Rightarrow> Some f | _ \<Rightarrow> None)"

definition jnum_eq :: "json \<Rightarrow> json \<Rightarrow> bool" where
  "jnum_eq a b = (case (jnum a, jnum b) of (Some x, Some y) \<Rightarrow> flt_eq x y | _ \<Rightarrow> False)"

fun jeq :: "json \<Rightarrow> json \<Rightarrow> bool"
and jeqs :: "json list \<Rightarrow> json list \<Rightarrow> bool"
and jeqm :: "(string \<times> json) list \<Rightarrow> (string \<times> json) list \<Rightarrow> bool" where
  "jeq JNull b = (b = JNull)"
| "jeq (JStr s) b = (b = JStr s)"
| "jeq (JArr xs) b = (case b of JArr ys \<Rightarrow> jeqs xs ys | _ \<Rightarrow> False)"
| "jeq (JObj xs) b = (case b of JObj ys \<Rightarrow> jeqm xs ys | _ \<Rightarrow> False)"
| "jeq (JBool x) b = jnum_eq (JBool x) b"
| "jeq (JInt x) b = jnum_eq (JInt x) b"
| "jeq (JFloat x) b = jnum_eq (JFloat x) b"
| "jeqs [] ys = (ys = [])"
| "jeqs (x # xs) ys = (case ys of [] \<Rightarrow> False | y # ys' \<Rightarrow> jeq x y \<and> jeqs xs ys')"
| "jeqm [] ys = (ys = [])"
| "jeqm ((k, x) # xs) ys = (case ys of [] \<Rightarrow> False | (l, y) # ys' \<Rightarrow> k = l \<and> jeq x y \<and> jeqm xs ys')"

text \<open>Membership in a list, \<open>value in xs\<close>, and \<open>xs.remove(value)\<close>.\<close>

definition jmem :: "json \<Rightarrow> json list \<Rightarrow> bool" where
  "jmem v xs = list_ex (\<lambda>x. jeq x v) xs"

fun jremove1 :: "json \<Rightarrow> json list \<Rightarrow> json list" where
  "jremove1 v [] = []"
| "jremove1 v (x # xs) = (if jeq x v then xs else x # jremove1 v xs)"

lemma flt_eq_refl: "flt_finite f \<Longrightarrow> flt_eq f f"
  by (cases f) auto

lemma jeqs_refl: "(\<And>x. x \<in> set xs \<Longrightarrow> jeq x x) \<Longrightarrow> jeqs xs xs"
  by (induction xs) auto

lemma jeqm_refl: "(\<And>p. p \<in> set ms \<Longrightarrow> jeq (snd p) (snd p)) \<Longrightarrow> jeqm ms ms"
  by (induction ms) force+

lemma jeq_refl: "json_finite j \<Longrightarrow> jeq j j"
proof (induction j)
  case (JArr xs)
  then show ?case by (auto intro: jeqs_refl)
next
  case (JObj ms)
  then show ?case by (auto intro!: jeqm_refl)
qed (auto simp: jnum_eq_def jnum_def flt_eq_refl)

section \<open>Truth, text and keys\<close>

text \<open>Truth of a value in a condition.\<close>

definition truthy :: "json \<Rightarrow> bool" where
  "truthy j = (case j of JNull \<Rightarrow> False | JBool b \<Rightarrow> b | JInt i \<Rightarrow> i \<noteq> 0
     | JFloat f \<Rightarrow> \<not> flt_eq f (Fin 0) | JStr s \<Rightarrow> s \<noteq> [] | JArr xs \<Rightarrow> xs \<noteq> [] | JObj ms \<Rightarrow> ms \<noteq> [])"

text \<open>
  The run-time library as a parameter. \<open>sha256_hex\<close> is the hexadecimal SHA-256 digest of the
  UTF-8 encoding of a text; \<open>float_text\<close> is \<open>repr\<close> of a float; \<open>container_text\<close> is \<open>str\<close> of a
  list or dictionary; \<open>iso_parse\<close> reads a timestamp.
\<close>

record pyenv =
  sha256_hex :: "string \<Rightarrow> string"
  float_text :: "flt \<Rightarrow> string"
  container_text :: "json \<Rightarrow> string"
  iso_parse :: "string \<Rightarrow> ts_parse"

fun nat_digits :: "nat \<Rightarrow> string" where
  "nat_digits n = (if n < 10 then [digit n] else nat_digits (n div 10) @ [digit (n mod 10)])"

declare nat_digits.simps [simp del]

definition int_text :: "int \<Rightarrow> string" where
  "int_text i = (if i < 0 then ''-'' @ nat_digits (nat (- i)) else nat_digits (nat i))"

definition py_str :: "pyenv \<Rightarrow> json \<Rightarrow> string" where
  "py_str E j = (case j of JStr s \<Rightarrow> s | JInt i \<Rightarrow> int_text i
     | JBool b \<Rightarrow> (if b then ''True'' else ''False'') | JNull \<Rightarrow> ''None''
     | JFloat f \<Rightarrow> float_text E f | _ \<Rightarrow> container_text E j)"

section \<open>Canonical text and hashes\<close>

definition hex_digit :: "nat \<Rightarrow> char" where
  "hex_digit n = (if n < 10 then char_of (48 + n) else char_of (87 + n))"

definition escape_char :: "char \<Rightarrow> string" where
  "escape_char c = (let n = of_char c :: nat in
     if n = 34 then [char_of (92::nat), c]
     else if n = 92 then [c, c]
     else if n = 8 then [char_of (92::nat), CHR ''b'']
     else if n = 9 then [char_of (92::nat), CHR ''t'']
     else if n = 10 then [char_of (92::nat), CHR ''n'']
     else if n = 12 then [char_of (92::nat), CHR ''f'']
     else if n = 13 then [char_of (92::nat), CHR ''r'']
     else if n < 32 then char_of (92::nat) # ''u00'' @ [hex_digit (n div 16), hex_digit (n mod 16)]
     else [c])"

definition quote :: "string \<Rightarrow> string" where
  "quote s = [CHR 0x22] @ concat (map escape_char s) @ [CHR 0x22]"

fun join :: "string \<Rightarrow> string list \<Rightarrow> string" where
  "join sep [] = []"
| "join sep [x] = x"
| "join sep (x # xs) = x @ sep @ join sep xs"

fun canonical_json :: "pyenv \<Rightarrow> json \<Rightarrow> string" where
  "canonical_json E JNull = ''null''"
| "canonical_json E (JBool b) = (if b then ''true'' else ''false'')"
| "canonical_json E (JInt i) = int_text i"
| "canonical_json E (JFloat f) = (case f of Fin _ \<Rightarrow> float_text E f
     | PInf \<Rightarrow> ''Infinity'' | NInf \<Rightarrow> ''-Infinity'' | NaN \<Rightarrow> ''NaN'')"
| "canonical_json E (JStr s) = quote s"
| "canonical_json E (JArr xs) = ''['' @ join '','' (map (canonical_json E) xs) @ '']''"
| "canonical_json E (JObj ms) =
     ''{'' @ join '','' (map (\<lambda>p. quote (fst p) @ '':'' @ canonical_json E (snd p)) ms) @ ''}''"

definition sha256_text :: "pyenv \<Rightarrow> string \<Rightarrow> string" where
  "sha256_text E s = ''sha256:'' @ sha256_hex E s"

definition sha256_json :: "pyenv \<Rightarrow> json \<Rightarrow> string" where
  "sha256_json E j = sha256_text E (canonical_json E j)"

text \<open>Shorthands for building objects: the members are sorted as they are put in.\<close>

definition mk_obj :: "(string \<times> json) list \<Rightarrow> json" where
  "mk_obj ps = JObj (dict_of ps)"

definition jstrs :: "string list \<Rightarrow> json" where
  "jstrs xs = JArr (map JStr xs)"

definition opt_str :: "string option \<Rightarrow> json" where
  "opt_str s = (case s of None \<Rightarrow> JNull | Some t \<Rightarrow> JStr t)"

text \<open>\<open>text.split(":", 1)[-1]\<close>: what follows the first colon, or the whole text.\<close>

definition after_colon :: "string \<Rightarrow> string" where
  "after_colon s = (case dropWhile (\<lambda>c. c \<noteq> CHR '':'') s of [] \<Rightarrow> s | _ # t \<Rightarrow> t)"

section \<open>Timestamps of requests\<close>

text \<open>\<open>timestamp or _now()\<close>: a missing or empty argument is replaced by the clock.\<close>

definition or_now :: "string option \<Rightarrow> string \<Rightarrow> string" where
  "or_now ts now = (case ts of None \<Rightarrow> now | Some s \<Rightarrow> if s = [] then now else s)"

text \<open>A run-time library whose timestamp reader gives representable times and reads back what
  \<open>isoformat\<close> writes.\<close>

definition iso_lawful :: "pyenv \<Rightarrow> bool" where
  "iso_lawful E \<longleftrightarrow> (\<forall>s t. iso_parse E s = TsAware t \<longrightarrow> time_ok t)
     \<and> (\<forall>t. time_ok t \<longrightarrow> iso_parse E (isoformat t) = TsAware t)"

section \<open>A library for examples\<close>

text \<open>
  For evaluating the definitions on examples: the digest of a text is the number of its colons,
  which can be computed from the value without writing its canonical text, and no timestamp is
  readable.
\<close>

definition colons :: "string \<Rightarrow> nat" where
  "colons s = length (filter (\<lambda>c. c = CHR '':'') s)"

definition demo_env :: pyenv where
  "demo_env = \<lparr>sha256_hex = (\<lambda>s. nat_digits (colons s)), float_text = (\<lambda>_. ''0.0''),
     container_text = (\<lambda>_. []), iso_parse = (\<lambda>_. TsBad)\<rparr>"

fun json_colons :: "json \<Rightarrow> nat" where
  "json_colons (JStr s) = colons s"
| "json_colons (JArr xs) = sum_list (map json_colons xs)"
| "json_colons (JObj ms) = sum_list (map (\<lambda>p. Suc (colons (fst p) + json_colons (snd p))) ms)"
| "json_colons _ = 0"

lemma colons_simps [simp]:
  "colons [] = 0" "colons (c # s) = (if c = CHR '':'' then 1 else 0) + colons s"
  "colons (s @ t) = colons s + colons t"
  by (simp_all add: colons_def)

lemma colons_join: "colons sep = 0 \<Longrightarrow> colons (join sep xs) = sum_list (map colons xs)"
  by (induction sep xs rule: join.induct) simp_all

lemma colons_digits [simp]: "colons (nat_digits n) = 0"
proof (induction n rule: nat_digits.induct)
  case (1 n)
  have d: "digit m \<noteq> CHR '':''" if "m < 10" for m
  proof
    assume "digit m = CHR '':''"
    then have "of_char (digit m) = (of_char CHR '':'' :: nat)" by simp
    with that show False by (simp add: digit_def)
  qed
  show ?case
    using 1 by (subst nat_digits.simps) (auto simp: d)
qed

lemma colons_escape [simp]: "colons (escape_char c) = colons [c]"
proof (cases c)
  case (Char b0 b1 b2 b3 b4 b5 b6 b7)
  show ?thesis
    unfolding Char
    by (cases b0; cases b1; cases b2; cases b3; cases b4; cases b5; cases b6; cases b7)
      (simp_all add: escape_char_def hex_digit_def char_of_def bit_0)
qed

lemma colons_quote [simp]: "colons (quote s) = colons s"
proof -
  have "colons (concat (map escape_char s)) = colons s"
    by (induction s) simp_all
  then show ?thesis by (simp add: quote_def)
qed

lemma colons_canonical: "colons (canonical_json demo_env j) = json_colons j"
proof (induction j)
  case (JFloat f)
  then show ?case by (cases f) (simp_all add: demo_env_def)
next
  case (JArr xs)
  then show ?case by (simp add: colons_join o_def cong: map_cong)
next
  case (JObj ms)
  then have "colons (canonical_json demo_env (snd p)) = json_colons (snd p)" if "p \<in> set ms" for p
    using that by (cases p) (auto simp: snds.simps)
  then show ?case by (simp add: colons_join o_def cong: map_cong)
qed (simp_all add: int_text_def)

lemma sha256_hex_demo [eval_simps]: "sha256_hex demo_env s = nat_digits (colons s)"
  by (simp add: demo_env_def)

lemma sha256_demo: "sha256_json demo_env j = ''sha256:'' @ nat_digits (json_colons j)"
  by (simp add: sha256_json_def sha256_text_def colons_canonical sha256_hex_demo)

text \<open>The members need not be sorted to count their colons, nor the value evaluated before.\<close>

lemma json_colons_put:
  "k \<notin> fst ` set d \<Longrightarrow> json_colons (JObj (dict_put k v d)) = Suc (colons k + json_colons v) + json_colons (JObj d)"
  by (induction d) auto

lemma json_colons_fold:
  "distinct (map fst ps) \<Longrightarrow> fst ` set ps \<inter> fst ` set d = {} \<Longrightarrow>
     json_colons (JObj (fold (\<lambda>(k, v). dict_put k v) ps d)) = json_colons (JObj ps) + json_colons (JObj d)"
proof (induction ps arbitrary: d)
  case (Cons p ps)
  obtain k v where p: "p = (k, v)" by force
  have "fst ` set ps \<inter> fst ` set (dict_put k v d) = {}"
    using Cons.prems p by auto
  then have "json_colons (JObj (fold (\<lambda>(k, v). dict_put k v) ps (dict_put k v d)))
      = json_colons (JObj ps) + json_colons (JObj (dict_put k v d))"
    using Cons.IH [of "dict_put k v d"] Cons.prems by simp
  then show ?case
    using Cons.prems p json_colons_put [of k d v] by simp
qed simp

lemma sha256_demo_obj [eval_simps]:
  "distinct (map fst ps) \<Longrightarrow> sha256_json demo_env (mk_obj ps) = ''sha256:'' @ nat_digits (json_colons (JObj ps))"
  by (simp add: sha256_demo mk_obj_def dict_of_def json_colons_fold [of ps "[]", simplified])

lemmas sha256_demo_values [eval_simps] = sha256_demo [of "JObj ms" for ms] sha256_demo [of "JStr s" for s] sha256_demo [of "JArr xs" for xs]

text \<open>The hashed value stays as it is written.\<close>

lemma sha256_json_cong: "E = E' \<Longrightarrow> sha256_json E j = sha256_json E' j"
  by simp

end
