(* ===== verification/World.thy ===== *)
theory World
  imports Json
begin

text \<open>
  The deterministic mutations of a world's JSON state
  (\<open>src/src/edon/world/store.py\<close>, the module-level functions): validation of a request's
  mutations into rows, and their application to a state.
\<close>

section \<open>Errors and checks\<close>

datatype world_error =
    BadIdentifier string
  | BadAuthorizationRef
  | NotJsonObject string
  | NotFiniteJson string
  | PathNotArray
  | PathEmpty
  | PathBadKey
  | RootHasNoParent
  | ParentMissing "string list"
  | MutationNotObject nat
  | UnsupportedOperation string
  | RootPathNotEmpty
  | ValueMissing string
  | ValueNotFinite
  | NoMutation
  | RootNotAlone
  | DeleteMissing "string list"
  | IncrementTarget "string list"
  | IncrementValue
  | FloatOverflow
  | ListTarget "string list"
  | IdentityBound
  | SnapshotMissing
  | WorldNotFound
  | VersionConflict int int
  | SnapshotNotFound
  | IntegrityError

definition world_identifier :: "string \<Rightarrow> string \<Rightarrow> world_error + string" where
  "world_identifier label s = ident_check 200 (BadIdentifier label) s"

definition authorization_ref_check :: "string \<Rightarrow> world_error + string" where
  "authorization_ref_check s = ident_check 8192 BadAuthorizationRef s"

definition json_object :: "string \<Rightarrow> json \<Rightarrow> world_error + obj" where
  "json_object label v = (case v of
     JObj m \<Rightarrow> require (obj_finite m) (NotFiniteJson label) (Inr m)
   | _ \<Rightarrow> Inl (NotJsonObject label))"

definition path_check :: "pyenv \<Rightarrow> bool \<Rightarrow> json \<Rightarrow> world_error + string list" where
  "path_check E allow_root v = (case v of
     JArr xs \<Rightarrow>
       (let parts = map (py_str E) xs in
        require (parts \<noteq> [] \<or> allow_root) PathEmpty
          (require (\<forall>p \<in> set parts. p \<noteq> [] \<and> length p \<le> 200) PathBadKey (Inr parts)))
   | _ \<Rightarrow> Inl PathNotArray)"

section \<open>Validated mutations\<close>

datatype mutation =
    SET "string list" json
  | DELETE "string list"
  | INCREMENT "string list" json
  | APPEND_UNIQUE "string list" json
  | REMOVE "string list" json
  | REPLACE_ROOT json

text \<open>The row a validated mutation is stored as, and hashed as.\<close>

definition mutation_row :: "string \<Rightarrow> string list \<Rightarrow> json option \<Rightarrow> json" where
  "mutation_row operation path v =
     mk_obj ([(''op'', JStr operation), (''path'', jstrs path)]
       @ (case v of None \<Rightarrow> [] | Some x \<Rightarrow> [(''value'', x)]))"

definition mutation_json :: "mutation \<Rightarrow> json" where
  "mutation_json m = (case m of
     SET p v \<Rightarrow> mutation_row ''SET'' p (Some v)
   | DELETE p \<Rightarrow> mutation_row ''DELETE'' p None
   | INCREMENT p v \<Rightarrow> mutation_row ''INCREMENT'' p (Some v)
   | APPEND_UNIQUE p v \<Rightarrow> mutation_row ''APPEND_UNIQUE'' p (Some v)
   | REMOVE p v \<Rightarrow> mutation_row ''REMOVE'' p (Some v)
   | REPLACE_ROOT v \<Rightarrow> mutation_row ''REPLACE_ROOT'' [] (Some v))"

abbreviation mutations_json :: "mutation list \<Rightarrow> json" where
  "mutations_json ms \<equiv> JArr (map mutation_json ms)"

definition supported_mutations :: "string list" where
  "supported_mutations =
     [''SET'', ''DELETE'', ''INCREMENT'', ''APPEND_UNIQUE'', ''REMOVE'', ''REPLACE_ROOT'']"

definition is_replace_root :: "mutation \<Rightarrow> bool" where
  "is_replace_root m = (case m of REPLACE_ROOT _ \<Rightarrow> True | _ \<Rightarrow> False)"

definition make_mutation :: "string \<Rightarrow> string list \<Rightarrow> json \<Rightarrow> mutation" where
  "make_mutation operation path v =
     (if operation = ''SET'' then SET path v
      else if operation = ''DELETE'' then DELETE path
      else if operation = ''INCREMENT'' then INCREMENT path v
      else if operation = ''APPEND_UNIQUE'' then APPEND_UNIQUE path v
      else if operation = ''REMOVE'' then REMOVE path v
      else REPLACE_ROOT v)"

text \<open>One mutation of a request, the \<open>index\<close>-th: the body of the loop of \<open>normalize_mutations\<close>.\<close>

definition normalize_mutation :: "pyenv \<Rightarrow> nat \<Rightarrow> json \<Rightarrow> world_error + mutation" where
  "normalize_mutation E index raw = (case raw of
     JObj m \<Rightarrow>
       (let operation = py_upper (case dict_get m ''op'' of None \<Rightarrow> [] | Some v \<Rightarrow> py_str E v) in
        require (operation \<in> set supported_mutations) (UnsupportedOperation operation)
          (rbind (path_check E (operation = ''REPLACE_ROOT'')
                   (case dict_get m ''path'' of None \<Rightarrow> JArr [] | Some v \<Rightarrow> v))
            (\<lambda>path.
              require (operation \<noteq> ''REPLACE_ROOT'' \<or> path = []) RootPathNotEmpty
                (if operation = ''DELETE'' then Inr (DELETE path)
                 else (case dict_get m ''value'' of
                     None \<Rightarrow> Inl (ValueMissing operation)
                   | Some v \<Rightarrow> require (json_finite v) ValueNotFinite
                                 (Inr (make_mutation operation path v)))))))
   | _ \<Rightarrow> Inl (MutationNotObject index))"

definition normalize_mutations :: "pyenv \<Rightarrow> json list \<Rightarrow> world_error + mutation list" where
  "normalize_mutations E raws =
     rbind (traverse (\<lambda>(index, raw). normalize_mutation E index raw) (List.enumerate 0 raws))
       (\<lambda>normalized.
         require (normalized \<noteq> []) NoMutation
           (require (\<not> list_ex is_replace_root normalized \<or> length normalized = 1) RootNotAlone
             (Inr normalized)))"

section \<open>Applying mutations\<close>

text \<open>
  Run an update on the object that holds the last key of a path: \<open>_parent\<close> walks to it, and
  the walk fails where a member is missing or not an object. \<open>whole\<close> is the path reported.
\<close>

fun at_parent :: "string list \<Rightarrow> (obj \<Rightarrow> string \<Rightarrow> world_error + obj) \<Rightarrow> string list \<Rightarrow> obj
    \<Rightarrow> world_error + obj" where
  "at_parent whole f [] node = Inl RootHasNoParent"
| "at_parent whole f [k] node = f node k"
| "at_parent whole f (k # l # ks) node = (case dict_get node k of
     Some (JObj child) \<Rightarrow>
       rbind (at_parent whole f (l # ks) child) (\<lambda>child'. Inr (dict_put k (JObj child') node))
   | _ \<Rightarrow> Inl (ParentMissing (butlast whole)))"

text \<open>\<open>current + delta\<close> of two numbers that are not booleans.\<close>

definition increment_value :: "string list \<Rightarrow> json option \<Rightarrow> json \<Rightarrow> world_error + json" where
  "increment_value path current delta = (case current of
     Some (JInt a) \<Rightarrow> (case delta of
         JInt b \<Rightarrow> Inr (JInt (a + b))
       | JFloat y \<Rightarrow> (case float_of_int a of None \<Rightarrow> Inl FloatOverflow | Some x \<Rightarrow> Inr (JFloat (fadd x y)))
       | _ \<Rightarrow> Inl IncrementValue)
   | Some (JFloat x) \<Rightarrow> (case delta of
         JInt b \<Rightarrow> (case float_of_int b of None \<Rightarrow> Inl FloatOverflow | Some y \<Rightarrow> Inr (JFloat (fadd x y)))
       | JFloat y \<Rightarrow> Inr (JFloat (fadd x y))
       | _ \<Rightarrow> Inl IncrementValue)
   | _ \<Rightarrow> Inl (IncrementTarget path))"

definition apply_mutation :: "mutation \<Rightarrow> obj \<Rightarrow> world_error + obj" where
  "apply_mutation m state = (case m of
     REPLACE_ROOT v \<Rightarrow> json_object ''replacement state'' v
   | SET path v \<Rightarrow> at_parent path (\<lambda>parent key. Inr (dict_put key v parent)) path state
   | DELETE path \<Rightarrow> at_parent path (\<lambda>parent key.
       require (dict_get parent key \<noteq> None) (DeleteMissing path) (Inr (dict_del key parent))) path state
   | INCREMENT path delta \<Rightarrow> at_parent path (\<lambda>parent key.
       rbind (increment_value path (dict_get parent key) delta)
         (\<lambda>v. Inr (dict_put key v parent))) path state
   | APPEND_UNIQUE path v \<Rightarrow> at_parent path (\<lambda>parent key. (case dict_get parent key of
         Some (JArr xs) \<Rightarrow> Inr (if jmem v xs then parent else dict_put key (JArr (xs @ [v])) parent)
       | _ \<Rightarrow> Inl (ListTarget path))) path state
   | REMOVE path v \<Rightarrow> at_parent path (\<lambda>parent key. (case dict_get parent key of
         Some (JArr xs) \<Rightarrow> Inr (if jmem v xs then dict_put key (JArr (jremove1 v xs)) parent else parent)
       | _ \<Rightarrow> Inl (ListTarget path))) path state)"

definition apply_mutations :: "pyenv \<Rightarrow> obj \<Rightarrow> json list \<Rightarrow> world_error + obj" where
  "apply_mutations E initial_state raws =
     rbind (json_object ''initial_state'' (JObj initial_state)) (\<lambda>state.
       rbind (normalize_mutations E raws) (\<lambda>rows. rfold apply_mutation rows state))"

section \<open>Validation is idempotent\<close>

text \<open>What a validated mutation satisfies.\<close>

definition path_ok :: "string list \<Rightarrow> bool" where
  "path_ok p \<longleftrightarrow> p \<noteq> [] \<and> (\<forall>k \<in> set p. k \<noteq> [] \<and> length k \<le> 200)"

definition mutation_ok :: "mutation \<Rightarrow> bool" where
  "mutation_ok m = (case m of
     SET p v \<Rightarrow> path_ok p \<and> json_finite v
   | DELETE p \<Rightarrow> path_ok p
   | INCREMENT p v \<Rightarrow> path_ok p \<and> json_finite v
   | APPEND_UNIQUE p v \<Rightarrow> path_ok p \<and> json_finite v
   | REMOVE p v \<Rightarrow> path_ok p \<and> json_finite v
   | REPLACE_ROOT v \<Rightarrow> json_finite v)"

lemma py_str_JStr [simp]: "py_str E (JStr s) = s"
  by (simp add: py_str_def)

lemma path_check_jstrs: "path_ok p \<Longrightarrow> path_check E b (jstrs p) = Inr p"
  by (simp add: path_check_def jstrs_def path_ok_def o_def)

lemma path_check_root: "path_check E True (jstrs []) = Inr []"
  by (simp add: path_check_def jstrs_def)

lemma path_check_ok: "path_check E b v = Inr p \<Longrightarrow> p \<noteq> [] \<Longrightarrow> path_ok p"
  by (cases v) (force simp: path_check_def path_ok_def Let_def require_eq_Inr)+

lemma path_check_not_root: "path_check E False v = Inr p \<Longrightarrow> path_ok p"
  by (cases v) (force simp: path_check_def path_ok_def Let_def require_eq_Inr)+

lemma mutation_row_get:
  "dict_get (dict_of [(''op'', JStr oper), (''path'', p), (''value'', x)]) =
     [''op'' \<mapsto> JStr oper, ''path'' \<mapsto> p, ''value'' \<mapsto> x]"
  "dict_get (dict_of [(''op'', JStr oper), (''path'', p)]) = [''op'' \<mapsto> JStr oper, ''path'' \<mapsto> p]"
  by (simp_all add: dict_of_def del: dict_put.simps)

lemma py_upper_ops [simp]:
  "py_upper ''SET'' = ''SET''" "py_upper ''DELETE'' = ''DELETE''" "py_upper ''INCREMENT'' = ''INCREMENT''"
  "py_upper ''APPEND_UNIQUE'' = ''APPEND_UNIQUE''" "py_upper ''REMOVE'' = ''REMOVE''"
  "py_upper ''REPLACE_ROOT'' = ''REPLACE_ROOT''"
  by code_simp+

lemma normalize_mutation_json:
  "mutation_ok m \<Longrightarrow> normalize_mutation E i (mutation_json m) = Inr m"
  by (cases m)
    (simp_all add: normalize_mutation_def mutation_json_def mutation_row_def mk_obj_def
      mutation_row_get mutation_ok_def supported_mutations_def make_mutation_def
      path_check_jstrs path_check_root Let_def)

lemma make_mutation_ok:
  "json_finite v \<Longrightarrow> (operation \<noteq> ''REPLACE_ROOT'' \<Longrightarrow> path_ok p) \<Longrightarrow> operation \<in> set supported_mutations
     \<Longrightarrow> mutation_ok (make_mutation operation p v)"
  by (auto simp: supported_mutations_def make_mutation_def mutation_ok_def)

lemma normalize_mutation_ok:
  assumes "normalize_mutation E i raw = Inr m"
  shows "mutation_ok m"
proof -
  obtain d where raw: "raw = JObj d"
    using assms by (cases raw) (auto simp: normalize_mutation_def)
  then obtain operation pv p where o: "operation \<in> set supported_mutations"
    and p: "path_check E (operation = ''REPLACE_ROOT'') pv = Inr p"
    and r: "(if operation = ''DELETE'' then Inr (DELETE p)
      else (case dict_get d ''value'' of None \<Rightarrow> Inl (ValueMissing operation)
         | Some v \<Rightarrow> require (json_finite v) ValueNotFinite (Inr (make_mutation operation p v)))) = Inr m"
    using assms by (fastforce simp: normalize_mutation_def Let_def rbind_eq_Inr require_eq_Inr)
  have path: "operation \<noteq> ''REPLACE_ROOT'' \<Longrightarrow> path_ok p"
    using p by (auto dest: path_check_not_root)
  show ?thesis
  proof (cases "operation = ''DELETE''")
    case True
    with r path show ?thesis by (auto simp: mutation_ok_def)
  next
    case False
    with o r path show ?thesis
      by (auto simp: require_eq_Inr intro: make_mutation_ok split: option.splits)
  qed
qed

lemma normalize_mutations_ok:
  assumes "normalize_mutations E raws = Inr ms"
  shows "list_all mutation_ok ms"
proof -
  have "list_all2 (\<lambda>ir m. normalize_mutation E (fst ir) (snd ir) = Inr m) (List.enumerate 0 raws) ms"
    using assms by (simp add: normalize_mutations_def rbind_eq_Inr require_eq_Inr traverse_Inr_iff
        case_prod_unfold)
  then show ?thesis
    by (induction rule: list_all2_induct) (auto dest: normalize_mutation_ok)
qed

lemma traverse_enumerate_json:
  "list_all mutation_ok ms \<Longrightarrow>
     traverse (\<lambda>(index, raw). normalize_mutation E index raw) (List.enumerate n (map mutation_json ms)) = Inr ms"
  by (induction ms arbitrary: n) (auto simp: normalize_mutation_json)

theorem normalize_mutations_idem:
  "normalize_mutations E raws = Inr ms \<Longrightarrow> normalize_mutations E (map mutation_json ms) = Inr ms"
  using normalize_mutations_ok [of E raws ms]
  by (auto simp: normalize_mutations_def rbind_eq_Inr require_eq_Inr traverse_enumerate_json)

section \<open>What mutations keep\<close>

text \<open>A property of objects that the update at the last key keeps is kept along the whole path.\<close>

lemma at_parent_invariant:
  assumes upd: "\<And>node k node'. R node \<Longrightarrow> f node k = Inr node' \<Longrightarrow> R node'"
    and sub: "\<And>node k c. R node \<Longrightarrow> dict_get node k = Some (JObj c) \<Longrightarrow> R c"
    and put: "\<And>node k c. R node \<Longrightarrow> R c \<Longrightarrow> R (dict_put k (JObj c) node)"
  shows "R node \<Longrightarrow> at_parent whole f path node = Inr node' \<Longrightarrow> R node'"
  using upd
proof (induction whole f path node arbitrary: node' rule: at_parent.induct)
  case (3 whole f k l ks node)
  from "3.prems"(2) obtain c c' where c: "dict_get node k = Some (JObj c)"
    and a: "at_parent whole f (l # ks) c = Inr c'" and n: "node' = dict_put k (JObj c') node"
    by (auto simp: rbind_eq_Inr split: option.splits json.splits)
  then have "R c'" using "3.IH" [OF c refl] "3.prems"(3) sub [OF "3.prems"(1) c] by blast
  with "3.prems"(1) n show ?case by (auto intro: put)
qed (auto dest: upd)

text \<open>No value is a NaN: what a finite state keeps, even where an increment overflows.\<close>

fun json_nan_free :: "json \<Rightarrow> bool" where
  "json_nan_free (JFloat f) = (f \<noteq> NaN)"
| "json_nan_free (JArr xs) = (\<forall>x \<in> set xs. json_nan_free x)"
| "json_nan_free (JObj ms) = (\<forall>p \<in> set ms. json_nan_free (snd p))"
| "json_nan_free _ = True"

lemma json_finite_nan_free: "json_finite j \<Longrightarrow> json_nan_free j"
  by (induction j) (auto simp: flt_finite_def)

lemma jeq_refl_nan_free: "json_nan_free j \<Longrightarrow> jeq j j"
proof (induction j)
  case (JFloat f)
  then show ?case by (cases f) (auto simp: jnum_eq_def jnum_def)
next
  case (JArr xs)
  then show ?case by (auto intro: jeqs_refl)
next
  case (JObj ms)
  then show ?case by (auto intro!: jeqm_refl)
qed (auto simp: jnum_eq_def jnum_def)

lemma rnd_not_NaN [simp]: "rnd x \<noteq> NaN"
  by (simp add: rnd_def Let_def)

lemma fadd_not_NaN: "x \<noteq> NaN \<Longrightarrow> flt_finite y \<Longrightarrow> fadd x y \<noteq> NaN"
  by (cases x; cases y) auto

lemma float_of_int_finite: "float_of_int i = Some y \<Longrightarrow> flt_finite y"
  by (cases "rnd (of_int i)") (auto simp: float_of_int_def)

lemma flt_finite_not_NaN: "flt_finite y \<Longrightarrow> y \<noteq> NaN"
  by auto

lemma increment_value_nan_free:
  assumes "increment_value p cur d = Inr v" and "json_finite d"
    and "\<And>c. cur = Some c \<Longrightarrow> json_nan_free c"
  shows "json_nan_free v"
  using assms
  by (auto simp: increment_value_def fadd_not_NaN float_of_int_finite flt_finite_not_NaN
      split: option.splits json.splits)

lemma set_jremove1_subset: "set (jremove1 v xs) \<subseteq> set xs"
  by (induction xs) auto

lemma nan_free_put:
  "json_nan_free (JObj m) \<Longrightarrow> json_nan_free v \<Longrightarrow> json_nan_free (JObj (dict_put k v m))"
  using set_dict_put_subset [of k v m] by fastforce

lemma nan_free_del: "json_nan_free (JObj m) \<Longrightarrow> json_nan_free (JObj (dict_del k m))"
  by (auto simp: dict_del_def)

lemma nan_free_get: "json_nan_free (JObj m) \<Longrightarrow> dict_get m k = Some v \<Longrightarrow> json_nan_free v"
  by (fastforce dest: dict_get_Some_in)

lemma at_parent_nan_free:
  assumes "\<And>node k node'. json_nan_free (JObj node) \<Longrightarrow> f node k = Inr node' \<Longrightarrow> json_nan_free (JObj node')"
    and "json_nan_free (JObj node)" and "at_parent whole f path node = Inr node'"
  shows "json_nan_free (JObj node')"
  by (rule at_parent_invariant [of "\<lambda>n. json_nan_free (JObj n)", OF assms(1) _ _ assms(2,3)])
    (auto dest: nan_free_get intro: nan_free_put simp del: json_nan_free.simps)

lemma apply_mutation_nan_free:
  assumes m: "mutation_ok m" and s: "json_nan_free (JObj s)" and a: "apply_mutation m s = Inr s'"
  shows "json_nan_free (JObj s')"
proof (cases m)
  case (SET p v)
  show ?thesis
    by (rule at_parent_nan_free [OF _ s a [unfolded apply_mutation_def SET mutation.case]])
      (use m in \<open>auto simp: SET mutation_ok_def json_finite_nan_free intro!: nan_free_put
         simp del: json_nan_free.simps\<close>)
next
  case (DELETE p)
  show ?thesis
    by (rule at_parent_nan_free [OF _ s a [unfolded apply_mutation_def DELETE mutation.case]])
      (auto simp: require_eq_Inr intro!: nan_free_del simp del: json_nan_free.simps)
next
  case (INCREMENT p v)
  show ?thesis
    by (rule at_parent_nan_free [OF _ s a [unfolded apply_mutation_def INCREMENT mutation.case]])
      (use m in \<open>auto simp: INCREMENT mutation_ok_def rbind_eq_Inr intro!: nan_free_put
         intro: increment_value_nan_free nan_free_get simp del: json_nan_free.simps\<close>)
next
  case (APPEND_UNIQUE p v)
  show ?thesis
  proof (rule at_parent_nan_free [OF _ s a [unfolded apply_mutation_def APPEND_UNIQUE mutation.case]])
    fix node k node'
    assume n: "json_nan_free (JObj node)"
      and f: "(case dict_get node k of
         Some (JArr xs) \<Rightarrow> Inr (if jmem v xs then node else dict_put k (JArr (xs @ [v])) node)
       | _ \<Rightarrow> Inl (ListTarget p)) = Inr node'"
    from f obtain xs where x: "dict_get node k = Some (JArr xs)"
      and n': "node' = (if jmem v xs then node else dict_put k (JArr (xs @ [v])) node)"
      by (auto split: option.splits json.splits)
    have "json_nan_free (JArr (xs @ [v]))"
      using nan_free_get [OF n x] m by (auto simp: APPEND_UNIQUE mutation_ok_def json_finite_nan_free)
    then show "json_nan_free (JObj node')"
      using n n' by (simp add: nan_free_put del: json_nan_free.simps)
  qed
next
  case (REMOVE p v)
  show ?thesis
  proof (rule at_parent_nan_free [OF _ s a [unfolded apply_mutation_def REMOVE mutation.case]])
    fix node k node'
    assume n: "json_nan_free (JObj node)"
      and f: "(case dict_get node k of
         Some (JArr xs) \<Rightarrow> Inr (if jmem v xs then dict_put k (JArr (jremove1 v xs)) node else node)
       | _ \<Rightarrow> Inl (ListTarget p)) = Inr node'"
    from f obtain xs where x: "dict_get node k = Some (JArr xs)"
      and n': "node' = (if jmem v xs then dict_put k (JArr (jremove1 v xs)) node else node)"
      by (auto split: option.splits json.splits)
    have "json_nan_free (JArr (jremove1 v xs))"
      using nan_free_get [OF n x] set_jremove1_subset [of v xs] by auto
    then show "json_nan_free (JObj node')"
      using n n' by (simp add: nan_free_put del: json_nan_free.simps)
  qed
next
  case (REPLACE_ROOT v)
  then show ?thesis
    using a by (auto simp: apply_mutation_def json_object_def require_eq_Inr json_finite_nan_free
        split: json.splits simp del: json_nan_free.simps)
qed

section \<open>Reading a path after a mutation\<close>

fun jlookup :: "string list \<Rightarrow> obj \<Rightarrow> json option" where
  "jlookup [] node = Some (JObj node)"
| "jlookup [k] node = dict_get node k"
| "jlookup (k # l # ks) node = (case dict_get node k of Some (JObj child) \<Rightarrow> jlookup (l # ks) child | _ \<Rightarrow> None)"

text \<open>Two paths diverge: neither is a prefix of the other.\<close>

fun diverge :: "string list \<Rightarrow> string list \<Rightarrow> bool" where
  "diverge (k # ks) (l # ls) = (k \<noteq> l \<or> diverge ks ls)"
| "diverge _ _ = False"

lemma at_parent_lookup:
  assumes "\<And>n k n'. f n k = Inr n' \<Longrightarrow> dict_get n' k = g (dict_get n k)"
    and "at_parent whole f p node = Inr node'"
  shows "jlookup p node' = g (jlookup p node)"
  using assms(2,1)
proof (induction whole f p node arbitrary: node' rule: at_parent.induct)
  case (3 whole f k l ks node)
  from "3.prems"(1) obtain c c' where c: "dict_get node k = Some (JObj c)"
    and a: "at_parent whole f (l # ks) c = Inr c'" and n: "node' = dict_put k (JObj c') node"
    by (auto simp: rbind_eq_Inr split: option.splits json.splits)
  from "3.IH" [OF c refl a "3.prems"(2)] c n show ?case by simp
qed auto

lemma at_parent_found:
  assumes "at_parent whole f p node = Inr node'"
    and "\<And>n k n'. f n k = Inr n' \<Longrightarrow> dict_get n k \<noteq> None"
  shows "jlookup p node \<noteq> None"
  using assms
proof (induction whole f p node arbitrary: node' rule: at_parent.induct)
  case (3 whole f k l ks node)
  from "3.prems"(1) obtain c c' where c: "dict_get node k = Some (JObj c)"
    and a: "at_parent whole f (l # ks) c = Inr c'"
    by (auto simp: rbind_eq_Inr split: option.splits json.splits)
  from "3.IH" [OF c refl a "3.prems"(2)] c show ?case by simp
qed auto

lemma at_parent_frame:
  assumes "\<And>n k n' j. f n k = Inr n' \<Longrightarrow> j \<noteq> k \<Longrightarrow> dict_get n' j = dict_get n j"
    and "at_parent whole f p node = Inr node'" and "diverge p q"
  shows "jlookup q node' = jlookup q node"
  using assms(2,1,3)
proof (induction whole f p node arbitrary: node' q rule: at_parent.induct)
  case (2 whole f k node)
  then obtain j js where q: "q = j # js" and j: "j \<noteq> k"
    by (cases q) auto
  with "2.prems" have "dict_get node' j = dict_get node j" by simp
  with q show ?case by (cases js) simp_all
next
  case (3 whole f k l ks node)
  from "3.prems"(1) obtain c c' where c: "dict_get node k = Some (JObj c)"
    and a: "at_parent whole f (l # ks) c = Inr c'" and n: "node' = dict_put k (JObj c') node"
    by (auto simp: rbind_eq_Inr split: option.splits json.splits)
  obtain j js where q: "q = j # js" using "3.prems"(3) by (cases q) auto
  show ?case
  proof (cases "j = k")
    case True
    with "3.prems"(3) q have d: "diverge (l # ks) js" by simp
    with "3.IH" [OF c refl a "3.prems"(2) d] True q c n show ?thesis by (cases js) auto
  next
    case False
    with q n show ?thesis by (cases js) simp_all
  qed
qed auto

definition mutation_path :: "mutation \<Rightarrow> string list" where
  "mutation_path m = (case m of SET p _ \<Rightarrow> p | DELETE p \<Rightarrow> p | INCREMENT p _ \<Rightarrow> p
     | APPEND_UNIQUE p _ \<Rightarrow> p | REMOVE p _ \<Rightarrow> p | REPLACE_ROOT _ \<Rightarrow> [])"

lemma apply_mutation_frame:
  assumes "apply_mutation m s = Inr s'" and "diverge (mutation_path m) q"
  shows "jlookup q s' = jlookup q s"
  using assms
  by (cases m)
    (auto simp: apply_mutation_def mutation_path_def rbind_eq_Inr require_eq_Inr
      elim!: at_parent_frame [rotated] split: option.splits json.splits if_splits)

text \<open>
  C9. A mutation acts at its path and nowhere else: after SET the path reads back the value,
  after DELETE it is absent, a successful INCREMENT of an integer by an integer adds them, and
  every path that diverges from the mutation's path reads as before.
\<close>

theorem mutation_is_local:
  assumes "apply_mutation m s = Inr s'"
  shows "(\<forall>p v. m = SET p v \<longrightarrow> jlookup p s' = Some v)
    \<and> (\<forall>p. m = DELETE p \<longrightarrow> jlookup p s \<noteq> None \<and> jlookup p s' = None)
    \<and> (\<forall>p a b. m = INCREMENT p (JInt b) \<longrightarrow> jlookup p s = Some (JInt a) \<longrightarrow> jlookup p s' = Some (JInt (a + b)))
    \<and> (\<forall>q. diverge (mutation_path m) q \<longrightarrow> jlookup q s' = jlookup q s)"
proof (intro conjI allI impI)
  fix p v assume "m = SET p v"
  with assms show "jlookup p s' = Some v"
    by (auto simp: apply_mutation_def dest: at_parent_lookup [where g = "\<lambda>_. Some v", rotated])
next
  fix p assume "m = DELETE p"
  with assms have a: "at_parent p (\<lambda>parent key. require (dict_get parent key \<noteq> None) (DeleteMissing p)
      (Inr (dict_del key parent))) p s = Inr s'"
    by (simp add: apply_mutation_def)
  then show "jlookup p s' = None"
    by (rule at_parent_lookup [where g = "\<lambda>_. None", rotated]) (auto simp: require_eq_Inr)
  from a show "jlookup p s \<noteq> None"
    by (rule at_parent_found) (simp add: require_eq_Inr)
next
  fix p a b assume "m = INCREMENT p (JInt b)" and l: "jlookup p s = Some (JInt a)"
  with assms have "at_parent p (\<lambda>parent key. rbind (increment_value p (dict_get parent key) (JInt b))
      (\<lambda>v. Inr (dict_put key v parent))) p s = Inr s'"
    by (simp add: apply_mutation_def)
  then have "jlookup p s' = (case increment_value p (jlookup p s) (JInt b) of Inl _ \<Rightarrow> None | Inr v \<Rightarrow> Some v)"
    by (rule at_parent_lookup [where g = "\<lambda>c. case increment_value p c (JInt b) of Inl _ \<Rightarrow> None | Inr v \<Rightarrow> Some v", rotated])
      (auto simp: rbind_eq_Inr)
  with l show "jlookup p s' = Some (JInt (a + b))" by (simp add: increment_value_def)
next
  fix q assume "diverge (mutation_path m) q"
  with assms show "jlookup q s' = jlookup q s" by (rule apply_mutation_frame)
qed

theorem mutation_is_local_witness:
  "\<exists>s'. apply_mutation (SET [''a'', ''b''] (JInt 1)) [(''a'', JObj []), (''c'', JNull)] = Inr s'
     \<and> jlookup [''a'', ''b''] s' = Some (JInt 1) \<and> jlookup [''c''] s' = Some JNull"
proof -
  let ?s = "[(''a'', JObj []), (''c'', JNull)]"
  have a: "apply_mutation (SET [''a'', ''b''] (JInt 1)) ?s
      = Inr [(''a'', JObj [(''b'', JInt 1)]), (''c'', JNull)]"
    by (simp add: apply_mutation_def)
  show ?thesis
    using mutation_is_local [OF a] a by (simp add: mutation_path_def)
qed

end
