(* ===== verification/HashChain.thy ===== *)
theory HashChain
  imports Prelude
begin

text \<open>
  Append-only, hash-chained logs. The world event log, the memory audit log and the registry
  audit log all store, with every row, the hash of the row before it (\<open>GENESIS\<close> for the first)
  and the hash of the row's own content with that link. The interface below is what a log's
  row constructor promises; what follows from it is proved once.
\<close>

fun chain_ok :: "('r \<Rightarrow> string) \<Rightarrow> ('r \<Rightarrow> string) \<Rightarrow> ('r \<Rightarrow> bool) \<Rightarrow> string \<Rightarrow> 'r list \<Rightarrow> bool" where
  "chain_ok prev hash sealed p [] = True"
| "chain_ok prev hash sealed p (r # rs) =
     (prev r = p \<and> sealed r \<and> chain_ok prev hash sealed (hash r) rs)"

definition last_hash :: "('r \<Rightarrow> string) \<Rightarrow> string \<Rightarrow> 'r list \<Rightarrow> string" where
  "last_hash hash p rs = (if rs = [] then p else hash (last rs))"

lemma last_hash_simps [simp]:
  "last_hash hash p [] = p" "last_hash hash p (r # rs) = last_hash hash (hash r) rs"
  "last_hash hash p (rs @ [r]) = hash r"
  by (simp_all add: last_hash_def)

lemma chain_ok_append:
  "chain_ok prev hash sealed p (rs @ ss) \<longleftrightarrow>
     chain_ok prev hash sealed p rs \<and> chain_ok prev hash sealed (last_hash hash p rs) ss"
  by (induction rs arbitrary: p) auto

lemma chain_ok_sealed: "chain_ok prev hash sealed p rs \<Longrightarrow> r \<in> set rs \<Longrightarrow> sealed r"
  by (induction rs arbitrary: p) auto

locale hash_chain =
  fixes prev :: "'r \<Rightarrow> string"
    and hash :: "'r \<Rightarrow> string"
    and sealed :: "'r \<Rightarrow> bool"
    and link :: "'c \<Rightarrow> string \<Rightarrow> 'r"
  assumes prev_link: "prev (link c p) = p"
    and sealed_link: "sealed (link c p)"
begin

abbreviation valid :: "string \<Rightarrow> 'r list \<Rightarrow> bool" where
  "valid \<equiv> chain_ok prev hash sealed"

lemma valid_extend:
  "valid g rs \<Longrightarrow> valid g (rs @ [link c (last_hash hash g rs)])"
  by (simp add: chain_ok_append prev_link sealed_link)

text \<open>
  Tamper evidence: where no two different sealed rows of two valid chains share a hash, and no
  sealed row hashes to the start value, chains with the same last hash are the same.
\<close>

lemma valid_determined:
  "valid g rs \<Longrightarrow> valid g ss \<Longrightarrow> last_hash hash g rs = last_hash hash g ss \<Longrightarrow>
     (\<And>r s. r \<in> set rs \<Longrightarrow> s \<in> set ss \<Longrightarrow> sealed r \<Longrightarrow> sealed s \<Longrightarrow> hash r = hash s \<Longrightarrow> r = s) \<Longrightarrow>
     (\<And>r. sealed r \<Longrightarrow> hash r \<noteq> g) \<Longrightarrow> rs = ss"
proof (induction rs arbitrary: ss rule: rev_induct)
  case Nil
  then show ?case by (cases ss rule: rev_cases) (fastforce simp: chain_ok_append)+
next
  case (snoc r rs)
  have r: "sealed r" using snoc.prems(1) by (simp add: chain_ok_append)
  obtain s ss' where ss: "ss = ss' @ [s]"
    using snoc.prems(3) snoc.prems(5) [OF r] by (cases ss rule: rev_cases) auto
  moreover have rs: "r = s" 
    using snoc.prems(2,3) r ss by (intro snoc.prems(4)) (auto simp: chain_ok_append)
  moreover have "rs = ss'"
    by (rule snoc.IH) (use snoc.prems rs ss in \<open>auto simp: chain_ok_append\<close>)
  ultimately show ?case by simp
qed

end

end
