(* ===== verification/WorldStore.thy ===== *)
theory WorldStore
  imports World HashChain
begin

text \<open>
  The event-sourced world store (\<open>src/src/edon/world/store.py\<close>, class \<open>WorldStateStore\<close>). The
  database is a record of tables; a table is the list of its rows in the order of insertion,
  which is the order of the \<open>sequence\<close> column. A text column that holds JSON is the value it
  holds. Every operation is one transaction: an error leaves the database as it was.
\<close>

section \<open>Tables\<close>

record world_row =
  w_tenant :: string
  w_world :: string
  w_version :: int
  w_state :: obj
  w_sha :: string
  w_created :: string
  w_updated :: string

record event_row =
  e_tenant :: string
  e_world :: string
  e_id :: string
  e_type :: string
  e_actor :: string
  e_expected :: int
  e_mutations :: "json list"
  e_auth :: string
  e_lineage :: "string list"
  e_request_sha :: string
  e_resulting :: int
  e_result_sha :: string
  e_prev :: string
  e_hash :: string
  e_created :: string

record snap_row =
  s_tenant :: string
  s_world :: string
  s_version :: int
  s_state :: obj
  s_sha :: string
  s_event_hash :: string
  s_created :: string

record outbox_row =
  o_id :: string
  o_tenant :: string
  o_world :: string
  o_event :: string
  o_topic :: string
  o_payload :: json
  o_sha :: string
  o_status :: string
  o_attempts :: int
  o_available :: string
  o_owner :: "string option"
  o_lease :: "string option"
  o_error :: "string option"
  o_created :: string
  o_delivered :: "string option"

record audit_row =
  a_message :: string
  a_action :: string
  a_worker :: string
  a_detail :: json
  a_created :: string

record wdb =
  worlds :: "world_row list"
  events :: "event_row list"
  snaps :: "snap_row list"
  outbox :: "outbox_row list"
  audit :: "audit_row list"

definition init_wdb :: wdb where
  "init_wdb = \<lparr>worlds = [], events = [], snaps = [], outbox = [], audit = []\<rparr>"

text \<open>The snapshot returned to a caller.\<close>

record snapshot =
  sn_tenant :: string
  sn_world :: string
  sn_version :: int
  sn_state :: obj
  sn_sha :: string
  sn_event_hash :: "string option"
  sn_created :: string

definition snapshot_of_snap :: "snap_row \<Rightarrow> snapshot" where
  "snapshot_of_snap r = \<lparr>sn_tenant = s_tenant r, sn_world = s_world r, sn_version = s_version r,
     sn_state = s_state r, sn_sha = s_sha r, sn_event_hash = Some (s_event_hash r),
     sn_created = s_created r\<rparr>"

definition snapshot_of_world :: "world_row \<Rightarrow> string option \<Rightarrow> snapshot" where
  "snapshot_of_world r h = \<lparr>sn_tenant = w_tenant r, sn_world = w_world r, sn_version = w_version r,
     sn_state = w_state r, sn_sha = w_sha r, sn_event_hash = h, sn_created = w_updated r\<rparr>"

section \<open>Row lookups\<close>

definition is_world :: "string \<Rightarrow> string \<Rightarrow> world_row \<Rightarrow> bool" where
  "is_world t w r \<longleftrightarrow> w_tenant r = t \<and> w_world r = w"

definition find_world :: "wdb \<Rightarrow> string \<Rightarrow> string \<Rightarrow> world_row option" where
  "find_world db t w = List.find (is_world t w) (worlds db)"

definition is_event_of :: "string \<Rightarrow> string \<Rightarrow> event_row \<Rightarrow> bool" where
  "is_event_of t w r \<longleftrightarrow> e_tenant r = t \<and> e_world r = w"

definition events_of :: "wdb \<Rightarrow> string \<Rightarrow> string \<Rightarrow> event_row list" where
  "events_of db t w = filter (is_event_of t w) (events db)"

definition find_event :: "wdb \<Rightarrow> string \<Rightarrow> string \<Rightarrow> string \<Rightarrow> event_row option" where
  "find_event db t w i = List.find (\<lambda>r. e_id r = i) (events_of db t w)"

definition is_snap :: "string \<Rightarrow> string \<Rightarrow> int \<Rightarrow> snap_row \<Rightarrow> bool" where
  "is_snap t w v r \<longleftrightarrow> s_tenant r = t \<and> s_world r = w \<and> s_version r = v"

definition find_snap :: "wdb \<Rightarrow> string \<Rightarrow> string \<Rightarrow> int \<Rightarrow> snap_row option" where
  "find_snap db t w v = List.find (is_snap t w v) (snaps db)"

abbreviation genesis :: string where
  "genesis \<equiv> ''GENESIS''"

section \<open>Hashed content\<close>

definition request_fields :: "string \<Rightarrow> string \<Rightarrow> string \<Rightarrow> string \<Rightarrow> string \<Rightarrow> int \<Rightarrow> json list
    \<Rightarrow> string \<Rightarrow> string list \<Rightarrow> (string \<times> json) list" where
  "request_fields t w i ty a ev ms auth lineage =
     [(''tenant_id'', JStr t), (''world_id'', JStr w), (''event_id'', JStr i), (''event_type'', JStr ty),
      (''actor_id'', JStr a), (''expected_version'', JInt ev), (''mutations'', JArr ms),
      (''authorization_ref'', JStr auth), (''source_lineage'', jstrs lineage)]"

definition row_request_fields :: "event_row \<Rightarrow> (string \<times> json) list" where
  "row_request_fields r = request_fields (e_tenant r) (e_world r) (e_id r) (e_type r) (e_actor r)
     (e_expected r) (e_mutations r) (e_auth r) (e_lineage r)"

definition request_sha :: "pyenv \<Rightarrow> event_row \<Rightarrow> string" where
  "request_sha E r = sha256_json E (mk_obj (row_request_fields r))"

definition event_sha :: "pyenv \<Rightarrow> event_row \<Rightarrow> string" where
  "event_sha E r = sha256_json E (mk_obj (row_request_fields r @
     [(''resulting_version'', JInt (e_resulting r)),
      (''resulting_state_sha256'', JStr (e_result_sha r)),
      (''previous_hash'', JStr (e_prev r)), (''created_at'', JStr (e_created r))]))"

text \<open>Both hashes of a row are filled in from its other fields.\<close>

definition seal :: "pyenv \<Rightarrow> event_row \<Rightarrow> event_row" where
  "seal E r = r\<lparr>e_request_sha := request_sha E r, e_hash := event_sha E r\<rparr>"

definition event_sealed :: "pyenv \<Rightarrow> event_row \<Rightarrow> bool" where
  "event_sealed E r \<longleftrightarrow> e_request_sha r = request_sha E r \<and> e_hash r = event_sha E r"

section \<open>The outbox message of an event\<close>

definition outbox_message :: "pyenv \<Rightarrow> event_row \<Rightarrow> json" where
  "outbox_message E r = mk_obj
     [(''schema_version'', JStr ''edon-world-outbox-message.v1''), (''topic'', JStr ''world.events''),
      (''event_hash'', JStr (e_hash r)), (''tenant_id'', JStr (e_tenant r)),
      (''world_id'', JStr (e_world r)), (''event_id'', JStr (e_id r)), (''event_type'', JStr (e_type r)),
      (''actor_id'', JStr (e_actor r)), (''expected_version'', JInt (e_expected r)),
      (''resulting_version'', JInt (e_resulting r)), (''mutations'', JArr (e_mutations r)),
      (''authorization_ref_sha256'', JStr (sha256_json E (JStr (e_auth r)))),
      (''source_lineage'', jstrs (e_lineage r)),
      (''resulting_state_sha256'', JStr (e_result_sha r))]"

definition outbox_row_of :: "pyenv \<Rightarrow> event_row \<Rightarrow> outbox_row" where
  "outbox_row_of E r =
     \<lparr>o_id = ''world:'' @ after_colon (e_hash r), o_tenant = e_tenant r, o_world = e_world r,
      o_event = e_id r, o_topic = ''world.events'', o_payload = outbox_message E r,
      o_sha = sha256_json E (outbox_message E r), o_status = ''PENDING'', o_attempts = 0,
      o_available = e_created r, o_owner = None, o_lease = None, o_error = None,
      o_created = e_created r, o_delivered = None\<rparr>"

text \<open>\<open>INSERT OR IGNORE\<close>: a row that meets a key already present is dropped.\<close>

definition enqueue_world_event :: "pyenv \<Rightarrow> event_row \<Rightarrow> wdb \<Rightarrow> wdb" where
  "enqueue_world_event E r db =
     (let m = outbox_row_of E r in
      if list_ex (\<lambda>x. o_id x = o_id m \<or> o_topic x = o_topic m \<and> o_sha x = o_sha m) (outbox db)
      then db else db\<lparr>outbox := outbox db @ [m]\<rparr>)"

section \<open>Transactions\<close>

text \<open>The inserts of a new event and of its snapshot, with the keys of the tables.\<close>

definition insert_event :: "event_row \<Rightarrow> wdb \<Rightarrow> world_error + wdb" where
  "insert_event r db =
     require (\<not> list_ex (\<lambda>x. e_hash x = e_hash r
          \<or> e_tenant x = e_tenant r \<and> e_world x = e_world r \<and> e_id x = e_id r) (events db))
       IntegrityError (Inr (db\<lparr>events := events db @ [r]\<rparr>))"

definition insert_snap :: "event_row \<Rightarrow> obj \<Rightarrow> wdb \<Rightarrow> world_error + wdb" where
  "insert_snap r state db =
     require (find_snap db (e_tenant r) (e_world r) (e_resulting r) = None) IntegrityError
       (Inr (db\<lparr>snaps := snaps db @
         [\<lparr>s_tenant = e_tenant r, s_world = e_world r, s_version = e_resulting r, s_state = state,
           s_sha = e_result_sha r, s_event_hash = e_hash r, s_created = e_created r\<rparr>]\<rparr>))"

definition insert_world :: "event_row \<Rightarrow> obj \<Rightarrow> wdb \<Rightarrow> world_error + wdb" where
  "insert_world r state db =
     require (find_world db (e_tenant r) (e_world r) = None) IntegrityError
       (Inr (db\<lparr>worlds := worlds db @
         [\<lparr>w_tenant = e_tenant r, w_world = e_world r, w_version = 0, w_state = state,
           w_sha = e_result_sha r, w_created = e_created r, w_updated = e_created r\<rparr>]\<rparr>))"

definition update_world :: "event_row \<Rightarrow> obj \<Rightarrow> wdb \<Rightarrow> wdb" where
  "update_world r state db = db\<lparr>worlds := map (\<lambda>x.
     if is_world (e_tenant r) (e_world r) x
     then x\<lparr>w_version := e_resulting r, w_state := state, w_sha := e_result_sha r, w_updated := e_created r\<rparr>
     else x) (worlds db)\<rparr>"

definition state_at :: "string \<Rightarrow> string \<Rightarrow> int \<Rightarrow> wdb \<Rightarrow> world_error + snapshot" where
  "state_at tenant_id world_id version db =
     rbind (world_identifier ''tenant_id'' tenant_id) (\<lambda>t.
     rbind (world_identifier ''world_id'' world_id) (\<lambda>w.
       (case find_snap db t w version of
          None \<Rightarrow> Inl SnapshotNotFound
        | Some r \<Rightarrow> Inr (snapshot_of_snap r))))"

definition get_world :: "string \<Rightarrow> string \<Rightarrow> wdb \<Rightarrow> world_error + snapshot" where
  "get_world tenant_id world_id db =
     rbind (world_identifier ''tenant_id'' tenant_id) (\<lambda>t.
     rbind (world_identifier ''world_id'' world_id) (\<lambda>w.
       (case find_world db t w of
          None \<Rightarrow> Inl WorldNotFound
        | Some r \<Rightarrow> Inr (snapshot_of_world r
            (if events_of db t w = [] then None else Some (e_hash (last (events_of db t w))))))))"

definition lineage_check :: "string list \<Rightarrow> world_error + string list" where
  "lineage_check items =
     rbind (traverse (world_identifier ''source lineage'') items) (\<lambda>xs. Inr (sorted_set xs))"

definition create_world :: "pyenv \<Rightarrow> string \<Rightarrow> string \<Rightarrow> string \<Rightarrow> json \<Rightarrow> string \<Rightarrow> string \<Rightarrow> string list
    \<Rightarrow> string option \<Rightarrow> wdb \<Rightarrow> world_error + (wdb \<times> snapshot)" where
  "create_world E now tenant_id world_id initial_state actor_id authorization_ref source_lineage
     timestamp db =
     rbind (world_identifier ''tenant_id'' tenant_id) (\<lambda>t.
     rbind (world_identifier ''world_id'' world_id) (\<lambda>w.
     rbind (world_identifier ''actor_id'' actor_id) (\<lambda>a.
     rbind (authorization_ref_check authorization_ref) (\<lambda>auth.
     rbind (json_object ''initial_state'' initial_state) (\<lambda>state.
     rbind (lineage_check source_lineage) (\<lambda>lineages.
       (let created_at = or_now timestamp now;
            r = seal E \<lparr>e_tenant = t, e_world = w, e_id = ''WORLD_CREATED'', e_type = ''WORLD_CREATED'',
                  e_actor = a, e_expected = -1, e_mutations = [mutation_json (REPLACE_ROOT (JObj state))],
                  e_auth = auth, e_lineage = lineages, e_request_sha = [], e_resulting = 0,
                  e_result_sha = sha256_json E (JObj state), e_prev = genesis, e_hash = [],
                  e_created = created_at\<rparr>
        in (case (find_world db t w, find_event db t w ''WORLD_CREATED'') of
             (Some x, Some e) \<Rightarrow>
               require (e_request_sha e = e_request_sha r) IdentityBound
                 (Inr (db, snapshot_of_world x (Some (e_hash e))))
           | _ \<Rightarrow>
               rbind (insert_world r state db) (\<lambda>db.
               rbind (insert_event r db) (\<lambda>db.
               rbind (insert_snap r state db) (\<lambda>db.
                 (let db = enqueue_world_event E r db in
                  rbind (state_at t w 0 db) (\<lambda>sn. Inr (db, sn))))))))))))))"

definition append_event :: "pyenv \<Rightarrow> string \<Rightarrow> string \<Rightarrow> string \<Rightarrow> string \<Rightarrow> string \<Rightarrow> json list \<Rightarrow> string
    \<Rightarrow> int \<Rightarrow> string \<Rightarrow> string list \<Rightarrow> string option \<Rightarrow> wdb \<Rightarrow> world_error + (wdb \<times> snapshot)" where
  "append_event E now tenant_id world_id event_id event_type mutations actor_id expected_version
     authorization_ref source_lineage timestamp db =
     rbind (world_identifier ''tenant_id'' tenant_id) (\<lambda>t.
     rbind (world_identifier ''world_id'' world_id) (\<lambda>w.
     rbind (world_identifier ''event_id'' event_id) (\<lambda>i.
     rbind (world_identifier ''event_type'' event_type) (\<lambda>ty.
     rbind (world_identifier ''actor_id'' actor_id) (\<lambda>a.
     rbind (authorization_ref_check authorization_ref) (\<lambda>auth.
     rbind (normalize_mutations E mutations) (\<lambda>normalized.
     rbind (lineage_check source_lineage) (\<lambda>lineages.
       (let created_at = or_now timestamp now;
            r0 = \<lparr>e_tenant = t, e_world = w, e_id = i, e_type = ty, e_actor = a,
                  e_expected = expected_version, e_mutations = map mutation_json normalized,
                  e_auth = auth, e_lineage = lineages, e_request_sha = [], e_resulting = 0,
                  e_result_sha = [], e_prev = [], e_hash = [], e_created = created_at\<rparr>
        in (case find_event db t w i of
             Some d \<Rightarrow>
               require (e_request_sha d = request_sha E r0) IdentityBound
                 (case find_snap db t w (e_resulting d) of
                    None \<Rightarrow> Inl SnapshotMissing
                  | Some s \<Rightarrow> Inr (db, snapshot_of_snap s))
           | None \<Rightarrow>
               (case find_world db t w of
                  None \<Rightarrow> Inl WorldNotFound
                | Some x \<Rightarrow>
                    require (w_version x = expected_version) (VersionConflict expected_version (w_version x))
                      (rbind (apply_mutations E (w_state x) (map mutation_json normalized)) (\<lambda>state.
                        (let r = seal E (r0\<lparr>e_resulting := w_version x + 1,
                                   e_result_sha := sha256_json E (JObj state),
                                   e_prev := last_hash e_hash genesis (events_of db t w)\<rparr>)
                         in rbind (insert_event r db) (\<lambda>db.
                            rbind (insert_snap r state db) (\<lambda>db.
                              (let db = enqueue_world_event E r (update_world r state db) in
                               rbind (state_at t w (w_version x + 1) db) (\<lambda>sn. Inr (db, sn)))))))))))))))))))"

definition restore_version :: "pyenv \<Rightarrow> string \<Rightarrow> string \<Rightarrow> string \<Rightarrow> int \<Rightarrow> string \<Rightarrow> string \<Rightarrow> int \<Rightarrow> string
    \<Rightarrow> string option \<Rightarrow> wdb \<Rightarrow> world_error + (wdb \<times> snapshot)" where
  "restore_version E now tenant_id world_id target_version event_id actor_id expected_version
     authorization_ref timestamp db =
     rbind (state_at tenant_id world_id target_version db) (\<lambda>target.
       append_event E now tenant_id world_id event_id ''WORLD_RESTORED''
         [mutation_json (REPLACE_ROOT (JObj (sn_state target)))] actor_id expected_version
         authorization_ref
         [''snapshot:'' @ world_id @ ''@'' @ int_text target_version @ '':'' @ sn_sha target]
         timestamp db)"

section \<open>Reading\<close>

definition list_worlds :: "string \<Rightarrow> wdb \<Rightarrow> world_error + world_row list" where
  "list_worlds tenant_id db =
     rbind (world_identifier ''tenant_id'' tenant_id) (\<lambda>t.
       Inr (sort_key w_world (filter (\<lambda>r. w_tenant r = t) (worlds db))))"

definition event_log :: "string \<Rightarrow> string \<Rightarrow> wdb \<Rightarrow> world_error + event_row list" where
  "event_log tenant_id world_id db =
     rbind (world_identifier ''tenant_id'' tenant_id) (\<lambda>t.
     rbind (world_identifier ''world_id'' world_id) (\<lambda>w. Inr (events_of db t w)))"

definition count_worlds :: "wdb \<Rightarrow> nat" where
  "count_worlds db = length (worlds db)"

section \<open>Verification by replay\<close>

record world_checks =
  creation_event_present :: bool
  event_hash_chain_valid :: bool
  versions_contiguous :: bool
  snapshots_match_replay :: bool
  current_state_matches_replay :: bool

definition checks_passed :: "world_checks \<Rightarrow> bool" where
  "checks_passed c \<longleftrightarrow> creation_event_present c \<and> event_hash_chain_valid c \<and> versions_contiguous c
     \<and> snapshots_match_replay c \<and> current_state_matches_replay c"

text \<open>The state of the replay loop: previous hash and version, the replayed state, the checks.\<close>

record replay =
  rp_hash :: string
  rp_version :: int
  rp_state :: "obj option"
  rp_checks :: world_checks

definition replay_step :: "pyenv \<Rightarrow> wdb \<Rightarrow> string \<Rightarrow> string \<Rightarrow> event_row \<Rightarrow> replay \<Rightarrow> world_error + replay" where
  "replay_step E db t w r p =
     rbind (apply_mutations E (case rp_state p of None \<Rightarrow> [] | Some s \<Rightarrow> s) (e_mutations r)) (\<lambda>state.
       (let c = rp_checks p;
            chain = e_request_sha r = request_sha E r \<and> e_prev r = rp_hash p \<and> e_hash r = event_sha E r;
            contiguous = e_expected r = rp_version p \<and> e_resulting r = rp_version p + 1;
            snap = (case state_at t w (e_resulting r) db of
                Inl _ \<Rightarrow> False
              | Inr s \<Rightarrow> jeq (JObj (sn_state s)) (JObj state) \<and> sn_sha s = sha256_json E (JObj state))
        in Inr \<lparr>rp_hash = e_hash r, rp_version = e_resulting r, rp_state = Some state,
              rp_checks = c\<lparr>event_hash_chain_valid := event_hash_chain_valid c \<and> chain,
                versions_contiguous := versions_contiguous c \<and> contiguous,
                snapshots_match_replay := snapshots_match_replay c
                  \<and> sha256_json E (JObj state) = e_result_sha r \<and> snap\<rparr>\<rparr>))"

definition verify_world :: "pyenv \<Rightarrow> string \<Rightarrow> string \<Rightarrow> wdb \<Rightarrow> world_error + world_checks" where
  "verify_world E t w db =
     rbind (event_log t w db) (\<lambda>records.
     rbind (rfold (replay_step E db t w) records
        \<lparr>rp_hash = genesis, rp_version = -1, rp_state = None,
         rp_checks = \<lparr>creation_event_present = records \<noteq> [] \<and> e_type (hd records) = ''WORLD_CREATED'',
           event_hash_chain_valid = True, versions_contiguous = True, snapshots_match_replay = True,
           current_state_matches_replay = True\<rparr>\<rparr>) (\<lambda>p.
       (let ok = (case get_world t w db of
            Inl _ \<Rightarrow> False
          | Inr cur \<Rightarrow> (case rp_state p of None \<Rightarrow> False
              | Some s \<Rightarrow> jeq (JObj (sn_state cur)) (JObj s) \<and> sn_sha cur = sha256_json E (JObj s)))
        in Inr ((rp_checks p)\<lparr>current_state_matches_replay := ok\<rparr>))))"

end
