(* ===== verification/WorldInv.thy ===== *)
theory WorldInv
  imports WorldStore
begin

text \<open>
  Correctness of the world store: in every reachable database the event log of each world is a
  valid hash chain whose replay gives every stored snapshot and the stored current state, so
  \<open>verify_world\<close> passes; writes are append-only, guarded by the version and idempotent.
\<close>

section \<open>The invariant\<close>

text \<open>The states a log goes through, replayed from \<open>st\<close>.\<close>

definition replay_state :: "pyenv \<Rightarrow> obj \<Rightarrow> event_row list \<Rightarrow> world_error + obj" where
  "replay_state E st es = rfold (\<lambda>r s. apply_mutations E s (e_mutations r)) es st"

fun replay_ok :: "pyenv \<Rightarrow> (int \<Rightarrow> snap_row option) \<Rightarrow> obj \<Rightarrow> int \<Rightarrow> event_row list \<Rightarrow> bool" where
  "replay_ok E sn st v [] = True"
| "replay_ok E sn st v (r # rs) = (case apply_mutations E st (e_mutations r) of
     Inl _ \<Rightarrow> False
   | Inr st' \<Rightarrow> e_expected r = v \<and> e_resulting r = v + 1 \<and> e_result_sha r = sha256_json E (JObj st')
       \<and> (case sn (v + 1) of None \<Rightarrow> False | Some s \<Rightarrow> s_state s = st' \<and> s_sha s = e_result_sha r)
       \<and> replay_ok E sn st' (v + 1) rs)"

definition stripped_id :: "string \<Rightarrow> bool" where
  "stripped_id s \<longleftrightarrow> ident_check 200 () s = Inr s"

definition world_inv :: "pyenv \<Rightarrow> wdb \<Rightarrow> string \<Rightarrow> string \<Rightarrow> bool" where
  "world_inv E db t w \<longleftrightarrow> (let es = events_of db t w in
     chain_ok e_prev e_hash (event_sealed E) genesis es
     \<and> replay_ok E (find_snap db t w) [] (-1) es
     \<and> (\<forall>v. find_snap db t w v \<noteq> None \<longrightarrow> 0 \<le> v \<and> v < int (length es))
     \<and> (case find_world db t w of
          None \<Rightarrow> es = []
        | Some x \<Rightarrow> es \<noteq> [] \<and> e_type (hd es) = ''WORLD_CREATED'' \<and> e_id (hd es) = ''WORLD_CREATED''
            \<and> replay_state E [] es = Inr (w_state x) \<and> w_version x = int (length es) - 1
            \<and> w_sha x = sha256_json E (JObj (w_state x)) \<and> stripped_id t \<and> stripped_id w))"

definition wdb_inv :: "pyenv \<Rightarrow> wdb \<Rightarrow> bool" where
  "wdb_inv E db \<longleftrightarrow> (\<forall>t w. world_inv E db t w)"

lemma wdb_invD: "wdb_inv E db \<Longrightarrow> world_inv E db t w"
  by (simp add: wdb_inv_def)

lemma wdb_inv_init: "wdb_inv E init_wdb"
  by (simp add: wdb_inv_def world_inv_def init_wdb_def events_of_def find_snap_def find_world_def)

lemma stripped_id_iff: "stripped_id s \<longleftrightarrow> world_identifier l s = Inr s"
  by (auto simp: stripped_id_def world_identifier_def ident_check_def Let_def split: if_splits)

lemma world_identifier_stripped: "world_identifier l s = Inr t \<Longrightarrow> stripped_id t"
  by (auto simp: stripped_id_def world_identifier_def ident_check_def Let_def split: if_splits)

lemma world_identifier_id: "stripped_id s \<Longrightarrow> world_identifier l s = Inr s"
  by (rule stripped_id_iff [THEN iffD1])

lemma replay_state_append:
  "replay_state E st (es @ [r]) = rbind (replay_state E st es) (\<lambda>s. apply_mutations E s (e_mutations r))"
  by (cases "rfold (\<lambda>r s. apply_mutations E s (e_mutations r)) es st")
    (auto simp: replay_state_def rfold_append rbind_def split: sum.splits)

lemma replay_ok_cong:
  "(\<And>u. v < u \<Longrightarrow> u \<le> v + int (length es) \<Longrightarrow> sn u = sn' u) \<Longrightarrow> replay_ok E sn st v es = replay_ok E sn' st v es"
proof (induction es arbitrary: st v)
  case (Cons r es)
  have "sn (v + 1) = sn' (v + 1)" using Cons.prems [of "v + 1"] by simp
  moreover have "replay_ok E sn st' (v + 1) es = replay_ok E sn' st' (v + 1) es" for st'
    by (rule Cons.IH) (simp add: Cons.prems)
  ultimately show ?case by (simp split: sum.splits)
qed simp

lemma replay_ok_append:
  "replay_ok E sn st v (es @ [r]) \<longleftrightarrow> replay_ok E sn st v es
     \<and> (\<exists>s. replay_state E st es = Inr s \<and> replay_ok E sn s (v + int (length es)) [r])"
proof (induction es arbitrary: st v)
  case (Cons e es)
  then show ?case
    by (auto simp: replay_state_def add_ac split: sum.splits)
qed (simp add: replay_state_def)

section \<open>Views of the tables after a write\<close>

lemma enqueue_views [simp]:
  "worlds (enqueue_world_event E r db) = worlds db" "events (enqueue_world_event E r db) = events db"
  "snaps (enqueue_world_event E r db) = snaps db"
  by (simp_all add: enqueue_world_event_def Let_def)

lemma enqueue_lookups [simp]:
  "find_world (enqueue_world_event E r db) = find_world db"
  "events_of (enqueue_world_event E r db) = events_of db"
  "find_snap (enqueue_world_event E r db) = find_snap db"
  by (simp_all add: find_world_def [abs_def] events_of_def [abs_def] find_snap_def [abs_def])

lemma views_cong:
  assumes "worlds db' = worlds db" "events db' = events db" "snaps db' = snaps db"
  shows "find_world db' t w = find_world db t w" "events_of db' t w = events_of db t w"
    "find_snap db' t w v = find_snap db t w v" "world_inv E db' t w = world_inv E db t w"
  using assms by (simp_all add: find_world_def events_of_def find_snap_def [abs_def] world_inv_def)

text \<open>
  A write: one event is appended, with its snapshot, and the world's row is created or updated;
  the outbox may change.
\<close>

definition snap_of :: "event_row \<Rightarrow> obj \<Rightarrow> snap_row" where
  "snap_of r st = \<lparr>s_tenant = e_tenant r, s_world = e_world r, s_version = e_resulting r, s_state = st,
     s_sha = e_result_sha r, s_event_hash = e_hash r, s_created = e_created r\<rparr>"

definition written :: "event_row \<Rightarrow> obj \<Rightarrow> wdb \<Rightarrow> wdb \<Rightarrow> bool" where
  "written r st db db' \<longleftrightarrow> (let t = e_tenant r; w = e_world r in
     events db' = events db @ [r] \<and> snaps db' = snaps db @ [snap_of r st]
     \<and> find_snap db t w (e_resulting r) = None
     \<and> (\<forall>t' w'. (t', w') \<noteq> (t, w) \<longrightarrow> find_world db' t' w' = find_world db t' w')
     \<and> (\<exists>x. find_world db' t w = Some x \<and> w_state x = st \<and> w_version x = e_resulting r
          \<and> w_sha x = e_result_sha r \<and> w_updated x = e_created r \<and> w_tenant x = t \<and> w_world x = w))"

lemma written_events:
  "written r st db db' \<Longrightarrow> events_of db' t w =
     (if e_tenant r = t \<and> e_world r = w then events_of db t w @ [r] else events_of db t w)"
  by (auto simp: written_def events_of_def is_event_of_def Let_def)

lemma written_snap:
  "written r st db db' \<Longrightarrow> find_snap db' t w v =
     (if e_tenant r = t \<and> e_world r = w \<and> e_resulting r = v then Some (snap_of r st) else find_snap db t w v)"
  by (auto simp: written_def find_snap_def find_append is_snap_def snap_of_def Let_def split: option.splits)

lemma written_world_other:
  "written r st db db' \<Longrightarrow> e_tenant r \<noteq> t \<or> e_world r \<noteq> w \<Longrightarrow> find_world db' t w = find_world db t w"
  by (auto simp: written_def Let_def)

lemma written_other_inv:
  assumes "written r st db db'" and "e_tenant r \<noteq> t \<or> e_world r \<noteq> w"
  shows "world_inv E db' t w = world_inv E db t w"
proof -
  have "find_snap db' t w = find_snap db t w"
    using written_snap [OF assms(1)] assms(2) by auto
  then show ?thesis
    using written_events [OF assms(1), of t w] written_world_other [OF assms] assms(2)
    by (auto simp: world_inv_def)
qed

text \<open>What a write must satisfy to keep the invariant: it continues the log of its world.\<close>

definition continues :: "pyenv \<Rightarrow> wdb \<Rightarrow> event_row \<Rightarrow> obj \<Rightarrow> bool" where
  "continues E db r st \<longleftrightarrow> (let es = events_of db (e_tenant r) (e_world r) in
     event_sealed E r \<and> e_prev r = last_hash e_hash genesis es
     \<and> e_expected r = int (length es) - 1 \<and> e_resulting r = int (length es)
     \<and> rbind (replay_state E [] es) (\<lambda>s. apply_mutations E s (e_mutations r)) = Inr st
     \<and> e_result_sha r = sha256_json E (JObj st)
     \<and> (es = [] \<longrightarrow> e_type r = ''WORLD_CREATED'' \<and> e_id r = ''WORLD_CREATED'')
     \<and> stripped_id (e_tenant r) \<and> stripped_id (e_world r))"

lemma written_inv:
  assumes inv: "wdb_inv E db" and wr: "written r st db db'" and ct: "continues E db r st"
  shows "wdb_inv E db'"
proof -
  let ?t = "e_tenant r" and ?w = "e_world r"
  let ?es = "events_of db ?t ?w"
  have I: "world_inv E db ?t ?w" using inv by (rule wdb_invD)
  have chain: "chain_ok e_prev e_hash (event_sealed E) genesis ?es"
    and rok: "replay_ok E (find_snap db ?t ?w) [] (-1) ?es"
    and bound: "\<And>v. find_snap db ?t ?w v \<noteq> None \<Longrightarrow> 0 \<le> v \<and> v < int (length ?es)"
    using I by (auto simp: world_inv_def Let_def)
  obtain s where s: "replay_state E [] ?es = Inr s" and a: "apply_mutations E s (e_mutations r) = Inr st"
    using ct by (auto simp: continues_def Let_def rbind_eq_Inr)
  have ct': "event_sealed E r" "e_prev r = last_hash e_hash genesis ?es"
      "e_expected r = int (length ?es) - 1" "e_resulting r = int (length ?es)"
      "e_result_sha r = sha256_json E (JObj st)" "stripped_id ?t" "stripped_id ?w"
    using ct by (auto simp: continues_def Let_def)
  have sn: "find_snap db' ?t ?w = (find_snap db ?t ?w)(int (length ?es) \<mapsto> snap_of r st)"
    using written_snap [OF wr, of ?t ?w] ct'(4) by auto
  have "replay_ok E (find_snap db' ?t ?w) [] (-1) ?es"
    using rok by (subst replay_ok_cong [of _ _ _ "find_snap db ?t ?w"]) (auto simp: sn)
  then have rok': "replay_ok E (find_snap db' ?t ?w) [] (-1) (?es @ [r])"
    using s a ct' by (auto simp: replay_ok_append sn snap_of_def)
  have hd: "e_type (hd (?es @ [r])) = ''WORLD_CREATED'' \<and> e_id (hd (?es @ [r])) = ''WORLD_CREATED''"
  proof (cases "?es = []")
    case True
    then show ?thesis using ct by (auto simp: continues_def Let_def)
  next
    case False
    then show ?thesis using I by (auto simp: world_inv_def Let_def split: option.splits)
  qed
  have ev: "events_of db' ?t ?w = ?es @ [r]"
    using written_events [OF wr, of ?t ?w] by simp
  obtain x where x: "find_world db' ?t ?w = Some x" "w_state x = st" "w_version x = e_resulting r"
      "w_sha x = e_result_sha r"
    using wr by (auto simp: written_def Let_def)
  have "chain_ok e_prev e_hash (event_sealed E) genesis (?es @ [r])"
    using chain ct' by (simp add: chain_ok_append)
  moreover have "\<And>v. find_snap db' ?t ?w v \<noteq> None \<Longrightarrow> 0 \<le> v \<and> v < int (length (?es @ [r]))"
    using bound by (fastforce simp: sn split: if_splits)
  moreover have "replay_state E [] (?es @ [r]) = Inr st"
    using s a by (simp add: replay_state_append)
  ultimately have "world_inv E db' ?t ?w"
    using rok' hd x ct' unfolding world_inv_def ev Let_def by simp
  then show ?thesis
    using inv written_other_inv [OF wr] unfolding wdb_inv_def by metis
qed

section \<open>The operations write\<close>

lemma sealed_seal [simp]: "event_sealed E (seal E r)"
  by (simp add: event_sealed_def seal_def request_sha_def event_sha_def row_request_fields_def)

lemma seal_fields [simp]:
  "e_tenant (seal E r) = e_tenant r" "e_world (seal E r) = e_world r" "e_id (seal E r) = e_id r"
  "e_type (seal E r) = e_type r" "e_actor (seal E r) = e_actor r" "e_expected (seal E r) = e_expected r"
  "e_mutations (seal E r) = e_mutations r" "e_resulting (seal E r) = e_resulting r"
  "e_result_sha (seal E r) = e_result_sha r" "e_prev (seal E r) = e_prev r"
  "e_created (seal E r) = e_created r" "e_auth (seal E r) = e_auth r" "e_lineage (seal E r) = e_lineage r"
  "e_request_sha (seal E r) = request_sha E r"
  by (simp_all add: seal_def)

lemma request_sha_cong:
  "row_request_fields r = row_request_fields s \<Longrightarrow> request_sha E r = request_sha E s"
  by (simp add: request_sha_def)

lemma find_world_D: "find_world db t w = Some x \<Longrightarrow> w_tenant x = t \<and> w_world x = w"
  by (auto simp: find_world_def is_world_def dest: find_Some_D)

lemma find_event_D: "find_event db t w i = Some e \<Longrightarrow> e \<in> set (events_of db t w) \<and> e_id e = i"
  by (auto simp: find_event_def dest: find_Some_D)

lemma written_update:
  assumes x: "find_world db t w = Some x" and r: "e_tenant r = t" "e_world r = w"
    and i: "insert_event r db = Inr db1" "insert_snap r st db1 = Inr db2"
  shows "written r st db (enqueue_world_event E r (update_world r st db2))"
proof -
  have d: "db2 = db\<lparr>events := events db @ [r], snaps := snaps db @ [snap_of r st]\<rparr>"
    and n: "find_snap db t w (e_resulting r) = None"
    using i r by (auto simp: insert_event_def insert_snap_def require_eq_Inr snap_of_def find_snap_def)
  let ?f = "\<lambda>x. x\<lparr>w_version := e_resulting r, w_state := st, w_sha := e_result_sha r, w_updated := e_created r\<rparr>"
  have keep: "is_world t w x \<Longrightarrow> is_world t w (?f x)" for x
    by (simp add: is_world_def)
  have upd: "worlds (update_world r st db2) = map (\<lambda>x. if is_world t w x then ?f x else x) (worlds db)"
    using r by (simp add: update_world_def d)
  have u: "find_world (update_world r st db2) t' w' =
      (if t' = t \<and> w' = w then map_option ?f (find_world db t w) else find_world db t' w')" for t' w'
  proof (cases "t' = t \<and> w' = w")
    case True
    then show ?thesis
      using find_update_same [of "is_world t w" ?f, OF keep] by (simp add: find_world_def upd)
  next
    case False
    then have "List.find (is_world t' w') (map (\<lambda>x. if is_world t w x then ?f x else x) (worlds db))
        = List.find (is_world t' w') (worlds db)"
      by (intro find_update_other) (auto simp: is_world_def)
    with False show ?thesis by (auto simp: find_world_def upd)
  qed
  have "w_tenant x = t" "w_world x = w" using find_world_D [OF x] by auto
  then show ?thesis
    using x n r
    by (auto simp: written_def Let_def u) (simp_all add: update_world_def d)
qed

lemma written_insert:
  assumes r: "e_tenant r = t" "e_world r = w" "e_resulting r = 0"
    and i: "insert_world r st db = Inr db0" "insert_event r db0 = Inr db1" "insert_snap r st db1 = Inr db2"
  shows "written r st db (enqueue_world_event E r db2) \<and> find_world db t w = None"
proof -
  let ?x = "\<lparr>w_tenant = t, w_world = w, w_version = 0, w_state = st, w_sha = e_result_sha r,
      w_created = e_created r, w_updated = e_created r\<rparr>"
  have d: "db2 = db\<lparr>worlds := worlds db @ [?x], events := events db @ [r], snaps := snaps db @ [snap_of r st]\<rparr>"
    and n: "find_snap db t w 0 = None" and z: "find_world db t w = None"
    using i r by (auto simp: insert_world_def insert_event_def insert_snap_def require_eq_Inr snap_of_def
        find_snap_def)
  have "find_world db2 t' w' = (if t' = t \<and> w' = w then Some ?x else find_world db t' w')" for t' w'
    using z by (auto simp: d find_world_def find_append is_world_def split: option.splits)
  then show ?thesis
    using n r z by (auto simp: written_def Let_def) (simp_all add: d)
qed

text \<open>What a successful append did: a replay of an event already there, or a write.\<close>

lemma append_event_cases:
  assumes "append_event E now t0 w0 i0 ty0 raws a0 ev auth0 lin0 ts db = Inr (db', sn)"
  obtains (replayed) t w i ms d s ty a auth lin where "world_identifier ''tenant_id'' t0 = Inr t"
      "world_identifier ''world_id'' w0 = Inr w" "world_identifier ''event_id'' i0 = Inr i"
      "normalize_mutations E raws = Inr ms" "find_event db t w i = Some d" "db' = db"
      "find_snap db t w (e_resulting d) = Some s" "sn = snapshot_of_snap s"
      "world_identifier ''event_type'' ty0 = Inr ty" "world_identifier ''actor_id'' a0 = Inr a"
      "authorization_ref_check auth0 = Inr auth" "lineage_check lin0 = Inr lin"
      "e_request_sha d = sha256_json E (mk_obj (request_fields t w i ty a ev (map mutation_json ms) auth lin))"
    | (fresh) t w i ms x r st ty a auth lin where "world_identifier ''tenant_id'' t0 = Inr t"
      "world_identifier ''world_id'' w0 = Inr w" "world_identifier ''event_id'' i0 = Inr i"
      "normalize_mutations E raws = Inr ms" "find_event db t w i = None" "find_world db t w = Some x"
      "w_version x = ev" "e_tenant r = t" "e_world r = w" "e_id r = i" "e_mutations r = map mutation_json ms"
      "e_expected r = ev" "e_resulting r = ev + 1" "e_prev r = last_hash e_hash genesis (events_of db t w)"
      "event_sealed E r" "apply_mutations E (w_state x) (e_mutations r) = Inr st"
      "e_result_sha r = sha256_json E (JObj st)" "written r st db db'" "sn = snapshot_of_snap (snap_of r st)"
      "world_identifier ''event_type'' ty0 = Inr ty" "world_identifier ''actor_id'' a0 = Inr a"
      "authorization_ref_check auth0 = Inr auth" "lineage_check lin0 = Inr lin"
      "e_request_sha r = sha256_json E (mk_obj (request_fields t w i ty a ev (map mutation_json ms) auth lin))"
proof -
  from assms obtain t w i ty a auth ms lin where ids: "world_identifier ''tenant_id'' t0 = Inr t"
      "world_identifier ''world_id'' w0 = Inr w" "world_identifier ''event_id'' i0 = Inr i"
      "world_identifier ''event_type'' ty0 = Inr ty" "world_identifier ''actor_id'' a0 = Inr a"
      "authorization_ref_check auth0 = Inr auth"
      "normalize_mutations E raws = Inr ms" "lineage_check lin0 = Inr lin"
    by (auto simp: append_event_def rbind_eq_Inr)
  note st = world_identifier_stripped [OF ids(1)] world_identifier_stripped [OF ids(2)]
  show thesis
  proof (cases "find_event db t w i")
    case (Some d)
    with assms obtain s where "find_snap db t w (e_resulting d) = Some s" "sn = snapshot_of_snap s" "db' = db"
        "e_request_sha d = sha256_json E (mk_obj (request_fields t w i ty a ev (map mutation_json ms) auth lin))"
      by (auto simp: append_event_def ids Let_def require_eq_Inr request_sha_def row_request_fields_def
          split: option.splits)
    with Some ids show thesis by (intro replayed)
  next
    case None
    define r0 where "r0 = \<lparr>e_tenant = t, e_world = w, e_id = i, e_type = ty, e_actor = a,
                  e_expected = ev, e_mutations = map mutation_json ms,
                  e_auth = auth, e_lineage = lin, e_request_sha = [], e_resulting = 0,
                  e_result_sha = [], e_prev = [], e_hash = [], e_created = or_now ts now\<rparr>"
    from assms None obtain x where x: "find_world db t w = Some x" "w_version x = ev"
      by (auto simp: append_event_def ids Let_def require_eq_Inr split: option.splits)
    with assms None obtain state where state: "apply_mutations E (w_state x) (map mutation_json ms) = Inr state"
      by (auto simp: append_event_def ids Let_def require_eq_Inr rbind_eq_Inr)
    define r where "r = seal E (r0\<lparr>e_resulting := w_version x + 1, e_result_sha := sha256_json E (JObj state),
                  e_prev := last_hash e_hash genesis (events_of db t w)\<rparr>)"
    from assms None x state obtain db1 db2 where i: "insert_event r db = Inr db1" "insert_snap r state db1 = Inr db2"
      and db': "db' = enqueue_world_event E r (update_world r state db2)"
      and s: "state_at t w (w_version x + 1) db' = Inr sn"
      by (auto simp: append_event_def ids Let_def rbind_eq_Inr r_def r0_def)
    have f: "e_tenant r = t" "e_world r = w" "e_id r = i" "e_mutations r = map mutation_json ms"
      "e_expected r = ev" "e_resulting r = ev + 1" "e_prev r = last_hash e_hash genesis (events_of db t w)"
      "e_result_sha r = sha256_json E (JObj state)" "event_sealed E r"
      "e_request_sha r = sha256_json E (mk_obj (request_fields t w i ty a ev (map mutation_json ms) auth lin))"
      using x by (simp_all add: r_def r0_def request_sha_def row_request_fields_def)
    have wr: "written r state db db'"
      unfolding db' using x(1) f(1,2) i by (rule written_update)
    have "sn = snapshot_of_snap (snap_of r state)"
      using s written_snap [OF wr, of t w "ev + 1"] f x(2)
      by (auto simp: state_at_def world_identifier_id [OF st(1)] world_identifier_id [OF st(2)] rbind_eq_Inr)
    with ids None x f wr state show thesis by (intro fresh) auto
  qed
qed

text \<open>The current row of a world continues its log.\<close>

lemma fresh_continues:
  assumes "wdb_inv E db" and "find_world db t w = Some x" and "w_version x = ev"
    and "e_tenant r = t" "e_world r = w" "e_expected r = ev" "e_resulting r = ev + 1"
    and "e_prev r = last_hash e_hash genesis (events_of db t w)" "event_sealed E r"
    and "apply_mutations E (w_state x) (e_mutations r) = Inr st" "e_result_sha r = sha256_json E (JObj st)"
  shows "continues E db r st"
  using wdb_invD [OF assms(1), of t w] assms(2-)
  by (auto simp: world_inv_def continues_def Let_def)

theorem append_event_inv:
  assumes "wdb_inv E db" and "append_event E now t0 w0 i0 ty0 raws a0 ev auth0 lin0 ts db = Inr (db', sn)"
  shows "wdb_inv E db'"
  using assms(2)
proof (cases rule: append_event_cases)
  case (fresh t w i ms x r st)
  show ?thesis
    by (rule written_inv [OF assms(1) fresh(18) fresh_continues [OF assms(1) fresh(6,7,8,9,12-17)]])
qed (use assms(1) in simp)

lemma apply_replace_root:
  "obj_finite st \<Longrightarrow> obj_finite s \<Longrightarrow>
     apply_mutations E s [mutation_json (REPLACE_ROOT (JObj st))] = Inr st"
  using normalize_mutation_json [of "REPLACE_ROOT (JObj st)" E 0]
  by (simp add: apply_mutations_def json_object_def normalize_mutations_def mutation_ok_def
      apply_mutation_def is_replace_root_def)

lemma create_world_cases:
  assumes "create_world E now t0 w0 init a0 auth0 lin0 ts db = Inr (db', sn)"
  obtains (existing) t w x e where "world_identifier ''tenant_id'' t0 = Inr t"
      "world_identifier ''world_id'' w0 = Inr w" "find_world db t w = Some x"
      "find_event db t w ''WORLD_CREATED'' = Some e" "db' = db" "sn = snapshot_of_world x (Some (e_hash e))"
    | (created) t w r st where "world_identifier ''tenant_id'' t0 = Inr t"
      "world_identifier ''world_id'' w0 = Inr w" "init = JObj st" "obj_finite st" "e_tenant r = t" "e_world r = w"
      "e_id r = ''WORLD_CREATED''" "e_type r = ''WORLD_CREATED''"
      "e_mutations r = [mutation_json (REPLACE_ROOT (JObj st))]" "e_expected r = -1" "e_resulting r = 0"
      "e_prev r = genesis" "event_sealed E r" "e_result_sha r = sha256_json E (JObj st)"
      "find_world db t w = None" "written r st db db'" "sn = snapshot_of_snap (snap_of r st)"
proof -
  from assms obtain t w a auth st lin where ids: "world_identifier ''tenant_id'' t0 = Inr t"
      "world_identifier ''world_id'' w0 = Inr w" "world_identifier ''actor_id'' a0 = Inr a"
      "authorization_ref_check auth0 = Inr auth" "json_object ''initial_state'' init = Inr st"
      "lineage_check lin0 = Inr lin"
    by (auto simp: create_world_def rbind_eq_Inr)
  have init: "init = JObj st" "obj_finite st"
    using ids(5) by (auto simp: json_object_def require_eq_Inr split: json.splits)
  note strip = world_identifier_stripped [OF ids(1)] world_identifier_stripped [OF ids(2)]
  define r where "r = seal E \<lparr>e_tenant = t, e_world = w, e_id = ''WORLD_CREATED'', e_type = ''WORLD_CREATED'',
                  e_actor = a, e_expected = -1, e_mutations = [mutation_json (REPLACE_ROOT (JObj st))],
                  e_auth = auth, e_lineage = lin, e_request_sha = [], e_resulting = 0,
                  e_result_sha = sha256_json E (JObj st), e_prev = genesis, e_hash = [],
                  e_created = or_now ts now\<rparr>"
  note a' = assms [unfolded create_world_def ids rbind_simps Let_def, folded r_def]
  show thesis
  proof (cases "\<exists>x e. find_world db t w = Some x \<and> find_event db t w ''WORLD_CREATED'' = Some e")
    case True
    then obtain x e where x: "find_world db t w = Some x" "find_event db t w ''WORLD_CREATED'' = Some e"
      by blast
    with a' have "db' = db" "sn = snapshot_of_world x (Some (e_hash e))"
      by (simp_all add: require_eq_Inr)
    with ids(1,2) x show thesis by (intro existing)
  next
    case False
    with a' obtain db0 db1 db2 where i: "insert_world r st db = Inr db0" "insert_event r db0 = Inr db1"
        "insert_snap r st db1 = Inr db2" and db': "db' = enqueue_world_event E r db2"
      and s: "state_at t w 0 db' = Inr sn"
      by (auto simp: rbind_eq_Inr split: option.splits)
    have f: "e_tenant r = t" "e_world r = w" "e_resulting r = 0" by (simp_all add: r_def)
    note wr = written_insert [OF f i, of E, folded db']
    have "sn = snapshot_of_snap (snap_of r st)"
      using s written_snap [OF wr [THEN conjunct1], of t w 0] f
      by (auto simp: state_at_def world_identifier_id [OF strip(1)] world_identifier_id [OF strip(2)] rbind_eq_Inr)
    with ids(1,2) init wr show thesis
      by (intro created [of t w st r]) (simp_all add: r_def)
  qed
qed

theorem create_world_inv:
  assumes "wdb_inv E db" and "create_world E now t0 w0 init a0 auth0 lin0 ts db = Inr (db', sn)"
  shows "wdb_inv E db'"
  using assms(2)
proof (cases rule: create_world_cases)
  case (created t w r st)
  have "events_of db t w = []"
    using wdb_invD [OF assms(1), of t w] created(15) by (simp add: world_inv_def Let_def)
  then have "continues E db r st"
    using created world_identifier_stripped [OF created(1)] world_identifier_stripped [OF created(2)]
    by (simp add: continues_def replay_state_def apply_replace_root)
  then show ?thesis by (rule written_inv [OF assms(1) created(16)])
qed (use assms(1) in simp)

end
