(* ===== verification/WorldProps.thy ===== *)
theory WorldProps
  imports WorldInv
begin

text \<open>
  Runs of the world store and what they guarantee. A step is one committed transaction of the
  store, or a delivery transaction, which touches the outbox and its audit only.
\<close>

inductive world_step :: "pyenv \<Rightarrow> wdb \<Rightarrow> wdb \<Rightarrow> bool" for E where
  create: "create_world E now t w init a auth lin ts db = Inr (db', sn) \<Longrightarrow> world_step E db db'"
| append: "append_event E now t w i ty raws a ev auth lin ts db = Inr (db', sn) \<Longrightarrow> world_step E db db'"
| restore: "restore_version E now t w v i a ev auth ts db = Inr (db', sn) \<Longrightarrow> world_step E db db'"
| deliver: "world_step E db (db\<lparr>outbox := q, audit := l\<rparr>)"

inductive world_run :: "pyenv \<Rightarrow> wdb \<Rightarrow> wdb \<Rightarrow> bool" for E where
  run_refl: "world_run E db db"
| run_step: "world_run E db db' \<Longrightarrow> world_step E db' db'' \<Longrightarrow> world_run E db db''"

abbreviation world_reachable :: "pyenv \<Rightarrow> wdb \<Rightarrow> bool" where
  "world_reachable E \<equiv> world_run E init_wdb"

lemma restore_is_append:
  assumes "restore_version E now t w v i a ev auth ts db = Inr (db', sn)"
  obtains target where "state_at t w v db = Inr target"
    "append_event E now t w i ''WORLD_RESTORED'' [mutation_json (REPLACE_ROOT (JObj (sn_state target)))] a ev auth
       [''snapshot:'' @ w @ ''@'' @ int_text v @ '':'' @ sn_sha target] ts db = Inr (db', sn)"
  using assms by (auto simp: restore_version_def rbind_eq_Inr)

lemma world_step_inv: "world_step E db db' \<Longrightarrow> wdb_inv E db \<Longrightarrow> wdb_inv E db'"
proof (induction rule: world_step.induct)
  case (restore now t w v i a ev auth ts db db' sn)
  then show ?case by (auto elim: restore_is_append intro: append_event_inv)
next
  case (deliver db l q)
  have "world_inv E (db\<lparr>outbox := q, audit := l\<rparr>) t w = world_inv E db t w" for t w
    by (rule views_cong(4)) simp_all
  with deliver show ?case by (simp add: wdb_inv_def)
qed (auto intro: create_world_inv append_event_inv)

lemma world_run_inv: "world_run E db db' \<Longrightarrow> wdb_inv E db \<Longrightarrow> wdb_inv E db'"
  by (induction rule: world_run.induct) (auto intro: world_step_inv)

lemma world_run_trans: "world_run E db db' \<Longrightarrow> world_run E db' db'' \<Longrightarrow> world_run E db db''"
  by (rotate_tac, induction rule: world_run.induct) (auto intro: world_run.run_step)

lemma reachable_inv: "world_reachable E db \<Longrightarrow> wdb_inv E db"
  using world_run_inv wdb_inv_init by blast

text \<open>Every event is stored under an identifier without surrounding blanks.\<close>

definition ids_stripped :: "wdb \<Rightarrow> bool" where
  "ids_stripped db \<longleftrightarrow> (\<forall>r \<in> set (events db). stripped_id (e_id r))"

lemma append_ids_stripped:
  assumes "append_event E now t w i ty raws a ev auth lin ts db = Inr (db', sn)" and "ids_stripped db"
  shows "ids_stripped db'"
  using assms(1)
proof (cases rule: append_event_cases)
  case (fresh t' w' i' ms x r st)
  then show ?thesis using assms(2) world_identifier_stripped [OF fresh(3)]
    by (auto simp: ids_stripped_def written_def Let_def)
qed (use assms(2) in simp)

lemma world_step_ids: "world_step E db db' \<Longrightarrow> ids_stripped db \<Longrightarrow> ids_stripped db'"
proof (induction rule: world_step.induct)
  case (create now t w init a auth lin ts db db' sn)
  have "stripped_id ''WORLD_CREATED''" unfolding stripped_id_def by code_simp
  with create show ?case by (cases rule: create_world_cases) (auto simp: ids_stripped_def written_def Let_def)
next
  case (restore now t w v i a ev auth ts db db' sn)
  then show ?case by (auto elim: restore_is_append intro: append_ids_stripped)
next
  case (append now t w i ty raws a ev auth lin ts db db' sn)
  then show ?case by (auto intro: append_ids_stripped)
qed (simp add: ids_stripped_def)

lemma world_run_ids: "world_run E db db' \<Longrightarrow> ids_stripped db \<Longrightarrow> ids_stripped db'"
  by (induction rule: world_run.induct) (auto intro: world_step_ids)

lemma reachable_ids: "world_reachable E db \<Longrightarrow> ids_stripped db"
  by (erule world_run_ids) (simp add: ids_stripped_def init_wdb_def)

section \<open>Verification passes\<close>

lemma apply_mutations_nan_free:
  assumes "apply_mutations E s raws = Inr s'"
  shows "json_nan_free (JObj s')"
proof -
  from assms obtain rows where fin: "obj_finite s" and rows: "normalize_mutations E raws = Inr rows"
    and f: "rfold apply_mutation rows s = Inr s'"
    by (auto simp: apply_mutations_def rbind_eq_Inr json_object_def require_eq_Inr)
  have "list_all mutation_ok rows" using rows by (rule normalize_mutations_ok)
  then have ok: "m \<in> set rows \<Longrightarrow> mutation_ok m" for m by (simp add: list_all_iff)
  show ?thesis
    by (rule rfold_invariant [where P = "\<lambda>s. json_nan_free (JObj s)" and f = apply_mutation, OF _ _ f])
      (use fin in \<open>auto intro: apply_mutation_nan_free ok json_finite_nan_free simp del: json_nan_free.simps json_finite.simps\<close>)
qed

lemma state_at_stripped:
  "stripped_id t \<Longrightarrow> stripped_id w \<Longrightarrow> state_at t w v db =
     (case find_snap db t w v of None \<Rightarrow> Inl SnapshotNotFound | Some r \<Rightarrow> Inr (snapshot_of_snap r))"
  by (simp add: state_at_def world_identifier_id)

abbreviation replay_checks_ok :: "world_checks \<Rightarrow> bool" where
  "replay_checks_ok c \<equiv> event_hash_chain_valid c \<and> versions_contiguous c \<and> snapshots_match_replay c"

lemma replay_loop:
  assumes "stripped_id t" "stripped_id w"
  shows "chain_ok e_prev e_hash (event_sealed E) h es \<Longrightarrow> replay_ok E (find_snap db t w) st v es \<Longrightarrow>
    st = (case so of None \<Rightarrow> [] | Some s \<Rightarrow> s) \<Longrightarrow> replay_checks_ok c \<Longrightarrow>
    rfold (replay_step E db t w) es \<lparr>rp_hash = h, rp_version = v, rp_state = so, rp_checks = c\<rparr> =
      rbind (replay_state E st es) (\<lambda>st'. Inr \<lparr>rp_hash = last_hash e_hash h es, rp_version = v + int (length es),
        rp_state = (if es = [] then so else Some st'), rp_checks = c\<rparr>)"
proof (induction es arbitrary: h v st so c)
  case (Cons r es)
  from Cons.prems(2) obtain st' s where a: "apply_mutations E st (e_mutations r) = Inr st'"
    and r: "e_expected r = v" "e_resulting r = v + 1" "e_result_sha r = sha256_json E (JObj st')"
    and s: "find_snap db t w (v + 1) = Some s" "s_state s = st'" "s_sha s = e_result_sha r"
    and rest: "replay_ok E (find_snap db t w) st' (v + 1) es"
    by (auto split: sum.splits option.splits)
  have j: "jeq (JObj st') (JObj st')"
    by (rule jeq_refl_nan_free) (rule apply_mutations_nan_free [OF a])
  have "replay_step E db t w r \<lparr>rp_hash = h, rp_version = v, rp_state = so, rp_checks = c\<rparr> =
      Inr \<lparr>rp_hash = e_hash r, rp_version = v + 1, rp_state = Some st', rp_checks = c\<rparr>"
    using Cons.prems a r s j
    by (auto simp: replay_step_def state_at_stripped [OF assms] snapshot_of_snap_def event_sealed_def)
  then show ?case
    using Cons.prems(1,4) a Cons.IH [OF _ rest, of "e_hash r" "Some st'" c]
    by (cases "replay_state E st' es") (auto simp: replay_state_def add_ac)
qed (simp add: replay_state_def)

lemma inv_world_verifies:
  assumes "wdb_inv E db" and "find_world db t w = Some x"
  shows "\<exists>c. verify_world E t w db = Inr c \<and> checks_passed c"
proof -
  let ?es = "events_of db t w"
  have I: "world_inv E db t w" using assms(1) by (rule wdb_invD)
  then have ids: "stripped_id t" "stripped_id w" and es: "?es \<noteq> []" "e_type (hd ?es) = ''WORLD_CREATED''"
    and st: "replay_state E [] ?es = Inr (w_state x)" "w_sha x = sha256_json E (JObj (w_state x))"
    using assms(2) by (auto simp: world_inv_def Let_def)
  have log: "event_log t w db = Inr ?es" and cur: "get_world t w db = Inr (snapshot_of_world x (Some (e_hash (last ?es))))"
    using assms(2) es ids by (simp_all add: event_log_def get_world_def world_identifier_id)
  obtain r rs where "?es = rs @ [r]" using es by (metis rev_exhaust)
  then obtain s where "apply_mutations E s (e_mutations r) = Inr (w_state x)"
    using st(1) by (auto simp: replay_state_append rbind_eq_Inr)
  then have j: "jeq (JObj (w_state x)) (JObj (w_state x))"
    by (intro jeq_refl_nan_free apply_mutations_nan_free)
  have "chain_ok e_prev e_hash (event_sealed E) genesis ?es" "replay_ok E (find_snap db t w) [] (-1) ?es"
    using I by (auto simp: world_inv_def Let_def)
  note loop = replay_loop [OF ids this, of None]
  show ?thesis
    using loop es st j by (simp add: verify_world_def log cur checks_passed_def snapshot_of_world_def)
qed

text \<open>
  C1. Whatever sequence of creations, appends, restores and deliveries a database has been
  through, verification by replay of any world in it passes: the hash chain, the contiguity of
  versions, every snapshot and the current state.
\<close>

theorem reachable_world_verifies:
  assumes "world_reachable E db" and "find_world db t w = Some x"
  shows "\<exists>c. verify_world E t w db = Inr c \<and> checks_passed c"
  using assms by (intro inv_world_verifies reachable_inv)

section \<open>Verification is sound\<close>

lemma replay_loop_sound:
  "rfold (replay_step E db t w) es p = Inr p' \<Longrightarrow> event_hash_chain_valid (rp_checks p') \<Longrightarrow>
     event_hash_chain_valid (rp_checks p) \<and> chain_ok e_prev e_hash (event_sealed E) (rp_hash p) es"
proof (induction es arbitrary: p)
  case (Cons r es)
  from Cons.prems(1) obtain q where q: "replay_step E db t w r p = Inr q"
    and f: "rfold (replay_step E db t w) es q = Inr p'"
    by (auto elim: rbindE)
  from Cons.IH [OF f Cons.prems(2)] q show ?case
    by (auto simp: replay_step_def rbind_eq_Inr event_sealed_def Let_def)
qed auto

interpretation world_log: hash_chain e_prev e_hash "event_sealed E" "\<lambda>r p. seal E (r\<lparr>e_prev := p\<rparr>)" for E
  by unfold_locales simp_all

lemma verified_chain:
  assumes "verify_world E t w db = Inr c" and "checks_passed c" and "event_log t w db = Inr es"
  shows "chain_ok e_prev e_hash (event_sealed E) genesis es"
  using assms by (auto simp: verify_world_def rbind_eq_Inr checks_passed_def Let_def dest: replay_loop_sound)

text \<open>The document that the store hashes for an event, and that a sealed row is determined by it.\<close>

definition event_doc :: "event_row \<Rightarrow> json" where
  "event_doc r = mk_obj (row_request_fields r @
     [(''resulting_version'', JInt (e_resulting r)),
      (''resulting_state_sha256'', JStr (e_result_sha r)),
      (''previous_hash'', JStr (e_prev r)), (''created_at'', JStr (e_created r))])"

lemma event_sha_doc: "event_sha E r = sha256_json E (event_doc r)"
  by (simp add: event_sha_def event_doc_def)

lemma event_doc_inject:
  assumes "event_sealed E r" and "event_sealed E s" and "event_doc r = event_doc s"
  shows "r = s"
proof -
  let ?f = "\<lambda>r. row_request_fields r @ [(''resulting_version'', JInt (e_resulting r)),
      (''resulting_state_sha256'', JStr (e_result_sha r)),
      (''previous_hash'', JStr (e_prev r)), (''created_at'', JStr (e_created r))]"
  have d: "distinct (map fst (?f x))" for x by (simp add: row_request_fields_def request_fields_def)
  have "dict_get (?f r) k = dict_get (?f s) k" for k
    using assms(3) dict_of_get [OF d, of r] dict_of_get [OF d, of s] by (simp add: event_doc_def mk_obj_def)
  note eq = this [of "''tenant_id''"] this [of "''world_id''"] this [of "''event_id''"] this [of "''event_type''"]
    this [of "''actor_id''"] this [of "''expected_version''"] this [of "''mutations''"] this [of "''authorization_ref''"]
    this [of "''source_lineage''"] this [of "''resulting_version''"] this [of "''resulting_state_sha256''"]
    this [of "''previous_hash''"] this [of "''created_at''"]
  have j: "inj JStr" by (simp add: inj_def)
  have "row_request_fields r = row_request_fields s \<and> e_resulting r = e_resulting s \<and> e_result_sha r = e_result_sha s
      \<and> e_prev r = e_prev s \<and> e_created r = e_created s \<and> e_tenant r = e_tenant s \<and> e_world r = e_world s
      \<and> e_id r = e_id s \<and> e_type r = e_type s \<and> e_actor r = e_actor s \<and> e_expected r = e_expected s
      \<and> e_mutations r = e_mutations s \<and> e_auth r = e_auth s \<and> e_lineage r = e_lineage s"
    using eq by (simp add: row_request_fields_def request_fields_def jstrs_def inj_map_eq_map [OF j])
  then show ?thesis
    using assms by (intro event_row.equality) (auto simp: event_sealed_def event_sha_doc request_sha_def)
qed

lemma sealed_not_genesis: "event_sealed E r \<Longrightarrow> e_hash r \<noteq> genesis"
  by (simp add: event_sealed_def event_sha_def sha256_json_def sha256_text_def)

text \<open>
  C10. Tamper evidence: two databases that both pass verification for a world and agree on the
  hash of its latest event hold the same event log for it, every column of every row, unless two
  of the event documents that verification hashed again are a collision of the hash. The stored
  hashes are not trusted: a row edited under its old hash fails the verification.
\<close>

theorem verified_log_determined_by_head:
  assumes "verify_world E t w db = Inr c" and "checks_passed c" and "event_log t w db = Inr es"
    and "verify_world E t w db' = Inr c'" and "checks_passed c'" and "event_log t w db' = Inr es'"
    and "last_hash e_hash genesis es = last_hash e_hash genesis es'"
    and "inj_on (sha256_json E) (event_doc ` (set es \<union> set es'))"
  shows "es = es'"
proof (rule world_log.valid_determined [OF verified_chain [OF assms(1-3)] verified_chain [OF assms(4-6)] assms(7)])
  fix r s
  assume rs: "r \<in> set es" "s \<in> set es'" and sealed: "event_sealed E r" "event_sealed E s" and "e_hash r = e_hash s"
  then have "event_doc r = event_doc s"
    by (intro inj_onD [OF assms(8)]) (auto simp: event_sealed_def event_sha_doc)
  with sealed show "r = s" by (rule event_doc_inject)
qed (rule sealed_not_genesis)

section \<open>Histories only grow\<close>

lemma written_grows:
  assumes "written r st db db'"
  shows "\<exists>es ss. events db' = events db @ es \<and> snaps db' = snaps db @ ss"
  using assms by (auto simp: written_def Let_def)

lemma append_grows:
  assumes "append_event E now t w i ty raws a ev auth lin ts db = Inr (db', sn)"
  shows "\<exists>es ss. events db' = events db @ es \<and> snaps db' = snaps db @ ss"
  using assms by (cases rule: append_event_cases) (auto dest: written_grows)

lemma world_step_grows: "world_step E db db' \<Longrightarrow> \<exists>es ss. events db' = events db @ es \<and> snaps db' = snaps db @ ss"
proof (induction rule: world_step.induct)
  case (create now t w init a auth lin ts db db' sn)
  then show ?case by (cases rule: create_world_cases) (auto dest: written_grows)
next
  case (restore now t w v i a ev auth ts db db' sn)
  then show ?case by (auto elim: restore_is_append dest: append_grows)
qed (auto dest: append_grows)

lemma world_run_grows: "world_run E db db' \<Longrightarrow> \<exists>es ss. events db' = events db @ es \<and> snaps db' = snaps db @ ss"
  by (induction rule: world_run.induct) (fastforce dest: world_step_grows)+

lemma run_find_event:
  "world_run E db db' \<Longrightarrow> find_event db t w i = Some d \<Longrightarrow> find_event db' t w i = Some d"
  by (drule world_run_grows) (auto simp: find_event_def events_of_def find_append)

lemma run_find_snap:
  "world_run E db db' \<Longrightarrow> find_snap db t w v = Some s \<Longrightarrow> find_snap db' t w v = Some s"
  by (drule world_run_grows) (auto simp: find_snap_def find_append)

text \<open>
  C11. Stored history is immutable: along any run every earlier event and every earlier snapshot
  is still stored, in the same order, and a snapshot that could be read can be read unchanged.
\<close>

theorem history_is_immutable:
  assumes "world_run E db db'"
  shows "take (length (events db)) (events db') = events db \<and> take (length (snaps db)) (snaps db') = snaps db
    \<and> (\<forall>t w v s. state_at t w v db = Inr s \<longrightarrow> state_at t w v db' = Inr s)"
  using world_run_grows [OF assms] run_find_snap [OF assms]
  by (fastforce simp: state_at_def rbind_eq_Inr split: option.splits)

lemma append_event_again:
  assumes "append_event E now t w i ty raws a ev auth lin ts db = Inr (db1, sn)"
    and "world_run E db1 db2"
  shows "append_event E now' t w i ty raws a ev auth lin ts' db2 = Inr (db2, sn)"
  using assms(1)
proof (cases rule: append_event_cases)
  case (replayed t' w' i' ms d s ty' a' auth' lin')
  then have "find_event db2 t' w' i' = Some d" "find_snap db2 t' w' (e_resulting d) = Some s"
    using run_find_event [OF assms(2)] run_find_snap [OF assms(2)] by auto
  with replayed show ?thesis
    by (simp add: append_event_def request_sha_def row_request_fields_def)
next
  case (fresh t' w' i' ms x r st ty' a' auth' lin')
  then have "find_event db1 t' w' i' = Some r" "find_snap db1 t' w' (e_resulting r) = Some (snap_of r st)"
    using written_events [OF fresh(18), of t' w'] written_snap [OF fresh(18), of t' w' "ev + 1"]
    by (simp_all add: find_event_def find_append)
  then have "find_event db2 t' w' i' = Some r" "find_snap db2 t' w' (e_resulting r) = Some (snap_of r st)"
    using run_find_event [OF assms(2)] run_find_snap [OF assms(2)] by auto
  with fresh show ?thesis
    by (simp add: append_event_def request_sha_def row_request_fields_def)
qed

text \<open>
  C5. Appending is idempotent: once an append has succeeded, repeating the request at any later
  time, with any clock, changes nothing and returns the same snapshot, however far the world
  has moved on.
\<close>

theorem append_event_idempotent:
  assumes "append_event E now t w i ty raws a ev auth lin ts db = Inr (db1, sn)"
    and "world_run E db1 db2"
  shows "append_event E now' t w i ty raws a ev auth lin ts' db2 = Inr (db2, sn)"
  using assms by (rule append_event_again)

section \<open>Optimistic concurrency\<close>

lemma append_effectE:
  assumes "append_event E now t w i ty raws a ev auth lin ts db = Inr (db', sn)"
    and "stripped_id t" "stripped_id w" "stripped_id i" and "find_event db t w i = None"
  obtains x x' r where "find_world db t w = Some x" "w_version x = ev" "find_world db' t w = Some x'"
    "w_version x' = ev + 1" "apply_mutations E (w_state x) raws = Inr (w_state x')"
    "sn_state sn = w_state x'" "sn_version sn = ev + 1" "state_at t w (ev + 1) db' = Inr sn"
    "written r (w_state x') db db'" "e_tenant r = t" "e_world r = w"
  using assms(1)
proof (cases rule: append_event_cases)
  case (replayed t' w' i' ms d s)
  then show ?thesis using assms by (auto simp: world_identifier_id)
next
  case (fresh t' w' i' ms x r st)
  then have [simp]: "t' = t" "w' = w" "i' = i"
    using assms by (auto simp: world_identifier_id)
  obtain x' where x': "find_world db' t w = Some x'" "w_state x' = st" "w_version x' = ev + 1"
    using fresh by (auto simp: written_def Let_def)
  have raws: "apply_mutations E (w_state x) raws = Inr st"
    using fresh(4,16) normalize_mutations_idem [OF fresh(4)] fresh(11)
    by (simp add: apply_mutations_def rbind_eq_Inr)
  have "state_at t w (ev + 1) db' = Inr sn"
    using fresh assms written_snap [OF fresh(18)] by (simp add: state_at_stripped)
  then show ?thesis
    using fresh x' raws by (intro that [of x x' r]) (simp_all add: snapshot_of_snap_def snap_of_def)
qed

text \<open>
  C4. Effect of a fresh append: it is accepted only at the world's current version, advances it
  by one, and the world's new state, its snapshot and the returned state are the result of the
  mutations on the old state; no other world is touched.
\<close>

theorem append_event_effect:
  assumes "append_event E now t w i ty raws a ev auth lin ts db = Inr (db', sn)"
    and "stripped_id t" "stripped_id w" "stripped_id i" and "find_event db t w i = None"
  shows "\<exists>x x'. find_world db t w = Some x \<and> w_version x = ev \<and> find_world db' t w = Some x'
    \<and> w_version x' = ev + 1 \<and> apply_mutations E (w_state x) raws = Inr (w_state x')
    \<and> sn_state sn = w_state x' \<and> sn_version sn = ev + 1 \<and> state_at t w (ev + 1) db' = Inr sn
    \<and> length (events_of db' t w) = Suc (length (events_of db t w))
    \<and> (\<forall>t' w'. (t', w') \<noteq> (t, w) \<longrightarrow> find_world db' t' w' = find_world db t' w' \<and> events_of db' t' w' = events_of db t' w')"
proof -
  obtain x x' r where "find_world db t w = Some x" "w_version x = ev"
    "find_world db' t w = Some x'" "w_version x' = ev + 1"
    "apply_mutations E (w_state x) raws = Inr (w_state x')" "sn_state sn = w_state x'"
    "sn_version sn = ev + 1" "state_at t w (ev + 1) db' = Inr sn"
    and wr: "written r (w_state x') db db'" "e_tenant r = t" "e_world r = w"
    by (rule append_effectE [OF assms]) blast
  moreover have "length (events_of db' t w) = Suc (length (events_of db t w))"
    using written_events [OF wr(1), of t w] wr by simp
  moreover have "(t', w') \<noteq> (t, w) \<longrightarrow>
      find_world db' t' w' = find_world db t' w' \<and> events_of db' t' w' = events_of db t' w'" for t' w'
    using written_events [OF wr(1), of t' w'] written_world_other [OF wr(1), of t' w'] wr by auto
  ultimately show ?thesis by blast
qed

text \<open>
  Of two writers that read the same version only one can commit: after the first append at
  version \<open>ev\<close>, any other event offered at \<open>ev\<close> that would have been accepted before is refused
  with a version conflict.
\<close>

theorem second_writer_conflicts:
  assumes "append_event E now t w i ty raws a ev auth lin ts db = Inr (db1, sn)"
    and "find_event db t w i = None"
    and "append_event E now' t w i' ty' raws' a' ev auth' lin' ts' db = Inr (db2, sn2)"
    and "find_event db1 t w i' = None"
    and "stripped_id t" "stripped_id w" "stripped_id i" "stripped_id i'"
  shows "append_event E now' t w i' ty' raws' a' ev auth' lin' ts' db1 = Inl (VersionConflict ev (ev + 1))"
proof -
  obtain x' where x': "find_world db1 t w = Some x'" "w_version x' = ev + 1"
    by (rule append_effectE [OF assms(1,5-7,2)]) blast
  from assms(3) show ?thesis
  proof (cases rule: append_event_cases)
    case (replayed t' w' i2 ms d s)
    then have [simp]: "t' = t" "w' = w" "i2 = i'" using assms(5-8) by (simp_all add: world_identifier_id)
    have "find_event db1 t w i' = Some d"
      using replayed run_find_event [OF world_run.run_step [OF world_run.run_refl world_step.append [OF assms(1)]]]
      by simp
    with assms(4) show ?thesis by simp
  next
    case (fresh t' w' i2 ms x r st ty2 a2 auth2 lin2)
    then have [simp]: "t' = t" "w' = w" "i2 = i'" using assms(5-8) by (simp_all add: world_identifier_id)
    show ?thesis
      using x' assms(4) fresh(1-4,20-23) by (simp add: append_event_def)
  qed
qed

text \<open>
  Restoring an earlier version of a world appends a new version whose state is exactly the
  state of that version's snapshot; the history in between is kept.
\<close>

theorem restore_version_effect:
  assumes "restore_version E now t w v i a ev auth ts db = Inr (db', sn)"
    and "stripped_id t" "stripped_id w" "stripped_id i" and "find_event db t w i = None"
  shows "\<exists>target x'. state_at t w v db = Inr target \<and> find_world db' t w = Some x'
    \<and> w_state x' = sn_state target \<and> w_version x' = ev + 1 \<and> sn_state sn = sn_state target
    \<and> state_at t w v db' = Inr target"
proof -
  obtain target where tg: "state_at t w v db = Inr target" and
    ap: "append_event E now t w i ''WORLD_RESTORED'' [mutation_json (REPLACE_ROOT (JObj (sn_state target)))] a ev auth
       [''snapshot:'' @ w @ ''@'' @ int_text v @ '':'' @ sn_sha target] ts db = Inr (db', sn)"
    using assms(1) by (rule restore_is_append)
  obtain x x' :: world_row where e: "find_world db' t w = Some x'" "w_version x' = ev + 1"
      "apply_mutations E (w_state x) [mutation_json (REPLACE_ROOT (JObj (sn_state target)))] = Inr (w_state x')"
      "sn_state sn = w_state x'"
    by (rule append_effectE [OF ap assms(2-5)]) blast
  have "obj_finite (w_state x)" using e(3) by (auto simp: apply_mutations_def json_object_def require_eq_Inr rbind_eq_Inr)
  moreover have "obj_finite (sn_state target)"
  proof (rule ccontr)
    assume "\<not> obj_finite (sn_state target)"
    then have "normalize_mutation E 0 (mutation_json (REPLACE_ROOT (JObj (sn_state target)))) = Inl ValueNotFinite"
      by (simp add: normalize_mutation_def mutation_json_def mutation_row_def mk_obj_def mutation_row_get
          supported_mutations_def path_check_root Let_def require_def)
    with e(3) show False by (auto simp: apply_mutations_def normalize_mutations_def rbind_eq_Inr)
  qed
  ultimately have "w_state x' = sn_state target"
    using e(3) apply_replace_root [of "sn_state target" "w_state x" E] by simp
  moreover have "state_at t w v db' = Inr target"
    using run_find_snap [OF world_run.run_step [OF world_run.run_refl world_step.append [OF ap]]] tg
    by (fastforce simp: state_at_def rbind_eq_Inr split: option.splits)
  ultimately show ?thesis using tg e by auto
qed

section \<open>A state that overflowed is frozen\<close>

text \<open>
  Once a world's current state holds a float that is not finite, no new event is accepted
  for it any more, whatever its mutations: not an append, and not a restore either. An INCREMENT
  that overflows leaves such a state (the witness).
\<close>

theorem nonfinite_world_is_frozen:
  assumes "find_world db t w = Some x" and "\<not> obj_finite (w_state x)"
    and "stripped_id t" "stripped_id w" "stripped_id i" and "find_event db t w i = None"
  shows "\<not> (\<exists>r. append_event E now t w i ty raws a ev auth lin ts db = Inr r)
    \<and> \<not> (\<exists>r. restore_version E now t w v i a ev auth ts db = Inr r)"
proof -
  have n: "append_event E now t w i ty raws a ev auth lin ts db \<noteq> Inr r" for ty raws lin r
  proof
    assume "append_event E now t w i ty raws a ev auth lin ts db = Inr r"
    then have ap: "append_event E now t w i ty raws a ev auth lin ts db = Inr (fst r, snd r)" by simp
    obtain y x' :: world_row where "find_world db t w = Some y"
      "apply_mutations E (w_state y) raws = Inr (w_state x')"
    by (rule append_effectE [OF ap assms(3-6)]) blast
    with assms(1,2) show False
      by (auto simp: apply_mutations_def json_object_def require_eq_Inr rbind_eq_Inr)
  qed
  then show ?thesis
    by (auto simp: restore_version_def rbind_eq_Inr)
qed

end
