(* ===== verification/WorldExamples.thy ===== *)
theory WorldExamples
  imports WorldProps
begin

text \<open>
  The world store on a concrete run: a world is created, two writers offer an event at version
  0, the first world version is restored, and an increment overflows. Each property of the
  store is applied to this run.
\<close>

section \<open>Evaluation\<close>

lemma sha256_outbox_message: "sha256_json demo_env (outbox_message demo_env r) = sha256_json demo_env (mk_obj
     [(''schema_version'', JStr ''edon-world-outbox-message.v1''), (''topic'', JStr ''world.events''),
      (''event_hash'', JStr (e_hash r)), (''tenant_id'', JStr (e_tenant r)),
      (''world_id'', JStr (e_world r)), (''event_id'', JStr (e_id r)), (''event_type'', JStr (e_type r)),
      (''actor_id'', JStr (e_actor r)), (''expected_version'', JInt (e_expected r)),
      (''resulting_version'', JInt (e_resulting r)), (''mutations'', JArr (e_mutations r)),
      (''authorization_ref_sha256'', JStr (sha256_json demo_env (JStr (e_auth r)))),
      (''source_lineage'', jstrs (e_lineage r)),
      (''resulting_state_sha256'', JStr (e_result_sha r))])"
  by (simp only: outbox_message_def)

lemmas world_eval [eval_simps] =
  create_world_def append_event_def restore_version_def world_identifier_def ident_check_def
  py_strip_def is_space_def authorization_ref_check_def json_object_def lineage_check_def sorted_set_def
  or_now_def mutation_json_def mutation_row_def mk_obj_def dict_of_def jstrs_def seal_def request_sha_def
  event_sha_def row_request_fields_def request_fields_def
  sha256_text_def quote_def int_text_def nat_digits.simps find_world_def is_world_def
  find_event_def events_of_def is_event_of_def find_snap_def is_snap_def init_wdb_def insert_world_def
  insert_event_def insert_snap_def enqueue_world_event_def outbox_row_of_def after_colon_def
  sha256_outbox_message update_world_def state_at_def snapshot_of_snap_def snapshot_of_world_def
  normalize_mutations_def normalize_mutation_def py_str_def supported_mutations_def path_check_def
  make_mutation_def is_replace_root_def apply_mutations_def apply_mutation_def increment_value_def
  Let_def

lemmas world_congs = eval_congs sha256_json_cong

section \<open>The run\<close>

definition ex_row :: "string \<Rightarrow> string \<Rightarrow> int \<Rightarrow> mutation \<Rightarrow> string list \<Rightarrow> string \<Rightarrow> string \<Rightarrow> string
    \<Rightarrow> string \<Rightarrow> string \<Rightarrow> event_row" where
  "ex_row i ty v m lin sha result prev hash when = \<lparr>e_tenant = ''t'', e_world = ''w'', e_id = i, e_type = ty,
     e_actor = ''a'', e_expected = v - 1, e_mutations = [mutation_json m], e_auth = ''k'', e_lineage = lin,
     e_request_sha = sha, e_resulting = v, e_result_sha = result, e_prev = prev, e_hash = hash, e_created = when\<rparr>"

definition ex_snap :: "int \<Rightarrow> int \<Rightarrow> string \<Rightarrow> string \<Rightarrow> snap_row" where
  "ex_snap v n hash when = \<lparr>s_tenant = ''t'', s_world = ''w'', s_version = v, s_state = [(''n'', JInt n)],
     s_sha = ''sha256:1'', s_event_hash = hash, s_created = when\<rparr>"

definition ex_world :: "int \<Rightarrow> int \<Rightarrow> string \<Rightarrow> world_row" where
  "ex_world v n when = \<lparr>w_tenant = ''t'', w_world = ''w'', w_version = v, w_state = [(''n'', JInt n)],
     w_sha = ''sha256:1'', w_created = ''1'', w_updated = when\<rparr>"

definition ex_message :: "event_row \<Rightarrow> string \<Rightarrow> string \<Rightarrow> outbox_row" where
  "ex_message r i sha = \<lparr>o_id = i, o_tenant = ''t'', o_world = ''w'', o_event = e_id r,
     o_topic = ''world.events'', o_payload = outbox_message demo_env r, o_sha = sha, o_status = ''PENDING'',
     o_attempts = 0, o_available = e_created r, o_owner = None, o_lease = None, o_error = None,
     o_created = e_created r, o_delivered = None\<rparr>"

definition ex_r0 :: event_row where
  "ex_r0 = ex_row ''WORLD_CREATED'' ''WORLD_CREATED'' 0 (REPLACE_ROOT (JObj [(''n'', JInt 1)])) []
     ''sha256:13'' ''sha256:1'' genesis ''sha256:18'' ''1''"

definition ex_db0 :: wdb where
  "ex_db0 = \<lparr>worlds = [ex_world 0 1 ''1''], events = [ex_r0], snaps = [ex_snap 0 1 ''sha256:18'' ''1''],
     outbox = [ex_message ex_r0 ''world:18'' ''sha256:21''], audit = []\<rparr>"

lemmas ex_rows [eval_simps] = ex_row_def ex_snap_def ex_world_def ex_message_def ex_r0_def ex_db0_def

lemma ex_created: "create_world demo_env ''1'' ''t'' ''w'' (JObj [(''n'', JInt 1)]) ''a'' ''k'' [] None init_wdb
    = Inr (ex_db0, snapshot_of_snap (ex_snap 0 1 ''sha256:18'' ''1''))"
  by (simp add: eval_simps cong: world_congs)

abbreviation ex_append :: "string \<Rightarrow> string \<Rightarrow> int \<Rightarrow> wdb \<Rightarrow> world_error + (wdb \<times> snapshot)" where
  "ex_append i lin ev \<equiv> append_event demo_env ''2'' ''t'' ''w'' i ''SENSED''
     [mutation_json (INCREMENT [''n''] (JInt 2))] ''a'' ev ''k'' [lin] None"

definition ex_r1 :: event_row where
  "ex_r1 = ex_row ''x'' ''SENSED'' 1 (INCREMENT [''n''] (JInt 2)) [''m:::''] ''sha256:15'' ''sha256:1''
     ''sha256:18'' ''sha256:21'' ''2''"

definition ex_db1 :: wdb where
  "ex_db1 = \<lparr>worlds = [ex_world 1 3 ''2''], events = [ex_r0, ex_r1],
     snaps = [ex_snap 0 1 ''sha256:18'' ''1'', ex_snap 1 3 ''sha256:21'' ''2''],
     outbox = [ex_message ex_r0 ''world:18'' ''sha256:21'', ex_message ex_r1 ''world:21'' ''sha256:23''],
     audit = []\<rparr>"

lemmas ex_rows1 [eval_simps] = ex_r1_def ex_db1_def

lemma ex_appended: "ex_append ''x'' ''m:::'' 0 ex_db0
    = Inr (ex_db1, snapshot_of_snap (ex_snap 1 3 ''sha256:21'' ''2''))"
  by (simp add: eval_simps cong: world_congs)

lemma ex_other: "\<exists>db sn. ex_append ''y'' ''m::::'' 0 ex_db0 = Inr (db, sn)"
  by (simp add: eval_simps cong: world_congs)

lemma ex_restored: "\<exists>db sn. restore_version demo_env ''3'' ''t'' ''w'' 0 ''b'' ''a'' 1 ''k'' None ex_db1 = Inr (db, sn)"
  by (simp add: eval_simps cong: world_congs)

lemma ex_ids: "stripped_id ''t''" "stripped_id ''w''" "stripped_id ''x''" "stripped_id ''y''" "stripped_id ''b''"
  by (simp_all add: stripped_id_def eval_simps)

lemma ex_reachable: "world_reachable demo_env ex_db0" "world_reachable demo_env ex_db1"
proof -
  show "world_reachable demo_env ex_db0"
    by (rule run_step [OF run_refl world_step.create [OF ex_created]])
  then show "world_reachable demo_env ex_db1"
    by (rule run_step [OF _ world_step.append [OF ex_appended]])
qed

lemma ex_finds: "find_world ex_db1 ''t'' ''w'' = Some (ex_world 1 3 ''2'')" "find_event ex_db0 ''t'' ''w'' ''x'' = None"
    "find_event ex_db1 ''t'' ''w'' ''y'' = None" "find_event ex_db1 ''t'' ''w'' ''b'' = None"
    "events_of ex_db1 ''t'' ''w'' = [ex_r0, ex_r1]"
  by (simp_all add: eval_simps cong: world_congs)

section \<open>The properties of the store on the run\<close>

theorem reachable_world_verifies_witness:
  "\<exists>c. verify_world demo_env ''t'' ''w'' ex_db1 = Inr c \<and> checks_passed c"
  by (rule reachable_world_verifies [OF ex_reachable(2) ex_finds(1)])

theorem verified_log_determined_by_head_witness:
  "(let db = ex_db1\<lparr>outbox := [], audit := []\<rparr> in db \<noteq> ex_db1 \<and> event_log ''t'' ''w'' db = event_log ''t'' ''w'' ex_db1
    \<and> (\<exists>c. verify_world demo_env ''t'' ''w'' db = Inr c \<and> checks_passed c))"
proof -
  let ?db = "ex_db1\<lparr>outbox := [], audit := []\<rparr>"
  obtain c where c: "verify_world demo_env ''t'' ''w'' ex_db1 = Inr c" "checks_passed c"
    using inv_world_verifies [OF reachable_inv [OF ex_reachable(2)] ex_finds(1)] by blast
  have "world_reachable demo_env ?db" by (rule run_step [OF ex_reachable(2) world_step.deliver])
  moreover have "find_world ?db ''t'' ''w'' = Some (ex_world 1 3 ''2'')"
    using ex_finds(1) by (simp add: find_world_def)
  ultimately obtain c' where c': "verify_world demo_env ''t'' ''w'' ?db = Inr c'" "checks_passed c'"
    using inv_world_verifies [OF reachable_inv] by blast
  have log: "event_log ''t'' ''w'' ex_db1 = Inr [ex_r0, ex_r1]"
    by (simp add: event_log_def world_identifier_id ex_ids ex_finds)
  obtain es where log': "event_log ''t'' ''w'' ?db = Inr es" and es: "es = [ex_r0, ex_r1]"
    using ex_finds(5) by (simp add: event_log_def world_identifier_id ex_ids events_of_def)
  have "sha256_json demo_env (event_doc ex_r0) \<noteq> sha256_json demo_env (event_doc ex_r1)"
    by (simp add: event_doc_def eval_simps)
  then have "inj_on (sha256_json demo_env) (event_doc ` (set es \<union> set [ex_r0, ex_r1]))"
    by (auto simp: es inj_on_def)
  moreover have "last_hash e_hash genesis es = last_hash e_hash genesis [ex_r0, ex_r1]" by (simp add: es)
  ultimately have "es = [ex_r0, ex_r1]"
    by (intro verified_log_determined_by_head [OF c' log' c log])
  with c' log log' show ?thesis by (auto simp: ex_db1_def Let_def)
qed

theorem history_is_immutable_witness:
  "take 1 (events ex_db1) = events ex_db0 \<and> state_at ''t'' ''w'' 0 ex_db1 = state_at ''t'' ''w'' 0 ex_db0"
proof -
  have r: "world_run demo_env ex_db0 ex_db1"
    by (rule run_step [OF run_refl world_step.append [OF ex_appended]])
  have "length (events ex_db0) = 1" "\<exists>s. state_at ''t'' ''w'' 0 ex_db0 = Inr s"
    by (simp_all add: eval_simps cong: world_congs)
  then show ?thesis using history_is_immutable [OF r] by auto
qed

theorem append_event_idempotent_witness:
  "append_event demo_env ''9'' ''t'' ''w'' ''x'' ''SENSED'' [mutation_json (INCREMENT [''n''] (JInt 2))] ''a'' 0 ''k''
     [''m:::''] None ex_db1 = Inr (ex_db1, snapshot_of_snap (ex_snap 1 3 ''sha256:21'' ''2''))"
  by (rule append_event_idempotent [OF ex_appended run_refl])

theorem append_event_effect_witness: "\<exists>x'. find_world ex_db1 ''t'' ''w'' = Some x' \<and> w_version x' = 1
    \<and> length (events_of ex_db1 ''t'' ''w'') = Suc (length (events_of ex_db0 ''t'' ''w''))"
  using append_event_effect [OF ex_appended ex_ids(1-3) ex_finds(2)] by auto

theorem second_writer_conflicts_witness: "ex_append ''y'' ''m::::'' 0 ex_db1 = Inl (VersionConflict 0 1)"
proof -
  obtain db sn where o: "ex_append ''y'' ''m::::'' 0 ex_db0 = Inr (db, sn)" using ex_other by blast
  show ?thesis
    using second_writer_conflicts [OF ex_appended ex_finds(2) o ex_finds(3) ex_ids(1-4)] by simp
qed

theorem restore_version_effect_witness: "\<exists>db sn target.
    restore_version demo_env ''3'' ''t'' ''w'' 0 ''b'' ''a'' 1 ''k'' None ex_db1 = Inr (db, sn)
    \<and> state_at ''t'' ''w'' 0 ex_db1 = Inr target \<and> sn_state sn = sn_state target"
proof -
  obtain db sn where r: "restore_version demo_env ''3'' ''t'' ''w'' 0 ''b'' ''a'' 1 ''k'' None ex_db1 = Inr (db, sn)"
    using ex_restored by blast
  show ?thesis
    using r restore_version_effect [OF r ex_ids(1,2,5) ex_finds(4)] by blast
qed

text \<open>Two finite floats whose sum overflows: the state is then no longer finite.\<close>

definition big :: flt where
  "big = Fin (2 ^ 1023)"

definition ex_frozen :: wdb where
  "ex_frozen = ex_db0\<lparr>worlds := [(ex_world 0 0 ''1'')\<lparr>w_state := [(''n'', JFloat PInf)]\<rparr>]\<rparr>"

theorem nonfinite_world_is_frozen_witness:
  "apply_mutations demo_env [(''n'', JFloat big)] [mutation_json (INCREMENT [''n''] (JFloat big))]
     = Inr [(''n'', JFloat PInf)]
   \<and> \<not> (\<exists>r. append_event demo_env ''2'' ''t'' ''w'' ''x'' ''RESET''
           [mutation_json (REPLACE_ROOT (JObj []))] ''a'' 0 ''k'' [] None ex_frozen = Inr r)"
proof -
  have d: "x ^ n + x ^ n = x ^ Suc n" if "x = (2::rat)" for x n
    using that by simp
  have b: "fadd big big = PInf" "json_finite (JFloat big)"
    using rnd_pow2 [of "Suc 1023"] by (simp_all only: big_def fadd.simps d [OF refl]) simp_all
  have "apply_mutations demo_env [(''n'', JFloat big)] [mutation_json (INCREMENT [''n''] (JFloat big))]
     = Inr [(''n'', JFloat PInf)]"
    using b by (simp add: eval_simps cong: world_congs)
  moreover have "find_world ex_frozen ''t'' ''w'' = Some ((ex_world 0 0 ''1'')\<lparr>w_state := [(''n'', JFloat PInf)]\<rparr>)"
      "find_event ex_frozen ''t'' ''w'' ''x'' = None"
    by (simp_all add: ex_frozen_def eval_simps cong: world_congs)
  note f = nonfinite_world_is_frozen [OF this(1) _ ex_ids(1-3) this(2)]
  have "\<not> (\<exists>r. append_event demo_env ''2'' ''t'' ''w'' ''x'' ''RESET''
           [mutation_json (REPLACE_ROOT (JObj []))] ''a'' 0 ''k'' [] None ex_frozen = Inr r)"
    using f by simp
  ultimately show ?thesis by blast
qed

end
