(* ===== verification/Outbox.thy ===== *)
theory Outbox
  imports WorldStore
begin

text \<open>
  Lease-based delivery of outbox messages (\<open>src/src/edon/outbox/store.py\<close>, class
  \<open>TransactionalOutbox\<close>), over the outbox and audit tables of the world database. Times are
  compared as the texts the tables hold. An update of rows selected by \<open>message_id\<close> is a map
  over the table; rows selected without an order are taken in the order of the table.
\<close>

datatype outbox_error =
    BadWorkerId
  | BadClaimLimit
  | BadLeaseSeconds
  | BadTimestamp
  | NoTimezone
  | TimeOverflow
  | MessageNotFound
  | NotLeasedByWorker
  | DeliveryErrorEmpty

text \<open>The \<open>now\<close> argument: absent, a text, or a time that is already parsed.\<close>

datatype time_arg = TimeNone | TimeText string | TimeValue ts_parse

definition parsed_time :: "ts_parse \<Rightarrow> outbox_error + int" where
  "parsed_time p = (case p of TsBad \<Rightarrow> Inl BadTimestamp | TsNaive \<Rightarrow> Inl NoTimezone
     | TsOverflow \<Rightarrow> Inl TimeOverflow | TsAware t \<Rightarrow> Inr t)"

definition outbox_time :: "pyenv \<Rightarrow> int \<Rightarrow> time_arg \<Rightarrow> outbox_error + int" where
  "outbox_time E clock a = (case a of
     TimeNone \<Rightarrow> Inr clock
   | TimeText s \<Rightarrow> parsed_time (iso_parse E (zulu s))
   | TimeValue p \<Rightarrow> parsed_time p)"

text \<open>\<open>(current + timedelta(seconds=s)).isoformat()\<close>; out of range it raises.\<close>

definition after_seconds :: "int \<Rightarrow> int \<Rightarrow> outbox_error + string" where
  "after_seconds t s = require (time_ok (t + s * 1000000)) TimeOverflow (Inr (isoformat (t + s * 1000000)))"

section \<open>Rows\<close>

definition find_message :: "string \<Rightarrow> wdb \<Rightarrow> outbox_row option" where
  "find_message mid db = List.find (\<lambda>m. o_id m = mid) (outbox db)"

definition update_message :: "string \<Rightarrow> (outbox_row \<Rightarrow> outbox_row) \<Rightarrow> wdb \<Rightarrow> wdb" where
  "update_message mid f db = db\<lparr>outbox := map (\<lambda>m. if o_id m = mid then f m else m) (outbox db)\<rparr>"

definition add_audit :: "string \<Rightarrow> string \<Rightarrow> string \<Rightarrow> json \<Rightarrow> string \<Rightarrow> wdb \<Rightarrow> wdb" where
  "add_audit mid action worker detail created_at db = db\<lparr>audit := audit db @
     [\<lparr>a_message = mid, a_action = action, a_worker = worker, a_detail = detail, a_created = created_at\<rparr>]\<rparr>"

definition lease_expired :: "string \<Rightarrow> outbox_row \<Rightarrow> bool" where
  "lease_expired current m \<longleftrightarrow> o_status m = ''LEASED'' \<and> (case o_lease m of None \<Rightarrow> False | Some l \<Rightarrow> l < current)"

definition expire_row :: "outbox_row \<Rightarrow> outbox_row" where
  "expire_row m = m\<lparr>o_status := ''PENDING'', o_owner := None, o_lease := None\<rparr>"

definition due :: "string \<Rightarrow> outbox_row \<Rightarrow> bool" where
  "due current m \<longleftrightarrow> o_status m = ''PENDING'' \<and> o_available m \<le> current"

definition lease_row :: "string \<Rightarrow> string \<Rightarrow> outbox_row \<Rightarrow> outbox_row" where
  "lease_row worker expiry m = (if o_status m = ''PENDING''
     then m\<lparr>o_status := ''LEASED'', o_owner := Some worker, o_lease := Some expiry, o_attempts := o_attempts m + 1\<rparr>
     else m)"

text \<open>\<open>ORDER BY created_at, message_id\<close>.\<close>

definition delivery_order :: "outbox_row list \<Rightarrow> outbox_row list" where
  "delivery_order ms = sort_key o_created (sort_key o_id ms)"

section \<open>Operations\<close>

definition expire_one :: "string \<Rightarrow> outbox_row \<Rightarrow> wdb \<Rightarrow> wdb" where
  "expire_one current m db = add_audit (o_id m) ''LEASE_EXPIRED''
     (case o_owner m of None \<Rightarrow> ''UNKNOWN'' | Some w \<Rightarrow> if w = [] then ''UNKNOWN'' else w) (JObj []) current
     (update_message (o_id m) expire_row db)"

definition expire_leases :: "string \<Rightarrow> wdb \<Rightarrow> wdb" where
  "expire_leases current db = fold (expire_one current) (filter (lease_expired current) (outbox db)) db"

definition claim_one :: "string \<Rightarrow> string \<Rightarrow> string \<Rightarrow> outbox_row \<Rightarrow> wdb \<times> outbox_row list \<Rightarrow> wdb \<times> outbox_row list" where
  "claim_one worker expiry current m s =
     (let db = add_audit (o_id m) ''CLAIMED'' worker (mk_obj [(''lease_expires_at'', JStr expiry)]) current
                 (update_message (o_id m) (lease_row worker expiry) (fst s))
      in (db, snd s @ (case find_message (o_id m) db of None \<Rightarrow> [] | Some r \<Rightarrow> [r])))"

definition claim_due :: "string \<Rightarrow> string \<Rightarrow> string \<Rightarrow> nat \<Rightarrow> wdb \<Rightarrow> wdb \<times> outbox_row list" where
  "claim_due worker expiry current limit db =
     fold (claim_one worker expiry current)
       (take limit (delivery_order (filter (due current) (outbox db)))) (db, [])"

definition claim :: "pyenv \<Rightarrow> int \<Rightarrow> string \<Rightarrow> int \<Rightarrow> int \<Rightarrow> time_arg \<Rightarrow> wdb \<Rightarrow> outbox_error + (wdb \<times> outbox_row list)" where
  "claim E clock worker_id limit lease_seconds now db =
     rbind (ident_check 200 BadWorkerId worker_id) (\<lambda>worker.
       require (1 \<le> limit \<and> limit \<le> 1000) BadClaimLimit (
       require (1 \<le> lease_seconds \<and> lease_seconds \<le> 3600) BadLeaseSeconds (
       rbind (outbox_time E clock now) (\<lambda>t.
       rbind (after_seconds t lease_seconds) (\<lambda>expiry.
         Inr (claim_due worker expiry (isoformat t) (nat limit) (expire_leases (isoformat t) db)))))))"

definition acknowledge :: "pyenv \<Rightarrow> int \<Rightarrow> string \<Rightarrow> string \<Rightarrow> time_arg \<Rightarrow> wdb \<Rightarrow> outbox_error + (wdb \<times> outbox_row)" where
  "acknowledge E clock mid worker now db =
     rbind (outbox_time E clock now) (\<lambda>t.
       (case find_message mid db of
          None \<Rightarrow> Inl MessageNotFound
        | Some m \<Rightarrow>
            if o_status m = ''DELIVERED'' then Inr (db, m)
            else require (o_status m = ''LEASED'' \<and> o_owner m = Some worker) NotLeasedByWorker
              (let db = add_audit mid ''DELIVERED'' worker (JObj []) (isoformat t)
                     (update_message mid (\<lambda>m. m\<lparr>o_status := ''DELIVERED'', o_delivered := Some (isoformat t),
                        o_owner := None, o_lease := None, o_error := None\<rparr>) db)
               in (case find_message mid db of None \<Rightarrow> Inl MessageNotFound | Some r \<Rightarrow> Inr (db, r)))))"

definition fail :: "pyenv \<Rightarrow> int \<Rightarrow> string \<Rightarrow> string \<Rightarrow> string \<Rightarrow> int \<Rightarrow> int \<Rightarrow> time_arg \<Rightarrow> wdb
    \<Rightarrow> outbox_error + (wdb \<times> outbox_row)" where
  "fail E clock mid worker err retry_after_seconds max_attempts now db =
     rbind (outbox_time E clock now) (\<lambda>t.
       (let err = take 2000 (py_strip err) in
        require (err \<noteq> []) DeliveryErrorEmpty
          (case find_message mid db of
             None \<Rightarrow> Inl NotLeasedByWorker
           | Some m \<Rightarrow>
               require (o_status m = ''LEASED'' \<and> o_owner m = Some worker) NotLeasedByWorker
                 (let is_dead = max_attempts \<le> o_attempts m;
                      status = (if is_dead then ''DEAD'' else ''PENDING'')
                  in rbind (after_seconds t retry_after_seconds) (\<lambda>available.
                       (let db = add_audit mid (if is_dead then ''DEAD'' else ''RETRY_SCHEDULED'') worker
                              (mk_obj [(''error'', JStr err), (''available_at'', JStr available)]) (isoformat t)
                              (update_message mid (\<lambda>m. m\<lparr>o_status := status, o_available := available,
                                 o_owner := None, o_lease := None, o_error := Some err\<rparr>) db)
                        in (case find_message mid db of None \<Rightarrow> Inl NotLeasedByWorker
                              | Some r \<Rightarrow> Inr (db, r))))))))"

definition list_messages :: "string option \<Rightarrow> wdb \<Rightarrow> outbox_row list" where
  "list_messages status db = delivery_order (case status of None \<Rightarrow> outbox db
     | Some s \<Rightarrow> filter (\<lambda>m. o_status m = py_upper s) (outbox db))"

definition audit_events :: "wdb \<Rightarrow> (nat \<times> audit_row) list" where
  "audit_events db = List.enumerate 1 (audit db)"

end
