(* ===== verification/OutboxProps.thy ===== *)
theory OutboxProps
  imports Outbox WorldProps
begin

text \<open>
  Correctness of delivery: what a claim does to the whole table, the invariant of the outbox
  and its audit along every run of the store and its delivery workers, exclusivity of leases,
  and the agreement of the outbox with the event log.
\<close>

section \<open>A claim as an update of the whole table\<close>

lemma map_once:
  assumes "\<And>m. f (f m) = f m" and "\<And>m. o_id (f m) = o_id m"
  shows "map (\<lambda>r. if o_id r \<in> S then f r else r) (map (\<lambda>r. if o_id r = i then f r else r) q)
    = map (\<lambda>r. if o_id r \<in> insert i S then f r else r) q"
  by (auto simp: assms)

lemma expire_fold:
  "outbox (fold (expire_one c) ms db) = map (\<lambda>r. if o_id r \<in> o_id ` set ms then expire_row r else r) (outbox db)
   \<and> worlds (fold (expire_one c) ms db) = worlds db \<and> events (fold (expire_one c) ms db) = events db
   \<and> snaps (fold (expire_one c) ms db) = snaps db
   \<and> (\<exists>l. audit (fold (expire_one c) ms db) = audit db @ l
        \<and> (\<forall>a \<in> set l. a_action a = ''LEASE_EXPIRED'' \<and> a_message a \<in> o_id ` set ms))"
proof (induction ms arbitrary: db)
  case (Cons m ms)
  let ?db = "expire_one c m db"
  have q: "outbox ?db = map (\<lambda>r. if o_id r = o_id m then expire_row r else r) (outbox db)"
    and o: "worlds ?db = worlds db" "events ?db = events db" "snaps ?db = snaps db"
    and a: "\<exists>x. audit ?db = audit db @ [x] \<and> a_action x = ''LEASE_EXPIRED'' \<and> a_message x = o_id m"
    by (simp_all add: expire_one_def add_audit_def update_message_def)
  from a obtain x where x: "audit ?db = audit db @ [x]" "a_action x = ''LEASE_EXPIRED''" "a_message x = o_id m"
    by blast
  have e: "expire_row (expire_row r) = expire_row r" "o_id (expire_row r) = o_id r" for r
    by (simp_all add: expire_row_def)
  have l: "\<exists>l. audit (fold (expire_one c) (m # ms) db) = audit db @ l
        \<and> (\<forall>a \<in> set l. a_action a = ''LEASE_EXPIRED'' \<and> a_message a \<in> o_id ` set (m # ms))"
  proof -
    from Cons.IH [of ?db] obtain l where "audit (fold (expire_one c) ms ?db) = audit ?db @ l"
        "\<forall>a \<in> set l. a_action a = ''LEASE_EXPIRED'' \<and> a_message a \<in> o_id ` set ms" by blast
    then show ?thesis using x by (intro exI [of _ "x # l"]) auto
  qed
  show ?case
    using Cons.IH [of ?db] l o by (simp add: q map_once [of expire_row, OF e] del: map_map)
qed simp

lemma distinct_id_filter:
  "distinct (map o_id q) \<Longrightarrow> r \<in> set q \<Longrightarrow> o_id r \<in> o_id ` {x \<in> set q. P x} \<longleftrightarrow> P r"
  by (auto simp: distinct_map inj_on_def)

definition expired_to_pending :: "string \<Rightarrow> outbox_row \<Rightarrow> outbox_row" where
  "expired_to_pending c m = (if lease_expired c m then expire_row m else m)"

lemma expire_leases_outbox:
  assumes "distinct (map o_id (outbox db))"
  shows "outbox (expire_leases c db) = map (expired_to_pending c) (outbox db)"
  using assms expire_fold [of c "filter (lease_expired c) (outbox db)" db]
  by (simp add: expire_leases_def expired_to_pending_def distinct_id_filter cong: map_cong)

text \<open>Leasing the picked rows, one after the other.\<close>

lemma lease_row_idem: "lease_row w e (lease_row w e m) = lease_row w e m"
  by (simp add: lease_row_def)

lemma o_id_lease_row [simp]: "o_id (lease_row w e m) = o_id m"
  by (simp add: lease_row_def)

lemma find_distinct:
  "distinct (map o_id q) \<Longrightarrow> m \<in> set q \<Longrightarrow> List.find (\<lambda>r. o_id r = o_id m) q = Some m"
proof (induction q)
  case (Cons r q)
  then show ?case by (auto simp: image_iff)
qed simp

lemma claim_fold:
  assumes "distinct (map o_id (outbox (fst s)))"
    and "\<And>m. m \<in> set ms \<Longrightarrow> \<exists>r \<in> set (outbox (fst s)). o_id r = o_id m \<and> lease_row w e r = lease_row w e m"
  shows "outbox (fst (fold (claim_one w e c) ms s))
      = map (\<lambda>r. if o_id r \<in> o_id ` set ms then lease_row w e r else r) (outbox (fst s))
    \<and> snd (fold (claim_one w e c) ms s) = snd s @ map (lease_row w e) ms
    \<and> worlds (fst (fold (claim_one w e c) ms s)) = worlds (fst s)
    \<and> events (fst (fold (claim_one w e c) ms s)) = events (fst s)
    \<and> snaps (fst (fold (claim_one w e c) ms s)) = snaps (fst s)
    \<and> audit (fst (fold (claim_one w e c) ms s)) = audit (fst s) @ map (\<lambda>m. \<lparr>a_message = o_id m,
        a_action = ''CLAIMED'', a_worker = w, a_detail = mk_obj [(''lease_expires_at'', JStr e)], a_created = c\<rparr>) ms"
  using assms
proof (induction ms arbitrary: s)
  case (Cons m ms)
  let ?s = "claim_one w e c m s" and ?f = "\<lambda>i r. if o_id r = i then lease_row w e r else r"
  have q: "outbox (fst ?s) = map (?f (o_id m)) (outbox (fst s))"
    and o: "worlds (fst ?s) = worlds (fst s)" "events (fst ?s) = events (fst s)" "snaps (fst ?s) = snaps (fst s)"
    and a: "audit (fst ?s) = audit (fst s) @ [\<lparr>a_message = o_id m,
        a_action = ''CLAIMED'', a_worker = w, a_detail = mk_obj [(''lease_expires_at'', JStr e)], a_created = c\<rparr>]"
    by (simp_all add: claim_one_def Let_def add_audit_def update_message_def)
  obtain r where r: "r \<in> set (outbox (fst s))" "o_id r = o_id m" "lease_row w e r = lease_row w e m"
    using Cons.prems(2) by auto
  have ids: "map o_id (outbox (fst ?s)) = map o_id (outbox (fst s))" by (simp add: q)
  have "lease_row w e r \<in> set (outbox (fst ?s))"
    using r(1,2) by (auto simp: q)
  from find_distinct [OF _ this] ids Cons.prems(1) r(2,3)
  have "find_message (o_id m) (fst ?s) = Some (lease_row w e m)"
    by (simp add: find_message_def)
  then have c: "snd ?s = snd s @ [lease_row w e m]"
    by (simp add: claim_one_def Let_def)
  have d: "\<exists>r \<in> set (outbox (fst ?s)). o_id r = o_id x \<and> lease_row w e r = lease_row w e x" if x: "x \<in> set ms" for x
  proof -
    obtain y where y: "y \<in> set (outbox (fst s))" "o_id y = o_id x" "lease_row w e y = lease_row w e x"
      using Cons.prems(2) [of x] x by auto
    then have "?f (o_id m) y \<in> set (outbox (fst ?s))"
      by (auto simp: q intro!: image_eqI [of _ _ y])
    moreover have "o_id (?f (o_id m) y) = o_id x \<and> lease_row w e (?f (o_id m) y) = lease_row w e x"
      using y by (simp add: lease_row_idem)
    ultimately show ?thesis by (intro bexI)
  qed
  have "distinct (map o_id (outbox (fst ?s)))" using ids Cons.prems(1) by simp
  note IH = Cons.IH [OF this d]
  show ?case
    using IH o a c by (simp add: q map_once [of "lease_row w e", OF lease_row_idem o_id_lease_row] del: map_map)
qed simp

definition picked :: "string \<Rightarrow> nat \<Rightarrow> wdb \<Rightarrow> outbox_row list" where
  "picked c limit db = take limit (delivery_order (filter (due c) (map (expired_to_pending c) (outbox db))))"

lemma set_delivery_order [simp]: "set (delivery_order ms) = set ms"
  by (simp add: delivery_order_def)

lemma picked_D: "m \<in> set (picked c n db) \<Longrightarrow> due c m \<and> m \<in> set (map (expired_to_pending c) (outbox db))"
  by (auto simp: picked_def dest!: in_set_takeD)

lemma o_id_expired_to_pending [simp]: "o_id (expired_to_pending c m) = o_id m"
  by (simp add: expired_to_pending_def expire_row_def)


lemma claim_due_effect:
  assumes d: "distinct (map o_id (outbox db))"
  shows "outbox (fst (claim_due w e c n (expire_leases c db))) = map (\<lambda>r. if r \<in> set (picked c n db)
        then lease_row w e r else r) (map (expired_to_pending c) (outbox db))
    \<and> snd (claim_due w e c n (expire_leases c db)) = map (lease_row w e) (picked c n db)"
    "worlds (fst (claim_due w e c n (expire_leases c db))) = worlds db
    \<and> events (fst (claim_due w e c n (expire_leases c db))) = events db
    \<and> snaps (fst (claim_due w e c n (expire_leases c db))) = snaps db"
    "\<exists>l. audit (fst (claim_due w e c n (expire_leases c db))) = audit db @ l @ map (\<lambda>m. \<lparr>a_message = o_id m,
        a_action = ''CLAIMED'', a_worker = w, a_detail = mk_obj [(''lease_expires_at'', JStr e)], a_created = c\<rparr>)
          (picked c n db)
      \<and> (\<forall>a \<in> set l. a_action a = ''LEASE_EXPIRED'' \<and> a_message a \<in> o_id ` set (outbox db))"
proof -
  let ?q = "map (expired_to_pending c) (outbox db)"
  have q: "outbox (expire_leases c db) = ?q" using d by (rule expire_leases_outbox)
  have ids: "map o_id ?q = map o_id (outbox db)" by simp
  have p: "picked c n db = take n (delivery_order (filter (due c) (outbox (expire_leases c db))))"
    by (simp add: picked_def q)
  have dq: "distinct (map o_id (outbox (fst (expire_leases c db, []))))" using d by (simp add: q o_def)
  have ex: "\<exists>r \<in> set (outbox (fst (expire_leases c db, []))). o_id r = o_id m \<and> lease_row w e r = lease_row w e m"
    if "m \<in> set (picked c n db)" for m
    using picked_D [OF that] by (auto simp: q)
  note F = claim_fold [of "(expire_leases c db, [])" "picked c n db" w e c, OF dq ex, folded claim_due_def]
  have same: "o_id r \<in> o_id ` set (picked c n db) \<longleftrightarrow> r \<in> set (picked c n db)" if "r \<in> set ?q" for r
  proof
    assume "o_id r \<in> o_id ` set (picked c n db)"
    then obtain m where "m \<in> set (picked c n db)" "o_id m = o_id r" by auto
    moreover have "inj_on o_id (set ?q)" using d ids by (metis distinct_map)
    ultimately show "r \<in> set (picked c n db)"
      using picked_D that by (metis inj_onD)
  qed simp
  have cd: "claim_due w e c n (expire_leases c db) = fold (claim_one w e c) (picked c n db) (expire_leases c db, [])"
    by (simp add: claim_due_def p)
  show "outbox (fst (claim_due w e c n (expire_leases c db))) = map (\<lambda>r. if r \<in> set (picked c n db)
        then lease_row w e r else r) ?q
    \<and> snd (claim_due w e c n (expire_leases c db)) = map (lease_row w e) (picked c n db)"
    using F same by (simp add: cd q cong: map_cong del: map_map)
  note X = expire_fold [of c "filter (lease_expired c) (outbox db)" db, folded expire_leases_def]
  show "worlds (fst (claim_due w e c n (expire_leases c db))) = worlds db
    \<and> events (fst (claim_due w e c n (expire_leases c db))) = events db
    \<and> snaps (fst (claim_due w e c n (expire_leases c db))) = snaps db"
    using F X by (simp add: cd)
  from X obtain l where "audit (expire_leases c db) = audit db @ l"
      "\<forall>a \<in> set l. a_action a = ''LEASE_EXPIRED'' \<and> a_message a \<in> o_id ` set (filter (lease_expired c) (outbox db))"
    by blast
  then show "\<exists>l. audit (fst (claim_due w e c n (expire_leases c db))) = audit db @ l @ map (\<lambda>m. \<lparr>a_message = o_id m,
        a_action = ''CLAIMED'', a_worker = w, a_detail = mk_obj [(''lease_expires_at'', JStr e)], a_created = c\<rparr>)
          (picked c n db)
      \<and> (\<forall>a \<in> set l. a_action a = ''LEASE_EXPIRED'' \<and> a_message a \<in> o_id ` set (outbox db))"
    using F by (intro exI [of _ l]) (auto simp: cd)
qed

section \<open>What the store writes to the outbox\<close>

definition produced :: "pyenv \<Rightarrow> wdb \<Rightarrow> wdb \<Rightarrow> bool" where
  "produced E db db' \<longleftrightarrow> audit db' = audit db \<and> (events db' = events db \<and> outbox db' = outbox db
     \<or> (\<exists>r. events db' = events db @ [r] \<and> outbox db' = outbox (enqueue_world_event E r db)))"

lemma enqueue_outbox_cong: "outbox db = outbox db' \<Longrightarrow> outbox (enqueue_world_event E r db) = outbox (enqueue_world_event E r db')"
  by (simp add: enqueue_world_event_def Let_def)

lemma enqueue_audit [simp]: "audit (enqueue_world_event E r db) = audit db"
  by (simp add: enqueue_world_event_def Let_def)

lemma insert_views:
  "insert_event r db = Inr db' \<Longrightarrow> events db' = events db @ [r] \<and> outbox db' = outbox db \<and> audit db' = audit db"
  "insert_snap r st db = Inr db' \<Longrightarrow> events db' = events db \<and> outbox db' = outbox db \<and> audit db' = audit db"
  "insert_world r st db = Inr db' \<Longrightarrow> events db' = events db \<and> outbox db' = outbox db \<and> audit db' = audit db"
  "events (update_world r st db) = events db \<and> outbox (update_world r st db) = outbox db
    \<and> audit (update_world r st db) = audit db"
  by (auto simp: insert_event_def insert_snap_def insert_world_def update_world_def require_eq_Inr)

lemma produced_enqueue:
  assumes "events db' = events db @ [r]" and "outbox db' = outbox db" and "audit db' = audit db"
  shows "produced E db (enqueue_world_event E r db')"
  using assms enqueue_outbox_cong [of db' db E r] by (auto simp: produced_def)

lemma produced_refl: "produced E db db"
  by (simp add: produced_def)

lemma append_produced:
  assumes "append_event E now t w i ty raws a ev auth lin ts db = Inr (db', sn)"
  shows "produced E db db'"
  using assms
  by (auto simp: append_event_def rbind_eq_Inr Let_def require_eq_Inr produced_refl insert_views
      dest!: insert_views(1,2) intro!: produced_enqueue split: option.splits)

lemma create_produced:
  assumes "create_world E now t w init a auth lin ts db = Inr (db', sn)"
  shows "produced E db db'"
  using assms
  by (auto simp: create_world_def rbind_eq_Inr Let_def require_eq_Inr produced_refl
      dest!: insert_views(1,2,3) intro!: produced_enqueue split: option.splits)

lemma restore_produced:
  "restore_version E now t w v i a ev auth ts db = Inr (db', sn) \<Longrightarrow> produced E db db'"
  by (auto elim: restore_is_append intro: append_produced)

section \<open>Runs of the store and its delivery workers\<close>

inductive delivery_step :: "pyenv \<Rightarrow> wdb \<Rightarrow> wdb \<Rightarrow> bool" for E where
  created: "create_world E now t w init a auth lin ts db = Inr (db', sn) \<Longrightarrow> delivery_step E db db'"
| appended: "append_event E now t w i ty raws a ev auth lin ts db = Inr (db', sn) \<Longrightarrow> delivery_step E db db'"
| restored: "restore_version E now t w v i a ev auth ts db = Inr (db', sn) \<Longrightarrow> delivery_step E db db'"
| claimed: "claim E clock worker n secs at_time db = Inr (db', ms) \<Longrightarrow> delivery_step E db db'"
| acknowledged: "acknowledge E clock mid worker at_time db = Inr (db', m) \<Longrightarrow> delivery_step E db db'"
| failed: "fail E clock mid worker err secs n at_time db = Inr (db', m) \<Longrightarrow> delivery_step E db db'"

inductive delivery_run :: "pyenv \<Rightarrow> wdb \<Rightarrow> wdb \<Rightarrow> bool" for E where
  drun_refl: "delivery_run E db db"
| drun_step: "delivery_run E db db' \<Longrightarrow> delivery_step E db' db'' \<Longrightarrow> delivery_run E db db''"

definition audit_count :: "wdb \<Rightarrow> string \<Rightarrow> string \<Rightarrow> nat" where
  "audit_count db mid action = length (filter (\<lambda>a. a_message a = mid \<and> a_action a = action) (audit db))"

definition message_ok :: "wdb \<Rightarrow> outbox_row \<Rightarrow> bool" where
  "message_ok db m \<longleftrightarrow> o_status m \<in> {''PENDING'', ''LEASED'', ''DELIVERED'', ''DEAD''}
     \<and> (o_owner m \<noteq> None \<longleftrightarrow> o_status m = ''LEASED'') \<and> (o_lease m \<noteq> None \<longleftrightarrow> o_status m = ''LEASED'')
     \<and> (o_delivered m \<noteq> None \<longleftrightarrow> o_status m = ''DELIVERED'')
     \<and> o_attempts m = int (audit_count db (o_id m) ''CLAIMED'')
     \<and> audit_count db (o_id m) ''DELIVERED'' = (if o_status m = ''DELIVERED'' then 1 else 0)
     \<and> audit_count db (o_id m) ''DEAD'' = (if o_status m = ''DEAD'' then 1 else 0)"

definition delivery_inv :: "wdb \<Rightarrow> bool" where
  "delivery_inv db \<longleftrightarrow> distinct (map o_id (outbox db)) \<and> (\<forall>m \<in> set (outbox db). message_ok db m)
     \<and> (\<forall>a \<in> set (audit db). a_message a \<in> o_id ` set (outbox db))"

text \<open>How a step may change the rows: each row is replaced by one with the same message.\<close>

definition same_message :: "outbox_row \<Rightarrow> outbox_row \<Rightarrow> bool" where
  "same_message m m' \<longleftrightarrow> o_id m' = o_id m \<and> o_tenant m' = o_tenant m \<and> o_world m' = o_world m
     \<and> o_event m' = o_event m \<and> o_topic m' = o_topic m \<and> o_payload m' = o_payload m \<and> o_sha m' = o_sha m
     \<and> o_created m' = o_created m"

lemma audit_count_append:
  "audit db' = audit db @ l \<Longrightarrow> audit_count db' i act =
     audit_count db i act + length (filter (\<lambda>a. a_message a = i \<and> a_action a = act) l)"
  by (simp add: audit_count_def)

text \<open>Updating the one leased row, with its audit entry: what acknowledge and fail do.\<close>

definition settle :: "string \<Rightarrow> (outbox_row \<Rightarrow> outbox_row) \<Rightarrow> audit_row \<Rightarrow> wdb \<Rightarrow> wdb" where
  "settle mid f x db = db\<lparr>outbox := map (\<lambda>m. if o_id m = mid then f m else m) (outbox db), audit := audit db @ [x]\<rparr>"

lemma settle_eq: "add_audit mid action w d t (update_message mid f db) =
    settle mid f \<lparr>a_message = mid, a_action = action, a_worker = w, a_detail = d, a_created = t\<rparr> db"
  by (simp add: settle_def add_audit_def update_message_def)

lemma acknowledge_cases:
  assumes "acknowledge E clock mid worker at_time db = Inr (db', m)"
  obtains (already) "db' = db" "find_message mid db = Some m" "o_status m = ''DELIVERED''"
    | (settled) t r x where "find_message mid db = Some r" "o_status r = ''LEASED''" "o_owner r = Some worker"
      "a_action x = ''DELIVERED''" "a_message x = mid" "a_worker x = worker"
      "db' = settle mid (\<lambda>m. m\<lparr>o_status := ''DELIVERED'', o_delivered := Some t,
                        o_owner := None, o_lease := None, o_error := None\<rparr>) x db"
      "find_message mid db' = Some m"
proof -
  from assms obtain t r where r: "find_message mid db = Some r"
      and t: "outbox_time E clock at_time = Inr t"
    by (auto simp: acknowledge_def rbind_eq_Inr split: option.splits)
  show thesis
  proof (cases "o_status r = ''DELIVERED''")
    case True
    with assms r t show thesis by (intro already) (auto simp: acknowledge_def)
  next
    case False
    with assms r t have l: "o_status r = ''LEASED''" "o_owner r = Some worker"
      by (auto simp: acknowledge_def require_eq_Inr)
    let ?x = "\<lparr>a_message = mid, a_action = ''DELIVERED'', a_worker = worker, a_detail = JObj [], a_created = isoformat t\<rparr>"
    from assms r t False l show thesis
      by (intro settled [of r ?x "isoformat t"])
        (auto simp: acknowledge_def require_eq_Inr Let_def settle_def add_audit_def update_message_def
          split: option.splits)
  qed
qed

lemma fail_cases:
  assumes "fail E clock mid worker err secs n at_time db = Inr (db', m)"
  obtains r x t e s where "find_message mid db = Some r" "o_status r = ''LEASED''" "o_owner r = Some worker"
      "a_action x = (if n \<le> o_attempts r then ''DEAD'' else ''RETRY_SCHEDULED'')" "a_message x = mid"
      "s = (if n \<le> o_attempts r then ''DEAD'' else ''PENDING'')"
      "db' = settle mid (\<lambda>m. m\<lparr>o_status := s, o_available := t, o_owner := None, o_lease := None,
         o_error := Some e\<rparr>) x db" "find_message mid db' = Some m"
proof -
  from assms obtain t r av where r: "find_message mid db = Some r"
      and t: "outbox_time E clock at_time = Inr t" "after_seconds t secs = Inr av"
      and l: "o_status r = ''LEASED''" "o_owner r = Some worker"
    by (auto simp: fail_def rbind_eq_Inr Let_def require_eq_Inr split: option.splits)
  let ?x = "\<lparr>a_message = mid, a_action = if n \<le> o_attempts r then ''DEAD'' else ''RETRY_SCHEDULED'',
     a_worker = worker, a_detail = mk_obj [(''error'', JStr (take 2000 (py_strip err))), (''available_at'', JStr av)],
     a_created = isoformat t\<rparr>"
  let ?s = "if n \<le> o_attempts r then ''DEAD'' else ''PENDING''"
  let ?db = "settle mid (\<lambda>m. m\<lparr>o_status := ?s, o_available := av, o_owner := None, o_lease := None,
         o_error := Some (take 2000 (py_strip err))\<rparr>) ?x db"
  have e: "take 2000 (py_strip err) \<noteq> []"
    using assms t by (auto simp: fail_def require_eq_Inr Let_def)
  have "(case find_message mid ?db of None \<Rightarrow> Inl NotLeasedByWorker | Some r \<Rightarrow> Inr (?db, r)) = Inr (db', m)"
    using assms e by (simp add: fail_def r t l Let_def settle_eq)
  then have "db' = ?db" "find_message mid db' = Some m"
    by (auto split: option.splits)
  with r l show thesis
    by (intro that [of r ?x ?s "take 2000 (py_strip err)" av]) simp_all
qed

section \<open>The invariant is kept\<close>

lemma delivery_inv_init: "delivery_inv init_wdb"
  by (simp add: delivery_inv_def init_wdb_def)

lemma audit_count_fresh:
  "delivery_inv db \<Longrightarrow> i \<notin> o_id ` set (outbox db) \<Longrightarrow> audit_count db i act = 0"
  by (auto simp: delivery_inv_def audit_count_def filter_empty_conv)

lemma message_ok_cong:
  "(\<And>act. audit_count db' (o_id m) act = audit_count db (o_id m) act) \<Longrightarrow> message_ok db' m = message_ok db m"
  by (simp add: message_ok_def)

lemma outbox_row_of_fields [simp]:
  "o_id (outbox_row_of E r) = ''world:'' @ after_colon (e_hash r)" "o_status (outbox_row_of E r) = ''PENDING''"
  "o_owner (outbox_row_of E r) = None" "o_lease (outbox_row_of E r) = None" "o_delivered (outbox_row_of E r) = None"
  "o_attempts (outbox_row_of E r) = 0" "o_topic (outbox_row_of E r) = ''world.events''"
  "o_payload (outbox_row_of E r) = outbox_message E r" "o_sha (outbox_row_of E r) = sha256_json E (outbox_message E r)"
  by (simp_all add: outbox_row_of_def)

lemma produced_inv:
  assumes p: "produced E db db'" and I: "delivery_inv db"
  shows "delivery_inv db'"
proof -
  have a: "audit db' = audit db" using p by (simp add: produced_def)
  then have c: "audit_count db' i act = audit_count db i act" for i act by (simp add: audit_count_def)
  have ok: "message_ok db' m = message_ok db m" for m by (rule message_ok_cong) (rule c)
  have I': ?thesis if "outbox db' = outbox db"
    using that I ok a by (simp add: delivery_inv_def)
  from p consider "outbox db' = outbox db" | r where "outbox db' = outbox (enqueue_world_event E r db)"
    by (auto simp: produced_def)
  then show ?thesis
  proof cases
    case (2 r)
    show ?thesis
    proof (cases "o_id (outbox_row_of E r) \<in> o_id ` set (outbox db) \<or> outbox (enqueue_world_event E r db) = outbox db")
      case True
      then have "outbox (enqueue_world_event E r db) = outbox db"
      proof
        assume "o_id (outbox_row_of E r) \<in> o_id ` set (outbox db)"
        then have "list_ex (\<lambda>x. o_id x = o_id (outbox_row_of E r) \<or> o_topic x = o_topic (outbox_row_of E r)
            \<and> o_sha x = o_sha (outbox_row_of E r)) (outbox db)"
          unfolding list_ex_iff by force
        then show ?thesis by (simp only: enqueue_world_event_def Let_def if_True)
      qed
      with 2 show ?thesis by (intro I') simp
    next
      case False
      then have "outbox db' = outbox db @ [outbox_row_of E r]"
        using 2 by (simp add: enqueue_world_event_def Let_def split: if_splits)
      moreover have "message_ok db (outbox_row_of E r)"
        using audit_count_fresh [OF I] False by (simp add: message_ok_def)
      ultimately show ?thesis
        using False I ok a by (auto simp: delivery_inv_def simp del: outbox_row_of_fields)
    qed
  qed (rule I')
qed

lemma settle_inv:
  assumes I: "delivery_inv db" and r: "find_message mid db = Some r" "o_status r = ''LEASED''"
    and id: "\<And>m. o_id (f m) = o_id m" and x: "a_message x = mid"
    and ok: "message_ok (settle mid f x db) (f r)"
  shows "delivery_inv (settle mid f x db)"
proof -
  have rq: "r \<in> set (outbox db)" "o_id r = mid" using r(1) by (auto simp: find_message_def dest: find_Some_D)
  have d: "distinct (map o_id (outbox db))" using I by (simp add: delivery_inv_def)
  have ids: "map o_id (outbox (settle mid f x db)) = map o_id (outbox db)"
    by (simp add: settle_def id)
  have q: "outbox (settle mid f x db) = map (\<lambda>m. if o_id m = mid then f m else m) (outbox db)"
    by (simp add: settle_def)
  have ok': "message_ok (settle mid f x db) (if o_id m = mid then f m else m)" if m: "m \<in> set (outbox db)" for m
  proof (cases "o_id m = mid")
    case True
    then have "m = r" using d m rq by (metis distinct_map inj_onD)
    with True ok show ?thesis by simp
  next
    case False
    then have "message_ok (settle mid f x db) m = message_ok db m"
      using x by (intro message_ok_cong) (simp add: audit_count_def settle_def)
    with False m I show ?thesis by (simp add: delivery_inv_def)
  qed
  have "\<forall>m \<in> set (outbox (settle mid f x db)). message_ok (settle mid f x db) m"
  proof
    fix m' assume "m' \<in> set (outbox (settle mid f x db))"
    then obtain m where "m \<in> set (outbox db)" "m' = (if o_id m = mid then f m else m)"
      unfolding q set_map by (rule imageE)
    then show "message_ok (settle mid f x db) m'" using ok' by simp
  qed
  moreover have "\<forall>a \<in> set (audit (settle mid f x db)). a_message a \<in> o_id ` set (outbox (settle mid f x db))"
  proof -
    have i: "o_id ` set (outbox (settle mid f x db)) = o_id ` set (outbox db)"
      using arg_cong [OF ids, of set] by (simp only: set_map)
    have a: "audit (settle mid f x db) = audit db @ [x]" by (simp add: settle_def)
    have "a_message x \<in> o_id ` set (outbox db)" using x rq by (metis image_eqI)
    then show ?thesis unfolding i a using I by (simp add: delivery_inv_def)
  qed
  ultimately show ?thesis
    using d ids by (simp add: delivery_inv_def)
qed

lemma acknowledge_inv:
  assumes "acknowledge E clock mid worker at_time db = Inr (db', m)" and I: "delivery_inv db"
  shows "delivery_inv db'"
  using assms(1)
proof (cases rule: acknowledge_cases)
  case (settled t r x)
  then have "r \<in> set (outbox db)" "o_id r = mid" by (auto simp: find_message_def dest: find_Some_D)
  with I settled(2) have "message_ok db r" by (simp add: delivery_inv_def)
  with settled \<open>o_id r = mid\<close> show ?thesis
    unfolding settled(7)
    by (intro settle_inv [OF I settled(1,2) _ settled(5)])
      (simp_all add: message_ok_def audit_count_def settle_def)
qed (use I in simp)

lemma fail_inv:
  assumes "fail E clock mid worker err secs n at_time db = Inr (db', m)" and I: "delivery_inv db"
  shows "delivery_inv db'"
  using assms(1)
proof (cases rule: fail_cases)
  case (1 r x t e s)
  then have "r \<in> set (outbox db)" "o_id r = mid" by (auto simp: find_message_def dest: find_Some_D)
  with I have "message_ok db r" by (simp add: delivery_inv_def)
  with 1 \<open>o_id r = mid\<close> show ?thesis
    unfolding 1(7)
    by (intro settle_inv [OF I 1(1,2) _ 1(5)])
      (simp_all add: message_ok_def audit_count_def settle_def)
qed

lemma claim_cases:
  assumes "claim E clock worker n secs at_time db = Inr (db', ms)"
  obtains w t where "ident_check 200 BadWorkerId worker = Inr w" "outbox_time E clock at_time = Inr t"
    "1 \<le> n" "n \<le> 1000" "1 \<le> secs" "secs \<le> 3600" "time_ok (t + secs * 1000000)"
    "(db', ms) = claim_due w (isoformat (t + secs * 1000000)) (isoformat t) (nat n) (expire_leases (isoformat t) db)"
  using assms by (auto simp: claim_def rbind_eq_Inr require_eq_Inr after_seconds_def)

text \<open>What a claim does to a row.\<close>

definition claim_row :: "string \<Rightarrow> string \<Rightarrow> string \<Rightarrow> nat \<Rightarrow> wdb \<Rightarrow> outbox_row \<Rightarrow> outbox_row" where
  "claim_row w e c n db m = (let m = expired_to_pending c m in if m \<in> set (picked c n db) then lease_row w e m else m)"

lemma same_message_refl: "same_message m m"
  by (simp add: same_message_def)

lemma claim_row_same: "same_message m (claim_row w e c n db m)"
  by (simp add: same_message_def claim_row_def Let_def lease_row_def expired_to_pending_def expire_row_def)

lemma same_message_id: "same_message m m' \<Longrightarrow> o_id m' = o_id m"
  by (simp add: same_message_def)

lemma o_id_claim_row [simp]: "o_id (claim_row w e c n db m) = o_id m"
  using claim_row_same by (rule same_message_id)

lemma set_delivery_order_distinct: "distinct ms \<Longrightarrow> distinct (delivery_order ms)"
  by (simp add: delivery_order_def)

lemma distinct_picked:
  assumes "distinct (map o_id (outbox db))"
  shows "distinct (map o_id (picked c n db))"
proof -
  let ?q = "map (expired_to_pending c) (outbox db)"
  have d: "distinct (map o_id ?q)" using assms by (simp add: o_def)
  have "distinct (picked c n db)"
    using d unfolding picked_def
    by (intro distinct_take set_delivery_order_distinct distinct_filter) (simp only: distinct_map)
  moreover have "inj_on o_id (set (picked c n db))"
  proof (rule inj_on_subset)
    show "inj_on o_id (set ?q)" using d by (simp only: distinct_map)
  qed (use picked_D in blast)
  ultimately show ?thesis by (simp add: distinct_map)
qed

lemma count_entries:
  "length (filter (\<lambda>a. a_message a = i \<and> a_action a = act) (map (\<lambda>m. \<lparr>a_message = o_id m,
     a_action = x, a_worker = w, a_detail = d, a_created = c\<rparr>) ms))
   = (if act = x then length (filter (\<lambda>m. o_id m = i) ms) else 0)"
  by (induction ms) auto

lemma claim_due_cases:
  assumes I: "delivery_inv db"
    and r: "(db', ms) = claim_due w e c n (expire_leases c db)"
  shows "outbox db' = map (claim_row w e c n db) (outbox db)" and "ms = map (lease_row w e) (picked c n db)"
    and "worlds db' = worlds db" "events db' = events db" "snaps db' = snaps db"
    and "\<And>m act. m \<in> set (outbox db) \<Longrightarrow> act \<in> {''CLAIMED'', ''DELIVERED'', ''DEAD''} \<Longrightarrow>
      audit_count db' (o_id m) act = audit_count db (o_id m) act
        + (if act = ''CLAIMED'' \<and> expired_to_pending c m \<in> set (picked c n db) then 1 else 0)"
    and "\<forall>a \<in> set (audit db'). a_message a \<in> o_id ` set (outbox db)"
proof -
  have d: "distinct (map o_id (outbox db))" using I by (simp add: delivery_inv_def)
  note D = claim_due_effect [OF d, of w e c n]
  have f: "fst (claim_due w e c n (expire_leases c db)) = db'" "snd (claim_due w e c n (expire_leases c db)) = ms"
    using r by (metis fst_conv, metis snd_conv)
  show "outbox db' = map (claim_row w e c n db) (outbox db)" "ms = map (lease_row w e) (picked c n db)"
    "worlds db' = worlds db" "events db' = events db" "snaps db' = snaps db"
    using D(1,2) by (simp_all add: f claim_row_def [abs_def] Let_def o_def)
  from D(3) obtain l where a: "audit db' = audit db @ l @ map (\<lambda>m. \<lparr>a_message = o_id m,
        a_action = ''CLAIMED'', a_worker = w, a_detail = mk_obj [(''lease_expires_at'', JStr e)], a_created = c\<rparr>)
          (picked c n db)"
      and l: "\<forall>a \<in> set l. a_action a = ''LEASE_EXPIRED'' \<and> a_message a \<in> o_id ` set (outbox db)"
    unfolding f by blast
  have pick: "o_id m \<in> o_id ` set (outbox db)" if "m \<in> set (picked c n db)" for m
    using picked_D [OF that] by auto
  show "\<forall>a \<in> set (audit db'). a_message a \<in> o_id ` set (outbox db)"
    using I l pick by (auto simp: a delivery_inv_def)
  fix m act assume m: "m \<in> set (outbox db)" and act: "act \<in> {''CLAIMED'', ''DELIVERED'', ''DEAD''}"
  have l0: "filter (\<lambda>a. a_message a = o_id m \<and> a_action a = act) l = []"
    using l act by (auto simp: filter_empty_conv)
  have p1: "length (filter (\<lambda>x. o_id x = o_id m) (picked c n db))
      = (if expired_to_pending c m \<in> set (picked c n db) then 1 else 0)"
  proof -
    have "length (filter (\<lambda>x. o_id x = o_id m) (picked c n db)) = card {x \<in> set (picked c n db). o_id x = o_id m}"
      using distinct_picked [OF d] by (simp add: distinct_map distinct_length_filter Int_def conj_commute)
    also have "{x \<in> set (picked c n db). o_id x = o_id m}
        = (if expired_to_pending c m \<in> set (picked c n db) then {expired_to_pending c m} else {})"
    proof -
      have "x = expired_to_pending c m" if x: "x \<in> set (picked c n db)" "o_id x = o_id m" for x
      proof -
        obtain y where y: "y \<in> set (outbox db)" "x = expired_to_pending c y" using picked_D [OF x(1)] by auto
        then have "y = m" using x(2) m d by (auto simp: distinct_map inj_on_def)
        with y show ?thesis by simp
      qed
      then have "x \<in> set (picked c n db) \<and> o_id x = o_id m \<longleftrightarrow> x \<in> set (picked c n db) \<and> x = expired_to_pending c m" for x
        by (metis o_id_expired_to_pending)
      then show ?thesis by (simp only:) auto
    qed
    finally show ?thesis by (simp split: if_splits)
  qed
  have p2: "length (filter (\<lambda>a. a_message a = o_id m \<and> a_action a = act) (map (\<lambda>m. \<lparr>a_message = o_id m,
        a_action = ''CLAIMED'', a_worker = w, a_detail = mk_obj [(''lease_expires_at'', JStr e)], a_created = c\<rparr>)
          (picked c n db))) = (if act = ''CLAIMED'' then length (filter (\<lambda>x. o_id x = o_id m) (picked c n db)) else 0)"
    by (rule count_entries)
  show "audit_count db' (o_id m) act = audit_count db (o_id m) act
        + (if act = ''CLAIMED'' \<and> expired_to_pending c m \<in> set (picked c n db) then 1 else 0)"
    unfolding audit_count_def a filter_append length_append l0 p1 p2 by simp
qed

lemma claim_inv:
  assumes "claim E clock worker n secs at_time db = Inr (db', ms)" and I: "delivery_inv db"
  shows "delivery_inv db'"
  using assms(1)
proof (cases rule: claim_cases)
  case (1 w t)
  note D = claim_due_cases [OF I 1(8)]
  let ?c = "isoformat t" and ?g = "claim_row w (isoformat (t + secs * 1000000)) (isoformat t) (nat n) db"
  have ok: "message_ok db' (?g m)" if m: "m \<in> set (outbox db)" for m
  proof -
    have "message_ok db m" using I m by (simp add: delivery_inv_def)
    moreover have "due ?c (expired_to_pending ?c m)" if "expired_to_pending ?c m \<in> set (picked ?c (nat n) db)"
      using picked_D [OF that] by simp
    ultimately show ?thesis
      using D(6) [OF m, of "''CLAIMED''"] D(6) [OF m, of "''DELIVERED''"] D(6) [OF m, of "''DEAD''"]
      by (auto simp: message_ok_def claim_row_def Let_def lease_row_def due_def expired_to_pending_def expire_row_def
          lease_expired_def)
  qed
  have ids: "map o_id (outbox db') = map o_id (outbox db)" by (simp add: D(1))
  have "\<forall>m \<in> set (outbox db'). message_ok db' m" using ok by (simp add: D(1))
  moreover have "distinct (map o_id (outbox db'))" using I ids by (simp only: delivery_inv_def)
  moreover have "o_id ` set (outbox db') = o_id ` set (outbox db)" using arg_cong [OF ids, of set] by (simp only: set_map)
  ultimately show ?thesis
    using D(7) by (simp only: delivery_inv_def)
qed

lemma delivery_step_inv: "delivery_step E db db' \<Longrightarrow> delivery_inv db \<Longrightarrow> delivery_inv db'"
  by (induction rule: delivery_step.induct)
    (auto intro: produced_inv create_produced append_produced restore_produced claim_inv acknowledge_inv fail_inv)

lemma delivery_run_inv: "delivery_run E db db' \<Longrightarrow> delivery_inv db \<Longrightarrow> delivery_inv db'"
  by (induction rule: delivery_run.induct) (auto intro: delivery_step_inv)

section \<open>What a step may do to the rows\<close>

definition final :: "outbox_row \<Rightarrow> bool" where
  "final m \<longleftrightarrow> o_status m \<in> {''DELIVERED'', ''DEAD''}"

text \<open>
  \<open>row_step E db db'\<close>: old rows keep their message, final rows do not change at all, and new
  rows are the messages of new events, none of which is left without one.
\<close>

definition has_message :: "pyenv \<Rightarrow> wdb \<Rightarrow> event_row \<Rightarrow> bool" where
  "has_message E db r \<longleftrightarrow> (\<exists>m \<in> set (outbox db). o_id m = o_id (outbox_row_of E r)
     \<or> o_topic m = o_topic (outbox_row_of E r) \<and> o_sha m = o_sha (outbox_row_of E r))"

definition row_step :: "pyenv \<Rightarrow> wdb \<Rightarrow> wdb \<Rightarrow> bool" where
  "row_step E db db' \<longleftrightarrow> (\<exists>f q es. outbox db' = map f (outbox db) @ q \<and> events db' = events db @ es
     \<and> (\<forall>m \<in> set (outbox db). same_message m (f m) \<and> (final m \<longrightarrow> f m = m))
     \<and> (\<forall>m \<in> set q. \<exists>r \<in> set es. m = outbox_row_of E r) \<and> (\<forall>r \<in> set es. has_message E db' r))"

lemma row_stepI:
  assumes "outbox db' = map f (outbox db)" and "events db' = events db"
    and "\<And>m. m \<in> set (outbox db) \<Longrightarrow> same_message m (f m) \<and> (final m \<longrightarrow> f m = m)"
  shows "row_step E db db'"
  unfolding row_step_def using assms by (intro exI [of _ f] exI [of _ "[]"]) simp

lemma settle_row_step:
  assumes I: "delivery_inv db" and r: "find_message mid db = Some r" "o_status r = ''LEASED''"
    and f: "\<And>m. same_message m (f m)"
  shows "row_step E db (settle mid f x db)"
proof (rule row_stepI [of _ "\<lambda>m. if o_id m = mid then f m else m"])
  fix m assume m: "m \<in> set (outbox db)"
  have rq: "r \<in> set (outbox db)" "o_id r = mid" using r(1) by (auto simp: find_message_def dest: find_Some_D)
  have "m = r" if "o_id m = mid"
    using I m rq that by (metis delivery_inv_def distinct_map inj_onD)
  then show "same_message m (if o_id m = mid then f m else m) \<and> (final m \<longrightarrow> (if o_id m = mid then f m else m) = m)"
    using f r(2) by (auto simp: same_message_refl final_def)
qed (simp_all add: settle_def)

lemma produced_row_step: "produced E db db' \<Longrightarrow> row_step E db db'"
  unfolding produced_def
proof (elim conjE disjE exE)
  fix r assume e: "events db' = events db @ [r]" and q: "outbox db' = outbox (enqueue_world_event E r db)"
  show ?thesis
  proof (cases "has_message E db r")
    case True
    then have "outbox db' = outbox db"
      by (auto simp: q enqueue_world_event_def has_message_def Let_def list_ex_iff)
    with True e show ?thesis
      unfolding row_step_def
      by (intro exI [of _ id] exI [of _ "[]"] exI [of _ "[r]"]) (auto simp: same_message_refl has_message_def)
  next
    case False
    then have "outbox db' = outbox db @ [outbox_row_of E r]"
      by (auto simp: q enqueue_world_event_def has_message_def Let_def list_ex_iff)
    with e show ?thesis
      unfolding row_step_def
      by (intro exI [of _ id] exI [of _ "[outbox_row_of E r]"] exI [of _ "[r]"])
        (auto simp: same_message_refl has_message_def)
  qed
qed (auto intro!: row_stepI [of _ id] simp: same_message_refl)

lemma claim_row_step:
  assumes "claim E clock worker n secs at_time db = Inr (db', ms)" and I: "delivery_inv db"
  shows "row_step E db db'"
  using assms(1)
proof (cases rule: claim_cases)
  case (1 w t)
  note D = claim_due_cases [OF I 1(8)]
  show ?thesis
  proof (rule row_stepI [OF D(1,4)])
    fix m assume "m \<in> set (outbox db)"
    let ?g = "claim_row w (isoformat (t + secs * 1000000)) (isoformat t) (nat n) db"
    have "final m \<longrightarrow> ?g m = m"
      by (auto simp: claim_row_def Let_def lease_row_def final_def expired_to_pending_def lease_expired_def)
    with claim_row_same show "same_message m (?g m) \<and> (final m \<longrightarrow> ?g m = m)" by blast
  qed
qed

lemma delivery_row_step:
  assumes "delivery_step E db db'" and I: "delivery_inv db"
  shows "row_step E db db'"
  using assms
proof (induction rule: delivery_step.induct)
  case (acknowledged clock mid worker at_time db db' m)
  from acknowledged(1) show ?case
  proof (cases rule: acknowledge_cases)
    case already
    then show ?thesis by (intro row_stepI [of _ id]) (auto simp: same_message_refl)
  next
    case (settled t r x)
    show ?thesis
      unfolding settled(7)
      by (rule settle_row_step [OF acknowledged(2) settled(1,2)]) (simp add: same_message_def)
  qed
next
  case (failed clock mid worker err secs n at_time db db' m)
  from failed(1) show ?case
  proof (cases rule: fail_cases)
    case (1 r x t e s)
    show ?thesis
      unfolding 1(7)
      by (rule settle_row_step [OF failed(2) 1(1,2)]) (simp add: same_message_def)
  qed
qed (auto intro: produced_row_step create_produced append_produced restore_produced claim_row_step)

lemma row_step_id:
  "row_step E db db' \<Longrightarrow> m \<in> set (outbox db) \<Longrightarrow> \<exists>m' \<in> set (outbox db'). same_message m m' \<and> (final m \<longrightarrow> m' = m)"
  by (auto simp: row_step_def)

lemma has_message_step: "row_step E db db' \<Longrightarrow> has_message E db r \<Longrightarrow> has_message E db' r"
proof -
  assume s: "row_step E db db'" and "has_message E db r"
  then obtain m where m: "m \<in> set (outbox db)" "o_id m = o_id (outbox_row_of E r)
     \<or> o_topic m = o_topic (outbox_row_of E r) \<and> o_sha m = o_sha (outbox_row_of E r)"
    unfolding has_message_def by blast
  from row_step_id [OF s m(1)] obtain m' where "m' \<in> set (outbox db')" "same_message m m'" by blast
  with m(2) show "has_message E db' r"
    unfolding has_message_def by (intro bexI [of _ m']) (simp_all only: same_message_def)
qed

definition messages_match :: "pyenv \<Rightarrow> wdb \<Rightarrow> bool" where
  "messages_match E db \<longleftrightarrow> (\<forall>r \<in> set (events db). has_message E db r)
     \<and> (\<forall>m \<in> set (outbox db). \<exists>r \<in> set (events db). same_message (outbox_row_of E r) m)"

lemma messages_match_step:
  assumes s: "row_step E db db'" and m: "messages_match E db"
  shows "messages_match E db'"
proof -
  from s obtain f q es where o: "outbox db' = map f (outbox db) @ q" "events db' = events db @ es"
    and f: "\<And>m. m \<in> set (outbox db) \<Longrightarrow> same_message m (f m)"
    and q: "\<And>m. m \<in> set q \<Longrightarrow> \<exists>r \<in> set es. m = outbox_row_of E r"
    and e: "\<And>r. r \<in> set es \<Longrightarrow> has_message E db' r"
    unfolding row_step_def by blast
  have "\<exists>r \<in> set (events db'). same_message (outbox_row_of E r) x" if "x \<in> set (outbox db')" for x
  proof -
    from that consider m where "m \<in> set (outbox db)" "x = f m" | "x \<in> set q" by (auto simp: o)
    then show ?thesis
    proof cases
      case 1
      with m f [OF 1(1)] show ?thesis
        unfolding messages_match_def o(2) by (fastforce simp: same_message_def)
    next
      case 2
      then obtain r where "r \<in> set es" "x = outbox_row_of E r" using q by blast
      then show ?thesis by (intro bexI [of _ r]) (simp_all add: o(2) same_message_refl)
    qed
  qed
  moreover have "has_message E db' r" if "r \<in> set (events db')" for r
    using that m e has_message_step [OF s] by (auto simp: o(2) messages_match_def)
  ultimately show ?thesis by (simp add: messages_match_def)
qed

lemma messages_match_run:
  assumes "delivery_run E db db'" and "delivery_inv db" and "messages_match E db"
  shows "messages_match E db'"
  using assms
proof (induction rule: delivery_run.induct)
  case (drun_step db db' db'')
  then show ?case by (metis messages_match_step delivery_row_step delivery_run_inv)
qed

section \<open>Properties of delivery\<close>

text \<open>
  C8. Every message of a reachable database is accounted for in the audit: its attempts are its
  CLAIMED entries, it is recorded as delivered (or dead) exactly once when it is delivered (or
  dead) and never otherwise, and it has a lease and an owner exactly while it is leased.
\<close>

theorem messages_accounted:
  assumes "delivery_run E init_wdb db" and "m \<in> set (outbox db)"
  shows "o_attempts m = int (audit_count db (o_id m) ''CLAIMED'')
    \<and> audit_count db (o_id m) ''DELIVERED'' = (if o_status m = ''DELIVERED'' then 1 else 0)
    \<and> audit_count db (o_id m) ''DEAD'' = (if o_status m = ''DEAD'' then 1 else 0)
    \<and> (o_owner m \<noteq> None \<longleftrightarrow> o_status m = ''LEASED'') \<and> (o_lease m \<noteq> None \<longleftrightarrow> o_status m = ''LEASED'')
    \<and> o_status m \<in> {''PENDING'', ''LEASED'', ''DELIVERED'', ''DEAD''}"
  using delivery_run_inv [OF assms(1) delivery_inv_init] assms(2)
  by (simp add: delivery_inv_def message_ok_def)

text \<open>
  A delivered or dead message is final: no later step of the store or of any worker changes
  its row.
\<close>

theorem final_messages_stay:
  assumes "delivery_run E init_wdb db" and "delivery_run E db db'" and "m \<in> set (outbox db)" and "final m"
  shows "m \<in> set (outbox db')"
  using assms(2,1,3,4)
proof (induction rule: delivery_run.induct)
  case (drun_step db db' db'')
  have I: "delivery_inv db'"
    by (rule delivery_run_inv [OF drun_step.hyps(1) delivery_run_inv [OF drun_step.prems(1) delivery_inv_init]])
  show ?case
    using row_step_id [OF delivery_row_step [OF drun_step.hyps(2) I]] drun_step by blast
qed

text \<open>
  C3. The outbox agrees with the event log: every committed event has its message (or one with
  the same content hash), and every message in the outbox is that of a committed event, whatever
  has been claimed, delivered or failed meanwhile.
\<close>

theorem outbox_agrees_with_event_log:
  assumes "delivery_run E init_wdb db"
  shows "(\<forall>r \<in> set (events db). \<exists>m \<in> set (outbox db). o_id m = o_id (outbox_row_of E r)
        \<or> o_topic m = o_topic (outbox_row_of E r) \<and> o_sha m = o_sha (outbox_row_of E r))
    \<and> (\<forall>m \<in> set (outbox db). \<exists>r \<in> set (events db). o_id m = o_id (outbox_row_of E r)
        \<and> o_payload m = outbox_message E r \<and> o_event m = o_event (outbox_row_of E r))"
proof -
  have "messages_match E init_wdb" by (simp add: messages_match_def init_wdb_def)
  from messages_match_run [OF assms delivery_inv_init this] show ?thesis
    by (auto simp: messages_match_def has_message_def same_message_def)
qed

text \<open>
  C7. Leases are exclusive: a claim returns at most \<open>limit\<close> messages, all leased to the claiming
  worker until \<open>secs\<close> seconds from now, and a message another worker holds a lease on that has
  not run out is left untouched and is not among them.
\<close>

theorem claim_grants_exclusive_leases:
  assumes "claim E clock worker n secs at_time db = Inr (db', ms)"
    and "outbox_time E clock at_time = Inr t" and "time_ok t" and "delivery_inv db"
  shows "(\<forall>m \<in> set ms. m \<in> set (outbox db') \<and> o_status m = ''LEASED'' \<and> o_owner m = Some (py_strip worker)
        \<and> o_lease m = Some (isoformat (t + secs * 1000000)))
    \<and> int (length ms) \<le> n
    \<and> (\<forall>m \<in> set (outbox db). \<forall>u. o_status m = ''LEASED'' \<and> o_lease m = Some (isoformat u) \<and> time_ok u \<and> t \<le> u \<longrightarrow>
          m \<in> set (outbox db') \<and> o_id m \<notin> o_id ` set ms)"
  using assms(1)
proof (cases rule: claim_cases)
  case (1 w t')
  then have t: "t' = t" using assms(2) by simp
  note D = claim_due_cases [OF assms(4) 1(8) [unfolded t]]
  let ?c = "isoformat t" and ?e = "isoformat (t + secs * 1000000)"
  have w: "w = py_strip worker" using ident_check_Inr_D [OF 1(1)] by simp
  have returned: "m \<in> set (outbox db') \<and> o_status m = ''LEASED'' \<and> o_owner m = Some w \<and> o_lease m = Some ?e"
    if mm: "m \<in> set ms" for m
  proof -
    obtain p where p: "p \<in> set (picked ?c (nat n) db)" "m = lease_row w ?e p"
      using mm unfolding D(2) by auto
    then obtain y where y: "y \<in> set (outbox db)" "p = expired_to_pending ?c y" and "due ?c p"
      using picked_D [OF p(1)] by auto
    with p have "claim_row w ?e ?c (nat n) db y = m" by (simp add: claim_row_def)
    then have "m \<in> set (outbox db')" using y(1) unfolding D(1) set_map by (metis image_eqI)
    with p(2) \<open>due ?c p\<close> show ?thesis by (simp add: lease_row_def due_def)
  qed
  have few: "int (length ms) \<le> n"
    using 1(3) by (simp add: D(2) picked_def)
  have other: "m \<in> set (outbox db') \<and> o_id m \<notin> o_id ` set ms"
    if m: "m \<in> set (outbox db)" "o_status m = ''LEASED''" "o_lease m = Some (isoformat u)" "time_ok u" "t \<le> u" for m u
  proof -
    have "\<not> isoformat u < ?c" using isoformat_less_iff [OF m(4) assms(3)] m(5) by simp
    then have e: "expired_to_pending ?c m = m" using m by (simp add: expired_to_pending_def lease_expired_def)
    have n: "m \<notin> set (picked ?c (nat n) db)" using picked_D m(2) by (auto simp: due_def)
    then have "claim_row w ?e ?c (nat n) db m = m" by (simp add: claim_row_def e)
    then have "m \<in> set (outbox db')" using m(1) by (force simp: D(1))
    moreover have "o_id m \<notin> o_id ` set ms"
    proof
      assume "o_id m \<in> o_id ` set ms"
      then obtain p where p: "p \<in> set (picked ?c (nat n) db)" "o_id p = o_id m" by (auto simp: D(2))
      then obtain y where y: "y \<in> set (outbox db)" "p = expired_to_pending ?c y" using picked_D [OF p(1)] by auto
      then have "y = m" using p(2) m(1) assms(4) by (auto simp: delivery_inv_def distinct_map inj_on_def)
      with y e p n show False by simp
    qed
    ultimately show ?thesis ..
  qed
  show ?thesis using returned few other unfolding w by blast
qed

text \<open>
  C12. No message is stuck with a worker that disappeared: if at most \<open>limit\<close> messages are waiting,
  a claim returns every message that is pending and available, and every one whose lease ran out
  and that is available.
\<close>

theorem claim_reaches_waiting_messages:
  assumes "claim E clock worker n secs at_time db = Inr (db', ms)"
    and "outbox_time E clock at_time = Inr t" and "delivery_inv db"
    and "m \<in> set (outbox db)" and "o_available m \<le> isoformat t"
    and "o_status m = ''PENDING'' \<or> lease_expired (isoformat t) m"
    and "int (length (filter (\<lambda>m. o_available m \<le> isoformat t \<and> (o_status m = ''PENDING'' \<or> lease_expired (isoformat t) m))
           (outbox db))) \<le> n"
  shows "\<exists>m' \<in> set ms. same_message m m'"
  using assms(1)
proof (cases rule: claim_cases)
  case (1 w t')
  then have t: "t' = t" using assms(2) by simp
  note D = claim_due_cases [OF assms(3) 1(8) [unfolded t]]
  let ?c = "isoformat t"
  have due: "due ?c (expired_to_pending ?c m) \<longleftrightarrow> o_available m \<le> ?c \<and> (o_status m = ''PENDING'' \<or> lease_expired ?c m)" for m
    by (auto simp: due_def expired_to_pending_def expire_row_def lease_expired_def)
  have "length (filter (due ?c) (map (expired_to_pending ?c) (outbox db))) \<le> nat n"
    using assms(7) 1(3) by (simp add: filter_map o_def due)
  then have all: "picked ?c (nat n) db = delivery_order (filter (due ?c) (map (expired_to_pending ?c) (outbox db)))"
    by (simp add: picked_def delivery_order_def)
  have "expired_to_pending ?c m \<in> set (picked ?c (nat n) db)"
    using assms(4-6) by (simp add: all due)
  then have "lease_row w (isoformat (t + secs * 1000000)) (expired_to_pending ?c m) \<in> set ms"
    by (simp add: D(2))
  moreover have "same_message m (lease_row w e (expired_to_pending ?c m))" for e
    by (simp add: same_message_def lease_row_def expired_to_pending_def expire_row_def)
  ultimately show ?thesis by blast
qed

text \<open>
  Only the worker that holds the lease settles a message: an acknowledgement or a failure
  that changes the database comes from the message's owner, and it leaves the message delivered,
  or pending again with its attempts kept, or dead once the attempts have reached the maximum.
\<close>

theorem only_the_owner_settles:
  shows "(acknowledge E clock mid worker at_time db = Inr (db', m) \<longrightarrow> db' = db \<and> o_status m = ''DELIVERED''
      \<or> (\<exists>r. find_message mid db = Some r \<and> o_status r = ''LEASED'' \<and> o_owner r = Some worker
          \<and> find_message mid db' = Some m \<and> o_status m = ''DELIVERED'' \<and> o_attempts m = o_attempts r))
    \<and> (fail E clock mid worker err secs n at_time db = Inr (db', m) \<longrightarrow>
        (\<exists>r. find_message mid db = Some r \<and> o_status r = ''LEASED'' \<and> o_owner r = Some worker
          \<and> find_message mid db' = Some m \<and> o_attempts m = o_attempts r
          \<and> o_status m = (if n \<le> o_attempts r then ''DEAD'' else ''PENDING'')))"
proof (intro conjI impI)
  have upd: "find_message mid (settle mid f x db) = map_option f (find_message mid db)" if "\<And>m. o_id (f m) = o_id m" for f x
    unfolding find_message_def settle_def
    using find_update_same [of "\<lambda>m. o_id m = mid" f] that by simp
  {
    assume "acknowledge E clock mid worker at_time db = Inr (db', m)"
    then show "db' = db \<and> o_status m = ''DELIVERED''
      \<or> (\<exists>r. find_message mid db = Some r \<and> o_status r = ''LEASED'' \<and> o_owner r = Some worker
          \<and> find_message mid db' = Some m \<and> o_status m = ''DELIVERED'' \<and> o_attempts m = o_attempts r)"
      by (cases rule: acknowledge_cases) (auto simp: upd)
  next
    assume "fail E clock mid worker err secs n at_time db = Inr (db', m)"
    then show "\<exists>r. find_message mid db = Some r \<and> o_status r = ''LEASED'' \<and> o_owner r = Some worker
          \<and> find_message mid db' = Some m \<and> o_attempts m = o_attempts r
          \<and> o_status m = (if n \<le> o_attempts r then ''DEAD'' else ''PENDING'')"
      by (cases rule: fail_cases) (auto simp: upd)
  }
qed

end
