(* ===== verification/OutboxExamples.thy ===== *)
theory OutboxExamples
  imports OutboxProps WorldExamples
begin

text \<open>
  Delivery on a concrete run: a world is created, its message is claimed, the lease runs out and
  another worker claims it, acknowledges it, and each property is applied to the run.
\<close>

lemma civil_0: "civil 0 = (1, 1, 1)"
proof -
  have "find_year 1 0 = (1, 0)" by (subst find_year.simps) (simp add: year_len_def)
  then show ?thesis by (simp add: civil_def month_lens_def leap_year_def)
qed

lemma pad_numeral: "pad (numeral k) n = pad (pred_numeral k) (n div 10) @ [digit (n mod 10)]"
  unfolding numeral_eq_Suc [of k] pad.simps by (rule refl)

lemma iso_values:
  "isoformat 0 = ''0001-01-01T00:00:00+00:00''" "isoformat 10000000 = ''0001-01-01T00:00:10+00:00''"
  "isoformat 20000000 = ''0001-01-01T00:00:20+00:00''" "isoformat 15000000 = ''0001-01-01T00:00:15+00:00''"
  "isoformat 25000000 = ''0001-01-01T00:00:25+00:00''" "isoformat 30000000 = ''0001-01-01T00:00:30+00:00''"
  by (simp_all add: isoformat_def date_text_def civil_0 clock_text_def micro_text_def pad_numeral digit_values)

lemmas outbox_eval [eval_simps] =
  claim_def claim_due_def claim_one_def expire_leases_def expire_one_def outbox_time_def after_seconds_def
  due_def lease_row_def expire_row_def lease_expired_def delivery_order_def find_message_def
  update_message_def add_audit_def acknowledge_def fail_def time_ok_def max_time_def iso_values

abbreviation t00 :: string where "t00 \<equiv> ''0001-01-01T00:00:00+00:00''"
abbreviation t10 :: string where "t10 \<equiv> ''0001-01-01T00:00:10+00:00''"
abbreviation t20 :: string where "t20 \<equiv> ''0001-01-01T00:00:20+00:00''"
abbreviation t25 :: string where "t25 \<equiv> ''0001-01-01T00:00:25+00:00''"
abbreviation t30 :: string where "t30 \<equiv> ''0001-01-01T00:00:30+00:00''"

definition od_row :: event_row where
  "od_row = ex_row ''WORLD_CREATED'' ''WORLD_CREATED'' 0 (REPLACE_ROOT (JObj [(''n'', JInt 1)])) []
     ''sha256:13'' ''sha256:1'' genesis ''sha256:21'' t00"

definition od_message :: outbox_row where
  "od_message = ex_message od_row ''world:21'' ''sha256:21''"

definition od_audit :: "string \<Rightarrow> string \<Rightarrow> (string \<times> json) list \<Rightarrow> string \<Rightarrow> audit_row" where
  "od_audit act w d when =
     \<lparr>a_message = ''world:21'', a_action = act, a_worker = w, a_detail = JObj d, a_created = when\<rparr>"

definition od0 :: wdb where
  "od0 = \<lparr>worlds = [(ex_world 0 1 t00)\<lparr>w_created := t00\<rparr>], events = [od_row],
     snaps = [ex_snap 0 1 ''sha256:21'' t00], outbox = [od_message], audit = []\<rparr>"

text \<open>Claimed by \<open>p\<close> for ten seconds; then, after twenty, by \<open>q\<close>; then delivered by \<open>q\<close>.\<close>

definition od1 :: wdb where
  "od1 = od0\<lparr>outbox := [od_message\<lparr>o_status := ''LEASED'', o_owner := Some ''p'', o_lease := Some t10, o_attempts := 1\<rparr>],
     audit := [od_audit ''CLAIMED'' ''p'' [(''lease_expires_at'', JStr t10)] t00]\<rparr>"

definition od2 :: wdb where
  "od2 = od0\<lparr>outbox := [od_message\<lparr>o_status := ''LEASED'', o_owner := Some ''q'', o_lease := Some t30, o_attempts := 2\<rparr>],
     audit := [od_audit ''CLAIMED'' ''p'' [(''lease_expires_at'', JStr t10)] t00,
       od_audit ''LEASE_EXPIRED'' ''p'' [] t20, od_audit ''CLAIMED'' ''q'' [(''lease_expires_at'', JStr t30)] t20]\<rparr>"

definition od3 :: wdb where
  "od3 = od0\<lparr>outbox := [od_message\<lparr>o_status := ''DELIVERED'', o_attempts := 2, o_delivered := Some t25\<rparr>],
     audit := audit od2 @ [od_audit ''DELIVERED'' ''q'' [] t25]\<rparr>"

lemmas od_eval [eval_simps] = od_row_def od_message_def od_audit_def od0_def od1_def od2_def od3_def

lemma od_created: "\<exists>sn. create_world demo_env ''1'' ''t'' ''w'' (JObj [(''n'', JInt 1)]) ''a'' ''k'' [] (Some t00) init_wdb
    = Inr (od0, sn)"
  by (simp add: eval_simps cong: world_congs)

lemma od_claimed: "\<exists>ms. claim demo_env 0 ''p'' 5 10 TimeNone od0 = Inr (od1, ms)"
  by (simp add: eval_simps cong: world_congs)

lemma od_reclaimed: "claim demo_env 20000000 '' q'' 5 10 TimeNone od1 = Inr (od2, outbox od2)"
  by (simp add: eval_simps cong: world_congs)

lemma od_delivered: "acknowledge demo_env 25000000 ''world:21'' ''q'' TimeNone od2 = Inr (od3, hd (outbox od3))"
  by (simp add: eval_simps cong: world_congs)

lemma od_run: "delivery_run demo_env init_wdb od1" "delivery_run demo_env init_wdb od2"
    "delivery_run demo_env init_wdb od3"
proof -
  have "delivery_run demo_env init_wdb od0"
    using od_created drun_step [OF drun_refl] delivery_step.created by blast
  then show 1: "delivery_run demo_env init_wdb od1"
    using od_claimed drun_step delivery_step.claimed by blast
  show 2: "delivery_run demo_env init_wdb od2"
    by (rule drun_step [OF 1 delivery_step.claimed [OF od_reclaimed]])
  show "delivery_run demo_env init_wdb od3"
    by (rule drun_step [OF 2 delivery_step.acknowledged [OF od_delivered]])
qed

lemma od_inv: "delivery_inv od1"
  by (rule delivery_run_inv [OF od_run(1) delivery_inv_init])

section \<open>The properties of delivery on the run\<close>

theorem messages_accounted_witness: "audit_count od3 ''world:21'' ''CLAIMED'' = 2"
proof -
  have "hd (outbox od3) \<in> set (outbox od3)" "o_attempts (hd (outbox od3)) = 2" "o_id (hd (outbox od3)) = ''world:21''"
    by (simp_all add: eval_simps)
  with messages_accounted [OF od_run(3) this(1)] show ?thesis by simp
qed

theorem final_messages_stay_witness: "hd (outbox od3) \<in> set (outbox od3) \<and> final (hd (outbox od3))"
proof -
  have "hd (outbox od3) \<in> set (outbox od3)" and f: "final (hd (outbox od3))"
    by (simp_all add: final_def eval_simps)
  from final_messages_stay [OF od_run(3) drun_refl this] f show ?thesis by blast
qed

theorem outbox_agrees_with_event_log_witness:
  "\<exists>m \<in> set (outbox od3). o_id m = o_id (outbox_row_of demo_env od_row)
     \<or> o_topic m = o_topic (outbox_row_of demo_env od_row) \<and> o_sha m = o_sha (outbox_row_of demo_env od_row)"
proof -
  have "od_row \<in> set (events od3)" by (simp add: od3_def od0_def)
  with outbox_agrees_with_event_log [OF od_run(3)] show ?thesis by blast
qed

theorem claim_grants_exclusive_leases_witness:
  "list_all (\<lambda>m. o_status m = ''LEASED'' \<and> o_owner m = Some ''q'') (outbox od2)"
proof -
  have t: "outbox_time demo_env 20000000 TimeNone = Inr 20000000" "time_ok 20000000"
    and q: "py_strip '' q'' = ''q''"
    by (simp_all add: eval_simps)
  show ?thesis
    using claim_grants_exclusive_leases [OF od_reclaimed t od_inv] by (simp add: q list_all_iff)
qed

theorem claim_reaches_waiting_messages_witness:
  "lease_expired t20 (hd (outbox od1)) \<and> (\<exists>m \<in> set (outbox od2). same_message (hd (outbox od1)) m)"
proof -
  have t: "outbox_time demo_env 20000000 TimeNone = Inr 20000000" by (simp add: eval_simps)
  have h: "hd (outbox od1) \<in> set (outbox od1)" "o_available (hd (outbox od1)) \<le> isoformat 20000000"
      "lease_expired (isoformat 20000000) (hd (outbox od1))" "length (outbox od1) = 1"
    by (simp_all add: eval_simps)
  have "length (filter P (outbox od1)) \<le> 1" for P
    using length_filter_le [of P "outbox od1"] h(4) by simp
  then have "int (length (filter P (outbox od1))) \<le> 5" for P by (metis int_ops(3) le_trans numeral_One of_nat_le_iff of_nat_numeral one_le_numeral)
  from claim_reaches_waiting_messages [OF od_reclaimed t od_inv h(1,2) disjI2 [OF h(3)] this] h(3)
  show ?thesis by (simp add: iso_values)
qed

theorem only_the_owner_settles_witness:
  "\<exists>r. find_message ''world:21'' od2 = Some r \<and> o_owner r = Some ''q''"
proof -
  have "od3 \<noteq> od2" by (simp add: eval_simps)
  then show ?thesis
    using only_the_owner_settles [of demo_env 25000000 "''world:21''" "''q''" TimeNone od2 od3 "hd (outbox od3)" "[]" 0 0]
      od_delivered by blast
qed

end
