(* ===== verification/Base64.thy ===== *)
theory Base64
  imports Prelude
begin

text \<open>
  The text encoding of execution tokens (\<open>_b64encode\<close> and \<open>_b64decode\<close> of
  \<open>src/src/edon/kernel/tokens.py\<close>): the URL-safe base64 of the standard library without its
  padding, and its lenient decoder, which skips characters outside the alphabet. Bytes are
  characters; UTF-8 is written out for the code points of a string.
\<close>

definition utf8_char :: "char \<Rightarrow> string" where
  "utf8_char c = (let n = of_char c :: nat in
     if n < 128 then [c] else [char_of (192 + n div 64), char_of (128 + n mod 64)])"

definition utf8_encode :: "string \<Rightarrow> string" where
  "utf8_encode s = concat (map utf8_char s)"

definition is_ascii :: "string \<Rightarrow> bool" where
  "is_ascii s \<longleftrightarrow> list_all (\<lambda>c. (of_char c :: nat) < 128) s"

definition b64_alphabet :: string where
  "b64_alphabet = ''ABCDEFGHIJKLMNOPQRSTUVWXYZabcdefghijklmnopqrstuvwxyz0123456789-_''"

definition b64_char :: "nat \<Rightarrow> char" where
  "b64_char n = b64_alphabet ! n"

text \<open>The decoder also knows the two characters the URL-safe alphabet replaces.\<close>

definition b64_val :: "char \<Rightarrow> nat option" where
  "b64_val c = map_of (zip (b64_alphabet @ ''+/'') ([0..<64] @ [62, 63])) c"

fun b64_quads :: "string \<Rightarrow> string" where
  "b64_quads [] = []"
| "b64_quads [a] = (let x = of_char a in
     [b64_char (x div 4), b64_char (x mod 4 * 16), CHR ''='', CHR ''=''])"
| "b64_quads [a, b] = (let x = of_char a; y = of_char b in
     [b64_char (x div 4), b64_char (x mod 4 * 16 + y div 16), b64_char (y mod 16 * 4), CHR ''=''])"
| "b64_quads (a # b # c # s) = (let x = of_char a; y = of_char b; z = of_char c in
     b64_char (x div 4) # b64_char (x mod 4 * 16 + y div 16) # b64_char (y mod 16 * 4 + z div 64)
       # b64_char (z mod 64) # b64_quads s)"

definition b64_encode :: "string \<Rightarrow> string" where
  "b64_encode s = rev (dropWhile (\<lambda>c. c = CHR ''='') (rev (b64_quads s)))"

text \<open>The decoder: position in the group of four, the bits left over, the padding seen.\<close>

fun a2b :: "nat \<Rightarrow> nat \<Rightarrow> nat \<Rightarrow> string \<Rightarrow> string option" where
  "a2b q l p [] = (if q = 0 then Some [] else None)"
| "a2b q l p (c # cs) =
     (if c = CHR ''='' then
        (if 2 \<le> q \<and> 4 \<le> q + Suc p then Some [] else a2b q l (if 2 \<le> q then Suc p else p) cs)
      else (case b64_val c of
        None \<Rightarrow> a2b q l p cs
      | Some v \<Rightarrow>
          if q = 0 then a2b 1 v 0 cs
          else if q = 1 then map_option ((#) (char_of (l * 4 + v div 16))) (a2b 2 (v mod 16) 0 cs)
          else if q = 2 then map_option ((#) (char_of (l * 16 + v div 4))) (a2b 3 (v mod 4) 0 cs)
          else map_option ((#) (char_of (l * 64 + v))) (a2b 0 0 0 cs)))"

definition b64_decode :: "string \<Rightarrow> string option" where
  "b64_decode s = (if is_ascii s
     then a2b 0 0 0 (s @ replicate (nat ((- int (length s)) mod 4)) (CHR ''='')) else None)"

section \<open>Decoding what was encoded\<close>

lemma b64_table: "\<forall>n \<in> set [0..<64]. b64_val (b64_char n) = Some n \<and> b64_char n \<noteq> CHR ''=''
    \<and> (of_char (b64_char n) :: nat) < 128"
  by code_simp

lemma b64_val_char [simp]: "n < 64 \<Longrightarrow> b64_val (b64_char n) = Some n"
  and b64_char_pad [simp]: "n < 64 \<Longrightarrow> b64_char n \<noteq> CHR ''=''"
  and b64_char_ascii [simp]: "n < 64 \<Longrightarrow> (of_char (b64_char n) :: nat) < 128"
  using b64_table by (auto simp: atLeast0LessThan)

lemma byte_bounds [simp]: "(of_char c :: nat) div 4 < 64" "(of_char c :: nat) div 16 < 16" "(of_char c :: nat) div 64 < 4"
proof -
  have "(of_char c :: nat) < 256" by simp
  then show "(of_char c :: nat) div 4 < 64" "(of_char c :: nat) div 16 < 16" "(of_char c :: nat) div 64 < 4"
    by (simp_all add: div_less_iff_less_mult)
qed

text \<open>The encoded text before its padding is removed: the text and the padding.\<close>

fun b64_body :: "string \<Rightarrow> string" where
  "b64_body [] = []"
| "b64_body [a] = (let x = of_char a in [b64_char (x div 4), b64_char (x mod 4 * 16)])"
| "b64_body [a, b] = (let x = of_char a; y = of_char b in
     [b64_char (x div 4), b64_char (x mod 4 * 16 + y div 16), b64_char (y mod 16 * 4)])"
| "b64_body (a # b # c # s) = (let x = of_char a; y = of_char b; z = of_char c in
     b64_char (x div 4) # b64_char (x mod 4 * 16 + y div 16) # b64_char (y mod 16 * 4 + z div 64)
       # b64_char (z mod 64) # b64_body s)"

definition b64_pad :: "string \<Rightarrow> nat" where
  "b64_pad s = (3 - length s mod 3) mod 3"

lemma group_bounds [simp]:
  "x mod 4 * 16 < (64::nat)" "y mod 16 * 4 < (64::nat)" "z mod 64 < (64::nat)"
  "y < 16 \<Longrightarrow> x mod 4 * 16 + y < 64" "z < 4 \<Longrightarrow> y mod 16 * 4 + z < 64"
proof -
  have m: "x mod 4 < 4" "y mod 16 < 16" by simp_all
  show "x mod 4 * 16 < (64::nat)" "z mod 64 < (64::nat)" "y < 16 \<Longrightarrow> x mod 4 * 16 + y < 64"
    using m by simp_all
  show "y mod 16 * 4 < (64::nat)" using m(2) by linarith
  show "z < 4 \<Longrightarrow> y mod 16 * 4 + z < 64" using m(2) by linarith
qed

lemma replicate_two: "replicate 2 c = [c, c]"
  by (simp add: numeral_2_eq_2)

lemma b64_quads_body: "b64_quads s = b64_body s @ replicate (b64_pad s) (CHR ''='')"
proof (induction s rule: b64_quads.induct)
  case (4 a b c s)
  then show ?case by (simp add: b64_pad_def Let_def)
qed (simp_all add: b64_pad_def Let_def replicate_two)

lemma b64_body_no_pad: "c \<in> set (b64_body s) \<Longrightarrow> c \<noteq> CHR ''='' \<and> (of_char c :: nat) < 128"
  by (induction s rule: b64_body.induct) (auto simp: Let_def)

lemma b64_encode_body: "b64_encode s = b64_body s"
proof -
  have "dropWhile (\<lambda>c. c = CHR ''='') (replicate n (CHR ''='') @ rev (b64_body s)) = rev (b64_body s)" for n
  proof (induction n)
    case 0
    then show ?case
    proof (cases "rev (b64_body s)")
      case (Cons d ds)
      then have "d \<in> set (b64_body s)" by (metis list.set_intros(1) set_rev)
      then have "d \<noteq> CHR ''=''" using b64_body_no_pad by blast
      with Cons show ?thesis by simp
    qed simp
  qed simp
  then show ?thesis by (simp add: b64_encode_def b64_quads_body)
qed

lemma length_b64_body: "nat ((- int (length (b64_body s))) mod 4) = b64_pad s"
proof (induction s rule: b64_body.induct)
  case (4 a b c s)
  have "(- int (length (b64_body (a # b # c # s)))) mod 4 = (- int (length (b64_body s))) mod 4"
    by (simp add: Let_def) presburger
  with 4 show ?case by (simp add: b64_pad_def)
qed (simp_all add: b64_pad_def Let_def)

lemma byte_parts:
  "(x::nat) div 4 * 4 + x mod 4 = x" "x div 16 * 16 + x mod 16 = x" "x div 64 * 64 + x mod 64 = x"
  by simp_all

lemma regroup:
  "(y::nat) < 16 \<Longrightarrow> (x mod 4 * 16 + y) div 16 = x mod 4" "y < 16 \<Longrightarrow> (x mod 4 * 16 + y) mod 16 = y"
  "(z::nat) < 4 \<Longrightarrow> (x mod 16 * 4 + z) div 4 = x mod 16" "z < 4 \<Longrightarrow> (x mod 16 * 4 + z) mod 4 = z"
  by (simp_all add: mult.commute)

lemma a2b_body: "a2b 0 0 0 (b64_body s @ replicate (b64_pad s) (CHR ''='')) = Some s"
proof (induction s rule: b64_body.induct)
  case (2 a)
  then show ?case by (simp add: b64_pad_def Let_def replicate_two byte_parts)
next
  case (3 a b)
  then show ?case
    by (simp add: b64_pad_def Let_def regroup byte_parts)
next
  case (4 a b c s)
  then show ?case by (simp add: b64_pad_def Let_def regroup byte_parts)
qed (simp add: b64_pad_def)

lemma is_ascii_b64 [simp]: "is_ascii (b64_encode s)"
  using b64_body_no_pad by (auto simp: is_ascii_def list_all_iff b64_encode_body)

lemma b64_decode_encode [simp]: "b64_decode (b64_encode s) = Some s"
  using is_ascii_b64 [of s] by (simp add: b64_decode_def b64_encode_body length_b64_body a2b_body)

lemma b64_table_dot: "\<forall>n \<in> set [0..<64]. b64_char n \<noteq> CHR ''.''"
  by code_simp

lemma b64_char_dot [simp]: "n < 64 \<Longrightarrow> b64_char n \<noteq> CHR ''.''"
  using b64_table_dot by (simp add: atLeast0LessThan)

lemmas b64_char_dot' [simp] = b64_char_dot [THEN not_sym]

lemma b64_no_dot: "CHR ''.'' \<notin> set (b64_encode s)"
proof -
  have "c \<in> set (b64_body s) \<Longrightarrow> c \<noteq> CHR ''.''" for c
    by (induction s rule: b64_body.induct) (auto simp: Let_def)
  then show ?thesis by (auto simp: b64_encode_body)
qed

text \<open>
  Token text decodes to what was encoded: for every byte string the decoder of the tokens
  inverts their encoder, with the padding removed and put back, and the text is plain ASCII.
\<close>

theorem b64_roundtrip: "b64_decode (b64_encode s) = Some s \<and> is_ascii (b64_encode s)"
  by simp

end
