(* ===== verification/Kernel.thy ===== *)
theory Kernel
  imports Base64 WorldStore
begin

text \<open>
  Execution tokens and the authorized world (\<open>src/src/edon/kernel/tokens.py\<close>, class
  \<open>KernelTokenAuthority\<close>, and \<open>src/src/edon/kernel/commit.py\<close>, class \<open>KernelAuthorizedWorld\<close>).
  The keyed digest and the JSON reader are parameters; a time is a number of whole seconds
  since 1970, as \<open>_epoch\<close> gives it.
\<close>

datatype kernel_error =
    BadKernelId string
  | BadTtl
  | TimeOutOfRange
  | TokenShape
  | TokenNotAscii
  | SignatureInvalid
  | PayloadBase64
  | PayloadInvalid
  | PayloadNotObject
  | FieldMismatch string
  | AuthorityStale
  | NoKernelAuthority
  | TimestampsInvalid
  | TokenNotYetValid
  | TokenExpired
  | ReplayDetected
  | RowConflict
  | MutationsInvalid world_error

text \<open>
  \<open>hmac_sha256\<close> is the raw HMAC-SHA256 digest of a byte string under the authority's secret;
  \<open>load_json\<close> reads UTF-8 encoded JSON, \<open>None\<close> if it is not that.
\<close>

record kernel_env =
  k_py :: pyenv
  k_key_id :: string
  hmac_sha256 :: "string \<Rightarrow> string"
  load_json :: "string \<Rightarrow> json option"

record consumed_row =
  c_token :: string
  c_sha :: string
  c_identity :: string
  c_event_hash :: string
  c_at :: string

record issued_row =
  i_token :: string
  i_claims_sha :: string
  i_issuer :: string
  i_issued :: int
  i_expires :: int
  i_created :: string

record kdb =
  consumed :: "consumed_row list"
  issued :: "issued_row list"

definition init_kdb :: kdb where
  "init_kdb = \<lparr>consumed = [], issued = []\<rparr>"

definition kernel_identifier :: "string \<Rightarrow> string \<Rightarrow> kernel_error + string" where
  "kernel_identifier label s = ident_check 200 (BadKernelId label) s"

definition mutations_digest :: "kernel_env \<Rightarrow> json list \<Rightarrow> kernel_error + string" where
  "mutations_digest K raws = (case normalize_mutations (k_py K) raws of
     Inl e \<Rightarrow> Inl (MutationsInvalid e)
   | Inr ms \<Rightarrow> Inr (sha256_json (k_py K) (mutations_json ms)))"

text \<open>\<open>datetime.fromtimestamp(s, UTC).isoformat()\<close>.\<close>

definition unix_text :: "int \<Rightarrow> kernel_error + string" where
  "unix_text s = (let t = (s + 62135596800) * 1000000 in require (time_ok t) TimeOutOfRange (Inr (isoformat t)))"

section \<open>Issuing\<close>

definition sign_segment :: "kernel_env \<Rightarrow> string \<Rightarrow> string" where
  "sign_segment K segment = b64_encode (hmac_sha256 K segment)"

definition token_claims :: "kernel_env \<Rightarrow> string \<Rightarrow> string \<Rightarrow> string \<Rightarrow> string \<Rightarrow> string \<Rightarrow> string \<Rightarrow> string
    \<Rightarrow> int \<Rightarrow> string \<Rightarrow> string \<Rightarrow> string \<Rightarrow> int \<Rightarrow> int \<Rightarrow> json" where
  "token_claims K token_id nonce t w a issuer auth version i ty digest issued_at ttl = mk_obj
     [(''schema_version'', JStr ''edon-kernel-execution-token.v1''), (''purpose'', JStr ''WORLD_EVENT_COMMIT''),
      (''key_id'', JStr (k_key_id K)), (''token_id'', JStr token_id), (''nonce'', JStr nonce),
      (''tenant_id'', JStr t), (''world_id'', JStr w), (''actor_id'', JStr a), (''issuer_id'', JStr issuer),
      (''authority_version'', JStr auth), (''expected_world_version'', JInt version),
      (''event_id'', JStr i), (''event_type'', JStr ty), (''mutations_sha256'', JStr digest),
      (''issued_at'', JInt issued_at), (''expires_at'', JInt (issued_at + ttl)), (''binding_authority'', JBool True)]"

definition token_of :: "kernel_env \<Rightarrow> json \<Rightarrow> string" where
  "token_of K payload = (let segment = b64_encode (utf8_encode (canonical_json (k_py K) payload)) in
     segment @ ''.'' @ sign_segment K segment)"

text \<open>The random token id and nonce are arguments.\<close>

definition issue_world_event :: "kernel_env \<Rightarrow> string \<Rightarrow> string \<Rightarrow> string \<Rightarrow> string \<Rightarrow> string \<Rightarrow> string \<Rightarrow> int
    \<Rightarrow> string \<Rightarrow> string \<Rightarrow> json list \<Rightarrow> int \<Rightarrow> string \<Rightarrow> int \<Rightarrow> kdb \<Rightarrow> kernel_error + (kdb \<times> string)" where
  "issue_world_event K token_id nonce tenant_id world_id actor_id authority_version expected_version
     event_id event_type mutations ttl_seconds issuer_id issued_at kdb =
     require (1 \<le> ttl_seconds \<and> ttl_seconds \<le> 3600) BadTtl (
     rbind (mutations_digest K mutations) (\<lambda>digest.
     rbind (kernel_identifier ''tenant_id'' tenant_id) (\<lambda>t.
     rbind (kernel_identifier ''world_id'' world_id) (\<lambda>w.
     rbind (kernel_identifier ''actor_id'' actor_id) (\<lambda>a.
     rbind (kernel_identifier ''issuer_id'' issuer_id) (\<lambda>issuer.
     rbind (kernel_identifier ''authority_version'' authority_version) (\<lambda>auth.
     rbind (kernel_identifier ''event_id'' event_id) (\<lambda>i.
     rbind (kernel_identifier ''event_type'' event_type) (\<lambda>ty.
     rbind (unix_text issued_at) (\<lambda>created.
       (let payload = token_claims K token_id nonce t w a issuer auth expected_version i ty digest issued_at ttl_seconds;
            row = \<lparr>i_token = token_id, i_claims_sha = sha256_json (k_py K) payload, i_issuer = issuer,
              i_issued = issued_at, i_expires = issued_at + ttl_seconds, i_created = created\<rparr>
        in require (\<not> list_ex (\<lambda>r. i_token r = i_token row \<or> i_claims_sha r = i_claims_sha row) (issued kdb)) RowConflict
             (Inr (kdb\<lparr>issued := issued kdb @ [row]\<rparr>, token_of K payload)))))))))))))"

section \<open>Verifying\<close>

text \<open>\<open>token.split(".")\<close> into two parts.\<close>

definition split_token :: "string \<Rightarrow> kernel_error + (string \<times> string)" where
  "split_token token = (case dropWhile (\<lambda>c. c \<noteq> CHR ''.'') token of
     [] \<Rightarrow> Inl TokenShape
   | _ # sig \<Rightarrow> require (CHR ''.'' \<notin> set sig) TokenShape (Inr (takeWhile (\<lambda>c. c \<noteq> CHR ''.'') token, sig)))"

definition decode_and_verify_signature :: "kernel_env \<Rightarrow> string \<Rightarrow> kernel_error + obj" where
  "decode_and_verify_signature K token =
     rbind (split_token token) (\<lambda>(segment, supplied).
       require (is_ascii segment \<and> is_ascii supplied) TokenNotAscii (
       require (supplied = sign_segment K segment) SignatureInvalid
         (case b64_decode segment of
            None \<Rightarrow> Inl PayloadBase64
          | Some bytes \<Rightarrow> (case load_json K bytes of
                None \<Rightarrow> Inl PayloadInvalid
              | Some (JObj m) \<Rightarrow> Inr m
              | Some _ \<Rightarrow> Inl PayloadNotObject))))"

text \<open>\<open>payload.get(field) != value\<close>: an absent field reads as null.\<close>

definition field_is :: "obj \<Rightarrow> string \<Rightarrow> json \<Rightarrow> bool" where
  "field_is payload field v = jeq (case dict_get payload field of None \<Rightarrow> JNull | Some x \<Rightarrow> x) v"

fun check_fields :: "obj \<Rightarrow> (string \<times> json) list \<Rightarrow> kernel_error + unit" where
  "check_fields payload [] = Inr ()"
| "check_fields payload ((field, v) # rest) =
     require (field_is payload field v) (FieldMismatch field) (check_fields payload rest)"

text \<open>An integer of the payload; a boolean is one.\<close>

definition int_field :: "obj \<Rightarrow> string \<Rightarrow> int option" where
  "int_field payload field = (case dict_get payload field of
     Some (JInt i) \<Rightarrow> Some i | Some (JBool b) \<Rightarrow> Some (if b then 1 else 0) | _ \<Rightarrow> None)"

definition token_id_of :: "kernel_env \<Rightarrow> obj \<Rightarrow> kernel_error + string" where
  "token_id_of K payload = kernel_identifier ''token_id''
     (case dict_get payload ''token_id'' of None \<Rightarrow> [] | Some v \<Rightarrow> py_str (k_py K) v)"

definition find_consumed :: "kdb \<Rightarrow> string \<Rightarrow> consumed_row option" where
  "find_consumed kdb token_id = List.find (\<lambda>r. c_token r = token_id) (consumed kdb)"

definition identity_text :: "string \<Rightarrow> string \<Rightarrow> string \<Rightarrow> string" where
  "identity_text t w i = t @ '':'' @ w @ '':'' @ i"

definition verify_world_event :: "kernel_env \<Rightarrow> string \<Rightarrow> string \<Rightarrow> string \<Rightarrow> string \<Rightarrow> int \<Rightarrow> string \<Rightarrow> string
    \<Rightarrow> json list \<Rightarrow> string option \<Rightarrow> bool \<Rightarrow> string option \<Rightarrow> int \<Rightarrow> kdb \<Rightarrow> kernel_error + obj" where
  "verify_world_event K token tenant_id world_id actor_id expected_version event_id event_type mutations
     authority_version allow_consumed expected_event_hash current kdb =
     rbind (decode_and_verify_signature K token) (\<lambda>payload.
     rbind (kernel_identifier ''tenant_id'' tenant_id) (\<lambda>t.
     rbind (kernel_identifier ''world_id'' world_id) (\<lambda>w.
     rbind (kernel_identifier ''actor_id'' actor_id) (\<lambda>a.
     rbind (kernel_identifier ''event_id'' event_id) (\<lambda>i.
     rbind (kernel_identifier ''event_type'' event_type) (\<lambda>ty.
     rbind (mutations_digest K mutations) (\<lambda>digest.
     rbind (check_fields payload
       [(''schema_version'', JStr ''edon-kernel-execution-token.v1''), (''purpose'', JStr ''WORLD_EVENT_COMMIT''),
        (''key_id'', JStr (k_key_id K)), (''tenant_id'', JStr t), (''world_id'', JStr w), (''actor_id'', JStr a),
        (''expected_world_version'', JInt expected_version), (''event_id'', JStr i), (''event_type'', JStr ty),
        (''mutations_sha256'', JStr digest)]) (\<lambda>_.
       require (case authority_version of None \<Rightarrow> True | Some v \<Rightarrow> field_is payload ''authority_version'' (JStr v))
         AuthorityStale (
       require (dict_get payload ''binding_authority'' = Some (JBool True)) NoKernelAuthority
         (case (int_field payload ''issued_at'', int_field payload ''expires_at'') of
            (Some issued_at, Some expires_at) \<Rightarrow>
              require (issued_at - 60 \<le> current) TokenNotYetValid (
              require (current \<le> expires_at) TokenExpired (
              rbind (token_id_of K payload) (\<lambda>token_id.
                (case find_consumed kdb token_id of
                   None \<Rightarrow> Inr payload
                 | Some r \<Rightarrow> require (allow_consumed \<and> c_identity r = identity_text tenant_id world_id event_id
                        \<and> expected_event_hash = Some (c_event_hash r)) ReplayDetected (Inr payload)))))
          | _ \<Rightarrow> Inl TimestampsInvalid))))))))))"

definition consume :: "kernel_env \<Rightarrow> string \<Rightarrow> string \<Rightarrow> string \<Rightarrow> string \<Rightarrow> kdb \<Rightarrow> kernel_error + kdb" where
  "consume K consumed_at token event_identity event_hash kdb =
     rbind (decode_and_verify_signature K token) (\<lambda>payload.
     rbind (token_id_of K payload) (\<lambda>token_id.
       (let row = \<lparr>c_token = token_id, c_sha = sha256_text (k_py K) token, c_identity = event_identity,
              c_event_hash = event_hash, c_at = consumed_at\<rparr>
        in (case find_consumed kdb token_id of
              Some r \<Rightarrow> require (c_identity r = event_identity \<and> c_event_hash r = event_hash) ReplayDetected (Inr kdb)
            | None \<Rightarrow> require (\<not> list_ex (\<lambda>r. c_sha r = c_sha row) (consumed kdb)) RowConflict
                (Inr (kdb\<lparr>consumed := consumed kdb @ [row]\<rparr>))))))"

definition consumed_count :: "kdb \<Rightarrow> nat" where
  "consumed_count kdb = length (consumed kdb)"

definition issued_count :: "kdb \<Rightarrow> nat" where
  "issued_count kdb = length (issued kdb)"

section \<open>The authorized world\<close>

text \<open>
  The two databases are separate: when consuming the token fails after the world has committed,
  the world keeps the event. A result is therefore the pair of databases and the outcome.
\<close>

datatype auth_error = KernelFailed kernel_error | WorldFailed world_error

definition existing_hash :: "string \<Rightarrow> string \<Rightarrow> string \<Rightarrow> wdb \<Rightarrow> string option" where
  "existing_hash t w i db = (case event_log t w db of
     Inl _ \<Rightarrow> None
   | Inr es \<Rightarrow> map_option e_hash (List.find (\<lambda>r. e_id r = i) es))"

text \<open>Verify, commit, consume: \<open>commit\<close> is the store's operation on the world database.\<close>

definition authorized_commit :: "kernel_env \<Rightarrow> int \<Rightarrow> string \<Rightarrow> string \<Rightarrow> string \<Rightarrow> string \<Rightarrow> string \<Rightarrow> string \<Rightarrow> int
    \<Rightarrow> string \<Rightarrow> string \<Rightarrow> json list \<Rightarrow> (wdb \<Rightarrow> world_error + (wdb \<times> snapshot)) \<Rightarrow> wdb \<times> kdb
    \<Rightarrow> (wdb \<times> kdb) \<times> (auth_error + snapshot)" where
  "authorized_commit K current consumed_at token t w a auth version i ty mutations commit s =
     (case s of (db, kdb) \<Rightarrow>
       (case verify_world_event K token t w a version i ty mutations (Some auth)
               (existing_hash t w i db \<noteq> None) (existing_hash t w i db) current kdb of
          Inl e \<Rightarrow> (s, Inl (KernelFailed e))
        | Inr _ \<Rightarrow> (case commit db of
              Inl e \<Rightarrow> (s, Inl (WorldFailed e))
            | Inr (db', sn) \<Rightarrow>
                (case consume K consumed_at token (identity_text t w i)
                        (case sn_event_hash sn of None \<Rightarrow> ''None'' | Some h \<Rightarrow> h) kdb of
                   Inl e \<Rightarrow> ((db', kdb), Inl (KernelFailed e))
                 | Inr kdb' \<Rightarrow> ((db', kdb'), Inr sn)))))"

definition authorized_create_world :: "kernel_env \<Rightarrow> int \<Rightarrow> string \<Rightarrow> string \<Rightarrow> string \<Rightarrow> json \<Rightarrow> string \<Rightarrow> string
    \<Rightarrow> string \<Rightarrow> string list \<Rightarrow> string option \<Rightarrow> wdb \<times> kdb \<Rightarrow> (wdb \<times> kdb) \<times> (auth_error + snapshot)" where
  "authorized_create_world K current now tenant_id world_id initial_state actor_id authority_version
     execution_token source_lineage timestamp =
     authorized_commit K current now execution_token tenant_id world_id actor_id authority_version (-1)
       ''WORLD_CREATED'' ''WORLD_CREATED'' [mutation_json (REPLACE_ROOT initial_state)]
       (create_world (k_py K) now tenant_id world_id initial_state actor_id execution_token source_lineage timestamp)"

definition authorized_append_event :: "kernel_env \<Rightarrow> int \<Rightarrow> string \<Rightarrow> string \<Rightarrow> string \<Rightarrow> string \<Rightarrow> string \<Rightarrow> json list
    \<Rightarrow> string \<Rightarrow> string \<Rightarrow> int \<Rightarrow> string \<Rightarrow> string list \<Rightarrow> string option \<Rightarrow> wdb \<times> kdb
    \<Rightarrow> (wdb \<times> kdb) \<times> (auth_error + snapshot)" where
  "authorized_append_event K current now tenant_id world_id event_id event_type mutations actor_id
     authority_version expected_version execution_token source_lineage timestamp =
     authorized_commit K current now execution_token tenant_id world_id actor_id authority_version expected_version
       event_id event_type mutations
       (append_event (k_py K) now tenant_id world_id event_id event_type mutations actor_id expected_version
         execution_token source_lineage timestamp)"

end
