(* ===== verification/KernelProps.thy ===== *)
theory KernelProps
  imports Kernel WorldProps
begin

text \<open>
  What execution tokens guarantee: an issued token verifies for its request and for no other,
  its consumption is recorded once and for all, and the authorized world commits at most one
  event per token, exactly the one the token was issued for.
\<close>

section \<open>Reading a token\<close>

lemma takeWhile_dot: "CHR ''.'' \<notin> set s \<Longrightarrow> takeWhile (\<lambda>c. c \<noteq> CHR ''.'') (s @ CHR ''.'' # t) = s
    \<and> dropWhile (\<lambda>c. c \<noteq> CHR ''.'') (s @ CHR ''.'' # t) = CHR ''.'' # t"
  by (induction s) auto

lemma split_token_of:
  "split_token (token_of K payload) =
     Inr (b64_encode (utf8_encode (canonical_json (k_py K) payload)),
       sign_segment K (b64_encode (utf8_encode (canonical_json (k_py K) payload))))"
  using takeWhile_dot [OF b64_no_dot] b64_no_dot
  by (simp add: split_token_def token_of_def Let_def sign_segment_def)

definition reads_back :: "kernel_env \<Rightarrow> json \<Rightarrow> bool" where
  "reads_back K payload \<longleftrightarrow> load_json K (utf8_encode (canonical_json (k_py K) payload)) = Some payload"

lemma decode_token_of:
  "reads_back K (JObj m) \<Longrightarrow> decode_and_verify_signature K (token_of K (JObj m)) = Inr m"
  by (simp add: decode_and_verify_signature_def split_token_of reads_back_def) (simp add: sign_segment_def)

lemma jeq_JStr [simp]: "jeq x (JStr s) \<longleftrightarrow> x = JStr s"
  by (cases x) (auto simp: jnum_eq_def jnum_def)

lemma jeq_JInt_D: "jeq x (JInt a) \<Longrightarrow> jeq x (JInt b) \<Longrightarrow> a = b"
  by (cases x) (auto simp: jnum_eq_def jnum_def elim!: flt_eq.elims)

lemma field_is_JStr: "field_is m f (JStr s) \<longleftrightarrow> dict_get m f = Some (JStr s)"
  by (auto simp: field_is_def split: option.splits)

lemma check_fields_iff: "check_fields m fs = Inr u \<longleftrightarrow> (\<forall>(f, v) \<in> set fs. field_is m f v)"
  by (induction fs) (auto simp: require_eq_Inr)

section \<open>What a verified token says\<close>

text \<open>The request a token is verified against, normalized.\<close>

definition request_ids :: "string \<Rightarrow> string \<Rightarrow> string \<Rightarrow> int \<Rightarrow> string \<Rightarrow> string \<Rightarrow> string list \<times> int" where
  "request_ids t w a v i ty = ([py_strip t, py_strip w, py_strip a, py_strip i, py_strip ty], v)"

definition claims_match :: "kernel_env \<Rightarrow> obj \<Rightarrow> string \<Rightarrow> string \<Rightarrow> string \<Rightarrow> int \<Rightarrow> string \<Rightarrow> string \<Rightarrow> json list \<Rightarrow> bool" where
  "claims_match K m t w a v i ty mutations \<longleftrightarrow>
     dict_get m ''schema_version'' = Some (JStr ''edon-kernel-execution-token.v1'')
     \<and> dict_get m ''purpose'' = Some (JStr ''WORLD_EVENT_COMMIT'') \<and> dict_get m ''key_id'' = Some (JStr (k_key_id K))
     \<and> dict_get m ''tenant_id'' = Some (JStr (py_strip t)) \<and> dict_get m ''world_id'' = Some (JStr (py_strip w))
     \<and> dict_get m ''actor_id'' = Some (JStr (py_strip a)) \<and> field_is m ''expected_world_version'' (JInt v)
     \<and> dict_get m ''event_id'' = Some (JStr (py_strip i)) \<and> dict_get m ''event_type'' = Some (JStr (py_strip ty))
     \<and> (\<exists>d. mutations_digest K mutations = Inr d \<and> dict_get m ''mutations_sha256'' = Some (JStr d))
     \<and> dict_get m ''binding_authority'' = Some (JBool True)"

lemma kernel_identifier_D: "kernel_identifier l s = Inr t \<Longrightarrow> t = py_strip s"
  by (auto simp: kernel_identifier_def dest: ident_check_Inr_D)

lemma verify_cases:
  assumes "verify_world_event K token t w a v i ty mutations auth allow hash current kdb = Inr m"
  obtains tid issued_at expires_at where "decode_and_verify_signature K token = Inr m"
    "claims_match K m t w a v i ty mutations"
    "case auth of None \<Rightarrow> True | Some x \<Rightarrow> dict_get m ''authority_version'' = Some (JStr x)"
    "int_field m ''issued_at'' = Some issued_at" "int_field m ''expires_at'' = Some expires_at"
    "issued_at - 60 \<le> current" "current \<le> expires_at" "token_id_of K m = Inr tid"
    "case find_consumed kdb tid of None \<Rightarrow> True | Some r \<Rightarrow> allow \<and> c_identity r = identity_text t w i
        \<and> hash = Some (c_event_hash r)"
proof -
  from assms obtain t' w' a' i' ty' d where ids: "kernel_identifier ''tenant_id'' t = Inr t'"
      "kernel_identifier ''world_id'' w = Inr w'" "kernel_identifier ''actor_id'' a = Inr a'"
      "kernel_identifier ''event_id'' i = Inr i'" "kernel_identifier ''event_type'' ty = Inr ty'"
      "mutations_digest K mutations = Inr d" and dec: "decode_and_verify_signature K token = Inr m"
    by (auto simp: verify_world_event_def rbind_eq_Inr require_eq_Inr split: option.splits)
  note eqs = ids(1-5) [THEN kernel_identifier_D]
  from assms obtain issued_at expires_at where ts: "int_field m ''issued_at'' = Some issued_at"
      "int_field m ''expires_at'' = Some expires_at"
    by (auto simp: verify_world_event_def rbind_eq_Inr require_eq_Inr ids dec split: option.splits)
  from assms obtain tid where tid: "token_id_of K m = Inr tid"
    by (auto simp: verify_world_event_def rbind_eq_Inr require_eq_Inr ids dec ts)
  from assms show thesis
    by (intro that [OF dec _ _ ts _ _ tid])
      (auto simp: verify_world_event_def rbind_eq_Inr require_eq_Inr ids dec ts tid check_fields_iff field_is_JStr
        claims_match_def eqs split: option.splits)
qed

lemma claims_match_ids:
  assumes "claims_match K m t w a v i ty ms" and "claims_match K m t' w' a' v' i' ty' ms'"
  shows "request_ids t w a v i ty = request_ids t' w' a' v' i' ty' \<and> mutations_digest K ms = mutations_digest K ms'"
  using assms by (auto simp: claims_match_def request_ids_def field_is_def dest: jeq_JInt_D split: option.splits)

section \<open>Consumed tokens\<close>

inductive kernel_step :: "kernel_env \<Rightarrow> kdb \<Rightarrow> kdb \<Rightarrow> bool" for K where
  issuing: "issue_world_event K tid nonce t w a auth v i ty ms ttl issuer at_time kdb = Inr (kdb', token)
    \<Longrightarrow> kernel_step K kdb kdb'"
| consuming: "consume K at_text token ident h kdb = Inr kdb' \<Longrightarrow> kernel_step K kdb kdb'"

inductive kernel_run :: "kernel_env \<Rightarrow> kdb \<Rightarrow> kdb \<Rightarrow> bool" for K where
  krun_refl: "kernel_run K kdb kdb"
| krun_step: "kernel_run K kdb kdb' \<Longrightarrow> kernel_step K kdb' kdb'' \<Longrightarrow> kernel_run K kdb kdb''"

lemma consume_cases:
  assumes "consume K at_text token ident h kdb = Inr kdb'"
  obtains m tid r where "decode_and_verify_signature K token = Inr m" "token_id_of K m = Inr tid"
    "find_consumed kdb' tid = Some r" "c_identity r = ident" "c_event_hash r = h"
    "kdb' = kdb \<and> find_consumed kdb tid = Some r \<or> kdb' = kdb\<lparr>consumed := consumed kdb @ [r]\<rparr> \<and> find_consumed kdb tid = None"
  using assms
  by (fastforce simp: consume_def rbind_eq_Inr Let_def require_eq_Inr find_consumed_def find_append split: option.splits)

lemma find_consumed_step:
  "kernel_step K kdb kdb' \<Longrightarrow> find_consumed kdb tid = Some r \<Longrightarrow> find_consumed kdb' tid = Some r"
proof (induction rule: kernel_step.induct)
  case (issuing tid nonce t w a auth v i ty ms ttl issuer at_time kdb kdb' token)
  then show ?case
    by (auto simp: issue_world_event_def rbind_eq_Inr require_eq_Inr Let_def find_consumed_def)
next
  case (consuming at_text token ident h kdb kdb')
  from consuming(1) show ?case
    using consuming(2) by (cases rule: consume_cases) (auto simp: find_consumed_def find_append)
qed

lemma find_consumed_run:
  "kernel_run K kdb kdb' \<Longrightarrow> find_consumed kdb tid = Some r \<Longrightarrow> find_consumed kdb' tid = Some r"
  by (induction rule: kernel_run.induct) (auto intro: find_consumed_step)

lemma consume_again:
  assumes "consume K at_text token ident h kdb = Inr kdb1" and "kernel_run K kdb1 kdb2"
    and "consume K at_text' token ident' h' kdb2 = Inr kdb3"
  shows "ident' = ident \<and> h' = h \<and> kdb3 = kdb2"
proof -
  obtain m tid r where 1: "decode_and_verify_signature K token = Inr m" "token_id_of K m = Inr tid"
      "find_consumed kdb1 tid = Some r" "c_identity r = ident" "c_event_hash r = h"
    using assms(1) by (rule consume_cases) blast
  have 2: "find_consumed kdb2 tid = Some r" by (rule find_consumed_run [OF assms(2) 1(3)])
  then have f: "find_consumed kdb3 tid = Some r"
    by (rule find_consumed_step [OF kernel_step.consuming [OF assms(3)]])
  show ?thesis
    using assms(3) by (rule consume_cases) (use 1 2 f in auto)
qed

text \<open>
  A token is spent once: after it has been consumed for an event, consuming it later for any
  other event, or for the same event with another hash, is refused; consuming it again for the
  same event changes nothing.
\<close>

theorem consumed_token_is_bound:
  assumes "consume K at_text token ident h kdb = Inr kdb1" and "kernel_run K kdb1 kdb2"
    and "consume K at_text' token ident' h' kdb2 = Inr kdb3"
  shows "ident' = ident \<and> h' = h \<and> kdb3 = kdb2"
  using assms by (rule consume_again)

section \<open>Issued tokens verify\<close>

lemma token_claims_get:
  assumes "token_claims K tid nonce t w a issuer auth v i ty d iat ttl = JObj m"
  shows "dict_get m = [''schema_version'' \<mapsto> JStr ''edon-kernel-execution-token.v1'', ''purpose'' \<mapsto> JStr ''WORLD_EVENT_COMMIT'',
      ''key_id'' \<mapsto> JStr (k_key_id K), ''token_id'' \<mapsto> JStr tid, ''nonce'' \<mapsto> JStr nonce,
      ''tenant_id'' \<mapsto> JStr t, ''world_id'' \<mapsto> JStr w, ''actor_id'' \<mapsto> JStr a, ''issuer_id'' \<mapsto> JStr issuer,
      ''authority_version'' \<mapsto> JStr auth, ''expected_world_version'' \<mapsto> JInt v,
      ''event_id'' \<mapsto> JStr i, ''event_type'' \<mapsto> JStr ty, ''mutations_sha256'' \<mapsto> JStr d,
      ''issued_at'' \<mapsto> JInt iat, ''expires_at'' \<mapsto> JInt (iat + ttl), ''binding_authority'' \<mapsto> JBool True]"
  using assms by (auto simp: token_claims_def mk_obj_def dict_of_def simp del: dict_put.simps)

text \<open>
  C13. A token verifies for exactly the request it was issued for: within its time window (a minute
  of clock skew before it, its lifetime after) and as long as it has not been consumed, the
  issued token is accepted for the same request, at the authority version it names.
\<close>

theorem issued_token_verifies:
  assumes "issue_world_event K tid nonce t w a auth v i ty ms ttl issuer iat kdb = Inr (kdb', token)"
    and "\<forall>d. mutations_digest K ms = Inr d \<longrightarrow> reads_back K (token_claims K tid nonce (py_strip t) (py_strip w) (py_strip a)
        (py_strip issuer) (py_strip auth) v (py_strip i) (py_strip ty) d iat ttl)"
    and "kernel_identifier ''token_id'' tid = Inr tid" and "find_consumed kdb2 tid = None"
    and "iat - 60 \<le> current" and "current \<le> iat + ttl"
  shows "\<exists>m. verify_world_event K token t w a v i ty ms (Some (py_strip auth)) allow hash current kdb2 = Inr m
    \<and> claims_match K m t w a v i ty ms"
proof -
  from assms(1) obtain t' w' a' is' au' i' ty' d where ids: "kernel_identifier ''tenant_id'' t = Inr t'"
      "kernel_identifier ''world_id'' w = Inr w'" "kernel_identifier ''actor_id'' a = Inr a'"
      "kernel_identifier ''issuer_id'' issuer = Inr is'" "kernel_identifier ''authority_version'' auth = Inr au'"
      "kernel_identifier ''event_id'' i = Inr i'" "kernel_identifier ''event_type'' ty = Inr ty'"
    and d: "mutations_digest K ms = Inr d"
    and tok: "token = token_of K (token_claims K tid nonce t' w' a' is' au' v i' ty' d iat ttl)"
    by (auto simp: issue_world_event_def rbind_eq_Inr require_eq_Inr Let_def)
  note eqs = ids [THEN kernel_identifier_D]
  obtain m where m: "token_claims K tid nonce t' w' a' is' au' v i' ty' d iat ttl = JObj m"
    by (simp add: token_claims_def mk_obj_def)
  have dec: "decode_and_verify_signature K token = Inr m"
    unfolding tok m by (rule decode_token_of) (use assms(2) d m eqs in simp)
  note g = token_claims_get [OF m]
  have c: "claims_match K m t w a v i ty ms"
    using d by (simp add: claims_match_def g eqs field_is_def jnum_eq_def jnum_def)
  have "verify_world_event K token t w a v i ty ms (Some (py_strip auth)) allow hash current kdb2 = Inr m"
    using assms(3-6)
    by (simp add: verify_world_event_def dec ids d field_is_def g int_field_def token_id_of_def py_str_def
        jnum_eq_def jnum_def eqs)
  with c show ?thesis by blast
qed

text \<open>
  A token names one request: if the same token is ever accepted for two requests, at any
  times and under any histories, the requests agree in tenant, world, actor, event, event type,
  expected version and in the digest of their mutations.
\<close>

theorem token_names_one_request:
  assumes "verify_world_event K token t w a v i ty ms auth allow hash current kdb = Inr m"
    and "verify_world_event K token t' w' a' v' i' ty' ms' auth' allow' hash' current' kdb' = Inr m'"
  shows "map py_strip [t, w, a, i, ty] = map py_strip [t', w', a', i', ty'] \<and> v = v'
    \<and> mutations_digest K ms = mutations_digest K ms'"
proof -
  from assms have "decode_and_verify_signature K token = Inr m" "decode_and_verify_signature K token = Inr m'"
    and c: "claims_match K m t w a v i ty ms" "claims_match K m' t' w' a' v' i' ty' ms'"
    by (auto elim!: verify_cases)
  then have "m' = m" by simp
  with c show ?thesis using claims_match_ids [of K m t w a v i ty ms t' w' a' v' i' ty' ms']
    by (simp add: request_ids_def)
qed

section \<open>The authorized world\<close>

lemma authorized_commit_cases:
  assumes "authorized_commit K current at_text token t w a auth v i ty ms commit (db, kdb) = ((db', kdb'), r)"
  obtains (refused) e where "r = Inl e" "db' = db" "kdb' = kdb"
    | (unconsumed) m sn e where "verify_world_event K token t w a v i ty ms (Some auth)
          (existing_hash t w i db \<noteq> None) (existing_hash t w i db) current kdb = Inr m"
      "commit db = Inr (db', sn)" "kdb' = kdb" "r = Inl e"
    | (committed) m sn where "verify_world_event K token t w a v i ty ms (Some auth)
          (existing_hash t w i db \<noteq> None) (existing_hash t w i db) current kdb = Inr m"
      "commit db = Inr (db', sn)" "r = Inr sn"
      "consume K at_text token (identity_text t w i) (case sn_event_hash sn of None \<Rightarrow> ''None'' | Some h \<Rightarrow> h) kdb = Inr kdb'"
  using assms
  by (auto simp: authorized_commit_def split: sum.splits prod.splits)

text \<open>
  C6. Nothing is committed without authority: if an authorized append changes the world database,
  the token it carried has a valid signature of the authority, its claims are exactly the
  request's, it has not expired, and it names the authority version that was asked for.
\<close>

theorem no_commit_without_token:
  assumes "authorized_append_event K current now t w i ty ms a auth v token lin ts (db, kdb) = ((db', kdb'), r)"
    and "db' \<noteq> db"
  shows "\<exists>m issued_at expires_at. decode_and_verify_signature K token = Inr m \<and> claims_match K m t w a v i ty ms
    \<and> dict_get m ''authority_version'' = Some (JStr auth)
    \<and> int_field m ''issued_at'' = Some issued_at \<and> int_field m ''expires_at'' = Some expires_at
    \<and> issued_at - 60 \<le> current \<and> current \<le> expires_at"
  using assms(1) [unfolded authorized_append_event_def]
proof (cases rule: authorized_commit_cases)
  case (refused e)
  with assms(2) show ?thesis by simp
next
  case (unconsumed m sn e)
  from unconsumed(1) show ?thesis by (rule verify_cases) auto
next
  case (committed m sn)
  from committed(1) show ?thesis by (rule verify_cases) auto
qed

lemma insert_event_fresh: "insert_event r db = Inr db' \<Longrightarrow> e_hash r \<notin> e_hash ` set (events db) \<and> events db' = events db @ [r]"
  by (auto simp: insert_event_def require_eq_Inr list_ex_iff)

lemma append_event_hash:
  assumes "append_event E now t w i ty raws a ev auth lin ts db = Inr (db', sn)"
  shows "db' = db \<or> (\<exists>r. events db' = events db @ [r] \<and> sn_event_hash sn = Some (e_hash r)
    \<and> e_hash r \<notin> e_hash ` set (events db))"
  using assms
proof (cases rule: append_event_cases)
  case (fresh t' w' i' ms x r st)
  have "e_hash r \<notin> e_hash ` set (events db)"
  proof -
    from assms fresh obtain s db1 where "insert_event s db = Inr db1" "events db1 = events db'"
      by (fastforce simp: append_event_def rbind_eq_Inr Let_def require_eq_Inr insert_snap_def update_world_def
          split: option.splits)
    moreover have "events db' = events db @ [r]" using fresh(18) by (simp add: written_def Let_def)
    ultimately show ?thesis using insert_event_fresh by fastforce
  qed
  with fresh show ?thesis
    by (auto simp: written_def Let_def snapshot_of_snap_def snap_of_def)
qed simp

lemma existing_hash_D:
  "existing_hash t w i db = Some h \<Longrightarrow> \<exists>t' w' r. world_identifier ''tenant_id'' t = Inr t'
     \<and> world_identifier ''world_id'' w = Inr w' \<and> find_event db t' w' i = Some r \<and> e_hash r = h \<and> r \<in> set (events db)"
  by (auto simp: existing_hash_def event_log_def rbind_def find_event_def events_of_def
      dest!: find_Some_D split: sum.splits)

text \<open>
  C2. One token, one event: after a token has committed an event, no later authorized append that
  carries it changes the world or the tokens, whatever it asks for and however its identifiers
  are written; if it is accepted at all it returns the event the token committed. The world
  database may have any history of creations, appends, restores and deliveries before, and any
  between the two appends.
\<close>

theorem one_token_one_event:
  assumes "authorized_append_event K c1 n1 t w i ty ms a auth v token lin ts (db, kdb) = ((db1, kdb1), Inr sn1)"
    and "world_run (k_py K) db1 db2" and "kernel_run K kdb1 kdb2"
    and "authorized_append_event K c2 n2 t' w' i' ty' ms' a' auth' v' token lin' ts' (db2, kdb2) = ((db3, kdb3), r)"
    and "world_reachable (k_py K) db"
  shows "db3 = db2 \<and> kdb3 = kdb2 \<and> (\<forall>sn2. r = Inr sn2 \<longrightarrow> sn_event_hash sn2 = sn_event_hash sn1)"
proof -
  obtain h1 where con1: "consume K n1 token (identity_text t w i) h1 kdb = Inr kdb1"
      and h1: "sn_event_hash sn1 = Some h1"
    using assms(1) [unfolded authorized_append_event_def]
  proof (cases rule: authorized_commit_cases)
    case (committed m sn)
    from committed(2) obtain h where "sn_event_hash sn1 = Some h"
      by (cases rule: append_event_cases) (use committed(3) in \<open>auto simp: snapshot_of_snap_def\<close>)
    with committed(3,4) show thesis by (intro that [of h]) auto
  qed auto
  obtain m1 tid r1 where r1: "decode_and_verify_signature K token = Inr m1" "token_id_of K m1 = Inr tid"
      "find_consumed kdb1 tid = Some r1" "c_event_hash r1 = h1"
    using con1 by (rule consume_cases) blast
  have r2: "find_consumed kdb2 tid = Some r1" by (rule find_consumed_run [OF assms(3) r1(3)])
  have "db1 = db \<or> world_step (k_py K) db db1"
    using assms(1) [unfolded authorized_append_event_def]
    by (cases rule: authorized_commit_cases) (auto intro: world_step.append)
  then have reach: "world_reachable (k_py K) db2"
    using assms(5) world_run.run_step world_run_trans [OF _ assms(2)] by blast
  have no_new: "db3 = db2"
    if ver: "verify_world_event K token t' w' a' v' i' ty' ms' (Some auth')
          (existing_hash t' w' i' db2 \<noteq> None) (existing_hash t' w' i' db2) c2 kdb2 = Inr m"
      and ap: "append_event (k_py K) n2 t' w' i' ty' ms' a' v' token lin' ts' db2 = Inr (db3, sn2)" for m sn2
  proof -
    from ver have "existing_hash t' w' i' db2 = Some h1"
      by (rule verify_cases) (use r1 r2 in auto)
    then obtain t2 w2 e where e: "world_identifier ''tenant_id'' t' = Inr t2" "world_identifier ''world_id'' w' = Inr w2"
        "find_event db2 t2 w2 i' = Some e" "e \<in> set (events db2)"
      by (auto dest: existing_hash_D)
    have "stripped_id i'"
      using find_event_D [OF e(3)] e(4) reachable_ids [OF reach] by (auto simp: ids_stripped_def)
    from ap show ?thesis
    proof (cases rule: append_event_cases)
      case (fresh t3 w3 i3 ms3 x r st)
      with e \<open>stripped_id i'\<close> show ?thesis by (auto simp: world_identifier_id)
    qed simp
  qed
  from assms(4) [unfolded authorized_append_event_def] show ?thesis
  proof (cases rule: authorized_commit_cases)
    case (unconsumed m sn e)
    with no_new show ?thesis by simp
  next
    case (committed m sn)
    from committed(2) obtain h where h: "sn_event_hash sn = Some h"
      by (cases rule: append_event_cases) (auto simp: snapshot_of_snap_def)
    have "h = h1 \<and> kdb3 = kdb2"
      using consume_again [OF con1 assms(3) committed(4)] h by simp
    with committed h h1 no_new show ?thesis by simp
  qed simp
qed

lemma verify_again:
  assumes "verify_world_event K token t w a v i ty ms auth allow hash current kdb = Inr m"
    and "current \<le> current'" and "\<And>e. int_field m ''expires_at'' = Some e \<Longrightarrow> current' \<le> e"
    and "token_id_of K m = Inr tid" and "find_consumed kdb' tid = Some r" and "c_identity r = identity_text t w i"
  shows "verify_world_event K token t w a v i ty ms auth True (Some (c_event_hash r)) current' kdb' = Inr m"
proof -
  from assms(1) obtain t' w' a' i' ty' d where ids: "kernel_identifier ''tenant_id'' t = Inr t'"
      "kernel_identifier ''world_id'' w = Inr w'" "kernel_identifier ''actor_id'' a = Inr a'"
      "kernel_identifier ''event_id'' i = Inr i'" "kernel_identifier ''event_type'' ty = Inr ty'"
      "mutations_digest K ms = Inr d"
    by (auto simp: verify_world_event_def rbind_eq_Inr require_eq_Inr split: option.splits)
  obtain iat e where ts: "decode_and_verify_signature K token = Inr m" "int_field m ''issued_at'' = Some iat"
      "int_field m ''expires_at'' = Some e" "iat - 60 \<le> current"
    using assms(1) by (rule verify_cases)
  have "current' \<le> e" "iat - 60 \<le> current'" using assms(2) assms(3) [OF ts(3)] ts(4) by simp_all
  with assms(1,4-6) ids ts show ?thesis
    by (auto simp: verify_world_event_def rbind_eq_Inr require_eq_Inr)
qed

text \<open>
  A retry is safe: repeating a committed authorized append with the same token, before the
  token expires and however the world and the tokens have moved on, changes nothing and returns
  the same snapshot.
\<close>

theorem authorized_retry_is_safe:
  assumes "authorized_append_event K c1 n1 t w i ty ms a auth v token lin ts (db, kdb) = ((db1, kdb1), Inr sn)"
    and "find_event db t w i = None" and "stripped_id t" "stripped_id w" "stripped_id i"
    and "world_run (k_py K) db1 db2" and "kernel_run K kdb1 kdb2" and "c1 \<le> c2"
    and "\<forall>m e. decode_and_verify_signature K token = Inr m \<longrightarrow> int_field m ''expires_at'' = Some e \<longrightarrow> c2 \<le> e"
  shows "authorized_append_event K c2 n2 t w i ty ms a auth v token lin ts' (db2, kdb2) = ((db2, kdb2), Inr sn)"
  using assms(1) [unfolded authorized_append_event_def]
proof (cases rule: authorized_commit_cases)
  case (committed m sn')
  then have [simp]: "sn' = sn" by simp
  from committed(2) obtain r where r: "find_event db1 t w i = Some r" "sn_event_hash sn = Some (e_hash r)"
  proof (cases rule: append_event_cases)
    case (fresh t' w' i' ms x r st)
    then have "events db1 = events db @ [r]" by (simp add: written_def Let_def)
    with fresh assms(2-5) show thesis
      by (intro that [of r])
        (auto simp: world_identifier_id find_event_def events_of_def is_event_of_def find_append snapshot_of_snap_def snap_of_def)
  qed (use assms(2-5) in \<open>auto simp: world_identifier_id\<close>)
  have "find_event db2 t w i = Some r" by (rule run_find_event [OF assms(6) r(1)])
  then have ex: "existing_hash t w i db2 = Some (e_hash r)"
    using assms(3,4) by (simp add: existing_hash_def event_log_def world_identifier_id find_event_def)
  obtain m' tid c where c: "decode_and_verify_signature K token = Inr m'" "token_id_of K m' = Inr tid"
      "find_consumed kdb1 tid = Some c" "c_identity c = identity_text t w i" "c_event_hash c = e_hash r"
    using committed(4) r(2) by (auto elim: consume_cases)
  have dec: "decode_and_verify_signature K token = Inr m" using committed(1) by (rule verify_cases) simp
  then have m': "m' = m" using c(1) by simp
  have c2: "find_consumed kdb2 tid = Some c" by (rule find_consumed_run [OF assms(7) c(3)])
  have ver: "verify_world_event K token t w a v i ty ms (Some auth) True (Some (e_hash r)) c2 kdb2 = Inr m"
    using verify_again [OF committed(1) assms(8) _ c(2) [unfolded m'] c2 c(4)] assms(9) dec c(5) by simp
  have ap: "append_event (k_py K) n2 t w i ty ms a v token lin ts' db2 = Inr (db2, sn)"
    using append_event_again [OF committed(2) assms(6)] by simp
  have "consume K n2 token (identity_text t w i) (e_hash r) kdb2 = Inr kdb2"
    using c c2 m' by (simp add: consume_def)
  with ver ap ex r(2) show ?thesis
    by (simp add: authorized_append_event_def authorized_commit_def)
qed auto

end
