(* ===== verification/KernelExamples.thy ===== *)
theory KernelExamples
  imports KernelProps WorldExamples
begin

text \<open>
  Tokens on a concrete run: a token is issued and verified, and an event is committed with it,
  retried and replayed. The library of the example reads every payload as the claims issued.
\<close>

definition ex_payload :: obj where
  "ex_payload = dict_of
     [(''schema_version'', JStr ''edon-kernel-execution-token.v1''), (''purpose'', JStr ''WORLD_EVENT_COMMIT''),
      (''key_id'', JStr ''k''), (''token_id'', JStr ''tok''), (''nonce'', JStr ''n''),
      (''tenant_id'', JStr ''t''), (''world_id'', JStr ''w''), (''actor_id'', JStr ''a''), (''issuer_id'', JStr ''s''),
      (''authority_version'', JStr ''v1''), (''expected_world_version'', JInt 0),
      (''event_id'', JStr ''x''), (''event_type'', JStr ''SENSED''), (''mutations_sha256'', JStr ''sha256:3''),
      (''issued_at'', JInt 0), (''expires_at'', JInt 300), (''binding_authority'', JBool True)]"

definition ex_kenv :: kernel_env where
  "ex_kenv = \<lparr>k_py = demo_env, k_key_id = ''k'', hmac_sha256 = (\<lambda>_. replicate 3 (CHR 0x00)),
     load_json = (\<lambda>_. Some (JObj ex_payload))\<rparr>"

abbreviation ex_token :: string where
  "ex_token \<equiv> ''AAAA.AAAA''"

abbreviation ex_muts :: "json list" where
  "ex_muts \<equiv> [mutation_json (INCREMENT [''n''] (JInt 2))]"

lemma ex_kenv_fields [eval_simps]:
  "k_py ex_kenv = demo_env" "k_key_id ex_kenv = ''k''" "hmac_sha256 ex_kenv s = replicate 3 (CHR 0x00)"
  "load_json ex_kenv s = Some (JObj ex_payload)"
  by (simp_all add: ex_kenv_def)

lemma ex_claims: "token_claims ex_kenv ''tok'' ''n'' ''t'' ''w'' ''a'' ''s'' ''v1'' 0 ''x'' ''SENSED'' ''sha256:3'' 0 300
    = JObj ex_payload"
  by (simp add: token_claims_def ex_payload_def mk_obj_def ex_kenv_fields)

lemmas ex_payload_get [eval_simps] = token_claims_get [OF ex_claims]

lemma ex_signed [eval_simps]: "decode_and_verify_signature ex_kenv ex_token = Inr ex_payload"
proof -
  have "b64_encode (replicate 3 (CHR 0x00)) = ''AAAA''" "b64_decode ''AAAA'' = Some (replicate 3 (CHR 0x00))"
    "is_ascii ''AAAA''"
    by code_simp+
  then show ?thesis
    by (simp add: decode_and_verify_signature_def split_token_def sign_segment_def ex_kenv_fields)
qed

lemmas suc_two [eval_simps] = numeral_2_eq_2 [symmetric]

lemmas kernel_eval [eval_simps] =
  authorized_append_event_def authorized_commit_def existing_hash_def event_log_def verify_world_event_def
  kernel_identifier_def mutations_digest_def field_is_def int_field_def token_id_of_def find_consumed_def
  identity_text_def consume_def init_kdb_def jnum_eq_def jnum_def

lemma ex_authorized: "\<exists>db kdb sn. authorized_append_event ex_kenv 10 ''2'' ''t'' ''w'' ''x'' ''SENSED'' ex_muts ''a'' ''v1'' 0
    ex_token [''m:::''] None (ex_db0, init_kdb) = ((db, kdb), Inr sn) \<and> kdb \<noteq> init_kdb \<and> db \<noteq> ex_db0"
  by (simp add: eval_simps cong: world_congs)

lemma ex_verified: "\<exists>m. verify_world_event ex_kenv ex_token ''t'' ''w'' ''a'' 0 ''x'' ''SENSED'' ex_muts (Some ''v1'') False None
    10 init_kdb = Inr m"
  by (simp add: eval_simps cong: world_congs)

lemma ex_issued: "\<exists>kdb token. issue_world_event ex_kenv ''tok'' ''n'' ''t'' ''w'' ''a'' ''v1'' 0 ''x'' ''SENSED'' ex_muts 300 ''s'' 0 init_kdb
    = Inr (kdb, token)"
  by (simp add: issue_world_event_def unix_text_def time_ok_def max_time_def eval_simps cong: world_congs)

lemma ex_digest: "mutations_digest ex_kenv ex_muts = Inr ''sha256:3''"
  by (simp add: eval_simps cong: world_congs)

section \<open>The properties of tokens on the run\<close>

theorem consumed_token_is_bound_witness:
  "\<forall>kdb. consume ex_kenv ''1'' ex_token ''t:w:x'' ''h'' init_kdb \<noteq> Inl ReplayDetected
    \<and> (\<exists>k1. consume ex_kenv ''1'' ex_token ''t:w:x'' ''h'' init_kdb = Inr k1
        \<and> consume ex_kenv ''2'' ex_token ''t:w:y'' ''h'' k1 \<noteq> Inr kdb)"
proof
  fix kdb
  have "\<exists>k1. consume ex_kenv ''1'' ex_token ''t:w:x'' ''h'' init_kdb = Inr k1"
    by (simp add: eval_simps cong: world_congs)
  then obtain k1 where k1: "consume ex_kenv ''1'' ex_token ''t:w:x'' ''h'' init_kdb = Inr k1" by blast
  have "consume ex_kenv ''2'' ex_token ''t:w:y'' ''h'' k1 \<noteq> Inr kdb"
    using consumed_token_is_bound [OF k1 krun_refl, of "''2''" "''t:w:y''" "''h''" kdb] by auto
  with k1 show "consume ex_kenv ''1'' ex_token ''t:w:x'' ''h'' init_kdb \<noteq> Inl ReplayDetected
    \<and> (\<exists>k1. consume ex_kenv ''1'' ex_token ''t:w:x'' ''h'' init_kdb = Inr k1
        \<and> consume ex_kenv ''2'' ex_token ''t:w:y'' ''h'' k1 \<noteq> Inr kdb)" by auto
qed

theorem issued_token_verifies_witness: "\<exists>kdb token m.
    issue_world_event ex_kenv ''tok'' ''n'' ''t'' ''w'' ''a'' ''v1'' 0 ''x'' ''SENSED'' ex_muts 300 ''s'' 0 init_kdb = Inr (kdb, token)
    \<and> verify_world_event ex_kenv token ''t'' ''w'' ''a'' 0 ''x'' ''SENSED'' ex_muts (Some ''v1'') False None 200 init_kdb = Inr m"
proof -
  obtain kdb token where i: "issue_world_event ex_kenv ''tok'' ''n'' ''t'' ''w'' ''a'' ''v1'' 0 ''x'' ''SENSED'' ex_muts 300 ''s'' 0
      init_kdb = Inr (kdb, token)"
    using ex_issued by blast
  have s: "py_strip ''t'' = ''t''" "py_strip ''w'' = ''w''" "py_strip ''a'' = ''a''" "py_strip ''s'' = ''s''"
      "py_strip ''v1'' = ''v1''" "py_strip ''x'' = ''x''" "py_strip ''SENSED'' = ''SENSED''"
    by (simp_all add: eval_simps)
  have r: "\<forall>d. mutations_digest ex_kenv ex_muts = Inr d \<longrightarrow> reads_back ex_kenv (token_claims ex_kenv ''tok'' ''n''
      (py_strip ''t'') (py_strip ''w'') (py_strip ''a'') (py_strip ''s'') (py_strip ''v1'') 0 (py_strip ''x'') (py_strip ''SENSED'') d 0 300)"
    by (simp add: ex_digest s ex_claims reads_back_def ex_kenv_fields)
  have k: "kernel_identifier ''token_id'' ''tok'' = Inr ''tok''" "find_consumed init_kdb ''tok'' = None"
    by (simp_all add: eval_simps)
  show ?thesis
    using issued_token_verifies [OF i r k, of 200 False None] i by (auto simp: s)
qed

theorem token_names_one_request_witness:
  "verify_world_event ex_kenv ex_token ''t'' ''w'' ''a'' 0 ''y'' ''SENSED'' ex_muts None False None 10 init_kdb \<noteq> Inr []"
proof -
  obtain m where m: "verify_world_event ex_kenv ex_token ''t'' ''w'' ''a'' 0 ''x'' ''SENSED'' ex_muts (Some ''v1'') False None
      10 init_kdb = Inr m"
    using ex_verified by blast
  have "py_strip ''x'' \<noteq> py_strip ''y''" by (simp add: eval_simps)
  then show ?thesis
    using token_names_one_request [OF m, of "''t''" "''w''" "''a''" 0 "''y''" "''SENSED''" ex_muts None False None 10 init_kdb "[]"]
    by auto
qed

theorem no_commit_without_token_witness:
  "\<exists>m. decode_and_verify_signature ex_kenv ex_token = Inr m \<and> dict_get m ''authority_version'' = Some (JStr ''v1'')"
proof -
  obtain db kdb sn where "authorized_append_event ex_kenv 10 ''2'' ''t'' ''w'' ''x'' ''SENSED'' ex_muts ''a'' ''v1'' 0
      ex_token [''m:::''] None (ex_db0, init_kdb) = ((db, kdb), Inr sn)" "db \<noteq> ex_db0"
    using ex_authorized by blast
  from no_commit_without_token [OF this] show ?thesis by blast
qed

theorem one_token_one_event_witness: "\<exists>db kdb sn. authorized_append_event ex_kenv 10 ''2'' ''t'' ''w'' ''x'' ''SENSED''
      ex_muts ''a'' ''v1'' 0 ex_token [''m:::''] None (ex_db0, init_kdb) = ((db, kdb), Inr sn)
    \<and> fst (authorized_append_event ex_kenv 10 ''2'' ''t'' ''w'' ''y'' ''SENSED''
      ex_muts ''a'' ''v1'' 1 ex_token [''m:::''] None (db, kdb)) = (db, kdb)"
proof -
  obtain db kdb sn where a: "authorized_append_event ex_kenv 10 ''2'' ''t'' ''w'' ''x'' ''SENSED'' ex_muts ''a'' ''v1'' 0
      ex_token [''m:::''] None (ex_db0, init_kdb) = ((db, kdb), Inr sn)"
    using ex_authorized by blast
  obtain db' kdb' r where b: "authorized_append_event ex_kenv 10 ''2'' ''t'' ''w'' ''y'' ''SENSED''
      ex_muts ''a'' ''v1'' 1 ex_token [''m:::''] None (db, kdb) = ((db', kdb'), r)"
    by (metis prod.exhaust)
  have "world_reachable (k_py ex_kenv) ex_db0" using ex_reachable(1) by (simp add: ex_kenv_fields)
  from one_token_one_event [OF a run_refl krun_refl b this] a b show ?thesis by auto
qed

theorem authorized_retry_is_safe_witness: "\<exists>db kdb sn. authorized_append_event ex_kenv 10 ''2'' ''t'' ''w'' ''x'' ''SENSED''
      ex_muts ''a'' ''v1'' 0 ex_token [''m:::''] None (ex_db0, init_kdb) = ((db, kdb), Inr sn)
    \<and> authorized_append_event ex_kenv 200 ''5'' ''t'' ''w'' ''x'' ''SENSED''
      ex_muts ''a'' ''v1'' 0 ex_token [''m:::''] None (db, kdb) = ((db, kdb), Inr sn)"
proof -
  obtain db kdb sn where a: "authorized_append_event ex_kenv 10 ''2'' ''t'' ''w'' ''x'' ''SENSED'' ex_muts ''a'' ''v1'' 0
      ex_token [''m:::''] None (ex_db0, init_kdb) = ((db, kdb), Inr sn)"
    using ex_authorized by blast
  have e: "\<forall>m e. decode_and_verify_signature ex_kenv ex_token = Inr m \<longrightarrow> int_field m ''expires_at'' = Some e \<longrightarrow> 200 \<le> e"
    by (simp add: ex_signed int_field_def ex_payload_get)
  from authorized_retry_is_safe [OF a ex_finds(2) ex_ids(1-3) run_refl krun_refl _ e] a show ?thesis by auto
qed

end
