(* ===== verification/Memory.thy ===== *)
theory Memory
  imports Json HashChain "HOL-Library.Product_Lexorder"
begin

text \<open>
  The episodic memory (\<open>src/src/edon/memory/store.py\<close>, class \<open>EpisodicMemoryStore\<close>): immutable
  episodes of a tenant, tombstones that hide them, and an audit log, hash-chained per tenant, in
  which every access leaves a row. A table is the list of its rows in the order of insertion; a
  column that holds JSON is the value it holds; an operation is one transaction, so an error
  leaves the database as it was.
\<close>

datatype memory_error = MemError string | MemOverflow | MemIntegrity

section \<open>Tables\<close>

record mem_row =
  m_tenant :: string
  m_id :: string
  m_world :: string
  m_type :: string
  m_summary :: string
  m_payload :: obj
  m_occurred :: string
  m_sens :: string
  m_retention :: "string option"
  m_sources :: "string list"
  m_prov :: obj
  m_sha :: string
  m_by :: string
  m_auth :: string
  m_created :: string

record tomb_row =
  t_tenant :: string
  t_id :: string
  t_reason :: string
  t_actor :: string
  t_auth :: string
  t_created :: string

record maudit_row =
  ma_tenant :: string
  ma_action :: string
  ma_memory :: string
  ma_actor :: string
  ma_payload :: json
  ma_prev :: string
  ma_hash :: string
  ma_created :: string

record mdb =
  entries :: "mem_row list"
  tombs :: "tomb_row list"
  maudit :: "maudit_row list"

definition init_mdb :: mdb where
  "init_mdb = \<lparr>entries = [], tombs = [], maudit = []\<rparr>"

definition is_entry :: "string \<Rightarrow> string \<Rightarrow> mem_row \<Rightarrow> bool" where
  "is_entry t i e \<longleftrightarrow> m_tenant e = t \<and> m_id e = i"

definition find_entry :: "mdb \<Rightarrow> string \<Rightarrow> string \<Rightarrow> mem_row option" where
  "find_entry db t i = List.find (is_entry t i) (entries db)"

definition is_tomb :: "string \<Rightarrow> string \<Rightarrow> tomb_row \<Rightarrow> bool" where
  "is_tomb t i r \<longleftrightarrow> t_tenant r = t \<and> t_id r = i"

definition find_tomb :: "mdb \<Rightarrow> string \<Rightarrow> string \<Rightarrow> tomb_row option" where
  "find_tomb db t i = List.find (is_tomb t i) (tombs db)"

text \<open>The rows the reading queries select: the tenant's entries with no tombstone.\<close>

definition visible :: "mdb \<Rightarrow> string \<Rightarrow> mem_row list" where
  "visible db t = filter (\<lambda>e. m_tenant e = t \<and> find_tomb db t (m_id e) = None) (entries db)"

definition maudit_of :: "mdb \<Rightarrow> string \<Rightarrow> maudit_row list" where
  "maudit_of db t = filter (\<lambda>r. ma_tenant r = t) (maudit db)"

section \<open>Checks\<close>

definition sensitivities :: "string list" where
  "sensitivities = [''PUBLIC'', ''INTERNAL'', ''CONFIDENTIAL'', ''RESTRICTED'']"

definition memory_identifier :: "string \<Rightarrow> string \<Rightarrow> memory_error + string" where
  "memory_identifier label s = ident_check 200 (MemError (label @ '' must contain between 1 and 200 characters'')) s"

definition memory_time :: "pyenv \<Rightarrow> string \<Rightarrow> string \<Rightarrow> memory_error + int" where
  "memory_time E label s = (case iso_parse E (zulu s) of
     TsBad \<Rightarrow> Inl (MemError (label @ '' must be an ISO-8601 timestamp''))
   | TsNaive \<Rightarrow> Inl (MemError (label @ '' must include a timezone''))
   | TsOverflow \<Rightarrow> Inl MemOverflow
   | TsAware t \<Rightarrow> Inr t)"

definition lower_char :: "char \<Rightarrow> char" where
  "lower_char c = (let n = of_char c :: nat in
     if 65 \<le> n \<and> n \<le> 90 \<or> 192 \<le> n \<and> n \<le> 222 \<and> n \<noteq> 215 then char_of (n + 32) else c)"

text \<open>The characters of \<open>[a-z0-9_:@.-]\<close>, and the maximal runs of them.\<close>

definition token_char :: "char \<Rightarrow> bool" where
  "token_char c = (let n = of_char c :: nat in 97 \<le> n \<and> n \<le> 122 \<or> 48 \<le> n \<and> n \<le> 57
     \<or> c \<in> set ''_:@.-'')"

fun token_runs :: "string \<Rightarrow> string \<Rightarrow> string list" where
  "token_runs acc [] = (if acc = [] then [] else [rev acc])"
| "token_runs acc (c # cs) =
     (if token_char c then token_runs (c # acc) cs
      else if acc = [] then token_runs [] cs else rev acc # token_runs [] cs)"

definition mem_tokens :: "string \<Rightarrow> string list" where
  "mem_tokens s = remdups (token_runs [] (map lower_char s))"

definition allowed_check :: "string list \<Rightarrow> memory_error + string list" where
  "allowed_check items = (let allowed = map py_upper items in
     require (allowed \<noteq> [] \<and> set allowed \<subseteq> set sensitivities)
       (MemError ''allowed_sensitivities must contain registered sensitivity values'') (Inr allowed))"

section \<open>The audit log\<close>

definition maudit_sha :: "pyenv \<Rightarrow> maudit_row \<Rightarrow> string" where
  "maudit_sha E r = sha256_json E (mk_obj
     [(''tenant_id'', JStr (ma_tenant r)), (''action'', JStr (ma_action r)), (''memory_id'', JStr (ma_memory r)),
      (''actor_id'', JStr (ma_actor r)), (''payload'', ma_payload r), (''previous_hash'', JStr (ma_prev r)),
      (''created_at'', JStr (ma_created r))])"

definition maudit_sealed :: "pyenv \<Rightarrow> maudit_row \<Rightarrow> bool" where
  "maudit_sealed E r \<longleftrightarrow> maudit_sha E r = ma_hash r"

text \<open>A row with its link to the row before it and its own hash filled in.\<close>

definition maudit_link :: "pyenv \<Rightarrow> maudit_row \<Rightarrow> string \<Rightarrow> maudit_row" where
  "maudit_link E c p = c\<lparr>ma_prev := p, ma_hash := maudit_sha E (c\<lparr>ma_prev := p\<rparr>)\<rparr>"

interpretation mlog: hash_chain ma_prev ma_hash "maudit_sealed E" "maudit_link E" for E
  by unfold_locales (simp_all add: maudit_link_def maudit_sealed_def maudit_sha_def)

definition append_audit :: "pyenv \<Rightarrow> string \<Rightarrow> string \<Rightarrow> string \<Rightarrow> string \<Rightarrow> json \<Rightarrow> string \<Rightarrow> mdb
    \<Rightarrow> memory_error + mdb" where
  "append_audit E tenant_id action memory_id actor_id payload created_at db =
     (let r = maudit_link E \<lparr>ma_tenant = tenant_id, ma_action = action, ma_memory = memory_id,
                ma_actor = actor_id, ma_payload = payload, ma_prev = [], ma_hash = [], ma_created = created_at\<rparr>
                (last_hash ma_hash ''GENESIS'' (maudit_of db tenant_id))
      in require (\<not> list_ex (\<lambda>x. ma_hash x = ma_hash r) (maudit db)) MemIntegrity
           (Inr (db\<lparr>maudit := maudit db @ [r]\<rparr>)))"

section \<open>Operations\<close>

definition content_sha :: "pyenv \<Rightarrow> mem_row \<Rightarrow> string" where
  "content_sha E e = sha256_json E (mk_obj
     [(''tenant_id'', JStr (m_tenant e)), (''memory_id'', JStr (m_id e)), (''world_id'', JStr (m_world e)),
      (''episode_type'', JStr (m_type e)), (''summary'', JStr (m_summary e)), (''payload'', JObj (m_payload e)),
      (''occurred_at'', JStr (m_occurred e)), (''sensitivity'', JStr (m_sens e)),
      (''retention_until'', opt_str (m_retention e)), (''source_event_ids'', jstrs (m_sources e)),
      (''provenance'', JObj (m_prov e)), (''created_by'', JStr (m_by e)),
      (''authorization_ref'', JStr (m_auth e))])"

text \<open>The checks of \<open>record_episode\<close>: the row to be stored, or the first violation.\<close>

definition episode_of :: "pyenv \<Rightarrow> string \<Rightarrow> string \<Rightarrow> string \<Rightarrow> string \<Rightarrow> string \<Rightarrow> json \<Rightarrow> string \<Rightarrow> string
    \<Rightarrow> string \<Rightarrow> string \<Rightarrow> string list \<Rightarrow> json \<Rightarrow> string option \<Rightarrow> string \<Rightarrow> memory_error + mem_row" where
  "episode_of E tenant_id memory_id world_id episode_type summary payload occurred_at sensitivity
     actor_id authorization_ref source_event_ids provenance retention_until created_at =
     rbind (memory_identifier ''tenant_id'' tenant_id) (\<lambda>t.
     rbind (memory_identifier ''memory_id'' memory_id) (\<lambda>i.
     rbind (memory_identifier ''world_id'' world_id) (\<lambda>w.
     rbind (memory_identifier ''episode_type'' episode_type) (\<lambda>ty.
     rbind (memory_identifier ''actor_id'' actor_id) (\<lambda>a.
     rbind (memory_identifier ''authorization_ref'' authorization_ref) (\<lambda>auth.
       (let summary = py_strip summary; prov = (if truthy provenance then provenance else JObj []) in
        require (10 \<le> length summary \<and> length summary \<le> 10000)
          (MemError ''summary must contain between 10 and 10000 characters'')
          (case (payload, prov) of
             (JObj p, JObj q) \<Rightarrow>
               require (obj_finite p \<and> obj_finite q) (MemError ''memory payload and provenance must be finite JSON'') (
               rbind (memory_time E ''occurred_at'' occurred_at) (\<lambda>occurred.
               rbind (case retention_until of None \<Rightarrow> Inr None
                      | Some s \<Rightarrow> if s = [] then Inr None
                                  else rbind (memory_time E ''retention_until'' s) (\<lambda>u. Inr (Some u))) (\<lambda>retained.
               require (case retained of None \<Rightarrow> True | Some u \<Rightarrow> \<not> u < occurred)
                 (MemError ''retention_until cannot precede occurred_at'') (
               require (py_upper sensitivity \<in> set sensitivities)
                 (MemError (''unsupported sensitivity: '' @ py_upper sensitivity)) (
               rbind (traverse (memory_identifier ''source event id'') source_event_ids) (\<lambda>sources.
               require (sources \<noteq> [] \<or> q \<noteq> []) (MemError ''memory requires source_event_ids or provenance'') (
                 let e = \<lparr>m_tenant = t, m_id = i, m_world = w, m_type = ty, m_summary = summary, m_payload = p,
                        m_occurred = isoformat occurred, m_sens = py_upper sensitivity,
                        m_retention = map_option isoformat retained, m_sources = sorted_set sources, m_prov = q,
                        m_sha = [], m_by = a, m_auth = auth, m_created = created_at\<rparr>
                 in Inr (e\<lparr>m_sha := content_sha E e\<rparr>))))))))
           | (JObj _, _) \<Rightarrow> Inl (MemError ''provenance must be a JSON object'')
           | _ \<Rightarrow> Inl (MemError ''memory payload must be a JSON object'')))))))))"

definition record_episode :: "pyenv \<Rightarrow> string \<Rightarrow> string \<Rightarrow> string \<Rightarrow> string \<Rightarrow> string \<Rightarrow> string \<Rightarrow> json \<Rightarrow> string \<Rightarrow> string
    \<Rightarrow> string \<Rightarrow> string \<Rightarrow> string list \<Rightarrow> json \<Rightarrow> string option \<Rightarrow> string option \<Rightarrow> mdb \<Rightarrow> memory_error + (mdb \<times> mem_row)" where
  "record_episode E now tenant_id memory_id world_id episode_type summary payload occurred_at sensitivity
     actor_id authorization_ref source_event_ids provenance retention_until timestamp db =
     rbind (episode_of E tenant_id memory_id world_id episode_type summary payload occurred_at sensitivity
       actor_id authorization_ref source_event_ids provenance retention_until (or_now timestamp now)) (\<lambda>e.
       (case find_entry db (m_tenant e) (m_id e) of
          Some x \<Rightarrow> require (m_sha x = m_sha e) (MemError ''memory identity is already bound to different content'')
            (Inr (db, x))
        | None \<Rightarrow>
            rbind (append_audit E (m_tenant e) ''MEMORY_RECORDED'' (m_id e) (m_by e)
              (mk_obj [(''world_id'', JStr (m_world e)), (''episode_type'', JStr (m_type e)),
                 (''sensitivity'', JStr (m_sens e)), (''content_sha256'', JStr (m_sha e)),
                 (''source_event_ids'', jstrs (m_sources e))])
              (m_created e) (db\<lparr>entries := entries db @ [e]\<rparr>)) (\<lambda>db. Inr (db, e))))"

text \<open>Whether the retention of a row has passed.\<close>

definition retention_passed :: "pyenv \<Rightarrow> int \<Rightarrow> mem_row \<Rightarrow> memory_error + bool" where
  "retention_passed E current e = (case m_retention e of
     None \<Rightarrow> Inr False
   | Some s \<Rightarrow> if s = [] then Inr False
               else rbind (memory_time E ''retention_until'' s) (\<lambda>u. Inr (u < current)))"

definition as_of_time :: "pyenv \<Rightarrow> int \<Rightarrow> string option \<Rightarrow> memory_error + int" where
  "as_of_time E clock as_of = (case as_of of None \<Rightarrow> Inr clock
     | Some s \<Rightarrow> if s = [] then Inr clock else memory_time E ''as_of'' s)"

definition get_episode :: "pyenv \<Rightarrow> int \<Rightarrow> string \<Rightarrow> string \<Rightarrow> string \<Rightarrow> string \<Rightarrow> string list \<Rightarrow> string option
    \<Rightarrow> string option \<Rightarrow> mdb \<Rightarrow> memory_error + (mdb \<times> mem_row)" where
  "get_episode E clock now tenant_id memory_id actor_id allowed_sensitivities as_of timestamp db =
     rbind (memory_identifier ''tenant_id'' tenant_id) (\<lambda>t.
     rbind (memory_identifier ''memory_id'' memory_id) (\<lambda>i.
     rbind (memory_identifier ''actor_id'' actor_id) (\<lambda>a.
     rbind (allowed_check allowed_sensitivities) (\<lambda>allowed.
     rbind (as_of_time E clock as_of) (\<lambda>current.
       (case List.find (is_entry t i) (visible db t) of
          None \<Rightarrow> Inl (MemError ''memory not found or access denied'')
        | Some e \<Rightarrow>
            require (m_sens e \<in> set allowed) (MemError ''memory not found or access denied'') (
            rbind (retention_passed E current e) (\<lambda>gone.
            require (\<not> gone) (MemError ''memory not found or access denied'') (
            rbind (append_audit E t ''MEMORY_READ'' i a
              (mk_obj [(''sensitivity'', JStr (m_sens e)), (''content_sha256'', JStr (m_sha e))])
              (or_now timestamp now) db) (\<lambda>db. Inr (db, e)))))))))))"

text \<open>
  A row of a query: \<open>None\<close> where a filter drops it, otherwise its score. The query tokens and
  the tokens of the row's document are sets.
\<close>

definition document :: "pyenv \<Rightarrow> mem_row \<Rightarrow> string" where
  "document E e = join '' '' [m_summary e, m_type e, canonical_json E (JObj (m_payload e))]"

definition query_score :: "pyenv \<Rightarrow> string list \<Rightarrow> mem_row \<Rightarrow> nat" where
  "query_score E qs e = (if qs = [] then 0 else length (filter (\<lambda>x. x \<in> set (mem_tokens (document E e))) qs))"

definition query_row :: "pyenv \<Rightarrow> int \<Rightarrow> string list \<Rightarrow> string option \<Rightarrow> string list \<Rightarrow> string list \<Rightarrow> mem_row
    \<Rightarrow> memory_error + nat option" where
  "query_row E current allowed world types qs e =
     (if m_sens e \<notin> set allowed then Inr None
      else if world \<noteq> None \<and> world \<noteq> Some (m_world e) then Inr None
      else if types \<noteq> [] \<and> m_type e \<notin> set types then Inr None
      else rbind (retention_passed E current e) (\<lambda>gone.
        if gone then Inr None
        else (let score = query_score E qs e in
              if qs \<noteq> [] \<and> score = 0 then Inr None else Inr (Some score))))"

fun scan :: "(mem_row \<Rightarrow> memory_error + nat option) \<Rightarrow> mem_row list \<Rightarrow> memory_error + (nat \<times> mem_row) list" where
  "scan f [] = Inr []"
| "scan f (e # es) = rbind (f e) (\<lambda>s. rbind (scan f es) (\<lambda>rs.
     Inr (case s of None \<Rightarrow> rs | Some n \<Rightarrow> (n, e) # rs)))"

text \<open>
  \<open>datetime.timestamp()\<close>: seconds since 1970 as a float, correctly rounded. Times have six
  digits after the point, so the value is finite.
\<close>

definition epoch_seconds :: "int \<Rightarrow> rat" where
  "epoch_seconds t = (case rnd (of_int (t - 62135596800000000) / 1000000) of Fin x \<Rightarrow> x | _ \<Rightarrow> 0)"

type_synonym rank = "int \<times> rat \<times> string"

definition rank_of :: "pyenv \<Rightarrow> nat \<times> mem_row \<Rightarrow> memory_error + (rank \<times> nat \<times> mem_row)" where
  "rank_of E r = rbind (memory_time E ''occurred_at'' (m_occurred (snd r)))
     (\<lambda>t. Inr ((- int (fst r), - epoch_seconds t, m_id (snd r)), r))"

definition query :: "pyenv \<Rightarrow> int \<Rightarrow> string \<Rightarrow> string \<Rightarrow> string \<Rightarrow> string \<Rightarrow> string list \<Rightarrow> string option \<Rightarrow> string list
    \<Rightarrow> int \<Rightarrow> string option \<Rightarrow> string option \<Rightarrow> mdb \<Rightarrow> memory_error + (mdb \<times> (nat \<times> mem_row) list)" where
  "query E clock now tenant_id text actor_id allowed_sensitivities world_id episode_types limit as_of timestamp db =
     rbind (memory_identifier ''tenant_id'' tenant_id) (\<lambda>t.
     rbind (memory_identifier ''actor_id'' actor_id) (\<lambda>a.
     rbind (case world_id of None \<Rightarrow> Inr None
            | Some w \<Rightarrow> rbind (memory_identifier ''world_id'' w) (\<lambda>w. Inr (Some w))) (\<lambda>world.
     rbind (allowed_check allowed_sensitivities) (\<lambda>allowed.
     rbind (traverse (memory_identifier ''episode type'') episode_types) (\<lambda>types.
     require (1 \<le> limit \<and> limit \<le> 200) (MemError ''memory query limit must be between 1 and 200'') (
     rbind (as_of_time E clock as_of) (\<lambda>current.
     rbind (scan (query_row E current allowed world types (mem_tokens text)) (visible db t)) (\<lambda>scored.
     rbind (traverse (rank_of E) scored) (\<lambda>ranked.
       (let selected = map snd (take (nat limit) (sort_key fst ranked)) in
        rbind (append_audit E t ''MEMORY_QUERY'' ''QUERY'' a
          (mk_obj [(''query_sha256'', JStr (sha256_text E text)), (''world_id'', opt_str world),
             (''episode_types'', jstrs (sorted_set types)), (''allowed_sensitivities'', jstrs (sorted_set allowed)),
             (''result_count'', JInt (int (length selected)))])
          (or_now timestamp now) db) (\<lambda>db. Inr (db, selected))))))))))))"

definition tombstone :: "pyenv \<Rightarrow> string \<Rightarrow> string \<Rightarrow> string \<Rightarrow> string \<Rightarrow> string \<Rightarrow> string \<Rightarrow> string option \<Rightarrow> mdb
    \<Rightarrow> memory_error + (mdb \<times> string)" where
  "tombstone E now tenant_id memory_id actor_id reason authorization_ref timestamp db =
     rbind (memory_identifier ''tenant_id'' tenant_id) (\<lambda>t.
     rbind (memory_identifier ''memory_id'' memory_id) (\<lambda>i.
     rbind (memory_identifier ''actor_id'' actor_id) (\<lambda>a.
     rbind (memory_identifier ''authorization_ref'' authorization_ref) (\<lambda>auth.
       (let reason = py_strip reason; created_at = or_now timestamp now in
        require (5 \<le> length reason) (MemError ''tombstone reason must be explicit'')
          (case find_entry db t i of
             None \<Rightarrow> Inl (MemError ''memory not found for tenant'')
           | Some e \<Rightarrow>
               (case find_tomb db t i of
                  Some x \<Rightarrow> Inr (db, t_created x)
                | None \<Rightarrow>
                    rbind (append_audit E t ''MEMORY_TOMBSTONED'' i a
                      (mk_obj [(''reason'', JStr reason), (''authorization_ref'', JStr auth),
                         (''content_sha256'', JStr (m_sha e))]) created_at
                      (db\<lparr>tombs := tombs db @ [\<lparr>t_tenant = t, t_id = i, t_reason = reason, t_actor = a,
                         t_auth = auth, t_created = created_at\<rparr>]\<rparr>))
                      (\<lambda>db. Inr (db, created_at)))))))))"

definition memory_audit_events :: "string \<Rightarrow> mdb \<Rightarrow> memory_error + (nat \<times> maudit_row) list" where
  "memory_audit_events tenant_id db = rbind (memory_identifier ''tenant_id'' tenant_id)
     (\<lambda>t. Inr (filter (\<lambda>r. ma_tenant (snd r) = t) (List.enumerate 1 (maudit db))))"

definition verify_audit_chain :: "pyenv \<Rightarrow> string \<Rightarrow> mdb \<Rightarrow> memory_error + bool" where
  "verify_audit_chain E tenant_id db = rbind (memory_audit_events tenant_id db)
     (\<lambda>rows. Inr (chain_ok ma_prev ma_hash (maudit_sealed E) ''GENESIS'' (map snd rows)))"

definition count_entries :: "mdb \<Rightarrow> nat" where
  "count_entries db = length (entries db)"

end
