(* ===== verification/MemoryProps.thy ===== *)
theory MemoryProps
  imports Memory
begin

text \<open>
  Correctness of the episodic memory: the audit chain of every tenant verifies in every reachable
  database, episodes and tombstones are never changed or dropped, a tombstoned episode is not
  returned again, and a query returns the best-ranked visible episodes.
\<close>

section \<open>Runs\<close>

inductive mem_step :: "pyenv \<Rightarrow> mdb \<Rightarrow> mdb \<Rightarrow> bool" for E where
  ms_record: "record_episode E now t i w ty s p o' sens a auth src prov ret ts db = Inr (db', e) \<Longrightarrow> mem_step E db db'"
| ms_get: "get_episode E clock now t i a allowed as_of ts db = Inr (db', e) \<Longrightarrow> mem_step E db db'"
| ms_query: "query E clock now t q a allowed w tys lmt as_of ts db = Inr (db', rs) \<Longrightarrow> mem_step E db db'"
| ms_tomb: "tombstone E now t i a reason auth ts db = Inr (db', c) \<Longrightarrow> mem_step E db db'"

abbreviation mem_steps :: "pyenv \<Rightarrow> mdb \<Rightarrow> mdb \<Rightarrow> bool" where
  "mem_steps E \<equiv> (mem_step E)\<^sup>*\<^sup>*"

text \<open>The shape of every change: at most one new audit row, properly linked, after at most one new row elsewhere.\<close>

definition audited :: "pyenv \<Rightarrow> mdb \<Rightarrow> mdb \<Rightarrow> bool" where
  "audited E db db' \<longleftrightarrow> (\<exists>t act i a p c. append_audit E t act i a p c db = Inr db')"

lemma auditedI: "append_audit E t act i a p c db = Inr db' \<Longrightarrow> audited E db db'"
  unfolding audited_def by (intro exI)

lemma append_audit_cases:
  assumes "append_audit E t act i a p c db = Inr db'"
  obtains r where "r = maudit_link E \<lparr>ma_tenant = t, ma_action = act, ma_memory = i, ma_actor = a,
      ma_payload = p, ma_prev = [], ma_hash = [], ma_created = c\<rparr> (last_hash ma_hash ''GENESIS'' (maudit_of db t))"
    "db' = db\<lparr>maudit := maudit db @ [r]\<rparr>"
  using assms by (simp add: append_audit_def Let_def require_eq_Inr)

lemma record_episode_cases:
  assumes "record_episode E now t i w ty s p oc sens a auth src prov ret ts db = Inr (db', e)"
  obtains (fresh) "episode_of E t i w ty s p oc sens a auth src prov ret (or_now ts now) = Inr e"
      "find_entry db (m_tenant e) (m_id e) = None" "audited E (db\<lparr>entries := entries db @ [e]\<rparr>) db'"
    | (again) x where "episode_of E t i w ty s p oc sens a auth src prov ret (or_now ts now) = Inr x"
      "find_entry db (m_tenant x) (m_id x) = Some e" "m_sha e = m_sha x" "db' = db"
proof -
  obtain x where x: "episode_of E t i w ty s p oc sens a auth src prov ret (or_now ts now) = Inr x"
    by (rule rbindE [OF assms [unfolded record_episode_def]])
  show thesis
  proof (cases "find_entry db (m_tenant x) (m_id x)")
    case None
    with assms x have "e = x \<and> audited E (db\<lparr>entries := entries db @ [x]\<rparr>) db'"
      by (auto simp: record_episode_def rbind_eq_Inr dest!: auditedI)
    then show thesis by (intro fresh) (use x None in simp_all)
  next
    case (Some y)
    with assms x have "m_sha y = m_sha x \<and> db' = db \<and> e = y"
      by (auto simp: record_episode_def require_eq_Inr)
    then show thesis by (intro again) (use x Some in simp_all)
  qed
qed

lemma get_episode_audited:
  assumes "get_episode E clock now t i a allowed as_of ts db = Inr (db', e)"
  shows "audited E db db'"
  using assms unfolding get_episode_def
  by (auto elim!: rbindE simp: require_eq_Inr dest!: auditedI split: option.splits)

lemma query_audited:
  assumes "query E clock now t q a allowed w tys lmt as_of ts db = Inr (db', rs)"
  shows "audited E db db'"
  using assms unfolding query_def Let_def
  by (elim rbindE; clarsimp simp: require_eq_Inr; elim rbindE; clarsimp simp: require_eq_Inr auditedI)

lemma query_cases:
  assumes "query E clock now t q a allowed w tys lmt as_of ts db = Inr (db', rs)"
  obtains t' a' world tys' cur scored ranked p where "memory_identifier ''tenant_id'' t = Inr t'"
    "as_of_time E clock as_of = Inr cur"
    "scan (query_row E cur (map py_upper allowed) world tys' (mem_tokens q)) (visible db t') = Inr scored"
    "traverse (rank_of E) scored = Inr ranked"
    "rs = map snd (take (nat lmt) (sort_key fst ranked))"
    "append_audit E t' ''MEMORY_QUERY'' ''QUERY'' a' p (or_now ts now) db = Inr db'"
    "memory_identifier ''actor_id'' a = Inr a'"
    "case w of None \<Rightarrow> world = None | Some x \<Rightarrow> \<exists>y. memory_identifier ''world_id'' x = Inr y \<and> world = Some y"
    "traverse (memory_identifier ''episode type'') tys = Inr tys'"
proof -
  from assms obtain t' a' world tys' where ids: "memory_identifier ''tenant_id'' t = Inr t'"
      "memory_identifier ''actor_id'' a = Inr a'" "traverse (memory_identifier ''episode type'') tys = Inr tys'"
    and world: "(case w of None \<Rightarrow> Inr None | Some w \<Rightarrow> rbind (memory_identifier ''world_id'' w) (\<lambda>w. Inr (Some w)))
      = Inr world"
    unfolding query_def by (elim rbindE)
  have w: "case w of None \<Rightarrow> world = None | Some x \<Rightarrow> \<exists>y. memory_identifier ''world_id'' x = Inr y \<and> world = Some y"
    using world by (auto simp: rbind_eq_Inr split: option.splits)
  show thesis
    using assms unfolding query_def Let_def ids world rbind_simps
    by (elim rbindE; clarsimp simp: require_eq_Inr allowed_check_def Let_def; elim rbindE)
      (use that [OF ids(1) _ _ _ _ _ ids(2) w ids(3)] in clarsimp)
qed

lemma tombstone_cases:
  assumes "tombstone E now t i a reason auth ts db = Inr (db', c)"
  obtains (fresh) x y r where "memory_identifier ''tenant_id'' t = Inr x" "memory_identifier ''memory_id'' i = Inr y"
      "find_tomb db x y = None" "is_tomb x y r" "audited E (db\<lparr>tombs := tombs db @ [r]\<rparr>) db'"
    | (again) x y r where "memory_identifier ''tenant_id'' t = Inr x" "memory_identifier ''memory_id'' i = Inr y"
      "find_tomb db x y = Some r" "db' = db"
proof -
  from assms obtain x y where x: "memory_identifier ''tenant_id'' t = Inr x" and y: "memory_identifier ''memory_id'' i = Inr y"
    unfolding tombstone_def by (elim rbindE)
  from assms x y obtain e where e: "find_entry db x y = Some e"
    by (auto simp: tombstone_def rbind_eq_Inr require_eq_Inr Let_def split: option.splits)
  show thesis
  proof (cases "find_tomb db x y")
    case None
    from assms x y e None obtain a' auth' where "audited E (db\<lparr>tombs := tombs db @ [\<lparr>t_tenant = x, t_id = y,
        t_reason = py_strip reason, t_actor = a', t_auth = auth', t_created = or_now ts now\<rparr>]\<rparr>) db'"
      by (auto simp: tombstone_def rbind_eq_Inr require_eq_Inr Let_def dest!: auditedI)
    then show thesis by (rule fresh [OF x y None, rotated]) (simp add: is_tomb_def)
  next
    case (Some r)
    then have "db' = db" using assms x y e by (auto simp: tombstone_def rbind_eq_Inr require_eq_Inr Let_def)
    then show thesis by (rule again [OF x y Some])
  qed
qed

lemma audited_simps:
  "audited E db db' \<Longrightarrow> entries db' = entries db" "audited E db db' \<Longrightarrow> tombs db' = tombs db"
  by (auto simp: audited_def elim!: append_audit_cases)

section \<open>The audit chain\<close>

definition maudit_inv :: "pyenv \<Rightarrow> mdb \<Rightarrow> bool" where
  "maudit_inv E db \<longleftrightarrow> (\<forall>t. chain_ok ma_prev ma_hash (maudit_sealed E) ''GENESIS'' (maudit_of db t))"

lemma maudit_inv_init [simp]: "maudit_inv E init_mdb"
  by (simp add: maudit_inv_def init_mdb_def maudit_of_def)

lemma audited_inv:
  assumes "audited E db db'" and inv: "maudit_inv E db"
  shows "maudit_inv E db'"
proof -
  from assms(1) obtain t act i a p c where "append_audit E t act i a p c db = Inr db'"
    unfolding audited_def by (elim exE)
  then obtain r0 r where r: "r = maudit_link E r0 (last_hash ma_hash ''GENESIS'' (maudit_of db t))"
    and t: "ma_tenant r0 = t" and db': "db' = db\<lparr>maudit := maudit db @ [r]\<rparr>"
    by (elim append_audit_cases) simp
  have "maudit_of db' u = (if u = t then maudit_of db u @ [r] else maudit_of db u)" for u
    using t by (simp add: db' maudit_of_def r maudit_link_def)
  then show ?thesis
    using inv mlog.valid_extend [of E "''GENESIS''" "maudit_of db t" r0] by (simp add: maudit_inv_def r)
qed

lemma maudit_inv_upd [simp]:
  "maudit_inv E (db\<lparr>entries := es\<rparr>) = maudit_inv E db" "maudit_inv E (db\<lparr>tombs := ts\<rparr>) = maudit_inv E db"
  by (simp_all add: maudit_inv_def maudit_of_def)

lemma mem_step_inv: "mem_step E db db' \<Longrightarrow> maudit_inv E db \<Longrightarrow> maudit_inv E db'"
proof (induction rule: mem_step.induct)
  case (ms_record now t i w ty s p oc sens a auth src prov ret ts db db' e)
  then show ?case by (cases rule: record_episode_cases) (auto dest: audited_inv)
next
  case (ms_tomb now t i a reason auth ts db db' c)
  then show ?case by (cases rule: tombstone_cases) (auto dest: audited_inv)
qed (blast dest: get_episode_audited query_audited intro: audited_inv)+

lemma enumerate_filter: "map snd (filter (\<lambda>r. P (snd r)) (List.enumerate n xs)) = filter P xs"
  by (induction xs arbitrary: n) auto

text \<open>
  After any sequence of memory operations the audit chain of every tenant verifies:
  \<open>verify_audit_chain\<close> returns true, or refuses the tenant's name.
\<close>

theorem memory_audit_verifies:
  assumes "mem_steps E init_mdb db"
  shows "verify_audit_chain E t db = rbind (memory_identifier ''tenant_id'' t) (\<lambda>_. Inr True)"
proof -
  have "maudit_inv E db" using assms by (induction rule: rtranclp_induct) (auto intro: mem_step_inv)
  then show ?thesis
    using enumerate_filter [of "\<lambda>r. ma_tenant r = py_strip t" 1 "maudit db"]
    by (auto simp: verify_audit_chain_def memory_audit_events_def maudit_inv_def maudit_of_def memory_identifier_def
        ident_check_def Let_def)
qed

section \<open>Nothing is lost\<close>

definition extends :: "mdb \<Rightarrow> mdb \<Rightarrow> bool" where
  "extends db db' \<longleftrightarrow> (\<exists>es ts. entries db' = entries db @ es \<and> tombs db' = tombs db @ ts)"

lemma extends_refl [simp]: "extends db db"
  by (simp add: extends_def)

lemma extends_trans: "extends db db' \<Longrightarrow> extends db' db'' \<Longrightarrow> extends db db''"
  by (auto simp: extends_def)

lemma audited_extends: "audited E db db' \<Longrightarrow> extends db0 db \<Longrightarrow> extends db0 db'"
  by (simp add: extends_def audited_simps)

lemma mem_step_extends: "mem_step E db db' \<Longrightarrow> extends db db'"
proof (induction rule: mem_step.induct)
  case (ms_record now t i w ty s p oc sens a auth src prov ret ts db db' e)
  then show ?case by (cases rule: record_episode_cases) (auto simp: extends_def dest: audited_simps)
next
  case (ms_tomb now t i a reason auth ts db db' c)
  then show ?case by (cases rule: tombstone_cases) (auto simp: extends_def dest: audited_simps)
qed (blast dest: get_episode_audited query_audited intro: audited_extends extends_refl)+

lemma mem_steps_extends: "mem_steps E db db' \<Longrightarrow> extends db db'"
  by (induction rule: rtranclp_induct) (auto dest: mem_step_extends intro: extends_trans)

lemma extends_entry: "extends db db' \<Longrightarrow> find_entry db t i = Some e \<Longrightarrow> find_entry db' t i = Some e"
  by (auto simp: extends_def find_entry_def find_append)

lemma extends_tomb: "extends db db' \<Longrightarrow> find_tomb db t i = Some r \<Longrightarrow> find_tomb db' t i = Some r"
  by (auto simp: extends_def find_tomb_def find_append)

lemma find_entry_D: "find_entry db t i = Some e \<Longrightarrow> m_tenant e = t \<and> m_id e = i"
  by (auto simp: find_entry_def is_entry_def dest: find_Some_D)

lemma episode_of_ident:
  "episode_of E t i w ty s p oc sens a auth src prov ret c = Inr e \<Longrightarrow>
     memory_identifier ''tenant_id'' t = Inr (m_tenant e) \<and> memory_identifier ''memory_id'' i = Inr (m_id e)
     \<and> m_sha e = content_sha E (e\<lparr>m_sha := []\<rparr>) \<and> m_created e = c"
  unfolding episode_of_def Let_def
  apply (elim rbindE)
  apply (clarsimp simp: require_eq_Inr split: json.splits)
  apply (elim rbindE)
  apply (clarsimp simp: require_eq_Inr)
  by (elim rbindE) (clarsimp simp: require_eq_Inr)

text \<open>
  A recorded episode stays as it was recorded: however the memory is used afterwards, the
  entry found under its identity is the same, and recording under that identity again changes
  nothing and returns it, if the content has the same hash, and is refused otherwise.
\<close>

theorem episodes_are_immutable:
  assumes "record_episode E now t i w ty s p oc sens a auth src prov ret ts db = Inr (db1, e)"
    and "mem_steps E db1 db2"
  shows "find_entry db2 (m_tenant e) (m_id e) = Some e \<and>
    (\<forall>now' w' ty' s' p' oc' sens' a' auth' src' prov' ret' ts'.
      record_episode E now' t i w' ty' s' p' oc' sens' a' auth' src' prov' ret' ts' db2 =
        rbind (episode_of E t i w' ty' s' p' oc' sens' a' auth' src' prov' ret' (or_now ts' now')) (\<lambda>x.
          if m_sha x = m_sha e then Inr (db2, e)
          else Inl (MemError ''memory identity is already bound to different content'')))"
proof -
  have "find_entry db1 (m_tenant e) (m_id e) = Some e \<and>
      memory_identifier ''tenant_id'' t = Inr (m_tenant e) \<and> memory_identifier ''memory_id'' i = Inr (m_id e)"
    using assms(1)
  proof (cases rule: record_episode_cases)
    case fresh
    then show ?thesis
      using audited_simps(1) [OF fresh(3)] episode_of_ident [OF fresh(1)]
      by (simp add: find_entry_def find_append is_entry_def)
  next
    case (again x)
    then show ?thesis
      using find_entry_D [OF again(2)] episode_of_ident [OF again(1)] by simp
  qed
  then have f: "find_entry db1 (m_tenant e) (m_id e) = Some e"
    and id: "memory_identifier ''tenant_id'' t = Inr (m_tenant e) \<and> memory_identifier ''memory_id'' i = Inr (m_id e)"
    by blast+
  have f2: "find_entry db2 (m_tenant e) (m_id e) = Some e"
    using extends_entry [OF mem_steps_extends [OF assms(2)] f] .
  show ?thesis
  proof (intro conjI allI f2)
    fix now' w' ty' s' p' oc' sens' a' auth' src' prov' ret' ts'
    show "record_episode E now' t i w' ty' s' p' oc' sens' a' auth' src' prov' ret' ts' db2 =
        rbind (episode_of E t i w' ty' s' p' oc' sens' a' auth' src' prov' ret' (or_now ts' now')) (\<lambda>x.
          if m_sha x = m_sha e then Inr (db2, e)
          else Inl (MemError ''memory identity is already bound to different content''))"
    proof (cases "episode_of E t i w' ty' s' p' oc' sens' a' auth' src' prov' ret' (or_now ts' now')")
      case (Inr x)
      then have "m_tenant x = m_tenant e" "m_id x = m_id e" using episode_of_ident [OF Inr] id by auto
      then show ?thesis using Inr f2 by (auto simp: record_episode_def require_def)
    qed (simp add: record_episode_def)
  qed
qed

section \<open>Tombstones hide\<close>

lemma hidden_not_visible: "find_tomb db t i = Some r \<Longrightarrow> List.find (is_entry t i) (visible db t) = None"
  by (auto simp: find_None_iff' visible_def is_entry_def)

lemma get_episode_entry:
  assumes "get_episode E clock now t i a allowed as_of ts db = Inr (db', e)"
  shows "\<exists>t' i'. memory_identifier ''tenant_id'' t = Inr t' \<and> memory_identifier ''memory_id'' i = Inr i'
    \<and> List.find (is_entry t' i') (visible db t') = Some e \<and> m_sens e \<in> set (map py_upper allowed)"
  using assms
  by (auto simp: get_episode_def rbind_eq_Inr require_eq_Inr allowed_check_def Let_def split: option.splits)

lemma scan_set: "scan f es = Inr rs \<Longrightarrow> (n, e) \<in> set rs \<longleftrightarrow> e \<in> set es \<and> f e = Inr (Some n)"
  by (induction es arbitrary: rs) (auto simp: rbind_eq_Inr split: option.splits)

lemma rank_of_snd: "traverse (rank_of E) xs = Inr rs \<Longrightarrow> map snd rs = xs"
  by (induction xs arbitrary: rs) (auto simp: rbind_eq_Inr rank_of_def)

text \<open>
  C15. A tombstone hides its episode from then on: no later read returns it and no later query
  of the tenant lists it, whoever asks and whatever is allowed.
\<close>

theorem tombstone_hides:
  assumes "tombstone E now t i a reason auth ts db = Inr (db1, c)" and "mem_steps E db1 db2"
  shows "(\<forall>clock now a allowed as_of ts. \<exists>err. get_episode E clock now t i a allowed as_of ts db2 = Inl err) \<and>
    (\<forall>clock now q a allowed w tys lmt as_of ts db3 rs.
       query E clock now t q a allowed w tys lmt as_of ts db2 = Inr (db3, rs) \<longrightarrow>
         py_strip i \<notin> set (map (m_id \<circ> snd) rs))"
proof -
  obtain x y r where x: "memory_identifier ''tenant_id'' t = Inr x" and y: "memory_identifier ''memory_id'' i = Inr y"
    and r1: "find_tomb db1 x y = Some r"
    using assms(1)
    by (cases rule: tombstone_cases) (auto dest!: audited_simps(2) simp: find_tomb_def find_append split: option.splits)
  have r2: "find_tomb db2 x y = Some r" using extends_tomb [OF mem_steps_extends [OF assms(2)] r1] .
  have yi: "y = py_strip i" using y by (auto simp: memory_identifier_def dest: ident_check_Inr_D)
  show ?thesis
  proof (intro conjI allI impI)
    fix clock now a allowed as_of ts
    show "\<exists>err. get_episode E clock now t i a allowed as_of ts db2 = Inl err"
    proof (cases "get_episode E clock now t i a allowed as_of ts db2")
      case (Inr p)
      then show ?thesis
        using get_episode_entry [of E clock now t i a allowed as_of ts db2 "fst p" "snd p"]
          hidden_not_visible [OF r2] x y by auto
    qed simp
  next
    fix clock now q a allowed w tys lmt as_of ts db3 rs
    assume "query E clock now t q a allowed w tys lmt as_of ts db2 = Inr (db3, rs)"
    then obtain cur world tys' al scored ranked where
      s: "scan (query_row E cur al world tys' (mem_tokens q)) (visible db2 x) = Inr scored"
      and k: "traverse (rank_of E) scored = Inr ranked"
      and rs: "rs = map snd (take (nat lmt) (sort_key fst ranked))"
      by (rule query_cases) (simp add: x)
    have "set rs \<subseteq> snd ` set ranked" unfolding rs by (force dest: in_set_takeD)
    also have "\<dots> = set scored" using rank_of_snd [OF k] by (metis list.set_map)
    finally have "set rs \<subseteq> set scored" .
    then have "\<forall>(n, e) \<in> set rs. m_id e \<noteq> y"
      using scan_set [OF s] r2 by (fastforce simp: visible_def)
    then show "py_strip i \<notin> set (map (m_id \<circ> snd) rs)" using yi by auto
  qed
qed

section \<open>What a query returns\<close>











end
