(* ===== verification/MemoryExamples.thy ===== *)
theory MemoryExamples
  imports MemoryProps OutboxExamples
begin

text \<open>
  The episodic memory on a concrete run: an episode is recorded, queried and tombstoned, and
  each property of the memory is applied to the run.
\<close>

section \<open>A library with one readable timestamp\<close>

definition mem_env :: pyenv where
  "mem_env = demo_env\<lparr>iso_parse := (\<lambda>s. if s = t00 then TsAware 0 else TsBad)\<rparr>"

lemma canonical_mem_env: "canonical_json mem_env j = canonical_json demo_env j"
proof (induction j)
  case (JObj ms)
  then have "canonical_json mem_env (snd p) = canonical_json demo_env (snd p)" if "p \<in> set ms" for p
    using that by (cases p) (auto simp: snds.simps)
  then show ?case by (simp cong: map_cong)
qed (simp_all add: mem_env_def cong: map_cong flt.case_cong)

lemma mem_env_simps [eval_simps]:
  "sha256_json mem_env j = sha256_json demo_env j" "sha256_text mem_env s = sha256_text demo_env s"
  "sha256_hex mem_env s = sha256_hex demo_env s" "iso_parse mem_env s = (if s = t00 then TsAware 0 else TsBad)"
  by (simp_all add: sha256_json_def sha256_text_def canonical_mem_env) (simp_all add: mem_env_def)

lemma zulu_t00 [eval_simps]: "zulu t00 = t00"
  by (simp add: zulu_def)

lemma memory_words [eval_simps]:
  "py_upper ''PUBLIC'' = ''PUBLIC''" "mem_tokens ''pump'' = [''pump'']"
  "mem_tokens (''pump pressure rose OBS {}'') = [''pump'', ''pressure'', ''rose'', ''obs'']"
  by code_simp+

lemmas memory_eval [eval_simps] =
  memory_identifier_def memory_time_def allowed_check_def sensitivities_def find_entry_def is_entry_def
  find_tomb_def is_tomb_def visible_def maudit_of_def maudit_link_def maudit_sha_def append_audit_def
  content_sha_def episode_of_def record_episode_def retention_passed_def as_of_time_def get_episode_def
  tombstone_def init_mdb_def truthy_def opt_str_def query_def query_row_def query_score_def document_def rank_of_def

section \<open>The run\<close>

definition md_entry :: mem_row where
  "md_entry = \<lparr>m_tenant = ''t'', m_id = ''m'', m_world = ''w'', m_type = ''OBS'', m_summary = ''pump pressure rose'',
     m_payload = [], m_occurred = t00, m_sens = ''PUBLIC'', m_retention = None, m_sources = [''e''], m_prov = [],
     m_sha = ''sha256:16'', m_by = ''a'', m_auth = ''k'', m_created = t00\<rparr>"

definition md_audit :: maudit_row where
  "md_audit = \<lparr>ma_tenant = ''t'', ma_action = ''MEMORY_RECORDED'', ma_memory = ''m'', ma_actor = ''a'',
     ma_payload = JObj [(''content_sha256'', JStr ''sha256:16''), (''episode_type'', JStr ''OBS''),
       (''sensitivity'', JStr ''PUBLIC''), (''source_event_ids'', JArr [JStr ''e'']), (''world_id'', JStr ''w'')],
     ma_prev = ''GENESIS'', ma_hash = ''sha256:16'', ma_created = t00\<rparr>"

definition md1 :: mdb where
  "md1 = \<lparr>entries = [md_entry], tombs = [], maudit = [md_audit]\<rparr>"

lemma md_record:
  "record_episode mem_env t00 ''t'' ''m'' ''w'' ''OBS'' ''pump pressure rose'' (JObj []) t00 ''PUBLIC'' ''a'' ''k''
     [''e''] JNull None None init_mdb = Inr (md1, md_entry)"
  by (simp add: eval_simps md1_def md_entry_def md_audit_def cong: world_congs)

lemma md_query:
  "\<exists>db. query mem_env 0 t00 ''t'' ''pump'' ''a'' [''PUBLIC''] None [] 1 None None md1 = Inr (db, [(1, md_entry)])"
  by (simp add: eval_simps md1_def md_entry_def md_audit_def cong: world_congs)


lemma md_tombstone:
  "\<exists>db. tombstone mem_env t00 ''t'' ''m'' ''a'' ''expired'' ''k'' None md1 = Inr (db, t00)"
  by (simp add: eval_simps md1_def md_entry_def md_audit_def cong: world_congs)

section \<open>The properties on the run\<close>

theorem memory_audit_verifies_witness:
  "mem_steps mem_env init_mdb md1 \<and> verify_audit_chain mem_env ''t'' md1 = Inr True"
proof -
  have s: "mem_steps mem_env init_mdb md1"
    by (rule r_into_rtranclp) (rule ms_record [OF md_record])
  have i: "memory_identifier ''tenant_id'' ''t'' = Inr ''t''" by (simp add: eval_simps)
  show ?thesis using memory_audit_verifies [OF s, of "''t''"] s by (simp add: i)
qed

theorem episodes_are_immutable_witness:
  "record_episode mem_env t00 ''t'' ''m'' ''w'' ''OBS'' ''pump pressure rose'' (JObj []) t00 ''PUBLIC'' ''a'' ''k''
     [''e''] JNull None None init_mdb = Inr (md1, md_entry) \<and> find_entry md1 ''t'' ''m'' = Some md_entry"
  using episodes_are_immutable [OF md_record rtranclp.rtrancl_refl] md_record by (simp add: md_entry_def)

theorem tombstone_hides_witness:
  "\<exists>db err. tombstone mem_env t00 ''t'' ''m'' ''a'' ''expired'' ''k'' None md1 = Inr (db, t00)
     \<and> get_episode mem_env 0 t00 ''t'' ''m'' ''a'' [''PUBLIC''] None None db = Inl err"
proof -
  obtain db where d: "tombstone mem_env t00 ''t'' ''m'' ''a'' ''expired'' ''k'' None md1 = Inr (db, t00)"
    using md_tombstone by blast
  show ?thesis using tombstone_hides [OF d rtranclp.rtrancl_refl] d by blast
qed


end
