(* ===== verification/Topo.thy ===== *)
theory Topo
  imports Prelude
begin

text \<open>
  The ordering of a plan's steps (\<open>_topological_order\<close> of \<open>src/src/edon/operations/control.py\<close>):
  repeatedly take the smallest step all of whose dependencies have been taken. The map from a
  step to the dependencies it still waits for is an association list with its keys sorted.
\<close>

type_synonym waiting = "(string \<times> string list) list"

text \<open>One pass over the candidates after \<open>s\<close> was taken: the inner loop.\<close>

fun relax :: "string \<Rightarrow> string list \<Rightarrow> waiting \<Rightarrow> string list \<Rightarrow> waiting \<times> string list" where
  "relax s order [] ready = ([], ready)"
| "relax s order ((c, ds) # w) ready =
     (let ds' = removeAll s ds;
          ready' = (if s \<in> set ds \<and> ds' = [] \<and> c \<notin> set order \<and> c \<notin> set ready then sort (ready @ [c]) else ready);
          (w', r) = relax s order w ready'
      in ((c, ds') # w', r))"

definition waits :: "waiting \<Rightarrow> nat" where
  "waits w = length (filter (\<lambda>p. snd p \<noteq> []) w)"

lemma relax_measure:
  "relax s order w ready = (w', r) \<Longrightarrow> length r + waits w' \<le> length ready + waits w"
proof (induction s order w ready arbitrary: w' r rule: relax.induct)
  case (2 s order c ds w ready)
  let ?ready = "if s \<in> set ds \<and> removeAll s ds = [] \<and> c \<notin> set order \<and> c \<notin> set ready then sort (ready @ [c]) else ready"
  obtain v q where v: "relax s order w ?ready = (v, q)" by (cases "relax s order w ?ready") auto
  have "length q + waits v \<le> length ?ready + waits w"
    using "2.IH" [OF refl refl v] .
  moreover have "removeAll s ds = ds" if "s \<notin> set ds" using that by (rule removeAll_id)
  ultimately show ?case
    using "2.prems" v by (auto simp: waits_def Let_def split: if_splits)
qed simp

function topo_loop :: "waiting \<Rightarrow> string list \<Rightarrow> string list \<Rightarrow> string list" where
  "topo_loop w [] order = order"
| "topo_loop w (s # ready) order =
     (let (w', ready') = relax s (order @ [s]) w ready in topo_loop w' ready' (order @ [s]))"
  by pat_completeness auto
termination
proof (relation "measure (\<lambda>(w, ready, order). length ready + waits w)")
  fix w s ready order x w' ready'
  assume "x = relax s (order @ [s]) w ready" "(w', ready') = x"
  then have "length ready' + waits w' \<le> length ready + waits w"
    using relax_measure [of s "order @ [s]" w ready w' ready'] by simp
  then show "((w', ready', order @ [s]), w, s # ready, order) \<in> measure (\<lambda>(w, ready, order). length ready + waits w)"
    by simp
qed simp

definition topological_order :: "'e \<Rightarrow> (string \<times> string list) list \<Rightarrow> 'e + string list" where
  "topological_order cyclic deps =
     (let w = sort_key fst deps;
          order = topo_loop w (map fst (filter (\<lambda>p. snd p = []) w)) []
      in require (length order = length deps) cyclic (Inr order))"

section \<open>The order is a topological one\<close>

text \<open>
  \<open>before deps order\<close>: every element of the order comes after all its dependencies.
\<close>

definition before :: "(string \<times> string list) list \<Rightarrow> string list \<Rightarrow> bool" where
  "before deps order \<longleftrightarrow> (\<forall>i < length order. \<forall>ds. (order ! i, ds) \<in> set deps \<longrightarrow> set ds \<subseteq> set (take i order))"

text \<open>The state of the loop, for a dependency list with distinct keys.\<close>

definition topo_inv :: "(string \<times> string list) list \<Rightarrow> waiting \<Rightarrow> string list \<Rightarrow> string list \<Rightarrow> bool" where
  "topo_inv deps w ready order \<longleftrightarrow>
     list_all2 (\<lambda>p q. fst p = fst q \<and> set (snd q) = set (snd p) - set order) deps w
     \<and> distinct (order @ ready) \<and> set (order @ ready) \<subseteq> fst ` set deps
     \<and> (\<forall>p \<in> set deps. fst p \<in> set (order @ ready) \<longleftrightarrow> set (snd p) \<subseteq> set order)
     \<and> before deps order"

lemma relax_waiting:
  "relax s order w ready = (w', r) \<Longrightarrow> list_all2 (\<lambda>p q. fst p = fst q \<and> set (snd q) = set (snd p) - {s}) w w'"
  by (induction s order w ready arbitrary: w' r rule: relax.induct) (auto simp: Let_def split: prod.splits)

lemma relax_ready:
  "relax s order w ready = (w', r) \<Longrightarrow> distinct (map fst w) \<Longrightarrow>
     set r = set ready \<union> {c. \<exists>ds. (c, ds) \<in> set w \<and> s \<in> set ds \<and> set ds \<subseteq> {s} \<and> c \<notin> set order}
     \<and> (distinct ready \<longrightarrow> distinct r)"
proof (induction s order w ready arbitrary: w' r rule: relax.induct)
  case (2 s order c ds w ready)
  let ?ready = "if s \<in> set ds \<and> removeAll s ds = [] \<and> c \<notin> set order \<and> c \<notin> set ready then sort (ready @ [c]) else ready"
  obtain v q where v: "relax s order w ?ready = (v, q)" by (cases "relax s order w ?ready") auto
  have r: "r = q" using "2.prems"(1) v by (simp add: Let_def)
  have IH: "set q = set ?ready \<union> {c. \<exists>ds. (c, ds) \<in> set w \<and> s \<in> set ds \<and> set ds \<subseteq> {s} \<and> c \<notin> set order}
     \<and> (distinct ?ready \<longrightarrow> distinct q)"
    using "2.IH" [OF refl refl v] "2.prems"(2) by simp
  have e: "removeAll s ds = [] \<longleftrightarrow> set ds \<subseteq> {s}"
    by (metis Diff_eq_empty_iff set_empty set_removeAll)
  show ?case unfolding r using IH e by (auto split: if_splits)
qed simp

lemma list_all2_pairs:
  assumes "list_all2 P xs ys"
  shows "x \<in> set xs \<Longrightarrow> \<exists>y \<in> set ys. P x y" and "y \<in> set ys \<Longrightarrow> \<exists>x \<in> set xs. P x y"
  using assms by (induction rule: list_all2_induct) auto

lemma waiting_keys:
  "list_all2 (\<lambda>p q. fst p = fst q \<and> R p q) deps w \<Longrightarrow> map fst w = map fst deps"
  by (induction rule: list_all2_induct) auto

lemma before_snoc:
  "before deps order \<Longrightarrow> (\<forall>ds. (s, ds) \<in> set deps \<longrightarrow> set ds \<subseteq> set order) \<Longrightarrow> before deps (order @ [s])"
  unfolding before_def by (auto simp: nth_append less_Suc_eq split: if_splits)

lemma topo_inv_step:
  assumes inv: "topo_inv deps w (s # ready) order" and d: "distinct (map fst deps)"
    and r: "relax s (order @ [s]) w ready = (w', ready')"
  shows "topo_inv deps w' ready' (order @ [s])"
proof -
  let ?P = "\<lambda>o' p q. fst p = fst q \<and> set (snd q) = set (snd p) - set o'"
  have L: "list_all2 (?P order) deps w" and D: "distinct (order @ s # ready)"
    and S: "set (order @ s # ready) \<subseteq> fst ` set deps"
    and I: "\<forall>p \<in> set deps. fst p \<in> set (order @ s # ready) \<longleftrightarrow> set (snd p) \<subseteq> set order" and B: "before deps order"
    using inv by (auto simp: topo_inv_def)
  have L': "list_all2 (?P (order @ [s])) deps w'"
    by (rule list_all2_trans [OF _ L relax_waiting [OF r]]) auto
  have keys: "map fst w = map fst deps" using waiting_keys [OF L] .
  have dw: "distinct (map fst w)" using d keys by simp
  let ?new = "{c. \<exists>ds. (c, ds) \<in> set w \<and> s \<in> set ds \<and> set ds \<subseteq> {s} \<and> c \<notin> set (order @ [s])}"
  have R: "set ready' = set ready \<union> ?new" and DR: "distinct ready'"
    using relax_ready [OF r dw] D by auto
  have new: "?new = {c. \<exists>ds. (c, ds) \<in> set deps \<and> s \<in> set ds \<and> set ds \<subseteq> insert s (set order) \<and> c \<notin> set (order @ [s])}"
  proof -
    have "(\<exists>ds. (c, ds) \<in> set w \<and> s \<in> set ds \<and> set ds \<subseteq> {s}) \<longleftrightarrow>
        (\<exists>ds. (c, ds) \<in> set deps \<and> s \<in> set ds \<and> set ds \<subseteq> insert s (set order))" for c
      using list_all2_pairs [OF L] D by fastforce
    then show ?thesis by blast
  qed
  have key_eq: "ds = es" if "(c, ds) \<in> set deps" "(c, es) \<in> set deps" for c ds es
    using that d by (meson eq_key_imp_eq_value)
  have I': "fst p \<in> set ((order @ [s]) @ ready') \<longleftrightarrow> set (snd p) \<subseteq> set (order @ [s])" if p: "p \<in> set deps" for p
  proof -
    have "fst p \<in> set (order @ s # ready) \<longleftrightarrow> set (snd p) \<subseteq> set order" using I p by blast
    moreover have p': "(fst p, snd p) \<in> set deps" using p by simp
    moreover have "fst p \<in> ?new \<longleftrightarrow> s \<in> set (snd p) \<and> set (snd p) \<subseteq> insert s (set order) \<and> fst p \<notin> set (order @ [s])"
      unfolding new mem_Collect_eq using p' key_eq [of "fst p" "snd p"] by blast
    ultimately show ?thesis using R by auto
  qed
  have disj: "set ready' \<inter> set (order @ [s]) = {}" using R D by auto
  have sub: "set ((order @ [s]) @ ready') \<subseteq> fst ` set deps"
  proof -
    have "?new \<subseteq> fst ` set deps" unfolding new by force
    then show ?thesis using S unfolding set_append R by auto
  qed
  have "\<forall>ds. (s, ds) \<in> set deps \<longrightarrow> set ds \<subseteq> set order"
    using bspec [OF I] by (metis fst_conv in_set_conv_decomp snd_conv)
  then have B': "before deps (order @ [s])" using before_snoc [OF B] by blast
  show ?thesis unfolding topo_inv_def
  proof (intro conjI)
    show "distinct ((order @ [s]) @ ready')" using D DR disj by (simp add: Int_commute)
  qed (use L' sub I' B' in blast)+
qed

lemma topo_inv_loop:
  "topo_inv deps w ready order \<Longrightarrow> distinct (map fst deps) \<Longrightarrow>
     \<exists>w'. topo_inv deps w' [] (topo_loop w ready order)"
proof (induction w ready order rule: topo_loop.induct)
  case (2 w s ready order)
  obtain w' ready' where r: "relax s (order @ [s]) w ready = (w', ready')" by (cases "relax s (order @ [s]) w ready")
  show ?case
    using "2.IH" [OF r [symmetric] refl topo_inv_step [OF "2.prems"(1,2) r] "2.prems"(2)] r by simp
qed auto

lemma topo_inv_init:
  "distinct (map fst deps) \<Longrightarrow> topo_inv deps deps (map fst (filter (\<lambda>p. snd p = []) deps)) []"
  unfolding topo_inv_def before_def
  by (auto simp: list_all2_same distinct_map_filter dest: eq_key_imp_eq_value)

lemma before_set:
  "set deps = set deps' \<Longrightarrow> before deps order = before deps' order"
  by (simp add: before_def)

lemma topo_result:
  assumes "distinct (map fst deps)"
  defines "order \<equiv> topo_loop (sort_key fst deps) (map fst (filter (\<lambda>p. snd p = []) (sort_key fst deps))) []"
  shows "distinct order" "set order \<subseteq> fst ` set deps" "before deps order"
    "\<forall>p \<in> set deps. fst p \<in> set order \<longleftrightarrow> set (snd p) \<subseteq> set order"
proof -
  let ?w = "sort_key fst deps"
  have d: "distinct (map fst ?w)" using assms(1) by (simp add: distinct_map)
  obtain w' where "topo_inv ?w w' [] order"
    using topo_inv_loop [OF topo_inv_init [OF d] d] unfolding order_def by blast
  then show "distinct order" "set order \<subseteq> fst ` set deps" "before deps order"
    "\<forall>p \<in> set deps. fst p \<in> set order \<longleftrightarrow> set (snd p) \<subseteq> set order"
    by (auto simp: topo_inv_def before_set [of ?w deps])
qed

text \<open>A set closed under taking steps whose dependencies it holds contains every topological order.\<close>

lemma closed_contains_order:
  assumes "\<forall>p \<in> set deps. set (snd p) \<subseteq> A \<longrightarrow> fst p \<in> A" "before deps order" "set order \<subseteq> fst ` set deps"
  shows "set order \<subseteq> A"
proof -
  have "set (take i order) \<subseteq> A" if "i \<le> length order" for i
    using that
  proof (induction i)
    case (Suc i)
    then have i: "i < length order" and sub: "set (take i order) \<subseteq> A" by auto
    obtain ds where ds: "(order ! i, ds) \<in> set deps" using assms(3) nth_mem [OF i] by force
    then have "set ds \<subseteq> A" using assms(2) i sub unfolding before_def by blast
    then have "order ! i \<in> A" using assms(1) ds by force
    then show ?case using sub i by (simp add: take_Suc_conv_app_nth)
  qed simp
  from this [of "length order"] show ?thesis by simp
qed

lemma topological_order_cases:
  assumes "distinct (map fst deps)"
  shows "case topological_order cyclic deps of
       Inr order \<Rightarrow> distinct order \<and> set order = set (map fst deps) \<and> before deps order
     | Inl e \<Rightarrow> e = cyclic \<and> (\<nexists>order. distinct order \<and> set order = set (map fst deps) \<and> before deps order)"
proof -
  let ?o = "topo_loop (sort_key fst deps) (map fst (filter (\<lambda>p. snd p = []) (sort_key fst deps))) []"
  note R = topo_result [OF assms]
  have len: "length ?o = length deps \<longleftrightarrow> set ?o = set (map fst deps)"
  proof
    assume "length ?o = length deps"
    then have "card (set ?o) = card (set (map fst deps))"
      using distinct_card [OF R(1)] distinct_card [OF assms] by simp
    moreover have "set ?o \<subseteq> set (map fst deps)" using R(2) by simp
    ultimately show "set ?o = set (map fst deps)" using card_subset_eq [OF finite_set] by blast
  next
    assume "set ?o = set (map fst deps)"
    then show "length ?o = length deps" using distinct_card [OF R(1)] distinct_card [OF assms] by simp
  qed
  have "set order \<subseteq> set ?o" if "set order = set (map fst deps)" "before deps order" for order
    by (rule closed_contains_order [OF _ that(2)]) (use R(4) that(1) in auto)
  then have "set ?o = set (map fst deps)" if "set order = set (map fst deps)" "before deps order" for order
    using R(2) that by auto
  then show ?thesis
    using R len unfolding topological_order_def require_def Let_def by auto
qed

lemma topological_order_Inr:
  "distinct (map fst deps) \<Longrightarrow> topological_order e deps = Inr order \<Longrightarrow>
     distinct order \<and> set order = set (map fst deps) \<and> before deps order"
  using topological_order_cases [of deps e] by simp

text \<open>
  C16. \<open>_topological_order\<close> terminates and decides whether the dependencies of a plan have a
  topological order: when it returns, the result lists each step exactly once and every step
  after all its dependencies, and it reports the cycle exactly when no such order exists.
\<close>

theorem topological_order_decides:
  assumes "distinct (map fst deps)"
  shows "case topological_order cyclic deps of
       Inr order \<Rightarrow> distinct order \<and> set order = set (map fst deps) \<and> before deps order
     | Inl e \<Rightarrow> e = cyclic \<and> (\<nexists>order. distinct order \<and> set order = set (map fst deps) \<and> before deps order)"
  using assms by (rule topological_order_cases)

theorem topological_order_decides_witness:
  "distinct (map fst [(''b'', [''a'']), (''a'', [])]) \<and> topological_order () [(''b'', [''a'']), (''a'', [])] = Inr [''a'', ''b'']
     \<and> before [(''b'', [''a'']), (''a'', [])] [''a'', ''b'']"
proof -
  have e: "topological_order () [(''b'', [''a'']), (''a'', [])] = Inr [''a'', ''b'']" by code_simp
  show ?thesis using topological_order_decides [of "[(''b'', [''a'']), (''a'', [])]" "()"] e by simp
qed

end
