(* ===== verification/ControlTypes.thy ===== *)
theory ControlTypes
  imports WorldProps Topo "HOL-Library.Product_Lexorder"
begin

text \<open>
  The operational state that the institutional control plane
  (\<open>src/src/edon/operations/control.py\<close>) keeps under the key \<open>operations\<close> of a world's state,
  as records; its JSON form; and the changes its operations make, which are mutations of the
  world. Times are numbers of microseconds, written by \<open>isoformat\<close>; a key that the code adds
  to an object only later is an option.
\<close>

section \<open>Records\<close>

record observation =
  ob_id :: string
  ob_modality :: string
  ob_source :: string
  ob_observed :: int
  ob_confidence :: flt
  ob_sha :: string

record agent =
  ag_id :: string
  ag_kind :: string
  ag_caps :: "string list"
  ag_status :: string
  ag_max :: int
  ag_tasks :: "string list"
  ag_rels :: obj
  ag_meta :: obj
  ag_registered :: int

record pool =
  po_id :: string
  po_capacity :: flt
  po_allocated :: flt
  po_unit :: string
  po_renewable :: bool
  po_allocs :: "(string, flt) dict"
  po_registered :: int

record goal =
  go_id :: string
  go_description :: string
  go_status :: string
  go_priority :: int
  go_deadline :: "int option"
  go_deps :: "string list"
  go_parent :: "string option"
  go_owner :: "string option"
  go_criteria :: "string list"
  go_plan :: "string option"
  go_created :: int
  go_updated :: int
  go_reason :: "string option"

record step =
  st_id :: string
  st_action :: string
  st_deps :: "string list"
  st_caps :: "string list"
  st_requests :: "(string, flt) dict"
  st_alloc :: "(string, flt) dict"
  st_earliest :: "int option"
  st_deadline :: "int option"
  st_expected :: "string list"
  st_command :: obj
  st_status :: string
  st_agent :: "string option"
  st_assigned :: "int option"
  st_started :: "int option"
  st_completed :: "int option"
  st_actual :: "string list option"
  st_cancelled :: "string option"

record plan =
  pl_id :: string
  pl_goal :: string
  pl_revision :: int
  pl_status :: string
  pl_start :: int
  pl_end :: "int option"
  pl_supersedes :: "string option"
  pl_order :: "string list"
  pl_steps :: "(string, step) dict"
  pl_created :: int
  pl_updated :: int
  pl_successor :: "string option"
  pl_reason :: "string option"

record outcome =
  oc_id :: string
  oc_plan :: string
  oc_step :: string
  oc_agent :: string
  oc_success :: bool
  oc_reported :: bool
  oc_summary :: string
  oc_payload :: obj
  oc_actual :: "string list"
  oc_missing :: "string list"
  oc_unexpected :: "string list"
  oc_recorded :: int

text \<open>Alerts raised by a failed or cancelled step, and by a monitoring cycle.\<close>

datatype alert =
    ReplanAlert string string string string int
  | MonitorAlert string string string string string int

record learning =
  lc_outcome :: string
  lc_created :: int

record ops =
  op_now :: int
  op_obs :: "observation list"
  op_goals :: "(string, goal) dict"
  op_plans :: "(string, plan) dict"
  op_agents :: "(string, agent) dict"
  op_pools :: "(string, pool) dict"
  op_outcomes :: "(string, outcome) dict"
  op_alerts :: "(string, alert) dict"
  op_learning :: "(string, learning) dict"

definition operational_state :: "int \<Rightarrow> ops" where
  "operational_state t = \<lparr>op_now = t, op_obs = [], op_goals = [], op_plans = [], op_agents = [],
     op_pools = [], op_outcomes = [], op_alerts = [], op_learning = []\<rparr>"

section \<open>Their JSON form\<close>

definition jdict :: "('a \<Rightarrow> json) \<Rightarrow> (string, 'a) dict \<Rightarrow> json" where
  "jdict f d = JObj (map (\<lambda>p. (fst p, f (snd p))) d)"

definition jtime :: "int \<Rightarrow> json" where
  "jtime t = JStr (isoformat t)"

definition jopt :: "('a \<Rightarrow> json) \<Rightarrow> 'a option \<Rightarrow> json" where
  "jopt f x = (case x of None \<Rightarrow> JNull | Some y \<Rightarrow> f y)"

text \<open>A member that is present only when there is a value.\<close>

definition present :: "string \<Rightarrow> ('a \<Rightarrow> json) \<Rightarrow> 'a option \<Rightarrow> (string \<times> json) list" where
  "present k f x = (case x of None \<Rightarrow> [] | Some y \<Rightarrow> [(k, f y)])"

definition enc_observation :: "observation \<Rightarrow> json" where
  "enc_observation x = mk_obj
     [(''observation_id'', JStr (ob_id x)), (''modality'', JStr (ob_modality x)), (''source_id'', JStr (ob_source x)),
      (''observed_at'', jtime (ob_observed x)), (''confidence'', JFloat (ob_confidence x)),
      (''content_sha256'', JStr (ob_sha x))]"

definition enc_agent :: "agent \<Rightarrow> json" where
  "enc_agent a = mk_obj
     [(''agent_id'', JStr (ag_id a)), (''kind'', JStr (ag_kind a)), (''capabilities'', jstrs (ag_caps a)),
      (''status'', JStr (ag_status a)), (''max_concurrent'', JInt (ag_max a)), (''active_tasks'', jstrs (ag_tasks a)),
      (''relationships'', JObj (ag_rels a)), (''metadata'', JObj (ag_meta a)), (''registered_at'', jtime (ag_registered a))]"

definition enc_pool :: "pool \<Rightarrow> json" where
  "enc_pool p = mk_obj
     [(''resource_id'', JStr (po_id p)), (''capacity'', JFloat (po_capacity p)), (''allocated'', JFloat (po_allocated p)),
      (''unit'', JStr (po_unit p)), (''renewable'', JBool (po_renewable p)), (''allocations'', jdict JFloat (po_allocs p)),
      (''registered_at'', jtime (po_registered p))]"

definition enc_goal :: "goal \<Rightarrow> json" where
  "enc_goal g = mk_obj (
     [(''goal_id'', JStr (go_id g)), (''description'', JStr (go_description g)), (''status'', JStr (go_status g)),
      (''priority'', JInt (go_priority g)), (''deadline'', jopt jtime (go_deadline g)), (''dependencies'', jstrs (go_deps g)),
      (''parent_goal_id'', opt_str (go_parent g)), (''owner_id'', opt_str (go_owner g)),
      (''success_criteria'', jstrs (go_criteria g)), (''active_plan_id'', opt_str (go_plan g)),
      (''created_at'', jtime (go_created g)), (''updated_at'', jtime (go_updated g))]
     @ present ''transition_reason'' JStr (go_reason g))"

definition enc_step :: "step \<Rightarrow> json" where
  "enc_step s = mk_obj (
     [(''step_id'', JStr (st_id s)), (''action'', JStr (st_action s)), (''dependencies'', jstrs (st_deps s)),
      (''required_capabilities'', jstrs (st_caps s)), (''resource_requests'', jdict JFloat (st_requests s)),
      (''resource_allocation'', jdict JFloat (st_alloc s)), (''earliest_start'', jopt jtime (st_earliest s)),
      (''deadline'', jopt jtime (st_deadline s)), (''expected_outcomes'', jstrs (st_expected s)),
      (''command'', JObj (st_command s)), (''status'', JStr (st_status s)), (''assigned_agent_id'', opt_str (st_agent s)),
      (''assigned_at'', jopt jtime (st_assigned s)), (''started_at'', jopt jtime (st_started s)),
      (''completed_at'', jopt jtime (st_completed s))]
     @ present ''actual_outcomes'' jstrs (st_actual s) @ present ''cancellation_reason'' JStr (st_cancelled s))"

definition enc_plan :: "plan \<Rightarrow> json" where
  "enc_plan p = mk_obj (
     [(''plan_id'', JStr (pl_id p)), (''goal_id'', JStr (pl_goal p)), (''revision'', JInt (pl_revision p)),
      (''status'', JStr (pl_status p)), (''horizon_start'', jtime (pl_start p)), (''horizon_end'', jopt jtime (pl_end p)),
      (''supersedes'', opt_str (pl_supersedes p)), (''step_order'', jstrs (pl_order p)),
      (''steps'', jdict enc_step (pl_steps p)), (''created_at'', jtime (pl_created p)), (''updated_at'', jtime (pl_updated p))]
     @ present ''superseded_by'' JStr (pl_successor p) @ present ''reason'' JStr (pl_reason p))"

definition enc_outcome :: "outcome \<Rightarrow> json" where
  "enc_outcome x = mk_obj
     [(''outcome_id'', JStr (oc_id x)), (''plan_id'', JStr (oc_plan x)), (''step_id'', JStr (oc_step x)),
      (''agent_id'', JStr (oc_agent x)), (''success'', JBool (oc_success x)), (''reported_success'', JBool (oc_reported x)),
      (''summary'', JStr (oc_summary x)), (''payload'', JObj (oc_payload x)), (''actual_outcomes'', jstrs (oc_actual x)),
      (''missing_expected_outcomes'', jstrs (oc_missing x)), (''unexpected_outcomes'', jstrs (oc_unexpected x)),
      (''recorded_at'', jtime (oc_recorded x))]"

definition enc_alert :: "alert \<Rightarrow> json" where
  "enc_alert a = (case a of
     ReplanAlert i plan_id step_id reason t \<Rightarrow> mk_obj
       [(''alert_id'', JStr i), (''type'', JStr ''REPLAN_REQUIRED''), (''severity'', JStr ''HIGH''),
        (''plan_id'', JStr plan_id), (''step_id'', JStr step_id), (''reason'', JStr reason),
        (''created_at'', jtime t), (''resolved'', JBool False)]
   | MonitorAlert i kind severity subject reason t \<Rightarrow> mk_obj
       [(''alert_id'', JStr i), (''type'', JStr kind), (''severity'', JStr severity), (''subject'', JStr subject),
        (''reason'', JStr reason), (''observed_at'', jtime t), (''resolved'', JBool False)])"

definition enc_learning :: "learning \<Rightarrow> json" where
  "enc_learning l = mk_obj
     [(''candidate_id'', JStr (''learning:'' @ lc_outcome l)), (''outcome_id'', JStr (lc_outcome l)),
      (''mechanism'', JStr ''STEP_OUTCOME''), (''training_eligible'', JBool False),
      (''requires_authorized_review'', JBool True), (''created_at'', jtime (lc_created l))]"

definition enc_fields :: "ops \<Rightarrow> obj" where
  "enc_fields s = dict_of
     [(''schema_version'', JStr ''edon-operational-state.v1''), (''clock'', mk_obj [(''now'', jtime (op_now s))]),
      (''observations'', JArr (map enc_observation (op_obs s))), (''goals'', jdict enc_goal (op_goals s)),
      (''plans'', jdict enc_plan (op_plans s)), (''agents'', jdict enc_agent (op_agents s)),
      (''resource_pools'', jdict enc_pool (op_pools s)), (''outcomes'', jdict enc_outcome (op_outcomes s)),
      (''alerts'', jdict enc_alert (op_alerts s)), (''learning_candidates'', jdict enc_learning (op_learning s))]"

definition enc_ops :: "ops \<Rightarrow> json" where
  "enc_ops s = JObj (enc_fields s)"

section \<open>Changes\<close>

datatype change =
    SetClock int
  | AddObservation observation
  | SetGoal string goal
  | SetPlan string plan
  | SetAgent string agent
  | SetPool string pool
  | SetOutcome string outcome
  | SetAlert string alert
  | SetLearning string learning

text \<open>A change as the mutation the code hands to the world store.\<close>

definition change_mutation :: "change \<Rightarrow> mutation" where
  "change_mutation c = (case c of
     SetClock t \<Rightarrow> SET [''operations'', ''clock'', ''now''] (jtime t)
   | AddObservation x \<Rightarrow> APPEND_UNIQUE [''operations'', ''observations''] (enc_observation x)
   | SetGoal k g \<Rightarrow> SET [''operations'', ''goals'', k] (enc_goal g)
   | SetPlan k p \<Rightarrow> SET [''operations'', ''plans'', k] (enc_plan p)
   | SetAgent k a \<Rightarrow> SET [''operations'', ''agents'', k] (enc_agent a)
   | SetPool k p \<Rightarrow> SET [''operations'', ''resource_pools'', k] (enc_pool p)
   | SetOutcome k x \<Rightarrow> SET [''operations'', ''outcomes'', k] (enc_outcome x)
   | SetAlert k a \<Rightarrow> SET [''operations'', ''alerts'', k] (enc_alert a)
   | SetLearning k l \<Rightarrow> SET [''operations'', ''learning_candidates'', k] (enc_learning l))"

text \<open>The same change on the records.\<close>

definition apply_change :: "change \<Rightarrow> ops \<Rightarrow> ops" where
  "apply_change c s = (case c of
     SetClock t \<Rightarrow> s\<lparr>op_now := t\<rparr>
   | AddObservation x \<Rightarrow> (if jmem (enc_observation x) (map enc_observation (op_obs s)) then s
       else s\<lparr>op_obs := op_obs s @ [x]\<rparr>)
   | SetGoal k g \<Rightarrow> s\<lparr>op_goals := dict_put k g (op_goals s)\<rparr>
   | SetPlan k p \<Rightarrow> s\<lparr>op_plans := dict_put k p (op_plans s)\<rparr>
   | SetAgent k a \<Rightarrow> s\<lparr>op_agents := dict_put k a (op_agents s)\<rparr>
   | SetPool k p \<Rightarrow> s\<lparr>op_pools := dict_put k p (op_pools s)\<rparr>
   | SetOutcome k x \<Rightarrow> s\<lparr>op_outcomes := dict_put k x (op_outcomes s)\<rparr>
   | SetAlert k a \<Rightarrow> s\<lparr>op_alerts := dict_put k a (op_alerts s)\<rparr>
   | SetLearning k l \<Rightarrow> s\<lparr>op_learning := dict_put k l (op_learning s)\<rparr>)"

definition apply_changes :: "change list \<Rightarrow> ops \<Rightarrow> ops" where
  "apply_changes cs s = fold apply_change cs s"

lemma apply_changes_simps [simp]:
  "apply_changes [] s = s" "apply_changes (c # cs) s = apply_changes cs (apply_change c s)"
  "apply_changes (cs @ ds) s = apply_changes ds (apply_changes cs s)"
  by (simp_all add: apply_changes_def)

section \<open>The changes refine the mutations\<close>

lemma enc_fields_get:
  "dict_get (enc_fields s) ''clock'' = Some (JObj [(''now'', jtime (op_now s))])"
  "dict_get (enc_fields s) ''observations'' = Some (JArr (map enc_observation (op_obs s)))"
  "dict_get (enc_fields s) ''goals'' = Some (jdict enc_goal (op_goals s))"
  "dict_get (enc_fields s) ''plans'' = Some (jdict enc_plan (op_plans s))"
  "dict_get (enc_fields s) ''agents'' = Some (jdict enc_agent (op_agents s))"
  "dict_get (enc_fields s) ''resource_pools'' = Some (jdict enc_pool (op_pools s))"
  "dict_get (enc_fields s) ''outcomes'' = Some (jdict enc_outcome (op_outcomes s))"
  "dict_get (enc_fields s) ''alerts'' = Some (jdict enc_alert (op_alerts s))"
  "dict_get (enc_fields s) ''learning_candidates'' = Some (jdict enc_learning (op_learning s))"
  by (simp_all add: enc_fields_def dict_of_def mk_obj_def)

lemma dict_ok_enc_fields [simp]: "dict_ok (enc_fields s)"
  by (simp add: enc_fields_def)

text \<open>One field of the state written over: the other fields stay.\<close>

lemma enc_fields_put:
  "dict_put ''clock'' (JObj [(''now'', jtime t)]) (enc_fields s) = enc_fields (s\<lparr>op_now := t\<rparr>)"
  "dict_put ''observations'' (JArr (map enc_observation xs)) (enc_fields s) = enc_fields (s\<lparr>op_obs := xs\<rparr>)"
  "dict_put ''goals'' (jdict enc_goal gs) (enc_fields s) = enc_fields (s\<lparr>op_goals := gs\<rparr>)"
  "dict_put ''plans'' (jdict enc_plan ps) (enc_fields s) = enc_fields (s\<lparr>op_plans := ps\<rparr>)"
  "dict_put ''agents'' (jdict enc_agent as) (enc_fields s) = enc_fields (s\<lparr>op_agents := as\<rparr>)"
  "dict_put ''resource_pools'' (jdict enc_pool rs) (enc_fields s) = enc_fields (s\<lparr>op_pools := rs\<rparr>)"
  "dict_put ''outcomes'' (jdict enc_outcome os) (enc_fields s) = enc_fields (s\<lparr>op_outcomes := os\<rparr>)"
  "dict_put ''alerts'' (jdict enc_alert ls) (enc_fields s) = enc_fields (s\<lparr>op_alerts := ls\<rparr>)"
  "dict_put ''learning_candidates'' (jdict enc_learning cs) (enc_fields s) = enc_fields (s\<lparr>op_learning := cs\<rparr>)"
  by (simp_all add: enc_fields_def dict_of_def mk_obj_def)

lemma jdict_put: "map (\<lambda>p. (fst p, f (snd p))) (dict_put k x d) = dict_put k (f x) (map (\<lambda>p. (fst p, f (snd p))) d)"
  by (induction k x d rule: dict_put.induct) auto

lemma set_dict_field:
  assumes "dict_get st ''operations'' = Some (enc_ops s)" and "dict_get (enc_fields s) k = Some (jdict f d)"
  shows "apply_mutation (SET [''operations'', k, l] (f x)) st =
    Inr (dict_put ''operations'' (JObj (dict_put k (jdict f (dict_put l x d)) (enc_fields s))) st)"
  using assms by (simp add: apply_mutation_def enc_ops_def jdict_def jdict_put)

lemma apply_change_mutation:
  assumes o: "dict_get st ''operations'' = Some (enc_ops s)" and ok: "dict_ok st"
  shows "apply_mutation (change_mutation c) st = Inr (dict_put ''operations'' (enc_ops (apply_change c s)) st)"
proof (cases c)
  case (SetClock t)
  have "dict_get st ''operations'' = Some (JObj (enc_fields s))" using o by (simp add: enc_ops_def)
  then show ?thesis
    by (simp add: SetClock change_mutation_def apply_mutation_def apply_change_def enc_fields_get enc_ops_def
        enc_fields_put)
next
  case (AddObservation x)
  have "dict_get st ''operations'' = Some (JObj (enc_fields s))" using o by (simp add: enc_ops_def)
  then show ?thesis
    using sdict.put_same [OF dict_ok_enc_fields enc_fields_get(2)] sdict.put_same [OF ok o]
      enc_fields_put(2) [of "op_obs s @ [x]" s]
    by (simp add: AddObservation change_mutation_def apply_mutation_def apply_change_def enc_fields_get enc_ops_def)
qed (simp_all add: change_mutation_def apply_change_def enc_ops_def enc_fields_put
    set_dict_field [OF o enc_fields_get(3)] set_dict_field [OF o enc_fields_get(4)]
    set_dict_field [OF o enc_fields_get(5)] set_dict_field [OF o enc_fields_get(6)]
    set_dict_field [OF o enc_fields_get(7)] set_dict_field [OF o enc_fields_get(8)]
    set_dict_field [OF o enc_fields_get(9)])

text \<open>A list of changes and its mutations commute with the encoding.\<close>

lemma apply_changes_mutations:
  "dict_get st ''operations'' = Some (enc_ops s) \<Longrightarrow> dict_ok st \<Longrightarrow>
     rfold apply_mutation (map change_mutation cs) st =
       Inr (if cs = [] then st else dict_put ''operations'' (enc_ops (apply_changes cs s)) st)"
proof (induction cs arbitrary: st s)
  case (Cons c cs)
  let ?st = "dict_put ''operations'' (enc_ops (apply_change c s)) st"
  have "rfold apply_mutation (map change_mutation cs) ?st =
      Inr (if cs = [] then ?st else dict_put ''operations'' (enc_ops (apply_changes cs (apply_change c s))) ?st)"
    by (rule Cons.IH) (use Cons.prems(2) in auto)
  then show ?case
    using Cons.prems by (simp add: apply_change_mutation sdict.put_put)
qed simp

end
