(* ===== verification/ControlOps.thy ===== *)
theory ControlOps
  imports ControlTypes Memory
begin

text \<open>
  The operations of the institutional control plane (\<open>src/src/edon/operations/control.py\<close>,
  class \<open>InstitutionalControlPlane\<close>): each checks a request against the operational state and
  proposes a world event, whose mutations are the changes of a proposal. The order of the checks
  is that of the code.
\<close>

section \<open>Errors and checks\<close>

text \<open>An \<open>OperationsError\<close> with its message, the language's own errors, and those of the two stores.\<close>

datatype ops_error =
    OpsError string
  | OpsTypeError
  | OpsOverflow
  | OpsKeyError string
  | OpsMemory memory_error
  | OpsWorld world_error

definition goal_statuses :: "string list" where
  "goal_statuses = [''PROPOSED'', ''ACTIVE'', ''PAUSED'', ''BLOCKED'', ''COMPLETED'', ''FAILED'', ''CANCELLED'']"

definition agent_statuses :: "string list" where
  "agent_statuses = [''AVAILABLE'', ''BUSY'', ''DEGRADED'', ''OFFLINE'', ''RETIRED'']"

definition agent_kinds :: "string list" where
  "agent_kinds = [''HUMAN'', ''SOFTWARE'', ''ROBOT'', ''SERVICE'']"

definition observation_modalities :: "string list" where
  "observation_modalities = [''TEXT'', ''IMAGE'', ''AUDIO'', ''VIDEO'', ''SENSOR'', ''TELEMETRY'',
     ''DOCUMENT'', ''HUMAN_REPORT'', ''SYSTEM_EVENT'']"

definition goal_transitions :: "(string \<times> string list) list" where
  "goal_transitions =
     [(''PROPOSED'', [''ACTIVE'', ''CANCELLED'']),
      (''ACTIVE'', [''PAUSED'', ''BLOCKED'', ''COMPLETED'', ''FAILED'', ''CANCELLED'']),
      (''PAUSED'', [''ACTIVE'', ''CANCELLED'']),
      (''BLOCKED'', [''ACTIVE'', ''FAILED'', ''CANCELLED'']),
      (''COMPLETED'', []), (''FAILED'', []), (''CANCELLED'', [])]"

definition ops_identifier :: "string \<Rightarrow> string \<Rightarrow> ops_error + string" where
  "ops_identifier label s = ident_check 200 (OpsError (label @ '' must contain between 1 and 200 characters'')) s"

definition ops_time :: "pyenv \<Rightarrow> string \<Rightarrow> string \<Rightarrow> ops_error + int" where
  "ops_time E label s = (case iso_parse E (zulu s) of
     TsBad \<Rightarrow> Inl (OpsError (label @ '' must be an ISO-8601 timestamp''))
   | TsNaive \<Rightarrow> Inl (OpsError (label @ '' must include a timezone''))
   | TsOverflow \<Rightarrow> Inl OpsOverflow
   | TsAware t \<Rightarrow> Inr t)"

text \<open>A time that may be absent: \<open>_timestamp(x) if x else None\<close>.\<close>

definition opt_time :: "pyenv \<Rightarrow> string \<Rightarrow> string option \<Rightarrow> ops_error + int option" where
  "opt_time E label s = (case s of None \<Rightarrow> Inr None
     | Some t \<Rightarrow> if t = [] then Inr None else rbind (ops_time E label t) (\<lambda>u. Inr (Some u)))"

definition ops_json_object :: "string \<Rightarrow> json \<Rightarrow> ops_error + obj" where
  "ops_json_object label v = (case v of
     JObj m \<Rightarrow> require (obj_finite m) (OpsError (label @ '' must contain finite JSON values'')) (Inr m)
   | _ \<Rightarrow> Inl (OpsError (label @ '' must be a JSON object'')))"

text \<open>The minimum with its text in the message.\<close>

definition number :: "string \<Rightarrow> flt \<times> string \<Rightarrow> json \<Rightarrow> ops_error + flt" where
  "number label minimum v =
     rbind (case v of
         JInt i \<Rightarrow> (case float_of_int i of None \<Rightarrow> Inl OpsOverflow | Some x \<Rightarrow> Inr x)
       | JFloat x \<Rightarrow> Inr x
       | _ \<Rightarrow> Inl (OpsError (label @ '' must be numeric''))) (\<lambda>x.
       require (flt_finite x \<and> \<not> flt_less x (fst minimum))
         (OpsError (label @ '' must be finite and at least '' @ snd minimum)) (Inr x))"

definition no_minimum :: "flt \<times> string" where
  "no_minimum = (Fin 0, ''0.0'')"

definition request_minimum :: "flt \<times> string" where
  "request_minimum = (rnd (1 / 1000000), ''1e-06'')"

definition string_set :: "string \<Rightarrow> string list \<Rightarrow> ops_error + string list" where
  "string_set label values = rbind (traverse (ops_identifier label) values) (\<lambda>xs. Inr (sorted_set xs))"

text \<open>The texts of what iterating over a JSON value yields.\<close>

definition json_items :: "pyenv \<Rightarrow> json \<Rightarrow> ops_error + string list" where
  "json_items E v = (case v of
     JArr xs \<Rightarrow> Inr (map (py_str E) xs)
   | JStr s \<Rightarrow> Inr (map (\<lambda>c. [c]) s)
   | JObj m \<Rightarrow> Inr (map fst m)
   | _ \<Rightarrow> Inl OpsTypeError)"

definition get_or :: "obj \<Rightarrow> string \<Rightarrow> json \<Rightarrow> json" where
  "get_or m k d = (case dict_get m k of None \<Rightarrow> d | Some v \<Rightarrow> v)"

text \<open>The text of an identifier in a condition: absent and empty are false.\<close>

definition given :: "string option \<Rightarrow> string option" where
  "given s = (case s of None \<Rightarrow> None | Some t \<Rightarrow> if t = [] then None else Some t)"

definition missing_from :: "(string, 'a) dict \<Rightarrow> string list \<Rightarrow> string list" where
  "missing_from d xs = filter (\<lambda>x. dict_get d x = None) xs"

text \<open>A lookup that must find its key, with the message or the error of the code.\<close>

definition lookup :: "'e \<Rightarrow> (string, 'a) dict \<Rightarrow> string \<Rightarrow> 'e + 'a" where
  "lookup e d k = (case dict_get d k of None \<Rightarrow> Inl e | Some x \<Rightarrow> Inr x)"

section \<open>Proposals\<close>

record proposal =
  pr_type :: string
  pr_at :: int
  pr_changes :: "change list"

definition propose :: "string \<Rightarrow> int \<Rightarrow> change list \<Rightarrow> proposal" where
  "propose ty t cs = \<lparr>pr_type = ty, pr_at = t, pr_changes = cs @ [SetClock t]\<rparr>"

section \<open>Agents and resources\<close>

definition register_agent :: "pyenv \<Rightarrow> string \<Rightarrow> string \<Rightarrow> string \<Rightarrow> string list \<Rightarrow> int \<Rightarrow> json \<Rightarrow> json
    \<Rightarrow> string option \<Rightarrow> ops \<Rightarrow> ops_error + proposal" where
  "register_agent E now agent_id kind capabilities max_concurrent relationships metadata timestamp s =
     rbind (ops_identifier ''agent_id'' agent_id) (\<lambda>agent_id.
     require (dict_get (op_agents s) agent_id = None) (OpsError ''agent is already registered'') (
     require (py_upper kind \<in> set agent_kinds) (OpsError (''unsupported agent kind: '' @ py_upper kind)) (
     require (1 \<le> max_concurrent \<and> max_concurrent \<le> 1000) (OpsError ''max_concurrent must be between 1 and 1000'') (
     rbind (ops_time E ''timestamp'' (or_now timestamp now)) (\<lambda>t.
     rbind (string_set ''capability'' capabilities) (\<lambda>caps.
     rbind (ops_json_object ''relationships'' (if truthy relationships then relationships else JObj [])) (\<lambda>rels.
     rbind (ops_json_object ''metadata'' (if truthy metadata then metadata else JObj [])) (\<lambda>meta.
       Inr (propose ''AGENT_REGISTERED'' t [SetAgent agent_id
         \<lparr>ag_id = agent_id, ag_kind = py_upper kind, ag_caps = caps, ag_status = ''AVAILABLE'',
           ag_max = max_concurrent, ag_tasks = [], ag_rels = rels, ag_meta = meta, ag_registered = t\<rparr>])))))))))"

definition set_agent_status :: "pyenv \<Rightarrow> string \<Rightarrow> string \<Rightarrow> string \<Rightarrow> string option \<Rightarrow> ops \<Rightarrow> ops_error + proposal" where
  "set_agent_status E now agent_id status timestamp s =
     rbind (ops_identifier ''agent_id'' agent_id) (\<lambda>agent_id.
     rbind (lookup (OpsError ''agent is not registered'') (op_agents s) agent_id) (\<lambda>agent.
     require (py_upper status \<in> set agent_statuses) (OpsError (''unsupported agent status: '' @ py_upper status)) (
     require (\<not> (py_upper status = ''RETIRED'' \<and> ag_tasks agent \<noteq> []))
       (OpsError ''agent with active tasks cannot be retired'') (
     rbind (ops_time E ''timestamp'' (or_now timestamp now)) (\<lambda>t.
       Inr (propose ''AGENT_STATUS_CHANGED'' t [SetAgent agent_id (agent\<lparr>ag_status := py_upper status\<rparr>)]))))))"

definition register_resource_pool :: "pyenv \<Rightarrow> string \<Rightarrow> string \<Rightarrow> json \<Rightarrow> string \<Rightarrow> bool \<Rightarrow> string option \<Rightarrow> ops
    \<Rightarrow> ops_error + proposal" where
  "register_resource_pool E now resource_id capacity unit renewable timestamp s =
     rbind (ops_identifier ''resource_id'' resource_id) (\<lambda>resource_id.
     require (dict_get (op_pools s) resource_id = None) (OpsError ''resource pool is already registered'') (
     rbind (ops_time E ''timestamp'' (or_now timestamp now)) (\<lambda>t.
     rbind (number ''capacity'' no_minimum capacity) (\<lambda>capacity.
     rbind (ops_identifier ''unit'' unit) (\<lambda>unit.
       Inr (propose ''RESOURCE_POOL_REGISTERED'' t [SetPool resource_id
         \<lparr>po_id = resource_id, po_capacity = capacity, po_allocated = Fin 0, po_unit = unit,
           po_renewable = renewable, po_allocs = [], po_registered = t\<rparr>]))))))"

section \<open>Goals\<close>

definition goal_complete :: "ops \<Rightarrow> string \<Rightarrow> bool" where
  "goal_complete s d = (case dict_get (op_goals s) d of None \<Rightarrow> False | Some g \<Rightarrow> go_status g = ''COMPLETED'')"

definition create_goal :: "pyenv \<Rightarrow> string \<Rightarrow> string \<Rightarrow> string \<Rightarrow> int \<Rightarrow> string option \<Rightarrow> string list \<Rightarrow> string option
    \<Rightarrow> string option \<Rightarrow> string list \<Rightarrow> bool \<Rightarrow> string option \<Rightarrow> ops \<Rightarrow> ops_error + proposal" where
  "create_goal E now goal_id description priority deadline dependencies parent_goal_id owner_id
     success_criteria activate timestamp s =
     rbind (ops_identifier ''goal_id'' goal_id) (\<lambda>goal_id.
     require (dict_get (op_goals s) goal_id = None) (OpsError ''goal is already registered'') (
     let description = py_strip description in
     require (10 \<le> length description \<and> length description \<le> 10000)
       (OpsError ''goal description must contain between 10 and 10000 characters'') (
     require (0 \<le> priority \<and> priority \<le> 100) (OpsError ''goal priority must be between 0 and 100'') (
     rbind (string_set ''goal dependency'' dependencies) (\<lambda>deps.
     require (missing_from (op_goals s) deps = [])
       (OpsError (''goal dependencies are not registered: '' @ join '', '' (missing_from (op_goals s) deps))) (
     require (\<not> (activate \<and> list_ex (\<lambda>d. \<not> goal_complete s d) deps))
       (OpsError ''active goal dependencies are not complete'') (
     rbind (case given parent_goal_id of None \<Rightarrow> Inr None
            | Some p \<Rightarrow> rbind (ops_identifier ''parent_goal_id'' p) (\<lambda>p. Inr (Some p))) (\<lambda>parent.
     require (case parent of None \<Rightarrow> True | Some p \<Rightarrow> dict_get (op_goals s) p \<noteq> None)
       (OpsError ''parent goal is not registered'') (
     rbind (case given owner_id of None \<Rightarrow> Inr None
            | Some a \<Rightarrow> rbind (ops_identifier ''owner_id'' a) (\<lambda>a. Inr (Some a))) (\<lambda>owner.
     require (case owner of None \<Rightarrow> True | Some a \<Rightarrow> dict_get (op_agents s) a \<noteq> None)
       (OpsError ''goal owner is not a registered agent'') (
     rbind (ops_time E ''timestamp'' (or_now timestamp now)) (\<lambda>t.
     rbind (opt_time E ''deadline'' deadline) (\<lambda>deadline.
     rbind (string_set ''success criterion'' success_criteria) (\<lambda>criteria.
       Inr (propose ''GOAL_CREATED'' t [SetGoal goal_id
         \<lparr>go_id = goal_id, go_description = description, go_status = (if activate then ''ACTIVE'' else ''PROPOSED''),
           go_priority = priority, go_deadline = deadline, go_deps = deps, go_parent = parent, go_owner = owner,
           go_criteria = criteria, go_plan = None, go_created = t, go_updated = t, go_reason = None\<rparr>])))))))))))))))"

definition transition_goal :: "pyenv \<Rightarrow> string \<Rightarrow> string \<Rightarrow> string \<Rightarrow> string \<Rightarrow> string option \<Rightarrow> ops
    \<Rightarrow> ops_error + proposal" where
  "transition_goal E now goal_id status reason timestamp s =
     rbind (ops_identifier ''goal_id'' goal_id) (\<lambda>goal_id.
     rbind (lookup (OpsError ''goal is not registered'') (op_goals s) goal_id) (\<lambda>goal.
     let status = py_upper status;
         bad = OpsError (''invalid goal transition: '' @ go_status goal @ '' -> '' @ status) in
     require (status \<in> set goal_statuses) bad (
     rbind (lookup (OpsKeyError (go_status goal)) goal_transitions (go_status goal)) (\<lambda>allowed.
     require (status \<in> set allowed) bad (
     let reason = py_strip reason in
     require (5 \<le> length reason) (OpsError ''goal transition reason must be explicit'') (
     require (status = ''ACTIVE'' \<longrightarrow> list_all (goal_complete s) (go_deps goal))
       (OpsError ''goal dependencies are not complete'') (
     rbind (ops_time E ''timestamp'' (or_now timestamp now)) (\<lambda>t.
       Inr (propose ''GOAL_STATUS_CHANGED'' t
         [SetGoal goal_id (goal\<lparr>go_status := status, go_updated := t, go_reason := Some reason\<rparr>)])))))))))"

section \<open>Plans\<close>

definition json_time :: "pyenv \<Rightarrow> string \<Rightarrow> obj \<Rightarrow> string \<Rightarrow> ops_error + int option" where
  "json_time E label m k = (if truthy (get_or m k JNull)
     then rbind (ops_time E label (py_str E (get_or m k JNull))) (\<lambda>t. Inr (Some t)) else Inr None)"

definition json_set :: "pyenv \<Rightarrow> string \<Rightarrow> json \<Rightarrow> ops_error + string list" where
  "json_set E label v = rbind (json_items E v) (string_set label)"

definition step_requests :: "json \<Rightarrow> ops_error + (string, flt) dict" where
  "step_requests v =
     rbind (ops_json_object ''resource_requests'' v) (\<lambda>m.
       rfold (\<lambda>(k, amount) acc.
         rbind (ops_identifier ''resource_id'' k) (\<lambda>r.
         rbind (number ''resource request'' request_minimum amount) (\<lambda>x. Inr (dict_put r x acc)))) m [])"

text \<open>One raw step, the \<open>index\<close>-th, with the steps before it in their order.\<close>

definition normalize_step :: "pyenv \<Rightarrow> nat \<Rightarrow> json \<Rightarrow> (string \<times> step) list \<Rightarrow> ops_error + (string \<times> step) list" where
  "normalize_step E index raw steps = (case raw of
     JObj m \<Rightarrow>
       rbind (ops_identifier ''step_id'' (py_str E (get_or m ''step_id'' (JStr [])))) (\<lambda>step_id.
       require (dict_get steps step_id = None) (OpsError (''duplicate plan step: '' @ step_id)) (
       let action = py_strip (py_str E (get_or m ''action'' (JStr []))) in
       require (3 \<le> length action \<and> length action \<le> 10000)
         (OpsError ''step action must contain between 3 and 10000 characters'') (
       rbind (step_requests (get_or m ''resource_requests'' (JObj []))) (\<lambda>requests.
       rbind (ops_json_object ''command'' (get_or m ''command'' (JObj []))) (\<lambda>command.
       rbind (json_set E ''step dependency'' (get_or m ''dependencies'' (JArr []))) (\<lambda>deps.
       rbind (json_set E ''required capability'' (get_or m ''required_capabilities'' (JArr []))) (\<lambda>caps.
       rbind (json_time E ''earliest_start'' m ''earliest_start'') (\<lambda>earliest.
       rbind (json_time E ''step deadline'' m ''deadline'') (\<lambda>deadline.
       rbind (json_set E ''expected outcome'' (get_or m ''expected_outcomes'' (JArr []))) (\<lambda>expected.
         Inr (steps @ [(step_id,
           \<lparr>st_id = step_id, st_action = action, st_deps = deps, st_caps = caps, st_requests = requests,
             st_alloc = [], st_earliest = earliest, st_deadline = deadline, st_expected = expected,
             st_command = (if command = [] then [] else dict_put ''binding_authority'' (JBool False) command),
             st_status = ''PENDING'', st_agent = None, st_assigned = None, st_started = None,
             st_completed = None, st_actual = None, st_cancelled = None\<rparr>)])))))))))))
   | _ \<Rightarrow> Inl (OpsError (''plan step '' @ int_text (int index) @ '' must be an object'')))"

definition check_dependencies :: "(string \<times> step) list \<Rightarrow> string \<times> step \<Rightarrow> ops_error + unit" where
  "check_dependencies steps p =
     require (missing_from steps (st_deps (snd p)) = [])
       (OpsError (''step dependencies are not in the plan: '' @ join '', '' (missing_from steps (st_deps (snd p))))) (
     require (st_id (snd p) \<notin> set (st_deps (snd p))) (OpsError ''a plan step cannot depend on itself'') (Inr ()))"

definition normalize_steps :: "pyenv \<Rightarrow> json list \<Rightarrow> ops_error + ((string \<times> step) list \<times> string list)" where
  "normalize_steps E raw_steps =
     rbind (rfold (\<lambda>(index, raw). normalize_step E index raw) (List.enumerate 0 raw_steps) []) (\<lambda>steps.
     require (steps \<noteq> []) (OpsError ''a plan must contain at least one step'') (
     rbind (traverse (check_dependencies steps) steps) (\<lambda>_.
     rbind (topological_order (OpsError ''plan step dependencies contain a cycle'')
         (map (\<lambda>p. (fst p, st_deps (snd p))) steps)) (\<lambda>order.
       Inr (steps, order)))))"

definition check_horizon :: "int \<Rightarrow> int option \<Rightarrow> step \<Rightarrow> ops_error + unit" where
  "check_horizon start finish st =
     require (case st_earliest st of None \<Rightarrow> True | Some t \<Rightarrow> \<not> t < start)
       (OpsError ''step earliest_start precedes the plan horizon'') (
     require (case (finish, st_deadline st) of (Some f, Some d) \<Rightarrow> \<not> f < d | _ \<Rightarrow> True)
       (OpsError ''step deadline exceeds the plan horizon'') (Inr ()))"

definition build_plan :: "pyenv \<Rightarrow> ops \<Rightarrow> string \<Rightarrow> string \<Rightarrow> json list \<Rightarrow> string \<Rightarrow> string option \<Rightarrow> int
    \<Rightarrow> string option \<Rightarrow> ops_error + plan" where
  "build_plan E s plan_id goal_id raw_steps horizon_start horizon_end created_at supersedes =
     rbind (ops_identifier ''plan_id'' plan_id) (\<lambda>plan_id.
     require (dict_get (op_plans s) plan_id = None) (OpsError ''plan is already registered'') (
     rbind (ops_identifier ''goal_id'' goal_id) (\<lambda>goal_id.
     rbind (lookup (OpsError ''plan goal is not registered'') (op_goals s) goal_id) (\<lambda>goal.
     require (go_status goal \<in> {''ACTIVE'', ''BLOCKED''}) (OpsError ''plan goal must be active or blocked'') (
     rbind (ops_time E ''horizon_start'' horizon_start) (\<lambda>start.
     rbind (opt_time E ''horizon_end'' horizon_end) (\<lambda>finish.
     require (case finish of None \<Rightarrow> True | Some f \<Rightarrow> \<not> f \<le> start)
       (OpsError ''horizon_end must be after horizon_start'') (
     rbind (normalize_steps E raw_steps) (\<lambda>(steps, order).
     rbind (traverse (\<lambda>p. check_horizon start finish (snd p)) steps) (\<lambda>_.
     rbind (case given supersedes of None \<Rightarrow> Inr 1
            | Some old \<Rightarrow>
                rbind (lookup (OpsError ''superseded plan is not registered'') (op_plans s) old) (\<lambda>previous.
                require (pl_goal previous = goal_id) (OpsError ''a replacement plan must serve the same goal'')
                  (Inr (pl_revision previous + 1)))) (\<lambda>revision.
       Inr \<lparr>pl_id = plan_id, pl_goal = goal_id, pl_revision = revision, pl_status = ''ACTIVE'', pl_start = start,
         pl_end = finish, pl_supersedes = supersedes, pl_order = order, pl_steps = dict_of steps,
         pl_created = created_at, pl_updated = created_at, pl_successor = None, pl_reason = None\<rparr>)))))))))))"

definition create_plan :: "pyenv \<Rightarrow> string \<Rightarrow> string \<Rightarrow> string \<Rightarrow> json list \<Rightarrow> string \<Rightarrow> string option
    \<Rightarrow> string option \<Rightarrow> ops \<Rightarrow> ops_error + proposal" where
  "create_plan E now plan_id goal_id steps horizon_start horizon_end timestamp s =
     rbind (ops_time E ''timestamp'' (or_now timestamp now)) (\<lambda>t.
     rbind (build_plan E s plan_id goal_id steps horizon_start horizon_end t None) (\<lambda>plan.
     rbind (lookup (OpsKeyError (pl_goal plan)) (op_goals s) (pl_goal plan)) (\<lambda>goal.
       Inr (propose ''PLAN_CREATED'' t
         [SetPlan (pl_id plan) plan,
          SetGoal (pl_goal plan) (goal\<lparr>go_plan := Some (pl_id plan), go_status := ''ACTIVE'', go_updated := t\<rparr>)]))))"

definition replan :: "pyenv \<Rightarrow> string \<Rightarrow> string \<Rightarrow> string \<Rightarrow> json list \<Rightarrow> string \<Rightarrow> string option \<Rightarrow> string
    \<Rightarrow> string option \<Rightarrow> ops \<Rightarrow> ops_error + proposal" where
  "replan E now old_plan_id new_plan_id steps horizon_start horizon_end reason timestamp s =
     rbind (ops_identifier ''old_plan_id'' old_plan_id) (\<lambda>old_plan_id.
     rbind (lookup (OpsError ''old plan is not registered'') (op_plans s) old_plan_id) (\<lambda>old.
     require (pl_status old \<in> {''ACTIVE'', ''PAUSED'', ''NEEDS_REPLAN''})
       (OpsError ''old plan cannot be superseded from its current status'') (
     require (\<not> list_ex (\<lambda>p. st_status (snd p) \<in> {''ASSIGNED'', ''RUNNING''}) (pl_steps old))
       (OpsError ''active tasks must be resolved before replanning'') (
     let reason = py_strip reason in
     require (5 \<le> length reason) (OpsError ''replan reason must be explicit'') (
     rbind (ops_time E ''timestamp'' (or_now timestamp now)) (\<lambda>t.
     rbind (build_plan E s new_plan_id (pl_goal old) steps horizon_start horizon_end t (Some old_plan_id)) (\<lambda>new.
     rbind (lookup (OpsKeyError (pl_goal old)) (op_goals s) (pl_goal old)) (\<lambda>goal.
       Inr (propose ''PLAN_REPLACED'' t
         [SetPlan old_plan_id (old\<lparr>pl_status := ''SUPERSEDED'', pl_updated := t, pl_successor := Some (pl_id new),
            pl_reason := Some reason\<rparr>),
          SetPlan (pl_id new) new,
          SetGoal (pl_goal old) (goal\<lparr>go_plan := Some (pl_id new), go_status := ''ACTIVE'', go_updated := t\<rparr>)])))))))))"

section \<open>Ready steps\<close>

text \<open>\<open>any(... != "SUCCEEDED" for ...)\<close>: the first unfinished dependency decides.\<close>

fun deps_done :: "(string, step) dict \<Rightarrow> string list \<Rightarrow> ops_error + bool" where
  "deps_done steps [] = Inr True"
| "deps_done steps (d # ds) = rbind (lookup (OpsKeyError d) steps d)
     (\<lambda>st. if st_status st \<noteq> ''SUCCEEDED'' then Inr False else deps_done steps ds)"

record ready =
  rd_plan :: string
  rd_goal :: string
  rd_step :: step
  rd_priority :: int

type_synonym ready_key = "int \<times> string \<times> nat \<times> string"

definition ready_deadline :: "step \<Rightarrow> goal \<Rightarrow> string" where
  "ready_deadline st goal = (case st_deadline st of Some t \<Rightarrow> isoformat t
     | None \<Rightarrow> (case go_deadline goal of Some t \<Rightarrow> isoformat t | None \<Rightarrow> ''9999-12-31T23:59:59+00:00''))"

definition ready_step :: "int \<Rightarrow> string \<Rightarrow> plan \<Rightarrow> goal \<Rightarrow> nat \<times> string \<Rightarrow> ops_error + (ready_key \<times> ready) list" where
  "ready_step current plan_id plan goal p =
     rbind (lookup (OpsKeyError (snd p)) (pl_steps plan) (snd p)) (\<lambda>st.
       if st_status st \<noteq> ''PENDING'' then Inr []
       else rbind (deps_done (pl_steps plan) (st_deps st)) (\<lambda>finished.
         if \<not> finished then Inr []
         else if (case st_earliest st of None \<Rightarrow> False | Some t \<Rightarrow> current < t) then Inr []
         else Inr [((- go_priority goal, ready_deadline st goal, fst p, plan_id),
           \<lparr>rd_plan = plan_id, rd_goal = pl_goal plan, rd_step = st, rd_priority = go_priority goal\<rparr>)]))"

definition ready_of_plan :: "int \<Rightarrow> ops \<Rightarrow> string \<times> plan \<Rightarrow> ops_error + (ready_key \<times> ready) list" where
  "ready_of_plan current s p =
     (if pl_status (snd p) \<noteq> ''ACTIVE'' then Inr []
      else (case dict_get (op_goals s) (pl_goal (snd p)) of
          None \<Rightarrow> Inr []
        | Some goal \<Rightarrow>
            if go_status goal \<noteq> ''ACTIVE'' then Inr []
            else rbind (traverse (ready_step current (fst p) (snd p) goal) (List.enumerate 0 (pl_order (snd p))))
              (\<lambda>rows. Inr (concat rows))))"

definition ready_steps :: "pyenv \<Rightarrow> string \<Rightarrow> string option \<Rightarrow> ops \<Rightarrow> ops_error + ready list" where
  "ready_steps E now when s =
     rbind (ops_time E ''at'' (or_now when now)) (\<lambda>current.
     rbind (traverse (ready_of_plan current s) (op_plans s)) (\<lambda>rows.
       Inr (map snd (sort_key fst (concat rows)))))"

end
