(* ===== verification/ControlWork.thy ===== *)
theory ControlWork
  imports ControlOps
begin

text \<open>
  The execution side of the control plane (\<open>src/src/edon/operations/control.py\<close>): allocating
  resources to a step, assigning it to an agent, starting it, recording its outcome or
  cancelling it, and monitoring.
\<close>

section \<open>Allocation and assignment\<close>

definition task_id :: "string \<Rightarrow> string \<Rightarrow> string" where
  "task_id plan_id step_id = plan_id @ '':'' @ step_id"

text \<open>The plan and the step of a request.\<close>

definition plan_step :: "ops \<Rightarrow> string \<Rightarrow> string \<Rightarrow> ops_error + plan \<times> step" where
  "plan_step s plan_id step_id =
     rbind (lookup (OpsError ''plan step is not registered'') (op_plans s) plan_id) (\<lambda>plan.
     rbind (lookup (OpsError ''plan step is not registered'') (pl_steps plan) step_id) (\<lambda>st.
       Inr (plan, st)))"

definition put_step :: "step \<Rightarrow> string \<Rightarrow> int \<Rightarrow> plan \<Rightarrow> plan" where
  "put_step st step_id t plan = plan\<lparr>pl_steps := dict_put step_id st (pl_steps plan), pl_updated := t\<rparr>"

definition check_capacity :: "(string, pool) dict \<Rightarrow> string \<times> flt \<Rightarrow> ops_error + unit" where
  "check_capacity pools p =
     rbind (lookup (OpsError (''resource pool is not registered: '' @ fst p)) pools (fst p)) (\<lambda>pool.
     require (\<not> flt_less (fsub (po_capacity pool) (po_allocated pool)) (snd p))
       (OpsError (''insufficient resource capacity: '' @ fst p)) (Inr ()))"

definition reserve :: "string \<Rightarrow> flt \<Rightarrow> pool \<Rightarrow> pool" where
  "reserve task amount pool = pool\<lparr>po_allocated := fadd (po_allocated pool) amount,
     po_allocs := dict_put task amount (po_allocs pool)\<rparr>"

definition change_pools :: "(string, pool) dict \<Rightarrow> (flt \<Rightarrow> pool \<Rightarrow> pool) \<Rightarrow> (string, flt) dict
    \<Rightarrow> ops_error + change list" where
  "change_pools pools f amounts = traverse (\<lambda>(r, amount).
     rbind (lookup (OpsKeyError r) pools r) (\<lambda>pool. Inr (SetPool r (f amount pool)))) amounts"

definition allocate_step_resources :: "pyenv \<Rightarrow> string \<Rightarrow> string \<Rightarrow> string \<Rightarrow> string option \<Rightarrow> ops
    \<Rightarrow> ops_error + proposal" where
  "allocate_step_resources E now plan_id step_id timestamp s =
     rbind (ops_identifier ''plan_id'' plan_id) (\<lambda>plan_id.
     rbind (ops_identifier ''step_id'' step_id) (\<lambda>step_id.
     rbind (plan_step s plan_id step_id) (\<lambda>(plan, st).
     require (pl_status plan = ''ACTIVE'') (OpsError ''resources can only be allocated to an active plan'') (
     require (st_status st = ''PENDING'' \<and> st_alloc st = [])
       (OpsError ''resources can only be allocated once to a pending step'') (
     rbind (deps_done (pl_steps plan) (st_deps st)) (\<lambda>ok.
     require ok (OpsError ''step dependencies are not complete'') (
     rbind (traverse (check_capacity (op_pools s)) (st_requests st)) (\<lambda>_.
     rbind (change_pools (op_pools s) (reserve (task_id plan_id step_id)) (st_requests st)) (\<lambda>pools.
     rbind (ops_time E ''timestamp'' (or_now timestamp now)) (\<lambda>t.
       Inr (propose ''RESOURCES_ALLOCATED'' t
         (pools @ [SetPlan plan_id (put_step (st\<lparr>st_alloc := st_requests st\<rparr>) step_id t plan)]))))))))))))"

definition missing_capabilities :: "step \<Rightarrow> agent \<Rightarrow> string list" where
  "missing_capabilities st agent = sorted_set (filter (\<lambda>c. c \<notin> set (ag_caps agent)) (st_caps st))"

definition agent_load :: "agent \<Rightarrow> string list \<Rightarrow> agent" where
  "agent_load agent tasks = agent\<lparr>ag_tasks := tasks,
     ag_status := (if ag_max agent \<le> int (length tasks) then ''BUSY'' else ''AVAILABLE'')\<rparr>"

text \<open>The agent with one more task.\<close>

definition take_task :: "string \<Rightarrow> agent \<Rightarrow> agent" where
  "take_task task agent = agent_load agent (sorted_set (ag_tasks agent @ [task]))"

definition assign_step :: "pyenv \<Rightarrow> string \<Rightarrow> string \<Rightarrow> string \<Rightarrow> string \<Rightarrow> string option \<Rightarrow> ops
    \<Rightarrow> ops_error + proposal" where
  "assign_step E now plan_id step_id agent_id timestamp s =
     rbind (ops_identifier ''plan_id'' plan_id) (\<lambda>plan_id.
     rbind (ops_identifier ''step_id'' step_id) (\<lambda>step_id.
     rbind (ops_identifier ''agent_id'' agent_id) (\<lambda>agent_id.
     rbind (plan_step s plan_id step_id) (\<lambda>(plan, st).
     rbind (lookup (OpsError ''agent is not registered'') (op_agents s) agent_id) (\<lambda>agent.
     require (pl_status plan = ''ACTIVE'') (OpsError ''only active-plan steps can be assigned'') (
     require (st_status st = ''PENDING'') (OpsError ''only pending steps can be assigned'') (
     rbind (deps_done (pl_steps plan) (st_deps st)) (\<lambda>ok.
     require ok (OpsError ''step dependencies are not complete'') (
     require (st_requests st = st_alloc st) (OpsError ''step resources must be fully allocated before assignment'') (
     require (ag_status agent \<in> {''AVAILABLE'', ''BUSY''}) (OpsError ''agent is not available for assignment'') (
     require (int (length (ag_tasks agent)) < ag_max agent)
       (OpsError ''agent concurrent-task capacity is exhausted'') (
     require (missing_capabilities st agent = [])
       (OpsError (''agent lacks required capabilities: '' @ join '', '' (missing_capabilities st agent))) (
     rbind (ops_time E ''timestamp'' (or_now timestamp now)) (\<lambda>t.
       Inr (propose ''STEP_ASSIGNED'' t
         [SetPlan plan_id (put_step (st\<lparr>st_status := ''ASSIGNED'', st_agent := Some agent_id, st_assigned := Some t\<rparr>)
            step_id t plan),
          SetAgent agent_id (take_task (task_id plan_id step_id) agent)])))))))))))))))"

definition dispatch_step :: "pyenv \<Rightarrow> string \<Rightarrow> string \<Rightarrow> string \<Rightarrow> string \<Rightarrow> string option \<Rightarrow> ops
    \<Rightarrow> ops_error + proposal" where
  "dispatch_step E now plan_id step_id agent_id timestamp s =
     rbind (ops_identifier ''plan_id'' plan_id) (\<lambda>plan_id.
     rbind (ops_identifier ''step_id'' step_id) (\<lambda>step_id.
     rbind (ops_identifier ''agent_id'' agent_id) (\<lambda>agent_id.
     rbind (plan_step s plan_id step_id) (\<lambda>(plan, st).
     rbind (lookup (OpsError ''agent is not registered'') (op_agents s) agent_id) (\<lambda>agent.
     require (pl_status plan = ''ACTIVE'') (OpsError ''only active-plan steps can be dispatched'') (
     require (st_status st = ''PENDING'' \<and> st_alloc st = [])
       (OpsError ''only unallocated pending steps can be dispatched'') (
     rbind (deps_done (pl_steps plan) (st_deps st)) (\<lambda>ok.
     require ok (OpsError ''step dependencies are not complete'') (
     require (ag_status agent \<in> {''AVAILABLE'', ''BUSY''}) (OpsError ''agent is not available for dispatch'') (
     require (int (length (ag_tasks agent)) < ag_max agent)
       (OpsError ''agent concurrent-task capacity is exhausted'') (
     require (missing_capabilities st agent = [])
       (OpsError (''agent lacks required capabilities: '' @ join '', '' (missing_capabilities st agent))) (
     rbind (traverse (check_capacity (op_pools s)) (st_requests st)) (\<lambda>_.
     rbind (ops_time E ''timestamp'' (or_now timestamp now)) (\<lambda>t.
     rbind (change_pools (op_pools s) (reserve (task_id plan_id step_id)) (st_requests st)) (\<lambda>pools.
       Inr (propose ''STEP_DISPATCHED'' t (pools @
         [SetPlan plan_id (put_step (st\<lparr>st_alloc := st_requests st, st_status := ''ASSIGNED'',
            st_agent := Some agent_id, st_assigned := Some t\<rparr>) step_id t plan),
          SetAgent agent_id (take_task (task_id plan_id step_id) agent)])))))))))))))))))"

text \<open>
  Coordination proposals: for each ready step the first agent, by name, that could take it,
  with the tasks already proposed counted in; nothing is changed.
\<close>

record assignment =
  as_id :: string
  as_plan :: string
  as_goal :: string
  as_step :: string
  as_agent :: "string option"
  as_feasible :: bool
  as_dispatchable :: bool

definition resource_feasible :: "ops \<Rightarrow> step \<Rightarrow> bool" where
  "resource_feasible s st = list_all (\<lambda>(r, amount). case dict_get (op_pools s) r of
     None \<Rightarrow> False
   | Some pool \<Rightarrow> flt_le amount (fsub (po_capacity pool) (po_allocated pool))) (st_requests st)"

definition can_take :: "(string, int) dict \<Rightarrow> step \<Rightarrow> string \<times> agent \<Rightarrow> bool" where
  "can_take load st p \<longleftrightarrow> ag_status (snd p) \<in> {''AVAILABLE'', ''BUSY''}
     \<and> (case dict_get load (fst p) of None \<Rightarrow> False | Some n \<Rightarrow> n < ag_max (snd p))
     \<and> set (st_caps st) \<subseteq> set (ag_caps (snd p))"

definition bump :: "string \<Rightarrow> (string, int) dict \<Rightarrow> (string, int) dict" where
  "bump a load = (case dict_get load a of None \<Rightarrow> load | Some n \<Rightarrow> dict_put a (n + 1) load)"

definition propose_assignment :: "pyenv \<Rightarrow> ops \<Rightarrow> (string, int) dict \<Rightarrow> ready \<Rightarrow> assignment \<times> (string, int) dict" where
  "propose_assignment E s load r =
     (let st = rd_step r;
          feasible = resource_feasible s st;
          selected = map_option fst (List.find (can_take load st) (op_agents s));
          identity = mk_obj [(''plan_id'', JStr (rd_plan r)), (''step_id'', JStr (st_id st)),
            (''agent_id'', opt_str selected)]
      in (\<lparr>as_id = ''assignment:'' @ take 24 (after_colon (sha256_json E identity)), as_plan = rd_plan r,
            as_goal = rd_goal r, as_step = st_id st, as_agent = selected, as_feasible = feasible,
            as_dispatchable = (selected \<noteq> None \<and> feasible)\<rparr>,
          case selected of None \<Rightarrow> load | Some a \<Rightarrow> bump a load))"

fun propose_all :: "pyenv \<Rightarrow> ops \<Rightarrow> (string, int) dict \<Rightarrow> ready list \<Rightarrow> assignment list" where
  "propose_all E s load [] = []"
| "propose_all E s load (r # rs) =
     (let (a, load') = propose_assignment E s load r in a # propose_all E s load' rs)"

definition initial_load :: "ops \<Rightarrow> (string, int) dict" where
  "initial_load s = map (\<lambda>p. (fst p, int (length (ag_tasks (snd p))))) (op_agents s)"

definition assignment_proposals :: "pyenv \<Rightarrow> string \<Rightarrow> string option \<Rightarrow> ops \<Rightarrow> ops_error + assignment list" where
  "assignment_proposals E now when s =
     rbind (ready_steps E now when s) (\<lambda>rs. Inr (propose_all E s (initial_load s) rs))"

section \<open>Execution\<close>

definition start_step :: "pyenv \<Rightarrow> string \<Rightarrow> string \<Rightarrow> string \<Rightarrow> string option \<Rightarrow> ops \<Rightarrow> ops_error + proposal" where
  "start_step E now plan_id step_id timestamp s =
     rbind (ops_identifier ''plan_id'' plan_id) (\<lambda>plan_id.
     rbind (ops_identifier ''step_id'' step_id) (\<lambda>step_id.
     rbind (plan_step s plan_id step_id) (\<lambda>(plan, st).
     require (st_status st = ''ASSIGNED'') (OpsError ''only assigned steps can start'') (
     rbind (ops_time E ''timestamp'' (or_now timestamp now)) (\<lambda>t.
       Inr (propose ''STEP_STARTED'' t
         [SetPlan plan_id (put_step (st\<lparr>st_status := ''RUNNING'', st_started := Some t\<rparr>) step_id t plan)]))))))"

text \<open>Giving back what a step holds; a pool that is not renewable loses what was used.\<close>

definition release :: "string \<Rightarrow> flt \<Rightarrow> pool \<Rightarrow> pool" where
  "release task amount pool = pool\<lparr>po_allocated := fmax0 (fsub (po_allocated pool) amount),
     po_allocs := dict_del task (po_allocs pool)\<rparr>"

definition consume_resource :: "string \<Rightarrow> flt \<Rightarrow> pool \<Rightarrow> pool" where
  "consume_resource task amount pool = (let p = release task amount pool in
     if po_renewable pool then p else p\<lparr>po_capacity := fmax0 (fsub (po_capacity pool) amount)\<rparr>)"

text \<open>The agent without a task.\<close>

definition drop_task :: "string \<Rightarrow> agent \<Rightarrow> agent" where
  "drop_task task agent = (let tasks = filter (\<lambda>x. x \<noteq> task) (ag_tasks agent) in
     if ag_status agent \<in> {''OFFLINE'', ''RETIRED''} then agent\<lparr>ag_tasks := tasks\<rparr> else agent_load agent tasks)"

definition all_succeeded :: "plan \<Rightarrow> bool" where
  "all_succeeded plan = list_all (\<lambda>p. st_status (snd p) = ''SUCCEEDED'') (pl_steps plan)"

record outcome_result =
  or_proposal :: proposal
  or_outcome :: outcome
  or_learning :: learning
  or_alert :: "alert option"

text \<open>What is recorded once all checks have passed, with the pools already released.\<close>

definition conclude :: "string \<Rightarrow> string \<Rightarrow> string \<Rightarrow> int \<Rightarrow> bool \<Rightarrow> string list \<Rightarrow> string \<Rightarrow> obj \<Rightarrow> plan \<Rightarrow> step
    \<Rightarrow> goal \<Rightarrow> string \<Rightarrow> agent \<Rightarrow> change list \<Rightarrow> outcome_result" where
  "conclude plan_id step_id outcome_id t reported actual summary payload plan st goal agent_id agent pools =
     (let missing = sorted_set (filter (\<lambda>x. x \<notin> set actual) (st_expected st));
          unexpected = (if st_expected st = [] then [] else sorted_set (filter (\<lambda>x. x \<notin> set (st_expected st)) actual));
          ok = (reported \<and> missing = []);
          st' = st\<lparr>st_status := (if ok then ''SUCCEEDED'' else ''FAILED''), st_completed := Some t, st_actual := Some actual\<rparr>;
          plan' = put_step st' step_id t plan;
          finished = (ok \<and> all_succeeded plan');
          plan'' = (if finished then plan'\<lparr>pl_status := ''COMPLETED''\<rparr>
                    else if \<not> ok then plan'\<lparr>pl_status := ''NEEDS_REPLAN''\<rparr> else plan');
          goal' = (if finished then goal\<lparr>go_status := ''COMPLETED'', go_updated := t\<rparr>
                   else if \<not> ok then goal\<lparr>go_status := ''BLOCKED'', go_updated := t\<rparr> else goal);
          alert = (if ok then None
                   else Some (ReplanAlert (''replan:'' @ outcome_id) plan_id step_id ''step outcome failed'' t));
          result = \<lparr>oc_id = outcome_id, oc_plan = plan_id, oc_step = step_id, oc_agent = agent_id, oc_success = ok,
            oc_reported = reported, oc_summary = summary, oc_payload = payload, oc_actual = actual,
            oc_missing = missing, oc_unexpected = unexpected, oc_recorded = t\<rparr>;
          learning = \<lparr>lc_outcome = outcome_id, lc_created = t\<rparr> in
      \<lparr>or_proposal = propose ''STEP_OUTCOME_RECORDED'' t (pools @
          [SetPlan plan_id plan'', SetGoal (pl_goal plan) goal', SetAgent agent_id (drop_task (task_id plan_id step_id) agent)]
          @ [SetOutcome outcome_id result, SetLearning (''learning:'' @ outcome_id) learning]
          @ (case alert of None \<Rightarrow> [] | Some a \<Rightarrow> [SetAlert (''replan:'' @ outcome_id) a])),
        or_outcome = result, or_learning = learning, or_alert = alert\<rparr>)"

definition record_step_outcome :: "pyenv \<Rightarrow> string \<Rightarrow> string \<Rightarrow> string \<Rightarrow> json \<Rightarrow> string \<Rightarrow> json \<Rightarrow> string
    \<Rightarrow> string list \<Rightarrow> string option \<Rightarrow> ops \<Rightarrow> ops_error + outcome_result" where
  "record_step_outcome E now plan_id step_id success summary payload outcome_id actual_outcomes timestamp s =
     rbind (ops_identifier ''plan_id'' plan_id) (\<lambda>plan_id.
     rbind (ops_identifier ''step_id'' step_id) (\<lambda>step_id.
     rbind (ops_identifier ''outcome_id'' outcome_id) (\<lambda>outcome_id.
     require (dict_get (op_outcomes s) outcome_id = None) (OpsError ''outcome is already registered'') (
     rbind (plan_step s plan_id step_id) (\<lambda>(plan, st).
     require (st_status st \<in> {''ASSIGNED'', ''RUNNING''})
       (OpsError ''only assigned or running steps can record an outcome'') (
     rbind (case st_agent st of None \<Rightarrow> Inl (OpsError ''assigned agent is missing'') | Some a \<Rightarrow> Inr a) (\<lambda>agent_id.
     rbind (lookup (OpsError ''assigned agent is missing'') (op_agents s) agent_id) (\<lambda>agent.
     rbind (ops_time E ''timestamp'' (or_now timestamp now)) (\<lambda>t.
     rbind (string_set ''actual outcome'' actual_outcomes) (\<lambda>actual.
     rbind (case success of JBool b \<Rightarrow> Inr b | _ \<Rightarrow> Inl (OpsError ''success must be a boolean'')) (\<lambda>reported.
     rbind (change_pools (op_pools s) (consume_resource (task_id plan_id step_id)) (st_alloc st)) (\<lambda>pools.
     rbind (ops_json_object ''payload'' payload) (\<lambda>payload.
     let summary = py_strip summary in
     require (10 \<le> length summary) (OpsError ''outcome summary must contain at least 10 characters'') (
     rbind (lookup (OpsKeyError (pl_goal plan)) (op_goals s) (pl_goal plan)) (\<lambda>goal.
       Inr (conclude plan_id step_id outcome_id t reported actual summary payload plan st goal agent_id agent pools))))))))))))))))"

definition cancel_step :: "pyenv \<Rightarrow> string \<Rightarrow> string \<Rightarrow> string \<Rightarrow> string \<Rightarrow> string option \<Rightarrow> ops
    \<Rightarrow> ops_error + (proposal \<times> alert)" where
  "cancel_step E now plan_id step_id reason timestamp s =
     rbind (ops_identifier ''plan_id'' plan_id) (\<lambda>plan_id.
     rbind (ops_identifier ''step_id'' step_id) (\<lambda>step_id.
     rbind (plan_step s plan_id step_id) (\<lambda>(plan, st).
     require (st_status st \<notin> {''SUCCEEDED'', ''FAILED'', ''CANCELLED''}) (OpsError ''terminal step cannot be cancelled'') (
     let reason = py_strip reason in
     require (5 \<le> length reason) (OpsError ''cancellation reason must be explicit'') (
     rbind (ops_time E ''timestamp'' (or_now timestamp now)) (\<lambda>t.
     rbind (change_pools (op_pools s) (release (task_id plan_id step_id)) (st_alloc st)) (\<lambda>pools.
     let agents = (case given (st_agent st) of None \<Rightarrow> []
         | Some a \<Rightarrow> (case dict_get (op_agents s) a of None \<Rightarrow> []
             | Some agent \<Rightarrow> [SetAgent a (drop_task (task_id plan_id step_id) agent)]));
         st' = st\<lparr>st_status := ''CANCELLED'', st_completed := Some t, st_cancelled := Some reason, st_alloc := []\<rparr>;
         plan' = (put_step st' step_id t plan)\<lparr>pl_status := ''NEEDS_REPLAN''\<rparr>;
         key = ''replan:cancel:'' @ task_id plan_id step_id;
         alert = ReplanAlert key plan_id step_id reason t in
     rbind (lookup (OpsKeyError (pl_goal plan)) (op_goals s) (pl_goal plan)) (\<lambda>goal.
       Inr (propose ''STEP_CANCELLED'' t (pools @ agents @
         [SetPlan plan_id plan', SetGoal (pl_goal plan) (goal\<lparr>go_status := ''BLOCKED'', go_updated := t\<rparr>),
          SetAlert key alert]), alert)))))))))"

section \<open>Monitoring\<close>

definition monitor_alert :: "pyenv \<Rightarrow> int \<Rightarrow> string \<Rightarrow> string \<Rightarrow> string \<Rightarrow> string \<Rightarrow> alert" where
  "monitor_alert E t kind severity subject reason =
     MonitorAlert (''monitor:'' @ take 24 (after_colon (sha256_json E (mk_obj
       [(''type'', JStr kind), (''subject'', JStr subject), (''reason'', JStr reason)]))))
     kind severity subject reason t"

definition overdue :: "int \<Rightarrow> int option \<Rightarrow> bool" where
  "overdue t deadline = (case deadline of None \<Rightarrow> False | Some d \<Rightarrow> d < t)"

definition goal_alerts :: "pyenv \<Rightarrow> int \<Rightarrow> string \<times> goal \<Rightarrow> alert list" where
  "goal_alerts E t p =
     (if go_status (snd p) \<notin> {''COMPLETED'', ''FAILED'', ''CANCELLED''} \<and> overdue t (go_deadline (snd p))
      then [monitor_alert E t ''GOAL_OVERDUE'' ''HIGH'' (fst p) ''goal deadline has passed''] else [])"

definition agent_gone :: "ops \<Rightarrow> string \<Rightarrow> bool" where
  "agent_gone s a = (case dict_get (op_agents s) a of None \<Rightarrow> False
     | Some agent \<Rightarrow> ag_status agent \<in> {''OFFLINE'', ''RETIRED''})"

definition step_alerts :: "pyenv \<Rightarrow> int \<Rightarrow> ops \<Rightarrow> string \<Rightarrow> string \<times> step \<Rightarrow> alert list" where
  "step_alerts E t s plan_id p =
     (let st = snd p in
      (if st_status st \<notin> {''SUCCEEDED'', ''FAILED'', ''CANCELLED''} \<and> overdue t (st_deadline st)
       then [monitor_alert E t ''STEP_OVERDUE'' ''HIGH'' (task_id plan_id (fst p)) ''step deadline has passed''] else [])
      @ (case given (st_agent st) of None \<Rightarrow> []
         | Some a \<Rightarrow> if st_status st \<in> {''ASSIGNED'', ''RUNNING''} \<and> agent_gone s a
             then [monitor_alert E t ''AGENT_UNAVAILABLE'' ''CRITICAL'' (task_id plan_id (fst p))
                     (''assigned agent '' @ a @ '' is unavailable'')] else []))"

definition plan_alerts :: "pyenv \<Rightarrow> int \<Rightarrow> ops \<Rightarrow> string \<times> plan \<Rightarrow> alert list" where
  "plan_alerts E t s p =
     (if pl_status (snd p) = ''NEEDS_REPLAN''
      then [monitor_alert E t ''REPLAN_REQUIRED'' ''HIGH'' (fst p) ''plan is awaiting a corrective revision''] else [])
     @ concat (map (step_alerts E t s (fst p)) (pl_steps (snd p)))"

definition pool_alerts :: "pyenv \<Rightarrow> int \<Rightarrow> string \<times> pool \<Rightarrow> alert list" where
  "pool_alerts E t p = (if flt_less (po_capacity (snd p)) (po_allocated (snd p))
     then [monitor_alert E t ''RESOURCE_OVERALLOCATED'' ''CRITICAL'' (fst p) ''allocated quantity exceeds capacity'']
     else [])"

definition alert_key :: "alert \<Rightarrow> string \<times> string \<times> string" where
  "alert_key a = (case a of MonitorAlert i kind severity subject reason t \<Rightarrow> (severity, kind, subject)
     | ReplanAlert i plan_id step_id reason t \<Rightarrow> ([], [], []))"

definition alert_name :: "alert \<Rightarrow> string" where
  "alert_name a = (case a of MonitorAlert i _ _ _ _ _ \<Rightarrow> i | ReplanAlert i _ _ _ _ \<Rightarrow> i)"

definition monitor :: "pyenv \<Rightarrow> string \<Rightarrow> string option \<Rightarrow> ops \<Rightarrow> ops_error + alert list" where
  "monitor E now when s =
     rbind (ops_time E ''at'' (or_now when now)) (\<lambda>t.
       Inr (sort_key alert_key
         (concat (map (goal_alerts E t) (op_goals s)) @ concat (map (plan_alerts E t s) (op_plans s))
          @ concat (map (pool_alerts E t) (op_pools s)))))"

definition record_monitoring_cycle :: "pyenv \<Rightarrow> string \<Rightarrow> string option \<Rightarrow> ops \<Rightarrow> ops_error + (proposal \<times> alert list)" where
  "record_monitoring_cycle E now when s =
     rbind (ops_time E ''at'' (or_now when now)) (\<lambda>t.
     rbind (monitor E now (Some (isoformat t)) s) (\<lambda>alerts.
       Inr (propose ''MONITORING_CYCLE_RECORDED'' t (map (\<lambda>a. SetAlert (alert_name a) a) alerts), alerts)))"

end
