(* ===== verification/ControlPlane.thy ===== *)
theory ControlPlane
  imports ControlWork
begin

text \<open>
  The control plane on top of the world store and the episodic memory
  (\<open>src/src/edon/operations/control.py\<close>): a proposal is committed as a world event, two
  operations also record an episode, and the operational state that the world holds is at every
  moment the encoding of a state of the record model.
\<close>

section \<open>Committing\<close>

definition lift_world :: "world_error + 'a \<Rightarrow> ops_error + 'a" where
  "lift_world m = (case m of Inl e \<Rightarrow> Inl (OpsWorld e) | Inr x \<Rightarrow> Inr x)"

lemma lift_world_Inr [result_simps]: "lift_world m = Inr x \<longleftrightarrow> m = Inr x"
  by (cases m) (simp_all add: lift_world_def)

text \<open>Who asks, and for which event of which world: the arguments every operation passes on.\<close>

record request =
  rq_tenant :: string
  rq_world :: string
  rq_event :: string
  rq_actor :: string
  rq_expected :: int
  rq_auth :: string

definition commit :: "pyenv \<Rightarrow> string \<Rightarrow> request \<Rightarrow> string list \<Rightarrow> proposal \<Rightarrow> wdb \<Rightarrow> ops_error + (wdb \<times> snapshot)" where
  "commit E now q lineage p db = lift_world (append_event E now (rq_tenant q) (rq_world q) (rq_event q) (pr_type p)
     (map (\<lambda>c. mutation_json (change_mutation c)) (pr_changes p)) (rq_actor q) (rq_expected q) (rq_auth q)
     lineage (Some (isoformat (pr_at p))) db)"

definition bootstrap_world :: "pyenv \<Rightarrow> string \<Rightarrow> string \<Rightarrow> string \<Rightarrow> json \<Rightarrow> string \<Rightarrow> string \<Rightarrow> string list
    \<Rightarrow> string option \<Rightarrow> wdb \<Rightarrow> ops_error + (wdb \<times> snapshot)" where
  "bootstrap_world E now tenant_id world_id institution actor_id authorization_ref source_lineage timestamp db =
     rbind (ops_time E ''timestamp'' (or_now timestamp now)) (\<lambda>t.
     rbind (ops_json_object ''institution'' institution) (\<lambda>inst.
       lift_world (create_world E now tenant_id world_id
         (mk_obj [(''institution'', JObj inst), (''operations'', enc_ops (operational_state t))])
         actor_id authorization_ref source_lineage (Some (isoformat t)) db)))"

definition initialize_existing_world :: "pyenv \<Rightarrow> string \<Rightarrow> request \<Rightarrow> string option \<Rightarrow> wdb
    \<Rightarrow> ops_error + (wdb \<times> snapshot)" where
  "initialize_existing_world E now q timestamp db =
     rbind (lift_world (get_world (rq_tenant q) (rq_world q) db)) (\<lambda>sn.
     require (dict_get (sn_state sn) ''operations'' = None) (OpsError ''world already contains operational state'') (
     rbind (ops_time E ''timestamp'' (or_now timestamp now)) (\<lambda>t.
       lift_world (append_event E now (rq_tenant q) (rq_world q) (rq_event q) ''OPERATIONS_INITIALIZED''
         [mutation_json (SET [''operations''] (enc_ops (operational_state t)))]
         (rq_actor q) (rq_expected q) (rq_auth q) [] (Some (isoformat t)) db))))"

section \<open>Operations that also use the memory\<close>

record system =
  sys_worlds :: wdb
  sys_memory :: mdb

text \<open>
  An observation is recorded as an episode first and then referenced from the world; an outcome
  is committed to the world first. The two stores commit separately, so an error of the second
  leaves the first changed: the state is part of the result in both cases.
\<close>

definition observation_of :: "pyenv \<Rightarrow> string \<Rightarrow> string \<Rightarrow> string \<Rightarrow> string \<Rightarrow> json \<Rightarrow> string \<Rightarrow> json
    \<Rightarrow> string option \<Rightarrow> ops_error + (observation \<times> int)" where
  "observation_of E now observation_id modality source_id payload observed_at confidence timestamp =
     rbind (ops_identifier ''observation_id'' observation_id) (\<lambda>observation_id.
     rbind (ops_identifier ''source_id'' source_id) (\<lambda>source_id.
     require (py_upper modality \<in> set observation_modalities)
       (OpsError (''unsupported observation modality: '' @ py_upper modality)) (
     rbind (number ''confidence'' no_minimum confidence) (\<lambda>confidence.
     require (\<not> flt_less (Fin 1) confidence) (OpsError ''confidence cannot exceed 1'') (
     rbind (ops_time E ''observed_at'' observed_at) (\<lambda>observed.
     rbind (ops_time E ''timestamp'' (or_now timestamp now)) (\<lambda>t.
       Inr (\<lparr>ob_id = observation_id, ob_modality = py_upper modality, ob_source = source_id,
         ob_observed = observed, ob_confidence = confidence, ob_sha = sha256_json E payload\<rparr>, t))))))))"

definition observation_proposal :: "observation \<Rightarrow> int \<Rightarrow> proposal" where
  "observation_proposal x t = propose ''OBSERVATION_INGESTED'' t [AddObservation x]"

definition ingest_observation :: "pyenv \<Rightarrow> string \<Rightarrow> request \<Rightarrow> string \<Rightarrow> string \<Rightarrow> string \<Rightarrow> string \<Rightarrow> json \<Rightarrow> string
    \<Rightarrow> json \<Rightarrow> string \<Rightarrow> json \<Rightarrow> string option \<Rightarrow> string option \<Rightarrow> system
    \<Rightarrow> system \<times> (ops_error + (observation \<times> mem_row \<times> snapshot))" where
  "ingest_observation E now q observation_id modality source_id summary payload observed_at confidence
     sensitivity provenance retention_until timestamp sys =
     (case rbind (observation_of E now observation_id modality source_id payload observed_at confidence timestamp) (\<lambda>(x, t).
           rbind (ops_json_object ''payload'' payload) (\<lambda>body.
           rbind (ops_json_object ''provenance'' (if truthy provenance then provenance else JObj [])) (\<lambda>prov.
             Inr (x, t, body, dict_put ''confidence'' (JFloat (ob_confidence x))
               (dict_put ''source_id'' (JStr (ob_source x)) (dict_put ''modality'' (JStr (ob_modality x)) prov)))))) of
        Inl e \<Rightarrow> (sys, Inl e)
      | Inr (x, t, body, prov) \<Rightarrow>
          (case record_episode E now (rq_tenant q) (ob_id x) (rq_world q) ''OBSERVATION'' summary (JObj body)
               (isoformat (ob_observed x)) sensitivity (rq_actor q) (rq_auth q) [] (JObj prov) retention_until
               (Some (isoformat t)) (sys_memory sys) of
             Inl e \<Rightarrow> (sys, Inl (OpsMemory e))
           | Inr (mdb, m) \<Rightarrow>
               (let sys = sys\<lparr>sys_memory := mdb\<rparr> in
                (case commit E now q [''memory:'' @ ob_id x @ '':'' @ m_sha m] (observation_proposal x t) (sys_worlds sys) of
                   Inl e \<Rightarrow> (sys, Inl e)
                 | Inr (db, sn) \<Rightarrow> (sys\<lparr>sys_worlds := db\<rparr>, Inr (x, m, sn))))))"

definition finish_step :: "pyenv \<Rightarrow> string \<Rightarrow> request \<Rightarrow> string \<Rightarrow> string \<Rightarrow> json \<Rightarrow> string \<Rightarrow> json \<Rightarrow> string
    \<Rightarrow> string list \<Rightarrow> string \<Rightarrow> string option \<Rightarrow> ops \<Rightarrow> system
    \<Rightarrow> system \<times> (ops_error + (outcome_result \<times> mem_row \<times> snapshot))" where
  "finish_step E now q plan_id step_id success summary payload outcome_id actual_outcomes sensitivity timestamp s sys =
     (case record_step_outcome E now plan_id step_id success summary payload outcome_id actual_outcomes timestamp s of
        Inl e \<Rightarrow> (sys, Inl e)
      | Inr r \<Rightarrow>
          (case commit E now q [] (or_proposal r) (sys_worlds sys) of
             Inl e \<Rightarrow> (sys, Inl e)
           | Inr (db, sn) \<Rightarrow>
               (let sys = sys\<lparr>sys_worlds := db\<rparr>; x = or_outcome r in
                (case record_episode E now (rq_tenant q) (oc_id x) (rq_world q) ''STEP_OUTCOME'' (oc_summary x)
                     (enc_outcome x) (isoformat (oc_recorded x)) sensitivity (rq_actor q) (rq_auth q) [rq_event q]
                     (mk_obj [(''world_version'', JInt (sn_version sn)), (''world_state_sha256'', JStr (sn_sha sn)),
                        (''plan_id'', JStr (oc_plan x)), (''step_id'', JStr (oc_step x))])
                     None (Some (isoformat (oc_recorded x))) (sys_memory sys) of
                   Inl e \<Rightarrow> (sys, Inl (OpsMemory e))
                 | Inr (mdb, m) \<Rightarrow> (sys\<lparr>sys_memory := mdb\<rparr>, Inr (r, m, sn))))))"

section \<open>Runs of the record model\<close>

text \<open>Every proposal an operation can make in a state.\<close>

inductive ops_step :: "pyenv \<Rightarrow> ops \<Rightarrow> proposal \<Rightarrow> bool" for E s where
  os_agent: "register_agent E now a k caps n rels meta ts s = Inr p \<Longrightarrow> ops_step E s p"
| os_status: "set_agent_status E now a st ts s = Inr p \<Longrightarrow> ops_step E s p"
| os_pool: "register_resource_pool E now r c u rn ts s = Inr p \<Longrightarrow> ops_step E s p"
| os_goal: "create_goal E now g d pr dl deps par own crit act ts s = Inr p \<Longrightarrow> ops_step E s p"
| os_transition: "transition_goal E now g st why ts s = Inr p \<Longrightarrow> ops_step E s p"
| os_plan: "create_plan E now pl g raws hs he ts s = Inr p \<Longrightarrow> ops_step E s p"
| os_replan: "replan E now old new raws hs he why ts s = Inr p \<Longrightarrow> ops_step E s p"
| os_allocate: "allocate_step_resources E now pl i ts s = Inr p \<Longrightarrow> ops_step E s p"
| os_assign: "assign_step E now pl i a ts s = Inr p \<Longrightarrow> ops_step E s p"
| os_dispatch: "dispatch_step E now pl i a ts s = Inr p \<Longrightarrow> ops_step E s p"
| os_start: "start_step E now pl i ts s = Inr p \<Longrightarrow> ops_step E s p"
| os_outcome: "record_step_outcome E now pl i ok sm pay oc act ts s = Inr r \<Longrightarrow> ops_step E s (or_proposal r)"
| os_cancel: "cancel_step E now pl i why ts s = Inr (p, al) \<Longrightarrow> ops_step E s p"
| os_monitor: "record_monitoring_cycle E now ts s = Inr (p, als) \<Longrightarrow> ops_step E s p"
| os_observe: "observation_of E now i m src pay o' c ts = Inr (x, t) \<Longrightarrow> ops_step E s (observation_proposal x t)"

inductive ops_run :: "pyenv \<Rightarrow> ops \<Rightarrow> bool" for E where
  or_start: "ops_run E (operational_state t)"
| or_step: "ops_run E s \<Longrightarrow> ops_step E s p \<Longrightarrow> ops_run E (apply_changes (pr_changes p) s)"

section \<open>The world holds the encoding\<close>

definition holds :: "wdb \<Rightarrow> string \<Rightarrow> string \<Rightarrow> ops \<Rightarrow> bool" where
  "holds db t w s \<longleftrightarrow> (\<exists>x. find_world db t w = Some x \<and> dict_ok (w_state x)
     \<and> dict_get (w_state x) ''operations'' = Some (enc_ops s))"

lemma normalize_mutation_json_D: "normalize_mutation E i (mutation_json m) = Inr m' \<Longrightarrow> m' = m"
  by (cases m)
    (auto simp: normalize_mutation_def mutation_json_def mutation_row_def mk_obj_def mutation_row_get
      supported_mutations_def make_mutation_def path_check_def jstrs_def o_def Let_def
      rbind_eq_Inr require_eq_Inr split: if_splits)

lemma normalize_mutations_json_D:
  assumes "normalize_mutations E (map mutation_json ms) = Inr ms'"
  shows "ms' = ms"
proof -
  have "list_all2 (\<lambda>ir m. normalize_mutation E (fst ir) (snd ir) = Inr m) (List.enumerate 0 (map mutation_json ms)) ms'"
    using assms by (simp add: normalize_mutations_def rbind_eq_Inr require_eq_Inr traverse_Inr_iff case_prod_unfold)
  moreover have "list_all2 (\<lambda>ir m. normalize_mutation E (fst ir) (snd ir) = Inr m) (List.enumerate n (map mutation_json ms)) ms'
      \<Longrightarrow> ms' = ms" for n
    by (induction ms arbitrary: n ms') (auto simp: list_all2_Cons1 dest: normalize_mutation_json_D)
  ultimately show ?thesis by blast
qed

lemma apply_mutations_json_D:
  assumes "normalize_mutations E raws = Inr ms" and "apply_mutations E st (map mutation_json ms) = Inr st'"
  shows "rfold apply_mutation ms st = Inr st'"
  using assms by (simp add: apply_mutations_def rbind_eq_Inr json_object_def require_eq_Inr
      normalize_mutations_idem [OF assms(1)])

text \<open>A committed proposal is a replay of the same event, or one step of the record model.\<close>

lemma commit_cases:
  assumes "commit E now q lin p db = Inr (db', sn)"
  obtains (replayed) "db' = db"
    | (fresh) t w st r where "world_identifier ''tenant_id'' (rq_tenant q) = Inr t"
      "world_identifier ''world_id'' (rq_world q) = Inr w" "written r st db db'" "e_tenant r = t" "e_world r = w"
      "\<And>s. holds db t w s \<Longrightarrow> pr_changes p \<noteq> [] \<Longrightarrow> holds db' t w (apply_changes (pr_changes p) s)"
proof -
  have a: "append_event E now (rq_tenant q) (rq_world q) (rq_event q) (pr_type p)
     (map mutation_json (map change_mutation (pr_changes p))) (rq_actor q) (rq_expected q) (rq_auth q)
     lin (Some (isoformat (pr_at p))) db = Inr (db', sn)"
    using assms by (simp add: commit_def lift_world_def o_def split: sum.splits)
  then show thesis
  proof (cases rule: append_event_cases)
    case (fresh t w i ms x r st)
    have ms: "ms = map change_mutation (pr_changes p)" using normalize_mutations_json_D [OF fresh(4)] .
    have rf: "rfold apply_mutation (map change_mutation (pr_changes p)) (w_state x) = Inr st"
      using apply_mutations_json_D [OF fresh(4)] fresh(11,16) unfolding ms by simp
    obtain x' where x': "find_world db' t w = Some x'" "w_state x' = st"
      using fresh(8,9,18) by (auto simp: written_def Let_def)
    have "holds db' t w (apply_changes (pr_changes p) s)" if h: "holds db t w s" and c: "pr_changes p \<noteq> []" for s
    proof -
      have x: "dict_ok (w_state x)" "dict_get (w_state x) ''operations'' = Some (enc_ops s)"
        using h fresh(6) by (auto simp: holds_def)
      have "st = dict_put ''operations'' (enc_ops (apply_changes (pr_changes p) s)) (w_state x)"
        using apply_changes_mutations [OF x(2,1)] rf c by simp
      then show ?thesis using x' x by (simp add: holds_def)
    qed
    then show ?thesis by (intro that(2) [OF fresh(1,2,18,8,9)]) blast+
  qed (use that(1) in blast)
qed

text \<open>
  Runs of one world under the control plane: it is bootstrapped, operations are committed in the
  state it holds, and anything may happen to other worlds and to the outbox in between.
\<close>

inductive control_run :: "pyenv \<Rightarrow> string \<Rightarrow> string \<Rightarrow> wdb \<Rightarrow> ops \<Rightarrow> bool" for E t w where
  cr_start: "find_world db t w = None \<Longrightarrow> ops_time E ''timestamp'' (or_now ts now) = Inr at0 \<Longrightarrow>
    bootstrap_world E now t w inst a auth lin ts db = Inr (db', sn) \<Longrightarrow> stripped_id t \<Longrightarrow> stripped_id w \<Longrightarrow>
    control_run E t w db' (operational_state at0)"
| cr_step: "control_run E t w db s \<Longrightarrow> ops_step E s p \<Longrightarrow> rq_tenant q = t \<Longrightarrow> rq_world q = w \<Longrightarrow>
    commit E now q lin p db = Inr (db', sn) \<Longrightarrow>
    control_run E t w db' (if db' = db then s else apply_changes (pr_changes p) s)"
| cr_other: "control_run E t w db s \<Longrightarrow> world_step E db db' \<Longrightarrow> find_world db' t w = find_world db t w \<Longrightarrow>
    control_run E t w db' s"

lemma propose_changes [simp]: "pr_changes (propose ty t cs) \<noteq> []"
  by (simp add: propose_def)

lemma ops_step_changes: "ops_step E s p \<Longrightarrow> pr_changes p \<noteq> []"
  by (induction rule: ops_step.induct)
    (auto simp: register_agent_def set_agent_status_def register_resource_pool_def create_goal_def transition_goal_def
      create_plan_def replan_def allocate_step_resources_def assign_step_def dispatch_step_def start_step_def
      record_step_outcome_def conclude_def cancel_step_def record_monitoring_cycle_def observation_proposal_def
      rbind_eq_Inr require_eq_Inr Let_def split: prod.splits)

lemma written_neq: "written r st db db' \<Longrightarrow> db' \<noteq> db"
  by (auto simp: written_def Let_def)

lemma control_run_holds: "control_run E t w db s \<Longrightarrow> stripped_id t \<and> stripped_id w \<and> ops_run E s \<and> holds db t w s"
proof (induction rule: control_run.induct)
  case (cr_start db ts now at0 inst a auth lin db' sn)
  then obtain i where c: "create_world E now t w
      (mk_obj [(''institution'', JObj i), (''operations'', enc_ops (operational_state at0))])
      a auth lin (Some (isoformat at0)) db = Inr (db', sn)"
    by (auto simp: bootstrap_world_def rbind_eq_Inr lift_world_Inr)
  then have "holds db' t w (operational_state at0)"
  proof (cases rule: create_world_cases)
    case (existing t' w' x e)
    then show ?thesis using cr_start(1,4,5) by (auto simp: world_identifier_id)
  next
    case (created t' w' r st)
    then have "t' = t" "w' = w" using cr_start(4,5) by (auto simp: world_identifier_id)
    moreover have "dict_get st ''operations'' = Some (enc_ops (operational_state at0))" 
      using created(3) by (auto simp: mk_obj_def dict_of_def)
    moreover have "dict_ok st" using created(3) dict_ok_of by (auto simp: mk_obj_def simp del: dict_ok_of)
    ultimately show ?thesis
      using created(5,6,16) by (auto simp: holds_def written_def Let_def)
  qed
  then show ?case using cr_start(4,5) by (simp add: ops_run.or_start)
next
  case (cr_step db s p q now lin db' sn)
  from cr_step(5) show ?case
  proof (cases rule: commit_cases)
    case replayed
    then show ?thesis using cr_step.IH by simp
  next
    case (fresh t' w' st r)
    have st: "stripped_id t" "stripped_id w" using cr_step.IH by blast+
    then have "t' = t" "w' = w" using fresh(1,2) cr_step(3,4) by (auto simp: world_identifier_id)
    then have "holds db' t w (apply_changes (pr_changes p) s)"
      using fresh(6) cr_step.IH ops_step_changes [OF cr_step(2)] by blast
    then show ?thesis
      using cr_step.IH st written_neq [OF fresh(3)] ops_run.or_step [OF _ cr_step(2)] by auto
  qed
next
  case (cr_other db s db')
  then show ?case by (simp add: holds_def)
qed

text \<open>
  C17. Refinement: whatever sequence of control operations is committed to a world, and whatever
  happens to other worlds in between, the world's stored operational state is the encoding of a
  state that the same operations reach in the record model.
\<close>

theorem control_refines_world:
  assumes "control_run E t w db s"
  shows "ops_run E s \<and> holds db t w s"
  using control_run_holds [OF assms] by blast

end
