(* ===== verification/ControlInv.thy ===== *)
theory ControlInv
  imports ControlPlane
begin

text \<open>
  What the control plane's operations do to plans, agents, pools and goals, as a relation with
  one case per kind of change, and the invariants that every run keeps: plans stay well formed,
  work starts only after its dependencies, agents stay within their load.
\<close>

section \<open>Well-formed plans\<close>

abbreviation step_deps :: "plan \<Rightarrow> (string \<times> string list) list" where
  "step_deps p \<equiv> map (\<lambda>x. (fst x, st_deps (snd x))) (pl_steps p)"

definition requests_wf :: "(string, flt) dict \<Rightarrow> bool" where
  "requests_wf d \<longleftrightarrow> dict_ok d \<and> (\<forall>r x. dict_get d r = Some x \<longrightarrow> flt_finite x \<and> \<not> flt_less x (fst request_minimum))"

definition step_wf :: "plan \<Rightarrow> string \<Rightarrow> step \<Rightarrow> bool" where
  "step_wf p i st \<longleftrightarrow> st_id st = i \<and> set (st_deps st) \<subseteq> dom (dict_get (pl_steps p)) \<and> requests_wf (st_requests st)
     \<and> st_alloc st \<in> {[], st_requests st}
     \<and> st_status st \<in> {''PENDING'', ''ASSIGNED'', ''RUNNING'', ''SUCCEEDED'', ''FAILED'', ''CANCELLED''}"

definition plan_wf :: "plan \<Rightarrow> bool" where
  "plan_wf p \<longleftrightarrow> dict_ok (pl_steps p) \<and> pl_steps p \<noteq> [] \<and> distinct (pl_order p)
     \<and> set (pl_order p) = dom (dict_get (pl_steps p)) \<and> before (step_deps p) (pl_order p)
     \<and> (\<forall>i st. dict_get (pl_steps p) i = Some st \<longrightarrow> step_wf p i st)"

text \<open>A plan as it is built: every step waits.\<close>

definition plan_fresh :: "plan \<Rightarrow> bool" where
  "plan_fresh p \<longleftrightarrow> plan_wf p \<and> pl_status p = ''ACTIVE''
     \<and> (\<forall>i st. dict_get (pl_steps p) i = Some st \<longrightarrow> st_status st = ''PENDING'' \<and> st_alloc st = [] \<and> st_agent st = None)"

lemma number_Inr: "number l m v = Inr x \<Longrightarrow> flt_finite x \<and> \<not> flt_less x (fst m)"
  by (auto simp: number_def rbind_eq_Inr require_eq_Inr)

lemma step_requests_ok:
  assumes "step_requests v = Inr d"
  shows "dict_ok d \<and> (\<forall>r x. dict_get d r = Some x \<longrightarrow> flt_finite x \<and> \<not> flt_less x (fst request_minimum))"
proof -
  obtain m where "rfold (\<lambda>(k, amount) acc. rbind (ops_identifier ''resource_id'' k) (\<lambda>r.
         rbind (number ''resource request'' request_minimum amount) (\<lambda>x. Inr (dict_put r x acc)))) m [] = Inr d"
    using assms by (auto simp: step_requests_def rbind_eq_Inr)
  then show ?thesis
    by (rule rfold_invariant [rotated 2])
      (auto simp: rbind_eq_Inr dest!: number_Inr split: if_splits)
qed

text \<open>A step as it is read.\<close>

definition fresh_step :: "string \<Rightarrow> step \<Rightarrow> bool" where
  "fresh_step i st \<longleftrightarrow> st_id st = i \<and> requests_wf (st_requests st) \<and> st_alloc st = [] \<and> st_status st = ''PENDING''
     \<and> st_agent st = None"

lemma normalize_step_ok:
  assumes "normalize_step E n raw steps = Inr steps'"
  shows "\<exists>i st. steps' = steps @ [(i, st)] \<and> dict_get steps i = None \<and> fresh_step i st"
proof -
  obtain m where raw: "raw = JObj m" using assms by (cases raw) (auto simp: normalize_step_def)
  show ?thesis
    using assms unfolding raw normalize_step_def json.case Let_def
    apply (elim rbindE)
    apply (clarsimp simp: require_eq_Inr)
    apply (elim rbindE)
    apply clarsimp
    apply (drule step_requests_ok)
    apply (simp add: fresh_step_def requests_wf_def)
    done
qed

text \<open>The steps of a plan while they are read, in the order of the request.\<close>

definition raw_ok :: "(string \<times> step) list \<Rightarrow> bool" where
  "raw_ok steps \<longleftrightarrow> distinct (map fst steps) \<and> (\<forall>x \<in> set steps. fresh_step (fst x) (snd x))"

lemma raw_ok_step: "normalize_step E n raw steps = Inr steps' \<Longrightarrow> raw_ok steps \<Longrightarrow> raw_ok steps'"
  by (drule normalize_step_ok) (auto simp: raw_ok_def map_of_eq_None_iff)

lemma normalize_steps_ok:
  assumes "normalize_steps E raws = Inr (steps, order)"
  shows "raw_ok steps \<and> steps \<noteq> [] \<and> distinct order \<and> set order = set (map fst steps)
    \<and> before (map (\<lambda>x. (fst x, st_deps (snd x))) steps) order
    \<and> (\<forall>(i, st) \<in> set steps. set (st_deps st) \<subseteq> dom (dict_get steps))"
proof -
  obtain us where f: "rfold (\<lambda>(index, raw). normalize_step E index raw) (List.enumerate 0 raws) [] = Inr steps"
    and ne: "steps \<noteq> []" and c: "traverse (check_dependencies steps) steps = Inr us"
    and o: "topological_order (OpsError ''plan step dependencies contain a cycle'')
       (map (\<lambda>p. (fst p, st_deps (snd p))) steps) = Inr order"
    using assms by (auto simp: normalize_steps_def rbind_eq_Inr require_eq_Inr)
  have r: "raw_ok steps"
  proof (rule rfold_invariant [OF _ _ f])
    show "raw_ok []" by (simp add: raw_ok_def)
  qed (auto intro: raw_ok_step)
  then have d: "distinct (map fst steps)" by (simp add: raw_ok_def)
  have "set (st_deps st) \<subseteq> dom (dict_get steps)" if "(i, st) \<in> set steps" for i st
  proof -
    have "\<exists>u \<in> set us. check_dependencies steps (i, st) = Inr u"
      using list_all2_pairs(1) [OF c [unfolded traverse_Inr_iff] that] .
    then have "missing_from steps (st_deps st) = []"
      by (auto simp: check_dependencies_def require_eq_Inr)
    then show ?thesis by (auto simp: missing_from_def filter_empty_conv)
  qed
  then show ?thesis
    using r ne topological_order_Inr [OF _ o] d by (auto simp: o_def)
qed

lemma build_plan_D:
  assumes "build_plan E s pl g raws hs he t prev = Inr p"
  shows "plan_fresh p \<and> dict_get (op_plans s) (pl_id p) = None \<and> (\<exists>x. dict_get (op_goals s) (pl_goal p) = Some x)
    \<and> ops_identifier ''plan_id'' pl = Inr (pl_id p) \<and> ops_identifier ''goal_id'' g = Inr (pl_goal p)
    \<and> (case given prev of None \<Rightarrow> True | Some k \<Rightarrow> \<exists>old. dict_get (op_plans s) k = Some old \<and> pl_goal old = pl_goal p)"
proof -
  obtain steps order where n: "normalize_steps E raws = Inr (steps, order)"
    and p: "pl_steps p = dict_of steps" "pl_order p = order" "pl_status p = ''ACTIVE''"
    and rest: "dict_get (op_plans s) (pl_id p) = None" "\<exists>x. dict_get (op_goals s) (pl_goal p) = Some x"
      "ops_identifier ''plan_id'' pl = Inr (pl_id p)" "ops_identifier ''goal_id'' g = Inr (pl_goal p)"
      "case given prev of None \<Rightarrow> True | Some k \<Rightarrow> \<exists>old. dict_get (op_plans s) k = Some old \<and> pl_goal old = pl_goal p"
    using assms unfolding build_plan_def
    by (auto simp: rbind_eq_Inr require_eq_Inr lookup_def split: option.splits)
  note N = normalize_steps_ok [OF n]
  then have d: "distinct (map fst steps)" by (simp add: raw_ok_def)
  have g: "dict_get (pl_steps p) = dict_get steps" using dict_of_get [OF d] p by simp
  have S: "set (pl_steps p) = set steps"
    using g d dict_ok_distinct [OF dict_ok_of [of steps]] p by (simp add: map_of_inject_set)
  have e: "dict_get (pl_steps p) i = Some st \<longleftrightarrow> (i, st) \<in> set steps" for i st
    using g d by (simp add: map_of_eq_Some_iff)
  have "plan_wf p"
    unfolding plan_wf_def
  proof (intro conjI allI impI)
    show "dict_ok (pl_steps p)" "pl_steps p \<noteq> []" "distinct (pl_order p)"
      using N p S by auto
    show "set (pl_order p) = dom (dict_get (pl_steps p))"
      using N p g d by (simp add: dom_map_of_conv_image_fst)
    show "before (step_deps p) (pl_order p)"
      using N p before_set [of "step_deps p" "map (\<lambda>x. (fst x, st_deps (snd x))) steps"] S by simp
    fix i st assume "dict_get (pl_steps p) i = Some st"
    then show "step_wf p i st"
      using N g unfolding e by (fastforce simp: step_wf_def raw_ok_def fresh_step_def)
  qed
  moreover have "st_status st = ''PENDING'' \<and> st_alloc st = [] \<and> st_agent st = None"
    if "dict_get (pl_steps p) i = Some st" for i st
    using that N unfolding e by (fastforce simp: raw_ok_def fresh_step_def)
  ultimately show ?thesis
    using rest p(3) unfolding plan_fresh_def by (intro conjI) blast+
qed

section \<open>Effects\<close>

text \<open>A function applied to the pools named by some amounts, each with its amount.\<close>

definition pool_effect :: "(flt \<Rightarrow> pool \<Rightarrow> pool) \<Rightarrow> (string, flt) dict \<Rightarrow> (string, pool) dict \<Rightarrow> (string, pool) dict \<Rightarrow> bool" where
  "pool_effect f amts ps ps' \<longleftrightarrow> (dict_ok ps \<longrightarrow> dict_ok ps') \<and> dom (dict_get amts) \<subseteq> dom (dict_get ps)
     \<and> (\<forall>r. dict_get ps' r = (case dict_get amts r of None \<Rightarrow> dict_get ps r | Some x \<Rightarrow> map_option (f x) (dict_get ps r)))"

lemma pool_effect_Nil [simp]: "pool_effect f [] ps ps' \<longleftrightarrow> dict_get ps' = dict_get ps \<and> (dict_ok ps \<longrightarrow> dict_ok ps')"
  by (auto simp: pool_effect_def)

lemma pool_effect_dom: "pool_effect f amts ps ps' \<Longrightarrow> dom (dict_get ps') = dom (dict_get ps)"
  by (fastforce simp: pool_effect_def split: option.splits)

lemma change_pools_apply:
  "change_pools pools f amts = Inr cs \<Longrightarrow> distinct (map fst amts) \<Longrightarrow>
     \<forall>r \<in> fst ` set amts. dict_get (op_pools s) r = dict_get pools r \<Longrightarrow>
     \<exists>ps'. apply_changes cs s = s\<lparr>op_pools := ps'\<rparr> \<and> pool_effect f amts (op_pools s) ps'"
proof (induction amts arbitrary: cs s)
  case (Cons a amts)
  obtain r x where a: "a = (r, x)" by force
  obtain p cs' where p: "dict_get pools r = Some p" and cs': "change_pools pools f amts = Inr cs'"
    and cs: "cs = SetPool r (f x p) # cs'"
    using Cons.prems(1) unfolding a
    by (auto simp: change_pools_def rbind_eq_Inr lookup_def split: option.splits)
  let ?s = "s\<lparr>op_pools := dict_put r (f x p) (op_pools s)\<rparr>"
  have r: "r \<notin> fst ` set amts" using Cons.prems(2) a by simp
  have "\<forall>q \<in> fst ` set amts. dict_get (op_pools ?s) q = dict_get pools q"
    using Cons.prems(3) r unfolding a by auto
  then obtain ps' where e: "apply_changes cs' ?s = s\<lparr>op_pools := ps'\<rparr>" "pool_effect f amts (op_pools ?s) ps'"
    using Cons.IH [OF cs', of ?s] Cons.prems(2) unfolding a by auto
  have n: "dict_get amts r = None" using r by (simp add: map_of_eq_None_iff)
  have "pool_effect f (a # amts) (op_pools s) ps'"
    using e(2) n Cons.prems(3) p unfolding a pool_effect_def
    by (auto simp: fun_eq_iff split: option.splits if_splits)
  then show ?case using e(1) by (intro exI [of _ ps']) (simp add: cs apply_change_def)
next
  case Nil
  then show ?case by (intro exI [of _ "op_pools s"]) (simp add: change_pools_def)
qed

text \<open>Another version of a plan with one step replaced; steps keep their requirements.\<close>

definition plan_like :: "string \<Rightarrow> step \<Rightarrow> plan \<Rightarrow> plan \<Rightarrow> bool" where
  "plan_like i st p p' \<longleftrightarrow> pl_id p' = pl_id p \<and> pl_goal p' = pl_goal p \<and> pl_order p' = pl_order p
     \<and> pl_steps p' = dict_put i st (pl_steps p)"

definition step_like :: "step \<Rightarrow> step \<Rightarrow> bool" where
  "step_like st st' \<longleftrightarrow> st_id st' = st_id st \<and> st_deps st' = st_deps st \<and> st_requests st' = st_requests st
     \<and> st_caps st' = st_caps st"

definition has_room :: "agent \<Rightarrow> bool" where
  "has_room a \<longleftrightarrow> ag_status a \<in> {''AVAILABLE'', ''BUSY''} \<and> int (length (ag_tasks a)) < ag_max a"

definition fits :: "(string, pool) dict \<Rightarrow> (string, flt) dict \<Rightarrow> bool" where
  "fits ps amts \<longleftrightarrow> (\<forall>r x. dict_get amts r = Some x \<longrightarrow>
     (\<exists>p. dict_get ps r = Some p \<and> \<not> flt_less (fsub (po_capacity p) (po_allocated p)) x))"

definition all_done :: "plan \<Rightarrow> step \<Rightarrow> bool" where
  "all_done p st \<longleftrightarrow> (\<forall>d \<in> set (st_deps st). \<exists>x. dict_get (pl_steps p) d = Some x \<and> st_status x = ''SUCCEEDED'')"

lemma deps_done_Inr: "deps_done steps ds = Inr True \<longleftrightarrow> (\<forall>d \<in> set ds. \<exists>x. dict_get steps d = Some x \<and> st_status x = ''SUCCEEDED'')"
  by (induction ds) (auto simp: rbind_eq_Inr lookup_def split: option.splits)

text \<open>What a step holds once it is assigned: amounts newly reserved, or those reserved before.\<close>

inductive effect :: "ops \<Rightarrow> ops \<Rightarrow> bool" where
  ef_same: "op_plans s' = op_plans s \<Longrightarrow> op_agents s' = op_agents s \<Longrightarrow> op_pools s' = op_pools s \<Longrightarrow>
    op_goals s' = op_goals s \<Longrightarrow> effect s s'"
| ef_agent: "dict_get (op_agents s) a = None \<Longrightarrow> ag_id ag = a \<Longrightarrow> ag_tasks ag = [] \<Longrightarrow> 1 \<le> ag_max ag \<Longrightarrow> ag_max ag \<le> 1000 \<Longrightarrow>
    ops_identifier ''agent_id'' a0 = Inr a \<Longrightarrow>
    op_agents s' = dict_put a ag (op_agents s) \<Longrightarrow> op_plans s' = op_plans s \<Longrightarrow> op_pools s' = op_pools s \<Longrightarrow>
    op_goals s' = op_goals s \<Longrightarrow> effect s s'"
| ef_status: "dict_get (op_agents s) a = Some ag \<Longrightarrow> op_agents s' = dict_put a (ag\<lparr>ag_status := x\<rparr>) (op_agents s) \<Longrightarrow>
    op_plans s' = op_plans s \<Longrightarrow> op_pools s' = op_pools s \<Longrightarrow> op_goals s' = op_goals s \<Longrightarrow> effect s s'"
| ef_pool: "dict_get (op_pools s) r = None \<Longrightarrow> po_id p = r \<Longrightarrow> po_allocated p = Fin 0 \<Longrightarrow> po_allocs p = [] \<Longrightarrow>
    flt_finite (po_capacity p) \<Longrightarrow> \<not> flt_less (po_capacity p) (Fin 0) \<Longrightarrow>
    op_pools s' = dict_put r p (op_pools s) \<Longrightarrow> op_plans s' = op_plans s \<Longrightarrow> op_agents s' = op_agents s \<Longrightarrow>
    op_goals s' = op_goals s \<Longrightarrow> effect s s'"
| ef_goal: "(dict_get (op_goals s) k = None \<Longrightarrow> go_id g = k) \<Longrightarrow> op_goals s' = dict_put k g (op_goals s) \<Longrightarrow> op_plans s' = op_plans s \<Longrightarrow>
    op_agents s' = op_agents s \<Longrightarrow> op_pools s' = op_pools s \<Longrightarrow>
    (\<And>g0. dict_get (op_goals s) k = Some g0 \<Longrightarrow> go_id g = go_id g0 \<and> go_deps g = go_deps g0) \<Longrightarrow> effect s s'"
| ef_plan: "plan_fresh p \<Longrightarrow> dict_get (op_plans s) (pl_id p) = None \<Longrightarrow> ops_identifier ''plan_id'' p0 = Inr (pl_id p) \<Longrightarrow>
    dict_get (op_goals s) (pl_goal p) = Some g \<Longrightarrow>
    op_plans s' = dict_put (pl_id p) p (op_plans s) \<Longrightarrow>
    op_goals s' = dict_put (pl_goal p) (g\<lparr>go_plan := x, go_status := ''ACTIVE'', go_updated := t\<rparr>) (op_goals s) \<Longrightarrow>
    op_agents s' = op_agents s \<Longrightarrow> op_pools s' = op_pools s \<Longrightarrow> effect s s'"
| ef_replan: "plan_fresh p \<Longrightarrow> dict_get (op_plans s) (pl_id p) = None \<Longrightarrow> ops_identifier ''plan_id'' p0 = Inr (pl_id p) \<Longrightarrow>
    dict_get (op_goals s) (pl_goal p) = Some g \<Longrightarrow> dict_get (op_plans s) k = Some old \<Longrightarrow>
    list_all (\<lambda>x. st_status (snd x) \<notin> {''ASSIGNED'', ''RUNNING''}) (pl_steps old) \<Longrightarrow>
    old' = old\<lparr>pl_status := ''SUPERSEDED'', pl_updated := t, pl_successor := Some (pl_id p), pl_reason := y\<rparr> \<Longrightarrow>
    op_plans s' = dict_put (pl_id p) p (dict_put k old' (op_plans s)) \<Longrightarrow>
    op_goals s' = dict_put (pl_goal p) (g\<lparr>go_plan := x, go_status := ''ACTIVE'', go_updated := t\<rparr>) (op_goals s) \<Longrightarrow>
    op_agents s' = op_agents s \<Longrightarrow> op_pools s' = op_pools s \<Longrightarrow> effect s s'"
| ef_allocate: "dict_get (op_plans s) k = Some p \<Longrightarrow> dict_get (pl_steps p) i = Some st \<Longrightarrow> pl_status p = ''ACTIVE'' \<Longrightarrow>
    st_status st = ''PENDING'' \<Longrightarrow> st_alloc st = [] \<Longrightarrow> all_done p st \<Longrightarrow> fits (op_pools s) (st_requests st) \<Longrightarrow>
    pool_effect (reserve (task_id k i)) (st_requests st) (op_pools s) (op_pools s') \<Longrightarrow>
    plan_like i (st\<lparr>st_alloc := st_requests st\<rparr>) p p' \<Longrightarrow> op_plans s' = dict_put k p' (op_plans s) \<Longrightarrow>
    op_agents s' = op_agents s \<Longrightarrow> op_goals s' = op_goals s \<Longrightarrow> effect s s'"
| ef_assign: "dict_get (op_plans s) k = Some p \<Longrightarrow> dict_get (pl_steps p) i = Some st \<Longrightarrow> pl_status p = ''ACTIVE'' \<Longrightarrow>
    st_status st = ''PENDING'' \<Longrightarrow> all_done p st \<Longrightarrow> dict_get (op_agents s) a = Some ag \<Longrightarrow> a \<noteq> [] \<Longrightarrow> has_room ag \<Longrightarrow>
    set (st_caps st) \<subseteq> set (ag_caps ag) \<Longrightarrow>
    amts = [] \<and> st_alloc st = st_requests st \<or> amts = st_requests st \<and> st_alloc st = [] \<and> fits (op_pools s) amts \<Longrightarrow>
    pool_effect (reserve (task_id k i)) amts (op_pools s) (op_pools s') \<Longrightarrow>
    plan_like i (st\<lparr>st_alloc := st_requests st, st_status := ''ASSIGNED'', st_agent := Some a, st_assigned := t\<rparr>) p p' \<Longrightarrow>
    op_plans s' = dict_put k p' (op_plans s) \<Longrightarrow>
    op_agents s' = dict_put a (take_task (task_id k i) ag) (op_agents s) \<Longrightarrow> op_goals s' = op_goals s \<Longrightarrow> effect s s'"
| ef_start: "dict_get (op_plans s) k = Some p \<Longrightarrow> dict_get (pl_steps p) i = Some st \<Longrightarrow> st_status st = ''ASSIGNED'' \<Longrightarrow>
    plan_like i (st\<lparr>st_status := ''RUNNING'', st_started := t\<rparr>) p p' \<Longrightarrow> op_plans s' = dict_put k p' (op_plans s) \<Longrightarrow>
    op_agents s' = op_agents s \<Longrightarrow> op_pools s' = op_pools s \<Longrightarrow> op_goals s' = op_goals s \<Longrightarrow> effect s s'"
| ef_outcome: "dict_get (op_plans s) k = Some p \<Longrightarrow> dict_get (pl_steps p) i = Some st \<Longrightarrow>
    st_status st \<in> {''ASSIGNED'', ''RUNNING''} \<Longrightarrow> st_agent st = Some a \<Longrightarrow> dict_get (op_agents s) a = Some ag \<Longrightarrow>
    x \<in> {''SUCCEEDED'', ''FAILED''} \<Longrightarrow> dict_get (op_goals s) (pl_goal p) = Some g \<Longrightarrow>
    pool_effect (consume_resource (task_id k i)) (st_alloc st) (op_pools s) (op_pools s') \<Longrightarrow>
    plan_like i (st\<lparr>st_status := x, st_completed := t, st_actual := y\<rparr>) p p' \<Longrightarrow>
    op_plans s' = dict_put k p' (op_plans s) \<Longrightarrow> op_agents s' = dict_put a (drop_task (task_id k i) ag) (op_agents s) \<Longrightarrow>
    go_id g' = go_id g \<Longrightarrow> op_goals s' = dict_put (pl_goal p) g' (op_goals s) \<Longrightarrow> effect s s'"
| ef_cancel: "dict_get (op_plans s) k = Some p \<Longrightarrow> dict_get (pl_steps p) i = Some st \<Longrightarrow>
    st_status st \<notin> {''SUCCEEDED'', ''FAILED'', ''CANCELLED''} \<Longrightarrow> dict_get (op_goals s) (pl_goal p) = Some g \<Longrightarrow>
    pool_effect (release (task_id k i)) (st_alloc st) (op_pools s) (op_pools s') \<Longrightarrow>
    plan_like i (st\<lparr>st_status := ''CANCELLED'', st_completed := t, st_cancelled := y, st_alloc := []\<rparr>) p p' \<Longrightarrow>
    op_plans s' = dict_put k p' (op_plans s) \<Longrightarrow>
    op_agents s' = (case given (st_agent st) of None \<Rightarrow> op_agents s | Some a \<Rightarrow>
      (case dict_get (op_agents s) a of None \<Rightarrow> op_agents s
       | Some ag \<Rightarrow> dict_put a (drop_task (task_id k i) ag) (op_agents s))) \<Longrightarrow>
    go_id g' = go_id g \<Longrightarrow> op_goals s' = dict_put (pl_goal p) g' (op_goals s) \<Longrightarrow> effect s s'"

section \<open>Every operation has such an effect\<close>

definition plans_wf :: "ops \<Rightarrow> bool" where
  "plans_wf s \<longleftrightarrow> dict_ok (op_plans s) \<and> (\<forall>k p. dict_get (op_plans s) k = Some p \<longrightarrow> pl_id p = k \<and> plan_wf p)"

lemma plans_wfD:
  assumes "plans_wf s" "dict_get (op_plans s) k = Some p"
  shows "dict_ok (op_plans s)" "pl_id p = k" "plan_wf p" "dict_ok (pl_steps p)"
    "dict_get (pl_steps p) i = Some st \<Longrightarrow> step_wf p i st"
  using assms by (auto simp: plans_wf_def plan_wf_def)

lemma plans_wf_amounts:
  assumes "plans_wf s" "dict_get (op_plans s) k = Some p" "dict_get (pl_steps p) i = Some st"
  shows "distinct (map fst (st_requests st))" "distinct (map fst (st_alloc st))"
  using plans_wfD(5) [OF assms]
  by (auto simp: step_wf_def requests_wf_def dest: dict_ok_distinct)

lemma ops_identifier_nonempty: "ops_identifier l s = Inr i \<Longrightarrow> i \<noteq> []"
  by (auto simp: ops_identifier_def dest: ident_check_Inr_D)

lemma lookup_Inr [result_simps]: "lookup e d k = Inr x \<longleftrightarrow> dict_get d k = Some x"
  by (auto simp: lookup_def split: option.splits)

lemma plan_step_Inr [result_simps]:
  "plan_step s k i = Inr r \<longleftrightarrow> dict_get (op_plans s) k = Some (fst r) \<and> dict_get (pl_steps (fst r)) i = Some (snd r)"
  by (cases r) (auto simp: plan_step_def rbind_eq_Inr lookup_Inr)

lemma fitsI:
  assumes "traverse (check_capacity ps) amts = Inr us" 
  shows "fits ps amts"
proof -
  have "\<exists>p. dict_get ps r = Some p \<and> \<not> flt_less (fsub (po_capacity p) (po_allocated p)) x"
    if "dict_get amts r = Some x" for r x
    using list_all2_pairs(1) [OF assms [unfolded traverse_Inr_iff] map_of_SomeD [OF that]]
    by (auto simp: check_capacity_def rbind_eq_Inr require_eq_Inr lookup_Inr)
  then show ?thesis by (simp add: fits_def)
qed

lemma missing_capabilities_Nil: "missing_capabilities st a = [] \<longleftrightarrow> set (st_caps st) \<subseteq> set (ag_caps a)"
proof -
  have "set (missing_capabilities st a) = set (st_caps st) - set (ag_caps a)"
    by (auto simp: missing_capabilities_def)
  then show ?thesis by (metis Diff_eq_empty_iff set_empty)
qed

lemma plan_like_put_step [simp]: "plan_like i st p (put_step st i t p)"
  by (simp add: plan_like_def put_step_def)

lemma apply_simple [simp]:
  "apply_change (SetClock t) s = s\<lparr>op_now := t\<rparr>"
  "apply_change (SetGoal k g) s = s\<lparr>op_goals := dict_put k g (op_goals s)\<rparr>"
  "apply_change (SetPlan k p) s = s\<lparr>op_plans := dict_put k p (op_plans s)\<rparr>"
  "apply_change (SetAgent k a) s = s\<lparr>op_agents := dict_put k a (op_agents s)\<rparr>"
  "apply_change (SetPool k q) s = s\<lparr>op_pools := dict_put k q (op_pools s)\<rparr>"
  "apply_change (SetOutcome k x) s = s\<lparr>op_outcomes := dict_put k x (op_outcomes s)\<rparr>"
  "apply_change (SetAlert k l) s = s\<lparr>op_alerts := dict_put k l (op_alerts s)\<rparr>"
  "apply_change (SetLearning k c) s = s\<lparr>op_learning := dict_put k c (op_learning s)\<rparr>"
  by (simp_all add: apply_change_def)

lemma propose_apply [simp]:
  "apply_changes (pr_changes (propose ty t cs)) s = (apply_changes cs s)\<lparr>op_now := t\<rparr>"
  by (simp add: propose_def)

abbreviation after :: "proposal \<Rightarrow> ops \<Rightarrow> ops" where
  "after p s \<equiv> apply_changes (pr_changes p) s"

lemma register_agent_effect:
  "register_agent E now a k caps n rels meta ts s = Inr p \<Longrightarrow> effect s (after p s)"
  unfolding register_agent_def
  by (elim rbindE; clarsimp simp: require_eq_Inr; elim rbindE; clarsimp; rule ef_agent; (assumption | simp))

lemma set_agent_status_effect:
  "set_agent_status E now a st ts s = Inr p \<Longrightarrow> effect s (after p s)"
  unfolding set_agent_status_def
  by (elim rbindE; clarsimp simp: require_eq_Inr lookup_Inr; elim rbindE; clarsimp; rule ef_status; simp)

lemma register_resource_pool_effect:
  "register_resource_pool E now r c u rn ts s = Inr p \<Longrightarrow> effect s (after p s)"
  unfolding register_resource_pool_def
  by (elim rbindE; clarsimp simp: require_eq_Inr; elim rbindE)
    (auto intro!: ef_pool dest!: number_Inr simp: no_minimum_def)

lemma create_goal_effect:
  assumes "create_goal E now g d pr dl deps par own crit act ts s = Inr p"
  shows "effect s (after p s)"
proof -
  obtain k t x where p: "p = propose ''GOAL_CREATED'' t [SetGoal k x]" and x: "go_id x = k" "dict_get (op_goals s) k = None"
    using assms unfolding create_goal_def Let_def
    by ((elim rbindE; clarsimp simp: require_eq_Inr)+)
  show ?thesis unfolding p by (rule ef_goal) (use x in auto)
qed

lemma transition_goal_effect:
  assumes "transition_goal E now g st why ts s = Inr p"
  shows "effect s (after p s)"
proof -
  obtain k t x x0 where p: "p = propose ''GOAL_STATUS_CHANGED'' t [SetGoal k (x0\<lparr>go_status := x, go_updated := t, go_reason := Some (py_strip why)\<rparr>)]"
    and x: "dict_get (op_goals s) k = Some x0"
    using assms unfolding transition_goal_def Let_def
    by (elim rbindE; clarsimp simp: require_eq_Inr lookup_Inr; elim rbindE; clarsimp simp: require_eq_Inr; elim rbindE; clarsimp)
  show ?thesis unfolding p by (rule ef_goal) (use x in auto)
qed

lemma create_plan_effect:
  assumes "create_plan E now pl g raws hs he ts s = Inr p"
  shows "effect s (after p s)"
proof -
  obtain t x y where p: "p = propose ''PLAN_CREATED'' t [SetPlan (pl_id x) x,
      SetGoal (pl_goal x) (y\<lparr>go_plan := Some (pl_id x), go_status := ''ACTIVE'', go_updated := t\<rparr>)]"
    and y: "dict_get (op_goals s) (pl_goal x) = Some y" and x: "build_plan E s pl g raws hs he t None = Inr x"
    using assms unfolding create_plan_def by (elim rbindE) (auto simp: lookup_Inr)
  show ?thesis unfolding p by (rule ef_plan [of x s pl y]) (use y build_plan_D [OF x] in simp_all)
qed

lemma replan_effect:
  assumes "replan E now old new raws hs he why ts s = Inr p"
  shows "effect s (after p s)"
proof -
  obtain k o' t x y where p: "p = propose ''PLAN_REPLACED'' t [SetPlan k (o'\<lparr>pl_status := ''SUPERSEDED'', pl_updated := t,
        pl_successor := Some (pl_id x), pl_reason := Some (py_strip why)\<rparr>), SetPlan (pl_id x) x,
      SetGoal (pl_goal o') (y\<lparr>go_plan := Some (pl_id x), go_status := ''ACTIVE'', go_updated := t\<rparr>)]"
    and k: "k \<noteq> []" and o': "dict_get (op_plans s) k = Some o'" "\<not> list_ex (\<lambda>p. st_status (snd p) \<in> {''ASSIGNED'', ''RUNNING''}) (pl_steps o')"
    and y: "dict_get (op_goals s) (pl_goal o') = Some y" and x: "build_plan E s new (pl_goal o') raws hs he t (Some k) = Inr x"
    using assms unfolding replan_def Let_def
    by (elim rbindE; clarsimp simp: require_eq_Inr lookup_Inr; elim rbindE; clarsimp simp: lookup_Inr dest!: ops_identifier_nonempty)
  have g: "pl_goal x = pl_goal o'" using build_plan_D [OF x] o' k by (simp add: given_def)
  show ?thesis unfolding p
    by (rule ef_replan [of x s new y k o'])
      (use y o' build_plan_D [OF x] g in \<open>auto simp: list_all_iff list_ex_iff\<close>)
qed

lemma allocate_effect:
  assumes wf: "plans_wf s" and "allocate_step_resources E now pl0 i0 ts s = Inr p"
  shows "effect s (after p s)"
proof -
  obtain k i pl st t cs us where p: "p = propose ''RESOURCES_ALLOCATED'' t
      (cs @ [SetPlan k (put_step (st\<lparr>st_alloc := st_requests st\<rparr>) i t pl)])"
    and g: "dict_get (op_plans s) k = Some pl" "dict_get (pl_steps pl) i = Some st" "pl_status pl = ''ACTIVE''"
      "st_status st = ''PENDING''" "st_alloc st = []" "deps_done (pl_steps pl) (st_deps st) = Inr True"
    and c: "traverse (check_capacity (op_pools s)) (st_requests st) = Inr us"
      "change_pools (op_pools s) (reserve (task_id k i)) (st_requests st) = Inr cs"
    using assms(2) unfolding allocate_step_resources_def
    by (elim rbindE; clarsimp simp: require_eq_Inr plan_step_Inr; elim rbindE; clarsimp simp: require_eq_Inr; elim rbindE; clarsimp)
  obtain ps' where ps: "apply_changes cs s = s\<lparr>op_pools := ps'\<rparr>" "pool_effect (reserve (task_id k i)) (st_requests st) (op_pools s) ps'"
    using change_pools_apply [OF c(2), of s] plans_wf_amounts [OF wf g(1,2)] by blast
  show ?thesis unfolding p
    by (rule ef_allocate [of s k pl i st])
      (use g ps fitsI [OF c(1)] in \<open>simp_all add: all_done_def deps_done_Inr\<close>)
qed

lemma assign_effect:
  assumes "assign_step E now pl0 i0 a0 ts s = Inr p"
  shows "effect s (after p s)"
proof -
  obtain k i a pl st ag t where p: "p = propose ''STEP_ASSIGNED'' t
      [SetPlan k (put_step (st\<lparr>st_status := ''ASSIGNED'', st_agent := Some a, st_assigned := Some t\<rparr>) i t pl),
       SetAgent a (take_task (task_id k i) ag)]"
    and g: "dict_get (op_plans s) k = Some pl" "dict_get (pl_steps pl) i = Some st" "pl_status pl = ''ACTIVE''"
      "st_status st = ''PENDING''" "st_requests st = st_alloc st" "deps_done (pl_steps pl) (st_deps st) = Inr True"
    and a: "dict_get (op_agents s) a = Some ag" "a \<noteq> []" "has_room ag" "missing_capabilities st ag = []"
    using assms unfolding assign_step_def
    by ((elim rbindE; clarsimp simp: require_eq_Inr plan_step_Inr lookup_Inr has_room_def dest!: ops_identifier_nonempty)+)
  have e: "st\<lparr>st_alloc := st_alloc st\<rparr> = st" by simp
  show ?thesis unfolding p
    by (rule ef_assign [of s k pl i st a ag "[]" _ "Some t"])
      (use g a e in \<open>simp_all add: all_done_def deps_done_Inr missing_capabilities_Nil\<close>)
qed

lemma dispatch_effect:
  assumes wf: "plans_wf s" and "dispatch_step E now pl0 i0 a0 ts s = Inr p"
  shows "effect s (after p s)"
proof -
  obtain k i a pl st ag t cs us where p: "p = propose ''STEP_DISPATCHED'' t (cs @
      [SetPlan k (put_step (st\<lparr>st_alloc := st_requests st, st_status := ''ASSIGNED'', st_agent := Some a,
         st_assigned := Some t\<rparr>) i t pl), SetAgent a (take_task (task_id k i) ag)])"
    and g: "dict_get (op_plans s) k = Some pl" "dict_get (pl_steps pl) i = Some st" "pl_status pl = ''ACTIVE''"
      "st_status st = ''PENDING''" "st_alloc st = []" "deps_done (pl_steps pl) (st_deps st) = Inr True"
    and a: "dict_get (op_agents s) a = Some ag" "a \<noteq> []" "has_room ag" "missing_capabilities st ag = []"
    and c: "traverse (check_capacity (op_pools s)) (st_requests st) = Inr us"
      "change_pools (op_pools s) (reserve (task_id k i)) (st_requests st) = Inr cs"
    using assms(2) unfolding dispatch_step_def
    by ((elim rbindE; clarsimp simp: require_eq_Inr plan_step_Inr lookup_Inr has_room_def dest!: ops_identifier_nonempty)+)
  obtain ps' where ps: "apply_changes cs s = s\<lparr>op_pools := ps'\<rparr>" "pool_effect (reserve (task_id k i)) (st_requests st) (op_pools s) ps'"
    using change_pools_apply [OF c(2), of s] plans_wf_amounts [OF wf g(1,2)] by blast
  show ?thesis unfolding p
    by (rule ef_assign [of s k pl i st a ag "st_requests st" _ "Some t"])
      (use g a ps fitsI [OF c(1)] in \<open>simp_all add: all_done_def deps_done_Inr missing_capabilities_Nil\<close>)
qed

lemma start_effect:
  assumes "start_step E now pl0 i0 ts s = Inr p"
  shows "effect s (after p s)"
proof -
  obtain k i pl st t where p: "p = propose ''STEP_STARTED'' t
      [SetPlan k (put_step (st\<lparr>st_status := ''RUNNING'', st_started := Some t\<rparr>) i t pl)]"
    and g: "dict_get (op_plans s) k = Some pl" "dict_get (pl_steps pl) i = Some st" "st_status st = ''ASSIGNED''"
    using assms unfolding start_step_def
    by ((elim rbindE; clarsimp simp: require_eq_Inr plan_step_Inr)+)
  show ?thesis unfolding p by (rule ef_start [of s k pl i st "Some t"]) (use g in simp_all)
qed

lemma conclude_shape:
  "\<exists>x pl' g' rest. or_proposal (conclude k i oc' t reported actual sm' pay' pl st g a ag cs) =
       propose ''STEP_OUTCOME_RECORDED'' t
         (cs @ [SetPlan k pl', SetGoal (pl_goal pl) g', SetAgent a (drop_task (task_id k i) ag)] @ rest)
     \<and> plan_like i (st\<lparr>st_status := x, st_completed := Some t, st_actual := Some actual\<rparr>) pl pl'
     \<and> x \<in> {''SUCCEEDED'', ''FAILED''} \<and> go_id g' = go_id g
     \<and> list_all (\<lambda>c. case c of SetOutcome _ _ \<Rightarrow> True | SetLearning _ _ \<Rightarrow> True | SetAlert _ _ \<Rightarrow> True | _ \<Rightarrow> False) rest"
  apply (rule exI [of _ "if reported \<and> sorted_set (filter (\<lambda>x. x \<notin> set actual) (st_expected st)) = []
       then ''SUCCEEDED'' else ''FAILED''"])
  apply (intro exI conjI)
      apply (simp only: conclude_def Let_def outcome_result.simps)
     apply (simp add: plan_like_def put_step_def split: if_split)
    apply simp
   apply simp
  apply (simp split: if_split)
  done

lemma outcome_effect:
  assumes wf: "plans_wf s" and "record_step_outcome E now pl0 i0 ok sm pay oc act ts s = Inr r"
  shows "effect s (after (or_proposal r) s)"
proof -
  obtain k i oc' t reported actual sm' pay' pl st g a ag cs where r: "r = conclude k i oc' t reported actual sm' pay' pl st g a ag cs"
    and st: "dict_get (op_plans s) k = Some pl" "dict_get (pl_steps pl) i = Some st"
      "st_status st \<in> {''ASSIGNED'', ''RUNNING''}" "st_agent st = Some a" "dict_get (op_agents s) a = Some ag"
    and g: "dict_get (op_goals s) (pl_goal pl) = Some g"
    and c: "change_pools (op_pools s) (consume_resource (task_id k i)) (st_alloc st) = Inr cs"
    using assms(2) unfolding record_step_outcome_def Let_def
    by ((elim rbindE; clarsimp simp: require_eq_Inr plan_step_Inr lookup_Inr split: option.splits)+)
  obtain x pl' g' rest where p: "or_proposal r = propose ''STEP_OUTCOME_RECORDED'' t
      (cs @ [SetPlan k pl', SetGoal (pl_goal pl) g', SetAgent a (drop_task (task_id k i) ag)] @ rest)"
    and pl': "plan_like i (st\<lparr>st_status := x, st_completed := Some t, st_actual := Some actual\<rparr>) pl pl'"
    and x: "x \<in> {''SUCCEEDED'', ''FAILED''}" and g': "go_id g' = go_id g"
    and rest: "list_all (\<lambda>c. case c of SetOutcome _ _ \<Rightarrow> True | SetLearning _ _ \<Rightarrow> True | SetAlert _ _ \<Rightarrow> True | _ \<Rightarrow> False) rest"
    using conclude_shape [of k i oc' t reported actual sm' pay' pl st g a ag cs] unfolding r by blast
  obtain ps' where ps: "apply_changes cs s = s\<lparr>op_pools := ps'\<rparr>" "pool_effect (consume_resource (task_id k i)) (st_alloc st) (op_pools s) ps'"
    using change_pools_apply [OF c, of s] plans_wf_amounts [OF wf st(1,2)] by blast
  have q: "op_plans (apply_changes rest q) = op_plans q \<and> op_agents (apply_changes rest q) = op_agents q
      \<and> op_pools (apply_changes rest q) = op_pools q \<and> op_goals (apply_changes rest q) = op_goals q" for q
    using rest by (induction rest arbitrary: q) (auto split: change.splits)
  show ?thesis unfolding p
    by (rule ef_outcome [OF st x g _ pl' _ _ g'])
      (use ps q in simp_all)
qed

lemma cancel_effect:
  assumes wf: "plans_wf s" and "cancel_step E now pl0 i0 why ts s = Inr (p, al)"
  shows "effect s (after p s)"
proof -
  obtain k i pl st t cs g key where p: "p = propose ''STEP_CANCELLED'' t (cs @
      (case given (st_agent st) of None \<Rightarrow> []
         | Some a \<Rightarrow> (case dict_get (op_agents s) a of None \<Rightarrow> []
             | Some agent \<Rightarrow> [SetAgent a (drop_task (task_id k i) agent)])) @
      [SetPlan k ((put_step (st\<lparr>st_status := ''CANCELLED'', st_completed := Some t, st_cancelled := Some (py_strip why), st_alloc := []\<rparr>)
          i t pl)\<lparr>pl_status := ''NEEDS_REPLAN''\<rparr>),
       SetGoal (pl_goal pl) (g\<lparr>go_status := ''BLOCKED'', go_updated := t\<rparr>), SetAlert key al])"
    and st: "dict_get (op_plans s) k = Some pl" "dict_get (pl_steps pl) i = Some st"
      "st_status st \<notin> {''SUCCEEDED'', ''FAILED'', ''CANCELLED''}" "dict_get (op_goals s) (pl_goal pl) = Some g"
    and c: "change_pools (op_pools s) (release (task_id k i)) (st_alloc st) = Inr cs"
    using assms(2) unfolding cancel_step_def Let_def
    by ((elim rbindE; clarsimp simp: require_eq_Inr plan_step_Inr lookup_Inr)+)
  obtain ps' where ps: "apply_changes cs s = s\<lparr>op_pools := ps'\<rparr>" "pool_effect (release (task_id k i)) (st_alloc st) (op_pools s) ps'"
    using change_pools_apply [OF c, of s] plans_wf_amounts [OF wf st(1,2)] by blast
  have l: "plan_like i (st\<lparr>st_status := ''CANCELLED'', st_completed := Some t, st_cancelled := Some (py_strip why), st_alloc := []\<rparr>) pl
      ((put_step (st\<lparr>st_status := ''CANCELLED'', st_completed := Some t, st_cancelled := Some (py_strip why), st_alloc := []\<rparr>)
          i t pl)\<lparr>pl_status := ''NEEDS_REPLAN''\<rparr>)"
    by (simp add: plan_like_def put_step_def)
  have g: "go_id (g\<lparr>go_status := ''BLOCKED'', go_updated := t\<rparr>) = go_id g" by simp
  show ?thesis unfolding p
    by (rule ef_cancel [OF st _ l _ _ g]) (use ps in \<open>simp_all split: option.splits\<close>)
qed

lemma monitor_effect:
  assumes "record_monitoring_cycle E now ts s = Inr (p, als)"
  shows "effect s (after p s)"
proof -
  obtain t where p: "p = propose ''MONITORING_CYCLE_RECORDED'' t (map (\<lambda>a. SetAlert (alert_name a) a) als)"
    using assms by (auto simp: record_monitoring_cycle_def rbind_eq_Inr)
  have "op_plans (apply_changes (map (\<lambda>a. SetAlert (alert_name a) a) als) q) = op_plans q
      \<and> op_agents (apply_changes (map (\<lambda>a. SetAlert (alert_name a) a) als) q) = op_agents q
      \<and> op_pools (apply_changes (map (\<lambda>a. SetAlert (alert_name a) a) als) q) = op_pools q
      \<and> op_goals (apply_changes (map (\<lambda>a. SetAlert (alert_name a) a) als) q) = op_goals q" for q
    by (induction als arbitrary: q) auto
  then show ?thesis unfolding p by (intro ef_same) simp_all
qed

lemma observe_effect: "effect s (after (observation_proposal x t) s)"
  by (rule ef_same) (simp_all add: observation_proposal_def apply_change_def)

theorem ops_step_effect:
  assumes "ops_step E s p" and "plans_wf s"
  shows "effect s (after p s)"
  using assms
  by (induction rule: ops_step.induct)
    (blast intro: register_agent_effect set_agent_status_effect register_resource_pool_effect create_goal_effect
      transition_goal_effect create_plan_effect replan_effect allocate_effect assign_effect dispatch_effect
      start_effect outcome_effect cancel_effect monitor_effect observe_effect)+

section \<open>Well-formedness is kept\<close>

lemma map_dict_put_same:
  "dict_ok d \<Longrightarrow> dict_get d i = Some x \<Longrightarrow> f y = f x \<Longrightarrow>
     map (\<lambda>p. (fst p, f (snd p))) (dict_put i y d) = map (\<lambda>p. (fst p, f (snd p))) d"
proof (induction d)
  case (Cons p d)
  obtain k v where p: "p = (k, v)" by force
  have "\<not> i < k" if "i \<noteq> k"
  proof
    assume "i < k"
    moreover have "i \<in> fst ` set d" using Cons.prems(2) that p by (auto dest: map_of_SomeD simp: image_iff) (metis map_of_SomeD fst_conv)
    ultimately show False using Cons.prems(1) p by (auto simp: dict_ok_Cons)
  qed
  then show ?case using Cons p by (auto simp: dict_ok_Cons)
qed simp

definition step_states :: "string set" where
  "step_states = {''PENDING'', ''ASSIGNED'', ''RUNNING'', ''SUCCEEDED'', ''FAILED'', ''CANCELLED''}"

lemma plan_like_get: "plan_like i st p p' \<Longrightarrow> dict_get (pl_steps p') = (dict_get (pl_steps p))(i \<mapsto> st)"
  by (simp add: plan_like_def)

lemma plan_like_wf:
  assumes wf: "plan_wf p" and i: "dict_get (pl_steps p) i = Some st" and l: "step_like st st'"
    and a: "st_alloc st' \<in> {[], st_requests st'}" and x: "st_status st' \<in> step_states" and p': "plan_like i st' p p'"
  shows "plan_wf p'"
proof -
  have ok: "dict_ok (pl_steps p)" using wf by (simp add: plan_wf_def)
  have d: "step_deps p' = step_deps p"
    using map_dict_put_same [OF ok i, of st_deps st'] l p' by (simp add: plan_like_def step_like_def)
  have dom: "dom (dict_get (pl_steps p')) = dom (dict_get (pl_steps p))"
    using i p' by (auto simp: plan_like_get)
  have st: "step_wf p i st" using wf i by (simp add: plan_wf_def)
  have i': "step_wf p' i st'"
    using st l a x dom by (simp add: step_wf_def step_like_def step_states_def)
  have "step_wf p' j sj" if "dict_get (pl_steps p') j = Some sj" for j sj
  proof (cases "j = i")
    case True
    then show ?thesis using that i' p' by (simp add: plan_like_get)
  next
    case False
    then have "step_wf p j sj" using that wf p' by (simp add: plan_like_get plan_wf_def)
    then show ?thesis using dom by (simp add: step_wf_def)
  qed
  moreover have "pl_steps p' \<noteq> []" using dom i by auto
  moreover have "dict_ok (pl_steps p')" "pl_order p' = pl_order p" using ok p' by (simp_all add: plan_like_def)
  ultimately show ?thesis
    using wf dom d by (simp add: plan_wf_def)
qed

definition agent_wf :: "string \<Rightarrow> agent \<Rightarrow> bool" where
  "agent_wf a ag \<longleftrightarrow> ag_id ag = a \<and> a \<noteq> [] \<and> 1 \<le> ag_max ag \<and> ag_max ag \<le> 1000 \<and> int (length (ag_tasks ag)) \<le> ag_max ag
     \<and> distinct (ag_tasks ag)"

text \<open>
  The whole state is well formed: every table is a dictionary whose entries carry their keys,
  plans are well formed and serve registered goals, agents carry at most their maximum of
  distinct tasks.
\<close>

definition table_wf :: "(string \<Rightarrow> 'a \<Rightarrow> bool) \<Rightarrow> (string, 'a) dict \<Rightarrow> bool" where
  "table_wf P d \<longleftrightarrow> dict_ok d \<and> (\<forall>k x. dict_get d k = Some x \<longrightarrow> P k x)"

definition ops_wf :: "ops \<Rightarrow> bool" where
  "ops_wf s \<longleftrightarrow> table_wf (\<lambda>k p. pl_id p = k \<and> plan_wf p \<and> k \<noteq> [] \<and> pl_goal p \<in> dom (dict_get (op_goals s))) (op_plans s)
     \<and> table_wf (\<lambda>k g. go_id g = k) (op_goals s) \<and> table_wf agent_wf (op_agents s)
     \<and> table_wf (\<lambda>r q. po_id q = r) (op_pools s)"

lemma table_wf_put [simp]: "table_wf P d \<Longrightarrow> P k x \<Longrightarrow> table_wf P (dict_put k x d)"
  by (simp add: table_wf_def)

lemma table_wf_get: "table_wf P d \<Longrightarrow> dict_get d k = Some x \<Longrightarrow> P k x"
  by (simp add: table_wf_def)

lemma table_wf_mono: "table_wf P d \<Longrightarrow> (\<And>k x. P k x \<Longrightarrow> Q k x) \<Longrightarrow> table_wf Q d"
  by (simp add: table_wf_def)

lemma ops_wf_plan:
  "ops_wf s \<Longrightarrow> dict_get (op_plans s) k = Some p \<Longrightarrow>
     pl_id p = k \<and> plan_wf p \<and> k \<noteq> [] \<and> pl_goal p \<in> dom (dict_get (op_goals s))"
  by (simp add: ops_wf_def table_wf_def)

lemma ops_wf_agent: "ops_wf s \<Longrightarrow> dict_get (op_agents s) a = Some ag \<Longrightarrow> agent_wf a ag"
  by (simp add: ops_wf_def table_wf_def)

lemma ops_wf_goal: "ops_wf s \<Longrightarrow> dict_get (op_goals s) k = Some g \<Longrightarrow> go_id g = k"
  by (simp add: ops_wf_def table_wf_def)

lemma ops_wf_plans: "ops_wf s \<Longrightarrow> plans_wf s"
  by (simp add: ops_wf_def plans_wf_def table_wf_def)

lemma take_task_wf: "agent_wf a ag \<Longrightarrow> has_room ag \<Longrightarrow> agent_wf a (take_task t ag)"
proof -
  assume a: "agent_wf a ag" "has_room ag"
  have "length (sorted_set (ag_tasks ag @ [t])) \<le> Suc (length (ag_tasks ag))"
    using length_remdups_leq [of "ag_tasks ag @ [t]"] by (simp add: sorted_set_def)
  then show ?thesis using a by (simp add: agent_wf_def has_room_def take_task_def agent_load_def)
qed

lemma drop_task_wf: "agent_wf a ag \<Longrightarrow> agent_wf a (drop_task t ag)"
proof -
  have l: "int (length (filter (\<lambda>x. x \<noteq> t) (ag_tasks ag))) \<le> int (length (ag_tasks ag))" by simp
  show "agent_wf a ag \<Longrightarrow> ?thesis"
    unfolding agent_wf_def drop_task_def agent_load_def Let_def by (auto intro: order_trans [OF l])
qed

lemma pool_effect_table:
  assumes "pool_effect f amts ps ps'" and "\<And>x q. po_id (f x q) = po_id q"
    and "table_wf (\<lambda>r q. po_id q = r) ps"
  shows "table_wf (\<lambda>r q. po_id q = r) ps'"
  using assms by (fastforce simp: pool_effect_def table_wf_def split: option.splits)

lemma pool_ops_id [simp]:
  "po_id (reserve t x q) = po_id q" "po_id (release t x q) = po_id q" "po_id (consume_resource t x q) = po_id q"
  by (simp_all add: reserve_def release_def consume_resource_def Let_def)

text \<open>A step of a stored plan replaced.\<close>

lemma plans_table_like:
  assumes t: "table_wf (\<lambda>k p. pl_id p = k \<and> plan_wf p \<and> k \<noteq> [] \<and> pl_goal p \<in> G) d" and k: "dict_get d k = Some p"
    and i: "dict_get (pl_steps p) i = Some st" and l: "step_like st st'"
    and a: "st_alloc st' \<in> {[], st_requests st'}" and x: "st_status st' \<in> step_states" and p': "plan_like i st' p p'"
  shows "table_wf (\<lambda>k p. pl_id p = k \<and> plan_wf p \<and> k \<noteq> [] \<and> pl_goal p \<in> G) (dict_put k p' d)"
  using table_wf_get [OF t k] plan_like_wf [OF _ i l a x p'] p' t by (simp add: plan_like_def)

lemma step_alloc_wf:
  "ops_wf s \<Longrightarrow> dict_get (op_plans s) k = Some p \<Longrightarrow> dict_get (pl_steps p) i = Some st \<Longrightarrow>
     st_alloc st \<in> {[], st_requests st}"
  using plans_wfD(5) [OF ops_wf_plans] by (auto simp: step_wf_def)

theorem effect_wf:
  assumes "effect s s'" and "ops_wf s"
  shows "ops_wf s'"
  using assms
proof (induction rule: effect.induct)
  case (ef_agent s a ag a0 s')
  then show ?case using ops_identifier_nonempty by (auto simp: ops_wf_def agent_wf_def)
next
  case (ef_status s a ag s' x)
  then have "agent_wf a (ag\<lparr>ag_status := x\<rparr>)" by (auto simp: ops_wf_def agent_wf_def dest: table_wf_get)
  with ef_status show ?case by (simp add: ops_wf_def)
next
  case (ef_goal s k g s')
  have "go_id g = k" using ef_goal by (cases "dict_get (op_goals s) k") (auto simp: ops_wf_def dest: table_wf_get)
  with ef_goal show ?case by (auto simp: ops_wf_def elim: table_wf_mono)
next
  case (ef_plan p s p0 g s' x t)
  have "go_id g = pl_goal p" using ef_plan by (auto simp: ops_wf_def dest: table_wf_get)
  with ef_plan show ?case
    using ops_identifier_nonempty [OF ef_plan(3)]
    by (auto simp: ops_wf_def plan_fresh_def elim!: table_wf_mono intro!: table_wf_put)
next
  case (ef_replan p s p0 g k old old' t y s' x)
  have g: "go_id g = pl_goal p" using ef_replan by (auto simp: ops_wf_def dest: table_wf_get)
  have o: "pl_id old = k \<and> plan_wf old \<and> k \<noteq> [] \<and> pl_goal old \<in> dom (dict_get (op_goals s))"
    by (rule ops_wf_plan [OF ef_replan.prems ef_replan(5)])
  then have "plan_wf old'" using ef_replan(7) by (simp add: plan_wf_def step_wf_def)
  with ef_replan g o show ?case
    using ops_identifier_nonempty [OF ef_replan(3)]
    by (auto simp: ops_wf_def plan_fresh_def elim!: table_wf_mono intro!: table_wf_put)
next
  case (ef_allocate s k p i st s' p')
  have "table_wf (\<lambda>k p. pl_id p = k \<and> plan_wf p \<and> k \<noteq> [] \<and> pl_goal p \<in> dom (dict_get (op_goals s))) (dict_put k p' (op_plans s))"
    by (rule plans_table_like [OF _ ef_allocate(1,2) _ _ _ ef_allocate(9)])
      (use ef_allocate in \<open>simp_all add: ops_wf_def step_like_def step_states_def\<close>)
  with ef_allocate show ?case by (auto simp: ops_wf_def dest: pool_effect_table)
next
  case (ef_assign s k p i st a ag amts s' t p')
  have "table_wf (\<lambda>k p. pl_id p = k \<and> plan_wf p \<and> k \<noteq> [] \<and> pl_goal p \<in> dom (dict_get (op_goals s))) (dict_put k p' (op_plans s))"
    by (rule plans_table_like [OF _ ef_assign(1,2) _ _ _ ef_assign(12)])
      (use ef_assign in \<open>simp_all add: ops_wf_def step_like_def step_states_def\<close>)
  with ef_assign show ?case by (auto simp: ops_wf_def dest: pool_effect_table table_wf_get intro!: table_wf_put take_task_wf)
next
  case (ef_start s k p i st t p' s')
  have "table_wf (\<lambda>k p. pl_id p = k \<and> plan_wf p \<and> k \<noteq> [] \<and> pl_goal p \<in> dom (dict_get (op_goals s))) (dict_put k p' (op_plans s))"
    by (rule plans_table_like [OF _ ef_start(1,2) _ _ _ ef_start(4)])
      (use ef_start step_alloc_wf [OF ef_start.prems ef_start(1,2)] in \<open>simp_all add: ops_wf_def step_like_def step_states_def\<close>)
  with ef_start show ?case by (simp add: ops_wf_def)
next
  case (ef_outcome s k p i st a ag x g s' t y p' g')
  have "table_wf (\<lambda>k p. pl_id p = k \<and> plan_wf p \<and> k \<noteq> [] \<and> pl_goal p \<in> dom (dict_get (op_goals s))) (dict_put k p' (op_plans s))"
    by (rule plans_table_like [OF _ ef_outcome(1,2) _ _ _ ef_outcome(9)])
      (use ef_outcome step_alloc_wf [OF ef_outcome.prems ef_outcome(1,2)] in \<open>auto simp: ops_wf_def step_like_def step_states_def\<close>)
  moreover have "go_id g = pl_goal p" using ef_outcome by (auto simp: ops_wf_def dest: table_wf_get)
  ultimately show ?case using ef_outcome
    by (auto simp: ops_wf_def dest: pool_effect_table table_wf_get intro!: table_wf_put drop_task_wf elim: table_wf_mono)
next
  case (ef_cancel s k p i st g s' t y p' g')
  have "table_wf (\<lambda>k p. pl_id p = k \<and> plan_wf p \<and> k \<noteq> [] \<and> pl_goal p \<in> dom (dict_get (op_goals s))) (dict_put k p' (op_plans s))"
    by (rule plans_table_like [OF _ ef_cancel(1,2) _ _ _ ef_cancel(6)])
      (use ef_cancel in \<open>simp_all add: ops_wf_def step_like_def step_states_def\<close>)
  moreover have "go_id g = pl_goal p" using ef_cancel by (auto simp: ops_wf_def dest: table_wf_get)
  moreover have "table_wf agent_wf (op_agents s')" using ef_cancel
    by (auto simp: ops_wf_def dest: table_wf_get intro!: table_wf_put drop_task_wf split: option.splits)
  ultimately show ?case using ef_cancel
    by (auto simp: ops_wf_def dest: pool_effect_table elim: table_wf_mono)
qed (simp_all add: ops_wf_def)

lemma operational_state_wf: "ops_wf (operational_state t)"
  by (simp add: ops_wf_def table_wf_def operational_state_def)

lemma ops_run_wf: "ops_run E s \<Longrightarrow> ops_wf s"
  by (induction rule: ops_run.induct) (auto intro: operational_state_wf effect_wf ops_step_effect ops_wf_plans)

end
