(* ===== verification/ControlProps.thy ===== *)
theory ControlProps
  imports ControlInv
begin

text \<open>
  What the control plane guarantees on every run: well-formed state, work only after its
  dependencies, agents within their load and answerable for exactly their steps, and the exact
  results of its queries.
\<close>

section \<open>Type and order of work\<close>

text \<open>
  C18. Every state the control plane reaches is well formed: keys agree with identifiers, plans
  have distinct known steps in a topological order and serve registered goals, step states are
  the documented ones, a step holds nothing or exactly what it requested, and an agent has a
  maximum between 1 and 1000 and never more tasks than that.
\<close>

theorem control_state_well_formed:
  assumes "ops_run E s"
  shows "ops_wf s"
  using assms by (rule ops_run_wf)

definition started_states :: "string set" where
  "started_states = {''ASSIGNED'', ''RUNNING'', ''SUCCEEDED'', ''FAILED''}"

text \<open>Steps that have started have all their dependencies behind them, and hold their agent and resources.\<close>

definition started_ok :: "ops \<Rightarrow> bool" where
  "started_ok s \<longleftrightarrow> (\<forall>k p i st. dict_get (op_plans s) k = Some p \<longrightarrow> dict_get (pl_steps p) i = Some st \<longrightarrow>
     (st_status st \<in> started_states \<longrightarrow> all_done p st \<and> st_alloc st = st_requests st)
     \<and> (st_status st \<in> {''ASSIGNED'', ''RUNNING''} \<longrightarrow>
         (\<exists>a ag. st_agent st = Some a \<and> a \<noteq> [] \<and> dict_get (op_agents s) a = Some ag)))"

lemma all_done_like:
  assumes "plan_like i st' p p'" and "dict_get (pl_steps p) i = Some st" and "st_status st \<noteq> ''SUCCEEDED''"
    and "all_done p x" and "st_deps x' = st_deps x"
  shows "all_done p' x'"
  using assms unfolding all_done_def plan_like_def by (auto simp: fun_upd_def)

text \<open>One step of one plan changes, agents are only added or kept: what has to be shown of the step.\<close>

lemma started_ok_like:
  assumes ok: "started_ok s" and k: "dict_get (op_plans s) k = Some p" and i: "dict_get (pl_steps p) i = Some st"
    and n: "st_status st \<noteq> ''SUCCEEDED''" and p': "plan_like i st' p p'" "op_plans s' = dict_put k p' (op_plans s)"
    and ag: "dom (dict_get (op_agents s)) \<subseteq> dom (dict_get (op_agents s'))"
    and new: "st_status st' \<in> started_states \<Longrightarrow> st_deps st' = st_deps st \<and> all_done p st \<and> st_alloc st' = st_requests st'"
      "st_status st' \<in> {''ASSIGNED'', ''RUNNING''} \<Longrightarrow> \<exists>a. st_agent st' = Some a \<and> a \<noteq> [] \<and> a \<in> dom (dict_get (op_agents s'))"
  shows "started_ok s'"
  unfolding started_ok_def
proof (intro allI impI)
  fix k' q j sj
  assume q: "dict_get (op_plans s') k' = Some q" and j: "dict_get (pl_steps q) j = Some sj"
  show "(st_status sj \<in> started_states \<longrightarrow> all_done q sj \<and> st_alloc sj = st_requests sj)
      \<and> (st_status sj \<in> {''ASSIGNED'', ''RUNNING''} \<longrightarrow>
         (\<exists>a ag. st_agent sj = Some a \<and> a \<noteq> [] \<and> dict_get (op_agents s') a = Some ag))"
  proof (cases "k' = k \<and> j = i")
    case True
    then have "q = p'" "sj = st'" using q j p' by (auto simp: plan_like_def)
    then show ?thesis using new all_done_like [OF p'(1) i n, of st st'] by blast
  next
    case False
    have "\<exists>q0. dict_get (op_plans s) k' = Some q0 \<and> dict_get (pl_steps q0) j = Some sj \<and> (all_done q0 sj \<longrightarrow> all_done q sj)"
    proof (cases "k' = k")
      case True
      then have "q = p'" "dict_get (pl_steps p) j = Some sj" using False q j p' by (auto simp: plan_like_def)
      then show ?thesis using True k all_done_like [OF p'(1) i n, of sj sj] by simp
    next
      case False
      then show ?thesis using q j p'(2) by simp
    qed
    then show ?thesis using ok ag unfolding started_ok_def by (meson domD domI subsetD)
  qed
qed

lemma started_ok_same:
  assumes "started_ok s" and "op_plans s' = op_plans s" and "dom (dict_get (op_agents s)) \<subseteq> dom (dict_get (op_agents s'))"
  shows "started_ok s'"
proof -
  have a: "\<exists>ag'. dict_get (op_agents s') a = Some ag'" if "dict_get (op_agents s) a = Some ag" for a ag
    using assms(3) that by blast
  show ?thesis using assms(1) a unfolding started_ok_def assms(2) by fast
qed

lemma plan_fresh_ok: "plan_fresh p \<Longrightarrow> dict_get (pl_steps p) i = Some st \<Longrightarrow> st_status st = ''PENDING''"
  by (simp add: plan_fresh_def)

theorem effect_started:
  assumes "effect s s'" and "ops_wf s" and "started_ok s"
  shows "started_ok s'"
  using assms
proof (induction rule: effect.induct)
  case (ef_plan p s p0 g s' x t)
  then show ?case by (auto simp: started_ok_def started_states_def plan_fresh_ok)
next
  case (ef_replan p s p0 g k old old' t y s' x)
  have "all_done old' st = all_done old st" for st using ef_replan(7) by (simp add: all_done_def)
  with ef_replan show ?case by (auto simp: started_ok_def started_states_def plan_fresh_ok)
next
  case (ef_allocate s k p i st s' p')
  then show ?case
    by (intro started_ok_like [OF ef_allocate.prems(2) ef_allocate(1,2) _ ef_allocate(9,10)])
      (simp_all add: started_states_def)
next
  case (ef_assign s k p i st a ag amts s' t p')
  then show ?case
    by (intro started_ok_like [OF ef_assign.prems(2) ef_assign(1,2) _ ef_assign(12,13)])
      auto
next
  case (ef_start s k p i st t p' s')
  have "all_done p st \<and> st_alloc st = st_requests st \<and> (\<exists>a ag. st_agent st = Some a \<and> a \<noteq> [] \<and> dict_get (op_agents s) a = Some ag)"
    using ef_start.prems(2) ef_start(1,2,3) unfolding started_ok_def started_states_def by blast
  with ef_start show ?case
    by (intro started_ok_like [OF ef_start.prems(2) ef_start(1,2) _ ef_start(4,5)]) auto
next
  case (ef_outcome s k p i st a ag x g s' t y p' g')
  have "all_done p st \<and> st_alloc st = st_requests st"
    using ef_outcome.prems(2) ef_outcome(1,2,3) unfolding started_ok_def started_states_def by blast
  with ef_outcome show ?case
    by (intro started_ok_like [OF ef_outcome.prems(2) ef_outcome(1,2) _ ef_outcome(9,10)]) auto
next
  case (ef_cancel s k p i st g s' t y p' g')
  then show ?case
    by (intro started_ok_like [OF ef_cancel.prems(2) ef_cancel(1,2) _ ef_cancel(6,7)])
      (auto simp: started_states_def split: option.splits)
qed (auto intro: started_ok_same)

lemma ops_run_started: "ops_run E s \<Longrightarrow> started_ok s"
proof (induction rule: ops_run.induct)
  case (or_step s p)
  have wf: "ops_wf s" using or_step(1) by (rule ops_run_wf)
  show ?case by (rule effect_started [OF ops_step_effect [OF or_step(2) ops_wf_plans [OF wf]] wf or_step.IH])
qed (simp add: started_ok_def operational_state_def)

text \<open>
  C19. Work starts only after what it depends on: in every reachable state, a step that is
  assigned, running, succeeded or failed has every dependency succeeded, and so stands after
  them in the plan's order; one that is assigned or running is bound to a registered agent and
  holds exactly the resources it requested.
\<close>

theorem work_follows_dependencies:
  assumes "ops_run E s" and "dict_get (op_plans s) k = Some p" and "dict_get (pl_steps p) i = Some st"
    and "st_status st \<in> started_states"
  shows "(\<forall>d \<in> set (st_deps st). \<exists>x. dict_get (pl_steps p) d = Some x \<and> st_status x = ''SUCCEEDED'')
    \<and> st_alloc st = st_requests st
    \<and> (st_status st \<in> {''ASSIGNED'', ''RUNNING''} \<longrightarrow>
         (\<exists>a ag. st_agent st = Some a \<and> dict_get (op_agents s) a = Some ag))"
  using ops_run_started [OF assms(1)] assms(2-4) unfolding started_ok_def all_done_def by blast

section \<open>Agents answer for exactly their steps\<close>

text \<open>
  A task's key joins the identifiers of its plan and its step with a colon, and either may hold a
  colon itself: \<open>a:b\<close> with \<open>c\<close> and \<open>a\<close> with \<open>b:c\<close> share the key \<open>a:b:c\<close>. Agents and pools name a
  step by its key only, so what follows is about states in which no two steps share one.
\<close>

definition step_keys :: "ops \<Rightarrow> (string \<times> string) set" where
  "step_keys s = {(k, i). \<exists>p st. dict_get (op_plans s) k = Some p \<and> dict_get (pl_steps p) i = Some st}"

definition keys_apart :: "ops \<Rightarrow> bool" where
  "keys_apart s \<longleftrightarrow> inj_on (\<lambda>(k, i). task_id k i) (step_keys s)"

lemma task_id_inject:
  assumes "CHR '':'' \<notin> set k" "CHR '':'' \<notin> set l"
  shows "task_id k i = task_id l j \<longleftrightarrow> k = l \<and> i = j"
  using assms
proof (induction k arbitrary: l)
  case Nil
  then show ?case by (cases l) (auto simp: task_id_def)
next
  case (Cons c k)
  then show ?case by (cases l) (auto simp: task_id_def)
qed

text \<open>Plan identifiers without a colon are enough.\<close>

lemma colon_free_apart: "(\<And>k. k \<in> dom (dict_get (op_plans s)) \<Longrightarrow> CHR '':'' \<notin> set k) \<Longrightarrow> keys_apart s"
  by (fastforce simp: keys_apart_def inj_on_def step_keys_def task_id_inject domIff)

lemma keys_apartD:
  assumes "keys_apart s" "dict_get (op_plans s) k = Some p" "dict_get (pl_steps p) i = Some st"
    "dict_get (op_plans s) l = Some q" "dict_get (pl_steps q) j = Some sj" "task_id k i = task_id l j"
  shows "k = l \<and> i = j"
  using inj_onD [OF assms(1) [unfolded keys_apart_def], of "(k, i)" "(l, j)"] assms(2-6)
  by (auto simp: step_keys_def)

definition active_for :: "string \<Rightarrow> step \<Rightarrow> bool" where
  "active_for a st \<longleftrightarrow> st_status st \<in> {''ASSIGNED'', ''RUNNING''} \<and> st_agent st = Some a"

definition tasks_of :: "ops \<Rightarrow> string \<Rightarrow> string set" where
  "tasks_of s a = {task_id k i | k p i st. dict_get (op_plans s) k = Some p \<and> dict_get (pl_steps p) i = Some st \<and> active_for a st}"

definition tasks_ok :: "ops \<Rightarrow> bool" where
  "tasks_ok s \<longleftrightarrow> (\<forall>a ag. dict_get (op_agents s) a = Some ag \<longrightarrow> set (ag_tasks ag) = tasks_of s a)"

text \<open>No step is ever removed, so keys that are apart now were apart all along.\<close>

lemma step_keys_like:
  assumes "dict_get (op_plans s) k = Some p" and "dict_get (pl_steps p) i = Some st"
    and "plan_like i st' p p'" "op_plans s' = dict_put k p' (op_plans s)"
  shows "step_keys s' = step_keys s"
  using assms by (auto simp: step_keys_def plan_like_def split: if_splits)

lemma effect_step_keys: "effect s s' \<Longrightarrow> step_keys s \<subseteq> step_keys s'"
proof (induction rule: effect.induct)
  case (ef_plan p s p0 g s' x t)
  then show ?case by (auto simp: step_keys_def)
next
  case (ef_replan p s p0 g k old old' t y s' x)
  then show ?case by (auto simp: step_keys_def)
next
  case (ef_allocate s k p i st s' p')
  then show ?case using step_keys_like [OF ef_allocate(1,2,9,10)] by simp
next
  case (ef_assign s k p i st a ag amts s' t p')
  then show ?case using step_keys_like [OF ef_assign(1,2,12,13)] by simp
next
  case (ef_start s k p i st t p' s')
  then show ?case using step_keys_like [OF ef_start(1,2,4,5)] by simp
next
  case (ef_outcome s k p i st a ag x g s' t y p' g')
  then show ?case using step_keys_like [OF ef_outcome(1,2,9,10)] by simp
next
  case (ef_cancel s k p i st g s' t y p' g')
  then show ?case using step_keys_like [OF ef_cancel(1,2,6,7)] by simp
qed (simp_all add: step_keys_def)

lemma effect_keys_apart: "effect s s' \<Longrightarrow> keys_apart s' \<Longrightarrow> keys_apart s"
  unfolding keys_apart_def by (rule inj_on_subset [OF _ effect_step_keys])

lemma keys_apart_like:
  assumes "keys_apart s" and "dict_get (op_plans s) k = Some p" and "dict_get (pl_steps p) i = Some st"
    and "plan_like i st' p p'" "op_plans s' = dict_put k p' (op_plans s)"
  shows "keys_apart s'"
  using assms(1) by (simp add: keys_apart_def step_keys_like [OF assms(2-5)])

lemma tasks_of_mem:
  assumes "keys_apart s" "dict_get (op_plans s) k = Some p" "dict_get (pl_steps p) i = Some st"
  shows "task_id k i \<in> tasks_of s a \<longleftrightarrow> active_for a st"
proof
  assume "task_id k i \<in> tasks_of s a"
  then obtain l q j sj where q: "task_id k i = task_id l j" "dict_get (op_plans s) l = Some q"
    "dict_get (pl_steps q) j = Some sj" "active_for a sj"
    unfolding tasks_of_def by blast
  then have "k = l \<and> i = j" using keys_apartD [OF assms] by blast
  with q assms show "active_for a st" by simp
qed (use assms in \<open>auto simp: tasks_of_def\<close>)

lemma tasks_of_like:
  assumes cf: "keys_apart s" and k: "dict_get (op_plans s) k = Some p" and i: "dict_get (pl_steps p) i = Some st"
    and p': "plan_like i st' p p'" "op_plans s' = dict_put k p' (op_plans s)"
  shows "tasks_of s' a = (if active_for a st' then insert (task_id k i) (tasks_of s a) else tasks_of s a - {task_id k i})"
proof -
  have cf': "keys_apart s'" by (rule keys_apart_like [OF cf k i p'])
  have k': "dict_get (op_plans s') k = Some p'" "dict_get (pl_steps p') i = Some st'"
    using p' by (simp_all add: plan_like_def)
  have "x \<in> tasks_of s' a \<longleftrightarrow> x \<in> tasks_of s a" if "x \<noteq> task_id k i" for x
  proof -
    have "(\<exists>q sj. dict_get (op_plans s') l = Some q \<and> dict_get (pl_steps q) j = Some sj \<and> active_for a sj) \<longleftrightarrow>
        (\<exists>q sj. dict_get (op_plans s) l = Some q \<and> dict_get (pl_steps q) j = Some sj \<and> active_for a sj)"
      if "x = task_id l j" for l j
      using that \<open>x \<noteq> task_id k i\<close> p' k by (cases "l = k") (auto simp: plan_like_def)
    then show ?thesis unfolding tasks_of_def by blast
  qed
  then have "tasks_of s' a - {task_id k i} = tasks_of s a - {task_id k i}" by blast
  then show ?thesis
    using tasks_of_mem [OF cf' k', of a] by (cases "active_for a st'") (auto simp: insert_absorb)
qed

lemma tasks_ok_put:
  assumes "tasks_ok s" and "tasks_of s' = (tasks_of s)(a := set (ag_tasks ag'))" and "op_agents s' = dict_put a ag' (op_agents s)"
  shows "tasks_ok s'"
  using assms by (auto simp: tasks_ok_def)

lemma take_task_tasks: "set (ag_tasks (take_task t ag)) = insert t (set (ag_tasks ag))"
  by (simp add: take_task_def agent_load_def)

lemma drop_task_tasks: "set (ag_tasks (drop_task t ag)) = set (ag_tasks ag) - {t}"
  by (auto simp: drop_task_def agent_load_def Let_def)

lemma active_registered:
  assumes "started_ok s" "dict_get (op_plans s) k = Some p" "dict_get (pl_steps p) i = Some st" "active_for a st"
  shows "a \<noteq> [] \<and> (\<exists>ag. dict_get (op_agents s) a = Some ag)"
proof -
  have "\<exists>b ag. st_agent st = Some b \<and> b \<noteq> [] \<and> dict_get (op_agents s) b = Some ag"
    using assms unfolding started_ok_def active_for_def by blast
  then show ?thesis using assms(4) by (auto simp: active_for_def)
qed

text \<open>A plan whose steps all wait adds no task.\<close>

lemma tasks_of_mono:
  assumes "\<And>k p i st. dict_get (op_plans s') k = Some p \<Longrightarrow> dict_get (pl_steps p) i = Some st \<Longrightarrow> active_for a st \<Longrightarrow>
      \<exists>q. dict_get (op_plans s) k = Some q \<and> dict_get (pl_steps q) i = Some st"
  shows "tasks_of s' a \<subseteq> tasks_of s a"
  using assms unfolding tasks_of_def by blast

lemma plan_fresh_idle: "plan_fresh p \<Longrightarrow> dict_get (pl_steps p) i = Some st \<Longrightarrow> \<not> active_for a st"
  by (auto simp: active_for_def dest: plan_fresh_ok)

lemma effect_tasks:
  assumes "effect s s'" and "ops_wf s" and "started_ok s" and "tasks_ok s" and "keys_apart s'"
  shows "tasks_ok s'"
  using assms
proof (induction rule: effect.induct)
  case (ef_same s' s)
  then show ?case by (simp add: tasks_ok_def tasks_of_def)
next
  case (ef_agent s a ag a0 s')
  have "\<not> active_for a st" if "dict_get (op_plans s) k = Some p" "dict_get (pl_steps p) i = Some st" for k p i st
    using active_registered [OF ef_agent.prems(2) that, of a] ef_agent(1) by auto
  then have "tasks_of s' a = {}" using ef_agent(8) unfolding tasks_of_def by auto
  moreover have "tasks_of s' = tasks_of s" using ef_agent by (simp add: tasks_of_def fun_eq_iff)
  ultimately show ?case using ef_agent by (auto simp: tasks_ok_def)
next
  case (ef_status s a ag s' x)
  then show ?case by (auto simp: tasks_ok_def tasks_of_def)
next
  case (ef_pool s r p s')
  then show ?case by (simp add: tasks_ok_def tasks_of_def)
next
  case (ef_goal s k g s')
  then show ?case by (simp add: tasks_ok_def tasks_of_def)
next
  case (ef_plan p s p0 g s' x t)
  have "tasks_of s' = tasks_of s"
    by (intro ext equalityI tasks_of_mono) (use ef_plan(1,2,5) plan_fresh_idle in \<open>auto split: if_splits\<close>)
  then show ?case using ef_plan by (simp add: tasks_ok_def)
next
  case (ef_replan p s p0 g k old old' t y s' x)
  have "tasks_of s' = tasks_of s"
    by (intro ext equalityI tasks_of_mono) (use ef_replan(1,2,5,7,8) plan_fresh_idle in \<open>auto split: if_splits\<close>)
  then show ?case using ef_replan by (simp add: tasks_ok_def)
next
  case (ef_allocate s k p i st s' p')
  have cf: "keys_apart s" by (rule effect_keys_apart [OF effect.ef_allocate [OF ef_allocate(1-12)] ef_allocate.prems(4)])
  have "tasks_of s' = tasks_of s"
    using tasks_of_like [OF cf ef_allocate(1,2,9,10)] tasks_of_mem [OF cf ef_allocate(1,2)] ef_allocate(4)
    by (auto simp: fun_eq_iff active_for_def)
  then show ?case using ef_allocate by (simp add: tasks_ok_def)
next
  case (ef_assign s k p i st a ag amts s' t p')
  have cf: "keys_apart s" by (rule effect_keys_apart [OF effect.ef_assign [OF ef_assign(1-15)] ef_assign.prems(4)])
  have "tasks_of s' = (tasks_of s)(a := insert (task_id k i) (set (ag_tasks ag)))"
    using tasks_of_like [OF cf ef_assign(1,2,12,13)] tasks_of_mem [OF cf ef_assign(1,2)] ef_assign(4,6) ef_assign.prems(3)
    by (auto simp: fun_eq_iff active_for_def tasks_ok_def)
  then show ?case
    by (intro tasks_ok_put [OF ef_assign.prems(3) _ ef_assign(14)]) (simp add: take_task_tasks)
next
  case (ef_start s k p i st t p' s')
  have cf: "keys_apart s" by (rule effect_keys_apart [OF effect.ef_start [OF ef_start(1-8)] ef_start.prems(4)])
  have "tasks_of s' = tasks_of s"
    using tasks_of_like [OF cf ef_start(1,2,4,5)] tasks_of_mem [OF cf ef_start(1,2)] ef_start(3)
    by (auto simp: fun_eq_iff active_for_def)
  then show ?case using ef_start by (simp add: tasks_ok_def)
next
  case (ef_outcome s k p i st a ag x g s' t y p' g')
  have cf: "keys_apart s" by (rule effect_keys_apart [OF effect.ef_outcome [OF ef_outcome(1-13)] ef_outcome.prems(4)])
  have "tasks_of s' = (tasks_of s)(a := set (ag_tasks ag) - {task_id k i})"
    using tasks_of_like [OF cf ef_outcome(1,2,9,10)] tasks_of_mem [OF cf ef_outcome(1,2)] ef_outcome(3,4,5,6) ef_outcome.prems(3)
    by (auto simp: fun_eq_iff active_for_def tasks_ok_def)
  then show ?case
    by (intro tasks_ok_put [OF ef_outcome.prems(3) _ ef_outcome(11)]) (simp add: drop_task_tasks)
next
  case (ef_cancel s k p i st g s' t y p' g')
  have cf: "keys_apart s" by (rule effect_keys_apart [OF effect.ef_cancel [OF ef_cancel(1-10)] ef_cancel.prems(4)])
  have t: "tasks_of s' b = tasks_of s b - {task_id k i}" for b
    using tasks_of_like [OF cf ef_cancel(1,2,6,7)] by (simp add: active_for_def)
  show ?case
  proof (cases "given (st_agent st)")
    case None
    then have "\<not> active_for b st" for b
      using active_registered [OF ef_cancel.prems(2) ef_cancel(1,2), of b]
      by (auto simp: active_for_def given_def split: option.splits if_splits)
    then have "tasks_of s' = tasks_of s" using t tasks_of_mem [OF cf ef_cancel(1,2)] by auto
    then show ?thesis using ef_cancel None by (simp add: tasks_ok_def)
  next
    case (Some a)
    then have a: "st_agent st = Some a" by (auto simp: given_def split: option.splits if_splits)
    have o: "tasks_of s' b = tasks_of s b" if "b \<noteq> a" for b
      using t [of b] tasks_of_mem [OF cf ef_cancel(1,2), of b] a that by (auto simp: active_for_def)
    show ?thesis
    proof (cases "dict_get (op_agents s) a")
      case None
      then show ?thesis
        using ef_cancel.prems(3) Some ef_cancel(8) o unfolding tasks_ok_def by (metis option.distinct(1) option.simps(4) option.simps(5))
    next
      case (Some ag)
      have "tasks_of s' = (tasks_of s)(a := set (ag_tasks ag) - {task_id k i})"
        using t o ef_cancel.prems(3) Some by (auto simp: fun_eq_iff tasks_ok_def)
      then show ?thesis
        using Some \<open>given (st_agent st) = Some a\<close> ef_cancel(8)
        by (intro tasks_ok_put [OF ef_cancel.prems(3)]) (simp_all add: drop_task_tasks)
    qed
  qed
qed

lemma ops_run_tasks: "ops_run E s \<Longrightarrow> keys_apart s \<Longrightarrow> tasks_ok s"
proof (induction rule: ops_run.induct)
  case (or_step s p)
  have wf: "ops_wf s" using or_step(1) by (rule ops_run_wf)
  have e: "effect s (after p s)" by (rule ops_step_effect [OF or_step(2) ops_wf_plans [OF wf]])
  show ?case
    using effect_tasks [OF e wf ops_run_started [OF or_step(1)] or_step.IH [OF effect_keys_apart [OF e or_step.prems]] or_step.prems] .
qed (simp add: tasks_ok_def operational_state_def)

text \<open>
  C20. An agent's task list is exact, in every reachable state in which no two steps have the same
  task key: the tasks of a registered agent are, without repetition, the keys of the steps
  assigned to it or being run by it, and there are never more than its maximum. (Two steps with
  one key share one entry, and finishing the one drops the task of the other; plan identifiers
  without a colon exclude it.)
\<close>

theorem agent_tasks_exact:
  assumes "ops_run E s" and "keys_apart s" and "dict_get (op_agents s) a = Some ag"
  shows "set (ag_tasks ag) = tasks_of s a \<and> distinct (ag_tasks ag) \<and> int (card (tasks_of s a)) \<le> ag_max ag"
proof -
  have "set (ag_tasks ag) = tasks_of s a" using ops_run_tasks [OF assms(1,2)] assms(3) by (simp add: tasks_ok_def)
  moreover have "agent_wf a ag" by (rule ops_wf_agent [OF ops_run_wf [OF assms(1)] assms(3)])
  ultimately show ?thesis using distinct_card [of "ag_tasks ag"] by (simp add: agent_wf_def)
qed

end
