(* ===== verification/FloatOrder.thy ===== *)
theory FloatOrder
  imports PyFloat
begin

text \<open>
  Rounding respects the order of the rationals that are not negative, and what this gives for sums:
  adding a tolerance below one half to a whole number stays below the next one.
\<close>

lemma pow2_nonneg [simp]: "0 \<le> pow2 e"
  by (simp add: less_imp_le)

lemma pow2_powi: "pow2 e = 2 powi e"
  by (simp add: pow2_def power_int_def field_simps)

lemma pow2_less_iff [simp]: "pow2 a < pow2 b \<longleftrightarrow> a < b"
proof -
  have "pow2 a < pow2 b" if "a < b" for a b
    using that unfolding pow2_powi by (intro power_int_strict_increasing) simp_all
  then show ?thesis by (metis less_irrefl linorder_less_linear order_less_trans)
qed

lemma pow2_le_iff [simp]: "pow2 a \<le> pow2 b \<longleftrightarrow> a \<le> b"
  using pow2_less_iff [of b a] by (simp add: not_less [symmetric])

lemma pow2_add: "pow2 (a + b) = pow2 a * pow2 b"
  unfolding pow2_powi by (simp add: power_int_add)

lemma pow2_diff: "pow2 (a - b) = pow2 a / pow2 b"
  unfolding pow2_powi by (simp add: power_int_diff)

lemma pow2_nat: "pow2 (int n) = of_int (2 ^ n)"
  by (simp add: pow2_def)

lemma floorlog_pow2:
  assumes "0 < n"
  shows "pow2 (int (floorlog 2 (nat n)) - 1) \<le> of_int n \<and> of_int n < pow2 (int (floorlog 2 (nat n)))"
proof -
  let ?k = "floorlog 2 (nat n)"
  have k: "0 < ?k" "2 ^ (?k - 1) \<le> nat n" "nat n < 2 ^ ?k"
    using assms floorlog_bounds [of "nat n" 2] by (auto simp: floorlog_def)
  have "int (2 ^ (?k - 1)) \<le> n" "n < int (2 ^ ?k)" using k(2,3) assms by linarith+
  then have "(of_int (2 ^ (?k - 1)) :: rat) \<le> of_int n" "(of_int n :: rat) < of_int (2 ^ ?k)"
    unfolding of_int_le_iff of_int_less_iff by simp_all
  moreover have "pow2 (int ?k - 1) = of_int (2 ^ (?k - 1))"
    using k(1) pow2_nat [of "?k - 1"] by (simp add: of_nat_diff)
  ultimately show ?thesis by (simp only: pow2_nat)
qed

lemma ilog2_bounds:
  assumes "0 < x"
  shows "pow2 (ilog2 x) \<le> x \<and> x < pow2 (ilog2 x + 1)"
proof -
  obtain n d where q: "quotient_of x = (n, d)" by force
  have d: "0 < d" using quotient_of_denom_pos [OF q] .
  have x: "x = of_int n / of_int d" using quotient_of_div [OF q] .
  have n: "0 < n" using assms d unfolding x by (simp add: zero_less_divide_iff)
  let ?a = "int (floorlog 2 (nat n))" and ?b = "int (floorlog 2 (nat d))"
  note na = floorlog_pow2 [OF n] and db = floorlog_pow2 [OF d]
  have dpos: "(0::rat) < of_int d" and npos: "(0::rat) < of_int n" using d n by simp_all
  have "x < pow2 ?a / of_int d" unfolding x using na dpos by (simp add: divide_strict_right_mono)
  also have "\<dots> \<le> pow2 ?a / pow2 (?b - 1)" using db dpos by (intro divide_left_mono) simp_all
  finally have up: "x < pow2 (?a - ?b + 1)" by (simp add: pow2_diff [symmetric] algebra_simps)
  have "pow2 (?a - 1) / pow2 ?b \<le> of_int n / pow2 ?b" using na by (intro divide_right_mono) simp_all
  also have "\<dots> < x" unfolding x using db npos dpos by (intro divide_strict_left_mono) simp_all
  finally have low: "pow2 (?a - ?b - 1) < x" by (simp add: pow2_diff [symmetric] algebra_simps)
  have "ilog2 x = (if pow2 (?a - ?b) \<le> x then ?a - ?b else ?a - ?b - 1)"
    by (simp add: ilog2_def q)
  with up low show ?thesis by (simp add: less_imp_le)
qed

lemma ilog2_less_iff: "0 < x \<Longrightarrow> ilog2 x < k \<longleftrightarrow> x < pow2 k"
proof -
  assume x: "0 < x"
  note b = ilog2_bounds [OF x]
  show ?thesis
  proof
    assume "ilog2 x < k"
    then have "pow2 (ilog2 x + 1) \<le> pow2 k" by simp
    with b show "x < pow2 k" by linarith
  next
    assume "x < pow2 k"
    with b have "pow2 (ilog2 x) < pow2 k" by linarith
    then show "ilog2 x < k" by simp
  qed
qed

lemma ilog2_mono: "0 < x \<Longrightarrow> x \<le> y \<Longrightarrow> ilog2 x \<le> ilog2 y"
  using ilog2_less_iff [of y "ilog2 x"] ilog2_bounds [of x] by (meson leI less_le_trans order.strict_trans2 not_le)

lemma round_half_even_bounds: "\<lfloor>x\<rfloor> \<le> round_half_even x \<and> round_half_even x \<le> \<lfloor>x\<rfloor> + 1"
  by (simp add: round_half_even_def Let_def)

lemma round_half_even_mono:
  assumes "x \<le> y"
  shows "round_half_even x \<le> round_half_even y"
proof (cases "\<lfloor>x\<rfloor> = \<lfloor>y\<rfloor>")
  case True
  then show ?thesis using assms by (auto simp: round_half_even_def Let_def)
next
  case False
  with floor_mono [OF assms] have "\<lfloor>x\<rfloor> + 1 \<le> \<lfloor>y\<rfloor>" by linarith
  with round_half_even_bounds [of x] round_half_even_bounds [of y] show ?thesis by linarith
qed

section \<open>The rounded value\<close>

definition ulp_exp :: "rat \<Rightarrow> int" where
  "ulp_exp x = max (ilog2 x - 52) (- 1074)"

definition rounded :: "rat \<Rightarrow> rat" where
  "rounded x = of_int (round_half_even (x / pow2 (ulp_exp x))) * pow2 (ulp_exp x)"

lemma rnd_pos:
  assumes "0 < x"
  shows "rnd x = (if pow2 1024 \<le> rounded x then PInf else Fin (rounded x)) \<and> 0 \<le> rounded x"
proof -
  have "0 \<le> x / pow2 (ulp_exp x)" using assms by (simp add: zero_le_divide_iff)
  then have "0 \<le> rounded x"
    unfolding rounded_def by (intro mult_nonneg_nonneg) (simp_all add: round_half_even_nonneg less_imp_le)
  moreover have "\<not> rounded x \<le> - pow2 1024"
  proof -
    have "0 < pow2 1024" by (rule pow2_pos)
    with \<open>0 \<le> rounded x\<close> show ?thesis by linarith
  qed
  ultimately show ?thesis
    using assms unfolding rnd_def Let_def rounded_def ulp_exp_def by simp
qed

lemma rounded_mono:
  assumes x: "0 < x" and le: "x \<le> y"
  shows "rounded x \<le> rounded y"
proof -
  have y: "0 < y" using assms by linarith
  have e: "ulp_exp x \<le> ulp_exp y" using ilog2_mono [OF x le] by (simp add: ulp_exp_def)
  show ?thesis
  proof (cases "ulp_exp x = ulp_exp y")
    case True
    have "x / pow2 (ulp_exp x) \<le> y / pow2 (ulp_exp x)" using le by (intro divide_right_mono) (simp_all add: less_imp_le)
    then show ?thesis
      unfolding rounded_def True [symmetric]
      by (intro mult_right_mono) (simp_all add: round_half_even_mono less_imp_le)
  next
    case False
    with e have y52: "ulp_exp y = ilog2 y - 52" "ulp_exp x < ilog2 y - 52" by (auto simp: ulp_exp_def)
    have "ilog2 x < ilog2 y" using y52(2) by (auto simp: ulp_exp_def)
    then have below: "x < pow2 (ilog2 y)" using ilog2_less_iff [OF x] by simp
    have "rounded x \<le> pow2 (ilog2 y)"
    proof -
      obtain n where n: "ilog2 y - ulp_exp x = int n"
        by (rule nonneg_int_cases [of "ilog2 y - ulp_exp x"]) (use y52(2) in linarith)
      have "x / pow2 (ulp_exp x) \<le> pow2 (ilog2 y) / pow2 (ulp_exp x)"
        using below by (intro divide_right_mono) (simp_all add: less_imp_le)
      also have "\<dots> = of_int (2 ^ n)" unfolding pow2_diff [symmetric] n by (rule pow2_nat)
      finally have "round_half_even (x / pow2 (ulp_exp x)) \<le> 2 ^ n"
        using round_half_even_mono round_half_even_of_int [of "2 ^ n"] by metis
      then have "(of_int (round_half_even (x / pow2 (ulp_exp x))) :: rat) \<le> of_int (2 ^ n)"
        by (simp only: of_int_le_iff)
      then have "rounded x \<le> of_int (2 ^ n) * pow2 (ulp_exp x)"
        unfolding rounded_def by (intro mult_right_mono) (simp_all add: less_imp_le)
      also have "\<dots> = pow2 (ilog2 y)" unfolding pow2_nat [symmetric] pow2_add [symmetric] n [symmetric] by simp
      finally show ?thesis .
    qed
    also have "\<dots> \<le> rounded y"
    proof -
      have "of_int (2 ^ 52) = pow2 52" using pow2_nat [of 52] by simp
      also have "\<dots> \<le> y / pow2 (ulp_exp y)"
        using ilog2_bounds [OF y] unfolding y52(1) by (simp add: le_divide_eq pow2_add [symmetric])
      finally have "2 ^ 52 \<le> round_half_even (y / pow2 (ulp_exp y))"
        using round_half_even_mono round_half_even_of_int [of "2 ^ 52"] by metis
      then have "(of_int (2 ^ 52) :: rat) \<le> of_int (round_half_even (y / pow2 (ulp_exp y)))"
        by (simp only: of_int_le_iff)
      then have "of_int (2 ^ 52) * pow2 (ulp_exp y) \<le> rounded y"
        unfolding rounded_def by (intro mult_right_mono) (simp_all add: less_imp_le)
      moreover have "of_int (2 ^ 52) * pow2 (ulp_exp y) = pow2 (ilog2 y)"
        using pow2_nat [of 52] pow2_add [of 52 "ilog2 y - 52"] unfolding y52(1) by simp
      ultimately show ?thesis by simp
    qed
    finally show ?thesis .
  qed
qed

text \<open>On what is not negative, rounding respects the order.\<close>

lemma rnd_mono:
  assumes "0 \<le> x" and "x \<le> y" and "rnd y = Fin b"
  shows "\<exists>a. rnd x = Fin a \<and> 0 \<le> a \<and> a \<le> b"
proof (cases "x = 0")
  case True
  then show ?thesis using assms rnd_nonneg [of y] by (auto simp: rnd_def)
next
  case False
  with assms(1,2) have x: "0 < x" and y: "0 < y" by simp_all
  have "rounded y = b" "\<not> pow2 1024 \<le> rounded y" using rnd_pos [OF y] assms(3) by (auto split: if_splits)
  with rounded_mono [OF x assms(2)] rnd_pos [OF x] show ?thesis by simp
qed

lemma rnd_ge:
  assumes "0 \<le> x" and "x \<le> y" and "rnd x = Fin a"
  shows "flt_le (Fin a) (rnd y)"
proof (cases "rnd y")
  case (Fin b)
  with rnd_mono [OF assms(1,2) Fin] assms(3) show ?thesis by (auto simp: flt_le_def)
next
  case PInf
  then show ?thesis by (simp add: flt_le_def)
qed (use rnd_nonneg [of y] assms(1,2) in auto)

text \<open>Halves of whole numbers are exact below two to the 52.\<close>

lemma rnd_half:
  assumes "0 \<le> m" and "m < 2 ^ 52"
  shows "rnd (of_int m + 1 / 2) = Fin (of_int m + 1 / 2)"
proof -
  let ?x = "of_int m + 1 / 2 :: rat"
  have x: "0 < ?x" using assms(1) by (simp add: add_nonneg_pos)
  have "(of_int (m + 1) :: rat) \<le> of_int (2 ^ 52)" using assms(2) by (simp only: of_int_le_iff)
  then have "?x < pow2 52" using pow2_nat [of 52] by simp
  then have l: "ilog2 ?x < 52" using ilog2_less_iff [OF x] by simp
  have "pow2 (- 1) \<le> ?x" using assms(1) by (simp add: pow2_def)
  then have g: "- 1 \<le> ilog2 ?x" using ilog2_less_iff [OF x, of "- 1"] by linarith
  have e: "ulp_exp ?x = ilog2 ?x - 52" using g by (simp add: ulp_exp_def)
  obtain n where n: "51 - ilog2 ?x = int n"
    by (rule nonneg_int_cases [of "51 - ilog2 ?x"]) (use l in simp)
  have "?x / pow2 (ulp_exp ?x) = of_int (2 * m + 1) * pow2 (- 1) / pow2 (ulp_exp ?x)"
    by (simp add: pow2_def field_simps)
  also have "\<dots> = of_int (2 * m + 1) * pow2 (int n)"
    unfolding times_divide_eq_right [symmetric] pow2_diff [symmetric] e by (simp add: n [symmetric])
  also have "\<dots> = of_int ((2 * m + 1) * 2 ^ n)" by (simp add: pow2_nat)
  finally have q: "?x / pow2 (ulp_exp ?x) = of_int ((2 * m + 1) * 2 ^ n)" .
  have "rounded ?x = ?x" unfolding rounded_def q round_half_even_of_int unfolding q [symmetric] by simp
  moreover have "?x < pow2 1024" using \<open>?x < pow2 52\<close> pow2_less_iff [of 52 1024] by linarith
  ultimately show ?thesis using rnd_pos [OF x] by simp
qed

section \<open>Whole amounts\<close>

definition amount :: "flt \<Rightarrow> int" where
  "amount x = (case x of Fin r \<Rightarrow> \<lfloor>r\<rfloor> | _ \<Rightarrow> 0)"

definition whole :: "flt \<Rightarrow> bool" where
  "whole x \<longleftrightarrow> x = Fin (of_int (amount x)) \<and> 0 \<le> amount x \<and> amount x \<le> 2 ^ 53"

lemma whole_Fin [simp]: "whole (Fin (of_int n)) \<longleftrightarrow> 0 \<le> n \<and> n \<le> 2 ^ 53" "amount (Fin (of_int n)) = n"
  by (simp_all add: whole_def amount_def)

lemma wholeE: "whole x \<Longrightarrow> (\<And>n. x = Fin (of_int n) \<Longrightarrow> 0 \<le> n \<Longrightarrow> n \<le> 2 ^ 53 \<Longrightarrow> P) \<Longrightarrow> P"
  by (auto simp: whole_def)

lemma fsub_whole: "whole x \<Longrightarrow> whole y \<Longrightarrow> fsub x y = Fin (of_int (amount x - amount y))"
  by (elim wholeE) (simp only: whole_Fin(2), rule fsub_of_int, linarith)

lemma fmax0_of_int: "0 \<le> n \<Longrightarrow> fmax0 (Fin (of_int n)) = Fin (of_int n)"
  by (auto simp: fmax0_def)

text \<open>A tolerance is a float that is not negative and at most one half.\<close>

definition tolerance :: "flt \<Rightarrow> bool" where
  "tolerance t \<longleftrightarrow> (\<exists>e. t = Fin e \<and> 0 \<le> e \<and> e \<le> 1 / 2)"

lemma rnd_tolerance: "0 \<le> e \<Longrightarrow> e \<le> 1 / 2 \<Longrightarrow> tolerance (rnd e)"
  using rnd_mono [of e "1 / 2" "1 / 2"] rnd_half [of 0] by (auto simp: tolerance_def)

lemma add_tolerance:
  assumes "tolerance t" and "0 \<le> m" and "m < 2 ^ 52"
  shows "\<exists>y. fadd (Fin (of_int m)) t = Fin y \<and> of_int m \<le> y \<and> y \<le> of_int m + 1 / 2"
proof -
  obtain e where e: "t = Fin e" "0 \<le> e" "e \<le> 1 / 2" using assms(1) by (auto simp: tolerance_def)
  have "0 \<le> (of_int m + e :: rat)" "of_int m + e \<le> of_int m + 1 / 2" using e assms(2) by simp_all
  from rnd_mono [OF this rnd_half [OF assms(2,3)]]
  obtain y where y: "rnd (of_int m + e) = Fin y" "y \<le> of_int m + 1 / 2" by blast
  have "rnd (of_int m) = Fin (of_int m)" using assms(2,3) by (intro rnd_of_int) simp
  from rnd_ge [OF _ _ this, of "of_int m + e"] have "of_int m \<le> y"
    using e assms(2) y by (auto simp: flt_le_def)
  with y e(1) show ?thesis by simp
qed

end
