(* ===== verification/ControlPools.thy ===== *)
theory ControlPools
  imports ControlProps FloatOrder
begin

text \<open>
  Resource accounting. Amounts are floats, so it is exact only where rounding cannot occur: in
  runs whose capacities and requests are whole numbers up to two to the 53. There the allocated
  amount of a pool is the sum of its allocations, stays between zero and the capacity, and the
  allocations are exactly what the open steps hold.
\<close>

section \<open>Sums of amounts\<close>

definition total :: "(string, flt) dict \<Rightarrow> int" where
  "total d = sum_list (map (\<lambda>p. amount (snd p)) d)"

lemma total_put: "dict_ok d \<Longrightarrow> dict_get d k = None \<Longrightarrow> total (dict_put k x d) = amount x + total d"
  by (induction k x d rule: dict_put.induct) (auto simp: total_def dict_ok_Cons split: if_splits)

lemma dict_del_id: "dict_get d k = None \<Longrightarrow> dict_del k d = d"
  by (auto simp: dict_del_def map_of_eq_None_iff filter_id_conv)

lemma total_del: "dict_ok d \<Longrightarrow> dict_get d k = Some x \<Longrightarrow> total (dict_del k d) = total d - amount x"
proof (induction d)
  case (Cons p d)
  obtain l y where p: "p = (l, y)" by force
  show ?case
  proof (cases "l = k")
    case True
    have "k \<notin> fst ` set d" using Cons.prems(1) p True by (auto simp: dict_ok_Cons)
    then have "dict_del k d = d" by (intro dict_del_id) (simp add: map_of_eq_None_iff)
    then show ?thesis using Cons.prems p True by (simp add: total_def dict_del_def)
  next
    case False
    then show ?thesis using Cons p by (auto simp: total_def dict_del_def dict_ok_Cons)
  qed
qed simp

lemma total_nonneg: "(\<And>t x. dict_get d t = Some x \<Longrightarrow> whole x) \<Longrightarrow> dict_ok d \<Longrightarrow> 0 \<le> total d"
  by (auto simp: total_def whole_def dict_ok_get_iff intro!: sum_list_nonneg)

text \<open>A pool whose books are exact.\<close>

definition pool_exact :: "pool \<Rightarrow> bool" where
  "pool_exact q \<longleftrightarrow> whole (po_capacity q) \<and> dict_ok (po_allocs q)
     \<and> (\<forall>t x. dict_get (po_allocs q) t = Some x \<longrightarrow> whole x)
     \<and> po_allocated q = Fin (of_int (total (po_allocs q))) \<and> total (po_allocs q) \<le> amount (po_capacity q)"

lemma reserve_exact:
  assumes q: "pool_exact q" and x: "whole x" and t: "dict_get (po_allocs q) t = None"
    and fit: "\<not> flt_less (fsub (po_capacity q) (po_allocated q)) x"
  shows "pool_exact (reserve t x q)"
proof -
  let ?T = "total (po_allocs q)" and ?c = "amount (po_capacity q)"
  have T: "0 \<le> ?T" "?T \<le> ?c" "?c \<le> 2 ^ 53" and a: "po_allocated q = Fin (of_int ?T)"
    using q total_nonneg [of "po_allocs q"] by (auto simp: pool_exact_def whole_def)
  obtain n where n: "x = Fin (of_int n)" "0 \<le> n" using x by (rule wholeE) blast
  have wa: "whole (po_allocated q)" unfolding a using T by simp
  have "fsub (po_capacity q) (po_allocated q) = Fin (of_int (?c - ?T))"
    using fsub_whole [OF _ wa, of "po_capacity q"] q a by (simp add: pool_exact_def)
  then have le: "?T + n \<le> ?c" using fit n by simp
  then have "fadd (po_allocated q) x = Fin (of_int (?T + n))"
    unfolding a n using T n by (intro fadd_of_int) linarith
  moreover have "total (dict_put t x (po_allocs q)) = n + ?T"
    using total_put [OF _ t, of x] q n by (simp add: pool_exact_def)
  ultimately show ?thesis
    using q x le by (auto simp: pool_exact_def reserve_def add.commute)
qed

lemma release_exact:
  assumes q: "pool_exact q" and t: "dict_get (po_allocs q) t = Some x"
  shows "pool_exact (release t x q)" "amount x \<le> total (po_allocs q)"
    "total (po_allocs (release t x q)) = total (po_allocs q) - amount x"
proof -
  let ?T = "total (po_allocs q)" and ?c = "amount (po_capacity q)"
  have ok: "dict_ok (po_allocs q)" and w: "whole x" using q t by (auto simp: pool_exact_def)
  have T: "0 \<le> ?T" "?T \<le> ?c" "?c \<le> 2 ^ 53" and a: "po_allocated q = Fin (of_int ?T)"
    using q total_nonneg [of "po_allocs q"] by (auto simp: pool_exact_def whole_def)
  have d: "total (dict_del t (po_allocs q)) = ?T - amount x" by (rule total_del [OF ok t])
  then show tt: "total (po_allocs (release t x q)) = ?T - amount x" by (simp add: release_def)
  have "0 \<le> total (dict_del t (po_allocs q))"
    using q by (intro total_nonneg) (auto simp: pool_exact_def split: if_splits)
  then show le: "amount x \<le> ?T" using d by linarith
  have "whole (po_allocated q)" unfolding a using T by simp
  then have "fsub (po_allocated q) x = Fin (of_int (?T - amount x))" using fsub_whole [OF _ w] a by simp
  then have "fmax0 (fsub (po_allocated q) x) = Fin (of_int (?T - amount x))"
    using fmax0_of_int [of "?T - amount x"] le by simp
  then show "pool_exact (release t x q)"
    using q d w T by (auto simp: pool_exact_def release_def whole_def split: if_splits)
qed

lemma consume_exact:
  assumes q: "pool_exact q" and t: "dict_get (po_allocs q) t = Some x"
  shows "pool_exact (consume_resource t x q)"
proof (cases "po_renewable q")
  case True
  then show ?thesis using release_exact(1) [OF q t] by (simp add: consume_resource_def Let_def)
next
  case False
  have w: "whole x" "whole (po_capacity q)" and le: "amount x \<le> amount (po_capacity q)"
    using q t release_exact(2) [OF q t] by (auto simp: pool_exact_def)
  let ?c = "amount (po_capacity q)" and ?q = "consume_resource t x q"
  have "fmax0 (fsub (po_capacity q) x) = Fin (of_int (?c - amount x))"
    using fsub_whole [OF w(2,1)] fmax0_of_int [of "?c - amount x"] le by simp
  then have c: "po_capacity ?q = Fin (of_int (?c - amount x))"
    using False by (simp add: consume_resource_def Let_def del: of_int_diff)
  have o: "po_allocs ?q = po_allocs (release t x q)" "po_allocated ?q = po_allocated (release t x q)"
    by (simp_all add: consume_resource_def Let_def)
  have r: "pool_exact (release t x q)" and t2: "total (po_allocs (release t x q)) = total (po_allocs q) - amount x"
    using release_exact [OF q t] by blast+
  have T: "total (po_allocs q) \<le> ?c" "?c \<le> 2 ^ 53" "0 \<le> amount x"
    using q w by (auto simp: pool_exact_def whole_def)
  have "whole (po_capacity ?q)" unfolding c whole_Fin using le T by linarith
  moreover have "amount (po_capacity ?q) = ?c - amount x" unfolding c by (rule whole_Fin)
  ultimately show ?thesis
    using r t2 T unfolding pool_exact_def o by simp
qed

section \<open>Reservations\<close>

text \<open>The step behind a task.\<close>

definition at_task :: "ops \<Rightarrow> string \<Rightarrow> step \<Rightarrow> bool" where
  "at_task s t st \<longleftrightarrow> (\<exists>k p i. t = task_id k i \<and> dict_get (op_plans s) k = Some p \<and> dict_get (pl_steps p) i = Some st)"

lemma at_task_iff:
  assumes "keys_apart s" "dict_get (op_plans s) k = Some p" "dict_get (pl_steps p) i = Some st"
  shows "at_task s (task_id k i) x \<longleftrightarrow> x = st"
proof
  assume "at_task s (task_id k i) x"
  then obtain l q j where q: "task_id k i = task_id l j" "dict_get (op_plans s) l = Some q" "dict_get (pl_steps q) j = Some x"
    unfolding at_task_def by blast
  then have "k = l \<and> i = j" using keys_apartD [OF assms] by blast
  with q assms show "x = st" by simp
qed (use assms in \<open>auto simp: at_task_def\<close>)

lemma at_task_like:
  assumes cf: "keys_apart s" and k: "dict_get (op_plans s) k = Some p" and i: "dict_get (pl_steps p) i = Some st"
    and p': "plan_like i st' p p'" "op_plans s' = dict_put k p' (op_plans s)"
  shows "at_task s' t x \<longleftrightarrow> (if t = task_id k i then x = st' else at_task s t x)"
proof (cases "t = task_id k i")
  case True
  have "keys_apart s'" by (rule keys_apart_like [OF cf k i p'])
  then show ?thesis using True at_task_iff [of s' k p' i st' x] p' by (simp add: plan_like_def)
next
  case False
  have "(\<exists>q. dict_get (op_plans s') l = Some q \<and> dict_get (pl_steps q) j = Some x) \<longleftrightarrow>
      (\<exists>q. dict_get (op_plans s) l = Some q \<and> dict_get (pl_steps q) j = Some x)" if "t = task_id l j" for l j
    using that False p' k by (cases "l = k") (auto simp: plan_like_def)
  then have "at_task s' t x \<longleftrightarrow> at_task s t x" unfolding at_task_def by blast
  then show ?thesis using False by simp
qed

definition holds_resource :: "step \<Rightarrow> string \<Rightarrow> flt \<Rightarrow> bool" where
  "holds_resource st r x \<longleftrightarrow> st_status st \<in> {''PENDING'', ''ASSIGNED'', ''RUNNING''} \<and> dict_get (st_alloc st) r = Some x"

text \<open>The amount of a resource that an open step holds.\<close>

definition reserved :: "ops \<Rightarrow> string \<Rightarrow> string \<Rightarrow> flt \<Rightarrow> bool" where
  "reserved s r t x \<longleftrightarrow> (\<exists>st. at_task s t st \<and> holds_resource st r x)"

definition pools_exact :: "ops \<Rightarrow> bool" where
  "pools_exact s \<longleftrightarrow>
     (\<forall>r q. dict_get (op_pools s) r = Some q \<longrightarrow> pool_exact q \<and> (\<forall>t x. dict_get (po_allocs q) t = Some x \<longleftrightarrow> reserved s r t x))
     \<and> (\<forall>r t x. reserved s r t x \<longrightarrow> r \<in> dom (dict_get (op_pools s)))"

text \<open>Whole-number runs: capacities and requests are whole.\<close>

definition whole_state :: "ops \<Rightarrow> bool" where
  "whole_state s \<longleftrightarrow> (\<forall>r q. dict_get (op_pools s) r = Some q \<longrightarrow> whole (po_capacity q))
     \<and> (\<forall>k p i st r x. dict_get (op_plans s) k = Some p \<longrightarrow> dict_get (pl_steps p) i = Some st \<longrightarrow>
          dict_get (st_requests st) r = Some x \<longrightarrow> whole x)"

inductive whole_run :: "pyenv \<Rightarrow> ops \<Rightarrow> bool" for E where
  wr_start: "whole_run E (operational_state t)"
| wr_step: "whole_run E s \<Longrightarrow> ops_step E s p \<Longrightarrow> whole_state (after p s) \<Longrightarrow> whole_run E (after p s)"

lemma whole_run_run: "whole_run E s \<Longrightarrow> ops_run E s"
  by (induction rule: whole_run.induct) (auto intro: ops_run.intros)

lemma whole_run_state: "whole_run E s \<Longrightarrow> whole_state s"
  by (induction rule: whole_run.induct) (auto simp: whole_state_def operational_state_def)

text \<open>Nothing about resources changes.\<close>

lemma pools_exact_same:
  assumes "pools_exact s" and "\<And>r. dict_get (op_pools s') r = dict_get (op_pools s) r" and "\<And>r t x. reserved s' r t x = reserved s r t x"
  shows "pools_exact s'"
  using assms by (simp add: pools_exact_def domIff)

lemma reserved_like:
  assumes "keys_apart s" and "dict_get (op_plans s) k = Some p" and "dict_get (pl_steps p) i = Some st"
    and "plan_like i st' p p'" "op_plans s' = dict_put k p' (op_plans s)"
  shows "reserved s' r t x \<longleftrightarrow> (if t = task_id k i then holds_resource st' r x else reserved s r t x)"
  unfolding reserved_def by (simp add: at_task_like [OF assms])

lemma reserved_iff:
  assumes "keys_apart s" and "dict_get (op_plans s) k = Some p" and "dict_get (pl_steps p) i = Some st"
  shows "reserved s r (task_id k i) x \<longleftrightarrow> holds_resource st r x"
  unfolding reserved_def by (simp add: at_task_iff [OF assms])

text \<open>The step's amounts are reserved, or given back, in all pools at once.\<close>

lemma pools_exact_reserve:
  assumes ex: "pools_exact s" and cf: "keys_apart s" and k: "dict_get (op_plans s) k = Some p" "dict_get (pl_steps p) i = Some st"
    and p': "plan_like i st' p p'" "op_plans s' = dict_put k p' (op_plans s)"
    and open': "st_status st \<in> {''PENDING'', ''ASSIGNED'', ''RUNNING''}" "st_status st' \<in> {''PENDING'', ''ASSIGNED'', ''RUNNING''}"
    and al: "st_alloc st = []" "st_alloc st' = amts" and w: "\<And>r x. dict_get amts r = Some x \<Longrightarrow> whole x"
    and f: "fits (op_pools s) amts" and pe: "pool_effect (reserve (task_id k i)) amts (op_pools s) (op_pools s')"
  shows "pools_exact s'"
  unfolding pools_exact_def
proof (intro conjI allI impI)
  fix r q' assume q': "dict_get (op_pools s') r = Some q'"
  note R = reserved_like [OF cf k p'] and R0 = reserved_iff [OF cf k]
  have "pool_exact q' \<and> (\<forall>t x. dict_get (po_allocs q') t = Some x \<longleftrightarrow> reserved s' r t x)"
  proof (cases "dict_get amts r")
    case None
    then have q: "dict_get (op_pools s) r = Some q'" using q' pe by (simp add: pool_effect_def)
    have "dict_get (po_allocs q') t = Some x \<longleftrightarrow> reserved s' r t x" for t x
      using ex q R [of r t x] R0 [of r x] None al by (auto simp: pools_exact_def holds_resource_def)
    then show ?thesis using ex q by (auto simp: pools_exact_def)
  next
    case (Some y)
    then obtain q where q: "dict_get (op_pools s) r = Some q" "q' = reserve (task_id k i) y q"
      using q' pe by (auto simp: pool_effect_def)
    have n: "dict_get (po_allocs q) (task_id k i) = None"
    proof (rule ccontr)
      assume "dict_get (po_allocs q) (task_id k i) \<noteq> None"
      then obtain z where "dict_get (po_allocs q) (task_id k i) = Some z" by blast
      then have "holds_resource st r z" using ex q(1) R0 by (auto simp: pools_exact_def)
      then show False using al by (simp add: holds_resource_def)
    qed
    have "\<not> flt_less (fsub (po_capacity q) (po_allocated q)) y" using f Some q(1) unfolding fits_def by fastforce
    then have "pool_exact q'" using reserve_exact [OF _ w [OF Some] n] ex q by (auto simp: pools_exact_def)
    moreover have "dict_get (po_allocs q') t = Some x \<longleftrightarrow> reserved s' r t x" for t x
      using ex q R [of r t x] Some al open' by (auto simp: pools_exact_def holds_resource_def reserve_def)
    ultimately show ?thesis by blast
  qed
  then show "pool_exact q'" "\<And>t x. dict_get (po_allocs q') t = Some x \<longleftrightarrow> reserved s' r t x" by blast+
next
  fix r t x assume "reserved s' r t x"
  then have "holds_resource st' r x \<or> reserved s r t x"
    using reserved_like [OF cf k p', of r t x] by (simp split: if_splits)
  then have "r \<in> dom (dict_get (op_pools s))"
  proof
    assume "holds_resource st' r x"
    then have "r \<in> dom (dict_get amts)" using al by (auto simp: holds_resource_def)
    then show ?thesis using pe unfolding pool_effect_def by blast
  next
    assume "reserved s r t x"
    then show ?thesis using ex unfolding pools_exact_def by blast
  qed
  then show "r \<in> dom (dict_get (op_pools s'))" using pool_effect_dom [OF pe] by blast
qed

lemma pools_exact_release:
  assumes ex: "pools_exact s" and cf: "keys_apart s" and k: "dict_get (op_plans s) k = Some p" "dict_get (pl_steps p) i = Some st"
    and p': "plan_like i st' p p'" "op_plans s' = dict_put k p' (op_plans s)"
    and open': "st_status st \<in> {''PENDING'', ''ASSIGNED'', ''RUNNING''}" "st_status st' \<notin> {''PENDING'', ''ASSIGNED'', ''RUNNING''}"
    and f: "\<And>q x. pool_exact q \<Longrightarrow> dict_get (po_allocs q) (task_id k i) = Some x \<Longrightarrow> pool_exact (f x q)"
      "\<And>q x. po_allocs (f x q) = dict_del (task_id k i) (po_allocs q)"
    and pe: "pool_effect f (st_alloc st) (op_pools s) (op_pools s')"
  shows "pools_exact s'"
  unfolding pools_exact_def
proof (intro conjI allI impI)
  fix r q' assume q': "dict_get (op_pools s') r = Some q'"
  note R = reserved_like [OF cf k p'] and R0 = reserved_iff [OF cf k]
  have "pool_exact q' \<and> (\<forall>t x. dict_get (po_allocs q') t = Some x \<longleftrightarrow> reserved s' r t x)"
  proof (cases "dict_get (st_alloc st) r")
    case None
    then have q: "dict_get (op_pools s) r = Some q'" using q' pe by (simp add: pool_effect_def)
    have "dict_get (po_allocs q') t = Some x \<longleftrightarrow> reserved s' r t x" for t x
      using ex q R [of r t x] R0 [of r x] None open' by (auto simp: pools_exact_def holds_resource_def)
    then show ?thesis using ex q by (auto simp: pools_exact_def)
  next
    case (Some y)
    then obtain q where q: "dict_get (op_pools s) r = Some q" "q' = f y q"
      using q' pe by (auto simp: pool_effect_def)
    have "holds_resource st r y" using Some open'(1) by (simp add: holds_resource_def)
    then have "dict_get (po_allocs q) (task_id k i) = Some y" using ex q(1) R0 by (auto simp: pools_exact_def)
    then have "pool_exact q'" using f(1) ex q by (auto simp: pools_exact_def)
    moreover have "dict_get (po_allocs q') t = Some x \<longleftrightarrow> reserved s' r t x" for t x
      using ex q R [of r t x] open'(2) by (auto simp: pools_exact_def holds_resource_def f(2))
    ultimately show ?thesis by blast
  qed
  then show "pool_exact q'" "\<And>t x. dict_get (po_allocs q') t = Some x \<longleftrightarrow> reserved s' r t x" by blast+
next
  fix r t x assume "reserved s' r t x"
  then have "reserved s r t x"
    using reserved_like [OF cf k p', of r t x] open'(2) by (simp add: holds_resource_def split: if_splits)
  then have "r \<in> dom (dict_get (op_pools s))" using ex unfolding pools_exact_def by blast
  then show "r \<in> dom (dict_get (op_pools s'))" using pool_effect_dom [OF pe] by blast
qed

lemma reserved_same_steps:
  assumes "\<And>k p i st. dict_get (op_plans s') k = Some p \<Longrightarrow> dict_get (pl_steps p) i = Some st \<Longrightarrow> st_alloc st \<noteq> [] \<Longrightarrow>
      \<exists>q. dict_get (op_plans s) k = Some q \<and> dict_get (pl_steps q) i = Some st"
    and "\<And>k p i st. dict_get (op_plans s) k = Some p \<Longrightarrow> dict_get (pl_steps p) i = Some st \<Longrightarrow> st_alloc st \<noteq> [] \<Longrightarrow>
      \<exists>q. dict_get (op_plans s') k = Some q \<and> dict_get (pl_steps q) i = Some st"
  shows "reserved s' r t x \<longleftrightarrow> reserved s r t x"
proof -
  have h: "st_alloc st \<noteq> []" if "holds_resource st r x" for st using that by (auto simp: holds_resource_def)
  have "at_task s' t st \<longleftrightarrow> at_task s t st" if "st_alloc st \<noteq> []" for st
    unfolding at_task_def using assms(1) [OF _ _ that] assms(2) [OF _ _ that] by blast
  then show ?thesis unfolding reserved_def using h by blast
qed

lemma plan_fresh_alloc: "plan_fresh p \<Longrightarrow> dict_get (pl_steps p) i = Some st \<Longrightarrow> st_alloc st = []"
  by (simp add: plan_fresh_def)

lemma effect_pools:
  assumes "effect s s'" and "ops_wf s" and "started_ok s" and "pools_exact s" and "whole_state s" and "whole_state s'"
    and cf: "keys_apart s"
  shows "pools_exact s'"
  using assms
proof (induction rule: effect.induct)
  case (ef_same s' s)
  then show ?case by (intro pools_exact_same [OF ef_same.prems(3)]) (simp_all add: reserved_def at_task_def)
next
  case (ef_agent s a ag a0 s')
  then show ?case by (intro pools_exact_same [OF ef_agent.prems(3)]) (simp_all add: reserved_def at_task_def)
next
  case (ef_status s a ag s' x)
  then show ?case by (intro pools_exact_same [OF ef_status.prems(3)]) (simp_all add: reserved_def at_task_def)
next
  case (ef_goal s k g s')
  then show ?case by (intro pools_exact_same [OF ef_goal.prems(3)]) (simp_all add: reserved_def at_task_def)
next
  case (ef_pool s r p s')
  have R: "reserved s' = reserved s" using ef_pool(8) by (simp add: fun_eq_iff reserved_def at_task_def)
  have "\<not> reserved s r t x" for t x using ef_pool.prems(3) ef_pool(1) unfolding pools_exact_def by blast
  moreover have "dict_get (op_pools s') r = Some p" using ef_pool(7) by simp
  then have "whole (po_capacity p)" using ef_pool.prems(5) unfolding whole_state_def by blast
  then have "pool_exact p" using ef_pool(3,4) by (simp add: pool_exact_def total_def whole_def)
  ultimately show ?case
    using ef_pool.prems(3) ef_pool(4,7) by (auto simp: pools_exact_def R)
next
  case (ef_plan p s p0 g s' x t)
  have "reserved s' r t x = reserved s r t x" for r t x
    by (rule reserved_same_steps) (use ef_plan(1,2,5) plan_fresh_alloc in \<open>auto split: if_splits\<close>)
  with ef_plan show ?case by (intro pools_exact_same [OF ef_plan.prems(3)]) simp_all
next
  case (ef_replan p s p0 g k old old' t y s' x)
  have "reserved s' r t x = reserved s r t x" for r t x
    by (rule reserved_same_steps) (use ef_replan(1,2,5,7,8) plan_fresh_alloc in \<open>auto split: if_splits\<close>)
  with ef_replan show ?case by (intro pools_exact_same [OF ef_replan.prems(3)]) simp_all
next
  case (ef_allocate s k p i st s' p')
  have w: "whole x" if "dict_get (st_requests st) r = Some x" for r x
    using ef_allocate.prems(4) ef_allocate(1,2) that unfolding whole_state_def by blast
  show ?case
    by (rule pools_exact_reserve [OF ef_allocate.prems(3) _ ef_allocate(1,2,9,10) _ _ ef_allocate(5) _ w ef_allocate(7,8)])
      (use ef_allocate in \<open>simp_all add: whole_state_def\<close>)
next
  case (ef_assign s k p i st a ag amts s' t p')
  note cf = ef_assign.prems(6)
  have w: "whole x" if "dict_get (st_requests st) r = Some x" for r x
    using ef_assign.prems(4) ef_assign(1,2) that unfolding whole_state_def by blast
  show ?case
  proof (cases "st_alloc st = []")
    case True
    then have "amts = st_requests st \<and> fits (op_pools s) amts \<or> st_requests st = [] \<and> amts = []"
      using ef_assign(10) by auto
    then have am: "amts = st_requests st" "fits (op_pools s) (st_requests st)" by (auto simp: fits_def)
    show ?thesis
      by (rule pools_exact_reserve [OF ef_assign.prems(3) cf ef_assign(1,2,12,13) _ _ True _ w am(2) ef_assign(11) [unfolded am(1)]])
        (use ef_assign in simp_all)
  next
    case False
    then have am: "amts = []" "st_alloc st = st_requests st" using ef_assign(10) by auto
    have "reserved s' r t x = reserved s r t x" for r t x
      using reserved_like [OF cf ef_assign(1,2,12,13), of r t x] reserved_iff [OF cf ef_assign(1,2), of r x] am(2) ef_assign(4)
      by (auto simp: holds_resource_def)
    then show ?thesis
      using ef_assign(11) am(1) by (intro pools_exact_same [OF ef_assign.prems(3)]) simp_all
  qed
next
  case (ef_start s k p i st t p' s')
  note cf = ef_start.prems(6)
  have "reserved s' r t x = reserved s r t x" for r t x
    using reserved_like [OF cf ef_start(1,2,4,5), of r t x] reserved_iff [OF cf ef_start(1,2), of r x] ef_start(3)
    by (auto simp: holds_resource_def)
  then show ?case using ef_start by (intro pools_exact_same [OF ef_start.prems(3)]) simp_all
next
  case (ef_outcome s k p i st a ag x g s' t y p' g')
  note cf = ef_outcome.prems(6)
  show ?case
    by (rule pools_exact_release [OF ef_outcome.prems(3) cf ef_outcome(1,2,9,10) _ _ _ _ ef_outcome(8)])
      (use ef_outcome(3,6) consume_exact in \<open>auto simp: consume_resource_def release_def Let_def\<close>)
next
  case (ef_cancel s k p i st g s' t y p' g')
  note cf = ef_cancel.prems(6)
  have "st_status st \<in> step_states"
    using plans_wfD(5) [OF ops_wf_plans [OF ef_cancel.prems(1)] ef_cancel(1,2)] by (simp add: step_wf_def step_states_def)
  then have o: "st_status st \<in> {''PENDING'', ''ASSIGNED'', ''RUNNING''}" using ef_cancel(3) by (auto simp: step_states_def)
  show ?case
    by (rule pools_exact_release [OF ef_cancel.prems(3) cf ef_cancel(1,2,6,7) o _ _ _ ef_cancel(5)])
      (use release_exact(1) in \<open>auto simp: release_def\<close>)
qed

lemma whole_run_exact: "whole_run E s \<Longrightarrow> keys_apart s \<Longrightarrow> pools_exact s"
proof (induction rule: whole_run.induct)
  case (wr_start t)
  then show ?case by (simp add: pools_exact_def operational_state_def reserved_def at_task_def)
next
  case (wr_step s p)
  have r: "ops_run E s" and w: "whole_state s" using wr_step(1) by (auto intro: whole_run_run whole_run_state)
  have wf: "ops_wf s" by (rule ops_run_wf [OF r])
  have e: "effect s (after p s)" by (rule ops_step_effect [OF wr_step(2) ops_wf_plans [OF wf]])
  have k: "keys_apart s" by (rule effect_keys_apart [OF e wr_step.prems])
  show ?case
    by (rule effect_pools [OF e wf ops_run_started [OF r] wr_step.IH [OF k] w wr_step(3) k])
qed

text \<open>
  C21. The books balance: after a run whose capacities and requests are whole numbers up to two to
  the 53, where no two steps have the same task key, every pool's allocated amount is the sum of its allocations and lies between zero and
  its capacity, and its allocations are exactly what the open steps hold of it, so nothing is
  allocated twice and everything is given back.
\<close>

theorem resource_books_balance:
  assumes "whole_run E s" and "keys_apart s" and "dict_get (op_pools s) r = Some q"
  shows "po_allocated q = Fin (of_int (total (po_allocs q)))
    \<and> 0 \<le> total (po_allocs q) \<and> total (po_allocs q) \<le> amount (po_capacity q)
    \<and> (\<forall>t x. dict_get (po_allocs q) t = Some x \<longleftrightarrow>
         (\<exists>k p i st. t = task_id k i \<and> dict_get (op_plans s) k = Some p \<and> dict_get (pl_steps p) i = Some st
            \<and> st_status st \<in> {''PENDING'', ''ASSIGNED'', ''RUNNING''} \<and> dict_get (st_alloc st) r = Some x))"
proof -
  have q: "pool_exact q" and a: "\<And>t x. dict_get (po_allocs q) t = Some x \<longleftrightarrow> reserved s r t x"
    using whole_run_exact [OF assms(1,2)] assms(3) by (auto simp: pools_exact_def)
  have "0 \<le> total (po_allocs q)" using q by (intro total_nonneg) (auto simp: pool_exact_def)
  then show ?thesis
    using q a unfolding reserved_def at_task_def holds_resource_def pool_exact_def by blast
qed

end
