(* ===== verification/ControlExamples.thy ===== *)
theory ControlExamples
  imports ControlPools MemoryExamples
begin

text \<open>
  The control plane on a concrete run, with each of its properties applied to it.
\<close>

lemma jdict_eval [eval_simps]: "jdict f [] = JObj []" "jdict f ((k, x) # d) = JObj ((k, f x) # map (\<lambda>p. (fst p, f (snd p))) d)"
  by (simp_all add: jdict_def)

lemmas control_eval [eval_simps] =
  ops_identifier_def ops_time_def opt_time_def ops_json_object_def string_set_def lookup_def given_def
  propose_def register_agent_def agent_kinds_def commit_def lift_world_def bootstrap_world_def
  enc_ops_def enc_fields_def enc_agent_def operational_state_def change_mutation_def jtime_def

lemma control_words [eval_simps]: "py_upper ''HUMAN'' = ''HUMAN''"
  by code_simp

lemma sha256_outbox_message_mem [eval_simps]: "sha256_json demo_env (outbox_message mem_env r) = sha256_json demo_env (mk_obj
     [(''schema_version'', JStr ''edon-world-outbox-message.v1''), (''topic'', JStr ''world.events''),
      (''event_hash'', JStr (e_hash r)), (''tenant_id'', JStr (e_tenant r)),
      (''world_id'', JStr (e_world r)), (''event_id'', JStr (e_id r)), (''event_type'', JStr (e_type r)),
      (''actor_id'', JStr (e_actor r)), (''expected_version'', JInt (e_expected r)),
      (''resulting_version'', JInt (e_resulting r)), (''mutations'', JArr (e_mutations r)),
      (''authorization_ref_sha256'', JStr (sha256_json mem_env (JStr (e_auth r)))),
      (''source_lineage'', jstrs (e_lineage r)),
      (''resulting_state_sha256'', JStr (e_result_sha r))])"
  by (simp only: outbox_message_def)

definition cd_request :: "string \<Rightarrow> int \<Rightarrow> request" where
  "cd_request i v = \<lparr>rq_tenant = ''t'', rq_world = ''w'', rq_event = i, rq_actor = ''a'', rq_expected = v, rq_auth = ''k''\<rparr>"

definition cd_agent :: agent where
  "cd_agent = \<lparr>ag_id = ''h'', ag_kind = ''HUMAN'', ag_caps = [''weld''], ag_status = ''AVAILABLE'', ag_max = 1,
     ag_tasks = [], ag_rels = [], ag_meta = [], ag_registered = 0\<rparr>"

lemma cd_register:
  "register_agent mem_env t00 ''h'' ''HUMAN'' [''weld''] 1 JNull JNull None (operational_state 0)
     = Inr (propose ''AGENT_REGISTERED'' 0 [SetAgent ''h'' cd_agent])"
  by (simp add: eval_simps cd_agent_def cong: world_congs)

definition cd_proposal :: proposal where
  "cd_proposal = propose ''AGENT_REGISTERED'' 0 [SetAgent ''h'' cd_agent]"

lemma cd_run:
  "rbind (bootstrap_world mem_env t00 ''t'' ''w'' (JObj []) ''a'' ''k'' [] None init_wdb)
     (\<lambda>r. rbind (commit mem_env t00 (cd_request ''e'' 0) [] cd_proposal (fst r))
       (\<lambda>x. Inr (length (events (fst r)), length (events (fst x))))) = Inr (1, 2)"
  by (simp add: eval_simps cd_proposal_def cd_request_def cd_agent_def cong: world_congs)

section \<open>An agent, a pool, a goal, a plan of one step, and its dispatch\<close>

definition cd_s1 :: ops where
  "cd_s1 = (operational_state 0)\<lparr>op_agents := [(''h'', cd_agent)]\<rparr>"

definition cd_pool :: pool where
  "cd_pool = \<lparr>po_id = ''r'', po_capacity = Fin 2, po_allocated = Fin 0, po_unit = ''kg'', po_renewable = True,
     po_allocs = [], po_registered = 0\<rparr>"

definition cd_s2 :: ops where "cd_s2 = cd_s1\<lparr>op_pools := [(''r'', cd_pool)]\<rparr>"

definition cd_goal :: goal where
  "cd_goal = \<lparr>go_id = ''g'', go_description = ''weld a frame'', go_status = ''ACTIVE'', go_priority = 5, go_deadline = None,
     go_deps = [], go_parent = None, go_owner = None, go_criteria = [], go_plan = None, go_created = 0, go_updated = 0,
     go_reason = None\<rparr>"

definition cd_s3 :: ops where "cd_s3 = cd_s2\<lparr>op_goals := [(''g'', cd_goal)]\<rparr>"

definition cd_raw :: json where
  "cd_raw = JObj [(''action'', JStr ''weld''), (''required_capabilities'', JArr [JStr ''weld'']),
     (''resource_requests'', JObj [(''r'', JInt 1)]), (''step_id'', JStr ''s'')]"

lemma ilog2_millionth: "ilog2 (1 / 1000000) = - 20"
proof -
  have q: "quotient_of (1 / 1000000) = (1, 1000000)"
    using quotient_of_Fract [of 1 1000000] by (simp add: Fract_of_int_quotient normalize_def)
  have f: "floorlog 2 1000000 = 20" "floorlog 2 (Suc 0) = 1"
    using floorlog_leI [of 1000000 2 20] floorlog_geI [of 2 20 1000000] floorlog_leI [of 1 2 1] floorlog_geI [of 2 1 1] by simp_all
  show ?thesis by (simp add: ilog2_def q f pow2_def)
qed
lemma float_examples [eval_simps]:
  "float_of_int 1 = Some (Fin 1)" "float_of_int 2 = Some (Fin 2)" "\<not> flt_less (Fin 1) (rnd (1 / 1000000))"
  subgoal using rnd_of_int [of 1] by (simp add: float_of_int_def)
  subgoal using rnd_of_int [of 2] by (simp add: float_of_int_def)
  subgoal by (simp add: rnd_def ilog2_millionth pow2_def round_half_even_def Let_def)
  done

lemma one_step_order [eval_simps]: "topological_order (OpsError m) [(''s'', [])] = Inr [''s'']"
  by code_simp

lemmas control_plan_eval =
  register_resource_pool_def create_goal_def create_plan_def build_plan_def normalize_steps_def normalize_step_def get_or_def
  check_horizon_def check_dependencies_def step_requests_def json_set_def json_time_def json_items_def number_def
  no_minimum_def request_minimum_def missing_from_def

lemma cd_add_pool:
  "register_resource_pool mem_env t00 ''r'' (JInt 2) ''kg'' True None cd_s1
     = Inr (propose ''RESOURCE_POOL_REGISTERED'' 0 [SetPool ''r'' cd_pool])"
  by (simp add: eval_simps control_plan_eval cd_s1_def cd_pool_def cong: world_congs)

lemma cd_add_goal:
  "create_goal mem_env t00 ''g'' ''weld a frame'' 5 None [] None None [] True None cd_s2
     = Inr (propose ''GOAL_CREATED'' 0 [SetGoal ''g'' cd_goal])"
  by (simp add: eval_simps control_plan_eval cd_s2_def cd_s1_def cd_goal_def cong: world_congs)

definition cd_step :: step where
  "cd_step = \<lparr>st_id = ''s'', st_action = ''weld'', st_deps = [], st_caps = [''weld''], st_requests = [(''r'', Fin 1)],
     st_alloc = [], st_earliest = None, st_deadline = None, st_expected = [], st_command = [], st_status = ''PENDING'',
     st_agent = None, st_assigned = None, st_started = None, st_completed = None, st_actual = None, st_cancelled = None\<rparr>"

definition cd_plan :: plan where
  "cd_plan = \<lparr>pl_id = ''p'', pl_goal = ''g'', pl_revision = 1, pl_status = ''ACTIVE'', pl_start = 0, pl_end = None,
     pl_supersedes = None, pl_order = [''s''], pl_steps = [(''s'', cd_step)], pl_created = 0, pl_updated = 0,
     pl_successor = None, pl_reason = None\<rparr>"

lemma cd_add_plan:
  "create_plan mem_env t00 ''p'' ''g'' [cd_raw] t00 None None cd_s3
     = Inr (propose ''PLAN_CREATED'' 0 [SetPlan ''p'' cd_plan, SetGoal ''g'' (cd_goal\<lparr>go_plan := Some ''p''\<rparr>)])"
  by (simp add: eval_simps control_plan_eval cd_raw_def cd_s3_def cd_s2_def cd_s1_def cd_goal_def cd_plan_def cd_step_def cong: world_congs)

definition cd_s4 :: ops where
  "cd_s4 = cd_s3\<lparr>op_plans := [(''p'', cd_plan)], op_goals := [(''g'', cd_goal\<lparr>go_plan := Some ''p''\<rparr>)]\<rparr>"

definition cd_step' :: step where
  "cd_step' = cd_step\<lparr>st_alloc := [(''r'', Fin 1)], st_status := ''ASSIGNED'', st_agent := Some ''h'', st_assigned := Some 0\<rparr>"

definition cd_s5 :: ops where
  "cd_s5 = cd_s4\<lparr>op_plans := [(''p'', cd_plan\<lparr>pl_steps := [(''s'', cd_step')]\<rparr>)],
     op_agents := [(''h'', cd_agent\<lparr>ag_tasks := [''p:s''], ag_status := ''BUSY''\<rparr>)],
     op_pools := [(''r'', cd_pool\<lparr>po_allocated := Fin 1, po_allocs := [(''p:s'', Fin 1)]\<rparr>)]\<rparr>"

lemma cd_dispatch:
  "dispatch_step mem_env t00 ''p'' ''s'' ''h'' None cd_s4 = Inr (propose ''STEP_DISPATCHED'' 0
     [SetPool ''r'' (cd_pool\<lparr>po_allocated := Fin 1, po_allocs := [(''p:s'', Fin 1)]\<rparr>),
      SetPlan ''p'' (cd_plan\<lparr>pl_steps := [(''s'', cd_step')]\<rparr>),
      SetAgent ''h'' (cd_agent\<lparr>ag_tasks := [''p:s''], ag_status := ''BUSY''\<rparr>)])"
  using fadd_of_int [of 0 1] fsub_of_int [of 2 0]
  by (simp add: eval_simps dispatch_step_def plan_step_def check_capacity_def change_pools_def reserve_def task_id_def
      take_task_def agent_load_def missing_capabilities_def put_step_def cd_s4_def cd_s3_def cd_s2_def cd_s1_def
      cd_plan_def cd_step_def cd_step'_def cd_goal_def cd_agent_def cd_pool_def sorted_set_def cong: world_congs)

lemmas cd_states = cd_s1_def cd_s2_def cd_s3_def cd_s4_def cd_s5_def

lemma cd_whole: "whole (Fin 1)" "whole (Fin 2)"
  using whole_Fin(1) [of 1] whole_Fin(1) [of 2] by simp_all

lemma cd_whole_states: "whole_state cd_s1" "whole_state cd_s2" "whole_state cd_s3" "whole_state cd_s4" "whole_state cd_s5"
  by (auto simp: whole_state_def cd_states operational_state_def cd_pool_def cd_plan_def cd_step_def
      cd_step'_def cd_whole split: if_splits)

lemma wr_next: "whole_run E s \<Longrightarrow> ops_step E s p \<Longrightarrow> after p s = s' \<Longrightarrow> whole_state s' \<Longrightarrow> whole_run E s'"
  using wr_step by blast

lemma cd_whole_run: "whole_run mem_env cd_s5"
proof -
  note w = cd_states propose_def apply_change_def operational_state_def
  have 1: "whole_run mem_env cd_s1"
    by (rule wr_next [OF wr_start os_agent [OF cd_register] _ cd_whole_states(1)]) (simp add: w)
  have 2: "whole_run mem_env cd_s2"
    by (rule wr_next [OF 1 os_pool [OF cd_add_pool] _ cd_whole_states(2)]) (simp add: w)
  have 3: "whole_run mem_env cd_s3"
    by (rule wr_next [OF 2 os_goal [OF cd_add_goal] _ cd_whole_states(3)]) (simp add: w)
  have 4: "whole_run mem_env cd_s4"
    by (rule wr_next [OF 3 os_plan [OF cd_add_plan] _ cd_whole_states(4)]) (simp add: w)
  show ?thesis
    by (rule wr_next [OF 4 os_dispatch [OF cd_dispatch] _ cd_whole_states(5)]) (simp add: w)
qed

lemma cd_apart: "keys_apart cd_s5"
  by (rule colon_free_apart) (simp add: cd_s5_def domIff split: if_splits)

lemmas cd_ops_run = whole_run_run [OF cd_whole_run]

section \<open>The properties on the run\<close>

theorem control_refines_world_witness:
  "\<exists>db s. control_run mem_env ''t'' ''w'' db s \<and> holds db ''t'' ''w'' s \<and> op_agents s = [(''h'', cd_agent)]"
proof -
  let ?s0 = "operational_state 0"
  obtain db0 sn0 db1 sn1 where b: "bootstrap_world mem_env t00 ''t'' ''w'' (JObj []) ''a'' ''k'' [] None init_wdb = Inr (db0, sn0)"
    and c: "commit mem_env t00 (cd_request ''e'' 0) [] cd_proposal db0 = Inr (db1, sn1)" and n: "db1 \<noteq> db0"
    using cd_run by (force simp: rbind_eq_Inr)
  have "control_run mem_env ''t'' ''w'' db0 ?s0"
    by (rule cr_start [OF _ _ b]) (simp_all add: eval_simps stripped_id_def)
  moreover have "ops_step mem_env ?s0 cd_proposal"
    using os_agent [OF cd_register] by (simp add: cd_proposal_def)
  ultimately have "control_run mem_env ''t'' ''w'' db1 (if db1 = db0 then ?s0 else apply_changes (pr_changes cd_proposal) ?s0)"
    by (rule cr_step [OF _ _ _ _ c]) (simp_all add: cd_request_def)
  then have r: "control_run mem_env ''t'' ''w'' db1 (apply_changes (pr_changes cd_proposal) ?s0)"
    using n by simp
  moreover have "op_agents (apply_changes (pr_changes cd_proposal) ?s0) = [(''h'', cd_agent)]"
    by (simp add: cd_proposal_def propose_def apply_change_def operational_state_def)
  ultimately show ?thesis using control_refines_world [OF r] by blast
qed

theorem work_follows_dependencies_witness:
  "st_alloc cd_step' = st_requests cd_step' \<and> (\<exists>a ag. st_agent cd_step' = Some a \<and> dict_get (op_agents cd_s5) a = Some ag)"
  using work_follows_dependencies [OF cd_ops_run, of "''p''" "cd_plan\<lparr>pl_steps := [(''s'', cd_step')]\<rparr>" "''s''" cd_step']
  by (simp add: cd_s5_def cd_step'_def started_states_def)

theorem control_state_well_formed_witness: "ops_wf cd_s5"
  by (rule control_state_well_formed [OF cd_ops_run])

theorem agent_tasks_exact_witness: "tasks_of cd_s5 ''h'' = {''p:s''}"
  using agent_tasks_exact [OF cd_ops_run cd_apart, of "''h''" "cd_agent\<lparr>ag_tasks := [''p:s''], ag_status := ''BUSY''\<rparr>"]
  by (simp add: cd_s5_def)

theorem resource_books_balance_witness:
  "total [(''p:s'', Fin 1)] \<le> amount (Fin 2) \<and> Fin 1 = Fin (of_int (total [(''p:s'', Fin 1)]))"
  using resource_books_balance [OF cd_whole_run cd_apart, of "''r''" "cd_pool\<lparr>po_allocated := Fin 1, po_allocs := [(''p:s'', Fin 1)]\<rparr>"]
  by (simp add: cd_s5_def cd_pool_def)

end
