(* ===== verification/ControlDispatch.thy ===== *)
theory ControlDispatch
  imports ControlInv
begin

text \<open>
  Dispatching a step in one proposal is the same as allocating its resources and then assigning
  it in two: each succeeds exactly when the other does, with the same resulting state.
\<close>

lemma dict_put_put [simp]: "dict_put k v (dict_put k w d) = dict_put k v d"
  by (induction k w d rule: dict_put.induct) auto

lemma put_step_twice: "put_step b i t (put_step a i t p) = put_step b i t p"
  by (simp add: put_step_def)

lemma change_pools_state:
  "change_pools pools f amts = Inr cs \<Longrightarrow> \<exists>ps. apply_changes cs s = s\<lparr>op_pools := ps\<rparr>"
proof (induction amts arbitrary: cs s)
  case (Cons a amts)
  obtain r x p cs' where "change_pools pools f amts = Inr cs'" "cs = SetPool r (f x p) # cs'"
    using Cons.prems by (cases a) (auto simp: change_pools_def rbind_eq_Inr)
  then show ?case using Cons.IH [of cs' "s\<lparr>op_pools := dict_put r (f x p) (op_pools s)\<rparr>"] by auto
next
  case Nil
  then show ?case by (intro exI [of _ "op_pools s"]) (simp add: change_pools_def)
qed

text \<open>When the allocation succeeds, when the assignment does, and when the dispatch does.\<close>

definition can_allocate :: "ops \<Rightarrow> string \<Rightarrow> string \<Rightarrow> plan \<Rightarrow> step \<Rightarrow> change list \<Rightarrow> bool" where
  "can_allocate s k i pl st cs \<longleftrightarrow> plan_step s k i = Inr (pl, st) \<and> pl_status pl = ''ACTIVE'' \<and> st_status st = ''PENDING''
     \<and> st_alloc st = [] \<and> deps_done (pl_steps pl) (st_deps st) = Inr True
     \<and> (\<exists>us. traverse (check_capacity (op_pools s)) (st_requests st) = Inr us)
     \<and> change_pools (op_pools s) (reserve (task_id k i)) (st_requests st) = Inr cs"

definition can_assign :: "ops \<Rightarrow> string \<Rightarrow> step \<Rightarrow> agent \<Rightarrow> bool" where
  "can_assign s a st ag \<longleftrightarrow> dict_get (op_agents s) a = Some ag \<and> has_room ag \<and> missing_capabilities st ag = []"

lemma allocate_iff:
  "allocate_step_resources E now pl0 i0 ts s = Inr p \<longleftrightarrow> (\<exists>k i t pl st cs. ops_identifier ''plan_id'' pl0 = Inr k \<and>
     ops_identifier ''step_id'' i0 = Inr i \<and> ops_time E ''timestamp'' (or_now ts now) = Inr t \<and> can_allocate s k i pl st cs \<and>
     p = propose ''RESOURCES_ALLOCATED'' t (cs @ [SetPlan k (put_step (st\<lparr>st_alloc := st_requests st\<rparr>) i t pl)]))"
  unfolding allocate_step_resources_def can_allocate_def
  by (simp add: rbind_eq_Inr require_eq_Inr case_prod_unfold) (rule iffI; clarsimp; blast)

lemma assign_iff:
  "assign_step E now pl0 i0 a0 ts s = Inr p \<longleftrightarrow> (\<exists>k i a t pl st ag. ops_identifier ''plan_id'' pl0 = Inr k \<and>
     ops_identifier ''step_id'' i0 = Inr i \<and> ops_identifier ''agent_id'' a0 = Inr a \<and>
     ops_time E ''timestamp'' (or_now ts now) = Inr t \<and> plan_step s k i = Inr (pl, st) \<and> pl_status pl = ''ACTIVE'' \<and>
     st_status st = ''PENDING'' \<and> deps_done (pl_steps pl) (st_deps st) = Inr True \<and> st_requests st = st_alloc st \<and>
     can_assign s a st ag \<and>
     p = propose ''STEP_ASSIGNED'' t
         [SetPlan k (put_step (st\<lparr>st_status := ''ASSIGNED'', st_agent := Some a, st_assigned := Some t\<rparr>) i t pl),
          SetAgent a (take_task (task_id k i) ag)])"
  unfolding assign_step_def can_assign_def has_room_def
  by (simp add: rbind_eq_Inr require_eq_Inr case_prod_unfold lookup_Inr) (rule iffI; clarsimp; blast)

lemma dispatch_iff:
  "dispatch_step E now pl0 i0 a0 ts s = Inr p \<longleftrightarrow> (\<exists>k i a t pl st ag cs. ops_identifier ''plan_id'' pl0 = Inr k \<and>
     ops_identifier ''step_id'' i0 = Inr i \<and> ops_identifier ''agent_id'' a0 = Inr a \<and>
     ops_time E ''timestamp'' (or_now ts now) = Inr t \<and> can_allocate s k i pl st cs \<and> can_assign s a st ag \<and>
     p = propose ''STEP_DISPATCHED'' t (cs @
         [SetPlan k (put_step (st\<lparr>st_alloc := st_requests st, st_status := ''ASSIGNED'',
            st_agent := Some a, st_assigned := Some t\<rparr>) i t pl),
          SetAgent a (take_task (task_id k i) ag)]))"
  unfolding dispatch_step_def can_allocate_def can_assign_def has_room_def
  by (simp add: rbind_eq_Inr require_eq_Inr case_prod_unfold lookup_Inr) (rule iffI; clarsimp; blast)

text \<open>The state after an allocation, and that the step is still ready there.\<close>

lemma allocated_state:
  assumes c: "can_allocate s k i pl st cs" and st1: "st1 = st\<lparr>st_alloc := st_requests st\<rparr>"
    and s1: "s1 = after (propose ty t (cs @ [SetPlan k (put_step st1 i t pl)])) s"
  obtains ps where "apply_changes cs s = s\<lparr>op_pools := ps\<rparr>"
    "s1 = s\<lparr>op_pools := ps, op_plans := dict_put k (put_step st1 i t pl) (op_plans s), op_now := t\<rparr>"
    "plan_step s1 k i = Inr (put_step st1 i t pl, st1)"
    "deps_done (pl_steps (put_step st1 i t pl)) (st_deps st1) = Inr True"
    "can_assign s1 a st1 ag \<longleftrightarrow> can_assign s a st ag"
proof -
  obtain ps where ps: "apply_changes cs s = s\<lparr>op_pools := ps\<rparr>"
    using change_pools_state [of "op_pools s" "reserve (task_id k i)" "st_requests st" cs s] c unfolding can_allocate_def by blast
  have g: "dict_get (pl_steps pl) i = Some st" "st_status st = ''PENDING''" "deps_done (pl_steps pl) (st_deps st) = Inr True"
    using c by (auto simp: can_allocate_def plan_step_Inr)
  have "deps_done (pl_steps (put_step st1 i t pl)) (st_deps st1) = Inr True"
    using g unfolding deps_done_Inr st1 put_step_def by fastforce
  then show thesis
    by (intro that [OF ps])
      (simp_all add: s1 ps plan_step_Inr put_step_def can_assign_def st1 missing_capabilities_def)
qed

lemma dispatch_splits:
  assumes "\<exists>p. dispatch_step E now plan_id step_id agent_id ts s = Inr p \<and> after p s = s'"
  shows "\<exists>p1 p2. allocate_step_resources E now plan_id step_id ts s = Inr p1
          \<and> assign_step E now plan_id step_id agent_id ts (after p1 s) = Inr p2 \<and> after p2 (after p1 s) = s'"
proof -
  from assms obtain k i a t pl st ag cs where ids: "ops_identifier ''plan_id'' plan_id = Inr k" "ops_identifier ''step_id'' step_id = Inr i"
      "ops_identifier ''agent_id'' agent_id = Inr a" "ops_time E ''timestamp'' (or_now ts now) = Inr t"
    and c: "can_allocate s k i pl st cs" and ca: "can_assign s a st ag"
    and s': "s' = after (propose ''STEP_DISPATCHED'' t (cs @
         [SetPlan k (put_step (st\<lparr>st_alloc := st_requests st, st_status := ''ASSIGNED'',
            st_agent := Some a, st_assigned := Some t\<rparr>) i t pl),
          SetAgent a (take_task (task_id k i) ag)])) s"
    unfolding dispatch_iff by blast
  define st1 where "st1 = st\<lparr>st_alloc := st_requests st\<rparr>"
  define p1 where "p1 = propose ''RESOURCES_ALLOCATED'' t (cs @ [SetPlan k (put_step st1 i t pl)])"
  obtain ps where ps: "apply_changes cs s = s\<lparr>op_pools := ps\<rparr>"
      "after p1 s = s\<lparr>op_pools := ps, op_plans := dict_put k (put_step st1 i t pl) (op_plans s), op_now := t\<rparr>"
    and g: "plan_step (after p1 s) k i = Inr (put_step st1 i t pl, st1)"
      "deps_done (pl_steps (put_step st1 i t pl)) (st_deps st1) = Inr True" "can_assign (after p1 s) a st1 ag \<longleftrightarrow> can_assign s a st ag"
    by (rule allocated_state [OF c st1_def, of "after p1 s" "''RESOURCES_ALLOCATED''" t a ag]) (auto simp: p1_def)
  have "allocate_step_resources E now plan_id step_id ts s = Inr p1"
    unfolding allocate_iff p1_def st1_def using ids c by blast
  moreover define p2 where "p2 = propose ''STEP_ASSIGNED'' t
         [SetPlan k (put_step (st1\<lparr>st_status := ''ASSIGNED'', st_agent := Some a, st_assigned := Some t\<rparr>) i t (put_step st1 i t pl)),
          SetAgent a (take_task (task_id k i) ag)]"
  have o: "pl_status (put_step st1 i t pl) = ''ACTIVE''" "st_status st1 = ''PENDING''" "st_requests st1 = st_alloc st1"
    using c by (simp_all add: can_allocate_def put_step_def st1_def)
  have "assign_step E now plan_id step_id agent_id ts (after p1 s) = Inr p2"
    unfolding assign_iff p2_def using ids g o ca by blast
  moreover have "after p2 (after p1 s) = s'"
    unfolding s' p2_def ps(2) by (simp add: ps(1) put_step_twice st1_def)
  ultimately show ?thesis by blast
qed

lemma split_dispatches:
  assumes "\<exists>p1 p2. allocate_step_resources E now plan_id step_id ts s = Inr p1
          \<and> assign_step E now plan_id step_id agent_id ts (after p1 s) = Inr p2 \<and> after p2 (after p1 s) = s'"
  shows "\<exists>p. dispatch_step E now plan_id step_id agent_id ts s = Inr p \<and> after p s = s'"
proof -
  from assms obtain p1 p2 where p1: "allocate_step_resources E now plan_id step_id ts s = Inr p1"
    and p2: "assign_step E now plan_id step_id agent_id ts (after p1 s) = Inr p2" and s': "after p2 (after p1 s) = s'" by blast
  from p1 obtain k i t pl st cs where ids: "ops_identifier ''plan_id'' plan_id = Inr k" "ops_identifier ''step_id'' step_id = Inr i"
      "ops_time E ''timestamp'' (or_now ts now) = Inr t"
    and c: "can_allocate s k i pl st cs"
    and q1: "p1 = propose ''RESOURCES_ALLOCATED'' t (cs @ [SetPlan k (put_step (st\<lparr>st_alloc := st_requests st\<rparr>) i t pl)])"
    unfolding allocate_iff by blast
  define st1 where "st1 = st\<lparr>st_alloc := st_requests st\<rparr>"
  from p2 obtain a pl2 st2 ag where a: "ops_identifier ''agent_id'' agent_id = Inr a"
    and g2: "plan_step (after p1 s) k i = Inr (pl2, st2)" and ca: "can_assign (after p1 s) a st2 ag"
    and q2: "p2 = propose ''STEP_ASSIGNED'' t
         [SetPlan k (put_step (st2\<lparr>st_status := ''ASSIGNED'', st_agent := Some a, st_assigned := Some t\<rparr>) i t pl2),
          SetAgent a (take_task (task_id k i) ag)]"
    unfolding assign_iff ids by (clarsimp; blast)
  obtain ps where ps: "apply_changes cs s = s\<lparr>op_pools := ps\<rparr>"
      "after p1 s = s\<lparr>op_pools := ps, op_plans := dict_put k (put_step st1 i t pl) (op_plans s), op_now := t\<rparr>"
    and g: "plan_step (after p1 s) k i = Inr (put_step st1 i t pl, st1)" "can_assign (after p1 s) a st1 ag \<longleftrightarrow> can_assign s a st ag"
    by (rule allocated_state [OF c st1_def, of "after p1 s" "''RESOURCES_ALLOCATED''" t a ag]) (auto simp: q1 st1_def)
  have e: "pl2 = put_step st1 i t pl" "st2 = st1" using g2 g(1) by auto
  have "dispatch_step E now plan_id step_id agent_id ts s = Inr (propose ''STEP_DISPATCHED'' t (cs @
         [SetPlan k (put_step (st\<lparr>st_alloc := st_requests st, st_status := ''ASSIGNED'',
            st_agent := Some a, st_assigned := Some t\<rparr>) i t pl),
          SetAgent a (take_task (task_id k i) ag)]))"
    unfolding dispatch_iff using ids a c ca g(2) e by blast
  moreover have "after (propose ''STEP_DISPATCHED'' t (cs @
         [SetPlan k (put_step (st\<lparr>st_alloc := st_requests st, st_status := ''ASSIGNED'',
            st_agent := Some a, st_assigned := Some t\<rparr>) i t pl),
          SetAgent a (take_task (task_id k i) ag)])) s = s'"
    unfolding s' [symmetric] q2 ps(2) e by (simp add: ps(1) put_step_twice st1_def)
  ultimately show ?thesis by blast
qed

text \<open>
  C22. Dispatch is allocation followed by assignment: one atomic dispatch succeeds and leads to a
  state exactly when allocating the step's resources succeeds and assigning the step in the state
  after that does, and leads there too.
\<close>

theorem dispatch_is_allocate_then_assign:
  "(\<exists>p. dispatch_step E now plan_id step_id agent_id ts s = Inr p \<and> after p s = s')
    \<longleftrightarrow> (\<exists>p1 p2. allocate_step_resources E now plan_id step_id ts s = Inr p1
          \<and> assign_step E now plan_id step_id agent_id ts (after p1 s) = Inr p2 \<and> after p2 (after p1 s) = s')"
  using dispatch_splits split_dispatches by blast

end
