(* ===== verification/Provenance.thy ===== *)
theory Provenance
  imports Json
begin

text \<open>
  The provenance graph (\<open>src/src/edon/provenance/graph.py\<close>): an append-only graph of recorded
  artefacts and of the declared relations between them. A node and an edge carry the hash of
  their own content; an edge that would close a cycle is refused.
\<close>

section \<open>Errors and checks\<close>

text \<open>A \<open>ProvenanceGraphError\<close> with its message, or the overflow of a time outside the calendar.\<close>

datatype graph_error = GraphError string | GraphOverflow

definition node_types :: "string list" where
  "node_types = [''SOURCE'', ''STATE_ASSERTION'', ''STATE_PROJECTION'', ''C1_INFERENCE'', ''PLAN'',
     ''OPTIMIZATION_CANDIDATE'', ''AUTHORIZATION'', ''COMMIT'', ''OUTCOME'', ''ACTIONNET_EXPERIENCE'', ''ARTIFACT'']"

definition relations :: "string list" where
  "relations = [''DERIVED_FROM'', ''INFORMED'', ''PROPOSED'', ''OPTIMIZED'', ''AUTHORIZED'', ''COMMITTED'',
     ''RESULTED_IN'', ''CAPTURED_AS'', ''CONTESTS'']"

definition evidence_statuses :: "string list" where
  "evidence_statuses = [''DECLARED'', ''OBSERVED_ORDER'', ''INTERVENTION_VERIFIED'', ''CONTESTED'']"

definition graph_identifier :: "string \<Rightarrow> string \<Rightarrow> graph_error + string" where
  "graph_identifier label s = ident_check 240 (GraphError (label @ '' must contain between 1 and 240 characters'')) s"

definition is_hex :: "char \<Rightarrow> bool" where
  "is_hex c = (let n = of_char c :: nat in 48 \<le> n \<and> n \<le> 57 \<or> 65 \<le> n \<and> n \<le> 70 \<or> 97 \<le> n \<and> n \<le> 102)"

text \<open>Digits with single underscores between them; \<open>u\<close> says that an underscore may not come next.\<close>

fun hex_digits :: "bool \<Rightarrow> string \<Rightarrow> bool" where
  "hex_digits u [] = (\<not> u)"
| "hex_digits u (c # cs) = (if c = CHR ''_'' then \<not> u \<and> hex_digits True cs else is_hex c \<and> hex_digits False cs)"

text \<open>What \<open>int(s, 16)\<close> reads: white space around it, a sign, a prefix and underscores are accepted.\<close>

definition hex_literal :: "string \<Rightarrow> bool" where
  "hex_literal s =
     (let s = num_strip s;
          s = (if take 1 s \<in> {''+'', ''-''} then drop 1 s else s);
          s = (if take 2 s \<in> {''0x'', ''0X''} then (if take 1 (drop 2 s) = ''_'' then drop 3 s else drop 2 s) else s)
      in hex_digits True s)"

definition graph_sha256 :: "string \<Rightarrow> string \<Rightarrow> graph_error + string" where
  "graph_sha256 label s =
     (let n = py_strip s; e = GraphError (label @ '' must be a prefixed SHA-256 digest'') in
      require (take 7 n = ''sha256:'' \<and> length n = 71) e (require (hex_literal (drop 7 n)) e (Inr n)))"

definition graph_time :: "pyenv \<Rightarrow> string \<Rightarrow> string \<Rightarrow> graph_error + string" where
  "graph_time E label s = (case iso_parse E (zulu s) of
     TsBad \<Rightarrow> Inl (GraphError (label @ '' must be an ISO-8601 timestamp''))
   | TsNaive \<Rightarrow> Inl (GraphError (label @ '' must include a timezone''))
   | TsOverflow \<Rightarrow> Inl GraphOverflow
   | TsAware t \<Rightarrow> Inr (isoformat t))"

definition graph_metadata :: "json \<Rightarrow> graph_error + obj" where
  "graph_metadata v = (case v of
     JObj m \<Rightarrow> require (obj_finite m) (GraphError ''metadata must contain finite JSON values'') (Inr m)
   | _ \<Rightarrow> Inl (GraphError ''metadata must be an object''))"

section \<open>The graph\<close>

record pnode =
  pn_id :: string
  pn_tenant :: string
  pn_world :: string
  pn_type :: string
  pn_payload :: string
  pn_occurred :: string
  pn_available :: string
  pn_meta :: obj
  pn_sha :: string

record pedge =
  pe_id :: string
  pe_tenant :: string
  pe_world :: string
  pe_source :: string
  pe_target :: string
  pe_relation :: string
  pe_evidence :: string
  pe_refs :: "string list"
  pe_recorded :: string
  pe_sha :: string

record pgraph =
  pg_tenant :: string
  pg_world :: string
  pg_nodes :: "(string, pnode) dict"
  pg_edges :: "(string, pedge) dict"

definition node_fields :: "pnode \<Rightarrow> (string \<times> json) list" where
  "node_fields n =
     [(''schema_version'', JStr ''edon-causal-provenance-node.v1''), (''node_id'', JStr (pn_id n)),
      (''tenant_id'', JStr (pn_tenant n)), (''world_id'', JStr (pn_world n)), (''node_type'', JStr (pn_type n)),
      (''payload_sha256'', JStr (pn_payload n)), (''occurred_at'', JStr (pn_occurred n)),
      (''available_to_controller_at'', JStr (pn_available n)), (''metadata'', JObj (pn_meta n)),
      (''binding_authority'', JBool False)]"

definition edge_fields :: "pedge \<Rightarrow> (string \<times> json) list" where
  "edge_fields e =
     [(''schema_version'', JStr ''edon-causal-provenance-edge.v1''), (''edge_id'', JStr (pe_id e)),
      (''tenant_id'', JStr (pe_tenant e)), (''world_id'', JStr (pe_world e)), (''source_node_id'', JStr (pe_source e)),
      (''target_node_id'', JStr (pe_target e)), (''relation'', JStr (pe_relation e)),
      (''evidence_status'', JStr (pe_evidence e)), (''evidence_refs'', jstrs (pe_refs e)),
      (''recorded_at'', JStr (pe_recorded e)), (''binding_authority'', JBool False)]"

definition new_graph :: "string \<Rightarrow> string \<Rightarrow> graph_error + pgraph" where
  "new_graph tenant_id world_id =
     rbind (graph_identifier ''tenant_id'' tenant_id) (\<lambda>t.
     rbind (graph_identifier ''world_id'' world_id) (\<lambda>w.
       Inr \<lparr>pg_tenant = t, pg_world = w, pg_nodes = [], pg_edges = []\<rparr>))"

text \<open>A node under its hash, filed unless its identifier is taken by other content.\<close>

definition seal_node :: "pyenv \<Rightarrow> pnode \<Rightarrow> pnode" where
  "seal_node E core = core\<lparr>pn_sha := sha256_json E (mk_obj (node_fields core))\<rparr>"

definition file_node :: "pnode \<Rightarrow> pgraph \<Rightarrow> graph_error + (pgraph \<times> pnode)" where
  "file_node node g = (case dict_get (pg_nodes g) (pn_id node) of
     Some old \<Rightarrow> require (pn_sha old = pn_sha node) (GraphError ''node_id is already bound to different content'')
       (Inr (g, old))
   | None \<Rightarrow> Inr (g\<lparr>pg_nodes := dict_put (pn_id node) node (pg_nodes g)\<rparr>, node))"

definition seal_edge :: "pyenv \<Rightarrow> pedge \<Rightarrow> pedge" where
  "seal_edge E core = core\<lparr>pe_sha := sha256_json E (mk_obj (edge_fields core))\<rparr>"

definition file_edge :: "pedge \<Rightarrow> pgraph \<Rightarrow> graph_error + (pgraph \<times> pedge)" where
  "file_edge edge g = (case dict_get (pg_edges g) (pe_id edge) of
     Some old \<Rightarrow> require (pe_sha old = pe_sha edge) (GraphError ''edge_id is already bound to different content'')
       (Inr (g, old))
   | None \<Rightarrow> Inr (g\<lparr>pg_edges := dict_put (pe_id edge) edge (pg_edges g)\<rparr>, edge))"

definition record_node :: "pyenv \<Rightarrow> string \<Rightarrow> string \<Rightarrow> string \<Rightarrow> string \<Rightarrow> string \<Rightarrow> json \<Rightarrow> pgraph
    \<Rightarrow> graph_error + (pgraph \<times> pnode)" where
  "record_node E node_id node_type payload_sha256 occurred_at available_at metadata g =
     require (py_upper node_type \<in> set node_types)
       (GraphError (''unsupported provenance node type: '' @ py_upper node_type)) (
     rbind (graph_time E ''occurred_at'' occurred_at) (\<lambda>occurred.
     rbind (graph_time E ''available_to_controller_at'' available_at) (\<lambda>available.
     require (\<not> available < occurred) (GraphError ''available_to_controller_at cannot precede occurred_at'') (
     rbind (graph_identifier ''node_id'' node_id) (\<lambda>i.
     rbind (graph_sha256 ''payload_sha256'' payload_sha256) (\<lambda>payload.
     rbind (graph_metadata (if truthy metadata then metadata else JObj [])) (\<lambda>meta.
       file_node (seal_node E \<lparr>pn_id = i, pn_tenant = pg_tenant g, pn_world = pg_world g, pn_type = py_upper node_type,
         pn_payload = payload, pn_occurred = occurred, pn_available = available, pn_meta = meta, pn_sha = []\<rparr>) g)))))))"

text \<open>
  \<open>_reachable\<close>: a depth-first search with a stack of nodes to visit, the top of the stack first;
  the successors of a node are pushed so that the smallest is on top.
\<close>

definition succs :: "pedge list \<Rightarrow> string \<Rightarrow> string list" where
  "succs es u = sorted_set (map pe_target (filter (\<lambda>e. pe_source e = u) es))"

function search :: "pedge list \<Rightarrow> string \<Rightarrow> string list \<Rightarrow> string list \<Rightarrow> bool" where
  "search es target [] seen = False"
| "search es target (u # pending) seen =
     (if u = target then True
      else if u \<in> set seen then search es target pending seen
      else search es target (succs es u @ pending) (u # seen))"
  by pat_completeness auto
termination
proof (relation "inv_image (less_than <*lex*> less_than)
    (\<lambda>(es, target, pending, seen). (card (pe_source ` set es - set seen), length pending))")
  fix es and target u :: string and pending seen :: "string list"
  assume "u \<notin> set seen"
  have "succs es u = [] \<and> pe_source ` set es - set (u # seen) = pe_source ` set es - set seen
      \<or> card (pe_source ` set es - set (u # seen)) < card (pe_source ` set es - set seen)"
  proof (cases "u \<in> pe_source ` set es")
    case True
    with \<open>u \<notin> set seen\<close> show ?thesis by (intro disjI2 psubset_card_mono) auto
  next
    case False
    then have "filter (\<lambda>e. pe_source e = u) es = []" by (auto simp: filter_empty_conv)
    with False show ?thesis by (auto simp: succs_def)
  qed
  then show "((es, target, succs es u @ pending, u # seen), es, target, u # pending, seen)
      \<in> inv_image (less_than <*lex*> less_than)
        (\<lambda>(es, target, pending, seen). (card (pe_source ` set es - set seen), length pending))"
    by auto
qed auto

definition reachable :: "pgraph \<Rightarrow> string \<Rightarrow> string \<Rightarrow> bool" where
  "reachable g source target = search (map snd (pg_edges g)) target [source] []"

definition record_edge :: "pyenv \<Rightarrow> string \<Rightarrow> string \<Rightarrow> string \<Rightarrow> string \<Rightarrow> string \<Rightarrow> string list \<Rightarrow> string \<Rightarrow> pgraph
    \<Rightarrow> graph_error + (pgraph \<times> pedge)" where
  "record_edge E edge_id source_node_id target_node_id relation evidence_status evidence_refs recorded_at g =
     rbind (graph_identifier ''source_node_id'' source_node_id) (\<lambda>source.
     rbind (graph_identifier ''target_node_id'' target_node_id) (\<lambda>target.
     require (dict_get (pg_nodes g) source \<noteq> None \<and> dict_get (pg_nodes g) target \<noteq> None)
       (GraphError ''provenance edge references an unknown node'') (
     require (\<not> (source = target \<or> reachable g target source)) (GraphError ''provenance edge would create a cycle'') (
     require (py_upper relation \<in> set relations)
       (GraphError (''unsupported provenance relation: '' @ py_upper relation)) (
     require (py_upper evidence_status \<in> set evidence_statuses)
       (GraphError (''unsupported evidence status: '' @ py_upper evidence_status)) (
     rbind (traverse (graph_identifier ''evidence_ref'') evidence_refs) (\<lambda>refs.
     require (refs \<noteq> []) (GraphError ''at least one evidence_ref is required'') (
     rbind (graph_identifier ''edge_id'' edge_id) (\<lambda>i.
     rbind (graph_time E ''recorded_at'' recorded_at) (\<lambda>recorded.
       file_edge (seal_edge E \<lparr>pe_id = i, pe_tenant = pg_tenant g, pe_world = pg_world g, pe_source = source,
         pe_target = target, pe_relation = py_upper relation, pe_evidence = py_upper evidence_status,
         pe_refs = sorted_set refs, pe_recorded = recorded, pe_sha = []\<rparr>) g))))))))))"

section \<open>Traces and snapshots\<close>

definition targets :: "pedge list \<Rightarrow> string \<Rightarrow> string list" where
  "targets es u = map pe_target (filter (\<lambda>e. pe_source e = u) es)"

function visit :: "pedge list \<Rightarrow> string \<Rightarrow> int \<Rightarrow> string \<Rightarrow> string list \<Rightarrow> string list list" where
  "visit es target max_depth current path =
     (if max_depth + 1 < int (length path) then []
      else if current = target then [path]
      else concat (map (\<lambda>c. visit es target max_depth c (path @ [c]))
        (filter (\<lambda>c. c \<notin> set path) (targets es current))))"
  by pat_completeness auto
termination
  by (relation "measure (\<lambda>(es, target, max_depth, current, path). nat (max_depth + 2 - int (length path)))") auto

declare visit.simps [simp del]

definition trace_paths :: "string \<Rightarrow> string \<Rightarrow> int \<Rightarrow> pgraph \<Rightarrow> graph_error + string list list" where
  "trace_paths source_node_id target_node_id max_depth g =
     rbind (graph_identifier ''source_node_id'' source_node_id) (\<lambda>source.
     rbind (graph_identifier ''target_node_id'' target_node_id) (\<lambda>target.
     require (dict_get (pg_nodes g) source \<noteq> None \<and> dict_get (pg_nodes g) target \<noteq> None)
       (GraphError ''trace endpoint is not registered'') (
     Inr (visit (map snd (pg_edges g)) target max_depth source [source]))))"

definition enc_node :: "pnode \<Rightarrow> json" where
  "enc_node n = mk_obj (node_fields n @ [(''node_sha256'', JStr (pn_sha n))])"

definition enc_edge :: "pedge \<Rightarrow> json" where
  "enc_edge e = mk_obj (edge_fields e @ [(''edge_sha256'', JStr (pe_sha e))])"

definition graph_fields :: "pgraph \<Rightarrow> (string \<times> json) list" where
  "graph_fields g =
     [(''schema_version'', JStr ''edon-causal-provenance-graph.v1''), (''tenant_id'', JStr (pg_tenant g)),
      (''world_id'', JStr (pg_world g)), (''nodes'', JArr (map (\<lambda>p. enc_node (snd p)) (pg_nodes g))),
      (''edges'', JArr (map (\<lambda>p. enc_edge (snd p)) (pg_edges g))),
      (''causal_claim_boundary'', JStr ''Recorded lineage and evidence status only; causal truth requires the declared validation method.''),
      (''binding_authority'', JBool False)]"

definition graph_snapshot :: "pyenv \<Rightarrow> pgraph \<Rightarrow> json" where
  "graph_snapshot E g =
     mk_obj (graph_fields g @ [(''graph_sha256'', JStr (sha256_json E (mk_obj (graph_fields g))))])"

section \<open>Runs\<close>

text \<open>Graphs that the two recording operations build from an empty one.\<close>

inductive graph_run :: "pyenv \<Rightarrow> pgraph \<Rightarrow> bool" for E where
  gr_new: "new_graph t w = Inr g \<Longrightarrow> graph_run E g"
| gr_node: "graph_run E g \<Longrightarrow> record_node E i ty p oc av m g = Inr (g', n) \<Longrightarrow> graph_run E g'"
| gr_edge: "graph_run E g \<Longrightarrow> record_edge E i s t r st refs at' g = Inr (g', e) \<Longrightarrow> graph_run E g'"

end
