(* ===== verification/ProvenanceProps.thy ===== *)
theory ProvenanceProps
  imports Provenance
begin

text \<open>
  What the provenance graph promises: it stays acyclic with registered ends, recorded nodes and
  edges never change, and a trace finds exactly the paths of the graph up to its depth.
\<close>

section \<open>The search\<close>

definition arcs :: "pedge list \<Rightarrow> (string \<times> string) set" where
  "arcs es = (\<lambda>e. (pe_source e, pe_target e)) ` set es"

lemma succs_arcs: "set (succs es u) = arcs es `` {u}" "set (targets es u) = arcs es `` {u}"
  by (force simp: succs_def targets_def arcs_def)+

text \<open>A way out of a set whose arcs lead into the set or to pending nodes passes a pending one.\<close>

lemma leaves_by_pending:
  assumes "(u, t) \<in> R\<^sup>*" and "u \<in> S" and "t \<notin> S" and "R `` S \<subseteq> S \<union> P"
  shows "\<exists>w \<in> P. (w, t) \<in> R\<^sup>*"
  using assms by (induction rule: converse_rtrancl_induct) blast+

lemma search_iff:
  "t \<notin> set seen \<Longrightarrow> arcs es `` set seen \<subseteq> set seen \<union> set pending \<Longrightarrow>
     search es t pending seen \<longleftrightarrow> (\<exists>u \<in> set pending. (u, t) \<in> (arcs es)\<^sup>*)"
proof (induction es t pending seen rule: search.induct)
  case (2 es t u pending seen)
  consider "u = t" | "u \<noteq> t" "u \<in> set seen" | "u \<noteq> t" "u \<notin> set seen" by blast
  then show ?case
  proof cases
    case 1
    then show ?thesis by auto
  next
    case 2
    have "search es t pending seen \<longleftrightarrow> (\<exists>u \<in> set pending. (u, t) \<in> (arcs es)\<^sup>*)"
      by (rule "2.IH"(1)) (use 2 "2.prems" in auto)
    moreover have "\<exists>w \<in> set pending. (w, t) \<in> (arcs es)\<^sup>*" if "(u, t) \<in> (arcs es)\<^sup>*"
      by (rule leaves_by_pending [OF that]) (use 2 "2.prems" in auto)
    ultimately show ?thesis using 2 by auto
  next
    case 3
    have "search es t (succs es u @ pending) (u # seen) \<longleftrightarrow> (\<exists>w \<in> set (succs es u @ pending). (w, t) \<in> (arcs es)\<^sup>*)"
      by (rule "2.IH"(2)) (use 3 "2.prems" in \<open>auto simp: succs_arcs\<close>)
    moreover have "(u, t) \<in> (arcs es)\<^sup>* \<longleftrightarrow> (\<exists>w \<in> set (succs es u). (w, t) \<in> (arcs es)\<^sup>*)"
      using 3(1) by (auto simp: succs_arcs elim: converse_rtranclE intro: converse_rtrancl_into_rtrancl)
    ultimately show ?thesis using 3 by auto
  qed
qed simp

abbreviation graph_arcs :: "pgraph \<Rightarrow> (string \<times> string) set" where
  "graph_arcs g \<equiv> arcs (map snd (pg_edges g))"

lemma reachable_iff: "reachable g u v \<longleftrightarrow> (u, v) \<in> (graph_arcs g)\<^sup>*"
  unfolding reachable_def by (subst search_iff) auto

section \<open>Recording\<close>

lemma set_dict_put_new: "dict_get d k = None \<Longrightarrow> set (dict_put k v d) = insert (k, v) (set d)"
  by (induction k v d rule: dict_put.induct) (auto split: if_splits)

text \<open>What a successful recording does.\<close>

lemma file_node_cases:
  assumes "file_node n0 g = Inr (g', n)"
  obtains (again) "g' = g" "dict_get (pg_nodes g) (pn_id n0) = Some n" "pn_sha n = pn_sha n0"
    | (new) "dict_get (pg_nodes g) (pn_id n) = None" "g' = g\<lparr>pg_nodes := dict_put (pn_id n) n (pg_nodes g)\<rparr>" "n = n0"
proof (cases "dict_get (pg_nodes g) (pn_id n0)")
  case None
  show thesis by (rule new) (use assms None in \<open>auto simp: file_node_def\<close>)
next
  case (Some old)
  show thesis by (rule again) (use assms Some in \<open>auto simp: file_node_def require_eq_Inr\<close>)
qed

lemma file_edge_cases:
  assumes "file_edge e0 g = Inr (g', e)"
  obtains (again) "g' = g" "dict_get (pg_edges g) (pe_id e0) = Some e" "pe_sha e = pe_sha e0"
    | (new) "dict_get (pg_edges g) (pe_id e) = None" "g' = g\<lparr>pg_edges := dict_put (pe_id e) e (pg_edges g)\<rparr>" "e = e0"
proof (cases "dict_get (pg_edges g) (pe_id e0)")
  case None
  show thesis by (rule new) (use assms None in \<open>auto simp: file_edge_def\<close>)
next
  case (Some old)
  show thesis by (rule again) (use assms Some in \<open>auto simp: file_edge_def require_eq_Inr\<close>)
qed

lemma record_node_D:
  assumes "record_node E i ty p oc av m g = Inr (g', n)"
  obtains n0 where "file_node n0 g = Inr (g', n)" "\<not> pn_available n0 < pn_occurred n0"
  using assms unfolding record_node_def by (clarsimp simp: require_eq_Inr; elim rbindE; clarsimp simp: require_eq_Inr; elim rbindE) (auto simp: seal_node_def)

lemma record_edge_D:
  assumes "record_edge E i s t r st refs at' g = Inr (g', e)"
  obtains e0 where "file_edge e0 g = Inr (g', e)"
    "dict_get (pg_nodes g) (pe_source e0) \<noteq> None" "dict_get (pg_nodes g) (pe_target e0) \<noteq> None"
    "\<not> reachable g (pe_target e0) (pe_source e0)"
  using assms unfolding record_edge_def
  by (elim rbindE; clarsimp simp: require_eq_Inr; elim rbindE; clarsimp simp: require_eq_Inr; elim rbindE) (auto simp: seal_edge_def)

definition graph_ok :: "pgraph \<Rightarrow> bool" where
  "graph_ok g \<longleftrightarrow> acyclic (graph_arcs g) \<and> Field (graph_arcs g) \<subseteq> dom (dict_get (pg_nodes g))
     \<and> (\<forall>k n. dict_get (pg_nodes g) k = Some n \<longrightarrow> pn_id n = k \<and> \<not> pn_available n < pn_occurred n)
     \<and> dict_ok (pg_nodes g) \<and> dict_ok (pg_edges g)"

lemma graph_ok_edge:
  assumes ok: "graph_ok g" and e: "record_edge E i s t r st refs at' g = Inr (g', e)"
  shows "graph_ok g'"
proof -
  obtain e0 where f: "file_edge e0 g = Inr (g', e)" and g: "dict_get (pg_nodes g) (pe_source e0) \<noteq> None"
    "dict_get (pg_nodes g) (pe_target e0) \<noteq> None" "\<not> reachable g (pe_target e0) (pe_source e0)"
    using e by (rule record_edge_D)
  from f show ?thesis
  proof (cases rule: file_edge_cases)
    case new
    have a: "graph_arcs g' = insert (pe_source e, pe_target e) (graph_arcs g)"
      using set_dict_put_new [OF new(1)] by (auto simp: new(2) arcs_def image_iff)
    have "acyclic (graph_arcs g')" unfolding a acyclic_insert
      using ok g new(3) by (simp add: graph_ok_def reachable_iff)
    moreover have "Field (graph_arcs g') \<subseteq> dom (dict_get (pg_nodes g'))"
      using ok g new(3) unfolding a graph_ok_def by (auto simp: new(2))
    ultimately show ?thesis using ok by (simp add: graph_ok_def new(2))
  qed (use ok in simp)
qed

lemma graph_ok_node:
  assumes ok: "graph_ok g" and n: "record_node E i ty p oc av m g = Inr (g', n)"
  shows "graph_ok g'"
proof -
  obtain n0 where f: "file_node n0 g = Inr (g', n)" and a: "\<not> pn_available n0 < pn_occurred n0"
    using n by (rule record_node_D)
  from f show ?thesis
  proof (cases rule: file_node_cases)
    case new
    then show ?thesis using ok a by (auto simp: graph_ok_def)
  qed (use ok in simp)
qed

lemma graph_run_ok: "graph_run E g \<Longrightarrow> graph_ok g"
proof (induction rule: graph_run.induct)
  case (gr_new t w g)
  then show ?case by (auto simp: new_graph_def rbind_eq_Inr graph_ok_def arcs_def acyclic_def)
qed (auto intro: graph_ok_node graph_ok_edge)

text \<open>
  C37. The provenance graph is a directed acyclic graph: whatever is recorded, no node is reachable
  from itself by one or more edges, every edge joins recorded nodes, nodes are filed under their
  identifiers, and none was available to a controller before it occurred.
\<close>

theorem provenance_is_acyclic:
  assumes "graph_run E g"
  shows "acyclic (graph_arcs g) \<and> Field (graph_arcs g) \<subseteq> dom (dict_get (pg_nodes g))
    \<and> (\<forall>k n. dict_get (pg_nodes g) k = Some n \<longrightarrow> pn_id n = k \<and> pn_occurred n \<le> pn_available n)"
  using graph_run_ok [OF assms] by (auto simp: graph_ok_def not_less)

section \<open>Traces\<close>

definition is_path :: "(string \<times> string) set \<Rightarrow> string list \<Rightarrow> bool" where
  "is_path R p \<longleftrightarrow> p \<noteq> [] \<and> successively (\<lambda>u v. (u, v) \<in> R) p"

lemma is_path_Cons: "is_path R (u # v # q) \<longleftrightarrow> (u, v) \<in> R \<and> is_path R (v # q)"
  by (simp add: is_path_def)

lemma is_path_one [simp]: "is_path R [u]"
  by (simp add: is_path_def)

lemma visit_too_deep: "max_depth + 1 < int (length path) \<Longrightarrow> visit es t max_depth u path = []"
  by (subst visit.simps) simp

lemma visit_set:
  "distinct path \<Longrightarrow> u \<in> set path \<Longrightarrow>
     set (visit es t d u path) = {path @ q | q. is_path (arcs es) (u # q) \<and> last (u # q) = t
        \<and> distinct (path @ q) \<and> int (length (path @ q)) \<le> d + 1}"
proof (induction es t d u path rule: visit.induct)
  case (1 es t d u path)
  consider "d + 1 < int (length path)" | "\<not> d + 1 < int (length path)" "u = t" | "\<not> d + 1 < int (length path)" "u \<noteq> t"
    by blast
  then show ?case
  proof cases
    case 1
    then show ?thesis by (auto simp: visit_too_deep)
  next
    case 2
    have "q = []" if "distinct (path @ q)" "last (u # q) = u" for q
      using that "1.prems"(2) by (cases q rule: rev_cases) auto
    then show ?thesis using 2 "1.prems" by (subst visit.simps) auto
  next
    case 3
    have IH: "set (visit es t d c (path @ [c])) = {(path @ [c]) @ q | q. is_path (arcs es) (c # q) \<and> last (c # q) = t
        \<and> distinct ((path @ [c]) @ q) \<and> int (length ((path @ [c]) @ q)) \<le> d + 1}"
      if "c \<in> set (filter (\<lambda>c. c \<notin> set path) (targets es u))" for c
      by (rule "1.IH" [OF 3 that]) (use "1.prems" that in auto)
    have "set (visit es t d u path) = (\<Union>c \<in> {c \<in> arcs es `` {u}. c \<notin> set path}. set (visit es t d c (path @ [c])))"
      using 3 by (subst visit.simps) (auto simp: succs_arcs)
    also have "\<dots> = (\<Union>c \<in> {c \<in> arcs es `` {u}. c \<notin> set path}. {path @ c # q | q. is_path (arcs es) (c # q) \<and> last (c # q) = t
        \<and> distinct (path @ c # q) \<and> int (length (path @ c # q)) \<le> d + 1})"
      using IH by (intro SUP_cong refl) (simp add: succs_arcs)
    also have "\<dots> = {path @ q | q. is_path (arcs es) (u # q) \<and> last (u # q) = t
        \<and> distinct (path @ q) \<and> int (length (path @ q)) \<le> d + 1}" (is "?L = ?R")
    proof (intro equalityI subsetI)
      fix p assume "p \<in> ?R"
      then obtain q where q: "p = path @ q" "is_path (arcs es) (u # q)" "last (u # q) = t" "distinct (path @ q)"
        "int (length (path @ q)) \<le> d + 1" by blast
      with 3 obtain c q' where "q = c # q'" by (cases q) auto
      with q show "p \<in> ?L" by (auto simp: is_path_Cons)
    next
      fix p assume "p \<in> ?L"
      then obtain c q where c: "c \<in> arcs es `` {u}" "c \<notin> set path" and q: "p = path @ c # q" "is_path (arcs es) (c # q)"
        "last (c # q) = t" "distinct (path @ c # q)" "int (length (path @ c # q)) \<le> d + 1" by blast
      then have "is_path (arcs es) (u # c # q)" by (simp add: is_path_Cons)
      with q show "p \<in> ?R" by (intro CollectI exI [of _ "c # q"]) simp
    qed
    finally show ?thesis .
  qed
qed

text \<open>In an acyclic graph a path never comes back.\<close>

lemma path_trancl: "is_path R (u # q) \<Longrightarrow> v \<in> set q \<Longrightarrow> (u, v) \<in> R\<^sup>+"
proof (induction q arbitrary: u)
  case (Cons w q)
  then have "(u, w) \<in> R" "is_path R (w # q)" by (auto simp: is_path_Cons)
  with Cons show ?case by (cases "v = w") (auto intro: trancl_into_trancl2)
qed simp

lemma acyclic_path_distinct: "acyclic R \<Longrightarrow> is_path R p \<Longrightarrow> distinct p"
proof (induction p)
  case (Cons u q)
  then have "u \<notin> set q" using path_trancl [of R u q u] by (auto simp: acyclic_def)
  moreover have "distinct q" using Cons by (cases q) (auto simp: is_path_Cons)
  ultimately show ?case by simp
qed simp

lemma trace_paths_D:
  assumes "trace_paths s t d g = Inr ps"
  shows "ps = visit (map snd (pg_edges g)) (py_strip t) d (py_strip s) [py_strip s]"
  using assms unfolding trace_paths_def
  by (elim rbindE) (clarsimp simp: require_eq_Inr graph_identifier_def dest!: ident_check_Inr_D)

text \<open>
  C38. A trace is complete and exact: on a recorded graph, the paths returned between two nodes are
  all the directed paths from the one to the other with at most the maximal number of edges, and
  nothing else.
\<close>

theorem trace_finds_all_paths:
  assumes "graph_run E g" and "trace_paths source target max_depth g = Inr ps"
  shows "set ps = {p. is_path (graph_arcs g) p \<and> hd p = py_strip source \<and> last p = py_strip target
    \<and> int (length p) - 1 \<le> max_depth}"
proof -
  let ?R = "graph_arcs g"
  have "set ps = {[py_strip source] @ q | q. is_path ?R (py_strip source # q) \<and> last (py_strip source # q) = py_strip target
      \<and> distinct ([py_strip source] @ q) \<and> int (length ([py_strip source] @ q)) \<le> max_depth + 1}"
    unfolding trace_paths_D [OF assms(2)] by (rule visit_set) simp_all
  moreover have "distinct p" if "is_path ?R p" for p
    using graph_run_ok [OF assms(1)] that acyclic_path_distinct by (auto simp: graph_ok_def)
  moreover have "\<exists>q. p = [py_strip source] @ q" if "is_path ?R p" "hd p = py_strip source" for p
    using that by (cases p) (auto simp: is_path_def)
  ultimately show ?thesis by fastforce
qed

end
