(* ===== verification/ProvenanceExamples.thy ===== *)
theory ProvenanceExamples
  imports ProvenanceProps MemoryExamples
begin

text \<open>The provenance graph on two nodes and the edge between them, with its properties applied.\<close>

definition pv_digest :: string where
  "pv_digest = ''sha256:'' @ replicate 64 (CHR ''0'')"

lemma graph_words [eval_simps]:
  "py_upper ''PLAN'' = ''PLAN''" "py_upper ''INFORMED'' = ''INFORMED''" "py_upper ''DECLARED'' = ''DECLARED''"
  "graph_sha256 ''payload_sha256'' pv_digest = Inr pv_digest"
  "graph_identifier ''tenant_id'' ''t'' = Inr ''t''" "graph_identifier ''world_id'' ''w'' = Inr ''w''"
  "graph_identifier ''node_id'' ''a'' = Inr ''a''" "graph_identifier ''node_id'' ''b'' = Inr ''b''"
  "graph_identifier ''source_node_id'' ''a'' = Inr ''a''" "graph_identifier ''target_node_id'' ''b'' = Inr ''b''"
  "graph_identifier ''edge_id'' ''e'' = Inr ''e''" "graph_identifier ''evidence_ref'' ''x'' = Inr ''x''"
  by code_simp+

definition pv_node :: "string \<Rightarrow> pnode" where
  "pv_node i = seal_node mem_env \<lparr>pn_id = i, pn_tenant = ''t'', pn_world = ''w'', pn_type = ''PLAN'', pn_payload = pv_digest,
     pn_occurred = isoformat 0, pn_available = isoformat 0, pn_meta = [], pn_sha = []\<rparr>"

definition pv_edge :: pedge where
  "pv_edge = seal_edge mem_env \<lparr>pe_id = ''e'', pe_tenant = ''t'', pe_world = ''w'', pe_source = ''a'', pe_target = ''b'',
     pe_relation = ''INFORMED'', pe_evidence = ''DECLARED'', pe_refs = [''x''], pe_recorded = isoformat 0, pe_sha = []\<rparr>"

definition pv_graph :: "(string, pnode) dict \<Rightarrow> (string, pedge) dict \<Rightarrow> pgraph" where
  "pv_graph ns es = \<lparr>pg_tenant = ''t'', pg_world = ''w'', pg_nodes = ns, pg_edges = es\<rparr>"

lemmas pv_eval = record_node_def record_edge_def node_types_def relations_def evidence_statuses_def graph_time_def
  graph_metadata_def file_node_def file_edge_def pv_graph_def new_graph_def reachable_def

lemma pv_node_id [simp]: "pn_id (pv_node i) = i" "pe_id pv_edge = ''e''" "pe_source pv_edge = ''a''" "pe_target pv_edge = ''b''"
  by (simp_all add: pv_node_def pv_edge_def seal_node_def seal_edge_def)

lemma pv_steps:
  "new_graph ''t'' ''w'' = Inr (pv_graph [] [])"
  "record_node mem_env ''a'' ''PLAN'' pv_digest t00 t00 JNull (pv_graph [] []) = Inr (pv_graph [(''a'', pv_node ''a'')] [], pv_node ''a'')"
  "record_node mem_env ''b'' ''PLAN'' pv_digest t00 t00 JNull (pv_graph [(''a'', pv_node ''a'')] [])
     = Inr (pv_graph [(''a'', pv_node ''a''), (''b'', pv_node ''b'')] [], pv_node ''b'')"
  "record_edge mem_env ''e'' ''a'' ''b'' ''INFORMED'' ''DECLARED'' [''x''] t00
       (pv_graph [(''a'', pv_node ''a''), (''b'', pv_node ''b'')] [])
     = Inr (pv_graph [(''a'', pv_node ''a''), (''b'', pv_node ''b'')] [(''e'', pv_edge)], pv_edge)"
  by (simp_all add: pv_eval graph_words mem_env_simps zulu_t00 pv_node_def [symmetric] pv_edge_def [symmetric] sorted_set_def
      succs_def truthy_def)

lemma pv_run: "graph_run mem_env (pv_graph [(''a'', pv_node ''a''), (''b'', pv_node ''b'')] [(''e'', pv_edge)])"
  by (rule gr_edge [OF gr_node [OF gr_node [OF gr_new [OF pv_steps(1)] pv_steps(2)] pv_steps(3)] pv_steps(4)])

theorem provenance_is_acyclic_witness:
  "\<exists>g. graph_run mem_env g \<and> (''a'', ''b'') \<in> graph_arcs g \<and> acyclic (graph_arcs g)
     \<and> {''a'', ''b''} \<subseteq> dom (dict_get (pg_nodes g))"
proof -
  let ?g = "pv_graph [(''a'', pv_node ''a''), (''b'', pv_node ''b'')] [(''e'', pv_edge)]"
  have arc: "(''a'', ''b'') \<in> graph_arcs ?g"
    by (simp add: pv_graph_def arcs_def pv_edge_def seal_edge_def)
  then have "{''a'', ''b''} \<subseteq> Field (graph_arcs ?g)" by (auto intro: FieldI1 FieldI2)
  with arc show ?thesis using provenance_is_acyclic [OF pv_run] pv_run by blast
qed

theorem trace_finds_all_paths_witness:
  "trace_paths ''a'' ''b'' 32 (pv_graph [(''a'', pv_node ''a''), (''b'', pv_node ''b'')] [(''e'', pv_edge)]) = Inr [[''a'', ''b'']]
    \<and> hd [''a'', ''b''] = py_strip ''a''"
proof -
  have t: "trace_paths ''a'' ''b'' 32 (pv_graph [(''a'', pv_node ''a''), (''b'', pv_node ''b'')] [(''e'', pv_edge)]) = Inr [[''a'', ''b'']]"
    by (simp add: trace_paths_def graph_words pv_graph_def visit.simps targets_def)
  have "[''a'', ''b''] \<in> set [[''a'', ''b'']]" by simp
  then have "hd [''a'', ''b''] = py_strip ''a''" unfolding trace_finds_all_paths [OF pv_run t] mem_Collect_eq by (elim conjE)
  then show ?thesis using t by simp
qed

end
