(* ===== verification/Registry.thy ===== *)
theory Registry
  imports Json HashChain "HOL-Library.Product_Lexorder"
begin

text \<open>
  The review registry (\<open>src/src/edon/registry/store.py\<close>, class \<open>ReviewRegistry\<close>): candidates of
  compiler runs, their reviews, the mechanisms promoted from them and a hash-chained audit log. A
  table is the list of its rows in the order of insertion; a column that holds JSON is the value
  it holds; an operation is one transaction, so an error leaves the database as it was.
\<close>

text \<open>
  A \<open>RegistryError\<close> with its message, an error of the language on a malformed document
  (AttributeError, KeyError, TypeError or ValueError), and an integrity error of the database
  that the code does not catch.
\<close>

datatype reg_error = RegError string | RegMalformed | RegIntegrity

section \<open>Tables\<close>

record run_row =
  rr_id :: string
  rr_institution :: string
  rr_input :: string
  rr_output :: string
  rr_payload :: obj
  rr_created :: string

record cand_row =
  cr_id :: string
  cr_run :: string
  cr_mechanism :: string
  cr_version :: string
  cr_risk :: string
  cr_sha :: string
  cr_payload :: obj
  cr_status :: string
  cr_created :: string

record review_row =
  rv_id :: string
  rv_cand :: string
  rv_reviewer :: string
  rv_role :: string
  rv_decision :: string
  rv_rationale :: string
  rv_resolutions :: obj
  rv_sha :: string
  rv_created :: string

record mech_row =
  mr_id :: string
  mr_version :: string
  mr_cand :: string
  mr_sha :: string
  mr_payload :: obj
  mr_active :: bool
  mr_promoted :: string

record raudit_row =
  ra_type :: string
  ra_entity :: string
  ra_payload :: json
  ra_prev :: string
  ra_hash :: string
  ra_created :: string

record rdb =
  runs :: "run_row list"
  cands :: "cand_row list"
  reviews :: "review_row list"
  mechs :: "mech_row list"
  raudit :: "raudit_row list"

definition init_rdb :: rdb where
  "init_rdb = \<lparr>runs = [], cands = [], reviews = [], mechs = [], raudit = []\<rparr>"

section \<open>The audit log\<close>

definition raudit_sha :: "pyenv \<Rightarrow> raudit_row \<Rightarrow> string" where
  "raudit_sha E r = sha256_json E (mk_obj
     [(''event_type'', JStr (ra_type r)), (''entity_id'', JStr (ra_entity r)), (''payload'', ra_payload r),
      (''previous_hash'', JStr (ra_prev r)), (''created_at'', JStr (ra_created r))])"

definition raudit_link :: "pyenv \<Rightarrow> raudit_row \<Rightarrow> string \<Rightarrow> raudit_row" where
  "raudit_link E r p = (let r = r\<lparr>ra_prev := p\<rparr> in r\<lparr>ra_hash := raudit_sha E r\<rparr>)"

definition raudit_sealed :: "pyenv \<Rightarrow> raudit_row \<Rightarrow> bool" where
  "raudit_sealed E r \<longleftrightarrow> raudit_sha E r = ra_hash r"

interpretation rlog: hash_chain ra_prev ra_hash "raudit_sealed E" "raudit_link E" for E
  by unfold_locales (simp_all add: raudit_link_def raudit_sealed_def raudit_sha_def Let_def)

definition append_reg_audit :: "pyenv \<Rightarrow> string \<Rightarrow> string \<Rightarrow> json \<Rightarrow> string \<Rightarrow> rdb \<Rightarrow> reg_error + rdb" where
  "append_reg_audit E event_type entity_id payload timestamp db =
     (let r = raudit_link E \<lparr>ra_type = event_type, ra_entity = entity_id, ra_payload = payload, ra_prev = [],
                ra_hash = [], ra_created = timestamp\<rparr> (last_hash ra_hash ''GENESIS'' (raudit db))
      in require (\<not> list_ex (\<lambda>x. ra_hash x = ra_hash r) (raudit db)) RegIntegrity
           (Inr (db\<lparr>raudit := raudit db @ [r]\<rparr>)))"

text \<open>The rows with their sequence numbers.\<close>

definition reg_audit_events :: "rdb \<Rightarrow> (nat \<times> raudit_row) list" where
  "reg_audit_events db = List.enumerate 1 (raudit db)"

definition verify_reg_chain :: "pyenv \<Rightarrow> rdb \<Rightarrow> bool" where
  "verify_reg_chain E db = chain_ok ra_prev ra_hash (raudit_sealed E) ''GENESIS'' (map snd (reg_audit_events db))"

section \<open>Registering a compiler run\<close>

text \<open>\<open>m.get(key, {})\<close> where the result must be an object.\<close>

definition get_obj :: "obj \<Rightarrow> string \<Rightarrow> reg_error + obj" where
  "get_obj m k = (case get_default m k (JObj []) of JObj x \<Rightarrow> Inr x | _ \<Rightarrow> Inl RegMalformed)"

definition find_cand :: "rdb \<Rightarrow> string \<Rightarrow> cand_row option" where
  "find_cand db i = List.find (\<lambda>c. cr_id c = i) (cands db)"

definition register_candidate :: "pyenv \<Rightarrow> string \<Rightarrow> string \<Rightarrow> json \<Rightarrow> rdb \<times> string list \<Rightarrow> reg_error + (rdb \<times> string list)" where
  "register_candidate E run_id created_at candidate acc = (case candidate of
     JObj m \<Rightarrow>
       (let i = py_str E (get_default m ''candidate_id'' (JStr [])); sha = sha256_json E (JObj m) in
        require (i \<noteq> [] \<and> get_default m ''binding_authority'' JNull = JBool False)
          (RegError ''candidate is missing identity or is not explicitly non-binding'') (
        rbind (get_obj m ''mechanism'') (\<lambda>mech.
        require (get_default mech ''approved'' JNull = JBool False)
          (RegError ''only unapproved compiler candidates may be registered'') (
        require (find_cand (fst acc) i = None) RegIntegrity (
        rbind (append_reg_audit E ''CANDIDATE_REGISTERED'' i
            (mk_obj [(''candidate_sha256'', JStr sha), (''run_id'', JStr run_id)]) created_at
            ((fst acc)\<lparr>cands := cands (fst acc) @
               [\<lparr>cr_id = i, cr_run = run_id, cr_mechanism = py_str E (get_default mech ''mechanism_id'' (JStr [])),
                  cr_version = py_str E (get_default mech ''version'' (JStr [])),
                  cr_risk = py_str E (get_default mech ''risk_class'' (JStr ''UNCLASSIFIED'')),
                  cr_sha = sha, cr_payload = m, cr_status = ''REGISTERED'', cr_created = created_at\<rparr>]\<rparr>)) (\<lambda>db.
          Inr (db, snd acc @ [i])))))))
   | _ \<Rightarrow> Inl RegMalformed)"

definition register_compiler_run :: "pyenv \<Rightarrow> string \<Rightarrow> obj \<Rightarrow> string option \<Rightarrow> rdb \<Rightarrow> reg_error + (rdb \<times> string list)" where
  "register_compiler_run E now report timestamp db =
     require (get_default report ''binding_authority'' JNull = JBool False)
       (RegError ''compiler report must be explicitly non-binding'') (
     rbind (get_obj report ''qualification'') (\<lambda>qualification.
     require (truthy (get_default qualification ''passed'' JNull))
       (RegError ''compiler report must pass technical qualification'') (
     let run_id = py_str E (get_default report ''compiler_run_id'' (JStr [])) in
     require (run_id \<noteq> []) (RegError ''compiler report has no run identity'') (
     rbind (case get_default report ''candidates'' JNull of JArr (c # cs) \<Rightarrow> Inr (c # cs)
            | _ \<Rightarrow> Inl (RegError ''compiler report has no candidates'')) (\<lambda>candidates.
     let created_at = or_now timestamp now in
     rbind (get_obj report ''compiler_manifest'') (\<lambda>manifest.
     rbind (case (get_default manifest ''input_sha256'' JNull, get_default manifest ''compiled_payload_sha256'' JNull) of
              (JStr x, JStr y) \<Rightarrow> Inr (x, y) | _ \<Rightarrow> Inl (RegError ''compiler report is missing manifest hashes''))
       (\<lambda>(input_hash, output_hash).
     (case List.find (\<lambda>r. rr_id r = run_id) (runs db) of
        Some r \<Rightarrow> require (rr_output r = output_hash)
          (RegError ''compiler run identity is already bound to different bytes'')
          (Inr (db, sort (map cr_id (filter (\<lambda>c. cr_run c = run_id) (cands db)))))
      | None \<Rightarrow>
          rbind (append_reg_audit E ''COMPILER_RUN_REGISTERED'' run_id
              (mk_obj [(''input_sha256'', JStr input_hash), (''output_sha256'', JStr output_hash)]) created_at
              (db\<lparr>runs := runs db @ [\<lparr>rr_id = run_id,
                 rr_institution = py_str E (get_default report ''institution_id'' (JStr [])), rr_input = input_hash,
                 rr_output = output_hash, rr_payload = report, rr_created = created_at\<rparr>]\<rparr>)) (\<lambda>db.
          rfold (register_candidate E run_id created_at) candidates (db, []))))))))))"

section \<open>Reviews\<close>

definition candidate_row :: "rdb \<Rightarrow> string \<Rightarrow> reg_error + cand_row" where
  "candidate_row db i = (case find_cand db i of None \<Rightarrow> Inl (RegError (''unknown candidate: '' @ i)) | Some c \<Rightarrow> Inr c)"

definition required_approvals :: "string \<Rightarrow> nat" where
  "required_approvals risk = (if risk = ''CRITICAL'' then 3 else if risk = ''HIGH'' then 2 else 1)"

definition required_roles :: "string \<Rightarrow> string list" where
  "required_roles risk = (if risk = ''HIGH'' then [''DOMAIN_REVIEWER'', ''SAFETY_REVIEWER'']
     else if risk = ''CRITICAL'' then [''DOMAIN_REVIEWER'', ''SAFETY_REVIEWER'', ''EXECUTIVE_RISK_OWNER''] else [])"

text \<open>\<open>set(v)\<close> of a JSON value: its elements must be hashable.\<close>

definition json_set_of :: "json \<Rightarrow> reg_error + json list" where
  "json_set_of v = (case v of
     JArr xs \<Rightarrow> require (list_all (\<lambda>x. case x of JArr _ \<Rightarrow> False | JObj _ \<Rightarrow> False | _ \<Rightarrow> True) xs) RegMalformed (Inr xs)
   | JStr s \<Rightarrow> Inr (map (\<lambda>c. JStr [c]) s)
   | JObj m \<Rightarrow> Inr (map (\<lambda>p. JStr (fst p)) m)
   | _ \<Rightarrow> Inl RegMalformed)"

definition conflict_ids :: "cand_row \<Rightarrow> reg_error + json list" where
  "conflict_ids c = json_set_of (get_default (cr_payload c) ''conflict_ids'' (JArr []))"

text \<open>\<open>ORDER BY created_at, review_id\<close>.\<close>

definition reviews_of :: "rdb \<Rightarrow> string \<Rightarrow> review_row list" where
  "reviews_of db i = sort_key (\<lambda>r. (rv_created r, rv_id r)) (filter (\<lambda>r. rv_cand r = i) (reviews db))"

definition approvals_in :: "review_row list \<Rightarrow> review_row list" where
  "approvals_in rs = filter (\<lambda>r. rv_decision r = ''APPROVE'') rs"

definition resolved_in :: "review_row list \<Rightarrow> string list" where
  "resolved_in rs = concat (map (\<lambda>r. map fst (rv_resolutions r)) (approvals_in rs))"

definition candidate_status :: "rdb \<Rightarrow> cand_row \<Rightarrow> reg_error + string" where
  "candidate_status db c =
     (let rs = reviews_of db (cr_id c); approvals = approvals_in rs in
      if list_ex (\<lambda>r. rv_decision r = ''REJECT'') rs then Inr ''REJECTED''
      else if list_ex (\<lambda>r. rv_decision r = ''REVISION_REQUIRED'') rs then Inr ''REVISION_REQUIRED''
      else rbind (conflict_ids c) (\<lambda>conflicts.
        if required_approvals (cr_risk c) \<le> length approvals
           \<and> set (required_roles (cr_risk c)) \<subseteq> rv_role ` set approvals
           \<and> list_all (\<lambda>x. list_ex (\<lambda>k. x = JStr k) (resolved_in rs)) conflicts
        then Inr ''READY_TO_PROMOTE''
        else Inr (if rs \<noteq> [] then ''UNDER_REVIEW'' else ''REGISTERED'')))"

definition set_status :: "string \<Rightarrow> string \<Rightarrow> rdb \<Rightarrow> rdb" where
  "set_status i status db = db\<lparr>cands := map (\<lambda>c. if cr_id c = i then c\<lparr>cr_status := status\<rparr> else c) (cands db)\<rparr>"

definition review_id_of :: "pyenv \<Rightarrow> review_row \<Rightarrow> string" where
  "review_id_of E r = ''review-'' @ take 20 (after_colon (sha256_json E (mk_obj
     [(''candidate_id'', JStr (rv_cand r)), (''reviewer_id'', JStr (rv_reviewer r)), (''decision'', JStr (rv_decision r)),
      (''candidate_sha256'', JStr (rv_sha r)), (''created_at'', JStr (rv_created r))])))"

text \<open>The \<open>INSERT\<close> with the keys of the table.\<close>

definition insert_review :: "review_row \<Rightarrow> rdb \<Rightarrow> reg_error + rdb" where
  "insert_review r db =
     require (\<not> list_ex (\<lambda>x. rv_id x = rv_id r \<or> rv_cand x = rv_cand r \<and> rv_reviewer x = rv_reviewer r) (reviews db))
       (RegError ''reviewer has already reviewed this candidate'') (Inr (db\<lparr>reviews := reviews db @ [r]\<rparr>))"

definition submit_review :: "pyenv \<Rightarrow> string \<Rightarrow> string \<Rightarrow> string \<Rightarrow> string \<Rightarrow> string \<Rightarrow> string \<Rightarrow> obj \<Rightarrow> string option
    \<Rightarrow> rdb \<Rightarrow> reg_error + (rdb \<times> string \<times> string)" where
  "submit_review E now candidate_id reviewer_id reviewer_role decision rationale resolutions timestamp db =
     require (decision \<in> {''APPROVE'', ''REJECT'', ''REVISION_REQUIRED''}) (RegError ''unsupported review decision'') (
     require (py_strip reviewer_id \<noteq> [] \<and> py_strip reviewer_role \<noteq> [] \<and> py_strip rationale \<noteq> [])
       (RegError ''reviewer identity, role, and rationale are required'') (
     rbind (candidate_row db candidate_id) (\<lambda>candidate.
     require (cr_status candidate \<notin> {''PROMOTED'', ''REJECTED''})
       (RegError (''candidate cannot be reviewed in status '' @ cr_status candidate)) (
     rbind (conflict_ids candidate) (\<lambda>known.
     require (list_all (\<lambda>p. JStr (fst p) \<in> set known) resolutions)
       (RegError ''review resolutions reference unknown conflicts'') (
     require (\<not> (decision = ''APPROVE'' \<and> known \<noteq> [] \<and> resolutions = []))
       (RegError ''approving a conflicted candidate requires explicit resolutions'') (
     let r0 = \<lparr>rv_id = [], rv_cand = candidate_id, rv_reviewer = reviewer_id, rv_role = reviewer_role,
           rv_decision = decision, rv_rationale = rationale, rv_resolutions = resolutions,
           rv_sha = cr_sha candidate, rv_created = or_now timestamp now\<rparr>;
         r = r0\<lparr>rv_id := review_id_of E r0\<rparr> in
     rbind (insert_review r db) (\<lambda>db.
     rbind (append_reg_audit E ''CANDIDATE_REVIEWED'' candidate_id
         (mk_obj [(''review_id'', JStr (rv_id r)), (''reviewer_id'', JStr reviewer_id), (''reviewer_role'', JStr reviewer_role),
            (''decision'', JStr decision), (''resolutions'', JObj resolutions), (''candidate_sha256'', JStr (cr_sha candidate))])
         (rv_created r) db) (\<lambda>db.
     rbind (candidate_status db candidate) (\<lambda>status.
       Inr (set_status candidate_id status db, rv_id r, status)))))))))))"

section \<open>Promotion and rollback\<close>

text \<open>\<open>dict(v)\<close> of a JSON value: an object, or an iterable of pairs with text keys (a key of another
  type fails later, when the keys are sorted for hashing).\<close>

definition pair_of :: "json \<Rightarrow> reg_error + (string \<times> json)" where
  "pair_of v = (case v of
     JArr [JStr k, x] \<Rightarrow> Inr (k, x)
   | JStr [a, b] \<Rightarrow> Inr ([a], JStr [b])
   | JObj [p, q] \<Rightarrow> Inr (fst p, JStr (fst q))
   | _ \<Rightarrow> Inl RegMalformed)"

definition as_dict :: "json \<Rightarrow> reg_error + obj" where
  "as_dict v = (case v of
     JObj m \<Rightarrow> Inr m
   | JArr xs \<Rightarrow> rbind (traverse pair_of xs) (\<lambda>ps. Inr (dict_of ps))
   | JStr s \<Rightarrow> require (s = []) RegMalformed (Inr [])
   | _ \<Rightarrow> Inl RegMalformed)"

definition required_key :: "obj \<Rightarrow> string \<Rightarrow> reg_error + json" where
  "required_key m k = (case dict_get m k of None \<Rightarrow> Inl RegMalformed | Some v \<Rightarrow> Inr v)"

definition merge :: "obj \<Rightarrow> (string \<times> json) list \<Rightarrow> obj" where
  "merge m ps = fold (\<lambda>(k, v). dict_put k v) ps m"

definition promoted_artifact :: "cand_row \<Rightarrow> string \<Rightarrow> review_row list \<Rightarrow> reg_error + obj" where
  "promoted_artifact c promoter_id rs =
     rbind (required_key (cr_payload c) ''mechanism'') (\<lambda>v.
     rbind (as_dict v) (\<lambda>mechanism.
     rbind (as_dict (get_default mechanism ''metadata'' (JObj []))) (\<lambda>metadata.
     let metadata = merge metadata
           [(''promoted_from_candidate'', JStr (cr_id c)), (''candidate_sha256'', JStr (cr_sha c)),
            (''approval_ids'', jstrs (map rv_id (approvals_in rs))),
            (''resolved_conflicts'', JObj (dict_of (concat (map rv_resolutions (approvals_in rs))))),
            (''promoter_id'', JStr promoter_id)] in
       Inr (merge mechanism [(''metadata'', JObj metadata), (''approved'', JBool True),
         (''facts'', get_default (cr_payload c) ''facts'' (JArr [])), (''binding_authority'', JBool False)]))))"

definition insert_mechanism :: "mech_row \<Rightarrow> rdb \<Rightarrow> reg_error + rdb" where
  "insert_mechanism m db =
     require (\<not> list_ex (\<lambda>x. mr_id x = mr_id m \<and> mr_version x = mr_version m) (mechs db))
       (RegError ''mechanism version has already been promoted'') (Inr (db\<lparr>mechs := mechs db @ [m]\<rparr>))"

definition deactivate :: "string \<Rightarrow> rdb \<Rightarrow> rdb" where
  "deactivate i db = db\<lparr>mechs := map (\<lambda>m. if mr_id m = i then m\<lparr>mr_active := False\<rparr> else m) (mechs db)\<rparr>"

definition activate_version :: "string \<Rightarrow> string \<Rightarrow> rdb \<Rightarrow> rdb" where
  "activate_version i v db =
     db\<lparr>mechs := map (\<lambda>m. if mr_id m = i \<and> mr_version m = v then m\<lparr>mr_active := True\<rparr> else m) (mechs db)\<rparr>"

definition promote :: "pyenv \<Rightarrow> string \<Rightarrow> string \<Rightarrow> string \<Rightarrow> string option \<Rightarrow> rdb \<Rightarrow> reg_error + (rdb \<times> obj)" where
  "promote E now candidate_id promoter_id timestamp db =
     require (py_strip promoter_id \<noteq> []) (RegError ''promoter identity is required'') (
     let promoted_at = or_now timestamp now in
     rbind (candidate_row db candidate_id) (\<lambda>candidate.
     rbind (candidate_status db candidate) (\<lambda>status.
     require (status = ''READY_TO_PROMOTE'') (RegError (''candidate is not ready to promote: '' @ status)) (
     let rs = reviews_of db candidate_id in
     rbind (promoted_artifact candidate promoter_id rs) (\<lambda>mechanism.
     rbind (required_key mechanism ''mechanism_id'') (\<lambda>mid.
     rbind (required_key mechanism ''version'') (\<lambda>version.
     let i = py_str E mid; v = py_str E version; sha = sha256_json E (JObj mechanism) in
     rbind (insert_mechanism \<lparr>mr_id = i, mr_version = v, mr_cand = candidate_id, mr_sha = sha,
         mr_payload = mechanism, mr_active = True, mr_promoted = promoted_at\<rparr> (deactivate i db)) (\<lambda>db.
     rbind (append_reg_audit E ''MECHANISM_PROMOTED'' (i @ ''@'' @ v)
         (mk_obj [(''candidate_id'', JStr candidate_id), (''artifact_sha256'', JStr sha), (''promoter_id'', JStr promoter_id),
            (''approval_ids'', jstrs (map rv_id (approvals_in rs)))])
         promoted_at (set_status candidate_id ''PROMOTED'' db)) (\<lambda>db.
       Inr (db, mechanism))))))))))"

definition find_mech :: "rdb \<Rightarrow> string \<Rightarrow> string \<Rightarrow> mech_row option" where
  "find_mech db i v = List.find (\<lambda>m. mr_id m = i \<and> mr_version m = v) (mechs db)"

definition rollback :: "pyenv \<Rightarrow> string \<Rightarrow> string \<Rightarrow> string \<Rightarrow> string \<Rightarrow> string \<Rightarrow> string option \<Rightarrow> rdb
    \<Rightarrow> reg_error + (rdb \<times> obj)" where
  "rollback E now mechanism_id target_version actor_id rationale timestamp db =
     (case find_mech db mechanism_id target_version of
        None \<Rightarrow> Inl (RegError ''rollback target does not exist'')
      | Some target \<Rightarrow>
          rbind (append_reg_audit E ''MECHANISM_ROLLED_BACK'' (mechanism_id @ ''@'' @ target_version)
              (mk_obj [(''actor_id'', JStr actor_id), (''rationale'', JStr rationale)]) (or_now timestamp now)
              (activate_version mechanism_id target_version (deactivate mechanism_id db))) (\<lambda>db.
            Inr (db, mr_payload target)))"

section \<open>Reading\<close>

definition get_candidate :: "rdb \<Rightarrow> string \<Rightarrow> reg_error + obj" where
  "get_candidate db i = rbind (candidate_row db i) (\<lambda>c.
     Inr (merge (cr_payload c) [(''registry_status'', JStr (cr_status c)), (''candidate_sha256'', JStr (cr_sha c))]))"

definition list_candidates :: "rdb \<Rightarrow> json list" where
  "list_candidates db = map (\<lambda>c. mk_obj
     [(''candidate_id'', JStr (cr_id c)), (''run_id'', JStr (cr_run c)), (''mechanism_id'', JStr (cr_mechanism c)),
      (''version'', JStr (cr_version c)), (''risk_class'', JStr (cr_risk c)), (''status'', JStr (cr_status c)),
      (''candidate_sha256'', JStr (cr_sha c))]) (sort_key cr_id (cands db))"

definition get_mechanism :: "rdb \<Rightarrow> string \<Rightarrow> string option \<Rightarrow> reg_error + obj" where
  "get_mechanism db i version =
     (case (case version of None \<Rightarrow> List.find (\<lambda>m. mr_id m = i \<and> mr_active m) (mechs db)
            | Some v \<Rightarrow> find_mech db i v) of
        None \<Rightarrow> Inl (RegError ''approved mechanism not found'')
      | Some m \<Rightarrow> Inr (mr_payload m))"

definition list_mechanisms :: "rdb \<Rightarrow> json list" where
  "list_mechanisms db = map (\<lambda>m. mk_obj
     [(''mechanism_id'', JStr (mr_id m)), (''version'', JStr (mr_version m)), (''candidate_id'', JStr (mr_cand m)),
      (''artifact_sha256'', JStr (mr_sha m)), (''active'', JBool (mr_active m)), (''promoted_at'', JStr (mr_promoted m))])
     (sort_key (\<lambda>m. (mr_id m, mr_version m)) (mechs db))"

section \<open>Runs\<close>

inductive reg_run :: "pyenv \<Rightarrow> rdb \<Rightarrow> bool" for E where
  rg_init: "reg_run E init_rdb"
| rg_register: "reg_run E db \<Longrightarrow> register_compiler_run E now report ts db = Inr (db', is) \<Longrightarrow> reg_run E db'"
| rg_review: "reg_run E db \<Longrightarrow> submit_review E now i rid role d why res ts db = Inr (db', x) \<Longrightarrow> reg_run E db'"
| rg_promote: "reg_run E db \<Longrightarrow> promote E now i p ts db = Inr (db', m) \<Longrightarrow> reg_run E db'"
| rg_rollback: "reg_run E db \<Longrightarrow> rollback E now i v a why ts db = Inr (db', m) \<Longrightarrow> reg_run E db'"

end
