(* ===== verification/RegistryProps.thy ===== *)
theory RegistryProps
  imports Registry
begin

text \<open>
  What the registry promises: an active mechanism was approved by enough distinct reviewers in the
  required roles, of exactly the registered bytes; a mechanism has one active version; the audit
  chain verifies.
\<close>

section \<open>What the operations change\<close>

definition raudit_ok :: "pyenv \<Rightarrow> rdb \<Rightarrow> bool" where
  "raudit_ok E db \<longleftrightarrow> chain_ok ra_prev ra_hash (raudit_sealed E) ''GENESIS'' (raudit db)"

text \<open>The tables that the invariant reads, other than the audit log, are the same.\<close>

definition same_tables :: "rdb \<Rightarrow> rdb \<Rightarrow> bool" where
  "same_tables db db' \<longleftrightarrow> cands db' = cands db \<and> reviews db' = reviews db \<and> mechs db' = mechs db"

lemma append_reg_audit_D:
  assumes "append_reg_audit E ty i p t db = Inr db'"
  shows "same_tables db db'" "raudit_ok E db \<Longrightarrow> raudit_ok E db'"
  using assms
  by (auto simp: append_reg_audit_def Let_def require_eq_Inr raudit_ok_def same_tables_def rlog.valid_extend)

lemma reviews_of_append:
  "reviews_of (db\<lparr>reviews := reviews db @ [r]\<rparr>) i = reviews_of db i" if "rv_cand r \<noteq> i"
  using that by (simp add: reviews_of_def)

lemma set_reviews_of [simp]: "set (reviews_of db i) = {r \<in> set (reviews db). rv_cand r = i}"
  by (auto simp: reviews_of_def)

text \<open>The status of a candidate depends on its content and its reviews.\<close>

definition same_cand :: "cand_row \<Rightarrow> cand_row \<Rightarrow> bool" where
  "same_cand c c' \<longleftrightarrow> cr_id c' = cr_id c \<and> cr_sha c' = cr_sha c \<and> cr_payload c' = cr_payload c \<and> cr_risk c' = cr_risk c"

lemma candidate_status_same:
  "same_cand c c' \<Longrightarrow> reviews_of db' (cr_id c) = reviews_of db (cr_id c) \<Longrightarrow> candidate_status db' c' = candidate_status db c"
  by (simp add: same_cand_def candidate_status_def conflict_ids_def Let_def)

lemma promoted_artifact_same:
  "same_cand c c' \<Longrightarrow> promoted_artifact c' p rs = promoted_artifact c p rs"
  by (simp add: same_cand_def promoted_artifact_def)

section \<open>The invariant\<close>

text \<open>A mechanism row whose candidate was ready, with the artifact made from it.\<close>

definition promoted_ok :: "pyenv \<Rightarrow> rdb \<Rightarrow> mech_row \<Rightarrow> bool" where
  "promoted_ok E db m \<longleftrightarrow> (\<exists>c \<in> set (cands db). cr_id c = mr_cand m \<and> cr_status c = ''PROMOTED''
     \<and> candidate_status db c = Inr ''READY_TO_PROMOTE''
     \<and> (\<exists>p. promoted_artifact c p (reviews_of db (cr_id c)) = Inr (mr_payload m))
     \<and> mr_sha m = sha256_json E (JObj (mr_payload m)))"

definition active_rows :: "string \<Rightarrow> mech_row list \<Rightarrow> mech_row list" where
  "active_rows i ms = filter (\<lambda>m. mr_id m = i \<and> mr_active m) ms"

definition mechs_ok :: "mech_row list \<Rightarrow> bool" where
  "mechs_ok ms \<longleftrightarrow> distinct (map (\<lambda>m. (mr_id m, mr_version m)) ms) \<and> (\<forall>m \<in> set ms. length (active_rows (mr_id m) ms) = 1)"

definition reviews_ok :: "rdb \<Rightarrow> bool" where
  "reviews_ok db \<longleftrightarrow> distinct (map (\<lambda>r. (rv_cand r, rv_reviewer r)) (reviews db))
     \<and> (\<forall>r \<in> set (reviews db). rv_decision r \<in> {''APPROVE'', ''REJECT'', ''REVISION_REQUIRED''}
          \<and> (\<exists>c \<in> set (cands db). cr_id c = rv_cand r \<and> cr_sha c = rv_sha r))"

definition cands_ok :: "pyenv \<Rightarrow> rdb \<Rightarrow> bool" where
  "cands_ok E db \<longleftrightarrow> distinct (map cr_id (cands db)) \<and> (\<forall>c \<in> set (cands db). cr_sha c = sha256_json E (JObj (cr_payload c)))"

definition reg_ok :: "pyenv \<Rightarrow> rdb \<Rightarrow> bool" where
  "reg_ok E db \<longleftrightarrow> raudit_ok E db \<and> cands_ok E db \<and> reviews_ok db \<and> mechs_ok (mechs db)
     \<and> (\<forall>m \<in> set (mechs db). promoted_ok E db m)"

lemma reg_ok_same:
  assumes "reg_ok E db" and "same_tables db db'" and "raudit_ok E db'"
  shows "reg_ok E db'"
proof -
  have "reviews_of db' = reviews_of db" using assms(2) by (simp add: fun_eq_iff reviews_of_def same_tables_def)
  then have "candidate_status db' = candidate_status db" by (simp add: fun_eq_iff candidate_status_def)
  with \<open>reviews_of db' = reviews_of db\<close> have "promoted_ok E db' = promoted_ok E db"
    using assms(2) by (simp add: fun_eq_iff promoted_ok_def same_tables_def)
  moreover have "reviews_ok db' = reviews_ok db" "cands_ok E db' = cands_ok E db"
    using assms(2) by (simp_all add: reviews_ok_def cands_ok_def same_tables_def)
  ultimately show ?thesis using assms by (simp add: reg_ok_def same_tables_def)
qed

lemma reg_ok_audit: "reg_ok E db \<Longrightarrow> append_reg_audit E ty i p t db = Inr db' \<Longrightarrow> reg_ok E db'"
  using reg_ok_same append_reg_audit_D unfolding reg_ok_def by metis

text \<open>Promoted rows stay good where promoted candidates keep their content and reviews.\<close>

lemma promoted_ok_mono:
  assumes "promoted_ok E db m"
    and "\<And>c. c \<in> set (cands db) \<Longrightarrow> cr_status c = ''PROMOTED'' \<Longrightarrow> \<exists>c' \<in> set (cands db'). same_cand c c' \<and> cr_status c' = ''PROMOTED''"
    and "\<And>c. c \<in> set (cands db) \<Longrightarrow> cr_status c = ''PROMOTED'' \<Longrightarrow> reviews_of db' (cr_id c) = reviews_of db (cr_id c)"
    and "mr_cand m' = mr_cand m" "mr_payload m' = mr_payload m" "mr_sha m' = mr_sha m"
  shows "promoted_ok E db' m'"
proof -
  obtain c where c: "c \<in> set (cands db)" "cr_id c = mr_cand m" "cr_status c = ''PROMOTED''"
    "candidate_status db c = Inr ''READY_TO_PROMOTE''"
    "\<exists>p. promoted_artifact c p (reviews_of db (cr_id c)) = Inr (mr_payload m)" "mr_sha m = sha256_json E (JObj (mr_payload m))"
    using assms(1) unfolding promoted_ok_def by blast
  obtain c' where c': "c' \<in> set (cands db')" "same_cand c c'" "cr_status c' = ''PROMOTED''" using assms(2) c(1,3) by blast
  have r: "reviews_of db' (cr_id c) = reviews_of db (cr_id c)" using assms(3) c(1,3) by blast
  have i: "cr_id c' = cr_id c" using c'(2) by (simp add: same_cand_def)
  show ?thesis unfolding promoted_ok_def
    by (rule bexI [OF _ c'(1)])
      (use c c' r i assms(4-6) candidate_status_same [OF c'(2) r] promoted_artifact_same [OF c'(2)] in simp)
qed

section \<open>Every operation keeps it\<close>

lemma register_candidate_D:
  assumes "register_candidate E run t v acc = Inr acc'"
  shows "\<exists>ty e p c. append_reg_audit E ty e p t ((fst acc)\<lparr>cands := cands (fst acc) @ [c]\<rparr>) = Inr (fst acc')
     \<and> find_cand (fst acc) (cr_id c) = None \<and> cr_sha c = sha256_json E (JObj (cr_payload c)) \<and> cr_status c = ''REGISTERED''"
proof -
  obtain m where m: "v = JObj m" using assms by (cases v) (simp_all add: register_candidate_def)
  show ?thesis
    using assms unfolding m register_candidate_def Let_def
    apply (clarsimp simp: require_eq_Inr)
    apply (elim rbindE)
    apply (clarsimp simp: require_eq_Inr)
    apply (elim rbindE)
    apply (intro exI conjI)
       apply (clarsimp, assumption)
      apply simp_all
    done
qed

lemma register_candidate_ok:
  assumes "reg_ok E (fst acc)" and "register_candidate E run t v acc = Inr acc'"
  shows "reg_ok E (fst acc')"
proof -
  let ?db = "fst acc"
  obtain ty e p c where a: "append_reg_audit E ty e p t (?db\<lparr>cands := cands ?db @ [c]\<rparr>) = Inr (fst acc')"
    and n: "find_cand ?db (cr_id c) = None" and s: "cr_sha c = sha256_json E (JObj (cr_payload c))"
    using register_candidate_D [OF assms(2)] by blast
  let ?db1 = "?db\<lparr>cands := cands ?db @ [c]\<rparr>"
  have "promoted_ok E ?db1 m" if "m \<in> set (mechs ?db)" for m
    by (rule promoted_ok_mono [of E ?db m])
      (use assms(1) that in \<open>auto simp: reg_ok_def same_cand_def reviews_of_def\<close>)
  moreover have "cr_id c \<notin> cr_id ` set (cands ?db)" using n by (auto simp: find_cand_def find_None_iff')
  ultimately have "reg_ok E ?db1"
    using assms(1) s by (auto simp: reg_ok_def cands_ok_def reviews_ok_def raudit_ok_def)
  then show ?thesis using reg_ok_audit a by blast
qed

lemma register_run_ok:
  assumes "reg_ok E db" and "register_compiler_run E now report ts db = Inr (db', is)"
  shows "reg_ok E db'"
proof -
  have "db' = db \<or> (\<exists>run r ty i p t vs db1. append_reg_audit E ty i p t (db\<lparr>runs := runs db @ [r]\<rparr>) = Inr db1
      \<and> rfold (register_candidate E run t) vs (db1, []) = Inr (db', is))"
    using assms(2) unfolding register_compiler_run_def Let_def
    by (clarsimp simp: require_eq_Inr; elim rbindE; clarsimp simp: require_eq_Inr; elim rbindE;
        clarsimp simp: require_eq_Inr split: option.splits; elim rbindE; blast)
  then show ?thesis
  proof (elim disjE exE conjE)
    fix run r ty i p t vs db1
    assume a: "append_reg_audit E ty i p t (db\<lparr>runs := runs db @ [r]\<rparr>) = Inr db1"
      and f: "rfold (register_candidate E run t) vs (db1, []) = Inr (db', is)"
    have "reg_ok E (db\<lparr>runs := runs db @ [r]\<rparr>)"
      using assms(1) by (intro reg_ok_same [OF assms(1)]) (simp_all add: same_tables_def reg_ok_def raudit_ok_def)
    then have "reg_ok E db1" using a by (rule reg_ok_audit)
    then show ?thesis
      using rfold_invariant [of vs "\<lambda>acc. reg_ok E (fst acc)", OF _ _ f] register_candidate_ok by fastforce
  qed (use assms(1) in simp)
qed

text \<open>A status other than promoted is written over.\<close>

lemma set_status_cands: "c \<in> set (cands db) \<Longrightarrow> cr_id c \<noteq> i \<Longrightarrow> c \<in> set (cands (set_status i x db))"
  by (force simp: set_status_def)

lemma set_status_reviews [simp]:
  "reviews (set_status i x db) = reviews db" "mechs (set_status i x db) = mechs db" "raudit (set_status i x db) = raudit db"
  "reviews_of (set_status i x db) j = reviews_of db j" "map cr_id (cands (set_status i x db)) = map cr_id (cands db)"
  by (simp_all add: set_status_def reviews_of_def o_def if_distrib cong: if_cong)

lemma set_status_same:
  "c \<in> set (cands db) \<Longrightarrow> \<exists>c' \<in> set (cands (set_status i x db)). same_cand c c' \<and> (cr_status c' = (if cr_id c = i then x else cr_status c))"
  by (rule bexI [of _ "if cr_id c = i then c\<lparr>cr_status := x\<rparr> else c"]) (auto simp: set_status_def same_cand_def)

lemma set_status_ok:
  assumes "reg_ok E db" and "x = ''PROMOTED'' \<or> (\<forall>c \<in> set (cands db). cr_id c = i \<longrightarrow> cr_status c \<noteq> ''PROMOTED'')"
  shows "reg_ok E (set_status i x db)"
proof -
  have "promoted_ok E (set_status i x db) m" if "m \<in> set (mechs db)" for m
  proof (rule promoted_ok_mono [of E db m])
    fix c assume c: "c \<in> set (cands db)" "cr_status c = ''PROMOTED''"
    then show "\<exists>c' \<in> set (cands (set_status i x db)). same_cand c c' \<and> cr_status c' = ''PROMOTED''"
      using set_status_same [OF c(1), of i x] assms(2) by (cases "cr_id c = i") auto
  qed (use assms(1) that in \<open>simp_all add: reg_ok_def\<close>)
  moreover have "cands_ok E (set_status i x db)"
    using assms(1) by (auto simp: reg_ok_def cands_ok_def) (auto simp: set_status_def split: if_splits)
  moreover have "reviews_ok (set_status i x db)"
    using assms(1) set_status_same [of _ db i x] unfolding reg_ok_def reviews_ok_def same_cand_def by simp metis
  ultimately show ?thesis using assms(1) by (simp add: reg_ok_def raudit_ok_def)
qed

lemma find_cand_D: "find_cand db i = Some c \<Longrightarrow> c \<in> set (cands db) \<and> cr_id c = i"
  unfolding find_cand_def by (drule find_Some_D) simp

lemma cand_unique: "cands_ok E db \<Longrightarrow> c \<in> set (cands db) \<Longrightarrow> c' \<in> set (cands db) \<Longrightarrow> cr_id c = cr_id c' \<Longrightarrow> c = c'"
  unfolding cands_ok_def distinct_map by (meson inj_onD)

lemma insert_review_ok:
  assumes ok: "reg_ok E db" and i: "insert_review r db = Inr db'" and c: "c \<in> set (cands db)" "cr_id c = rv_cand r"
    "cr_sha c = rv_sha r" "cr_status c \<noteq> ''PROMOTED''" and d: "rv_decision r \<in> {''APPROVE'', ''REJECT'', ''REVISION_REQUIRED''}"
  shows "reg_ok E db'" "cands db' = cands db"
proof -
  have db': "db' = db\<lparr>reviews := reviews db @ [r]\<rparr>"
    and n: "\<not> list_ex (\<lambda>x. rv_id x = rv_id r \<or> rv_cand x = rv_cand r \<and> rv_reviewer x = rv_reviewer r) (reviews db)"
    using i by (auto simp: insert_review_def require_eq_Inr)
  show "cands db' = cands db" by (simp add: db')
  have "promoted_ok E db' m" if "m \<in> set (mechs db)" for m
  proof (rule promoted_ok_mono [of E db m])
    fix c' assume c': "c' \<in> set (cands db)" "cr_status c' = ''PROMOTED''"
    then have "cr_id c' \<noteq> rv_cand r" using c cand_unique [of E db c' c] ok by (auto simp: reg_ok_def)
    then show "reviews_of db' (cr_id c') = reviews_of db (cr_id c')" using reviews_of_append by (simp add: db')
  qed (use ok that in \<open>auto simp: reg_ok_def db' same_cand_def\<close>)
  moreover have "reviews_ok db'"
    using ok n c d by (auto simp: reg_ok_def reviews_ok_def db' list_ex_iff)
  ultimately show "reg_ok E db'"
    using ok by (simp add: reg_ok_def raudit_ok_def cands_ok_def db')
qed

lemma submit_review_D:
  assumes "submit_review E now i rid role d why res ts db = Inr (db', x)"
  shows "\<exists>c r db1 ty p db2 st. find_cand db i = Some c \<and> insert_review r db = Inr db1
     \<and> append_reg_audit E ty i p (rv_created r) db1 = Inr db2 \<and> db' = set_status i st db2
     \<and> candidate_status db2 c = Inr st \<and> cr_status c \<notin> {''PROMOTED'', ''REJECTED''}
     \<and> rv_cand r = i \<and> rv_reviewer r = rid \<and> rv_sha r = cr_sha c
     \<and> rv_decision r \<in> {''APPROVE'', ''REJECT'', ''REVISION_REQUIRED''}"
  using assms unfolding submit_review_def Let_def candidate_row_def
  apply (clarsimp simp only: require_eq_Inr)
  apply (elim rbindE)
  apply (clarsimp simp: require_eq_Inr split: option.splits)
  apply (elim rbindE)
  apply (clarsimp simp: require_eq_Inr)
  apply (elim rbindE)
  apply (intro exI conjI)
           apply assumption+
  apply auto
  done

lemma submit_review_ok:
  assumes ok: "reg_ok E db" and s: "submit_review E now i rid role d why res ts db = Inr (db', x)"
  shows "reg_ok E db'"
proof -
  obtain c r db1 ty p db2 st where c: "find_cand db i = Some c" and i: "insert_review r db = Inr db1"
    and a: "append_reg_audit E ty i p (rv_created r) db1 = Inr db2" and db': "db' = set_status i st db2"
    and st: "cr_status c \<notin> {''PROMOTED'', ''REJECTED''}" and r: "rv_cand r = i" "rv_sha r = cr_sha c"
      "rv_decision r \<in> {''APPROVE'', ''REJECT'', ''REVISION_REQUIRED''}"
    using submit_review_D [OF s] by blast
  have c': "c \<in> set (cands db)" "cr_id c = i" using find_cand_D [OF c] by simp_all
  have 1: "reg_ok E db1" "cands db1 = cands db"
    using insert_review_ok [OF ok i c'(1) _ _ _ r(3)] c' r st by simp_all
  have 2: "reg_ok E db2" "cands db2 = cands db"
    using reg_ok_audit [OF 1(1) a] append_reg_audit_D(1) [OF a] 1(2) by (simp_all add: same_tables_def)
  have "cr_status c2 \<noteq> ''PROMOTED''" if "c2 \<in> set (cands db2)" "cr_id c2 = i" for c2
    using that cand_unique [of E db c2 c] st c' ok 2(2) by (auto simp: reg_ok_def)
  then show ?thesis unfolding db' by (intro set_status_ok [OF 2(1)]) blast
qed

section \<open>Promotion and rollback\<close>

lemma promote_D:
  assumes "promote E now i p ts db = Inr (db', x)"
  shows "\<exists>j v t db1 c ty e q u. insert_mechanism \<lparr>mr_id = j, mr_version = v, mr_cand = i, mr_sha = sha256_json E (JObj x),
         mr_payload = x, mr_active = True, mr_promoted = t\<rparr> (deactivate j db) = Inr db1
     \<and> find_cand db i = Some c \<and> candidate_status db c = Inr ''READY_TO_PROMOTE''
     \<and> promoted_artifact c p (reviews_of db i) = Inr x
     \<and> append_reg_audit E ty e q u (set_status i ''PROMOTED'' db1) = Inr db'"
  using assms unfolding promote_def Let_def candidate_row_def
  apply (clarsimp simp only: require_eq_Inr)
  apply (elim rbindE)
  apply (clarsimp simp: require_eq_Inr split: option.splits)
  apply (elim rbindE)
  apply (clarsimp simp: require_eq_Inr)
  apply (intro exI conjI; assumption)
  done

lemma rollback_D:
  assumes "rollback E now i v a why ts db = Inr (db', x)"
  shows "\<exists>m ty e q t. m \<in> set (mechs db) \<and> mr_id m = i \<and> mr_version m = v \<and> x = mr_payload m
     \<and> append_reg_audit E ty e q t (activate_version i v (deactivate i db)) = Inr db'"
proof -
  obtain m where m: "find_mech db i v = Some m" using assms by (auto simp: rollback_def split: option.splits)
  then have "m \<in> set (mechs db)" "mr_id m = i" "mr_version m = v"
    unfolding find_mech_def by (auto dest: find_Some_D)
  then show ?thesis
    using assms m unfolding rollback_def
    apply (clarsimp simp: rbind_eq_Inr)
    apply (intro exI conjI)
         apply assumption+
        apply (rule refl)+
    apply assumption
    done
qed

lemma mechs_ops [simp]:
  "cands (deactivate i db) = cands db" "reviews (deactivate i db) = reviews db" "raudit (deactivate i db) = raudit db"
  "cands (activate_version i v db) = cands db" "reviews (activate_version i v db) = reviews db"
  "raudit (activate_version i v db) = raudit db"
  by (simp_all add: deactivate_def activate_version_def)

definition off :: "string \<Rightarrow> mech_row list \<Rightarrow> mech_row list" where
  "off i ms = map (\<lambda>m. if mr_id m = i then m\<lparr>mr_active := False\<rparr> else m) ms"

lemma off_keys [simp]: "map (\<lambda>m. (mr_id m, mr_version m)) (off i ms) = map (\<lambda>m. (mr_id m, mr_version m)) ms"
  by (simp add: off_def o_def if_distrib cong: if_cong)

lemma active_off [simp]: "active_rows j (off i ms) = (if j = i then [] else active_rows j ms)"
  by (induction ms) (auto simp: off_def active_rows_def)

lemma off_ids: "m \<in> set (off i ms) \<Longrightarrow> \<exists>m' \<in> set ms. mr_id m' = mr_id m"
  by (auto simp: off_def)

lemma mechs_ok_insert:
  assumes "mechs_ok ms" and "mr_active m" and "\<not> list_ex (\<lambda>x. mr_id x = mr_id m \<and> mr_version x = mr_version m) (off (mr_id m) ms)"
  shows "mechs_ok (off (mr_id m) ms @ [m])"
proof -
  have "(mr_id m, mr_version m) \<notin> set (map (\<lambda>m. (mr_id m, mr_version m)) (off (mr_id m) ms))"
    using assms(3) by (auto simp: list_ex_iff simp del: off_keys)
  moreover have "length (active_rows (mr_id x) (off (mr_id m) ms @ [m])) = 1" if "x \<in> set (off (mr_id m) ms @ [m])" for x
  proof -
    have "active_rows j (off (mr_id m) ms @ [m]) = active_rows j (off (mr_id m) ms) @ (if j = mr_id m then [m] else [])" for j
      using assms(2) by (simp add: active_rows_def)
    moreover have "length (active_rows (mr_id x) ms) = 1" if "mr_id x \<noteq> mr_id m"
      using off_ids [of x "mr_id m" ms] that \<open>x \<in> _\<close> assms(1) unfolding mechs_ok_def by fastforce
    ultimately show ?thesis by simp
  qed
  ultimately show ?thesis using assms(1) by (simp add: mechs_ok_def)
qed

text \<open>Switching one version on where all are off.\<close>

definition switch_on :: "string \<Rightarrow> string \<Rightarrow> mech_row list \<Rightarrow> mech_row list" where
  "switch_on i v ms = map (\<lambda>m. if mr_id m = i \<and> mr_version m = v then m\<lparr>mr_active := True\<rparr> else m) ms"

lemma active_switch:
  "distinct (map (\<lambda>m. (mr_id m, mr_version m)) ms) \<Longrightarrow> (i, v) \<in> set (map (\<lambda>m. (mr_id m, mr_version m)) ms) \<Longrightarrow>
     active_rows i ms = [] \<Longrightarrow> length (active_rows i (switch_on i v ms)) = 1"
proof (induction ms)
  case (Cons m ms)
  show ?case
  proof (cases "mr_id m = i \<and> mr_version m = v")
    case True
    then have "switch_on i v ms = ms" using Cons.prems(1) by (force simp: switch_on_def image_iff intro!: map_idI)
    with True show ?thesis using Cons.prems(3) by (auto simp: switch_on_def active_rows_def split: if_splits)
  next
    case False
    then show ?thesis using Cons by (auto simp: switch_on_def active_rows_def split: if_splits)
  qed
qed simp

lemma active_switch_other: "j \<noteq> i \<Longrightarrow> active_rows j (switch_on i v ms) = active_rows j ms"
  by (induction ms) (auto simp: switch_on_def active_rows_def)

lemma mechs_ok_switch:
  assumes ok: "mechs_ok ms" and m: "m \<in> set ms" "mr_id m = i" "mr_version m = v"
  shows "mechs_ok (switch_on i v (off i ms))"
proof -
  have k: "map (\<lambda>m. (mr_id m, mr_version m)) (switch_on i v (off i ms)) = map (\<lambda>m. (mr_id m, mr_version m)) ms"
    by (simp add: switch_on_def off_def o_def if_distrib cong: if_cong)
  have "length (active_rows (mr_id x) (switch_on i v (off i ms))) = 1" if "x \<in> set (switch_on i v (off i ms))" for x
  proof (cases "mr_id x = i")
    case True
    have "(i, v) \<in> set (map (\<lambda>m. (mr_id m, mr_version m)) (off i ms))" using m by (simp only: off_keys) force
    then show ?thesis using True active_switch [of "off i ms" i v] ok by (simp add: mechs_ok_def)
  next
    case False
    then have "\<exists>y \<in> set ms. mr_id y = mr_id x" using that by (auto simp: switch_on_def off_def split: if_splits)
    then show ?thesis using ok False by (auto simp: mechs_ok_def active_switch_other)
  qed
  then show ?thesis using ok k by (simp add: mechs_ok_def)
qed

text \<open>Apart from being active the rows are as before.\<close>

definition same_mech :: "mech_row \<Rightarrow> mech_row \<Rightarrow> bool" where
  "same_mech m m' \<longleftrightarrow> mr_cand m' = mr_cand m \<and> mr_payload m' = mr_payload m \<and> mr_sha m' = mr_sha m"

lemma same_mech_off: "n \<in> set (off i ms) \<Longrightarrow> \<exists>m \<in> set ms. same_mech m n"
  by (auto simp: off_def same_mech_def)

lemma same_mech_switch: "n \<in> set (switch_on i v ms) \<Longrightarrow> \<exists>m \<in> set ms. same_mech m n"
  by (auto simp: switch_on_def same_mech_def)

lemma promoted_ok_same_mech:
  assumes "promoted_ok E db m" and "same_mech m n" and "cands db' = cands db" "reviews_of db' = reviews_of db"
  shows "promoted_ok E db' n"
  by (rule promoted_ok_mono [OF assms(1)]) (use assms(2-4) in \<open>auto simp: same_mech_def same_cand_def\<close>)

lemma mechs_as_off:
  "mechs (deactivate i db) = off i (mechs db)" "mechs (activate_version i v db) = switch_on i v (mechs db)"
  by (simp_all add: deactivate_def off_def activate_version_def switch_on_def)

lemma reviews_of_mechs [simp]:
  "reviews_of (deactivate i db) = reviews_of db" "reviews_of (activate_version i v db) = reviews_of db"
  by (simp_all add: fun_eq_iff reviews_of_def)

text \<open>Changing only the mechanisms.\<close>

lemma reg_ok_mechs:
  assumes "reg_ok E db" and "cands db' = cands db" "reviews db' = reviews db" "raudit db' = raudit db"
    and "mechs_ok (mechs db')" and "\<And>m. m \<in> set (mechs db') \<Longrightarrow> promoted_ok E db' m"
  shows "reg_ok E db'"
proof -
  have "cands_ok E db' = cands_ok E db" "reviews_ok db' = reviews_ok db" "raudit_ok E db' = raudit_ok E db"
    using assms(2-4) by (simp_all add: cands_ok_def reviews_ok_def raudit_ok_def)
  then show ?thesis using assms by (simp add: reg_ok_def)
qed

lemma rollback_ok:
  assumes ok: "reg_ok E db" and r: "rollback E now i v a why ts db = Inr (db', x)"
  shows "reg_ok E db'"
proof -
  obtain m ty e q t where m: "m \<in> set (mechs db)" "mr_id m = i" "mr_version m = v"
    and a: "append_reg_audit E ty e q t (activate_version i v (deactivate i db)) = Inr db'"
    using rollback_D [OF r] by blast
  have "reg_ok E (activate_version i v (deactivate i db))"
  proof (rule reg_ok_mechs [OF ok])
    show "mechs_ok (mechs (activate_version i v (deactivate i db)))"
      using mechs_ok_switch [OF _ m] ok by (simp add: reg_ok_def mechs_as_off)
    fix n assume "n \<in> set (mechs (activate_version i v (deactivate i db)))"
    then obtain m' n' where n': "n' \<in> set (mechs db)" "same_mech n' m'" "same_mech m' n"
      unfolding mechs_as_off using same_mech_switch same_mech_off by blast
    then have "same_mech n' n" by (simp add: same_mech_def)
    then show "promoted_ok E (activate_version i v (deactivate i db)) n"
      using promoted_ok_same_mech [of E db n' n] ok n'(1) by (simp add: reg_ok_def)
  qed simp_all
  then show ?thesis using a by (rule reg_ok_audit)
qed

lemma promote_ok:
  assumes ok: "reg_ok E db" and r: "promote E now i p ts db = Inr (db', x)"
  shows "reg_ok E db'"
proof -
  obtain j v t db1 c ty e q u where ins: "insert_mechanism \<lparr>mr_id = j, mr_version = v, mr_cand = i, mr_sha = sha256_json E (JObj x),
         mr_payload = x, mr_active = True, mr_promoted = t\<rparr> (deactivate j db) = Inr db1"
    and c: "find_cand db i = Some c" and st: "candidate_status db c = Inr ''READY_TO_PROMOTE''" "promoted_artifact c p (reviews_of db i) = Inr x"
    and a: "append_reg_audit E ty e q u (set_status i ''PROMOTED'' db1) = Inr db'"
    using promote_D [OF r] by blast
  define m where "m = \<lparr>mr_id = j, mr_version = v, mr_cand = i, mr_sha = sha256_json E (JObj x),
         mr_payload = x, mr_active = True, mr_promoted = t\<rparr>"
  have m: "mr_cand m = i" "mr_active m" "mr_sha m = sha256_json E (JObj (mr_payload m))" "mr_payload m = x"
    and i: "insert_mechanism m (deactivate (mr_id m) db) = Inr db1" using ins by (simp_all add: m_def)
  let ?off = "deactivate (mr_id m) db" and ?D = "set_status i ''PROMOTED'' db" and ?db2 = "set_status i ''PROMOTED'' db1"
  have c': "c \<in> set (cands db)" "cr_id c = i" using find_cand_D [OF c] by simp_all
  have db1: "db1 = ?off\<lparr>mechs := off (mr_id m) (mechs db) @ [m]\<rparr>"
    and n: "\<not> list_ex (\<lambda>x. mr_id x = mr_id m \<and> mr_version x = mr_version m) (off (mr_id m) (mechs db))"
    using i by (auto simp: insert_mechanism_def require_eq_Inr mechs_as_off)
  have D: "reg_ok E ?D" by (rule set_status_ok [OF ok]) simp
  have same: "cands ?db2 = cands ?D" "reviews ?db2 = reviews ?D" "raudit ?db2 = raudit ?D" "reviews_of ?db2 = reviews_of ?D"
    by (simp_all add: db1 fun_eq_iff reviews_of_def) (simp_all add: set_status_def)
  have old: "promoted_ok E ?db2 x" if "x \<in> set (off (mr_id m) (mechs db))" for x
    using same_mech_off [OF that] promoted_ok_same_mech [of E ?D _ x ?db2] D same(1,4) by (auto simp: reg_ok_def)
  obtain c2 where c2: "c2 \<in> set (cands ?D)" "same_cand c c2" "cr_status c2 = ''PROMOTED''"
    using set_status_same [OF c'(1), of i "''PROMOTED''"] c'(2) by auto
  have rv: "reviews_of ?db2 (cr_id c) = reviews_of db (cr_id c)" unfolding same(4) by simp
  have "cr_id c2 = i" using c2(2) c'(2) by (simp add: same_cand_def)
  moreover have "candidate_status ?db2 c2 = Inr ''READY_TO_PROMOTE''" using candidate_status_same [OF c2(2) rv] st(1) by simp
  moreover have "promoted_artifact c2 p (reviews_of ?db2 i) = Inr (mr_payload m)"
    using promoted_artifact_same [OF c2(2), of p "reviews_of db i"] st(2) rv c'(2) m(4) by simp
  ultimately have new: "promoted_ok E ?db2 m"
    unfolding promoted_ok_def using c2 m same(1) by (intro bexI [of _ c2]) auto
  have "reg_ok E ?db2"
  proof (rule reg_ok_mechs [OF D same(1-3)])
    show "mechs_ok (mechs ?db2)" using mechs_ok_insert [OF _ m(2) n] ok by (simp add: db1 reg_ok_def)
    show "promoted_ok E ?db2 x" if "x \<in> set (mechs ?db2)" for x
      using that old new by (auto simp: db1)
  qed
  then show ?thesis using a by (rule reg_ok_audit)
qed

lemma reg_run_ok: "reg_run E db \<Longrightarrow> reg_ok E db"
proof (induction rule: reg_run.induct)
  case rg_init
  show ?case by (simp add: init_rdb_def reg_ok_def raudit_ok_def cands_ok_def reviews_ok_def mechs_ok_def)
qed (blast intro: register_run_ok submit_review_ok promote_ok rollback_ok)+

section \<open>Properties\<close>

text \<open>
  C36. The audit chain of the registry verifies after any sequence of its operations.
\<close>

theorem registry_audit_verifies:
  assumes "reg_run E db"
  shows "verify_reg_chain E db"
  using reg_run_ok [OF assms] by (simp add: reg_ok_def raudit_ok_def verify_reg_chain_def reg_audit_events_def)

text \<open>
  C35. A promoted mechanism always has exactly one active version, whatever promotions and rollbacks
  follow, and it is the one that reading the mechanism without a version returns.
\<close>

theorem one_active_version:
  assumes "reg_run E db" and "m \<in> set (mechs db)"
  shows "\<exists>x. active_rows (mr_id m) (mechs db) = [x] \<and> get_mechanism db (mr_id m) None = Inr (mr_payload x)"
proof -
  obtain x where x: "active_rows (mr_id m) (mechs db) = [x]"
    using reg_run_ok [OF assms(1)] assms(2) by (auto simp: reg_ok_def mechs_ok_def length_Suc_conv)
  have "List.find P xs = Some x" if "filter P xs = [x]" for P xs
    using that by (induction xs) (auto split: if_splits)
  then show ?thesis using x by (auto simp: get_mechanism_def active_rows_def)
qed

lemma candidate_status_ready:
  assumes "candidate_status db c = Inr ''READY_TO_PROMOTE''"
  defines "A \<equiv> approvals_in (reviews_of db (cr_id c))"
  shows "required_approvals (cr_risk c) \<le> length A" "set (required_roles (cr_risk c)) \<subseteq> rv_role ` set A"
    "\<forall>r \<in> set (reviews_of db (cr_id c)). rv_decision r \<notin> {''REJECT'', ''REVISION_REQUIRED''}"
    "conflict_ids c = Inr xs \<Longrightarrow> x \<in> set xs \<Longrightarrow> \<exists>r \<in> set A. \<exists>k \<in> fst ` set (rv_resolutions r). x = JStr k"
  using assms(1) unfolding candidate_status_def A_def Let_def
  by (auto simp: rbind_eq_Inr list_ex_iff list_all_iff resolved_in_def split: if_splits)

lemma promoted_artifact_marks:
  assumes "promoted_artifact c p rs = Inr a"
  shows "dict_get a ''facts'' = Some (get_default (cr_payload c) ''facts'' (JArr []))"
    "dict_get a ''approved'' = Some (JBool True)" "dict_get a ''binding_authority'' = Some (JBool False)"
  using assms by (auto simp: promoted_artifact_def Let_def merge_def rbind_eq_Inr)

text \<open>
  C34. Nothing is in force that was not approved: behind every promoted mechanism, active or not,
  stands a registered candidate whose content has the hash that every one of its reviews names, with
  approvals only, from as many distinct reviewers as its risk class requires and in all the required
  roles, which together resolve all its conflicts; the mechanism carries the candidate's facts.
\<close>

theorem promoted_was_approved:
  assumes "reg_run E db" and "m \<in> set (mechs db)"
  shows "\<exists>c \<in> set (cands db). cr_id c = mr_cand m \<and> cr_status c = ''PROMOTED'' \<and> cr_sha c = sha256_json E (JObj (cr_payload c))
    \<and> (\<forall>r \<in> set (reviews_of db (cr_id c)). rv_decision r = ''APPROVE'' \<and> rv_sha r = cr_sha c)
    \<and> required_approvals (cr_risk c) \<le> card (rv_reviewer ` set (reviews_of db (cr_id c)))
    \<and> set (required_roles (cr_risk c)) \<subseteq> rv_role ` set (reviews_of db (cr_id c))
    \<and> (\<forall>xs. conflict_ids c = Inr xs \<longrightarrow> (\<forall>x \<in> set xs. \<exists>r \<in> set (reviews_of db (cr_id c)). \<exists>k \<in> fst ` set (rv_resolutions r). x = JStr k))
    \<and> dict_get (mr_payload m) ''facts'' = Some (get_default (cr_payload c) ''facts'' (JArr []))
    \<and> mr_sha m = sha256_json E (JObj (mr_payload m))"
proof -
  have ok: "cands_ok E db" "reviews_ok db" "promoted_ok E db m"
    using reg_run_ok [OF assms(1)] assms(2) by (auto simp: reg_ok_def)
  then obtain c p where c: "c \<in> set (cands db)" "cr_id c = mr_cand m" "cr_status c = ''PROMOTED''"
    and st: "candidate_status db c = Inr ''READY_TO_PROMOTE''" and art: "promoted_artifact c p (reviews_of db (cr_id c)) = Inr (mr_payload m)"
    and sha: "mr_sha m = sha256_json E (JObj (mr_payload m))"
    unfolding promoted_ok_def by blast
  let ?rs = "reviews_of db (cr_id c)"
  have all: "rv_decision r = ''APPROVE''" if "r \<in> set ?rs" for r
    using candidate_status_ready(3) [OF st] ok(2) that unfolding reviews_ok_def by auto
  then have A: "approvals_in ?rs = ?rs" by (simp add: approvals_in_def)
  have "rv_sha r = cr_sha c" if "r \<in> set ?rs" for r
    using ok(2) that cand_unique [OF ok(1) c(1)] unfolding reviews_ok_def by fastforce
  moreover have "distinct (map rv_reviewer ?rs)"
  proof -
    have "distinct (map (\<lambda>r. (rv_cand r, rv_reviewer r)) ?rs)"
      using ok(2) by (auto simp: reviews_ok_def reviews_of_def distinct_map intro: inj_on_subset)
    then show ?thesis by (auto simp: distinct_map inj_on_def)
  qed
  then have "card (rv_reviewer ` set ?rs) = length ?rs" using distinct_card [of "map rv_reviewer ?rs"] by simp
  moreover have "cr_sha c = sha256_json E (JObj (cr_payload c))" using ok(1) c(1) by (simp add: cands_ok_def)
  ultimately show ?thesis
    using c sha all candidate_status_ready(1,2,4) [OF st, unfolded A] promoted_artifact_marks(1) [OF art]
    by (intro bexI [of _ c]) auto
qed

end
