(* ===== verification/RegistryExamples.thy ===== *)
theory RegistryExamples
  imports RegistryProps MemoryExamples
begin

text \<open>
  A run of the registry: a compiler report with one candidate is registered, the candidate
  reviewed and promoted; the properties applied to the result.
\<close>

definition rg_candidate :: obj where
  "rg_candidate = [(''binding_authority'', JBool False), (''candidate_id'', JStr ''c''), (''conflict_ids'', JArr []),
     (''facts'', JArr [JStr ''f'']), (''mechanism'', JObj [(''approved'', JBool False), (''mechanism_id'', JStr ''m''),
       (''metadata'', JObj []), (''risk_class'', JStr ''LOW''), (''version'', JStr ''1'')])]"

definition rg_report :: obj where
  "rg_report = [(''binding_authority'', JBool False), (''candidates'', JArr [JObj rg_candidate]),
     (''compiler_manifest'', JObj [(''compiled_payload_sha256'', JStr ''o''), (''input_sha256'', JStr ''i'')]),
     (''compiler_run_id'', JStr ''r''), (''qualification'', JObj [(''passed'', JBool True)])]"

lemmas rg_eval [eval_simps] = register_compiler_run_def register_candidate_def append_reg_audit_def raudit_link_def raudit_sha_def
  get_default_def get_obj_def find_cand_def candidate_row_def submit_review_def insert_review_def candidate_status_def
  conflict_ids_def json_set_of_def reviews_of_def approvals_in_def resolved_in_def required_approvals_def required_roles_def
  set_status_def review_id_of_def promote_def promoted_artifact_def as_dict_def required_key_def merge_def insert_mechanism_def
  deactivate_def init_rdb_def py_str_def last_hash_def


lemma rg_candidate_get [eval_simps]:
  "dict_get rg_candidate ''binding_authority'' = Some (JBool False)" "dict_get rg_candidate ''candidate_id'' = Some (JStr ''c'')"
  "dict_get rg_candidate ''conflict_ids'' = Some (JArr [])" "dict_get rg_candidate ''facts'' = Some (JArr [JStr ''f''])"
  "dict_get rg_candidate ''mechanism'' = Some (JObj [(''approved'', JBool False), (''mechanism_id'', JStr ''m''),
     (''metadata'', JObj []), (''risk_class'', JStr ''LOW''), (''version'', JStr ''1'')])"
  "sum_list (map (\<lambda>p. Suc (colons (fst p) + json_colons (snd p))) rg_candidate) = 10"
  by (simp_all add: rg_candidate_def eval_simps cong: world_congs)

lemma rg_report_get [eval_simps]:
  "dict_get rg_report ''binding_authority'' = Some (JBool False)" "dict_get rg_report ''candidates'' = Some (JArr [JObj rg_candidate])"
  "dict_get rg_report ''compiler_manifest'' = Some (JObj [(''compiled_payload_sha256'', JStr ''o''), (''input_sha256'', JStr ''i'')])"
  "dict_get rg_report ''compiler_run_id'' = Some (JStr ''r'')" "dict_get rg_report ''qualification'' = Some (JObj [(''passed'', JBool True)])"
  "dict_get rg_report ''institution_id'' = None"
  by (simp_all add: rg_report_def)
section \<open>Registration, review, promotion\<close>

definition rg_run :: run_row where
  "rg_run = \<lparr>rr_id = ''r'', rr_institution = [], rr_input = ''i'', rr_output = ''o'', rr_payload = rg_report, rr_created = t00\<rparr>"

definition rg_audit :: raudit_row where
  "rg_audit = \<lparr>ra_type = ''COMPILER_RUN_REGISTERED'', ra_entity = ''r'',
     ra_payload = JObj [(''input_sha256'', JStr ''i''), (''output_sha256'', JStr ''o'')], ra_prev = ''GENESIS'',
     ra_hash = ''sha256:10'', ra_created = t00\<rparr>"
definition rg_db0 :: rdb where
  "rg_db0 = \<lparr>runs = [rg_run], cands = [], reviews = [], mechs = [], raudit = [rg_audit]\<rparr>"

lemma rg_run_audited: "append_reg_audit mem_env ''COMPILER_RUN_REGISTERED'' ''r''
   (mk_obj [(''input_sha256'', JStr ''i''), (''output_sha256'', JStr ''o'')]) t00 (init_rdb\<lparr>runs := [rg_run]\<rparr>) = Inr rg_db0"
  by (simp add: eval_simps rg_db0_def rg_audit_def cong: world_congs)
definition rg_cand :: cand_row where
  "rg_cand = \<lparr>cr_id = ''c'', cr_run = ''r'', cr_mechanism = ''m'', cr_version = ''1'', cr_risk = ''LOW'',
     cr_sha = ''sha256:10'', cr_payload = rg_candidate, cr_status = ''REGISTERED'', cr_created = t00\<rparr>"

definition rg_audit1 :: raudit_row where
  "rg_audit1 = \<lparr>ra_type = ''CANDIDATE_REGISTERED'', ra_entity = ''c'',
     ra_payload = JObj [(''candidate_sha256'', JStr ''sha256:10''), (''run_id'', JStr ''r'')],
     ra_prev = ''sha256:10'', ra_hash = ''sha256:12'', ra_created = t00\<rparr>"

definition rg_db1 :: rdb where
  "rg_db1 = \<lparr>runs = [rg_run], cands = [rg_cand], reviews = [], mechs = [], raudit = [rg_audit, rg_audit1]\<rparr>"

lemma rg_candidate_added: "rfold (register_candidate mem_env ''r'' t00) [JObj rg_candidate] (rg_db0, []) = Inr (rg_db1, [''c''])"
  by (simp add: eval_simps rg_db0_def rg_audit_def rg_db1_def rg_cand_def rg_audit1_def cong: world_congs)

lemma rg_registered: "register_compiler_run mem_env t00 rg_report None init_rdb = Inr (rg_db1, [''c''])"
  unfolding register_compiler_run_def rg_candidate_added [symmetric]
  by (simp add: get_obj_def get_default_def rg_report_get py_str_def truthy_def or_now_def rg_run_audited [unfolded init_rdb_def rg_run_def, simplified]
      init_rdb_def cong: eval_congs del: rfold.simps)

lemmas rg_rows [eval_simps] = rg_db1_def rg_cand_def rg_audit_def rg_audit1_def

lemma digit_9 [eval_simps]: "digit (Suc (Suc (Suc (Suc (Suc (Suc (Suc (Suc (Suc 0))))))))) = CHR ''9''"
  using digit_values(11) by (simp add: numeral_eq_Suc)

definition rg_review :: review_row where
  "rg_review = \<lparr>rv_id = ''review-9'', rv_cand = ''c'', rv_reviewer = ''ann'', rv_role = ''DOMAIN'', rv_decision = ''APPROVE'',
     rv_rationale = ''fine'', rv_resolutions = [], rv_sha = ''sha256:10'', rv_created = t00\<rparr>"

definition rg_audit2 :: raudit_row where
  "rg_audit2 = \<lparr>ra_type = ''CANDIDATE_REVIEWED'', ra_entity = ''c'',
     ra_payload = JObj [(''candidate_sha256'', JStr ''sha256:10''), (''decision'', JStr ''APPROVE''), (''resolutions'', JObj []),
       (''review_id'', JStr ''review-9''), (''reviewer_id'', JStr ''ann''), (''reviewer_role'', JStr ''DOMAIN'')],
     ra_prev = ''sha256:12'', ra_hash = ''sha256:16'', ra_created = t00\<rparr>"

definition rg_db2 :: rdb where
  "rg_db2 = rg_db1\<lparr>cands := [rg_cand\<lparr>cr_status := ''READY_TO_PROMOTE''\<rparr>], reviews := [rg_review],
     raudit := [rg_audit, rg_audit1, rg_audit2]\<rparr>"

lemma rg_reviewed: "submit_review mem_env t00 ''c'' ''ann'' ''DOMAIN'' ''APPROVE'' ''fine'' [] None rg_db1
    = Inr (rg_db2, ''review-9'', ''READY_TO_PROMOTE'')"
  by (simp add: eval_simps rg_db2_def rg_review_def rg_audit2_def cong: world_congs)

lemmas rg_rows2 [eval_simps] = rg_db2_def rg_review_def rg_audit2_def

definition rg_artifact :: obj where
  "rg_artifact = [(''approved'', JBool True), (''binding_authority'', JBool False), (''facts'', JArr [JStr ''f'']),
     (''mechanism_id'', JStr ''m''),
     (''metadata'', JObj [(''approval_ids'', JArr [JStr ''review-9'']), (''candidate_sha256'', JStr ''sha256:10''),
        (''promoted_from_candidate'', JStr ''c''), (''promoter_id'', JStr ''bob''), (''resolved_conflicts'', JObj [])]),
     (''risk_class'', JStr ''LOW''), (''version'', JStr ''1'')]"

lemma rg_promoted: "\<exists>db. promote mem_env t00 ''c'' ''bob'' None rg_db2 = Inr (db, rg_artifact)
    \<and> mechs db = [\<lparr>mr_id = ''m'', mr_version = ''1'', mr_cand = ''c'', mr_sha = ''sha256:13'', mr_payload = rg_artifact,
         mr_active = True, mr_promoted = t00\<rparr>]"
  by (simp add: eval_simps rg_artifact_def cong: world_congs)

lemma rg_run2: "reg_run mem_env rg_db2"
  by (rule rg_review [OF rg_register [OF rg_init rg_registered] rg_reviewed])

section \<open>The properties on the run\<close>

theorem registry_audit_verifies_witness: "verify_reg_chain mem_env rg_db2"
  by (rule registry_audit_verifies [OF rg_run2])

theorem one_active_version_witness:
  "\<exists>db x. promote mem_env t00 ''c'' ''bob'' None rg_db2 = Inr (db, rg_artifact) \<and> active_rows ''m'' (mechs db) = [x]"
proof -
  obtain db where p: "promote mem_env t00 ''c'' ''bob'' None rg_db2 = Inr (db, rg_artifact)"
    and m: "mechs db = [\<lparr>mr_id = ''m'', mr_version = ''1'', mr_cand = ''c'', mr_sha = ''sha256:13'', mr_payload = rg_artifact,
         mr_active = True, mr_promoted = t00\<rparr>]" using rg_promoted by blast
  show ?thesis using one_active_version [OF rg_promote [OF rg_run2 p], of "hd (mechs db)"] p m by auto
qed

theorem promoted_was_approved_witness:
  "\<exists>db (c :: cand_row). promote mem_env t00 ''c'' ''bob'' None rg_db2 = Inr (db, rg_artifact) \<and> cr_id c = ''c'' \<and> cr_status c = ''PROMOTED''
     \<and> 1 \<le> card (rv_reviewer ` set (reviews_of db ''c''))"
proof -
  obtain db where p: "promote mem_env t00 ''c'' ''bob'' None rg_db2 = Inr (db, rg_artifact)"
    and m: "mechs db = [\<lparr>mr_id = ''m'', mr_version = ''1'', mr_cand = ''c'', mr_sha = ''sha256:13'', mr_payload = rg_artifact,
         mr_active = True, mr_promoted = t00\<rparr>]" using rg_promoted by blast
  have h: "hd (mechs db) \<in> set (mechs db)" and i: "mr_cand (hd (mechs db)) = ''c''" using m by simp_all
  obtain c :: cand_row where c: "cr_id c = ''c''" "cr_status c = ''PROMOTED''"
    and n: "required_approvals (cr_risk c) \<le> card (rv_reviewer ` set (reviews_of db (cr_id c)))"
    using promoted_was_approved [OF rg_promote [OF rg_run2 p] h] unfolding i by blast
  have "1 \<le> required_approvals (cr_risk c)" by (simp add: required_approvals_def)
  then have "1 \<le> card (rv_reviewer ` set (reviews_of db ''c''))" using n unfolding c(1) by (rule le_trans)
  then show ?thesis using p c by blast
qed

end
