(* ===== verification/Runtime.thy ===== *)
theory Runtime
  imports Json "HOL-Library.Product_Lexorder" "HOL-Library.Multiset"
begin

text \<open>
  The institutional runtime (\<open>src/src/edon/runtime/engine.py\<close>): the facts an approved mechanism
  expects are compared with the facts of a state, and a list of events can be applied to a state
  before that. A mechanism, a state and an event are JSON objects. An event identifier that is
  not a text is treated as malformed: the code would compare it with the others when it sorts.
\<close>

section \<open>Errors and results\<close>

record checks =
  ck_approved :: bool
  ck_non_binding :: bool
  ck_sources :: bool
  ck_facts :: bool
  ck_conflicts :: bool
  ck_consistent :: bool

text \<open>
  A \<open>RuntimeExecutionError\<close> with its message, the one that carries the failed validation, and an
  error of the language on a malformed document.
\<close>

datatype run_error = RunError string | RunInvalid checks | RunMalformed

datatype semantic_state = TRUE | FALSE | UNKNOWN | MISSING | CONTESTED | INVALID

datatype decision = ALLOW | DENY | ABSTAIN | CONTESTED_DECISION | INVALID_DECISION

text \<open>A row of the trace: the path with the expected and the observed value.\<close>

datatype trace_row =
    RowMissing string json
  | RowMismatch string json json
  | RowSatisfied string json

record certificate =
  ce_mechanism :: string
  ce_version :: string
  ce_state :: semantic_state
  ce_decision :: decision
  ce_failed :: "string list"
  ce_evaluated :: nat
  ce_sha :: string
  ce_trace :: "trace_row list"

section \<open>The expected facts\<close>

definition obj_get :: "obj \<Rightarrow> string \<Rightarrow> json \<Rightarrow> json" where
  "obj_get m k d = (case dict_get m k of None \<Rightarrow> d | Some v \<Rightarrow> v)"

definition obj_key :: "obj \<Rightarrow> string \<Rightarrow> run_error + json" where
  "obj_key m k = (case dict_get m k of None \<Rightarrow> Inl RunMalformed | Some v \<Rightarrow> Inr v)"

definition fact_path :: "pyenv \<Rightarrow> obj \<Rightarrow> run_error + string" where
  "fact_path E row =
     rbind (obj_key row ''subject'') (\<lambda>s. rbind (obj_key row ''predicate'') (\<lambda>p.
       Inr (py_str E s @ ''.'' @ py_str E p)))"

definition add_fact :: "pyenv \<Rightarrow> json \<Rightarrow> obj \<Rightarrow> run_error + obj" where
  "add_fact E row expected = (case row of
     JObj m \<Rightarrow>
       (let v = obj_get m ''selected_value'' JNull in
        require (v \<noteq> JNull) (RunError ''approved mechanism contains an unresolved fact'') (
        rbind (fact_path E m) (\<lambda>path.
        require (case dict_get expected path of None \<Rightarrow> True | Some w \<Rightarrow> jeq w v)
          (RunError (''approved mechanism contains contradictory fact: '' @ path))
          (Inr (dict_put path v expected)))))
   | _ \<Rightarrow> Inl (RunError ''approved mechanism contains an unresolved fact''))"

definition expected_facts :: "pyenv \<Rightarrow> obj \<Rightarrow> run_error + obj" where
  "expected_facts E mechanism = (case obj_get mechanism ''facts'' JNull of
     JArr (f # fs) \<Rightarrow> rfold (add_fact E) (f # fs) []
   | _ \<Rightarrow> Inl (RunError ''approved mechanism contains no executable facts''))"

section \<open>Validation\<close>

text \<open>Decimal digits with single underscores between them, as \<open>int(text)\<close> reads them.\<close>

fun dec_value :: "bool \<Rightarrow> int \<Rightarrow> string \<Rightarrow> int option" where
  "dec_value u n [] = (if u then None else Some n)"
| "dec_value u n (c # cs) =
     (if c = CHR ''_'' then (if u then None else dec_value True n cs)
      else if CHR ''0'' \<le> c \<and> c \<le> CHR ''9'' then dec_value False (10 * n + (of_char c - 48)) cs
      else None)"

definition int_of_text :: "string \<Rightarrow> run_error + int" where
  "int_of_text s =
     (let s = num_strip s;
          digits = (if take 1 s \<in> {''+'', ''-''} then drop 1 s else s);
          sgn = (if take 1 s = ''-'' then - 1 else 1) in
      if 4300 < length (filter (\<lambda>c. c \<noteq> CHR ''_'') digits) then Inl RunMalformed
      else (case dec_value True 0 digits of None \<Rightarrow> Inl RunMalformed | Some n \<Rightarrow> Inr (sgn * n)))"

text \<open>\<open>int(v)\<close> of a JSON value: a float is truncated towards zero.\<close>

definition int_of_json :: "json \<Rightarrow> run_error + int" where
  "int_of_json v = (case v of
     JInt i \<Rightarrow> Inr i
   | JBool b \<Rightarrow> Inr (if b then 1 else 0)
   | JFloat (Fin r) \<Rightarrow> Inr (if 0 \<le> r then \<lfloor>r\<rfloor> else \<lceil>r\<rceil>)
   | JStr s \<Rightarrow> int_of_text s
   | _ \<Rightarrow> Inl RunMalformed)"

definition len_of_json :: "json \<Rightarrow> run_error + nat" where
  "len_of_json v = (case v of JStr s \<Rightarrow> Inr (length s) | JArr xs \<Rightarrow> Inr (length xs) | JObj m \<Rightarrow> Inr (length m)
     | _ \<Rightarrow> Inl RunMalformed)"

definition facts_consistent :: "pyenv \<Rightarrow> obj \<Rightarrow> run_error + bool" where
  "facts_consistent E mechanism =
     (if truthy (obj_get mechanism ''facts'' JNull) then
        (case expected_facts E mechanism of
           Inl RunMalformed \<Rightarrow> Inl RunMalformed
         | Inl _ \<Rightarrow> Inr False
         | Inr _ \<Rightarrow> Inr True)
      else Inr False)"

definition validate_approved_mechanism :: "pyenv \<Rightarrow> obj \<Rightarrow> run_error + checks" where
  "validate_approved_mechanism E mechanism =
     rbind (case obj_get mechanism ''metadata'' (JObj []) of JObj m \<Rightarrow> Inr m | _ \<Rightarrow> Inl RunMalformed) (\<lambda>metadata.
     rbind (int_of_json (obj_get metadata ''conflict_count'' (JInt 0))) (\<lambda>conflict_count.
     rbind (if conflict_count = 0 then Inr True
            else rbind (len_of_json (obj_get metadata ''resolved_conflicts'' (JObj [])))
              (\<lambda>n. Inr (conflict_count \<le> int n))) (\<lambda>resolved.
     rbind (facts_consistent E mechanism) (\<lambda>consistent.
       Inr \<lparr>ck_approved = (obj_get mechanism ''approved'' JNull = JBool True),
            ck_non_binding = (obj_get mechanism ''binding_authority'' JNull = JBool False),
            ck_sources = truthy (obj_get mechanism ''source_references'' JNull),
            ck_facts = truthy (obj_get mechanism ''facts'' JNull),
            ck_conflicts = resolved, ck_consistent = consistent\<rparr>))))"

definition all_pass :: "checks \<Rightarrow> bool" where
  "all_pass c \<longleftrightarrow> ck_approved c \<and> ck_non_binding c \<and> ck_sources c \<and> ck_facts c \<and> ck_conflicts c \<and> ck_consistent c"

section \<open>Evaluation\<close>

definition compare_fact :: "obj \<Rightarrow> string \<times> json \<Rightarrow> trace_row" where
  "compare_fact observed p = (case dict_get observed (fst p) of
     None \<Rightarrow> RowMissing (fst p) (snd p)
   | Some v \<Rightarrow> if jeq v (snd p) then RowSatisfied (fst p) (snd p) else RowMismatch (fst p) (snd p) v)"

definition missing_text :: "trace_row \<Rightarrow> string list" where
  "missing_text r = (case r of RowMissing p _ \<Rightarrow> [''MISSING:'' @ p] | _ \<Rightarrow> [])"

definition mismatch_text :: "trace_row \<Rightarrow> string list" where
  "mismatch_text r = (case r of RowMismatch p _ _ \<Rightarrow> [''MISMATCH:'' @ p] | _ \<Rightarrow> [])"

definition evaluate :: "pyenv \<Rightarrow> obj \<Rightarrow> obj \<Rightarrow> run_error + certificate" where
  "evaluate E mechanism state =
     rbind (validate_approved_mechanism E mechanism) (\<lambda>checks.
     require (all_pass checks) (RunInvalid checks) (
     rbind (case obj_get state ''facts'' JNull of JObj m \<Rightarrow> Inr m
            | _ \<Rightarrow> Inl (RunError ''runtime state must contain a facts object'')) (\<lambda>observed.
     rbind (expected_facts E mechanism) (\<lambda>expected.
     let trace = map (compare_fact observed) expected;
         missing = concat (map missing_text trace);
         mismatched = concat (map mismatch_text trace);
         (semantic, verdict, failed) =
           (if missing \<noteq> [] then (MISSING, ABSTAIN, missing @ mismatched)
            else if mismatched \<noteq> [] then (FALSE, DENY, mismatched) else (TRUE, ALLOW, [])) in
     rbind (obj_key mechanism ''mechanism_id'') (\<lambda>mid.
     rbind (obj_key mechanism ''version'') (\<lambda>version.
       Inr \<lparr>ce_mechanism = py_str E mid, ce_version = py_str E version, ce_state = semantic, ce_decision = verdict,
         ce_failed = failed, ce_evaluated = length expected, ce_sha = sha256_json E (JObj state), ce_trace = trace\<rparr>))))))"

section \<open>Events\<close>

record event_trace =
  et_id :: string
  et_sequence :: int
  et_priority :: int
  et_action :: string
  et_path :: string
  et_before :: json
  et_after :: json

record run_event =
  re_id :: string
  re_sequence :: int
  re_priority :: int
  re_action :: string
  re_body :: obj

text \<open>The checks on one event, in the order of the code; the result carries its numbers filled in.\<close>

definition event_id_of :: "json \<Rightarrow> run_error + obj \<times> string" where
  "event_id_of event = (case event of
     JObj m \<Rightarrow> (case obj_get m ''event_id'' (JStr []) of JStr s \<Rightarrow> Inr (m, s) | _ \<Rightarrow> Inl RunMalformed)
   | _ \<Rightarrow> Inl RunMalformed)"

definition event_action_of :: "nat \<Rightarrow> obj \<Rightarrow> run_error + string" where
  "event_action_of index m =
     (let unsupported = RunError (''unsupported event action at index '' @ int_text (int index)) in
      case obj_get m ''action'' JNull of
        JStr a \<Rightarrow> require (a \<in> {''SET'', ''DELETE''}) unsupported (Inr a)
      | JArr _ \<Rightarrow> Inl RunMalformed
      | JObj _ \<Rightarrow> Inl RunMalformed
      | _ \<Rightarrow> Inl unsupported)"

definition take_event :: "nat \<times> json \<Rightarrow> run_event list \<Rightarrow> run_error + run_event list" where
  "take_event p rows =
     (let (index, event) = p in
      rbind (event_id_of event) (\<lambda>(m, event_id).
      require (event_id \<noteq> [] \<and> event_id \<notin> re_id ` set rows)
        (RunError ''events require unique non-empty event_id values'') (
      rbind (event_action_of index m) (\<lambda>action.
      rbind (int_of_json (obj_get m ''sequence'' (JInt (int index)))) (\<lambda>sequence.
      rbind (int_of_json (obj_get m ''priority'' (JInt 0))) (\<lambda>priority.
        Inr (rows @ [\<lparr>re_id = event_id, re_sequence = sequence, re_priority = priority, re_action = action,
          re_body = dict_put ''priority'' (JInt priority) (dict_put ''sequence'' (JInt sequence) m)\<rparr>])))))))"

definition event_order :: "run_event \<Rightarrow> int \<times> int \<times> string" where
  "event_order e = (re_sequence e, - re_priority e, re_id e)"

definition missing_marker :: json where
  "missing_marker = JStr ''__MISSING__''"

definition apply_event :: "pyenv \<Rightarrow> run_event \<Rightarrow> obj \<times> event_trace list \<Rightarrow> run_error + (obj \<times> event_trace list)" where
  "apply_event E e acc =
     (let (facts, trace) = acc; path = py_str E (obj_get (re_body e) ''path'' (JStr [])) in
      require (path \<noteq> []) (RunError ''event path is required'') (
      let facts' = (if re_action e = ''SET'' then dict_put path (obj_get (re_body e) ''value'' JNull) facts
                    else dict_del path facts) in
      Inr (facts', trace @ [\<lparr>et_id = re_id e, et_sequence = re_sequence e, et_priority = re_priority e,
        et_action = re_action e, et_path = path, et_before = obj_get facts path missing_marker,
        et_after = obj_get facts' path missing_marker\<rparr>])))"

record run_result =
  rs_mechanism :: json
  rs_version :: json
  rs_initial_sha :: string
  rs_events_sha :: string
  rs_trace :: "event_trace list"
  rs_state :: obj
  rs_certificate :: certificate

definition execute_events :: "pyenv \<Rightarrow> obj \<Rightarrow> obj \<Rightarrow> json list \<Rightarrow> run_error + run_result" where
  "execute_events E mechanism initial_state events =
     rbind (validate_approved_mechanism E mechanism) (\<lambda>checks.
     require (all_pass checks) (RunInvalid checks) (
     rbind (case obj_get initial_state ''facts'' JNull of JObj m \<Rightarrow> Inr m
            | _ \<Rightarrow> Inl (RunError ''initial state must contain a facts object'')) (\<lambda>facts.
     rbind (rfold take_event (List.enumerate 0 events) []) (\<lambda>rows.
     let ordered = sort_key event_order rows in
     rbind (rfold (apply_event E) ordered (facts, [])) (\<lambda>(facts', trace).
     let state = dict_put ''facts'' (JObj facts') initial_state in
     rbind (evaluate E mechanism state) (\<lambda>certificate.
     rbind (obj_key mechanism ''mechanism_id'') (\<lambda>mid.
     rbind (obj_key mechanism ''version'') (\<lambda>version.
       Inr \<lparr>rs_mechanism = mid, rs_version = version, rs_initial_sha = sha256_json E (JObj initial_state),
         rs_events_sha = sha256_json E (JArr (map (\<lambda>e. JObj (re_body e)) ordered)), rs_trace = trace,
         rs_state = state, rs_certificate = certificate\<rparr>))))))))"

text \<open>\<open>ExecutionCertificate.as_dict\<close>.\<close>

definition semantic_text :: "semantic_state \<Rightarrow> string" where
  "semantic_text s = (case s of TRUE \<Rightarrow> ''TRUE'' | FALSE \<Rightarrow> ''FALSE'' | UNKNOWN \<Rightarrow> ''UNKNOWN'' | MISSING \<Rightarrow> ''MISSING''
     | CONTESTED \<Rightarrow> ''CONTESTED'' | INVALID \<Rightarrow> ''INVALID'')"

definition decision_text :: "decision \<Rightarrow> string" where
  "decision_text d = (case d of ALLOW \<Rightarrow> ''ALLOW'' | DENY \<Rightarrow> ''DENY'' | ABSTAIN \<Rightarrow> ''ABSTAIN''
     | CONTESTED_DECISION \<Rightarrow> ''CONTESTED'' | INVALID_DECISION \<Rightarrow> ''INVALID'')"

definition enc_trace_row :: "trace_row \<Rightarrow> json" where
  "enc_trace_row r = (case r of
     RowMissing p v \<Rightarrow> mk_obj [(''path'', JStr p), (''status'', JStr ''MISSING''), (''expected'', v)]
   | RowMismatch p v w \<Rightarrow> mk_obj [(''path'', JStr p), (''status'', JStr ''MISMATCH''), (''expected'', v), (''observed'', w)]
   | RowSatisfied p v \<Rightarrow> mk_obj [(''path'', JStr p), (''status'', JStr ''SATISFIED''), (''expected'', v)])"

definition enc_certificate :: "certificate \<Rightarrow> json" where
  "enc_certificate c = mk_obj
     [(''mechanism_id'', JStr (ce_mechanism c)), (''mechanism_version'', JStr (ce_version c)),
      (''semantic_state'', JStr (semantic_text (ce_state c))), (''decision'', JStr (decision_text (ce_decision c))),
      (''failed_conditions'', jstrs (ce_failed c)), (''evaluated_conditions'', JInt (int (ce_evaluated c))),
      (''final_state_sha256'', JStr (ce_sha c)), (''trace'', JArr (map enc_trace_row (ce_trace c))),
      (''binding_authority'', JBool False)]"

end
