(* ===== verification/RuntimeProps.thy ===== *)
theory RuntimeProps
  imports Runtime
begin

text \<open>
  What the runtime shows: the verdict of an evaluation is the comparison of every fact of the
  mechanism with the state, and the replay of a list of events does not depend on the order in
  which they are handed over.
\<close>

section \<open>Comparison is an equivalence\<close>

lemma flt_eq_iff: "flt_eq a b \<longleftrightarrow> a = b \<and> a \<noteq> NaN"
  by (cases a) auto

lemma jnum_eq_iff: "jnum_eq a b \<longleftrightarrow> (\<exists>x. jnum a = Some x \<and> jnum b = Some x \<and> x \<noteq> NaN)"
  by (auto simp: jnum_eq_def flt_eq_iff split: option.splits)

lemma jnum_eq_sym: "jnum_eq a b \<Longrightarrow> jnum_eq b a"
  by (auto simp: jnum_eq_iff)

lemma jnum_eq_trans: "jnum_eq a b \<Longrightarrow> jnum_eq b c \<Longrightarrow> jnum_eq a c"
  by (auto simp: jnum_eq_iff)

lemma jnum_None: "jnum JNull = None" "jnum (JStr s) = None" "jnum (JArr xs) = None" "jnum (JObj ms) = None"
  by (simp_all add: jnum_def)

lemma jeq_num: "jnum a \<noteq> None \<Longrightarrow> jeq a b = jnum_eq a b"
  by (cases a) (simp_all add: jnum_None)

lemma jeq_sym_all:
  "jeq a b \<Longrightarrow> jeq b a" and "jeqs xs ys \<Longrightarrow> jeqs ys xs" and "jeqm ms ns \<Longrightarrow> jeqm ns ms"
proof (induction a b and xs ys and ms ns rule: jeq_jeqs_jeqm.induct)
  case (5 x b)
  then have "jnum_eq b (JBool x)" by (simp add: jnum_eq_sym)
  then show ?case by (subst jeq_num) (auto simp: jnum_eq_iff)
next
  case (6 x b)
  then have "jnum_eq b (JInt x)" by (simp add: jnum_eq_sym)
  then show ?case by (subst jeq_num) (auto simp: jnum_eq_iff)
next
  case (7 x b)
  then have "jnum_eq b (JFloat x)" by (simp add: jnum_eq_sym)
  then show ?case by (subst jeq_num) (auto simp: jnum_eq_iff)
qed (auto split: json.splits list.splits prod.splits)

lemma jeqs_all2: "jeqs xs ys \<longleftrightarrow> list_all2 jeq xs ys"
  by (induction xs arbitrary: ys) (auto simp: list_all2_Cons1 split: list.splits)

lemma jeqm_all2: "jeqm ms ns \<longleftrightarrow> list_all2 (\<lambda>p q. fst p = fst q \<and> jeq (snd p) (snd q)) ms ns"
  by (induction ms arbitrary: ns) (auto simp: list_all2_Cons1 split: list.splits)

lemma list_all2_trans_on:
  assumes "list_all2 P xs ys" and "list_all2 P ys zs" and "\<And>x y z. x \<in> set xs \<Longrightarrow> P x y \<Longrightarrow> P y z \<Longrightarrow> P x z"
  shows "list_all2 P xs zs"
proof -
  have "P (xs ! i) (zs ! i)" if "i < length xs" for i
    using assms that unfolding list_all2_conv_all_nth by (metis nth_mem)
  then show ?thesis using assms unfolding list_all2_conv_all_nth by simp
qed

lemma jeq_trans: "jeq a b \<Longrightarrow> jeq b c \<Longrightarrow> jeq a c"
proof (induction a arbitrary: b c)
  case (JArr xs)
  from JArr.prems obtain ys zs where bc: "b = JArr ys" "c = JArr zs"
    by (auto split: json.splits)
  have "list_all2 jeq xs zs"
  proof (rule list_all2_trans_on)
    show "list_all2 jeq xs ys" "list_all2 jeq ys zs" using JArr.prems by (simp_all add: bc jeqs_all2)
  qed (rule JArr.IH)
  then show ?case by (simp add: bc jeqs_all2)
next
  case (JObj ms)
  from JObj.prems obtain ns os where bc: "b = JObj ns" "c = JObj os"
    by (auto split: json.splits)
  let ?P = "\<lambda>p q. fst p = fst q \<and> jeq (snd p) (snd q)"
  have "list_all2 ?P ms os"
  proof (rule list_all2_trans_on)
    show "list_all2 ?P ms ns" "list_all2 ?P ns os" using JObj.prems by (simp_all add: bc jeqm_all2)
    fix x y z assume "x \<in> set ms" "?P x y" "?P y z"
    then show "?P x z" using JObj.IH [of x "snd x" "snd y" "snd z"] by (cases x) (auto simp: snds.simps)
  qed
  then show ?case by (simp add: bc jeqm_all2)
next
  case (JBool x)
  then show ?case using jeq_num [of b c] by (auto simp: jnum_eq_iff)
next
  case (JInt x)
  then show ?case using jeq_num [of b c] by (auto simp: jnum_eq_iff)
next
  case (JFloat x)
  then show ?case using jeq_num [of b c] by (auto simp: jnum_eq_iff)
qed auto

lemmas jeq_sym = jeq_sym_all(1)

section \<open>Expected facts\<close>

text \<open>A fact of the mechanism with its path and its selected value.\<close>

definition fact_row :: "pyenv \<Rightarrow> json \<Rightarrow> (string \<times> json) option" where
  "fact_row E f = (case f of
     JObj m \<Rightarrow> (case fact_path E m of Inr p \<Rightarrow> Some (p, obj_get m ''selected_value'' JNull) | Inl _ \<Rightarrow> None)
   | _ \<Rightarrow> None)"

definition fact_holds :: "pyenv \<Rightarrow> obj \<Rightarrow> json \<Rightarrow> bool" where
  "fact_holds E observed f = (case fact_row E f of
     None \<Rightarrow> False
   | Some (p, v) \<Rightarrow> (case dict_get observed p of None \<Rightarrow> False | Some w \<Rightarrow> jeq w v))"

definition fact_missing :: "pyenv \<Rightarrow> obj \<Rightarrow> json \<Rightarrow> bool" where
  "fact_missing E observed f = (case fact_row E f of
     None \<Rightarrow> False
   | Some (p, v) \<Rightarrow> dict_get observed p = None)"

text \<open>What the facts read so far leave in the table.\<close>

definition facts_cover :: "pyenv \<Rightarrow> json list \<Rightarrow> obj \<Rightarrow> bool" where
  "facts_cover E fs expected \<longleftrightarrow> dict_ok expected \<and>
     (\<forall>f \<in> set fs. \<exists>p v w. fact_row E f = Some (p, v) \<and> dict_get expected p = Some w \<and> (v = w \<or> jeq v w)) \<and>
     (\<forall>p w. dict_get expected p = Some w \<longrightarrow> (\<exists>f \<in> set fs. fact_row E f = Some (p, w)))"

lemma add_fact_D:
  assumes "add_fact E f expected = Inr expected'"
  shows "\<exists>p v. fact_row E f = Some (p, v) \<and> v \<noteq> JNull \<and> expected' = dict_put p v expected \<and>
    (\<forall>w. dict_get expected p = Some w \<longrightarrow> jeq w v)"
  using assms
  by (cases f) (auto simp: add_fact_def fact_row_def Let_def result_simps split: option.splits)

lemma facts_cover_step:
  assumes "facts_cover E fs expected" and "add_fact E f expected = Inr expected'"
  shows "facts_cover E (fs @ [f]) expected'"
proof -
  obtain p v where f: "fact_row E f = Some (p, v)" and e': "expected' = dict_put p v expected"
    and old: "\<And>w. dict_get expected p = Some w \<Longrightarrow> jeq w v"
    using add_fact_D [OF assms(2)] by blast
  have "\<exists>q u w. fact_row E g = Some (q, u) \<and> dict_get expected' q = Some w \<and> (u = w \<or> jeq u w)"
    if g: "g \<in> set fs" for g
  proof -
    obtain q u w where "fact_row E g = Some (q, u)" "dict_get expected q = Some w" "u = w \<or> jeq u w"
      using assms(1) g by (auto simp: facts_cover_def)
    then show ?thesis using old by (cases "q = p") (auto simp: e' dest: jeq_trans)
  qed
  with assms(1) f show ?thesis
    by (auto simp: facts_cover_def e' split: if_splits)
qed

lemma facts_cover_fold:
  "rfold (add_fact E) gs expected = Inr expected' \<Longrightarrow> facts_cover E fs expected \<Longrightarrow> facts_cover E (fs @ gs) expected'"
proof (induction gs arbitrary: expected fs)
  case (Cons g gs)
  then show ?case using facts_cover_step [of E fs expected g] Cons.IH [of _ "fs @ [g]"]
    by (auto elim!: rbindE)
qed simp

lemma expected_facts_D:
  assumes "expected_facts E mechanism = Inr expected"
  obtains fs where "dict_get mechanism ''facts'' = Some (JArr fs)" and "fs \<noteq> []" and "facts_cover E fs expected"
proof -
  obtain f fs where fs: "dict_get mechanism ''facts'' = Some (JArr (f # fs))"
    and run: "rfold (add_fact E) (f # fs) [] = Inr expected"
    using assms by (auto simp: expected_facts_def obj_get_def split: option.splits json.splits list.splits)
  have "facts_cover E ([] @ f # fs) expected"
    by (rule facts_cover_fold [OF run]) (simp add: facts_cover_def)
  with fs show thesis by (intro that [of "f # fs"]) simp_all
qed

lemma cover_missing:
  assumes "facts_cover E fs expected"
  shows "(\<exists>(p, w) \<in> set expected. dict_get observed p = None) \<longleftrightarrow> (\<exists>f \<in> set fs. fact_missing E observed f)"
proof -
  have get: "(p, w) \<in> set expected \<longleftrightarrow> dict_get expected p = Some w" for p w
    using assms by (simp add: facts_cover_def dict_ok_get_iff)
  show ?thesis
  proof
    assume "\<exists>(p, w) \<in> set expected. dict_get observed p = None"
    then show "\<exists>f \<in> set fs. fact_missing E observed f"
      using assms unfolding facts_cover_def get by (force simp: get fact_missing_def)
  next
    assume "\<exists>f \<in> set fs. fact_missing E observed f"
    then obtain f where f: "f \<in> set fs" "fact_missing E observed f" ..
    then obtain p v w where "fact_row E f = Some (p, v)" "dict_get expected p = Some w"
      using assms by (auto simp: facts_cover_def)
    with f(2) show "\<exists>(p, w) \<in> set expected. dict_get observed p = None"
      by (auto simp: fact_missing_def get intro!: bexI [of _ "(p, w)"])
  qed
qed

lemma cover_holds:
  assumes "facts_cover E fs expected"
  shows "(\<forall>(p, w) \<in> set expected. \<exists>v. dict_get observed p = Some v \<and> jeq v w) \<longleftrightarrow> (\<forall>f \<in> set fs. fact_holds E observed f)"
proof -
  have get: "(p, w) \<in> set expected \<longleftrightarrow> dict_get expected p = Some w" for p w
    using assms by (simp add: facts_cover_def dict_ok_get_iff)
  show ?thesis
  proof
    assume all: "\<forall>(p, w) \<in> set expected. \<exists>v. dict_get observed p = Some v \<and> jeq v w"
    show "\<forall>f \<in> set fs. fact_holds E observed f"
    proof
      fix f assume "f \<in> set fs"
      then obtain p v w where f: "fact_row E f = Some (p, v)" "dict_get expected p = Some w" "v = w \<or> jeq v w"
        using assms by (auto simp: facts_cover_def)
      with all obtain u where "dict_get observed p = Some u" "jeq u w"
        by (auto simp flip: get)
      with f show "fact_holds E observed f"
        by (auto simp: fact_holds_def dest: jeq_sym jeq_trans)
    qed
  next
    assume all: "\<forall>f \<in> set fs. fact_holds E observed f"
    show "\<forall>(p, w) \<in> set expected. \<exists>v. dict_get observed p = Some v \<and> jeq v w"
    proof (clarify)
      fix p w assume "(p, w) \<in> set expected"
      then obtain f where "f \<in> set fs" "fact_row E f = Some (p, w)"
        using assms unfolding facts_cover_def get by blast
      with all have "fact_holds E observed f" by blast
      with \<open>fact_row E f = Some (p, w)\<close> show "\<exists>v. dict_get observed p = Some v \<and> jeq v w"
        by (simp add: fact_holds_def split: option.splits)
    qed
  qed
qed

section \<open>The verdict\<close>

lemma rows_missing:
  "concat (map missing_text (map (compare_fact observed) expected)) = [] \<longleftrightarrow>
     \<not> (\<exists>(p, w) \<in> set expected. dict_get observed p = None)"
  by (induction expected) (auto simp: compare_fact_def missing_text_def split: option.splits)

lemma rows_clean:
  "concat (map missing_text (map (compare_fact observed) expected)) = [] \<and>
   concat (map mismatch_text (map (compare_fact observed) expected)) = [] \<longleftrightarrow>
     (\<forall>(p, w) \<in> set expected. \<exists>v. dict_get observed p = Some v \<and> jeq v w)"
  by (induction expected) (auto simp: compare_fact_def missing_text_def mismatch_text_def split: option.splits)

lemma evaluate_D:
  assumes "evaluate E mechanism state = Inr c"
  shows "\<exists>ck observed expected missing mismatched. validate_approved_mechanism E mechanism = Inr ck \<and> all_pass ck \<and>
    dict_get state ''facts'' = Some (JObj observed) \<and> expected_facts E mechanism = Inr expected \<and>
    missing = concat (map missing_text (map (compare_fact observed) expected)) \<and>
    mismatched = concat (map mismatch_text (map (compare_fact observed) expected)) \<and>
    ce_decision c = (if missing \<noteq> [] then ABSTAIN else if mismatched \<noteq> [] then DENY else ALLOW) \<and>
    ce_failed c = (if missing \<noteq> [] then missing @ mismatched else mismatched) \<and>
    ce_trace c = map (compare_fact observed) expected \<and> ce_evaluated c = length expected"
proof -
  obtain ck observed expected where run: "validate_approved_mechanism E mechanism = Inr ck" "all_pass ck"
      "dict_get state ''facts'' = Some (JObj observed)" "expected_facts E mechanism = Inr expected"
    using assms by (auto simp: evaluate_def result_simps obj_get_def split: option.splits json.splits)
  show ?thesis
    apply (rule exI [of _ ck], rule exI [of _ observed], rule exI [of _ expected], intro exI conjI)
    using assms run by (auto simp: evaluate_def result_simps obj_get_def Let_def split: if_splits)
qed

lemma validate_D:
  assumes "validate_approved_mechanism E mechanism = Inr ck" and "all_pass ck"
  shows "dict_get mechanism ''approved'' = Some (JBool True) \<and> dict_get mechanism ''binding_authority'' = Some (JBool False)"
  using assms unfolding validate_approved_mechanism_def
  by (auto elim!: rbindE simp: all_pass_def obj_get_def split: option.splits)

text \<open>
  C39. A certificate is given only for a mechanism that is approved and without binding authority,
  and its decision is read off the facts of the mechanism: it abstains when some fact is not
  observed, allows when every fact is observed with a value equal to the selected one, and
  denies otherwise. The list of failed conditions is empty exactly when it allows.
\<close>

theorem runtime_verdict:
  assumes "evaluate E mechanism state = Inr c"
  shows "dict_get mechanism ''approved'' = Some (JBool True) \<and>
    dict_get mechanism ''binding_authority'' = Some (JBool False) \<and>
    (\<exists>fs observed. dict_get mechanism ''facts'' = Some (JArr fs) \<and> fs \<noteq> [] \<and>
       dict_get state ''facts'' = Some (JObj observed) \<and>
       ce_decision c =
         (if \<exists>f \<in> set fs. fact_missing E observed f then ABSTAIN
          else if \<forall>f \<in> set fs. fact_holds E observed f then ALLOW else DENY)) \<and>
    (ce_failed c = [] \<longleftrightarrow> ce_decision c = ALLOW)"
proof -
  obtain ck observed expected missing mismatched where run:
      "validate_approved_mechanism E mechanism = Inr ck" "all_pass ck" "dict_get state ''facts'' = Some (JObj observed)"
      "expected_facts E mechanism = Inr expected"
      "missing = concat (map missing_text (map (compare_fact observed) expected))"
      "mismatched = concat (map mismatch_text (map (compare_fact observed) expected))"
      "ce_decision c = (if missing \<noteq> [] then ABSTAIN else if mismatched \<noteq> [] then DENY else ALLOW)"
      "ce_failed c = (if missing \<noteq> [] then missing @ mismatched else mismatched)"
    using evaluate_D [OF assms] by blast
  obtain fs where fs: "dict_get mechanism ''facts'' = Some (JArr fs)" "fs \<noteq> []" "facts_cover E fs expected"
    using run(4) by (rule expected_facts_D)
  have miss: "missing = [] \<longleftrightarrow> \<not> (\<exists>f \<in> set fs. fact_missing E observed f)"
    unfolding run(5) rows_missing using cover_missing [OF fs(3)] by simp
  have clean: "missing = [] \<and> mismatched = [] \<longleftrightarrow> (\<forall>f \<in> set fs. fact_holds E observed f)"
    unfolding run(5,6) rows_clean using cover_holds [OF fs(3)] by simp
  have "ce_decision c = (if \<exists>f \<in> set fs. fact_missing E observed f then ABSTAIN
      else if \<forall>f \<in> set fs. fact_holds E observed f then ALLOW else DENY)"
    using miss clean run(7) by auto
  moreover have "ce_failed c = [] \<longleftrightarrow> ce_decision c = ALLOW"
    using run(7,8) by simp
  ultimately show ?thesis
    using validate_D [OF run(1,2)] fs run(3) by blast
qed

section \<open>Replay of events\<close>

text \<open>An event that carries its own sequence number.\<close>

definition numbered :: "json \<Rightarrow> bool" where
  "numbered event = (case event of JObj m \<Rightarrow> dict_get m ''sequence'' \<noteq> None | _ \<Rightarrow> False)"

text \<open>The row of a numbered event does not depend on its place in the list.\<close>

definition event_row :: "json \<Rightarrow> run_event option" where
  "event_row event = (case take_event (0, event) [] of Inr [r] \<Rightarrow> Some r | _ \<Rightarrow> None)"

lemma take_event_rows:
  "take_event p rows = Inr rows' \<Longrightarrow> \<exists>r. rows' = rows @ [r] \<and> re_id r \<noteq> [] \<and> re_id r \<notin> re_id ` set rows"
  by (cases p) (auto simp: take_event_def Let_def result_simps)

lemma event_action_Inr: "event_action_of i m = Inr a \<longleftrightarrow> dict_get m ''action'' = Some (JStr a) \<and> a \<in> {''SET'', ''DELETE''}"
  by (auto simp: event_action_of_def obj_get_def Let_def result_simps split: option.splits json.splits)

text \<open>The row that a numbered event becomes, if it becomes one.\<close>

definition row_of :: "obj \<Rightarrow> run_event \<Rightarrow> bool" where
  "row_of m r \<longleftrightarrow> event_id_of (JObj m) = Inr (m, re_id r) \<and> re_id r \<noteq> [] \<and>
     dict_get m ''action'' = Some (JStr (re_action r)) \<and> re_action r \<in> {''SET'', ''DELETE''} \<and>
     (\<exists>s. dict_get m ''sequence'' = Some s \<and> int_of_json s = Inr (re_sequence r)) \<and>
     int_of_json (obj_get m ''priority'' (JInt 0)) = Inr (re_priority r) \<and>
     re_body r = dict_put ''priority'' (JInt (re_priority r)) (dict_put ''sequence'' (JInt (re_sequence r)) m)"

lemma row_of_unique: "row_of m r \<Longrightarrow> row_of m r' \<Longrightarrow> r = r'"
  by (auto simp: row_of_def intro!: run_event.equality)

lemma event_id_of_obj: "event_id_of (JObj m) = Inr (m', s) \<Longrightarrow> m' = m"
  by (auto simp: event_id_of_def split: json.splits)

lemma take_event_row:
  assumes "dict_get m ''sequence'' = Some s"
  shows "take_event (i, JObj m) rows = Inr rows' \<longleftrightarrow> (\<exists>r. row_of m r \<and> re_id r \<notin> re_id ` set rows \<and> rows' = rows @ [r])"
proof
  assume "take_event (i, JObj m) rows = Inr rows'"
  then obtain m' event_id action sequence priority where run: "event_id_of (JObj m) = Inr (m', event_id)"
      "event_id \<noteq> []" "event_id \<notin> re_id ` set rows" "event_action_of i m' = Inr action"
      "int_of_json (obj_get m' ''sequence'' (JInt (int i))) = Inr sequence"
      "int_of_json (obj_get m' ''priority'' (JInt 0)) = Inr priority"
      "rows' = rows @ [\<lparr>re_id = event_id, re_sequence = sequence, re_priority = priority, re_action = action,
          re_body = dict_put ''priority'' (JInt priority) (dict_put ''sequence'' (JInt sequence) m')\<rparr>]"
    by (auto simp: take_event_def result_simps)
  moreover have "m' = m" using run(1) by (rule event_id_of_obj)
  moreover have "obj_get m ''sequence'' (JInt (int i)) = s" using assms by (simp add: obj_get_def)
  ultimately show "\<exists>r. row_of m r \<and> re_id r \<notin> re_id ` set rows \<and> rows' = rows @ [r]"
    by (intro exI [of _ "last rows'"]) (simp add: row_of_def assms event_action_Inr)
next
  assume "\<exists>r. row_of m r \<and> re_id r \<notin> re_id ` set rows \<and> rows' = rows @ [r]"
  then obtain r where r: "row_of m r" "re_id r \<notin> re_id ` set rows" "rows' = rows @ [r]" by blast
  have "event_action_of i m = Inr (re_action r)" using r(1) by (simp add: row_of_def event_action_Inr)
  with r assms show "take_event (i, JObj m) rows = Inr rows'"
    by (simp add: take_event_def row_of_def obj_get_def)
qed

lemma take_event_numbered:
  assumes "numbered event"
  shows "take_event (i, event) rows = Inr rows' \<longleftrightarrow>
    (\<exists>r. event_row event = Some r \<and> re_id r \<notin> re_id ` set rows \<and> rows' = rows @ [r])"
proof -
  obtain m s where m: "event = JObj m" "dict_get m ''sequence'' = Some s"
    using assms by (auto simp: numbered_def split: json.splits)
  have "event_row event = Some r \<longleftrightarrow> take_event (0, event) [] = Inr [r]" for r
    using take_event_rows [of "(0, event)" "[]"]
    by (auto simp: event_row_def split: sum.splits list.splits)
  then have "event_row event = Some r \<longleftrightarrow> row_of m r" for r
    using take_event_row [OF m(2), of 0 "[]"] m(1) by simp
  then show ?thesis by (simp add: m(1) take_event_row [OF m(2)])
qed

lemma take_events_numbered:
  assumes "\<forall>e \<in> set es. numbered e"
  shows "rfold take_event (List.enumerate i es) rows = Inr rows' \<longleftrightarrow>
    (\<exists>rs. map event_row es = map Some rs \<and> rows' = rows @ rs \<and> distinct (map re_id rs) \<and>
       re_id ` set rows \<inter> re_id ` set rs = {})"
  using assms
proof (induction es arbitrary: i rows)
  case (Cons e es)
  show ?case
  proof (cases "event_row e")
    case None
    with Cons.prems show ?thesis by (auto simp: rbind_eq_Inr take_event_numbered)
  next
    case (Some r)
    have tail: "rfold take_event (List.enumerate (Suc i) es) (rows @ [r]) = Inr rows' \<longleftrightarrow>
      (\<exists>rs. map event_row es = map Some rs \<and> rows' = (rows @ [r]) @ rs \<and> distinct (map re_id rs) \<and>
        re_id ` set (rows @ [r]) \<inter> re_id ` set rs = {})"
      using Cons.prems by (intro Cons.IH) simp
    show ?thesis (is "_ = ?R")
    proof -
      have "rfold take_event (List.enumerate i (e # es)) rows = Inr rows' \<longleftrightarrow>
          re_id r \<notin> re_id ` set rows \<and> rfold take_event (List.enumerate (Suc i) es) (rows @ [r]) = Inr rows'"
        using Cons.prems Some by (auto simp: rbind_eq_Inr take_event_numbered)
      also have "\<dots> \<longleftrightarrow> ?R"
        unfolding tail using Some by (auto simp: map_eq_Cons_conv Cons_eq_map_conv)
      finally show ?thesis .
    qed
  qed
qed auto

lemma take_events_rows:
  "rfold take_event ps rows = Inr rows' \<Longrightarrow> distinct (map re_id rows) \<Longrightarrow>
     distinct (map re_id rows') \<and> length rows' = length rows + length ps"
proof (induction ps arbitrary: rows)
  case (Cons p ps)
  then obtain rows1 where "take_event p rows = Inr rows1" "rfold take_event ps rows1 = Inr rows'"
    by (auto elim: rbindE)
  with Cons.IH [of rows1] Cons.prems(2) take_event_rows [of p rows rows1] show ?case by auto
qed simp

lemma event_order_inj: "distinct (map re_id rows) \<Longrightarrow> inj_on event_order (set rows)"
  by (auto simp: event_order_def inj_on_def distinct_map)

lemma sorted_events_unique:
  assumes "mset rows = mset rows'" and "distinct (map re_id rows')"
  shows "sort_key event_order rows = sort_key event_order rows'"
  by (rule sort_key_inj_key_eq) (use assms event_order_inj [of rows'] in \<open>simp_all add: mset_eq_setD [OF assms(1)]\<close>)

lemma taken_permuted:
  assumes "mset es' = mset es" and "\<forall>e \<in> set es. numbered e" and "rfold take_event (List.enumerate 0 es) [] = Inr rows"
  shows "\<exists>rows'. rfold take_event (List.enumerate 0 es') [] = Inr rows' \<and> sort_key event_order rows' = sort_key event_order rows"
proof -
  have rows: "map event_row es = map Some rows" "distinct (map re_id rows)"
    using assms(3) take_events_numbered [OF assms(2), of 0 "[]" rows] by auto
  define rows' where "rows' = map (the \<circ> event_row) es'"
  have all: "event_row e \<noteq> None" if "e \<in> set es" for e
    using rows(1) that by (metis (no_types, lifting) ex_map_conv option.distinct(1) list.set_map image_iff)
  have set: "set es' = set es" using assms(1) by (rule mset_eq_setD)
  have "map event_row es' = map Some rows'"
    using all by (auto simp: rows'_def set)
  moreover have "rows = map (the \<circ> event_row) es"
    using arg_cong [OF rows(1), of "map the"] by (simp add: comp_def)
  then have m: "mset rows' = mset rows"
    by (simp add: rows'_def assms(1))
  moreover have "distinct (map re_id rows')"
    using rows(2) m by (metis mset_map mset_eq_imp_distinct_iff)
  ultimately have "rfold take_event (List.enumerate 0 es') [] = Inr rows'"
    using take_events_numbered [of es' 0 "[]" rows'] assms(2) by (auto simp: set)
  with sorted_events_unique [OF m rows(2)] show ?thesis by blast
qed

subsection \<open>Applying the events\<close>

text \<open>The value of a path after a trace: that of its last event, deleted or set.\<close>

definition last_write :: "event_trace list \<Rightarrow> string \<Rightarrow> json option \<Rightarrow> json option" where
  "last_write trace path v = (case List.find (\<lambda>t. et_path t = path) (rev trace) of
     None \<Rightarrow> v
   | Some t \<Rightarrow> if et_action t = ''SET'' then Some (et_after t) else None)"

text \<open>
  What the document of an event and its place in the list ask for: the identifier, the action, the
  numbers, which default to the place and to zero, the path, and the value that the path has
  afterwards, which is the event's value, or null, when it is set, and the marker when it is deleted.
\<close>

definition event_means :: "pyenv \<Rightarrow> nat \<times> json \<Rightarrow> event_trace \<Rightarrow> bool" where
  "event_means E p t \<longleftrightarrow> (\<exists>m. snd p = JObj m \<and> dict_get m ''event_id'' = Some (JStr (et_id t)) \<and> et_id t \<noteq> [] \<and>
     dict_get m ''action'' = Some (JStr (et_action t)) \<and> et_action t \<in> {''SET'', ''DELETE''} \<and>
     int_of_json (case dict_get m ''sequence'' of None \<Rightarrow> JInt (int (fst p)) | Some v \<Rightarrow> v) = Inr (et_sequence t) \<and>
     int_of_json (case dict_get m ''priority'' of None \<Rightarrow> JInt 0 | Some v \<Rightarrow> v) = Inr (et_priority t) \<and>
     et_path t \<noteq> [] \<and> (\<exists>v. dict_get m ''path'' = Some v \<and> et_path t = py_str E v) \<and>
     et_after t = (if et_action t = ''DELETE'' then JStr ''__MISSING__''
       else (case dict_get m ''value'' of None \<Rightarrow> JNull | Some v \<Rightarrow> v)))"

definition row_means :: "nat \<times> json \<Rightarrow> run_event \<Rightarrow> bool" where
  "row_means p e \<longleftrightarrow> (\<exists>m. snd p = JObj m \<and> dict_get m ''event_id'' = Some (JStr (re_id e)) \<and> re_id e \<noteq> [] \<and>
     dict_get m ''action'' = Some (JStr (re_action e)) \<and> re_action e \<in> {''SET'', ''DELETE''} \<and>
     int_of_json (case dict_get m ''sequence'' of None \<Rightarrow> JInt (int (fst p)) | Some v \<Rightarrow> v) = Inr (re_sequence e) \<and>
     int_of_json (case dict_get m ''priority'' of None \<Rightarrow> JInt 0 | Some v \<Rightarrow> v) = Inr (re_priority e) \<and>
     dict_get (re_body e) ''path'' = dict_get m ''path'' \<and> dict_get (re_body e) ''value'' = dict_get m ''value'')"

definition applied_as :: "pyenv \<Rightarrow> run_event \<Rightarrow> event_trace \<Rightarrow> bool" where
  "applied_as E e t \<longleftrightarrow> et_id t = re_id e \<and> et_sequence t = re_sequence e \<and> et_priority t = re_priority e \<and>
     et_action t = re_action e \<and> et_path t = py_str E (obj_get (re_body e) ''path'' (JStr [])) \<and> et_path t \<noteq> [] \<and>
     et_after t = (if re_action e = ''SET'' then obj_get (re_body e) ''value'' JNull else missing_marker)"

lemma take_event_means: "take_event p rows = Inr rows' \<Longrightarrow> \<exists>e. rows' = rows @ [e] \<and> row_means p e"
  by (cases p)
    (auto simp: take_event_def row_means_def event_id_of_def event_action_of_def obj_get_def result_simps Let_def
      split: json.splits option.splits)

lemma take_events_means:
  "rfold take_event ps rows = Inr rows' \<Longrightarrow> \<exists>es. rows' = rows @ es \<and> list_all2 row_means ps es"
proof (induction ps arbitrary: rows)
  case (Cons p ps)
  then obtain rows1 where s: "take_event p rows = Inr rows1" and r: "rfold take_event ps rows1 = Inr rows'"
    by (auto elim: rbindE)
  obtain e where e: "rows1 = rows @ [e]" "row_means p e" using take_event_means [OF s] by blast
  obtain es where "rows' = rows1 @ es" "list_all2 row_means ps es" using Cons.IH [OF r] by blast
  with e show ?case by (intro exI [of _ "e # es"]) simp
qed simp

lemma means_trans: "row_means p e \<Longrightarrow> applied_as E e t \<Longrightarrow> event_means E p t"
  unfolding row_means_def applied_as_def event_means_def
  by (elim exE, rule_tac x = m in exI)
    (auto simp: obj_get_def py_str_def missing_marker_def split: option.splits)

lemma apply_events_as:
  "rfold (apply_event E) es (facts, trace) = Inr (facts', trace') \<Longrightarrow> \<exists>ts. trace' = trace @ ts \<and> list_all2 (applied_as E) es ts"
proof (induction es arbitrary: facts trace)
  case (Cons e es)
  then obtain facts1 trace1 where step: "apply_event E e (facts, trace) = Inr (facts1, trace1)"
    and rest: "rfold (apply_event E) es (facts1, trace1) = Inr (facts', trace')"
    by (auto elim: rbindE)
  obtain t where t: "trace1 = trace @ [t]" "applied_as E e t"
    using step by (auto simp: apply_event_def Let_def result_simps applied_as_def obj_get_def split: if_splits)
  obtain ts where "trace' = trace1 @ ts" "list_all2 (applied_as E) es ts" using Cons.IH [OF rest] by blast
  with t show ?case by (intro exI [of _ "t # ts"]) simp
qed simp

definition trace_key :: "event_trace \<Rightarrow> int \<times> int \<times> string" where
  "trace_key t = (et_sequence t, - et_priority t, et_id t)"

lemma last_write_append: "last_write (ts @ [t]) path v =
    (if et_path t = path then (if et_action t = ''SET'' then Some (et_after t) else None) else last_write ts path v)"
  by (simp add: last_write_def)

lemma last_write_Nil [simp]: "last_write [] path v = v"
  by (simp add: last_write_def)

text \<open>The value before each row is what the rows before it left.\<close>

definition befores :: "(string \<Rightarrow> json option) \<Rightarrow> event_trace list \<Rightarrow> bool" where
  "befores v trace \<longleftrightarrow> (\<forall>k < length trace. let t = trace ! k in
     et_before t = (case last_write (take k trace) (et_path t) (v (et_path t)) of None \<Rightarrow> missing_marker | Some v \<Rightarrow> v))"

lemma befores_append: "befores v (ts @ [t]) \<longleftrightarrow> befores v ts \<and>
    et_before t = (case last_write ts (et_path t) (v (et_path t)) of None \<Rightarrow> missing_marker | Some v \<Rightarrow> v)"
  by (auto simp: befores_def Let_def nth_append less_Suc_eq)

lemma apply_event_D:
  assumes "apply_event E e (facts, trace) = Inr (facts', trace')"
  shows "\<exists>t. trace' = trace @ [t] \<and> trace_key t = event_order e \<and>
    et_before t = (case dict_get facts (et_path t) of None \<Rightarrow> missing_marker | Some v \<Rightarrow> v) \<and>
    (\<forall>path. dict_get facts' path =
      (if et_path t = path then (if et_action t = ''SET'' then Some (et_after t) else None) else dict_get facts path))"
  using assms
  by (auto simp: apply_event_def Let_def result_simps trace_key_def event_order_def obj_get_def split: if_splits)

lemma apply_events_D:
  "rfold (apply_event E) es (facts, trace) = Inr (facts', trace') \<Longrightarrow>
     \<forall>path. dict_get facts path = last_write trace path (v path) \<Longrightarrow> befores v trace \<Longrightarrow>
     map trace_key trace' = map trace_key trace @ map event_order es \<and>
     (\<forall>path. dict_get facts' path = last_write trace' path (v path)) \<and> befores v trace'"
proof (induction es arbitrary: facts trace)
  case (Cons e es)
  then obtain facts1 trace1 where step: "apply_event E e (facts, trace) = Inr (facts1, trace1)"
    and rest: "rfold (apply_event E) es (facts1, trace1) = Inr (facts', trace')"
    by (auto elim: rbindE)
  obtain t where t: "trace1 = trace @ [t]" "trace_key t = event_order e"
      "et_before t = (case dict_get facts (et_path t) of None \<Rightarrow> missing_marker | Some v \<Rightarrow> v)"
      "\<forall>path. dict_get facts1 path =
        (if et_path t = path then (if et_action t = ''SET'' then Some (et_after t) else None) else dict_get facts path)"
    using apply_event_D [OF step] by blast
  have "\<forall>path. dict_get facts1 path = last_write trace1 path (v path)" "befores v trace1"
    using t Cons.prems(2,3) by (simp_all add: last_write_append befores_append)
  from Cons.IH [OF rest this] t show ?case by simp
qed simp

text \<open>A successful replay, step by step; the rows are all it reads of the events.\<close>

lemma execute_events_D:
  assumes "execute_events E mechanism initial_state events = Inr r"
  obtains facts rows facts' where "dict_get initial_state ''facts'' = Some (JObj facts)"
    and "rfold take_event (List.enumerate 0 events) [] = Inr rows"
    and "rfold (apply_event E) (sort_key event_order rows) (facts, []) = Inr (facts', rs_trace r)"
    and "rs_state r = dict_put ''facts'' (JObj facts') initial_state"
    and "evaluate E mechanism (rs_state r) = Inr (rs_certificate r)"
proof -
  obtain facts where facts: "dict_get initial_state ''facts'' = Some (JObj facts)"
    using assms by (auto simp: execute_events_def result_simps obj_get_def split: option.splits json.splits)
  with assms that show thesis
    by (auto simp: execute_events_def result_simps obj_get_def Let_def)
qed

lemma execute_events_rows:
  assumes "rfold take_event (List.enumerate 0 events) [] = Inr rows"
    and "rfold take_event (List.enumerate 0 events') [] = Inr rows'"
    and "sort_key event_order rows' = sort_key event_order rows"
  shows "execute_events E mechanism initial_state events' = execute_events E mechanism initial_state events"
  using assms by (simp add: execute_events_def Let_def)

text \<open>
  C40. A replay applies the events by sequence number, then by decreasing priority, then by
  identifier. The trace has one row for each event, with the identifier, the action, the path and
  the value that the event asks for; the value before a row is what the rows before it left, and
  in the final state a path has the value of its last row, or its value of the initial state when
  no event names it. The certificate is that of the final state. When every event carries its sequence number, handing the same events over in any other
  order gives the same result.
\<close>

theorem replay_is_deterministic:
  assumes "execute_events E mechanism initial_state events = Inr r"
  shows "sorted_wrt (<) (map trace_key (rs_trace r)) \<and>
    (\<exists>ts. mset ts = mset (rs_trace r) \<and> list_all2 (event_means E) (List.enumerate 0 events) ts) \<and>
    (\<exists>facts facts'. dict_get initial_state ''facts'' = Some (JObj facts) \<and>
       rs_state r = dict_put ''facts'' (JObj facts') initial_state \<and>
       (\<forall>k < length (rs_trace r). let t = rs_trace r ! k in
          et_before t = (case last_write (take k (rs_trace r)) (et_path t) (dict_get facts (et_path t)) of
            None \<Rightarrow> JStr ''__MISSING__'' | Some v \<Rightarrow> v)) \<and>
       (\<forall>path. dict_get facts' path = last_write (rs_trace r) path (dict_get facts path))) \<and>
    evaluate E mechanism (rs_state r) = Inr (rs_certificate r) \<and>
    (\<forall>events'. mset events' = mset events \<and> list_all numbered events \<longrightarrow>
       execute_events E mechanism initial_state events' = Inr r)"
proof -
  obtain facts rows facts' where run: "dict_get initial_state ''facts'' = Some (JObj facts)"
      "rfold take_event (List.enumerate 0 events) [] = Inr rows"
      "rfold (apply_event E) (sort_key event_order rows) (facts, []) = Inr (facts', rs_trace r)"
      "rs_state r = dict_put ''facts'' (JObj facts') initial_state"
      "evaluate E mechanism (rs_state r) = Inr (rs_certificate r)"
    using assms by (rule execute_events_D)
  have rows: "distinct (map re_id rows)" "length rows = length events"
    using take_events_rows [OF run(2)] by auto
  have trace: "map trace_key (rs_trace r) = map event_order (sort_key event_order rows)"
      "\<forall>path. dict_get facts' path = last_write (rs_trace r) path (dict_get facts path)"
      "befores (dict_get facts) (rs_trace r)"
    using apply_events_D [OF run(3), of "dict_get facts"] by (simp_all add: befores_def)
  have "distinct (map event_order (sort_key event_order rows))"
    using rows(1) event_order_inj [OF rows(1)] by (simp add: distinct_map)
  then have "sorted_wrt (<) (map trace_key (rs_trace r))"
    unfolding trace strict_sorted_iff by simp
  moreover have "\<exists>ts. mset ts = mset (rs_trace r) \<and> list_all2 (event_means E) (List.enumerate 0 events) ts"
  proof -
    have m: "list_all2 row_means (List.enumerate 0 events) rows" using take_events_means [OF run(2)] by simp
    have "list_all2 (applied_as E) (sort_key event_order rows) (rs_trace r)" using apply_events_as [OF run(3)] by simp
    then obtain ts where ts: "list_all2 (applied_as E) rows ts" "mset ts = mset (rs_trace r)"
      using list_all2_reorder_left_invariance [of "applied_as E" "sort_key event_order rows" "rs_trace r" rows] by auto
    have "list_all2 (event_means E) (List.enumerate 0 events) ts"
      by (rule list_all2_trans [OF _ m ts(1)]) (rule means_trans)
    with ts(2) show ?thesis by blast
  qed
  moreover have "execute_events E mechanism initial_state events' = Inr r"
    if "mset events' = mset events" and "list_all numbered events" for events'
    using taken_permuted [OF that(1) _ run(2)] that(2) execute_events_rows [OF run(2)] assms
    by (auto simp: list_all_iff)
  ultimately show ?thesis using run(1,4,5) trace(2) trace(3) [unfolded befores_def missing_marker_def] by blast
qed

end
