(* ===== verification/RuntimeExamples.thy ===== *)
theory RuntimeExamples
  imports RuntimeProps
begin

text \<open>An invoice mechanism with two facts, evaluated and replayed.\<close>

definition demo_mechanism :: obj where
  "demo_mechanism =
     [(''approved'', JBool True), (''binding_authority'', JBool False),
      (''facts'', JArr
        [JObj [(''predicate'', JStr ''paid''), (''selected_value'', JBool False), (''subject'', JStr ''i'')],
         JObj [(''predicate'', JStr ''sum''), (''selected_value'', JInt 10), (''subject'', JStr ''i'')]]),
      (''mechanism_id'', JStr ''m''), (''source_references'', JArr [JStr ''s'']), (''version'', JStr ''1'')]"

definition demo_facts :: obj where
  "demo_facts = [(''facts'', JObj [(''i.paid'', JBool True)])]"

definition demo_events :: "json list" where
  "demo_events =
     [JObj [(''action'', JStr ''SET''), (''event_id'', JStr ''b''), (''path'', JStr ''i.sum''),
            (''sequence'', JInt 1), (''value'', JFloat (Fin 10))],
      JObj [(''action'', JStr ''SET''), (''event_id'', JStr ''a''), (''path'', JStr ''i.sum''),
            (''sequence'', JInt 1), (''value'', JInt 11)]]"

lemmas rt_eval [eval_simps] = validate_approved_mechanism_def int_of_json_def len_of_json_def facts_consistent_def
  expected_facts_def add_fact_def fact_path_def obj_get_def obj_key_def truthy_def all_pass_def py_str_def
  compare_fact_def missing_text_def mismatch_text_def jnum_eq_def jnum_def
  take_event_def event_id_of_def event_action_of_def event_order_def apply_event_def missing_marker_def
  demo_mechanism_def demo_facts_def demo_events_def mk_obj_def

definition demo_rows :: "run_event list" where
  "demo_rows =
     [\<lparr>re_id = ''a'', re_sequence = 1, re_priority = 0, re_action = ''SET'',
        re_body = [(''action'', JStr ''SET''), (''event_id'', JStr ''a''), (''path'', JStr ''i.sum''),
          (''priority'', JInt 0), (''sequence'', JInt 1), (''value'', JInt 11)]\<rparr>,
      \<lparr>re_id = ''b'', re_sequence = 1, re_priority = 0, re_action = ''SET'',
        re_body = [(''action'', JStr ''SET''), (''event_id'', JStr ''b''), (''path'', JStr ''i.sum''),
          (''priority'', JInt 0), (''sequence'', JInt 1), (''value'', JFloat (Fin 10))]\<rparr>]"

lemma demo_taken: "rfold take_event (List.enumerate 0 demo_events) [] = Inr (rev demo_rows)"
  by (simp add: eval_simps demo_rows_def cong: eval_congs)

lemma demo_sorted: "sort_key event_order (rev demo_rows) = demo_rows"
  by (simp add: demo_rows_def event_order_def)

definition demo_trace :: "event_trace list" where
  "demo_trace =
     [\<lparr>et_id = ''a'', et_sequence = 1, et_priority = 0, et_action = ''SET'', et_path = ''i.sum'',
        et_before = missing_marker, et_after = JInt 11\<rparr>,
      \<lparr>et_id = ''b'', et_sequence = 1, et_priority = 0, et_action = ''SET'', et_path = ''i.sum'',
        et_before = JInt 11, et_after = JFloat (Fin 10)\<rparr>]"

lemma demo_applied: "rfold (apply_event demo_env) demo_rows ([(''i.paid'', JBool True)], []) =
    Inr ([(''i.paid'', JBool True), (''i.sum'', JFloat (Fin 10))], demo_trace)"
  by (simp add: Let_def apply_event_def demo_rows_def demo_trace_def obj_get_def py_str_def missing_marker_def)

lemma demo_verdict:
  "\<exists>c. evaluate demo_env demo_mechanism [(''facts'', JObj [(''i.paid'', JBool True), (''i.sum'', JFloat (Fin 10))])] = Inr c \<and>
     ce_failed c = [''MISMATCH:i.paid'']"
  by (simp add: eval_simps evaluate_def cong: eval_congs)

lemma demo_checked: "\<exists>ck. validate_approved_mechanism demo_env demo_mechanism = Inr ck \<and> all_pass ck"
  by (simp add: eval_simps cong: eval_congs)

lemma demo_replay:
  "\<exists>r. execute_events demo_env demo_mechanism demo_facts demo_events = Inr r \<and> rs_trace r = demo_trace \<and>
     ce_failed (rs_certificate r) = [''MISMATCH:i.paid'']"
proof -
  obtain ck c where "validate_approved_mechanism demo_env demo_mechanism = Inr ck" "all_pass ck"
    and "evaluate demo_env demo_mechanism [(''facts'', JObj [(''i.paid'', JBool True), (''i.sum'', JFloat (Fin 10))])] = Inr c"
    and "ce_failed c = [''MISMATCH:i.paid'']"
    using demo_checked demo_verdict by blast
  then show ?thesis
    by (simp add: execute_events_def demo_taken demo_sorted demo_facts_def obj_get_def demo_applied obj_key_def
        demo_mechanism_def [unfolded atomize_eq])
qed

theorem runtime_verdict_witness:
  "\<exists>c. evaluate demo_env demo_mechanism demo_facts = Inr c \<and> ce_decision c = ABSTAIN"
proof -
  obtain c where c: "evaluate demo_env demo_mechanism demo_facts = Inr c" "ce_failed c \<noteq> []"
    by (simp add: eval_simps evaluate_def cong: eval_congs)
  have "fact_missing demo_env [(''i.paid'', JBool True)]
      (JObj [(''predicate'', JStr ''sum''), (''selected_value'', JInt 10), (''subject'', JStr ''i'')])"
    by (simp add: fact_missing_def fact_row_def fact_path_def obj_key_def obj_get_def py_str_def)
  with runtime_verdict [OF c(1)] c(1) show ?thesis
    by (auto simp: demo_mechanism_def demo_facts_def)
qed

theorem replay_is_deterministic_witness:
  "\<exists>r ts. execute_events demo_env demo_mechanism demo_facts demo_events = Inr r
     \<and> execute_events demo_env demo_mechanism demo_facts (rev demo_events) = Inr r
     \<and> list_all2 (event_means demo_env) (List.enumerate 0 demo_events) ts \<and> mset ts = mset demo_trace"
proof -
  obtain r where r: "execute_events demo_env demo_mechanism demo_facts demo_events = Inr r" "rs_trace r = demo_trace"
    using demo_replay by blast
  have n: "list_all numbered demo_events" by (simp add: demo_events_def numbered_def)
  note d = replay_is_deterministic [OF r(1)]
  have "execute_events demo_env demo_mechanism demo_facts (rev demo_events) = Inr r"
    using d n mset_rev by blast
  with d r show ?thesis by auto
qed

end
