(* ===== verification/Federation.thy ===== *)
theory Federation
  imports WorldStore "HOL-Library.Product_Lexorder"
begin

text \<open>
  The federation store (\<open>src/src/edon/federation/store.py\<close>, class \<open>InstitutionalFederationStore\<close>):
  an immutable tree of scopes for every tenant, redacted summaries of worlds that are published
  to a scope or one above it, routing of decisions to the scope that covers their consequences,
  and the escalations this opens. The database is a record of tables in the order of insertion.
  A text where a number is expected in the state of a world is treated as malformed: the code
  would try to read a numeral.
\<close>

section \<open>Errors and tables\<close>

text \<open>
  A \<open>FederationError\<close> with its message, an error of the world store, an error of the language on
  malformed data, and the result of the loop over ancestors when it does not end.
\<close>

datatype fed_error = FedError string | FedWorld world_error | FedMalformed | FedLoop

record scope_row =
  fs_tenant :: string
  fs_id :: string
  fs_parent :: "string option"
  fs_type :: string
  fs_world :: "string option"
  fs_name :: string
  fs_domain :: string
  fs_latency :: string
  fs_policy :: obj
  fs_created :: string
  fs_sha :: string

record projection_row =
  fp_tenant :: string
  fp_id :: string
  fp_kind :: string
  fp_source :: string
  fp_target :: string
  fp_world :: "string option"
  fp_version :: "int option"
  fp_state :: "string option"
  fp_summary :: obj
  fp_sha :: string
  fp_created :: string

record route_row =
  fr_tenant :: string
  fr_decision :: string
  fr_source :: string
  fr_target :: string
  fr_consequences :: "string list"
  fr_impact :: flt
  fr_uncertainty :: flt
  fr_authority :: "string option"
  fr_disposition :: string
  fr_reasons :: "string list"
  fr_context :: string
  fr_created :: string
  fr_sha :: string

record escalation_row =
  fe_tenant :: string
  fe_id :: string
  fe_decision :: string
  fe_source :: string
  fe_target :: string
  fe_severity :: string
  fe_reason :: string
  fe_evidence :: "string list"
  fe_opened :: string
  fe_sha :: string

record escalation_event =
  fv_tenant :: string
  fv_escalation :: string
  fv_type :: string
  fv_actor :: string
  fv_note :: string
  fv_created :: string
  fv_sha :: string

record fdb =
  scopes :: "scope_row list"
  projections :: "projection_row list"
  routes :: "route_row list"
  escalations :: "escalation_row list"
  escalation_log :: "escalation_event list"

definition init_fdb :: fdb where
  "init_fdb = \<lparr>scopes = [], projections = [], routes = [], escalations = [], escalation_log = []\<rparr>"

section \<open>Arguments\<close>

definition scope_rank :: "(string \<times> nat) list" where
  "scope_rank = [(''GLOBAL'', 0), (''DOMAIN'', 1), (''REGION'', 2), (''FACILITY'', 3), (''EDGE'', 4)]"

definition latency_classes :: "string list" where
  "latency_classes = [''MILLISECONDS'', ''SECONDS'', ''MINUTES'', ''HOURS'', ''DAYS'']"

definition severities :: "string list" where
  "severities = [''INFO'', ''LOW'', ''MEDIUM'', ''HIGH'', ''CRITICAL'']"

definition fed_identifier :: "string \<Rightarrow> string \<Rightarrow> fed_error + string" where
  "fed_identifier label = ident_check 200 (FedError (label @ '' must contain between 1 and 200 characters''))"

text \<open>\<open>_identifier(v) if v else None\<close>.\<close>

definition fed_optional :: "string \<Rightarrow> string option \<Rightarrow> fed_error + string option" where
  "fed_optional label v = (case v of
     None \<Rightarrow> Inr None
   | Some s \<Rightarrow> if s = [] then Inr None else rbind (fed_identifier label s) (\<lambda>i. Inr (Some i)))"

text \<open>\<open>float(v)\<close> of a JSON value.\<close>

definition fed_float :: "json \<Rightarrow> fed_error + flt" where
  "fed_float v = (case v of
     JInt i \<Rightarrow> (case float_of_int i of None \<Rightarrow> Inl FedMalformed | Some f \<Rightarrow> Inr f)
   | JBool b \<Rightarrow> Inr (Fin (if b then 1 else 0))
   | JFloat f \<Rightarrow> Inr f
   | _ \<Rightarrow> Inl FedMalformed)"

definition fed_score :: "string \<Rightarrow> json \<Rightarrow> fed_error + flt" where
  "fed_score label v = (case v of
     JBool _ \<Rightarrow> Inl (FedError (label @ '' must be numeric''))
   | JInt _ \<Rightarrow> rbind (fed_float v) (\<lambda>x.
       require (flt_finite x \<and> flt_le (Fin 0) x \<and> flt_le x (Fin 1)) (FedError (label @ '' must be between 0 and 1'')) (Inr x))
   | JFloat x \<Rightarrow>
       require (flt_finite x \<and> flt_le (Fin 0) x \<and> flt_le x (Fin 1)) (FedError (label @ '' must be between 0 and 1'')) (Inr x)
   | _ \<Rightarrow> Inl (FedError (label @ '' must be numeric'')))"

definition fed_json :: "string \<Rightarrow> obj \<Rightarrow> fed_error + obj" where
  "fed_json label v = require (obj_finite v) (FedError (label @ '' must contain finite JSON values'')) (Inr v)"

section \<open>The tree of scopes\<close>

definition is_scope :: "string \<Rightarrow> string \<Rightarrow> scope_row \<Rightarrow> bool" where
  "is_scope t s r \<longleftrightarrow> fs_tenant r = t \<and> fs_id r = s"

definition find_scope :: "fdb \<Rightarrow> string \<Rightarrow> string \<Rightarrow> scope_row option" where
  "find_scope f t s = List.find (is_scope t s) (scopes f)"

definition scope_fields :: "scope_row \<Rightarrow> (string \<times> json) list" where
  "scope_fields r =
     [(''tenant_id'', JStr (fs_tenant r)), (''scope_id'', JStr (fs_id r)), (''parent_scope_id'', opt_str (fs_parent r)),
      (''scope_type'', JStr (fs_type r)), (''world_id'', opt_str (fs_world r)), (''name'', JStr (fs_name r)),
      (''authority_domain'', JStr (fs_domain r)), (''decision_latency_class'', JStr (fs_latency r)),
      (''data_policy'', JObj (fs_policy r)), (''created_at'', JStr (fs_created r))]"

definition seal_scope :: "pyenv \<Rightarrow> scope_row \<Rightarrow> scope_row" where
  "seal_scope E r = r\<lparr>fs_sha := sha256_json E (mk_obj (scope_fields r))\<rparr>"

text \<open>The parent exists and is above; a root is the only one of its tenant.\<close>

definition check_parent :: "fdb \<Rightarrow> string \<Rightarrow> string \<Rightarrow> string option \<Rightarrow> fed_error + unit" where
  "check_parent f t scope_type parent = (case parent of
     Some p \<Rightarrow> (case find_scope f t p of
         None \<Rightarrow> Inl (FedError ''parent scope does not exist for tenant'')
       | Some r \<Rightarrow> require (the (map_of scope_rank (fs_type r)) < the (map_of scope_rank scope_type))
           (FedError ''child scope must be below its parent in the hierarchy'') (Inr ()))
   | None \<Rightarrow> require (\<not> list_ex (\<lambda>r. fs_tenant r = t \<and> fs_parent r = None) (scopes f))
       (FedError ''tenant already has a root scope'') (Inr ()))"

text \<open>The insertion, with the keys of the table: the identity, and one scope for a world.\<close>

definition insert_scope :: "scope_row \<Rightarrow> fdb \<Rightarrow> fed_error + fdb" where
  "insert_scope r f =
     require (\<not> list_ex (\<lambda>x. fs_tenant x = fs_tenant r \<and>
         (fs_id x = fs_id r \<or> fs_world x \<noteq> None \<and> fs_world x = fs_world r)) (scopes f))
       (FedError ''scope identity or world binding already exists'') (Inr (f\<lparr>scopes := scopes f @ [r]\<rparr>))"

definition register_scope :: "pyenv \<Rightarrow> string \<Rightarrow> string \<Rightarrow> string \<Rightarrow> string \<Rightarrow> string \<Rightarrow> string option \<Rightarrow> string option
    \<Rightarrow> string \<Rightarrow> string \<Rightarrow> obj option \<Rightarrow> string option \<Rightarrow> fdb \<Rightarrow> fed_error + (fdb \<times> scope_row)" where
  "register_scope E now tenant_id scope_id scope_type name parent_scope_id world_id authority_domain
     decision_latency_class data_policy created_at f =
     rbind (fed_identifier ''tenant_id'' tenant_id) (\<lambda>t.
     rbind (fed_identifier ''scope_id'' scope_id) (\<lambda>i.
     let scope_type = py_upper scope_type; latency = py_upper decision_latency_class in
     require (map_of scope_rank scope_type \<noteq> None) (FedError (''unsupported scope_type: '' @ scope_type)) (
     require (latency \<in> set latency_classes) (FedError (''unsupported decision_latency_class: '' @ latency)) (
     rbind (fed_optional ''parent_scope_id'' parent_scope_id) (\<lambda>parent.
     rbind (fed_optional ''world_id'' world_id) (\<lambda>world.
     let policy = (case data_policy of None \<Rightarrow> [] | Some p \<Rightarrow> p) in
     require (dict_get policy ''share_raw_records'' \<noteq> Some (JBool True))
       (FedError ''federation scopes cannot authorize raw-record sharing'') (
     rbind (fed_json ''data_policy'' (set_default ''projection_mode'' (JStr ''AGGREGATES_ONLY'')
         (set_default ''share_raw_records'' (JBool False) policy))) (\<lambda>policy.
     require (scope_type = ''GLOBAL'' \<longrightarrow> parent = None) (FedError ''GLOBAL scope cannot have a parent'') (
     require (scope_type \<noteq> ''GLOBAL'' \<longrightarrow> parent \<noteq> None) (FedError ''non-GLOBAL scope requires a parent'') (
     rbind (check_parent f t scope_type parent) (\<lambda>_.
     rbind (fed_identifier ''name'' name) (\<lambda>name.
     rbind (fed_identifier ''authority_domain'' authority_domain) (\<lambda>domain.
     let r = seal_scope E \<lparr>fs_tenant = t, fs_id = i, fs_parent = parent, fs_type = scope_type, fs_world = world,
           fs_name = name, fs_domain = domain, fs_latency = latency, fs_policy = policy,
           fs_created = or_now created_at now, fs_sha = []\<rparr> in
     rbind (insert_scope r f) (\<lambda>f. Inr (f, r)))))))))))))))"

definition get_scope :: "string \<Rightarrow> string \<Rightarrow> fdb \<Rightarrow> fed_error + scope_row" where
  "get_scope t s f = (case find_scope f t s of None \<Rightarrow> Inl (FedError ''scope not found'') | Some r \<Rightarrow> Inr r)"

definition list_scopes :: "string \<Rightarrow> fdb \<Rightarrow> scope_row list" where
  "list_scopes t f = sort_key (\<lambda>r. (fs_type r, fs_id r)) (filter (\<lambda>r. fs_tenant r = t) (scopes f))"

text \<open>
  The loop over the ancestors, bounded by one more round than there are scopes: a loop that has
  not ended by then has met a scope twice and never ends.
\<close>

fun ancestor_loop :: "nat \<Rightarrow> fdb \<Rightarrow> string \<Rightarrow> string option \<Rightarrow> string list \<Rightarrow> fed_error + string list" where
  "ancestor_loop n f t None result = Inr result"
| "ancestor_loop 0 f t (Some c) result = Inl FedLoop"
| "ancestor_loop (Suc n) f t (Some c) result =
     rbind (get_scope t c f) (\<lambda>s. ancestor_loop n f t (fs_parent s) (result @ [c]))"

definition ancestor_ids :: "string \<Rightarrow> string \<Rightarrow> fdb \<Rightarrow> fed_error + string list" where
  "ancestor_ids t s f = ancestor_loop (Suc (length (scopes f))) f t (Some s) []"

text \<open>The first scope on the path of the first one that is on every path.\<close>

definition least_common_ancestor :: "string \<Rightarrow> string list \<Rightarrow> fdb \<Rightarrow> fed_error + string" where
  "least_common_ancestor t scope_ids f =
     rbind (traverse (fed_identifier ''scope_id'') scope_ids) (\<lambda>normalized.
     require (normalized \<noteq> []) (FedError ''at least one scope is required'') (
     rbind (traverse (\<lambda>s. ancestor_ids t s f) normalized) (\<lambda>paths.
     let common = filter (\<lambda>a. list_all (\<lambda>p. a \<in> set p) (tl paths)) (hd paths) in
     require (common \<noteq> []) (FedError ''scopes do not share a tenant root'') (Inr (hd common)))))"

section \<open>Summaries of worlds\<close>

definition fed_items :: "json \<Rightarrow> fed_error + obj" where
  "fed_items v = (case v of JObj m \<Rightarrow> Inr m | _ \<Rightarrow> Inl FedMalformed)"

definition fed_len :: "json \<Rightarrow> fed_error + nat" where
  "fed_len v = (case v of JStr s \<Rightarrow> Inr (length s) | JArr xs \<Rightarrow> Inr (length xs) | JObj m \<Rightarrow> Inr (length m)
     | _ \<Rightarrow> Inl FedMalformed)"

definition add_count :: "string \<Rightarrow> int \<Rightarrow> (string, int) dict \<Rightarrow> (string, int) dict" where
  "add_count k n d = dict_put k ((case dict_get d k of None \<Rightarrow> 0 | Some m \<Rightarrow> m) + n) d"

definition enc_counts :: "(string, int) dict \<Rightarrow> json" where
  "enc_counts d = JObj (map (\<lambda>p. (fst p, JInt (snd p))) d)"

definition counts_by :: "pyenv \<Rightarrow> string \<Rightarrow> json \<Rightarrow> fed_error + json" where
  "counts_by E field records =
     rbind (fed_items records) (\<lambda>ms.
     rbind (traverse (\<lambda>p. rbind (fed_items (snd p)) (\<lambda>m. Inr (py_str E (get_default m field (JStr ''UNKNOWN''))))) ms) (\<lambda>keys.
       Inr (enc_counts (fold (\<lambda>k. add_count k 1) keys []))))"

definition summarize_resource :: "pyenv \<Rightarrow> string \<times> json \<Rightarrow> fed_error + (string \<times> json)" where
  "summarize_resource E p =
     rbind (fed_items (snd p)) (\<lambda>resource.
     rbind (fed_float (get_default resource ''capacity'' (JInt 0))) (\<lambda>capacity.
     rbind (fed_float (get_default resource ''allocated'' (JInt 0))) (\<lambda>allocated.
       Inr (fst p, mk_obj
         [(''unit'', JStr (py_str E (get_default resource ''unit'' (JStr ''unit'')))), (''capacity'', JFloat capacity),
          (''allocated'', JFloat allocated), (''available'', JFloat (fmax0 (fsub capacity allocated))),
          (''utilization'', JFloat (if flt_less (Fin 0) capacity then fdiv allocated capacity else Fin 0))]))))"

definition outcome_success :: "string \<times> json \<Rightarrow> fed_error + bool" where
  "outcome_success p = rbind (fed_items (snd p)) (\<lambda>m. Inr (truthy (get_default m ''success'' JNull)))"

definition summarize_operations :: "pyenv \<Rightarrow> string \<Rightarrow> snapshot \<Rightarrow> string \<Rightarrow> fed_error + obj" where
  "summarize_operations E scope_id snapshot stamp =
     (let operations = (case get_default (sn_state snapshot) ''operations'' (JObj []) of JObj m \<Rightarrow> m | _ \<Rightarrow> []) in
     rbind (fed_items (get_default operations ''resource_pools'' (JObj []))) (\<lambda>pools.
     rbind (traverse (summarize_resource E) pools) (\<lambda>resources.
     rbind (fed_len (get_default operations ''observations'' (JArr []))) (\<lambda>observations.
     rbind (counts_by E ''status'' (get_default operations ''goals'' (JObj []))) (\<lambda>goals.
     rbind (counts_by E ''status'' (get_default operations ''plans'' (JObj []))) (\<lambda>plans.
     rbind (counts_by E ''status'' (get_default operations ''agents'' (JObj []))) (\<lambda>agents.
     rbind (counts_by E ''type'' (get_default operations ''alerts'' (JObj []))) (\<lambda>alerts.
     rbind (fed_items (get_default operations ''outcomes'' (JObj []))) (\<lambda>outcomes.
     rbind (traverse outcome_success outcomes) (\<lambda>results.
       Inr (dict_of
         [(''schema_version'', JStr ''edon-federation-projection.v1''), (''scope_id'', JStr scope_id),
          (''projection_kind'', JStr ''WORLD_SUMMARY''), (''source_world_id'', JStr (sn_world snapshot)),
          (''source_world_version'', JInt (sn_version snapshot)), (''source_state_sha256'', JStr (sn_sha snapshot)),
          (''observed_at'', JStr stamp),
          (''counts'', mk_obj
            [(''observations'', JInt (int observations)), (''goals'', goals), (''plans'', plans), (''agents'', agents),
             (''alerts'', alerts),
             (''outcomes'', mk_obj [(''succeeded'', JInt (int (length (filter (\<lambda>b. b) results)))),
                (''failed'', JInt (int (length (filter (\<lambda>b. \<not> b) results))))])]),
          (''resources'', JObj resources), (''contains_raw_records'', JBool False),
          (''binding_authority'', JBool False)])))))))))))"

section \<open>Projections\<close>

definition insert_projection :: "pyenv \<Rightarrow> string \<Rightarrow> string \<Rightarrow> string \<Rightarrow> string \<Rightarrow> string \<Rightarrow> obj \<Rightarrow> string option
    \<Rightarrow> int option \<Rightarrow> string option \<Rightarrow> string \<Rightarrow> fdb \<Rightarrow> fed_error + (fdb \<times> projection_row)" where
  "insert_projection E t i kind source target summary world version state stamp f =
     rbind (fed_json ''summary'' summary) (\<lambda>summary.
     let r = \<lparr>fp_tenant = t, fp_id = i, fp_kind = kind, fp_source = source, fp_target = target, fp_world = world,
           fp_version = version, fp_state = state, fp_summary = summary, fp_sha = sha256_json E (JObj summary),
           fp_created = stamp\<rparr> in
     require (\<not> list_ex (\<lambda>x. fp_tenant x = t \<and> fp_id x = i) (projections f))
       (FedError ''projection identity already exists'') (Inr (f\<lparr>projections := projections f @ [r]\<rparr>, r)))"

text \<open>\<open>a or b\<close> for optional texts.\<close>

definition or_text :: "string option \<Rightarrow> string option \<Rightarrow> string option" where
  "or_text a b = (case a of None \<Rightarrow> b | Some s \<Rightarrow> if s = [] then b else a)"

definition project_world :: "pyenv \<Rightarrow> string \<Rightarrow> string \<Rightarrow> string \<Rightarrow> string \<Rightarrow> string option \<Rightarrow> string option \<Rightarrow> wdb \<Rightarrow> fdb
    \<Rightarrow> fed_error + (fdb \<times> projection_row)" where
  "project_world E now t scope_id projection_id target_scope_id created_at w f =
     rbind (get_scope t scope_id f) (\<lambda>scope.
     (case or_text (fs_world scope) None of
        None \<Rightarrow> Inl (FedError ''scope has no bound institutional world'')
      | Some world \<Rightarrow>
          (let target = (case or_text target_scope_id (or_text (fs_parent scope) None) of None \<Rightarrow> scope_id | Some s \<Rightarrow> s) in
           rbind (ancestor_ids t scope_id f) (\<lambda>ancestors.
           require (target \<in> set ancestors)
             (FedError ''projection target must be the source scope or an ancestor'') (
           rbind (case get_world t world w of Inl e \<Rightarrow> Inl (FedWorld e) | Inr sn \<Rightarrow> Inr sn) (\<lambda>snapshot.
           let stamp = or_now created_at now in
           rbind (summarize_operations E scope_id snapshot stamp) (\<lambda>summary.
           rbind (fed_identifier ''projection_id'' projection_id) (\<lambda>i.
             insert_projection E t i ''WORLD_SUMMARY'' scope_id target summary (Some (sn_world snapshot))
               (Some (sn_version snapshot)) (Some (sn_sha snapshot)) stamp f))))))))"

text \<open>The latest projection of a source that was published to the target.\<close>

definition latest_projection :: "string \<Rightarrow> string \<Rightarrow> fdb \<Rightarrow> string \<Rightarrow> fed_error + projection_row" where
  "latest_projection t target f source =
     (case sort_key (\<lambda>r. (fp_created r, fp_id r))
         (filter (\<lambda>r. fp_tenant r = t \<and> fp_target r = target \<and> fp_source r = source) (projections f)) of
        [] \<Rightarrow> Inl (FedError (''no projection available for source scope '' @ source))
      | r # rs \<Rightarrow> Inr (last (r # rs)))"

text \<open>What the aggregation has added up so far.\<close>

record agg_resource =
  ar_unit :: json
  ar_capacity :: flt
  ar_allocated :: flt

record aggregate =
  ag_observations :: int
  ag_counts :: "(string, (string, int) dict) dict"
  ag_resources :: "(string, agg_resource) dict"

definition count_categories :: "string list" where
  "count_categories = [''goals'', ''plans'', ''agents'', ''alerts'', ''outcomes'']"

definition empty_aggregate :: aggregate where
  "empty_aggregate = \<lparr>ag_observations = 0,
     ag_counts = dict_of [(''goals'', []), (''plans'', []), (''agents'', []), (''alerts'', []),
       (''outcomes'', dict_of [(''succeeded'', 0), (''failed'', 0)])],
     ag_resources = []\<rparr>"

definition fed_int :: "json \<Rightarrow> fed_error + int" where
  "fed_int v = (case v of JInt i \<Rightarrow> Inr i | _ \<Rightarrow> Inl FedMalformed)"

definition fed_key :: "obj \<Rightarrow> string \<Rightarrow> fed_error + json" where
  "fed_key m k = (case dict_get m k of None \<Rightarrow> Inl FedMalformed | Some v \<Rightarrow> Inr v)"

definition add_category :: "obj \<Rightarrow> string \<Rightarrow> aggregate \<Rightarrow> fed_error + aggregate" where
  "add_category counts category a =
     rbind (fed_items (get_default counts category (JObj []))) (\<lambda>items.
     rbind (rfold (\<lambda>p d. rbind (fed_int (snd p)) (\<lambda>n. Inr (add_count (fst p) n d))) items
         (case dict_get (ag_counts a) category of None \<Rightarrow> [] | Some d \<Rightarrow> d)) (\<lambda>d.
       Inr (a\<lparr>ag_counts := dict_put category d (ag_counts a)\<rparr>)))"

definition add_resource :: "string \<times> json \<Rightarrow> aggregate \<Rightarrow> fed_error + aggregate" where
  "add_resource p a =
     rbind (fed_items (snd p)) (\<lambda>resource.
     rbind (fed_key resource ''unit'') (\<lambda>u.
     let current = (case dict_get (ag_resources a) (fst p) of
           None \<Rightarrow> \<lparr>ar_unit = u, ar_capacity = Fin 0, ar_allocated = Fin 0\<rparr> | Some r \<Rightarrow> r) in
     require (jeq (ar_unit current) u) (FedError ''resource units conflict across projections'') (
     rbind (rbind (fed_key resource ''capacity'') fed_float) (\<lambda>capacity.
     rbind (rbind (fed_key resource ''allocated'') fed_float) (\<lambda>allocated.
       Inr (a\<lparr>ag_resources := dict_put (fst p) (current\<lparr>ar_capacity := fadd (ar_capacity current) capacity,
         ar_allocated := fadd (ar_allocated current) allocated\<rparr>) (ag_resources a)\<rparr>))))))"

definition add_summary :: "projection_row \<Rightarrow> aggregate \<Rightarrow> fed_error + aggregate" where
  "add_summary r a =
     rbind (rbind (fed_key (fp_summary r) ''counts'') fed_items) (\<lambda>counts.
     rbind (fed_int (get_default counts ''observations'' (JInt 0))) (\<lambda>n.
     rbind (rfold (add_category counts) count_categories (a\<lparr>ag_observations := ag_observations a + n\<rparr>)) (\<lambda>a.
     rbind (fed_items (get_default (fp_summary r) ''resources'' (JObj []))) (\<lambda>items.
       rfold add_resource items a))))"

definition enc_agg_resource :: "agg_resource \<Rightarrow> json" where
  "enc_agg_resource r = mk_obj
     [(''unit'', ar_unit r), (''capacity'', JFloat (ar_capacity r)), (''allocated'', JFloat (ar_allocated r)),
      (''available'', JFloat (fmax0 (fsub (ar_capacity r) (ar_allocated r)))),
      (''utilization'', JFloat (if truthy (JFloat (ar_capacity r)) then fdiv (ar_allocated r) (ar_capacity r) else Fin 0))]"

definition aggregate_summary :: "string \<Rightarrow> string list \<Rightarrow> projection_row list \<Rightarrow> aggregate \<Rightarrow> string \<Rightarrow> obj" where
  "aggregate_summary target sources rows a stamp = dict_of
     [(''schema_version'', JStr ''edon-federation-projection.v1''), (''scope_id'', JStr target),
      (''projection_kind'', JStr ''AGGREGATE_SUMMARY''), (''source_scope_ids'', jstrs sources),
      (''source_projection_hashes'', jstrs (map fp_sha rows)), (''observed_at'', JStr stamp),
      (''counts'', JObj (dict_put ''observations'' (JInt (ag_observations a))
         (map (\<lambda>p. (fst p, enc_counts (snd p))) (ag_counts a)))),
      (''resources'', JObj (map (\<lambda>p. (fst p, enc_agg_resource (snd p))) (ag_resources a))),
      (''contains_raw_records'', JBool False), (''binding_authority'', JBool False)]"

definition aggregate_scope :: "pyenv \<Rightarrow> string \<Rightarrow> string \<Rightarrow> string \<Rightarrow> string \<Rightarrow> string list \<Rightarrow> string option \<Rightarrow> string option
    \<Rightarrow> fdb \<Rightarrow> fed_error + (fdb \<times> projection_row)" where
  "aggregate_scope E now t target_scope_id projection_id source_scope_ids publish_to_scope_id created_at f =
     rbind (get_scope t target_scope_id f) (\<lambda>_.
     let publish = (case or_text publish_to_scope_id None of None \<Rightarrow> target_scope_id | Some s \<Rightarrow> s) in
     rbind (ancestor_ids t target_scope_id f) (\<lambda>ancestors.
     require (publish \<in> set ancestors) (FedError ''aggregate publication target must be its scope or an ancestor'') (
     rbind (traverse (fed_identifier ''source_scope_id'') source_scope_ids) (\<lambda>sources.
     let sources = sorted_set sources in
     require (sources \<noteq> []) (FedError ''aggregate projection requires source scopes'') (
     rbind (traverse (\<lambda>s. rbind (ancestor_ids t s f) (\<lambda>as. require (target_scope_id \<in> set as)
         (FedError ''aggregate source must descend from target scope'') (Inr ()))) sources) (\<lambda>_.
     rbind (traverse (latest_projection t target_scope_id f) sources) (\<lambda>rows.
     rbind (rfold add_summary rows empty_aggregate) (\<lambda>a.
     let stamp = or_now created_at now in
     rbind (fed_identifier ''projection_id'' projection_id) (\<lambda>i.
       insert_projection E t i ''AGGREGATE_SUMMARY'' target_scope_id publish
         (aggregate_summary target_scope_id sources rows a stamp) None None None stamp f)))))))))"

section \<open>Escalations\<close>

definition is_escalation :: "string \<Rightarrow> string \<Rightarrow> escalation_row \<Rightarrow> bool" where
  "is_escalation t i r \<longleftrightarrow> fe_tenant r = t \<and> fe_id r = i"

definition record_escalation_event :: "pyenv \<Rightarrow> string \<Rightarrow> string \<Rightarrow> string \<Rightarrow> string \<Rightarrow> string \<Rightarrow> string
    \<Rightarrow> string option \<Rightarrow> fdb \<Rightarrow> fed_error + (fdb \<times> escalation_event)" where
  "record_escalation_event E now tenant_id escalation_id event_type actor_id note created_at f =
     (let event_type = py_upper event_type in
      require (event_type \<in> {''OPENED'', ''ACKNOWLEDGED'', ''RESOLVED'', ''REJECTED''})
        (FedError ''unsupported escalation event type'') (
      rbind (fed_identifier ''tenant_id'' tenant_id) (\<lambda>t.
      rbind (fed_identifier ''escalation_id'' escalation_id) (\<lambda>i.
      rbind (fed_identifier ''actor_id'' actor_id) (\<lambda>a.
      let stamp = or_now created_at now; note = py_strip note in
      require (note \<noteq> []) (FedError ''escalation event note is required'') (
      require (list_ex (is_escalation t i) (escalations f)) (FedError ''escalation not found'') (
      let e = \<lparr>fv_tenant = t, fv_escalation = i, fv_type = event_type, fv_actor = a, fv_note = note, fv_created = stamp,
            fv_sha = sha256_json E (mk_obj
              [(''tenant_id'', JStr t), (''escalation_id'', JStr i), (''event_type'', JStr event_type),
               (''actor_id'', JStr a), (''note'', JStr note), (''created_at'', JStr stamp)])\<rparr> in
      Inr (f\<lparr>escalation_log := escalation_log f @ [e]\<rparr>, e))))))))"

definition escalation_fields :: "escalation_row \<Rightarrow> (string \<times> json) list" where
  "escalation_fields r =
     [(''tenant_id'', JStr (fe_tenant r)), (''escalation_id'', JStr (fe_id r)), (''decision_id'', JStr (fe_decision r)),
      (''source_scope_id'', JStr (fe_source r)), (''target_scope_id'', JStr (fe_target r)),
      (''severity'', JStr (fe_severity r)), (''reason'', JStr (fe_reason r)), (''evidence_sha256'', jstrs (fe_evidence r)),
      (''opened_at'', JStr (fe_opened r)), (''binding_authority'', JBool False)]"

text \<open>The row as it is inserted; the event that opens it is recorded after it, in a transaction of its own.\<close>

definition escalation_of :: "pyenv \<Rightarrow> string \<Rightarrow> string \<Rightarrow> string \<Rightarrow> string \<Rightarrow> string \<Rightarrow> string \<Rightarrow> string \<Rightarrow> string
    \<Rightarrow> string list \<Rightarrow> string option \<Rightarrow> fed_error + escalation_row" where
  "escalation_of E now tenant_id escalation_id decision_id source_scope_id target_scope_id severity reason
     evidence_sha256 opened_at =
     (let severity = py_upper severity in
      require (severity \<in> set severities) (FedError (''unsupported escalation severity: '' @ severity)) (
      rbind (traverse (fed_identifier ''evidence_sha256'') evidence_sha256) (\<lambda>evidence.
      rbind (fed_identifier ''tenant_id'' tenant_id) (\<lambda>t.
      rbind (fed_identifier ''escalation_id'' escalation_id) (\<lambda>i.
      rbind (fed_identifier ''decision_id'' decision_id) (\<lambda>d.
      rbind (fed_identifier ''source_scope_id'' source_scope_id) (\<lambda>source.
      rbind (fed_identifier ''target_scope_id'' target_scope_id) (\<lambda>target.
      require (py_strip reason \<noteq> []) (FedError ''escalation reason is required'') (
      let r = \<lparr>fe_tenant = t, fe_id = i, fe_decision = d, fe_source = source, fe_target = target, fe_severity = severity,
            fe_reason = py_strip reason, fe_evidence = sorted_set evidence, fe_opened = or_now opened_at now, fe_sha = []\<rparr> in
      Inr (r\<lparr>fe_sha := sha256_json E (mk_obj (escalation_fields r))\<rparr>))))))))))"

definition insert_escalation :: "escalation_row \<Rightarrow> fdb \<Rightarrow> fed_error + fdb" where
  "insert_escalation r f =
     require (\<not> list_ex (is_escalation (fe_tenant r) (fe_id r)) (escalations f))
       (FedError ''escalation identity already exists'') (Inr (f\<lparr>escalations := escalations f @ [r]\<rparr>))"

definition open_escalation :: "pyenv \<Rightarrow> string \<Rightarrow> string \<Rightarrow> string \<Rightarrow> string \<Rightarrow> string \<Rightarrow> string \<Rightarrow> string \<Rightarrow> string
    \<Rightarrow> string list \<Rightarrow> string option \<Rightarrow> fdb \<Rightarrow> fdb \<times> (fed_error + escalation_row)" where
  "open_escalation E now tenant_id escalation_id decision_id source_scope_id target_scope_id severity reason
     evidence_sha256 opened_at f =
     (case rbind (escalation_of E now tenant_id escalation_id decision_id source_scope_id target_scope_id severity reason
             evidence_sha256 opened_at) (\<lambda>r. rbind (insert_escalation r f) (\<lambda>f. Inr (f, r))) of
        Inl e \<Rightarrow> (f, Inl e)
      | Inr (f1, r) \<Rightarrow>
          (case record_escalation_event E now (fe_tenant r) (fe_id r) ''OPENED'' ''federation-router'' (fe_reason r)
                  (Some (fe_opened r)) f1 of
             Inl e \<Rightarrow> (f1, Inl e)
           | Inr (f2, _) \<Rightarrow> (f2, Inr r)))"

record escalation_view =
  ev_row :: escalation_row
  ev_events :: "escalation_event list"
  ev_status :: string

definition view_escalation :: "fdb \<Rightarrow> escalation_row \<Rightarrow> escalation_view" where
  "view_escalation f r =
     (let es = filter (\<lambda>e. fv_tenant e = fe_tenant r \<and> fv_escalation e = fe_id r) (escalation_log f) in
      \<lparr>ev_row = r, ev_events = es, ev_status = (if es = [] then ''OPENED'' else fv_type (last es))\<rparr>)"

definition list_escalations :: "string \<Rightarrow> string option \<Rightarrow> fdb \<Rightarrow> escalation_view list" where
  "list_escalations t target f =
     map (view_escalation f) (sort_key (\<lambda>r. (fe_opened r, fe_id r))
       (filter (\<lambda>r. fe_tenant r = t \<and> (case or_text target None of None \<Rightarrow> True | Some s \<Rightarrow> fe_target r = s))
         (escalations f)))"

section \<open>Routing of decisions\<close>

definition route_fields :: "route_row \<Rightarrow> (string \<times> json) list" where
  "route_fields r =
     [(''tenant_id'', JStr (fr_tenant r)), (''decision_id'', JStr (fr_decision r)), (''source_scope_id'', JStr (fr_source r)),
      (''target_scope_id'', JStr (fr_target r)), (''consequence_scope_ids'', jstrs (fr_consequences r)),
      (''impact_score'', JFloat (fr_impact r)), (''uncertainty'', JFloat (fr_uncertainty r)),
      (''required_authority_scope_id'', opt_str (fr_authority r)), (''disposition'', JStr (fr_disposition r)),
      (''reason_codes'', jstrs (fr_reasons r)), (''context_sha256'', JStr (fr_context r)),
      (''created_at'', JStr (fr_created r)), (''binding_authority'', JBool False)]"

definition route_reasons :: "string \<Rightarrow> string \<Rightarrow> flt \<Rightarrow> flt \<Rightarrow> flt \<Rightarrow> flt \<Rightarrow> string option \<Rightarrow> string list" where
  "route_reasons source target it impact ut unc authority =
     (if target \<noteq> source then [''CROSS_SCOPE_CONSEQUENCE''] else []) @
     (if flt_le it impact then [''IMPACT_THRESHOLD_EXCEEDED''] else []) @
     (if flt_le ut unc then [''UNCERTAINTY_THRESHOLD_EXCEEDED''] else []) @
     (case authority of None \<Rightarrow> [] | Some a \<Rightarrow> if a \<noteq> source then [''HIGHER_AUTHORITY_REQUIRED''] else [])"

text \<open>The scope that must decide, and the reasons why it is not the source alone.\<close>

definition route_target :: "string \<Rightarrow> string \<Rightarrow> string list \<Rightarrow> string option \<Rightarrow> json \<Rightarrow> json \<Rightarrow> json \<Rightarrow> json \<Rightarrow> fdb
    \<Rightarrow> fed_error + (string \<times> string list \<times> flt \<times> flt \<times> string option)" where
  "route_target t source consequences required_authority impact_score uncertainty impact_threshold uncertainty_threshold f =
     rbind (least_common_ancestor t (source # consequences) f) (\<lambda>target.
     rbind (fed_score ''impact_score'' impact_score) (\<lambda>impact.
     rbind (fed_score ''uncertainty'' uncertainty) (\<lambda>unc.
     rbind (fed_score ''local_impact_threshold'' impact_threshold) (\<lambda>it.
     rbind (fed_score ''local_uncertainty_threshold'' uncertainty_threshold) (\<lambda>ut.
     rbind (fed_optional ''required_authority_scope_id'' required_authority) (\<lambda>authority.
     rbind (case authority of
              None \<Rightarrow> Inr target
            | Some a \<Rightarrow> rbind (get_scope t a f) (\<lambda>_. least_common_ancestor t [target, a] f)) (\<lambda>target'.
     rbind (get_scope t source f) (\<lambda>s.
     let reasons = route_reasons source target it impact ut unc authority;
         target = (if reasons \<noteq> [] \<and> target' = source
           then (case or_text (fs_parent s) None of None \<Rightarrow> target' | Some p \<Rightarrow> p) else target') in
     Inr (target, reasons, impact, unc, authority)))))))))"

definition insert_route :: "route_row \<Rightarrow> fdb \<Rightarrow> fed_error + fdb" where
  "insert_route r f =
     require (\<not> list_ex (\<lambda>x. fr_tenant x = fr_tenant r \<and> fr_decision x = fr_decision r) (routes f))
       (FedError ''decision identity already exists'') (Inr (f\<lparr>routes := routes f @ [r]\<rparr>))"

definition route_of :: "pyenv \<Rightarrow> string \<Rightarrow> string \<Rightarrow> string \<Rightarrow> string \<Rightarrow> string list \<Rightarrow> json \<Rightarrow> json \<Rightarrow> json
    \<Rightarrow> string option \<Rightarrow> json \<Rightarrow> json \<Rightarrow> string option \<Rightarrow> fdb \<Rightarrow> fed_error + route_row" where
  "route_of E now tenant_id decision_id source_scope_id consequence_scope_ids impact_score uncertainty context
     required_authority_scope_id local_impact_threshold local_uncertainty_threshold created_at f =
     rbind (fed_identifier ''tenant_id'' tenant_id) (\<lambda>t.
     rbind (fed_identifier ''decision_id'' decision_id) (\<lambda>d.
     rbind (fed_identifier ''source_scope_id'' source_scope_id) (\<lambda>source.
     rbind (get_scope t source f) (\<lambda>_.
     rbind (traverse (fed_identifier ''consequence_scope_id'') consequence_scope_ids) (\<lambda>consequences.
     let consequences = sorted_set consequences in
     rbind (route_target t source consequences required_authority_scope_id impact_score uncertainty
         local_impact_threshold local_uncertainty_threshold f) (\<lambda>(target, reasons, impact, unc, authority).
     let disposition = (if target = source \<and> reasons = [] then ''HANDLE_LOCAL''
           else if target = source then ''HANDLE_AT_ROOT'' else ''ESCALATE'');
         r = \<lparr>fr_tenant = t, fr_decision = d, fr_source = source, fr_target = target, fr_consequences = consequences,
           fr_impact = impact, fr_uncertainty = unc, fr_authority = authority, fr_disposition = disposition,
           fr_reasons = (if reasons = [] then [''WITHIN_LOCAL_BOUNDARY''] else sorted_set reasons),
           fr_context = sha256_json E context, fr_created = or_now created_at now, fr_sha = []\<rparr> in
     Inr (r\<lparr>fr_sha := sha256_json E (mk_obj (route_fields r))\<rparr>)))))))"

definition route_decision :: "pyenv \<Rightarrow> string \<Rightarrow> string \<Rightarrow> string \<Rightarrow> string \<Rightarrow> string list \<Rightarrow> json \<Rightarrow> json \<Rightarrow> json
    \<Rightarrow> string option \<Rightarrow> json \<Rightarrow> json \<Rightarrow> string option \<Rightarrow> string \<Rightarrow> string \<Rightarrow> string list \<Rightarrow> string option \<Rightarrow> fdb
    \<Rightarrow> fdb \<times> (fed_error + route_row \<times> escalation_row option)" where
  "route_decision E now tenant_id decision_id source_scope_id consequence_scope_ids impact_score uncertainty context
     required_authority_scope_id local_impact_threshold local_uncertainty_threshold escalation_id severity reason
     evidence_sha256 created_at f =
     (case rbind (route_of E now tenant_id decision_id source_scope_id consequence_scope_ids impact_score uncertainty
             context required_authority_scope_id local_impact_threshold local_uncertainty_threshold created_at f)
           (\<lambda>r. rbind (insert_route r f) (\<lambda>f. Inr (f, r))) of
        Inl e \<Rightarrow> (f, Inl e)
      | Inr (f1, r) \<Rightarrow>
          if fr_disposition r = ''ESCALATE'' then
            (case open_escalation E now (fr_tenant r)
                    (case or_text escalation_id None of None \<Rightarrow> ''escalation-'' @ fr_decision r | Some s \<Rightarrow> s)
                    (fr_decision r) (fr_source r) (fr_target r) severity reason evidence_sha256 (Some (fr_created r)) f1 of
               (f2, Inl e) \<Rightarrow> (f2, Inl e)
             | (f2, Inr x) \<Rightarrow> (f2, Inr (r, Some x)))
          else (f1, Inr (r, None)))"

definition fed_counts :: "fdb \<Rightarrow> nat \<times> nat \<times> nat \<times> nat" where
  "fed_counts f = (length (scopes f), length (projections f), length (routes f), length (escalations f))"

section \<open>Runs\<close>

inductive fed_run :: "pyenv \<Rightarrow> fdb \<Rightarrow> bool" for E where
  fed_init: "fed_run E init_fdb"
| fed_scope: "fed_run E f \<Longrightarrow> register_scope E now t s ty n p w d l dp stamp f = Inr (f', r) \<Longrightarrow> fed_run E f'"
| fed_project: "fed_run E f \<Longrightarrow> project_world E now t s i tgt stamp w f = Inr (f', p) \<Longrightarrow> fed_run E f'"
| fed_aggregate: "fed_run E f \<Longrightarrow> aggregate_scope E now t tgt i srcs pub stamp f = Inr (f', p) \<Longrightarrow> fed_run E f'"
| fed_route: "fed_run E f \<Longrightarrow> route_decision E now t d s cs im un ctx auth lit lut ei sev rs evd stamp f = (f', res) \<Longrightarrow> fed_run E f'"
| fed_open: "fed_run E f \<Longrightarrow> open_escalation E now t ei d s tgt sev rs evd stamp f = (f', er) \<Longrightarrow> fed_run E f'"
| fed_event: "fed_run E f \<Longrightarrow> record_escalation_event E now t ei ty a n stamp f = Inr (f', ev) \<Longrightarrow> fed_run E f'"

end
