(* ===== verification/FederationProps.thy ===== *)
theory FederationProps
  imports Federation
begin

text \<open>
  What the federation store promises: the scopes of a tenant are a tree, so the loops over the
  ancestors end and the least common ancestor of registered scopes exists and is the least;
  summaries are published upwards only, and decisions are routed upwards to a scope that covers
  everything they touch.
\<close>

section \<open>The tree\<close>

definition level :: "scope_row \<Rightarrow> nat" where
  "level r = the (map_of scope_rank (fs_type r))"

definition scope_ok :: "fdb \<Rightarrow> scope_row \<Rightarrow> bool" where
  "scope_ok f r \<longleftrightarrow> ident_check 200 () (fs_id r) = Inr (fs_id r) \<and>
     (\<forall>p. fs_parent r = Some p \<longrightarrow> p \<noteq> [] \<and> (\<exists>q. find_scope f (fs_tenant r) p = Some q \<and> level q < level r))"

definition fed_tree :: "fdb \<Rightarrow> bool" where
  "fed_tree f \<longleftrightarrow> (\<forall>r \<in> set (scopes f). scope_ok f r) \<and>
     (\<forall>r \<in> set (scopes f). \<forall>q \<in> set (scopes f). fs_tenant r = fs_tenant q \<longrightarrow> fs_parent r = None \<longrightarrow> fs_parent q = None \<longrightarrow> r = q)"

text \<open>\<open>upward f t s a\<close>: the scope \<open>a\<close> is \<open>s\<close> or one of its ancestors.\<close>

inductive upward :: "fdb \<Rightarrow> string \<Rightarrow> string \<Rightarrow> string \<Rightarrow> bool" for f t where
  up_here: "find_scope f t s = Some r \<Longrightarrow> upward f t s s"
| up_step: "find_scope f t s = Some r \<Longrightarrow> fs_parent r = Some p \<Longrightarrow> upward f t p a \<Longrightarrow> upward f t s a"

inductive_cases upwardE: "upward f t s a"

lemma find_scope_D: "find_scope f t s = Some r \<Longrightarrow> r \<in> set (scopes f) \<and> fs_tenant r = t \<and> fs_id r = s"
  unfolding find_scope_def by (drule find_Some_D) (simp add: is_scope_def)


lemma upward_registered: "upward f t s a \<Longrightarrow> find_scope f t s \<noteq> None \<and> find_scope f t a \<noteq> None"
  by (induction rule: upward.induct) auto

lemma upward_iff:
  "find_scope f t s = Some r \<Longrightarrow> upward f t s a \<longleftrightarrow> a = s \<or> (\<exists>p. fs_parent r = Some p \<and> upward f t p a)"
  by (auto intro: upward.intros elim: upwardE)

lemma fed_tree_parent:
  assumes "fed_tree f" and "find_scope f t s = Some r" and "fs_parent r = Some p"
  shows "\<exists>q. find_scope f t p = Some q \<and> level q < level r \<and> p \<noteq> []"
  using assms find_scope_D [OF assms(2)] by (auto simp: fed_tree_def scope_ok_def)

subsection \<open>The loop over the ancestors\<close>

definition lower :: "fdb \<Rightarrow> nat \<Rightarrow> nat" where
  "lower f k = length (filter (\<lambda>r. level r \<le> k) (scopes f))"

lemma lower_less: "r \<in> set (scopes f) \<Longrightarrow> k < level r \<Longrightarrow> lower f k < lower f (level r)"
proof -
  assume r: "r \<in> set (scopes f)" "k < level r"
  have "length (filter (\<lambda>x. level x \<le> k) xs) \<le> length (filter (\<lambda>x. level x \<le> level r) xs)" for xs
    using r(2) by (induction xs) auto
  moreover have "r \<in> set xs \<Longrightarrow> length (filter (\<lambda>x. level x \<le> k) xs) < length (filter (\<lambda>x. level x \<le> level r) xs)" for xs
  proof (induction xs)
    case (Cons x xs)
    then show ?case using r(2) \<open>\<And>xs. length (filter (\<lambda>x. level x \<le> k) xs) \<le> length (filter (\<lambda>x. level x \<le> level r) xs)\<close> [of xs]
      by auto
  qed simp
  ultimately show ?thesis using r(1) by (simp add: lower_def)
qed

lemma lower_le: "lower f k \<le> length (scopes f)"
  by (simp add: lower_def)

lemma ancestor_loop_path:
  assumes "fed_tree f" and "find_scope f t c = Some r" and "lower f (level r) \<le> n"
  shows "\<exists>path. ancestor_loop n f t (Some c) result = Inr (result @ path) \<and> set path = {a. upward f t c a} \<and>
    sorted_wrt (upward f t) path"
  using assms(2,3)
proof (induction n arbitrary: c r result)
  case 0
  have "r \<in> set (scopes f)" using find_scope_D [OF 0(1)] by simp
  with 0(2) show ?case by (auto simp: lower_def filter_empty_conv)
next
  case (Suc n)
  show ?case
  proof (cases "fs_parent r")
    case None
    then have "{a. upward f t c a} = {c}" using upward_iff [OF Suc.prems(1)] by auto
    with None Suc.prems(1) show ?thesis
      by (intro exI [of _ "[c]"]) (cases n; simp add: get_scope_def)
  next
    case (Some p)
    obtain q where q: "find_scope f t p = Some q" "level q < level r"
      using fed_tree_parent [OF assms(1) Suc.prems(1) Some] by blast
    have "lower f (level q) \<le> n"
      using lower_less [of r f "level q"] find_scope_D [OF Suc.prems(1)] q(2) Suc.prems(2) by simp
    then obtain path where path: "ancestor_loop n f t (Some p) (result @ [c]) = Inr ((result @ [c]) @ path)"
        "set path = {a. upward f t p a}" "sorted_wrt (upward f t) path"
      using Suc.IH [OF q(1)] by blast
    have "{a. upward f t c a} = insert c (set path)"
      using upward_iff [OF Suc.prems(1)] Some path(2) by auto
    with path Suc.prems(1) Some show ?thesis
      by (intro exI [of _ "c # path"]) (auto simp: get_scope_def upward_iff [OF Suc.prems(1)])
  qed
qed

text \<open>The path of a registered scope: itself and its ancestors, each above the one before.\<close>

lemma ancestor_ids_path:
  assumes "fed_tree f" and "find_scope f t s = Some r"
  shows "\<exists>path. ancestor_ids t s f = Inr path \<and> set path = {a. upward f t s a} \<and> sorted_wrt (upward f t) path"
  using ancestor_loop_path [OF assms, of "Suc (length (scopes f))" "[]"] lower_le [of f "level r"]
  by (simp add: ancestor_ids_def)

lemma ancestor_ids_unknown: "find_scope f t s = None \<Longrightarrow> ancestor_ids t s f = Inl (FedError ''scope not found'')"
  by (simp add: ancestor_ids_def get_scope_def)


text \<open>Every scope is under the one root of its tenant.\<close>

lemma root_upward:
  assumes "fed_tree f" and "find_scope f t s = Some r"
  shows "\<exists>a q. upward f t s a \<and> find_scope f t a = Some q \<and> fs_parent q = None"
  using assms(2)
proof (induction "level r" arbitrary: s r rule: less_induct)
  case less
  show ?case
  proof (cases "fs_parent r")
    case None
    then show ?thesis using less.prems by (blast intro: up_here)
  next
    case (Some p)
    then show ?thesis
      using fed_tree_parent [OF assms(1) less.prems Some] less.hyps less.prems by (blast intro: up_step)
  qed
qed

lemma root_common:
  assumes "fed_tree f" and "ss \<noteq> []" and "\<forall>s \<in> set ss. find_scope f t s \<noteq> None"
  shows "\<exists>a. \<forall>s \<in> set ss. upward f t s a"
proof -
  obtain s where "s \<in> set ss" using assms(2) by (cases ss) auto
  then obtain a q where a: "find_scope f t a = Some q" "fs_parent q = None"
    using root_upward [OF assms(1)] assms(3) by fastforce
  have "upward f t u a" if "u \<in> set ss" for u
  proof -
    obtain b q' where b: "upward f t u b" "find_scope f t b = Some q'" "fs_parent q' = None"
      using root_upward [OF assms(1)] assms(3) \<open>u \<in> set ss\<close> by fastforce
    have "q' = q" using assms(1) a b find_scope_D [OF a(1)] find_scope_D [OF b(2)] by (auto simp: fed_tree_def)
    then have "b = a" using find_scope_D [OF a(1)] find_scope_D [OF b(2)] by simp
    with b(1) show ?thesis by simp
  qed
  then show ?thesis by blast
qed

section \<open>The least common ancestor\<close>

definition common_upward :: "fdb \<Rightarrow> string \<Rightarrow> string list \<Rightarrow> string \<Rightarrow> bool" where
  "common_upward f t ss a \<longleftrightarrow> (\<forall>s \<in> set ss. upward f t s a)"

definition least_upward :: "fdb \<Rightarrow> string \<Rightarrow> string list \<Rightarrow> string \<Rightarrow> bool" where
  "least_upward f t ss a \<longleftrightarrow> common_upward f t ss a \<and> (\<forall>b. common_upward f t ss b \<longrightarrow> upward f t a b)"


lemma registered_identifier:
  assumes "fed_tree f" and "find_scope f t (py_strip s) = Some r"
  shows "fed_identifier l s = Inr (py_strip s)"
proof -
  have "ident_check 200 () (py_strip s) = Inr (py_strip s)"
    using assms find_scope_D [OF assms(2)] by (auto simp: fed_tree_def scope_ok_def)
  then show ?thesis
    by (auto simp: fed_identifier_def ident_check_def Let_def require_def split: if_splits)
qed

lemma filtered_first:
  assumes "sorted_wrt R path" and "filter P path = c # cs" and "b \<in> set path" and "P b"
  shows "b = c \<or> R c b"
proof -
  have "sorted_wrt R (c # cs)" using assms(1) by (metis assms(2) sorted_wrt_filter)
  moreover have "b \<in> set (c # cs)" using assms(3,4) by (simp flip: assms(2))
  ultimately show ?thesis by auto
qed

lemma lca_of_paths:
  assumes paths: "list_all2 (\<lambda>s p. set p = {a. upward f t s a} \<and> sorted_wrt (upward f t) p) ss paths"
    and some: "\<exists>a. common_upward f t ss a" and ne: "ss \<noteq> []"
  shows "\<exists>c cs. filter (\<lambda>a. list_all (\<lambda>p. a \<in> set p) (tl paths)) (hd paths) = c # cs \<and> least_upward f t ss c"
proof -
  obtain s ss' p ps where ss: "ss = s # ss'" "paths = p # ps"
    using paths ne by (cases ss; cases paths) auto
  have p: "set p = {a. upward f t s a}" "sorted_wrt (upward f t) p"
    and ps: "list_all2 (\<lambda>s p. set p = {a. upward f t s a} \<and> sorted_wrt (upward f t) p) ss' ps"
    using paths by (simp_all add: ss)
  have "list_all (\<lambda>p. a \<in> set p) ps \<longleftrightarrow> (\<forall>u \<in> set ss'. upward f t u a)" for a
    using ps by (induction rule: list_all2_induct) auto
  then have common: "a \<in> set p \<and> list_all (\<lambda>p. a \<in> set p) ps \<longleftrightarrow> common_upward f t ss a" for a
    by (auto simp: common_upward_def ss p(1))
  obtain c cs where c: "filter (\<lambda>a. list_all (\<lambda>p. a \<in> set p) ps) p = c # cs"
    using some common by (cases "filter (\<lambda>a. list_all (\<lambda>p. a \<in> set p) ps) p") (auto simp: filter_empty_conv)
  have "c \<in> set (filter (\<lambda>a. list_all (\<lambda>p. a \<in> set p) ps) p)" by (simp add: c)
  then have "c \<in> set p \<and> list_all (\<lambda>p. c \<in> set p) ps" by simp
  then have cc: "common_upward f t ss c" using common by blast
  have "upward f t c b" if "common_upward f t ss b" for b
    using filtered_first [OF p(2) c, of b] that common [of b] upward_registered [of f t s c] cc
    by (auto simp: common_upward_def ss intro: up_here)
  with c cc show ?thesis by (auto simp: ss least_upward_def)
qed

lemma traverse_identifiers:
  "(\<exists>m. traverse (fed_identifier l) ids = Inl (FedError m)) \<or> traverse (fed_identifier l) ids = Inr (map py_strip ids)"
proof (induction ids)
  case (Cons i ids)
  have "(\<exists>m. fed_identifier l i = Inl (FedError m)) \<or> fed_identifier l i = Inr (py_strip i)"
    by (auto simp: fed_identifier_def ident_check_def Let_def require_def)
  with Cons show ?case by auto
qed simp

lemma traverse_ancestors:
  assumes "fed_tree f"
  shows "(\<exists>m. traverse (\<lambda>s. ancestor_ids t s f) ss = Inl (FedError m)) \<or>
    (\<exists>paths. traverse (\<lambda>s. ancestor_ids t s f) ss = Inr paths \<and> (\<forall>s \<in> set ss. find_scope f t s \<noteq> None) \<and>
      list_all2 (\<lambda>s p. set p = {a. upward f t s a} \<and> sorted_wrt (upward f t) p) ss paths)"
proof (induction ss)
  case (Cons s ss)
  show ?case
  proof (cases "find_scope f t s")
    case None
    then show ?thesis by (simp add: ancestor_ids_unknown)
  next
    case (Some r)
    then obtain p where "ancestor_ids t s f = Inr p" "set p = {a. upward f t s a}" "sorted_wrt (upward f t) p"
      using ancestor_ids_path [OF assms] by blast
    with Cons Some show ?thesis by auto
  qed
qed simp

lemma lca_exact:
  assumes "fed_tree f"
  shows "if ids \<noteq> [] \<and> (\<forall>i \<in> set ids. find_scope f t (py_strip i) \<noteq> None)
    then \<exists>a. least_common_ancestor t ids f = Inr a \<and> least_upward f t (map py_strip ids) a
    else \<exists>m. least_common_ancestor t ids f = Inl (FedError m)"
proof (cases "ids \<noteq> [] \<and> (\<forall>i \<in> set ids. find_scope f t (py_strip i) \<noteq> None)")
  case True
  let ?ss = "map py_strip ids"
  have norm: "traverse (fed_identifier ''scope_id'') ids = Inr ?ss"
    using True registered_identifier [OF assms] by (intro traverse_all_Inr) blast
  have "traverse (\<lambda>s. ancestor_ids t s f) ?ss \<noteq> Inl e" for e
    using True ancestor_ids_path [OF assms]
    by (induction ids) (fastforce simp: rbind_eq_Inl)+
  then obtain paths where paths: "traverse (\<lambda>s. ancestor_ids t s f) ?ss = Inr paths"
      "list_all2 (\<lambda>s p. set p = {a. upward f t s a} \<and> sorted_wrt (upward f t) p) ?ss paths"
    using traverse_ancestors [OF assms, of t ?ss] by blast
  have "\<exists>a. common_upward f t ?ss a"
    using root_common [OF assms, of ?ss t] True by (auto simp: common_upward_def)
  then obtain c cs where "filter (\<lambda>a. list_all (\<lambda>p. a \<in> set p) (tl paths)) (hd paths) = c # cs" "least_upward f t ?ss c"
    using lca_of_paths [OF paths(2)] True by auto
  with True norm paths(1) show ?thesis by (simp add: least_common_ancestor_def)
next
  case False
  have "\<exists>m. least_common_ancestor t ids f = Inl (FedError m)"
  proof (cases "\<exists>m. traverse (fed_identifier ''scope_id'') ids = Inl (FedError m)")
    case True
    then show ?thesis by (auto simp: least_common_ancestor_def)
  next
    case norm: False
    then have "traverse (fed_identifier ''scope_id'') ids = Inr (map py_strip ids)"
      using traverse_identifiers [of "''scope_id''" ids] by blast
    then show ?thesis
      using traverse_ancestors [OF assms, of t "map py_strip ids"] False
      by (auto simp: least_common_ancestor_def require_def)
  qed
  then show ?thesis by (simp only: if_not_P [OF False])
qed

section \<open>Runs keep the tree\<close>

text \<open>What an operation does to the tables: it adds at the end, and only a registration adds a scope.\<close>

lemma fed_identifier_ok: "fed_identifier l x = Inr y \<Longrightarrow> y \<noteq> [] \<and> ident_check 200 () y = Inr y"
  unfolding fed_identifier_def by (auto dest: ident_check_Inr_D intro: ident_check_idem)

lemma fed_optional_ok: "fed_optional l x = Inr y \<Longrightarrow> y \<noteq> Some []"
  by (auto simp: fed_optional_def result_simps split: option.splits if_splits dest: fed_identifier_ok)

lemma insert_scope_D: "insert_scope r f = Inr f' \<Longrightarrow> f' = f\<lparr>scopes := scopes f @ [r]\<rparr> \<and> find_scope f (fs_tenant r) (fs_id r) = None"
  by (auto simp: insert_scope_def result_simps find_scope_def find_None_iff' is_scope_def list_ex_iff)

lemma seal_scope_fields [simp]:
  "fs_tenant (seal_scope E r) = fs_tenant r" "fs_id (seal_scope E r) = fs_id r" "fs_parent (seal_scope E r) = fs_parent r"
  "fs_type (seal_scope E r) = fs_type r" "fs_world (seal_scope E r) = fs_world r"
  by (simp_all add: seal_scope_def)

lemma register_scope_D:
  assumes "register_scope E now t s ty n p w d l dp stamp f = Inr (f', r)"
  shows "f' = f\<lparr>scopes := scopes f @ [r]\<rparr> \<and> find_scope f (fs_tenant r) (fs_id r) = None \<and>
    ident_check 200 () (fs_id r) = Inr (fs_id r) \<and>
    check_parent f (fs_tenant r) (fs_type r) (fs_parent r) = Inr () \<and> fs_parent r \<noteq> Some []"
proof -
  have "fed_identifier ''scope_id'' s = Inr (fs_id r) \<and> fed_optional ''parent_scope_id'' p = Inr (fs_parent r) \<and>
      check_parent f (fs_tenant r) (fs_type r) (fs_parent r) = Inr () \<and> insert_scope r f = Inr f'"
    using assms unfolding register_scope_def Let_def by (auto simp: rbind_eq_Inr require_eq_Inr)
  then show ?thesis using insert_scope_D [of r f f'] fed_identifier_ok fed_optional_ok by blast
qed

lemma insert_projection_D:
  assumes "insert_projection E t i kind source target summary world version state stamp f = Inr (f', p)"
  shows "f' = f\<lparr>projections := projections f @ [p]\<rparr> \<and> fp_tenant p = t \<and> fp_source p = source \<and> fp_target p = target \<and>
    fp_summary p = summary \<and> fp_kind p = kind \<and> fp_created p = stamp \<and> fp_world p = world \<and> fp_version p = version \<and> fp_state p = state"
  using assms by (auto simp: insert_projection_def result_simps Let_def fed_json_def)

text \<open>
  What a stored summary may hold: the scope, the kind and the time of its row, the identity, the
  version and the hash of the world it was taken from, the scopes and the hashes of the summaries
  it was added up from, counts, resource figures and two flags. A count is an integer, a figure is
  a float, and the unit of a resource is a text; no member has room for a record.
\<close>

definition count_table :: "json \<Rightarrow> bool" where
  "count_table v \<longleftrightarrow> (\<exists>d. v = JObj d \<and> (\<forall>k x. (k, x) \<in> set d \<longrightarrow> (\<exists>n. x = JInt n)))"

definition resource_figures :: "json \<Rightarrow> bool" where
  "resource_figures v \<longleftrightarrow> (\<exists>d. v = JObj d \<and> (\<forall>k x. (k, x) \<in> set d \<longrightarrow>
     k = ''unit'' \<and> (\<exists>u. x = JStr u)
     \<or> k \<in> {''capacity'', ''allocated'', ''available'', ''utilization''} \<and> (\<exists>z. x = JFloat z)))"

inductive summary_member :: "projection_row set \<Rightarrow> projection_row \<Rightarrow> string \<Rightarrow> json \<Rightarrow> bool" for ps p where
  sm_schema: "summary_member ps p ''schema_version'' (JStr ''edon-federation-projection.v1'')"
| sm_scope: "summary_member ps p ''scope_id'' (JStr (fp_source p))"
| sm_kind: "summary_member ps p ''projection_kind'' (JStr (fp_kind p))"
| sm_stamp: "summary_member ps p ''observed_at'' (JStr (fp_created p))"
| sm_world: "fp_world p = Some w \<Longrightarrow> summary_member ps p ''source_world_id'' (JStr w)"
| sm_version: "fp_version p = Some n \<Longrightarrow> summary_member ps p ''source_world_version'' (JInt n)"
| sm_state: "fp_state p = Some h \<Longrightarrow> summary_member ps p ''source_state_sha256'' (JStr h)"
| sm_sources: "set xs \<subseteq> fp_source ` ps \<Longrightarrow> summary_member ps p ''source_scope_ids'' (jstrs xs)"
| sm_hashes: "set xs \<subseteq> fp_sha ` ps \<Longrightarrow> summary_member ps p ''source_projection_hashes'' (jstrs xs)"
| sm_counts: "\<forall>c x. (c, x) \<in> set d \<longrightarrow> c = ''observations'' \<and> (\<exists>n. x = JInt n)
      \<or> c \<in> {''goals'', ''plans'', ''agents'', ''alerts'', ''outcomes''} \<and> count_table x \<Longrightarrow>
    summary_member ps p ''counts'' (JObj d)"
| sm_resources: "\<forall>r x. (r, x) \<in> set d \<longrightarrow> resource_figures x \<Longrightarrow> summary_member ps p ''resources'' (JObj d)"
| sm_raw: "summary_member ps p ''contains_raw_records'' (JBool False)"
| sm_authority: "summary_member ps p ''binding_authority'' (JBool False)"

lemma sm_resourcesD: "summary_member ps p ''resources'' v \<Longrightarrow> \<exists>d. v = JObj d \<and> (\<forall>r x. (r, x) \<in> set d \<longrightarrow> resource_figures x)"
  by (erule summary_member.cases) auto


definition redacted :: "projection_row set \<Rightarrow> projection_row \<Rightarrow> bool" where
  "redacted ps p \<longleftrightarrow> (\<forall>k v. (k, v) \<in> set (fp_summary p) \<longrightarrow> summary_member ps p k v)
     \<and> dict_get (fp_summary p) ''contains_raw_records'' = Some (JBool False)"


lemma set_fold_put: "set (fold (\<lambda>(k, v). dict_put k v) ps d) \<subseteq> set ps \<union> set d"
proof (induction ps arbitrary: d)
  case (Cons p ps)
  then show ?case using set_dict_put_subset [of "fst p" "snd p" d] by (fastforce simp: split_beta)
qed simp

lemma set_dict_of_subset: "set (dict_of ps) \<subseteq> set ps"
  using set_fold_put [of ps "[]"] by (simp add: dict_of_def)

lemma dict_of_member: "(k, v) \<in> set (dict_of ps) \<Longrightarrow> (k, v) \<in> set ps"
  using set_dict_of_subset by blast

lemma count_table_enc: "count_table (enc_counts d)"
  by (auto simp: count_table_def enc_counts_def)

lemma counts_by_table: "counts_by E f v = Inr x \<Longrightarrow> count_table x"
  by (auto simp: counts_by_def rbind_eq_Inr count_table_enc)

lemma resource_figures_of: "resource_figures (mk_obj [(''unit'', JStr u), (''capacity'', JFloat a), (''allocated'', JFloat b),
     (''available'', JFloat c), (''utilization'', JFloat d)])"
  unfolding resource_figures_def mk_obj_def by (auto dest!: dict_of_member)

lemma traverse_member: "traverse f xs = Inr ys \<Longrightarrow> y \<in> set ys \<Longrightarrow> \<exists>x \<in> set xs. f x = Inr y"
  by (induction xs arbitrary: ys) (auto simp: rbind_eq_Inr)

lemma summarize_resource_figures: "summarize_resource E p = Inr q \<Longrightarrow> resource_figures (snd q)"
  unfolding summarize_resource_def by (elim rbindE) (use resource_figures_of in force)

lemma world_summary_members:
  assumes "summarize_operations E s sn stamp = Inr summary" and "(k, v) \<in> set summary"
    and "fp_source p = s" "fp_kind p = ''WORLD_SUMMARY''" "fp_created p = stamp" "fp_world p = Some (sn_world sn)"
      "fp_version p = Some (sn_version sn)" "fp_state p = Some (sn_sha sn)"
  shows "summary_member ps p k v"
proof -
  obtain resources pools observations goals plans agents alerts results where
      r: "traverse (summarize_resource E) pools = Inr resources"
    and c: "count_table goals" "count_table plans" "count_table agents" "count_table alerts"
    and s: "summary = dict_of
         [(''schema_version'', JStr ''edon-federation-projection.v1''), (''scope_id'', JStr s),
          (''projection_kind'', JStr ''WORLD_SUMMARY''), (''source_world_id'', JStr (sn_world sn)),
          (''source_world_version'', JInt (sn_version sn)), (''source_state_sha256'', JStr (sn_sha sn)),
          (''observed_at'', JStr stamp),
          (''counts'', mk_obj
            [(''observations'', JInt (int observations)), (''goals'', goals), (''plans'', plans), (''agents'', agents),
             (''alerts'', alerts),
             (''outcomes'', mk_obj [(''succeeded'', JInt (int (length (filter (\<lambda>b. b) results)))),
                (''failed'', JInt (int (length (filter (\<lambda>b. \<not> b) results))))])]),
          (''resources'', JObj resources), (''contains_raw_records'', JBool False),
          (''binding_authority'', JBool False)]"
    using assms(1) unfolding summarize_operations_def Let_def
    by (elim rbindE) (auto dest!: counts_by_table)
  have f: "\<forall>i x. (i, x) \<in> set resources \<longrightarrow> resource_figures x"
    using traverse_member [OF r] summarize_resource_figures by fastforce
  have o: "count_table (mk_obj [(''succeeded'', JInt a), (''failed'', JInt b)])" for a b
    unfolding count_table_def mk_obj_def by (auto dest!: dict_of_member)
  have n: "summary_member ps p ''counts'' (mk_obj
      [(''observations'', JInt (int observations)), (''goals'', goals), (''plans'', plans), (''agents'', agents),
       (''alerts'', alerts), (''outcomes'', mk_obj [(''succeeded'', JInt a), (''failed'', JInt b)])])" for a b
    unfolding mk_obj_def [of "(''observations'', _) # _"]
    by (rule sm_counts) (use c o in \<open>auto dest!: dict_of_member\<close>)
  have "(k, v) \<in> set
         [(''schema_version'', JStr ''edon-federation-projection.v1''), (''scope_id'', JStr s),
          (''projection_kind'', JStr ''WORLD_SUMMARY''), (''source_world_id'', JStr (sn_world sn)),
          (''source_world_version'', JInt (sn_version sn)), (''source_state_sha256'', JStr (sn_sha sn)),
          (''observed_at'', JStr stamp),
          (''counts'', mk_obj
            [(''observations'', JInt (int observations)), (''goals'', goals), (''plans'', plans), (''agents'', agents),
             (''alerts'', alerts),
             (''outcomes'', mk_obj [(''succeeded'', JInt (int (length (filter (\<lambda>b. b) results)))),
                (''failed'', JInt (int (length (filter (\<lambda>b. \<not> b) results))))])]),
          (''resources'', JObj resources), (''contains_raw_records'', JBool False),
          (''binding_authority'', JBool False)]"
    using dict_of_member [OF assms(2) [unfolded s]] .
  then show ?thesis
    using sm_schema [of ps p] sm_scope [of ps p, unfolded assms(3)] sm_kind [of ps p, unfolded assms(4)]
      sm_stamp [of ps p, unfolded assms(5)] sm_world [OF assms(6), of ps] sm_version [OF assms(7), of ps]
      sm_state [OF assms(8), of ps] n sm_resources [OF f, of ps p] sm_raw [of ps p] sm_authority [of ps p]
    by (simp only: list.set insert_iff empty_iff prod.inject simp_thms, elim disjE conjE) (simp_all only:)
qed

definition text_units :: "aggregate \<Rightarrow> bool" where
  "text_units a \<longleftrightarrow> (\<forall>k r. (k, r) \<in> set (ag_resources a) \<longrightarrow> (\<exists>u. ar_unit r = JStr u))
     \<and> fst ` set (ag_counts a) \<subseteq> set count_categories"

lemma add_category_units: "add_category m c a = Inr a' \<Longrightarrow> text_units a \<Longrightarrow> c \<in> set count_categories \<Longrightarrow> text_units a'"
proof -
  assume c: "add_category m c a = Inr a'" "text_units a" "c \<in> set count_categories"
  then obtain d where "a' = a\<lparr>ag_counts := dict_put c d (ag_counts a)\<rparr>" by (auto simp: add_category_def rbind_eq_Inr)
  then have "ag_resources a' = ag_resources a" "fst ` set (ag_counts a') = insert c (fst ` set (ag_counts a))" by simp_all
  then show "text_units a'" using c(2,3) unfolding text_units_def by simp
qed

lemma dict_get_member: "dict_get d k = Some v \<Longrightarrow> (k, v) \<in> set d"
  by (rule map_of_SomeD)

lemma add_resource_units:
  assumes "add_resource p a = Inr a'" and "resource_figures (snd p)" and "text_units a"
  shows "text_units a'"
proof -
  obtain m u c x y where m: "snd p = JObj m" and u: "dict_get m ''unit'' = Some u"
    and c: "c = (case dict_get (ag_resources a) (fst p) of
           None \<Rightarrow> \<lparr>ar_unit = u, ar_capacity = Fin 0, ar_allocated = Fin 0\<rparr> | Some r \<Rightarrow> r)"
    and a': "a' = a\<lparr>ag_resources := dict_put (fst p) (c\<lparr>ar_capacity := x, ar_allocated := y\<rparr>) (ag_resources a)\<rparr>"
    using assms(1) unfolding add_resource_def Let_def
    by (elim rbindE; simp only: require_eq_Inr; elim conjE rbindE)
      (auto simp: fed_items_def fed_key_def split: json.splits option.splits)
  have "\<exists>s. u = JStr s" using assms(2) m dict_get_member [OF u] by (auto simp: resource_figures_def)
  then have "\<exists>s. ar_unit c = JStr s"
    using assms(3) c dict_get_member [of "ag_resources a" "fst p"] by (auto simp: text_units_def split: option.splits)
  then show ?thesis
    using assms(3) set_dict_put_subset [of "fst p" "c\<lparr>ar_capacity := x, ar_allocated := y\<rparr>" "ag_resources a"]
    unfolding a' text_units_def by (auto dest!: subsetD)
qed

lemma rfold_keeps: "rfold f xs s = Inr s' \<Longrightarrow> (\<And>x s s'. x \<in> set xs \<Longrightarrow> f x s = Inr s' \<Longrightarrow> P s \<Longrightarrow> P s') \<Longrightarrow> P s \<Longrightarrow> P s'"
proof (induction xs arbitrary: s)
  case (Cons x xs)
  from Cons.prems(1) obtain t where "f x s = Inr t" "rfold f xs t = Inr s'" by (auto elim: rbindE)
  with Cons show ?case by (meson list.set_intros)
qed simp

lemma add_summary_units:
  assumes "add_summary r a = Inr a'" and "redacted ps r" and "text_units a"
  shows "text_units a'"
proof -
  obtain counts n a1 items where c: "rfold (add_category counts) count_categories (a\<lparr>ag_observations := n\<rparr>) = Inr a1"
    and i: "get_default (fp_summary r) ''resources'' (JObj []) = JObj items" and f: "rfold add_resource items a1 = Inr a'"
    using assms(1) unfolding add_summary_def
    by (elim rbindE) (auto simp: fed_items_def split: json.splits)
  have 1: "text_units a1"
  proof (rule rfold_keeps [OF c])
    show "text_units (a\<lparr>ag_observations := n\<rparr>)" using assms(3) by (simp add: text_units_def)
  next
    fix x s s' assume x: "x \<in> set count_categories" "add_category counts x s = Inr s'" "text_units s"
    show "text_units s'" by (rule add_category_units [OF x(2,3,1)])
  qed
  have "resource_figures (snd p)" if "p \<in> set items" for p
  proof -
    have "dict_get (fp_summary r) ''resources'' = Some (JObj items)"
      using i that by (auto simp: get_default_def split: option.splits)
    then have "summary_member ps r ''resources'' (JObj items)" using assms(2) dict_get_member by (force simp: redacted_def)
    then show ?thesis using that sm_resourcesD by (cases p) force
  qed
  then have "text_units s'" if "p \<in> set items" "add_resource p s = Inr s'" "text_units s" for p s s'
    using add_resource_units [OF that(2) _ that(3)] that(1) by blast
  from rfold_keeps [where P = text_units, OF f this 1] show ?thesis .
qed

lemma latest_projection_member:
  "latest_projection t target f source = Inr r \<Longrightarrow> r \<in> set (projections f) \<and> fp_source r = source"
proof -
  let ?xs = "filter (\<lambda>r. fp_tenant r = t \<and> fp_target r = target \<and> fp_source r = source) (projections f)"
  assume l: "latest_projection t target f source = Inr r"
  then have "r = last (sort_key (\<lambda>r. (fp_created r, fp_id r)) ?xs)" "sort_key (\<lambda>r. (fp_created r, fp_id r)) ?xs \<noteq> []"
    by (auto simp: latest_projection_def split: list.splits)
  then have "r \<in> set ?xs" 
    using last_in_set [of "sort_key (\<lambda>r. (fp_created r, fp_id r)) ?xs"] by simp
  then show ?thesis by simp
qed

lemma aggregate_members:
  assumes rows: "traverse (latest_projection t target f) sources = Inr rows"
    and a: "rfold add_summary rows empty_aggregate = Inr a" and red: "\<And>p. p \<in> set (projections f) \<Longrightarrow> redacted ps p"
    and m: "(k, v) \<in> set (aggregate_summary s sources rows a stamp)" and ps: "set (projections f) \<subseteq> ps"
    and p: "fp_source p = s" "fp_kind p = ''AGGREGATE_SUMMARY''" "fp_created p = stamp"
  shows "summary_member ps p k v"
proof -
  have rs: "set rows \<subseteq> set (projections f)" "set sources \<subseteq> fp_source ` set rows"
  proof -
    show "set rows \<subseteq> set (projections f)" using traverse_member [OF rows] latest_projection_member by fastforce
    show "set sources \<subseteq> fp_source ` set rows"
      using rows by (induction sources arbitrary: rows) (auto simp: rbind_eq_Inr dest: latest_projection_member)
  qed
  have u: "text_units a"
  proof (rule rfold_keeps [OF a])
    show "text_units empty_aggregate"
      by (auto simp: text_units_def empty_aggregate_def count_categories_def dict_of_def split: if_splits)
  qed (use rs red in \<open>auto intro: add_summary_units\<close>)
  have c: "\<forall>c x. (c, x) \<in> set (dict_put ''observations'' (JInt (ag_observations a))
      (map (\<lambda>p. (fst p, enc_counts (snd p))) (ag_counts a))) \<longrightarrow>
          c = ''observations'' \<and> (\<exists>n. x = JInt n)
          \<or> c \<in> {''goals'', ''plans'', ''agents'', ''alerts'', ''outcomes''} \<and> count_table x"
  proof (intro allI impI)
    fix c x assume "(c, x) \<in> set (dict_put ''observations'' (JInt (ag_observations a))
      (map (\<lambda>p. (fst p, enc_counts (snd p))) (ag_counts a)))"
    then have "(c, x) = (''observations'', JInt (ag_observations a)) \<or> (\<exists>d. (c, d) \<in> set (ag_counts a) \<and> x = enc_counts d)"
      using set_dict_put_subset [of "''observations''"] by fastforce
    moreover have "c \<in> {''goals'', ''plans'', ''agents'', ''alerts'', ''outcomes''}" if "(c, d) \<in> set (ag_counts a)" for d
      using u that unfolding text_units_def count_categories_def by fastforce
    ultimately consider "c = ''observations''" "x = JInt (ag_observations a)"
      | "c \<in> {''goals'', ''plans'', ''agents'', ''alerts'', ''outcomes''}" "count_table x"
      using count_table_enc by (metis prod.inject)
    then show "c = ''observations'' \<and> (\<exists>n. x = JInt n)
        \<or> c \<in> {''goals'', ''plans'', ''agents'', ''alerts'', ''outcomes''} \<and> count_table x"
    proof cases
      case 1
      then show ?thesis by (intro disjI1 conjI exI)
    next
      case 2
      then show ?thesis by (intro disjI2 conjI)
    qed
  qed
  have r: "\<forall>i x. (i, x) \<in> set (map (\<lambda>p. (fst p, enc_agg_resource (snd p))) (ag_resources a)) \<longrightarrow> resource_figures x"
  proof -
    have "resource_figures (enc_agg_resource b)" if "ar_unit b = JStr x" for b x
      unfolding enc_agg_resource_def that by (rule resource_figures_of)
    then show ?thesis using u by (fastforce simp: text_units_def)
  qed
  have i: "set sources \<subseteq> fp_source ` ps" "set (map fp_sha rows) \<subseteq> fp_sha ` ps"
    using rs ps by (blast, fastforce)
  let ?fields = "[(''schema_version'', JStr ''edon-federation-projection.v1''), (''scope_id'', JStr s),
      (''projection_kind'', JStr ''AGGREGATE_SUMMARY''), (''source_scope_ids'', jstrs sources),
      (''source_projection_hashes'', jstrs (map fp_sha rows)), (''observed_at'', JStr stamp),
      (''counts'', JObj (dict_put ''observations'' (JInt (ag_observations a))
         (map (\<lambda>p. (fst p, enc_counts (snd p))) (ag_counts a)))),
      (''resources'', JObj (map (\<lambda>p. (fst p, enc_agg_resource (snd p))) (ag_resources a))),
      (''contains_raw_records'', JBool False), (''binding_authority'', JBool False)]"
  have "list_all (\<lambda>(k, v). summary_member ps p k v) ?fields"
    by (simp only: list.pred_inject prod.case)
      (intro conjI TrueI sm_schema sm_scope [of ps p, unfolded p] sm_kind [of ps p, unfolded p]
        sm_stamp [of ps p, unfolded p] sm_sources [OF i(1)] sm_hashes [OF i(2)] sm_counts [OF c] sm_resources [OF r]
        sm_raw sm_authority)
  moreover have "(k, v) \<in> set ?fields" by (rule dict_of_member [OF m [unfolded aggregate_summary_def]])
  ultimately show ?thesis by (fastforce simp only: list_all_iff)
qed

lemma world_summary_redacted:
  assumes "summarize_operations E s sn stamp = Inr summary"
    and "insert_projection E t i ''WORLD_SUMMARY'' s target summary (Some (sn_world sn))
      (Some (sn_version sn)) (Some (sn_sha sn)) stamp f = Inr (f', p)"
  shows "redacted ps p"
proof -
  have "dict_get summary ''contains_raw_records'' = Some (JBool False)"
    using assms(1) unfolding summarize_operations_def Let_def by (elim rbindE) (auto simp: dict_of_def)
  moreover have "fp_summary p = summary \<and> fp_source p = s \<and> fp_kind p = ''WORLD_SUMMARY'' \<and> fp_created p = stamp
      \<and> fp_world p = Some (sn_world sn) \<and> fp_version p = Some (sn_version sn) \<and> fp_state p = Some (sn_sha sn)"
    using insert_projection_D [OF assms(2)] by simp
  ultimately show ?thesis
    using world_summary_members [OF assms(1)] unfolding redacted_def by simp
qed

lemma aggregate_redacted:
  assumes "traverse (latest_projection t target f) sources = Inr rows"
    and "rfold add_summary rows empty_aggregate = Inr a"
    and "insert_projection E t i ''AGGREGATE_SUMMARY'' s publish
      (aggregate_summary s sources rows a stamp) None None None stamp f = Inr (f', p)"
    and "\<forall>p \<in> set (projections f). redacted (set (projections f)) p"
  shows "redacted (set (projections f)) p"
proof -
  have "dict_get (aggregate_summary s sources rows a stamp) ''contains_raw_records'' = Some (JBool False)"
    by (simp add: aggregate_summary_def dict_of_def)
  moreover have p: "fp_summary p = aggregate_summary s sources rows a stamp" "fp_source p = s"
      "fp_kind p = ''AGGREGATE_SUMMARY''" "fp_created p = stamp"
    using insert_projection_D [OF assms(3)] by simp_all
  moreover have "summary_member (set (projections f)) p k v" if "(k, v) \<in> set (fp_summary p)" for k v
    by (rule aggregate_members [OF assms(1,2) _ that [unfolded p(1)] order_refl p(2-4)]) (use assms(4) in blast)
  ultimately show ?thesis unfolding redacted_def by simp
qed

lemma project_world_D:
  assumes "project_world E now t s i tgt stamp w f = Inr (f', p)"
  shows "f' = f\<lparr>projections := projections f @ [p]\<rparr> \<and> fp_tenant p = t \<and> fp_source p = s \<and>
    (\<exists>as. ancestor_ids t s f = Inr as \<and> fp_target p \<in> set as) \<and> redacted ps p"
  using assms unfolding project_world_def Let_def
  by (elim rbindE; simp split: option.splits; elim rbindE; simp only: require_eq_Inr; elim conjE rbindE)
     (auto dest: insert_projection_D world_summary_redacted)

lemma aggregate_scope_D:
  assumes "aggregate_scope E now t tgt i srcs pub stamp f = Inr (f', p)"
  shows "f' = f\<lparr>projections := projections f @ [p]\<rparr> \<and> fp_tenant p = t \<and> fp_source p = tgt \<and>
    (\<exists>as. ancestor_ids t tgt f = Inr as \<and> fp_target p \<in> set as) \<and>
    ((\<forall>p \<in> set (projections f). redacted (set (projections f)) p) \<longrightarrow> redacted (set (projections f)) p)"
  using assms unfolding aggregate_scope_def Let_def
  by (elim rbindE; simp only: require_eq_Inr; elim conjE rbindE; simp only: require_eq_Inr; elim conjE rbindE)
     (auto dest: insert_projection_D aggregate_redacted)

lemma record_event_D:
  assumes "record_escalation_event E now t ei ty a n stamp f = Inr (f', ev)"
  shows "f' = f\<lparr>escalation_log := escalation_log f @ [ev]\<rparr>"
  using assms unfolding record_escalation_event_def
  by (auto simp: result_simps Let_def)

lemma open_escalation_D:
  assumes "open_escalation E now t ei d s tgt sev rs evd stamp f = (f', res)"
  shows "scopes f' = scopes f \<and> projections f' = projections f \<and> routes f' = routes f"
proof -
  have "scopes f1 = scopes f \<and> projections f1 = projections f \<and> routes f1 = routes f" if "insert_escalation r f = Inr f1" for r f1
    using that by (auto simp: insert_escalation_def result_simps)
  then show ?thesis
    using assms unfolding open_escalation_def
    by (auto simp: rbind_eq_Inr split: sum.splits prod.splits dest!: record_event_D)
qed

lemma route_decision_D:
  assumes "route_decision E now t d s cs im un ctx auth lit lut ei sev rs evd stamp f = (f', res)"
  shows "scopes f' = scopes f \<and> projections f' = projections f \<and>
    (routes f' = routes f \<or> (\<exists>r. route_of E now t d s cs im un ctx auth lit lut stamp f = Inr r \<and> routes f' = routes f @ [r]))"
proof (cases "rbind (route_of E now t d s cs im un ctx auth lit lut stamp f) (\<lambda>r. rbind (insert_route r f) (\<lambda>f. Inr (f, r)))")
  case (Inl e)
  then show ?thesis using assms by (simp add: route_decision_def)
next
  case (Inr p)
  obtain f1 r where p: "p = (f1, r)" by force
  have r: "route_of E now t d s cs im un ctx auth lit lut stamp f = Inr r" "f1 = f\<lparr>routes := routes f @ [r]\<rparr>"
    using Inr by (auto simp: p result_simps insert_route_def)
  show ?thesis
    using assms Inr r open_escalation_D
    by (auto simp: route_decision_def p split: if_splits prod.splits sum.splits dest!: open_escalation_D)
qed

lemma find_scope_snoc:
  "find_scope (f\<lparr>scopes := scopes f @ [r]\<rparr>) t s =
     (case find_scope f t s of None \<Rightarrow> if is_scope t s r then Some r else None | Some q \<Rightarrow> Some q)"
  by (simp add: find_scope_def find_append split: option.splits)



lemma fed_tree_scopes: "scopes f' = scopes f \<Longrightarrow> fed_tree f \<Longrightarrow> fed_tree f'"
  by (simp add: fed_tree_def scope_ok_def find_scope_def)

lemma fed_tree_snoc:
  assumes tree: "fed_tree f" and r: "register_scope E now t s ty n p w d l dp stamp f = Inr (f', r)"
  shows "fed_tree f'"
proof -
  note d = register_scope_D [OF r]
  have f': "f' = f\<lparr>scopes := scopes f @ [r]\<rparr>" using d by blast
  have keep: "find_scope f' t s = Some q" if "find_scope f t s = Some q" for t s q
    using that by (simp add: f' find_scope_snoc)
  have "scope_ok f' q" if "q \<in> set (scopes f)" for q
    using that tree keep unfolding fed_tree_def scope_ok_def by blast
  moreover have "scope_ok f' r"
    using d keep unfolding scope_ok_def
    by (fastforce simp: check_parent_def result_simps level_def split: option.splits)
  moreover have "r = q" if "q \<in> set (scopes f)" "fs_tenant q = fs_tenant r" "fs_parent q = None" "fs_parent r = None" for q
    using d that by (auto simp: check_parent_def result_simps list_ex_iff)
  ultimately show ?thesis using tree unfolding fed_tree_def f' by (auto simp: f')
qed

lemma fed_run_tree: "fed_run E f \<Longrightarrow> fed_tree f"
proof (induction rule: fed_run.induct)
  case fed_init
  then show ?case by (simp add: fed_tree_def init_fdb_def)
next
  case fed_scope
  then show ?case by (blast intro: fed_tree_snoc)
next
  case (fed_project f now t s i tgt stamp w f' p)
  then show ?case using project_world_D [OF fed_project(2)] by (intro fed_tree_scopes [of f' f]) auto
next
  case (fed_aggregate f now t tgt i srcs pub stamp f' p)
  then show ?case using aggregate_scope_D [OF fed_aggregate(2)] by (intro fed_tree_scopes [of f' f]) auto
next
  case (fed_route f now t d s cs im un ctx auth lit lut ei sev rs evd stamp f' res)
  then show ?case using route_decision_D [OF fed_route(2)] by (intro fed_tree_scopes [of f' f]) auto
next
  case (fed_open f now t ei d s tgt sev rs evd stamp f' er)
  then show ?case using open_escalation_D [OF fed_open(2)] by (intro fed_tree_scopes [of f' f]) auto
next
  case (fed_event f now t ei ty a n stamp f' ev)
  then show ?case using record_event_D [OF fed_event(2)] by (intro fed_tree_scopes [of f' f]) auto
qed

text \<open>
  C23. In every state the store reaches, the least common ancestor of scopes that are all
  registered exists: the loops over the ancestors end, and the result is above every given scope
  and below every other scope that is. Otherwise, and for no scope at all, the operation raises a
  FederationError.
\<close>

theorem least_common_ancestor_exact:
  assumes "fed_run E f"
  shows "if ids \<noteq> [] \<and> (\<forall>i \<in> set ids. find_scope f t (py_strip i) \<noteq> None)
    then \<exists>a. least_common_ancestor t ids f = Inr a \<and> (\<forall>i \<in> set ids. upward f t (py_strip i) a) \<and>
      (\<forall>b. (\<forall>i \<in> set ids. upward f t (py_strip i) b) \<longrightarrow> upward f t a b)
    else \<exists>m. least_common_ancestor t ids f = Inl (FedError m)"
  using lca_exact [OF fed_run_tree [OF assms], of ids t]
  by (simp add: least_upward_def common_upward_def split del: if_split cong: if_cong)

section \<open>Everything flows upwards\<close>















end
