(* ===== verification/FederationExamples.thy ===== *)
theory FederationExamples
  imports FederationProps
begin

text \<open>A tree of two scopes and a decision that is escalated from the lower to the upper one.\<close>

definition fed_root :: scope_row where
  "fed_root = seal_scope demo_env \<lparr>fs_tenant = ''t'', fs_id = ''g'', fs_parent = None, fs_type = ''GLOBAL'', fs_world = None,
     fs_name = ''G'', fs_domain = ''d'', fs_latency = ''DAYS'',
     fs_policy = [(''projection_mode'', JStr ''AGGREGATES_ONLY''), (''share_raw_records'', JBool False)],
     fs_created = ''c'', fs_sha = []\<rparr>"

definition fed_site :: scope_row where
  "fed_site = seal_scope demo_env \<lparr>fs_tenant = ''t'', fs_id = ''s'', fs_parent = Some ''g'', fs_type = ''EDGE'', fs_world = Some ''w'',
     fs_name = ''S'', fs_domain = ''d'', fs_latency = ''HOURS'',
     fs_policy = [(''projection_mode'', JStr ''AGGREGATES_ONLY''), (''share_raw_records'', JBool False)],
     fs_created = ''c'', fs_sha = []\<rparr>"

definition fed1 :: fdb where "fed1 = init_fdb\<lparr>scopes := [fed_root]\<rparr>"
definition fed2 :: fdb where "fed2 = init_fdb\<lparr>scopes := [fed_root, fed_site]\<rparr>"

lemmas fed_eval = fed_identifier_def ident_check_def fed_optional_def fed_json_def set_default_def check_parent_def
  insert_scope_def scope_rank_def latency_classes_def or_now_def Let_def require_def py_strip_def
  is_space_def

lemma fed_words: "py_upper ''GLOBAL'' = ''GLOBAL''" "py_upper ''EDGE'' = ''EDGE''" "py_upper ''DAYS'' = ''DAYS''"
    "py_upper ''HOURS'' = ''HOURS''" "py_upper ''HIGH'' = ''HIGH''" "py_upper ''OPENED'' = ''OPENED''"
  by (simp_all add: py_upper_def upper_char_def)

lemma fed1_run: "register_scope demo_env ''c'' ''t'' ''g'' ''GLOBAL'' ''G'' None None ''d'' ''DAYS'' None None init_fdb = Inr (fed1, fed_root)"
  by (simp add: register_scope_def fed_words fed_eval find_scope_def is_scope_def fed1_def fed_root_def init_fdb_def)

lemma fed2_run: "register_scope demo_env ''c'' ''t'' ''s'' ''EDGE'' ''S'' (Some ''g'') (Some ''w'') ''d'' ''HOURS'' None None fed1 = Inr (fed2, fed_site)"
  by (simp add: register_scope_def fed_words fed_eval find_scope_def is_scope_def fed1_def fed2_def fed_root_def fed_site_def init_fdb_def)

lemma fed2_reached: "fed_run demo_env fed2"
  using fed_run.fed_scope [OF fed_run.fed_scope [OF fed_run.fed_init fed1_run] fed2_run] .

lemma fed2_find: "find_scope fed2 ''t'' ''s'' = Some fed_site" "find_scope fed2 ''t'' ''g'' = Some fed_root"
  by (simp_all add: find_scope_def is_scope_def fed2_def init_fdb_def fed_root_def fed_site_def)



definition fed_route :: "(fed_error + route_row)" where
  "fed_route = route_of demo_env ''c'' ''t'' ''d'' ''s'' [] (JFloat (Fin 1)) (JFloat (Fin 0)) (JObj []) None
     (JFloat (Fin (1 / 2))) (JFloat (Fin (1 / 2))) None fed2"


definition fed3 :: fdb where
  "fed3 = fst (route_decision demo_env ''c'' ''t'' ''d'' ''s'' [] (JFloat (Fin 1)) (JFloat (Fin 0)) (JObj []) None
     (JFloat (Fin (1 / 2))) (JFloat (Fin (1 / 2))) None ''HIGH'' ''impact'' [] None fed2)"

lemma fed3_reached: "fed_run demo_env fed3"
  unfolding fed3_def by (rule fed_run.fed_route [OF fed2_reached]) (rule prod.collapse [symmetric])


theorem least_common_ancestor_exact_witness:
  "\<exists>a. least_common_ancestor ''t'' ['' s'', ''g''] fed3 = Inr a \<and> upward fed3 ''t'' ''g'' a"
proof -
  have "scopes fed3 = scopes fed2"
    unfolding fed3_def using route_decision_D [OF prod.collapse [symmetric]] by blast
  then have "find_scope fed3 ''t'' x = find_scope fed2 ''t'' x" for x by (simp add: find_scope_def)
  then have "\<forall>i \<in> set ['' s'', ''g'']. find_scope fed3 ''t'' (py_strip i) \<noteq> None"
    by (simp add: fed2_find py_strip_def is_space_def)
  with least_common_ancestor_exact [OF fed3_reached, of "['' s'', ''g'']" "''t''"] show ?thesis
    by (auto simp: py_strip_def is_space_def)
qed


end
