(* ===== verification/Supervisor.thy ===== *)
theory Supervisor
  imports ControlPlane
begin

text \<open>
  Proposals of a learned model and the supervisor that records them
  (\<open>src/src/edon/cerebrum/operations.py\<close>, \<open>src/src/edon/supervisor/store.py\<close>,
  \<open>src/src/edon/supervisor/loop.py\<close>). The provider, which calls the model, is a function from the
  context to its answer, a parameter of the definitions. A cycle builds the context from the
  control plane, checks the answer, and stores the proposal; nothing is committed to the world.
\<close>

section \<open>Errors\<close>

text \<open>
  An \<open>OperationsProposalError\<close> or a \<open>SupervisorError\<close> with its message, an error of the control
  plane, and an error of the language on malformed data.
\<close>

datatype sup_error = PropError string | SupError string | SupOps ops_error | SupMalformed

definition lift_ops :: "ops_error + 'a \<Rightarrow> sup_error + 'a" where
  "lift_ops m = (case m of Inl e \<Rightarrow> Inl (SupOps e) | Inr x \<Rightarrow> Inr x)"

section \<open>The firewall of the proposal adapter\<close>

definition proposal_requirements :: "(string \<times> string list) list" where
  "proposal_requirements =
     [(''ABSTAIN'', []), (''CREATE_GOAL'', [''goal_id'', ''description'']),
      (''CREATE_PLAN'', [''plan_id'', ''goal_id'', ''steps'', ''horizon_start'']),
      (''DISPATCH_STEP'', [''plan_id'', ''step_id'', ''agent_id'']),
      (''REPLAN'', [''old_plan_id'', ''new_plan_id'', ''steps'', ''horizon_start'', ''reason'']),
      (''CANCEL_STEP'', [''plan_id'', ''step_id'', ''reason''])]"

definition forbidden_fields :: "string list" where
  "forbidden_fields =
     [''authorization_ref'', ''execution_token'', ''kernel_token'', ''signature'', ''binding_eligible'', ''commit'',
      ''committed'']"

fun forbidden_paths :: "json \<Rightarrow> string \<Rightarrow> string list"
and forbidden_members :: "(string \<times> json) list \<Rightarrow> string \<Rightarrow> string list"
and forbidden_items :: "json list \<Rightarrow> nat \<Rightarrow> string \<Rightarrow> string list" where
  "forbidden_paths (JObj ms) prefix = forbidden_members ms prefix"
| "forbidden_paths (JArr xs) prefix = forbidden_items xs 0 prefix"
| "forbidden_paths JNull prefix = []"
| "forbidden_paths (JBool b) prefix = []"
| "forbidden_paths (JInt i) prefix = []"
| "forbidden_paths (JFloat x) prefix = []"
| "forbidden_paths (JStr s) prefix = []"
| "forbidden_members [] prefix = []"
| "forbidden_members ((key, child) # ms) prefix =
     (let path = (if prefix = [] then key else prefix @ ''.'' @ key) in
      (if key \<in> set forbidden_fields then [path] else [])
      @ (if key = ''binding_authority'' \<and> child = JBool True then [path] else [])
      @ forbidden_paths child path @ forbidden_members ms prefix)"
| "forbidden_items [] index prefix = []"
| "forbidden_items (x # xs) index prefix =
     forbidden_paths x (prefix @ ''['' @ int_text (int index) @ '']'') @ forbidden_items xs (Suc index) prefix"

definition raw_get :: "obj \<Rightarrow> string \<Rightarrow> json \<Rightarrow> json" where
  "raw_get m k d = (case dict_get m k of None \<Rightarrow> d | Some v \<Rightarrow> v)"

text \<open>\<open>confidence\<close>: a number that is not below zero and not above one.\<close>

definition proposal_confidence :: "json \<Rightarrow> sup_error + flt" where
  "proposal_confidence v =
     rbind (case v of
         JInt i \<Rightarrow> (case float_of_int i of None \<Rightarrow> Inl SupMalformed | Some x \<Rightarrow> Inr x)
       | JFloat x \<Rightarrow> Inr x
       | _ \<Rightarrow> Inl (PropError ''proposal confidence must be numeric'')) (\<lambda>x.
     require (\<not> (flt_less x (Fin 0) \<or> flt_less (Fin 1) x)) (PropError ''proposal confidence must be between 0 and 1'')
       (Inr x))"

definition proposal_core :: "pyenv \<Rightarrow> string \<Rightarrow> obj \<Rightarrow> obj \<Rightarrow> string \<Rightarrow> obj \<Rightarrow> string \<Rightarrow> flt \<Rightarrow> obj" where
  "proposal_core E lineage context raw ty payload rationale confidence = dict_of
     [(''schema_version'', JStr ''edon-cerebrum-operations-proposal.v1''),
      (''proposal_id'', JStr (if truthy (raw_get raw ''proposal_id'' JNull) then py_str E (raw_get raw ''proposal_id'' JNull)
         else ''proposal:'' @ take 24 (after_colon (sha256_json E (JObj raw))))),
      (''proposal_type'', JStr ty), (''payload'', JObj payload), (''rationale'', JStr rationale),
      (''confidence'', JFloat confidence), (''model_lineage'', JStr lineage),
      (''input_sha256'', JStr (sha256_json E (JObj context))), (''binding_authority'', JBool False)]"

definition check_proposal :: "pyenv \<Rightarrow> string \<Rightarrow> obj \<Rightarrow> obj \<Rightarrow> sup_error + obj" where
  "check_proposal E lineage context raw =
     (let forbidden = sorted_set (forbidden_paths (JObj raw) []); authority = raw_get raw ''binding_authority'' JNull in
      require (forbidden = []) (PropError (''provider attempted to emit authority fields: '' @ join '', '' forbidden)) (
      require (case authority of JObj _ \<Rightarrow> False | JArr _ \<Rightarrow> False | _ \<Rightarrow> True) SupMalformed (
      require (authority = JNull \<or> jeq authority (JBool False)) (PropError ''C1 proposal cannot carry binding authority'') (
      let ty = py_upper (py_str E (raw_get raw ''proposal_type'' (JStr []))) in
      (case map_of proposal_requirements ty of
         None \<Rightarrow> Inl (PropError (''unsupported operations proposal: '' @ (if ty = [] then ''<missing>'' else ty)))
       | Some required \<Rightarrow>
           (case raw_get raw ''payload'' (JObj []) of
              JObj payload \<Rightarrow>
                (let missing = sorted_set (filter (\<lambda>k. dict_get payload k = None) required);
                     rationale = py_strip (py_str E (raw_get raw ''rationale'' (JStr []))) in
                 require (missing = []) (PropError (''proposal payload is missing: '' @ join '', '' missing)) (
                 require (10 \<le> length rationale \<and> length rationale \<le> 10000)
                   (PropError ''proposal rationale must contain between 10 and 10000 characters'') (
                 rbind (proposal_confidence (raw_get raw ''confidence'' JNull)) (\<lambda>confidence.
                 let core = proposal_core E lineage context raw ty payload rationale confidence in
                 Inr (dict_put ''proposal_sha256'' (JStr (sha256_json E (JObj core))) core)))))
            | _ \<Rightarrow> Inl (PropError ''proposal payload must be an object'')))))))"

definition adapter_propose :: "pyenv \<Rightarrow> (obj \<Rightarrow> sup_error + json) \<Rightarrow> string \<Rightarrow> obj \<Rightarrow> sup_error + obj" where
  "adapter_propose E provider lineage context =
     rbind (provider context) (\<lambda>raw.
       (case raw of
          JObj m \<Rightarrow> check_proposal E lineage context m
        | _ \<Rightarrow> Inl (PropError ''provider output must be an object'')))"

text \<open>The reference provider: the first assignment that can be dispatched, or nothing.\<close>

definition abstention :: json where
  "abstention = mk_obj
     [(''proposal_type'', JStr ''ABSTAIN''), (''payload'', JObj []),
      (''rationale'', JStr ''No currently ready and feasible operational assignment was identified.''),
      (''confidence'', JFloat (Fin 1)), (''binding_authority'', JBool False)]"

definition sup_key :: "obj \<Rightarrow> string \<Rightarrow> sup_error + json" where
  "sup_key m k = (case dict_get m k of None \<Rightarrow> Inl SupMalformed | Some v \<Rightarrow> Inr v)"

definition dispatch_answer :: "obj \<Rightarrow> sup_error + json" where
  "dispatch_answer row =
     rbind (sup_key row ''plan_id'') (\<lambda>p. rbind (sup_key row ''step_id'') (\<lambda>s. rbind (sup_key row ''recommended_agent_id'') (\<lambda>a.
       Inr (mk_obj [(''proposal_type'', JStr ''DISPATCH_STEP''),
         (''payload'', mk_obj [(''plan_id'', p), (''step_id'', s), (''agent_id'', a)]),
         (''rationale'', JStr ''The step is ready, resources are feasible, and the agent has capacity.''),
         (''confidence'', JFloat (Fin 1)), (''binding_authority'', JBool False)]))))"

fun first_dispatchable :: "json list \<Rightarrow> sup_error + json" where
  "first_dispatchable [] = Inr abstention"
| "first_dispatchable (row # rows) = (case row of
     JObj m \<Rightarrow> if truthy (raw_get m ''dispatchable'' JNull) then dispatch_answer m else first_dispatchable rows
   | _ \<Rightarrow> Inl SupMalformed)"

definition shadow_provider :: "obj \<Rightarrow> sup_error + json" where
  "shadow_provider context =
     first_dispatchable (case raw_get context ''assignment_proposals'' (JArr []) of JArr rows \<Rightarrow> rows | _ \<Rightarrow> [])"

section \<open>The store of shadow cycles\<close>

record shadow_cycle =
  sc_id :: string
  sc_tenant :: string
  sc_world :: string
  sc_version :: int
  sc_state :: string
  sc_context :: string
  sc_proposal :: obj

definition enc_cycle :: "shadow_cycle \<Rightarrow> json" where
  "enc_cycle c = mk_obj
     [(''cycle_id'', JStr (sc_id c)), (''tenant_id'', JStr (sc_tenant c)), (''world_id'', JStr (sc_world c)),
      (''world_version'', JInt (sc_version c)), (''world_state_sha256'', JStr (sc_state c)),
      (''context_sha256'', JStr (sc_context c)), (''proposal'', JObj (sc_proposal c)), (''executed'', JBool False),
      (''binding_authority'', JBool False)]"

record cycle_row =
  cy_id :: string
  cy_cycle :: shadow_cycle
  cy_proposal_sha :: json
  cy_request :: string
  cy_status :: string
  cy_created :: string

definition find_cycle :: "cycle_row list \<Rightarrow> string \<Rightarrow> cycle_row option" where
  "find_cycle db i = List.find (\<lambda>r. cy_id r = i) db"

definition record_cycle :: "pyenv \<Rightarrow> string \<Rightarrow> shadow_cycle \<Rightarrow> string option \<Rightarrow> cycle_row list
    \<Rightarrow> sup_error + (cycle_row list \<times> cycle_row)" where
  "record_cycle E now cycle timestamp db =
     (let i = py_strip (sc_id cycle); request = sha256_json E (enc_cycle cycle) in
      require (i \<noteq> []) (SupError ''cycle_id is required'')
        (case find_cycle db i of
           Some r \<Rightarrow> require (cy_request r = request) (SupError ''cycle identity is already bound to different content'')
             (Inr (db, r))
         | None \<Rightarrow>
             rbind (sup_key (sc_proposal cycle) ''proposal_sha256'') (\<lambda>sha.
             let r = \<lparr>cy_id = i, cy_cycle = cycle, cy_proposal_sha = sha, cy_request = request, cy_status = ''SHADOW_ONLY'',
                   cy_created = or_now timestamp now\<rparr> in
             Inr (db @ [r], r))))"

definition list_cycles :: "string \<Rightarrow> string \<Rightarrow> cycle_row list \<Rightarrow> cycle_row list" where
  "list_cycles t w db = sort_key (\<lambda>r. (cy_created r, cy_id r))
     (filter (\<lambda>r. sc_tenant (cy_cycle r) = t \<and> sc_world (cy_cycle r) = w) db)"

definition count_cycles :: "cycle_row list \<Rightarrow> nat" where
  "count_cycles db = length db"

section \<open>One cycle\<close>

text \<open>
  \<open>_snapshot\<close> and \<open>operational_state\<close>: the world with its operations, which must be initialized. The
  records that the queries work on are the ones the operations encode.
\<close>

definition control_snapshot :: "string \<Rightarrow> string \<Rightarrow> wdb \<Rightarrow> ops_error + (snapshot \<times> obj)" where
  "control_snapshot t w db =
     rbind (lift_world (get_world t w db)) (\<lambda>sn.
       (case dict_get (sn_state sn) ''operations'' of
          Some (JObj m) \<Rightarrow>
            require (dict_get m ''schema_version'' = Some (JStr ''edon-operational-state.v1''))
              (OpsError ''world does not contain initialized EDON operational state'') (Inr (sn, m))
        | _ \<Rightarrow> Inl (OpsError ''world does not contain initialized EDON operational state'')))"

definition enc_ready :: "ready \<Rightarrow> json" where
  "enc_ready r = mk_obj
     [(''plan_id'', JStr (rd_plan r)), (''goal_id'', JStr (rd_goal r)), (''step'', enc_step (rd_step r)),
      (''goal_priority'', JInt (rd_priority r)), (''binding_authority'', JBool False)]"

definition enc_assignment :: "assignment \<Rightarrow> json" where
  "enc_assignment a = mk_obj
     [(''proposal_id'', JStr (as_id a)), (''plan_id'', JStr (as_plan a)), (''goal_id'', JStr (as_goal a)),
      (''step_id'', JStr (as_step a)), (''recommended_agent_id'', opt_str (as_agent a)),
      (''resource_feasible'', JBool (as_feasible a)), (''dispatchable'', JBool (as_dispatchable a)),
      (''binding_authority'', JBool False)]"

definition cycle_context :: "pyenv \<Rightarrow> string \<Rightarrow> string \<Rightarrow> string \<Rightarrow> string option \<Rightarrow> ops \<Rightarrow> wdb
    \<Rightarrow> sup_error + (snapshot \<times> obj)" where
  "cycle_context E now t w when s db =
     rbind (lift_ops (control_snapshot t w db)) (\<lambda>(sn, operations).
     rbind (lift_ops (monitor E now when s)) (\<lambda>alerts.
     rbind (lift_ops (ready_steps E now when s)) (\<lambda>ready.
     rbind (lift_ops (assignment_proposals E now when s)) (\<lambda>assignments.
       Inr (sn, dict_of
         [(''schema_version'', JStr ''edon-shadow-supervisor-context.v1''), (''tenant_id'', JStr t), (''world_id'', JStr w),
          (''world_version'', JInt (sn_version sn)), (''world_state_sha256'', JStr (sn_sha sn)),
          (''operations'', JObj operations), (''alerts'', JArr (map enc_alert alerts)),
          (''ready_steps'', JArr (map enc_ready ready)), (''assignment_proposals'', JArr (map enc_assignment assignments)),
          (''mode'', JStr ''SHADOW''), (''binding_authority'', JBool False)])))))"

definition run_cycle :: "pyenv \<Rightarrow> string \<Rightarrow> (obj \<Rightarrow> sup_error + json) \<Rightarrow> string \<Rightarrow> string \<Rightarrow> string \<Rightarrow> string
    \<Rightarrow> string option \<Rightarrow> ops \<Rightarrow> wdb \<Rightarrow> cycle_row list \<Rightarrow> sup_error + (cycle_row list \<times> cycle_row)" where
  "run_cycle E now provider lineage t w cycle_id when s db cycles =
     rbind (cycle_context E now t w when s db) (\<lambda>(sn, context).
     rbind (adapter_propose E provider lineage context) (\<lambda>proposal.
       record_cycle E now \<lparr>sc_id = cycle_id, sc_tenant = t, sc_world = w, sc_version = sn_version sn, sc_state = sn_sha sn,
         sc_context = sha256_json E (JObj context), sc_proposal = proposal\<rparr> when cycles))"

text \<open>Runs of the store under the supervisor, with any provider, world and time.\<close>

inductive shadow_run :: "pyenv \<Rightarrow> cycle_row list \<Rightarrow> cycle_row list \<Rightarrow> bool" for E where
  sr_refl: "shadow_run E db db"
| sr_cycle: "shadow_run E db0 db \<Longrightarrow> control_run E t w wdb s \<Longrightarrow>
    run_cycle E now provider lineage t w i when s wdb db = Inr (db', r) \<Longrightarrow> shadow_run E db0 db'"

end
