(* ===== verification/SupervisorProps.thy ===== *)
theory SupervisorProps
  imports Supervisor
begin

text \<open>
  What the supervisor promises: whatever a provider answers, a stored cycle holds a typed
  proposal without any field of authority at any depth, and stored cycles never change.
\<close>

section \<open>The firewall\<close>

text \<open>The members of a value at any depth.\<close>

inductive has_member :: "json \<Rightarrow> string \<Rightarrow> json \<Rightarrow> bool" where
  member_here: "(k, v) \<in> set ms \<Longrightarrow> has_member (JObj ms) k v"
| member_object: "(l, c) \<in> set ms \<Longrightarrow> has_member c k v \<Longrightarrow> has_member (JObj ms) k v"
| member_list: "x \<in> set xs \<Longrightarrow> has_member x k v \<Longrightarrow> has_member (JArr xs) k v"

definition carries_authority :: "json \<Rightarrow> bool" where
  "carries_authority j \<longleftrightarrow>
     (\<exists>k v. has_member j k v \<and> (k \<in> set forbidden_fields \<or> k = ''binding_authority'' \<and> v = JBool True))"

lemma forbidden_members_Nil:
  "forbidden_members ms prefix = [] \<Longrightarrow> (k, c) \<in> set ms \<Longrightarrow>
     k \<notin> set forbidden_fields \<and> \<not> (k = ''binding_authority'' \<and> c = JBool True) \<and> (\<exists>p. forbidden_paths c p = [])"
  by (induction ms) (auto simp: Let_def split: if_splits)

lemma forbidden_items_Nil: "forbidden_items xs i prefix = [] \<Longrightarrow> x \<in> set xs \<Longrightarrow> \<exists>p. forbidden_paths x p = []"
  by (induction xs arbitrary: i) auto

lemma forbidden_paths_Nil:
  "has_member j k v \<Longrightarrow> forbidden_paths j prefix = [] \<Longrightarrow>
     k \<notin> set forbidden_fields \<and> \<not> (k = ''binding_authority'' \<and> v = JBool True)"
proof (induction arbitrary: prefix rule: has_member.induct)
  case (member_here k v ms)
  then show ?case using forbidden_members_Nil [of ms prefix k v] by simp
next
  case (member_object l c ms k v)
  then show ?case using forbidden_members_Nil [of ms prefix l c] by auto
next
  case (member_list x xs k v)
  then show ?case using forbidden_items_Nil [of xs 0 prefix x] by auto
qed

lemma no_authority: "forbidden_paths j prefix = [] \<Longrightarrow> \<not> carries_authority j"
  unfolding carries_authority_def using forbidden_paths_Nil by blast

text \<open>What a checked proposal is.\<close>

definition proposal_ok :: "pyenv \<Rightarrow> obj \<Rightarrow> string \<Rightarrow> bool" where
  "proposal_ok E p context_sha \<longleftrightarrow>
     (\<exists>ty required payload confidence. map_of proposal_requirements ty = Some required \<and>
        dict_get p ''proposal_type'' = Some (JStr ty) \<and> dict_get p ''payload'' = Some (JObj payload) \<and>
        (\<forall>k \<in> set required. dict_get payload k \<noteq> None) \<and> \<not> carries_authority (JObj payload) \<and>
        dict_get p ''confidence'' = Some (JFloat confidence) \<and>
        \<not> flt_less confidence (Fin 0) \<and> \<not> flt_less (Fin 1) confidence) \<and>
     dict_get p ''input_sha256'' = Some (JStr context_sha) \<and> dict_get p ''binding_authority'' = Some (JBool False)"

lemma proposal_core_get:
  "dict_get (proposal_core E lineage context raw ty payload rationale confidence) ''proposal_type'' = Some (JStr ty)"
  "dict_get (proposal_core E lineage context raw ty payload rationale confidence) ''payload'' = Some (JObj payload)"
  "dict_get (proposal_core E lineage context raw ty payload rationale confidence) ''confidence'' = Some (JFloat confidence)"
  "dict_get (proposal_core E lineage context raw ty payload rationale confidence) ''input_sha256'' =
     Some (JStr (sha256_json E (JObj context)))"
  "dict_get (proposal_core E lineage context raw ty payload rationale confidence) ''binding_authority'' = Some (JBool False)"
  by (simp_all add: proposal_core_def dict_of_def)

lemma sorted_set_empty: "sorted_set xs = [] \<longleftrightarrow> xs = []"
  by (metis set_empty sorted_set_simps(1))

lemma raw_get_obj: "raw_get m k (JObj []) = JObj p \<Longrightarrow> p = [] \<or> dict_get m k = Some (JObj p)"
  by (auto simp: raw_get_def split: option.splits)

lemma check_proposal_ok:
  assumes "check_proposal E lineage context raw = Inr p"
  shows "proposal_ok E p (sha256_json E (JObj context))"
proof -
  obtain ty required payload rationale confidence where
      clean: "sorted_set (forbidden_paths (JObj raw) []) = []"
    and ty: "map_of proposal_requirements ty = Some required"
    and payload: "raw_get raw ''payload'' (JObj []) = JObj payload"
    and missing: "sorted_set (filter (\<lambda>k. dict_get payload k = None) required) = []"
    and conf: "proposal_confidence (raw_get raw ''confidence'' JNull) = Inr confidence"
    and p: "p = dict_put ''proposal_sha256''
        (JStr (sha256_json E (JObj (proposal_core E lineage context raw ty payload rationale confidence))))
        (proposal_core E lineage context raw ty payload rationale confidence)"
    using assms unfolding check_proposal_def Let_def
    by (auto simp: require_eq_Inr rbind_eq_Inr split: option.splits json.splits)
  have "\<not> carries_authority (JObj payload)"
  proof
    assume c: "carries_authority (JObj payload)"
    then have "payload \<noteq> []" by (auto simp: carries_authority_def elim: has_member.cases)
    then have "(''payload'', JObj payload) \<in> set raw"
      using raw_get_obj [OF payload] by (blast dest: dict_get_Some_in)
    with c have "carries_authority (JObj raw)"
      unfolding carries_authority_def by (blast intro: member_object)
    moreover have "\<not> carries_authority (JObj raw)"
      using clean by (simp add: sorted_set_empty no_authority)
    ultimately show False by blast
  qed
  moreover have "\<forall>k \<in> set required. dict_get payload k \<noteq> None"
    using missing by (auto simp: sorted_set_empty filter_empty_conv)
  moreover have "\<not> flt_less confidence (Fin 0)" "\<not> flt_less (Fin 1) confidence"
    using conf by (auto simp: proposal_confidence_def result_simps)
  ultimately show ?thesis
    using ty by (simp add: proposal_ok_def p proposal_core_get)
qed

lemma adapter_propose_ok:
  assumes "adapter_propose E provider lineage ctx = Inr p"
  shows "proposal_ok E p (sha256_json E (JObj ctx))"
proof -
  obtain raw where "provider ctx = Inr raw" and "(case raw of JObj m \<Rightarrow> check_proposal E lineage ctx m
      | _ \<Rightarrow> Inl (PropError ''provider output must be an object'')) = Inr p"
    using assms by (auto simp: adapter_propose_def rbind_eq_Inr)
  then show ?thesis by (cases raw) (auto intro: check_proposal_ok)
qed

section \<open>Runs\<close>

definition cycle_ok :: "pyenv \<Rightarrow> cycle_row \<Rightarrow> bool" where
  "cycle_ok E r \<longleftrightarrow> cy_status r = ''SHADOW_ONLY'' \<and> proposal_ok E (sc_proposal (cy_cycle r)) (sc_context (cy_cycle r))"

lemma find_cycle_None: "find_cycle db i = None \<longleftrightarrow> i \<notin> cy_id ` set db"
  by (auto simp: find_cycle_def find_None_iff')

lemma record_cycle_D:
  assumes "record_cycle E now c ts db = Inr (db', r)"
  shows "r \<in> set db' \<and> cy_request r = sha256_json E (enc_cycle c) \<and>
    (db' = db \<or> db' = db @ [r] \<and> cy_id r \<notin> cy_id ` set db \<and> cy_cycle r = c \<and> cy_status r = ''SHADOW_ONLY'')"
  using assms unfolding record_cycle_def Let_def
  by (auto simp: result_simps find_cycle_None [symmetric] split: option.splits dest: find_Some_D simp: find_cycle_def)

lemma run_cycle_D:
  assumes "run_cycle E now provider lineage t w i when s wdb db = Inr (db', r)"
  shows "db' = db \<or> (db' = db @ [r] \<and> cy_id r \<notin> cy_id ` set db \<and> cycle_ok E r)"
proof -
  obtain sn :: snapshot and ctx proposal where
      "adapter_propose E provider lineage ctx = Inr proposal"
    and rec: "record_cycle E now \<lparr>sc_id = i, sc_tenant = t, sc_world = w, sc_version = sn_version sn,
         sc_state = sn_sha sn, sc_context = sha256_json E (JObj ctx), sc_proposal = proposal\<rparr> when db = Inr (db', r)"
    using assms unfolding run_cycle_def by (auto simp: rbind_eq_Inr)
  then have "proposal_ok E proposal (sha256_json E (JObj ctx))" by (blast intro: adapter_propose_ok)
  with record_cycle_D [OF rec] show ?thesis by (auto simp: cycle_ok_def)
qed

lemma shadow_run_grows:
  "shadow_run E db0 db \<Longrightarrow> \<exists>new. db = db0 @ new \<and> distinct (map cy_id new) \<and> cy_id ` set new \<inter> cy_id ` set db0 = {} \<and>
     (\<forall>r \<in> set new. cycle_ok E r)"
proof (induction rule: shadow_run.induct)
  case (sr_cycle db0 db t w wdb s now provider lineage i at0 db' r)
  then obtain new where new: "db = db0 @ new" "distinct (map cy_id new)" "cy_id ` set new \<inter> cy_id ` set db0 = {}"
      "\<forall>r \<in> set new. cycle_ok E r" by blast
  from run_cycle_D [OF sr_cycle(3)] show ?case
  proof
    assume "db' = db"
    with new show ?case by blast
  next
    assume "db' = db @ [r] \<and> cy_id r \<notin> cy_id ` set db \<and> cycle_ok E r"
    with new show ?case by (intro exI [of _ "new @ [r]"]) auto
  qed
qed simp

text \<open>
  C25. Whatever the providers answer, the cycles that the supervisor stores are custody of
  proposals only: earlier rows stay as they are, every cycle identity occurs once, and each new row
  is shadow-only and holds a proposal of a known type with its required fields, a confidence that
  is not outside zero to one, the hash of the context it was made for, no binding authority, and a
  payload in which no field at any depth carries authority.
\<close>

theorem shadow_cycles_carry_no_authority:
  assumes "shadow_run E db0 db"
  shows "\<exists>new. db = db0 @ new \<and> distinct (map cy_id new) \<and> cy_id ` set new \<inter> cy_id ` set db0 = {} \<and>
    (\<forall>r \<in> set new. cy_status r = ''SHADOW_ONLY'' \<and>
       (\<exists>ty required payload confidence. map_of proposal_requirements ty = Some required \<and>
          dict_get (sc_proposal (cy_cycle r)) ''proposal_type'' = Some (JStr ty) \<and>
          dict_get (sc_proposal (cy_cycle r)) ''payload'' = Some (JObj payload) \<and>
          (\<forall>k \<in> set required. dict_get payload k \<noteq> None) \<and> \<not> carries_authority (JObj payload) \<and>
          dict_get (sc_proposal (cy_cycle r)) ''confidence'' = Some (JFloat confidence) \<and>
          \<not> flt_less confidence (Fin 0) \<and> \<not> flt_less (Fin 1) confidence) \<and>
       dict_get (sc_proposal (cy_cycle r)) ''input_sha256'' = Some (JStr (sc_context (cy_cycle r))) \<and>
       dict_get (sc_proposal (cy_cycle r)) ''binding_authority'' = Some (JBool False))"
  using shadow_run_grows [OF assms] unfolding cycle_ok_def proposal_ok_def by blast

end
