(* ===== verification/SupervisorExamples.thy ===== *)
theory SupervisorExamples
  imports SupervisorProps ControlExamples
begin

text \<open>One cycle of the supervisor on a bootstrapped world, with a provider that abstains.\<close>

definition sx_boot :: "wdb \<times> snapshot" where
  "sx_boot = (case bootstrap_world mem_env t00 ''t'' ''w'' (JObj []) ''a'' ''k'' [] None init_wdb of
     Inr p \<Rightarrow> p | Inl _ \<Rightarrow> undefined)"

lemma sx_booted: "bootstrap_world mem_env t00 ''t'' ''w'' (JObj []) ''a'' ''k'' [] None init_wdb = Inr sx_boot"
  using cd_run by (auto simp: sx_boot_def rbind_eq_Inr)

lemma sx_control: "control_run mem_env ''t'' ''w'' (fst sx_boot) (operational_state 0)"
proof (rule control_run.cr_start)
  show "bootstrap_world mem_env t00 ''t'' ''w'' (JObj []) ''a'' ''k'' [] None init_wdb = Inr (fst sx_boot, snd sx_boot)"
    using sx_booted by simp
qed (simp_all add: init_wdb_def find_world_def eval_simps or_now_def stripped_id_def)

lemma sx_holds: "holds (fst sx_boot) ''t'' ''w'' (operational_state 0)"
  using control_run_holds [OF sx_control] by blast

lemma sx_queries:
  "monitor mem_env t00 None (operational_state 0) = Inr []"
  "ready_steps mem_env t00 None (operational_state 0) = Inr []"
  "assignment_proposals mem_env t00 None (operational_state 0) = Inr []"
  by (simp_all add: monitor_def ready_steps_def assignment_proposals_def initial_load_def operational_state_def eval_simps or_now_def)

lemma sx_context: "\<exists>p. cycle_context mem_env t00 ''t'' ''w'' None (operational_state 0) (fst sx_boot) = Inr p"
proof -
  obtain x where "find_world (fst sx_boot) ''t'' ''w'' = Some x"
      "dict_get (w_state x) ''operations'' = Some (enc_ops (operational_state 0))"
    using sx_holds by (auto simp: holds_def)
  moreover have "world_identifier l ''t'' = Inr ''t''" "world_identifier l ''w'' = Inr ''w''" for l
    by (simp_all add: world_identifier_def ident_check_def py_strip_def is_space_def)
  moreover have "dict_get (enc_fields (operational_state 0)) ''schema_version'' = Some (JStr ''edon-operational-state.v1'')"
    by (simp add: enc_fields_def dict_of_def)
  ultimately show ?thesis
    by (simp add: cycle_context_def control_snapshot_def get_world_def lift_world_def lift_ops_def snapshot_of_world_def
        sx_queries enc_ops_def)
qed

lemma sx_checked: "\<exists>m p. abstention = JObj m \<and> check_proposal mem_env ''model'' ctx m = Inr p \<and>
    dict_get p ''proposal_sha256'' \<noteq> None"
proof -
  have "py_strip s = s" if "s = ''No currently ready and feasible operational assignment was identified.''" for s
    unfolding that by code_simp
  moreover have "py_upper ''ABSTAIN'' = ''ABSTAIN''" by code_simp
  ultimately show ?thesis
    by (simp add: abstention_def mk_obj_def dict_of_def check_proposal_def Let_def raw_get_def forbidden_fields_def py_str_def
        proposal_requirements_def proposal_confidence_def jnum_eq_def jnum_def)
qed

lemma sx_run: "\<exists>db r. run_cycle mem_env t00 (\<lambda>_. Inr abstention) ''model'' ''t'' ''w'' ''c1'' None (operational_state 0)
    (fst sx_boot) [] = Inr (db, r) \<and> cy_id r = ''c1'' \<and> db = [r]"
proof -
  obtain sn :: snapshot and ctx where ctx: "cycle_context mem_env t00 ''t'' ''w'' None (operational_state 0) (fst sx_boot) = Inr (sn, ctx)"
    using sx_context by auto
  obtain m p where m: "abstention = JObj m" "check_proposal mem_env ''model'' ctx m = Inr p"
      "dict_get p ''proposal_sha256'' \<noteq> None"
    using sx_checked by blast
  have "adapter_propose mem_env (\<lambda>_. Inr abstention) ''model'' ctx = Inr p"
    unfolding adapter_propose_def m(1) by (simp add: m(2))
  moreover obtain sha where "dict_get p ''proposal_sha256'' = Some sha" using m(3) by blast
  moreover have "py_strip ''c1'' = ''c1''" by code_simp
  ultimately show ?thesis
    by (simp add: ctx run_cycle_def record_cycle_def find_cycle_def sup_key_def Let_def)
qed

theorem shadow_cycles_carry_no_authority_witness:
  "\<exists>db r. shadow_run mem_env [] db \<and> r \<in> set db \<and> cy_id r = ''c1'' \<and> cy_status r = ''SHADOW_ONLY''"
proof -
  obtain db r where run: "run_cycle mem_env t00 (\<lambda>_. Inr abstention) ''model'' ''t'' ''w'' ''c1'' None (operational_state 0)
      (fst sx_boot) [] = Inr (db, r)" "cy_id r = ''c1''" "db = [r]"
    using sx_run by blast
  have "shadow_run mem_env [] db" by (rule sr_cycle [OF sr_refl sx_control run(1)])
  with shadow_cycles_carry_no_authority [OF this] run(2,3) show ?thesis by auto
qed

end
