(* ===== verification/StateEngine.thy ===== *)
theory StateEngine
  imports Provenance "HOL-Library.Product_Lexorder"
begin

text \<open>
  The institutional state engine (\<open>src/src/edon/cerebrum/state_engine.py\<close>): assertions about the
  state of a world are kept apart by class (observed, reported, inferred, authorized, committed),
  and a projection for a decision time selects, for every class and path, the latest assertion
  that was available to the controller by then. An assertion is a JSON object; times are kept as
  the ISO texts that the code compares.
\<close>

section \<open>Assertions\<close>

text \<open>A \<open>StateEngineError\<close> with its message, or an error of the language.\<close>

datatype state_error = StateError string | StateMalformed

definition state_classes :: "string list" where
  "state_classes = [''AUTHORIZED'', ''COMMITTED'', ''INFERRED'', ''OBSERVED'', ''REPORTED'']"

record assertion =
  sa_id :: string
  sa_tenant :: string
  sa_world :: string
  sa_class :: string
  sa_path :: "string list"
  sa_value :: json
  sa_occurred :: string
  sa_recorded :: string
  sa_available :: string
  sa_source :: string
  sa_confidence :: flt
  sa_provenance :: json
  sa_lineage :: "string option"
  sa_auth :: "json option"
  sa_version :: "json option"
  sa_committed :: "json option"
  sa_sha :: string

record engine =
  se_tenant :: string
  se_world :: string
  se_assertions :: "(string, assertion) dict"

text \<open>\<open>str(value or "").strip()\<close>.\<close>

definition state_text :: "pyenv \<Rightarrow> json \<Rightarrow> string" where
  "state_text E v = py_strip (if truthy v then py_str E v else [])"

definition state_identifier :: "pyenv \<Rightarrow> string \<Rightarrow> json \<Rightarrow> state_error + string" where
  "state_identifier E label v =
     (let n = state_text E v in
      require (n \<noteq> [] \<and> length n \<le> 200) (StateError (label @ '' must contain between 1 and 200 characters'')) (Inr n))"

definition state_time :: "pyenv \<Rightarrow> string \<Rightarrow> json \<Rightarrow> state_error + string" where
  "state_time E label v = (case iso_parse E (zulu (py_str E v)) of
     TsBad \<Rightarrow> Inl (StateError (label @ '' must be an ISO-8601 timestamp''))
   | TsNaive \<Rightarrow> Inl (StateError (label @ '' must include a timezone''))
   | TsOverflow \<Rightarrow> Inl StateMalformed
   | TsAware t \<Rightarrow> Inr (isoformat t))"

definition state_json :: "string \<Rightarrow> json \<Rightarrow> state_error + json" where
  "state_json label v = require (json_finite v) (StateError (label @ '' must contain finite JSON values'')) (Inr v)"

definition state_sha256 :: "pyenv \<Rightarrow> string \<Rightarrow> json \<Rightarrow> state_error + json" where
  "state_sha256 E label v =
     (let n = state_text E v; e = StateError (label @ '' must be a prefixed SHA-256 digest'') in
      require (take 7 n = ''sha256:'' \<and> length n = 71) e (require (hex_literal (drop 7 n)) e (Inr (JStr n))))"

definition state_path :: "pyenv \<Rightarrow> json \<Rightarrow> state_error + string list" where
  "state_path E v = (case v of
     JArr (x # xs) \<Rightarrow> traverse (state_identifier E ''state_path item'') (x # xs)
   | _ \<Rightarrow> Inl (StateError ''state_path must be a non-empty array''))"

text \<open>The JSON Pointer of a path.\<close>

definition escape_item :: "string \<Rightarrow> string" where
  "escape_item s = concat (map (\<lambda>c. if c = CHR ''~'' then ''~0'' else if c = CHR ''/'' then ''~1'' else [c]) s)"

definition path_key :: "string list \<Rightarrow> string" where
  "path_key path = ''/'' @ join ''/'' (map escape_item path)"

definition assertion_fields :: "assertion \<Rightarrow> (string \<times> json) list" where
  "assertion_fields a =
     [(''schema_version'', JStr ''edon-cerebrum-state-assertion.v1''), (''assertion_id'', JStr (sa_id a)),
      (''tenant_id'', JStr (sa_tenant a)), (''world_id'', JStr (sa_world a)), (''state_class'', JStr (sa_class a)),
      (''state_path'', jstrs (sa_path a)), (''value'', sa_value a), (''occurred_at'', JStr (sa_occurred a)),
      (''recorded_at'', JStr (sa_recorded a)), (''available_to_controller_at'', JStr (sa_available a)),
      (''source_ref'', JStr (sa_source a)), (''confidence'', JFloat (sa_confidence a)),
      (''provenance'', sa_provenance a), (''binding_authority'', JBool False)]
     @ (case sa_lineage a of None \<Rightarrow> [] | Some s \<Rightarrow> [(''model_lineage'', JStr s)])
     @ (case sa_auth a of None \<Rightarrow> [] | Some v \<Rightarrow> [(''authorization_ref_sha256'', v)])
     @ (case sa_version a of None \<Rightarrow> [] | Some v \<Rightarrow> [(''world_version'', v)])
     @ (case sa_committed a of None \<Rightarrow> [] | Some v \<Rightarrow> [(''committed_state_sha256'', v)])"

definition enc_assertion :: "assertion \<Rightarrow> json" where
  "enc_assertion a = mk_obj (assertion_fields a @ [(''assertion_sha256'', JStr (sa_sha a))])"

definition seal_assertion :: "pyenv \<Rightarrow> assertion \<Rightarrow> assertion" where
  "seal_assertion E a = a\<lparr>sa_sha := sha256_json E (mk_obj (assertion_fields a))\<rparr>"

section \<open>Ingestion\<close>

definition new_engine :: "pyenv \<Rightarrow> json \<Rightarrow> json \<Rightarrow> state_error + engine" where
  "new_engine E tenant_id world_id =
     rbind (state_identifier E ''tenant_id'' tenant_id) (\<lambda>t.
     rbind (state_identifier E ''world_id'' world_id) (\<lambda>w.
       Inr \<lparr>se_tenant = t, se_world = w, se_assertions = []\<rparr>))"

definition field :: "obj \<Rightarrow> string \<Rightarrow> json \<Rightarrow> json" where
  "field m k d = (case dict_get m k of None \<Rightarrow> d | Some v \<Rightarrow> v)"

definition given_json :: "json \<Rightarrow> json option" where
  "given_json v = (if v = JNull then None else Some v)"

text \<open>The three times, in the order in which they happen.\<close>

definition assertion_times :: "pyenv \<Rightarrow> obj \<Rightarrow> state_error + (string \<times> string \<times> string)" where
  "assertion_times E m =
     rbind (state_time E ''occurred_at'' (field m ''occurred_at'' JNull)) (\<lambda>occurred.
     rbind (state_time E ''recorded_at'' (field m ''recorded_at'' JNull)) (\<lambda>recorded.
     rbind (state_time E ''available_to_controller_at'' (field m ''available_to_controller_at'' JNull)) (\<lambda>available.
     require (occurred \<le> recorded) (StateError ''recorded_at cannot precede occurred_at'') (
     require (recorded \<le> available) (StateError ''available_to_controller_at cannot precede recorded_at'')
       (Inr (occurred, recorded, available))))))"

definition assertion_confidence :: "json \<Rightarrow> state_error + flt" where
  "assertion_confidence v =
     rbind (case v of
         JInt i \<Rightarrow> (case float_of_int i of None \<Rightarrow> Inl StateMalformed | Some x \<Rightarrow> Inr x)
       | JFloat x \<Rightarrow> Inr x
       | _ \<Rightarrow> Inl (StateError ''confidence must be numeric'')) (\<lambda>x.
     require (flt_le (Fin 0) x \<and> flt_le x (Fin 1)) (StateError ''confidence must be between 0 and 1'') (Inr x))"

text \<open>What a class requires: the lineage of an inference, the authorization, the committed state.\<close>

definition class_evidence :: "pyenv \<Rightarrow> string \<Rightarrow> obj \<Rightarrow> state_error + (json \<times> json \<times> json \<times> json)" where
  "class_evidence E cls m =
     (let lineage = field m ''model_lineage'' JNull; auth = field m ''authorization_ref_sha256'' JNull;
          version = field m ''world_version'' JNull; committed = field m ''committed_state_sha256'' JNull in
      require (cls = ''INFERRED'' \<longrightarrow> state_text E lineage \<noteq> []) (StateError ''INFERRED state requires model_lineage'') (
      rbind (if cls \<in> {''AUTHORIZED'', ''COMMITTED''} then state_sha256 E ''authorization_ref_sha256'' auth else Inr auth) (\<lambda>auth.
      if cls = ''COMMITTED'' then
        require (case version of JInt i \<Rightarrow> 0 \<le> i | _ \<Rightarrow> False)
          (StateError ''COMMITTED state requires a non-negative world_version'') (
        rbind (state_sha256 E ''committed_state_sha256'' committed) (\<lambda>committed. Inr (lineage, auth, version, committed)))
      else Inr (lineage, auth, version, committed))))"

definition normalize_assertion :: "pyenv \<Rightarrow> engine \<Rightarrow> json \<Rightarrow> state_error + assertion" where
  "normalize_assertion E e assertion = (case assertion of
     JObj m \<Rightarrow>
       (let authority = field m ''binding_authority'' JNull in
        require (case authority of JObj _ \<Rightarrow> False | JArr _ \<Rightarrow> False | _ \<Rightarrow> True) StateMalformed (
        require (authority = JNull \<or> jeq authority (JBool False))
          (StateError ''a state assertion cannot carry binding authority'') (
        rbind (state_identifier E ''tenant_id'' (field m ''tenant_id'' (JStr (se_tenant e)))) (\<lambda>t.
        rbind (state_identifier E ''world_id'' (field m ''world_id'' (JStr (se_world e)))) (\<lambda>w.
        require (t = se_tenant e \<and> w = se_world e)
          (StateError ''state assertion tenant or world does not match the engine'') (
        let cls = py_upper (py_str E (field m ''state_class'' (JStr []))) in
        require (cls \<in> set state_classes)
          (StateError (''unsupported state_class: '' @ (if cls = [] then ''<missing>'' else cls))) (
        rbind (assertion_times E m) (\<lambda>(occurred, recorded, available).
        rbind (assertion_confidence (field m ''confidence'' JNull)) (\<lambda>confidence.
        rbind (class_evidence E cls m) (\<lambda>(lineage, auth, version, committed).
        rbind (state_identifier E ''assertion_id'' (field m ''assertion_id'' JNull)) (\<lambda>i.
        rbind (state_path E (field m ''state_path'' JNull)) (\<lambda>path.
        rbind (state_json ''value'' (field m ''value'' JNull)) (\<lambda>v.
        rbind (state_identifier E ''source_ref'' (field m ''source_ref'' JNull)) (\<lambda>source.
        rbind (state_json ''provenance'' (field m ''provenance'' (JObj []))) (\<lambda>provenance.
        rbind (if lineage = JNull then Inr None else rbind (state_identifier E ''model_lineage'' lineage) (\<lambda>s. Inr (Some s))) (\<lambda>lineage.
          Inr (seal_assertion E \<lparr>sa_id = i, sa_tenant = t, sa_world = w, sa_class = cls, sa_path = path, sa_value = v,
            sa_occurred = occurred, sa_recorded = recorded, sa_available = available, sa_source = source,
            sa_confidence = confidence, sa_provenance = provenance, sa_lineage = lineage, sa_auth = given_json auth,
            sa_version = given_json version, sa_committed = given_json committed, sa_sha = []\<rparr>)))))))))))))))))
   | _ \<Rightarrow> Inl (StateError ''state assertion must be an object''))"

definition ingest :: "pyenv \<Rightarrow> json \<Rightarrow> engine \<Rightarrow> state_error + (engine \<times> assertion)" where
  "ingest E assertion e =
     rbind (normalize_assertion E e assertion) (\<lambda>a.
       (case dict_get (se_assertions e) (sa_id a) of
          Some b \<Rightarrow> require (sa_sha b = sa_sha a) (StateError ''assertion_id is already bound to different content'')
            (Inr (e, b))
        | None \<Rightarrow> Inr (e\<lparr>se_assertions := dict_put (sa_id a) a (se_assertions e)\<rparr>, a)))"

definition count_assertions :: "engine \<Rightarrow> nat" where
  "count_assertions e = length (se_assertions e)"

section \<open>Projection\<close>

definition assertion_order :: "assertion \<Rightarrow> string \<times> string \<times> string" where
  "assertion_order a = (sa_available a, sa_occurred a, sa_id a)"

definition available_rows :: "string \<Rightarrow> engine \<Rightarrow> assertion list" where
  "available_rows clock e = sort_key assertion_order (filter (\<lambda>a. sa_available a \<le> clock) (map snd (se_assertions e)))"

text \<open>One view per class; a later row of the same path takes the place of an earlier one.\<close>

definition view_of :: "assertion list \<Rightarrow> string \<Rightarrow> (string, assertion) dict" where
  "view_of rows cls = fold (\<lambda>a d. if sa_class a = cls then dict_put (path_key (sa_path a)) a d else d) rows []"

record conflict =
  cf_class :: string
  cf_path :: "string list"
  cf_ids :: "string list"
  cf_available :: string

definition group_key :: "assertion \<Rightarrow> string \<times> string" where
  "group_key a = (sa_class a, path_key (sa_path a))"

text \<open>The rows of a group that share its latest time disagree about the value.\<close>

definition group_conflict :: "pyenv \<Rightarrow> assertion list \<Rightarrow> conflict list" where
  "group_conflict E rows =
     (let latest_time = foldl max [] (map sa_available rows);
          latest = filter (\<lambda>a. sa_available a = latest_time) rows in
      if 1 < length (remdups (map (\<lambda>a. sha256_json E (sa_value a)) latest)) then
        [\<lparr>cf_class = sa_class (hd latest), cf_path = sa_path (hd latest), cf_ids = sort (map sa_id latest),
          cf_available = latest_time\<rparr>]
      else [])"

definition conflicts_of :: "pyenv \<Rightarrow> assertion list \<Rightarrow> conflict list" where
  "conflicts_of E rows =
     concat (map (\<lambda>k. group_conflict E (filter (\<lambda>a. group_key a = k) rows)) (sorted_set (map group_key rows)))"

record projection =
  pj_tenant :: string
  pj_world :: string
  pj_time :: string
  pj_assertions :: "assertion list"
  pj_views :: "(string \<times> (string, assertion) dict) list"
  pj_conflicts :: "conflict list"
  pj_excluded :: nat
  pj_sha :: string

definition enc_conflict :: "conflict \<Rightarrow> json" where
  "enc_conflict c = mk_obj
     [(''state_class'', JStr (cf_class c)), (''state_path'', jstrs (cf_path c)), (''assertion_ids'', jstrs (cf_ids c)),
      (''available_to_controller_at'', JStr (cf_available c))]"

definition enc_view :: "(string, assertion) dict \<Rightarrow> json" where
  "enc_view d = JObj (map (\<lambda>p. (fst p, enc_assertion (snd p))) d)"

definition projection_fields :: "projection \<Rightarrow> (string \<times> json) list" where
  "projection_fields p =
     [(''schema_version'', JStr ''edon-cerebrum-state-projection.v1''), (''tenant_id'', JStr (pj_tenant p)),
      (''world_id'', JStr (pj_world p)), (''decision_time'', JStr (pj_time p)),
      (''assertions'', JArr (map enc_assertion (pj_assertions p))),
      (''views'', mk_obj (map (\<lambda>q. (fst q, enc_view (snd q))) (pj_views p))),
      (''conflicts'', JArr (map enc_conflict (pj_conflicts p))), (''separated_state_classes'', JBool True),
      (''future_assertions_excluded'', JInt (int (pj_excluded p))), (''binding_authority'', JBool False)]"

definition project :: "pyenv \<Rightarrow> json \<Rightarrow> engine \<Rightarrow> state_error + projection" where
  "project E decision_time e =
     rbind (state_time E ''decision_time'' decision_time) (\<lambda>clock.
       let rows = available_rows clock e;
           p = \<lparr>pj_tenant = se_tenant e, pj_world = se_world e, pj_time = clock, pj_assertions = rows,
             pj_views = map (\<lambda>cls. (cls, view_of rows cls)) state_classes, pj_conflicts = conflicts_of E rows,
             pj_excluded = length (se_assertions e) - length rows, pj_sha = []\<rparr> in
       Inr (p\<lparr>pj_sha := sha256_json E (mk_obj (projection_fields p))\<rparr>))"

inductive engine_run :: "pyenv \<Rightarrow> engine \<Rightarrow> bool" for E where
  engine_new: "new_engine E t w = Inr e \<Longrightarrow> engine_run E e"
| engine_ingest: "engine_run E e \<Longrightarrow> ingest E j e = Inr (e', a) \<Longrightarrow> engine_run E e'"

end
