(* ===== verification/StateEngineProps.thy ===== *)
theory StateEngineProps
  imports StateEngine
begin

text \<open>
  What the state engine promises: the keys of the views name one path each, and a projection
  holds exactly the assertions that were available at the decision time, shows in every view the
  latest of each path, and reports exactly the paths whose latest assertions disagree.
\<close>

section \<open>Keys of paths\<close>

definition escape_char_item :: "char \<Rightarrow> string" where
  "escape_char_item c = (if c = CHR ''~'' then ''~0'' else if c = CHR ''/'' then ''~1'' else [c])"

lemma escape_item_simps: "escape_item [] = []" "escape_item (c # s) = escape_char_item c @ escape_item s"
  by (simp_all add: escape_item_def escape_char_item_def)

lemma escape_char_prefix: "escape_char_item c @ x = escape_char_item d @ y \<longleftrightarrow> c = d \<and> x = y"
  by (auto simp: escape_char_item_def split: if_splits)

lemma escape_char_nonempty: "escape_char_item c \<noteq> []"
  by (simp add: escape_char_item_def)

lemma escape_item_inj: "escape_item s = escape_item t \<longleftrightarrow> s = t"
proof (induction s arbitrary: t)
  case Nil
  then show ?case by (cases t) (simp_all add: escape_item_simps escape_char_nonempty)
next
  case (Cons c s)
  then show ?case by (cases t) (simp_all add: escape_item_simps escape_char_nonempty escape_char_prefix)
qed

lemma escape_item_no_slash: "CHR ''/'' \<notin> set (escape_item s)"
  by (induction s) (auto simp: escape_item_simps escape_char_item_def)

lemma split_at_slash:
  assumes "CHR ''/'' \<notin> set a" and "CHR ''/'' \<notin> set b" and "a @ ''/'' @ x = b @ ''/'' @ y"
  shows "a = b \<and> x = y"
  using assms by (induction a arbitrary: b) (auto simp: append_eq_Cons_conv Cons_eq_append_conv)

lemma join_slash_mem: "x # y # xs = zs \<Longrightarrow> CHR ''/'' \<in> set (join ''/'' zs)"
  by auto

lemma join_inj:
  "\<forall>x \<in> set xs. CHR ''/'' \<notin> set x \<Longrightarrow> \<forall>y \<in> set ys. CHR ''/'' \<notin> set y \<Longrightarrow> xs \<noteq> [] \<Longrightarrow> ys \<noteq> [] \<Longrightarrow>
     join ''/'' xs = join ''/'' ys \<Longrightarrow> xs = ys"
proof (induction xs arbitrary: ys)
  case (Cons x xs)
  obtain y ys' where ys: "ys = y # ys'" using Cons.prems(4) by (cases ys) auto
  show ?case
  proof (cases xs)
    case Nil
    then show ?thesis using Cons.prems ys by (cases ys') auto
  next
    case xs: (Cons x' xs')
    show ?thesis
    proof (cases ys')
      case Nil
      then show ?thesis using Cons.prems ys xs by auto
    next
      case (Cons y' ys'')
      have "x @ ''/'' @ join ''/'' xs = y @ ''/'' @ join ''/'' ys'"
        using Cons.prems(5) ys xs Cons by simp
      then have "x = y \<and> join ''/'' xs = join ''/'' ys'"
        by (rule split_at_slash [rotated 2]) (use Cons.prems ys in auto)
      then show ?thesis using Cons.IH [of ys'] Cons.prems ys xs Cons by auto
    qed
  qed
qed simp

lemma path_key_inj: "p \<noteq> [] \<Longrightarrow> q \<noteq> [] \<Longrightarrow> path_key p = path_key q \<longleftrightarrow> p = q"
  unfolding path_key_def
  using join_inj [of "map escape_item p" "map escape_item q"] escape_item_no_slash escape_item_inj
  by (auto dest: map_injective [rotated] simp: inj_def)

section \<open>The engine\<close>

definition assertion_ok :: "engine \<Rightarrow> assertion \<Rightarrow> bool" where
  "assertion_ok e a \<longleftrightarrow> sa_path a \<noteq> [] \<and> sa_class a \<in> set state_classes \<and> sa_tenant a = se_tenant e \<and>
     sa_world a = se_world e \<and> sa_occurred a \<le> sa_recorded a \<and> sa_recorded a \<le> sa_available a"

definition engine_ok :: "engine \<Rightarrow> bool" where
  "engine_ok e \<longleftrightarrow> dict_ok (se_assertions e) \<and>
     (\<forall>i a. dict_get (se_assertions e) i = Some a \<longrightarrow> sa_id a = i \<and> assertion_ok e a)"

lemma seal_assertion_simps [simp]:
  "sa_id (seal_assertion E a) = sa_id a" "sa_path (seal_assertion E a) = sa_path a" "sa_class (seal_assertion E a) = sa_class a"
  "sa_tenant (seal_assertion E a) = sa_tenant a" "sa_world (seal_assertion E a) = sa_world a"
  "sa_occurred (seal_assertion E a) = sa_occurred a" "sa_recorded (seal_assertion E a) = sa_recorded a"
  "sa_available (seal_assertion E a) = sa_available a"
  by (simp_all add: seal_assertion_def)

lemma state_path_nonempty: "state_path E v = Inr p \<Longrightarrow> p \<noteq> []"
  by (auto simp: state_path_def rbind_eq_Inr split: json.splits list.splits)

lemma assertion_times_ordered: "assertion_times E m = Inr (x, y, z) \<Longrightarrow> x \<le> y \<and> y \<le> z"
  by (auto simp: assertion_times_def result_simps)

lemma normalize_assertion_ok:
  assumes "normalize_assertion E e j = Inr a"
  shows "assertion_ok e a"
proof -
  obtain m where m: "j = JObj m" using assms by (cases j) (simp_all add: normalize_assertion_def)
  have "sa_tenant a = se_tenant e \<and> sa_world a = se_world e \<and> sa_class a \<in> set state_classes \<and>
      assertion_times E m = Inr (sa_occurred a, sa_recorded a, sa_available a) \<and>
      state_path E (field m ''state_path'' JNull) = Inr (sa_path a)"
    using assms unfolding normalize_assertion_def m json.case Let_def
    by (auto simp: rbind_eq_Inr require_eq_Inr)
  then show ?thesis by (auto simp: assertion_ok_def dest: state_path_nonempty assertion_times_ordered)
qed

lemma engine_run_ok: "engine_run E e \<Longrightarrow> engine_ok e"
proof (induction rule: engine_run.induct)
  case (engine_new t w e)
  then show ?case by (auto simp: new_engine_def result_simps engine_ok_def)
next
  case (engine_ingest e j e' a)
  obtain b where b: "normalize_assertion E e j = Inr b"
    using engine_ingest(2) by (auto simp: ingest_def rbind_eq_Inr)
  show ?case
  proof (cases "dict_get (se_assertions e) (sa_id b)")
    case None
    then have "e' = e\<lparr>se_assertions := dict_put (sa_id b) b (se_assertions e)\<rparr>"
      using engine_ingest(2) b by (auto simp: ingest_def)
    then show ?thesis using engine_ingest(3) normalize_assertion_ok [OF b]
      by (auto simp: engine_ok_def assertion_ok_def)
  next
    case (Some c)
    then have "e' = e" using engine_ingest(2) b by (auto simp: ingest_def result_simps)
    with engine_ingest(3) show ?thesis by simp
  qed
qed

section \<open>Projection\<close>

lemma available_rows_set: "set (available_rows clock e) = {a. a \<in> snd ` set (se_assertions e) \<and> sa_available a \<le> clock}"
  by (auto simp: available_rows_def)

lemma available_rows_sorted: "sorted (map assertion_order (available_rows clock e))"
  by (simp add: available_rows_def)

text \<open>A view holds the last row of every path.\<close>

lemma view_of_snoc: "view_of (rows @ [a]) cls =
    (if sa_class a = cls then dict_put (path_key (sa_path a)) a (view_of rows cls) else view_of rows cls)"
  by (simp add: view_of_def)

lemma view_of_get:
  "sorted (map assertion_order rows) \<Longrightarrow>
     (case dict_get (view_of rows cls) k of
        None \<Rightarrow> \<forall>a \<in> set rows. group_key a \<noteq> (cls, k)
      | Some a \<Rightarrow> a \<in> set rows \<and> group_key a = (cls, k) \<and>
          (\<forall>b \<in> set rows. group_key b = (cls, k) \<longrightarrow> assertion_order b \<le> assertion_order a))"
proof (induction rows rule: rev_induct)
  case Nil
  then show ?case by (simp add: view_of_def)
next
  case (snoc a rows)
  then have le: "\<forall>b \<in> set rows. assertion_order b \<le> assertion_order a" and "sorted (map assertion_order rows)"
    by (auto simp: sorted_append)
  with snoc.IH show ?case
    by (auto simp: view_of_snoc group_key_def split: option.splits if_splits)
qed

lemma foldl_max_ge: "m \<le> foldl max m xs \<and> (\<forall>x \<in> set xs. x \<le> foldl max m (xs :: 'a::linorder list))"
proof (induction xs arbitrary: m)
  case (Cons x xs)
  from Cons [of "max m x"] show ?case by auto
qed simp

lemma foldl_max_in: "foldl max m xs \<in> insert m (set (xs :: 'a::linorder list))"
proof (induction xs arbitrary: m)
  case (Cons x xs)
  from Cons [of "max m x"] show ?case by (auto simp: max_def split: if_splits)
qed simp

lemma latest_time:
  assumes "rows \<noteq> []"
  shows "t = foldl max [] (map sa_available rows) \<longleftrightarrow>
    (\<exists>a \<in> set rows. sa_available a = t) \<and> (\<forall>b \<in> set rows. sa_available b \<le> t)"
proof -
  let ?t = "foldl max [] (map sa_available rows)"
  have ge: "\<forall>b \<in> set rows. sa_available b \<le> ?t" using foldl_max_ge [of "[]" "map sa_available rows"] by simp
  moreover have "\<exists>a \<in> set rows. sa_available a = ?t"
  proof (cases "?t = []")
    case True
    obtain a where "a \<in> set rows" using assms by (cases rows) auto
    with ge True show ?thesis by auto
  next
    case False
    then show ?thesis using foldl_max_in [of "[]" "map sa_available rows"] by auto
  qed
  ultimately show ?thesis by (metis antisym)
qed

lemma two_distinct: "1 < length (remdups xs) \<longleftrightarrow> (\<exists>x \<in> set xs. \<exists>y \<in> set xs. x \<noteq> y)"
proof -
  have "1 < length (remdups xs) \<longleftrightarrow> 1 < card (set xs)" by (simp add: length_remdups_card_conv)
  also have "\<dots> \<longleftrightarrow> \<not> card (set xs) \<le> Suc 0" by (simp add: not_le)
  also have "\<dots> \<longleftrightarrow> (\<exists>x \<in> set xs. \<exists>y \<in> set xs. x \<noteq> y)"
    by (auto simp: card_le_Suc0_iff_eq)
  finally show ?thesis .
qed

text \<open>Two rows of one group at its latest time, with values that differ.\<close>

definition disagree :: "pyenv \<Rightarrow> assertion list \<Rightarrow> assertion \<Rightarrow> assertion \<Rightarrow> bool" where
  "disagree E rows a b \<longleftrightarrow> a \<in> set rows \<and> b \<in> set rows \<and> sa_available a = sa_available b \<and>
     sha256_json E (sa_value a) \<noteq> sha256_json E (sa_value b) \<and> (\<forall>x \<in> set rows. sa_available x \<le> sa_available a)"

lemma group_conflict_iff:
  assumes "rows \<noteq> []"
  shows "group_conflict E rows \<noteq> [] \<longleftrightarrow> (\<exists>a b. disagree E rows a b)"
proof -
  let ?t = "foldl max [] (map sa_available rows)"
  let ?l = "filter (\<lambda>a. sa_available a = ?t) rows"
  have "group_conflict E rows \<noteq> [] \<longleftrightarrow> 1 < length (remdups (map (\<lambda>a. sha256_json E (sa_value a)) ?l))"
    by (simp add: group_conflict_def Let_def)
  also have "\<dots> \<longleftrightarrow> (\<exists>a \<in> set rows. \<exists>b \<in> set rows. sa_available a = ?t \<and> sa_available b = ?t \<and>
      sha256_json E (sa_value a) \<noteq> sha256_json E (sa_value b))"
    unfolding two_distinct by (simp only: set_map set_filter) blast
  also have "\<dots> \<longleftrightarrow> (\<exists>a b. disagree E rows a b)"
  proof
    assume "\<exists>a \<in> set rows. \<exists>b \<in> set rows. sa_available a = ?t \<and> sa_available b = ?t \<and>
      sha256_json E (sa_value a) \<noteq> sha256_json E (sa_value b)"
    then show "\<exists>a b. disagree E rows a b" using latest_time [OF assms, of ?t] unfolding disagree_def by fastforce
  next
    assume "\<exists>a b. disagree E rows a b"
    then obtain a b where d: "disagree E rows a b" by blast
    then have "sa_available a = ?t" using latest_time [OF assms, of "sa_available a"] unfolding disagree_def by blast
    with d show "\<exists>a \<in> set rows. \<exists>b \<in> set rows. sa_available a = ?t \<and> sa_available b = ?t \<and>
      sha256_json E (sa_value a) \<noteq> sha256_json E (sa_value b)" unfolding disagree_def by metis
  qed
  finally show ?thesis .
qed

lemma group_conflict_key:
  assumes "rows \<noteq> []" and "\<forall>a \<in> set rows. sa_class a = c \<and> sa_path a = p" and "x \<in> set (group_conflict E rows)"
  shows "cf_class x = c \<and> cf_path x = p"
proof -
  let ?t = "foldl max [] (map sa_available rows)"
  let ?l = "filter (\<lambda>a. sa_available a = ?t) rows"
  have "\<exists>a \<in> set rows. sa_available a = ?t" using latest_time [OF assms(1), of ?t] by simp
  then have "?l \<noteq> []" by (auto simp: filter_empty_conv)
  then have "hd ?l \<in> set rows" using hd_in_set [of ?l] by (simp only: set_filter) blast
  then show ?thesis using assms(2,3) by (auto simp: group_conflict_def Let_def split: if_splits)
qed

lemma conflicts_of_iff:
  assumes ne: "\<forall>a \<in> set rows. sa_path a \<noteq> []" and p: "path \<noteq> []"
  shows "(\<exists>x \<in> set (conflicts_of E rows). cf_class x = cls \<and> cf_path x = path) \<longleftrightarrow>
    (\<exists>a b. disagree E (filter (\<lambda>a. sa_class a = cls \<and> sa_path a = path) rows) a b)"
proof -
  let ?g = "\<lambda>k. filter (\<lambda>a. group_key a = k) rows"
  have same: "?g (group_key a) = filter (\<lambda>b. sa_class b = sa_class a \<and> sa_path b = sa_path a) rows" if "a \<in> set rows" for a
    using that ne by (intro filter_cong) (auto simp: group_key_def path_key_inj)
  have keys: "cf_class x = sa_class a \<and> cf_path x = sa_path a"
    if "a \<in> set rows" "x \<in> set (group_conflict E (?g (group_key a)))" for a x
  proof (rule group_conflict_key)
    show "?g (group_key a) \<noteq> []" using that(1) by (auto simp: filter_empty_conv)
    show "\<forall>b \<in> set (?g (group_key a)). sa_class b = sa_class a \<and> sa_path b = sa_path a"
      unfolding same [OF that(1)] by simp
  qed (rule that(2))
  show ?thesis
  proof
    assume "\<exists>x \<in> set (conflicts_of E rows). cf_class x = cls \<and> cf_path x = path"
    then obtain a x where a: "a \<in> set rows" "x \<in> set (group_conflict E (?g (group_key a)))" "cf_class x = cls" "cf_path x = path"
      by (auto simp: conflicts_of_def)
    then have "?g (group_key a) \<noteq> []" "group_conflict E (?g (group_key a)) \<noteq> []" by (auto simp: filter_empty_conv)
    then show "\<exists>a b. disagree E (filter (\<lambda>a. sa_class a = cls \<and> sa_path a = path) rows) a b"
      using group_conflict_iff same [OF a(1)] keys [OF a(1,2)] a(3,4) by auto
  next
    assume "\<exists>a b. disagree E (filter (\<lambda>a. sa_class a = cls \<and> sa_path a = path) rows) a b"
    then obtain a b where d: "disagree E (filter (\<lambda>a. sa_class a = cls \<and> sa_path a = path) rows) a b" by blast
    then have a: "a \<in> set rows" "sa_class a = cls" "sa_path a = path" by (auto simp: disagree_def)
    then have g: "disagree E (?g (group_key a)) a b" using d same [OF a(1)] by simp
    have "?g (group_key a) \<noteq> []" using a(1) by (auto simp: filter_empty_conv)
    then have "group_conflict E (?g (group_key a)) \<noteq> []" using group_conflict_iff g by blast
    then obtain x where x: "x \<in> set (group_conflict E (?g (group_key a)))" by (cases "group_conflict E (?g (group_key a))") auto
    then have "x \<in> set (conflicts_of E rows)" using a(1) by (auto simp: conflicts_of_def)
    with keys [OF a(1) x] a(2,3) show "\<exists>x \<in> set (conflicts_of E rows). cf_class x = cls \<and> cf_path x = path" by auto
  qed
qed

text \<open>
  C26. The projection of a reachable engine at a decision time is gated by that time: its clock is
  the UTC text of the instant that the decision time given to it denotes, and it holds exactly the
  assertions that were available to the controller by then, compared as texts and so, for the
  times of the years 1 to 9999, as instants. They are in the order of availability, and the others
  are counted. The view of a class maps a path to its latest such assertion and to nothing when there
  is none, and a conflict is reported for a class and a path exactly when two assertions of the
  latest time disagree about the value.
\<close>

theorem projection_is_exact:
  assumes "engine_run E e" and "project E decision_time e = Inr p"
  shows "(\<exists>t. iso_parse E (zulu (py_str E decision_time)) = TsAware t \<and> pj_time p = isoformat t \<and>
      (\<forall>a u. a \<in> snd ` set (se_assertions e) \<longrightarrow> sa_available a = isoformat u \<longrightarrow> time_ok u \<longrightarrow> time_ok t \<longrightarrow>
        (a \<in> set (pj_assertions p) \<longleftrightarrow> u \<le> t))) \<and>
    sorted (map assertion_order (pj_assertions p)) \<and>
    (\<forall>a. a \<in> set (pj_assertions p) \<longleftrightarrow> a \<in> snd ` set (se_assertions e) \<and> sa_available a \<le> pj_time p) \<and>
    pj_excluded p = length (filter (\<lambda>q. pj_time p < sa_available (snd q)) (se_assertions e)) \<and>
    (\<forall>cls \<in> set state_classes. \<forall>path. path \<noteq> [] \<longrightarrow>
      (case dict_get (the (map_of (pj_views p) cls)) (path_key path) of
         None \<Rightarrow> \<not> (\<exists>a \<in> set (pj_assertions p). sa_class a = cls \<and> sa_path a = path)
       | Some a \<Rightarrow> a \<in> set (pj_assertions p) \<and> sa_class a = cls \<and> sa_path a = path \<and>
           (\<forall>b \<in> set (pj_assertions p). sa_class b = cls \<and> sa_path b = path \<longrightarrow> assertion_order b \<le> assertion_order a)) \<and>
      ((\<exists>c \<in> set (pj_conflicts p). cf_class c = cls \<and> cf_path c = path) \<longleftrightarrow>
        (\<exists>a b. disagree E (filter (\<lambda>a. sa_class a = cls \<and> sa_path a = path) (pj_assertions p)) a b)))"
proof -
  let ?rows = "available_rows (pj_time p) e"
  have p: "pj_assertions p = ?rows" "pj_views p = map (\<lambda>cls. (cls, view_of ?rows cls)) state_classes"
      "pj_conflicts p = conflicts_of E ?rows" "pj_excluded p = length (se_assertions e) - length ?rows"
    using assms(2) by (auto simp: project_def rbind_eq_Inr Let_def)
  have ok: "engine_ok e" using assms(1) by (rule engine_run_ok)
  have ne: "sa_path a \<noteq> []" if "a \<in> set ?rows" for a
  proof -
    have "a \<in> snd ` set (se_assertions e)" using that by (simp add: available_rows_set)
    then obtain i where "(i, a) \<in> set (se_assertions e)" by force
    then have "dict_get (se_assertions e) i = Some a" using ok by (simp add: engine_ok_def dict_ok_get_iff)
    then show ?thesis using ok by (simp add: engine_ok_def assertion_ok_def)
  qed
  have key: "group_key a = (cls, path_key path) \<longleftrightarrow> sa_class a = cls \<and> sa_path a = path"
    if "a \<in> set ?rows" "path \<noteq> []" for a cls path
    using ne [OF that(1)] that(2) by (auto simp: group_key_def path_key_inj)
  obtain t where t: "iso_parse E (zulu (py_str E decision_time)) = TsAware t" "pj_time p = isoformat t"
    using assms(2) by (auto simp: project_def rbind_eq_Inr Let_def state_time_def split: ts_parse.splits)
  have gate: "a \<in> set ?rows \<longleftrightarrow> u \<le> t"
    if "a \<in> snd ` set (se_assertions e)" "sa_available a = isoformat u" "time_ok u" "time_ok t" for a u
    using that by (auto simp: available_rows_set t(2) isoformat_le_iff)
  have "length ?rows + length (filter (\<lambda>q. pj_time p < sa_available (snd q)) (se_assertions e)) = length (se_assertions e)"
    using sum_length_filter_compl [of "\<lambda>q. sa_available (snd q) \<le> pj_time p" "se_assertions e"]
    by (simp add: available_rows_def filter_map o_def not_le)
  then have excluded: "pj_excluded p = length (filter (\<lambda>q. pj_time p < sa_available (snd q)) (se_assertions e))"
    using p(4) by linarith
  have view: "the (map_of (pj_views p) cls) = view_of ?rows cls" if "cls \<in> set state_classes" for cls
    using that by (simp add: p(2) map_of_map_restrict)
  have latest: "case dict_get (view_of ?rows cls) (path_key path) of
      None \<Rightarrow> \<not> (\<exists>a \<in> set ?rows. sa_class a = cls \<and> sa_path a = path)
    | Some a \<Rightarrow> a \<in> set ?rows \<and> sa_class a = cls \<and> sa_path a = path \<and>
        (\<forall>b \<in> set ?rows. sa_class b = cls \<and> sa_path b = path \<longrightarrow> assertion_order b \<le> assertion_order a)"
    if "path \<noteq> []" for cls path
    using view_of_get [OF available_rows_sorted, of "pj_time p" e cls "path_key path"] key that
    by (auto split: option.splits)
  have conflict: "(\<exists>c \<in> set (conflicts_of E ?rows). cf_class c = cls \<and> cf_path c = path) \<longleftrightarrow>
      (\<exists>a b. disagree E (filter (\<lambda>a. sa_class a = cls \<and> sa_path a = path) ?rows) a b)" if "path \<noteq> []" for cls path
    by (rule conflicts_of_iff) (use ne that in blast)+
  have sets: "\<forall>a. a \<in> set ?rows \<longleftrightarrow> a \<in> snd ` set (se_assertions e) \<and> sa_available a \<le> pj_time p"
    unfolding available_rows_set by blast
  have time: "\<exists>t. iso_parse E (zulu (py_str E decision_time)) = TsAware t \<and> pj_time p = isoformat t \<and>
      (\<forall>a u. a \<in> snd ` set (se_assertions e) \<longrightarrow> sa_available a = isoformat u \<longrightarrow> time_ok u \<longrightarrow> time_ok t \<longrightarrow>
        (a \<in> set ?rows \<longleftrightarrow> u \<le> t))"
    using t gate by blast
  show ?thesis
    unfolding p(1,3)
  proof (rule conjI [OF time], intro conjI ballI allI impI)
    fix cls path assume cls: "cls \<in> set state_classes" and path: "path \<noteq> ([] :: string list)"
    show "case dict_get (the (map_of (pj_views p) cls)) (path_key path) of
        None \<Rightarrow> \<not> (\<exists>a \<in> set ?rows. sa_class a = cls \<and> sa_path a = path)
      | Some a \<Rightarrow> a \<in> set ?rows \<and> sa_class a = cls \<and> sa_path a = path \<and>
          (\<forall>b \<in> set ?rows. sa_class b = cls \<and> sa_path b = path \<longrightarrow> assertion_order b \<le> assertion_order a)"
      unfolding view [OF cls] by (rule latest [OF path])
  qed (use available_rows_sorted sets excluded conflict in \<open>blast+\<close>)
qed

end
