(* ===== verification/StateEngineExamples.thy ===== *)
theory StateEngineExamples
  imports StateEngineProps MemoryExamples
begin

text \<open>An engine with one observed assertion, projected at the time it became available.\<close>

definition st_raw :: json where
  "st_raw = JObj [(''assertion_id'', JStr ''a1''), (''available_to_controller_at'', JStr t00), (''confidence'', JFloat (Fin 1)),
     (''occurred_at'', JStr t00), (''recorded_at'', JStr t00), (''source_ref'', JStr ''sensor''),
     (''state_class'', JStr ''OBSERVED''), (''state_path'', JArr [JStr ''line/1'', JStr ''temp'']), (''value'', JInt 20)]"

definition st_e0 :: engine where "st_e0 = \<lparr>se_tenant = ''t'', se_world = ''w'', se_assertions = []\<rparr>"

lemma st_words: "py_strip ''t'' = ''t''" "py_strip ''w'' = ''w''" "py_strip ''a1'' = ''a1''" "py_strip ''sensor'' = ''sensor''"
    "py_strip ''line/1'' = ''line/1''" "py_strip ''temp'' = ''temp''" "py_upper ''OBSERVED'' = ''OBSERVED''"
  by code_simp+

lemmas st_eval = state_identifier_def state_text_def truthy_def py_str_def st_words Let_def field_def state_time_def
  state_path_def state_json_def state_classes_def

lemma st_new: "new_engine mem_env (JStr ''t'') (JStr ''w'') = Inr st_e0"
  by (simp add: new_engine_def st_eval st_e0_def)

lemma st_norm: "\<exists>a. normalize_assertion mem_env st_e0 st_raw = Inr a \<and> sa_id a = ''a1'' \<and> sa_class a = ''OBSERVED'' \<and>
    sa_path a = [''line/1'', ''temp''] \<and> sa_available a = isoformat 0"
  by (simp add: normalize_assertion_def st_eval st_raw_def st_e0_def assertion_times_def assertion_confidence_def
      class_evidence_def eval_simps flt_le_def)

lemma st_run: "\<exists>e a. engine_run mem_env e \<and> se_assertions e = [(''a1'', a)] \<and> sa_class a = ''OBSERVED'' \<and>
    sa_path a = [''line/1'', ''temp''] \<and> sa_available a = isoformat 0"
proof -
  obtain a where a: "normalize_assertion mem_env st_e0 st_raw = Inr a" "sa_id a = ''a1''" "sa_class a = ''OBSERVED''"
      "sa_path a = [''line/1'', ''temp'']" "sa_available a = isoformat 0"
    using st_norm by blast
  have "ingest mem_env st_raw st_e0 = Inr (st_e0\<lparr>se_assertions := [(''a1'', a)]\<rparr>, a)"
    using a by (simp add: ingest_def st_e0_def)
  then have "engine_run mem_env (st_e0\<lparr>se_assertions := [(''a1'', a)]\<rparr>)"
    by (rule engine_ingest [OF engine_new [OF st_new]])
  with a show ?thesis by (intro exI [of _ "st_e0\<lparr>se_assertions := [(''a1'', a)]\<rparr>"] exI [of _ a]) simp
qed

theorem projection_is_exact_witness:
  "\<exists>e a p. engine_run mem_env e \<and> project mem_env (JStr t00) e = Inr p \<and> pj_assertions p = [a] \<and>
     pj_time p = isoformat 0 \<and> dict_get (the (map_of (pj_views p) ''OBSERVED'')) ''/line~11/temp'' = Some a"
proof -
  obtain e a where e: "engine_run mem_env e" "se_assertions e = [(''a1'', a)]" "sa_class a = ''OBSERVED''"
      "sa_path a = [''line/1'', ''temp'']" "sa_available a = isoformat 0"
    using st_run by blast
  have "state_time mem_env ''decision_time'' (JStr t00) = Inr (isoformat 0)"
    by (simp add: state_time_def py_str_def eval_simps)
  then obtain p where p: "project mem_env (JStr t00) e = Inr p" "pj_time p = isoformat 0" "pj_assertions p = [a]"
    by (auto simp: project_def Let_def available_rows_def e(2,5))
  have key: "path_key [''line/1'', ''temp''] = ''/line~11/temp''" by code_simp
  have cls: "''OBSERVED'' \<in> set state_classes" by (simp add: state_classes_def)
  note exact = projection_is_exact [OF e(1) p(1), THEN conjunct2, THEN conjunct2, THEN conjunct2, THEN conjunct2, THEN bspec, OF cls,
    THEN spec, of "[''line/1'', ''temp'']", THEN mp, THEN conjunct1]
  have "case dict_get (the (map_of (pj_views p) ''OBSERVED'')) ''/line~11/temp'' of
      None \<Rightarrow> \<not> (\<exists>b \<in> {a}. sa_class b = ''OBSERVED'' \<and> sa_path b = [''line/1'', ''temp''])
    | Some b \<Rightarrow> b \<in> {a}"
    using exact [OF list.simps(3)] unfolding key p(3) by (simp split: option.splits)
  then have "dict_get (the (map_of (pj_views p) ''OBSERVED'')) ''/line~11/temp'' = Some a"
    using e(3,4) by (cases "dict_get (the (map_of (pj_views p) ''OBSERVED'')) ''/line~11/temp''") simp_all
  with e(1) p show ?thesis by blast
qed

end
