(* ===== verification/Optimize.thy ===== *)
theory Optimize
  imports Memory Runtime FloatOrder
begin

text \<open>
  The boundary to optimization tools (\<open>src/src/edon/optimization/adapter.py\<close>): a request for an
  allocation of supplies to demands over lanes is normalized, a provider answers with a candidate,
  and the candidate is checked against the request. The provider is a function of the normalized
  request; the reference provider of the code is \<open>solve\<close>. A message about a member of an object names
  the first such member in the order of the keys.
\<close>

section \<open>Values\<close>

text \<open>An \<open>OptimizationError\<close> with its message, or an error of the language.\<close>

datatype opt_error = OptError string | OptMalformed

definition forbidden_authority_keys :: "string list" where
  "forbidden_authority_keys =
     [''authorization_ref'', ''execution_token'', ''kernel_token'', ''signature'', ''commit'', ''binding_authority'',
      ''approved'', ''authorized'']"

definition opt_identifier :: "pyenv \<Rightarrow> string \<Rightarrow> json \<Rightarrow> opt_error + string" where
  "opt_identifier E label v =
     ident_check 200 (OptError (label @ '' must contain between 1 and 200 characters'')) (py_str E v)"

definition opt_quantity :: "string \<Rightarrow> json \<Rightarrow> opt_error + flt" where
  "opt_quantity label v =
     rbind (case v of
         JInt i \<Rightarrow> (case float_of_int i of None \<Rightarrow> Inl OptMalformed | Some x \<Rightarrow> Inr x)
       | JFloat x \<Rightarrow> Inr x
       | _ \<Rightarrow> Inl (OptError (label @ '' must be numeric''))) (\<lambda>x.
     require (flt_finite x \<and> \<not> flt_less x (Fin 0)) (OptError (label @ '' must be finite and non-negative'')) (Inr x))"

fun reject_authority :: "json \<Rightarrow> string \<Rightarrow> opt_error + unit"
and reject_members :: "(string \<times> json) list \<Rightarrow> string \<Rightarrow> opt_error + unit"
and reject_items :: "json list \<Rightarrow> nat \<Rightarrow> string \<Rightarrow> opt_error + unit" where
  "reject_authority (JObj ms) path = reject_members ms path"
| "reject_authority (JArr xs) path = reject_items xs 0 path"
| "reject_authority JNull path = Inr ()"
| "reject_authority (JBool b) path = Inr ()"
| "reject_authority (JInt i) path = Inr ()"
| "reject_authority (JFloat x) path = Inr ()"
| "reject_authority (JStr s) path = Inr ()"
| "reject_members [] path = Inr ()"
| "reject_members ((key, nested) # ms) path =
     require (map lower_char key \<notin> set forbidden_authority_keys)
       (OptError (''optimization output cannot contain authority field '' @ path @ ''.'' @ key)) (
     rbind (reject_authority nested (path @ ''.'' @ key)) (\<lambda>_. reject_members ms path))"
| "reject_items [] index path = Inr ()"
| "reject_items (x # xs) index path =
     rbind (reject_authority x (path @ ''['' @ int_text (int index) @ '']'')) (\<lambda>_. reject_items xs (Suc index) path)"

text \<open>Iterating over a value, \<open>row[key]\<close> and \<open>row.get(key, default)\<close>.\<close>

definition opt_rows :: "json \<Rightarrow> opt_error + json list" where
  "opt_rows v = (case v of JArr xs \<Rightarrow> Inr xs | JStr [] \<Rightarrow> Inr [] | JObj [] \<Rightarrow> Inr [] | _ \<Rightarrow> Inl OptMalformed)"

definition opt_key :: "json \<Rightarrow> string \<Rightarrow> opt_error + json" where
  "opt_key row k = (case row of
     JObj m \<Rightarrow> (case dict_get m k of None \<Rightarrow> Inl OptMalformed | Some v \<Rightarrow> Inr v)
   | _ \<Rightarrow> Inl OptMalformed)"

definition opt_get :: "json \<Rightarrow> string \<Rightarrow> json \<Rightarrow> opt_error + json" where
  "opt_get row k d = (case row of
     JObj m \<Rightarrow> (case dict_get m k of None \<Rightarrow> Inr d | Some v \<Rightarrow> Inr v)
   | _ \<Rightarrow> Inl OptMalformed)"

definition opt_int :: "json \<Rightarrow> opt_error + int" where
  "opt_int v = (case int_of_json v of Inl _ \<Rightarrow> Inl OptMalformed | Inr i \<Rightarrow> Inr i)"

text \<open>The tolerances \<open>1e-9\<close> of the check and \<open>1e-12\<close> of the reference provider.\<close>

definition check_tolerance :: flt where
  "check_tolerance = rnd (1 / 10 ^ 9)"

definition solve_tolerance :: flt where
  "solve_tolerance = rnd (1 / 10 ^ 12)"

section \<open>Requests\<close>

record opt_supply =
  os_id :: string
  os_capacity :: flt

record opt_demand =
  od_id :: string
  od_quantity :: flt
  od_priority :: int

record opt_lane =
  ol_supply :: string
  ol_demand :: string
  ol_cost :: flt
  ol_max :: flt

record opt_request =
  rq_id :: string
  rq_tenant :: string
  rq_scope :: string
  rq_objective :: string
  rq_supplies :: "opt_supply list"
  rq_demands :: "opt_demand list"
  rq_lanes :: "opt_lane list"
  rq_full :: bool
  rq_bindings :: obj

definition add_supply :: "pyenv \<Rightarrow> json \<Rightarrow> opt_supply list \<Rightarrow> opt_error + opt_supply list" where
  "add_supply E row ss =
     rbind (opt_key row ''supply_id'') (\<lambda>v. rbind (opt_identifier E ''supply_id'' v) (\<lambda>i.
     require (i \<notin> os_id ` set ss) (OptError ''duplicate supply_id'') (
     rbind (opt_key row ''capacity'') (\<lambda>v. rbind (opt_quantity ''capacity'' v) (\<lambda>q.
       Inr (ss @ [\<lparr>os_id = i, os_capacity = q\<rparr>]))))))"

definition add_demand :: "pyenv \<Rightarrow> json \<Rightarrow> opt_demand list \<Rightarrow> opt_error + opt_demand list" where
  "add_demand E row ds =
     rbind (opt_key row ''demand_id'') (\<lambda>v. rbind (opt_identifier E ''demand_id'' v) (\<lambda>i.
     require (i \<notin> od_id ` set ds) (OptError ''duplicate demand_id'') (
     rbind (opt_get row ''priority'' (JInt 50)) (\<lambda>v. rbind (opt_int v) (\<lambda>p.
     require (0 \<le> p \<and> p \<le> 100) (OptError ''priority must be between 0 and 100'') (
     rbind (opt_key row ''quantity'') (\<lambda>v. rbind (opt_quantity ''quantity'' v) (\<lambda>q.
       Inr (ds @ [\<lparr>od_id = i, od_quantity = q, od_priority = p\<rparr>])))))))))"

definition add_lane :: "pyenv \<Rightarrow> opt_supply list \<Rightarrow> opt_demand list \<Rightarrow> json \<Rightarrow> opt_lane list \<Rightarrow> opt_error + opt_lane list" where
  "add_lane E ss ds row ls =
     rbind (opt_key row ''supply_id'') (\<lambda>v. rbind (opt_identifier E ''lane supply_id'' v) (\<lambda>s.
     rbind (opt_key row ''demand_id'') (\<lambda>v. rbind (opt_identifier E ''lane demand_id'' v) (\<lambda>d.
     require (s \<in> os_id ` set ss \<and> d \<in> od_id ` set ds) (OptError ''lane references an unknown supply or demand'') (
     require (\<not> list_ex (\<lambda>l. ol_supply l = s \<and> ol_demand l = d) ls) (OptError ''duplicate supply-demand lane'') (
     rbind (opt_key row ''unit_cost'') (\<lambda>v. rbind (opt_quantity ''unit_cost'' v) (\<lambda>c.
     (case dict_get (map (\<lambda>x. (os_id x, os_capacity x)) ss) s of
        None \<Rightarrow> Inl OptMalformed
      | Some capacity \<Rightarrow>
          rbind (opt_get row ''max_quantity'' (JFloat capacity)) (\<lambda>v. rbind (opt_quantity ''max_quantity'' v) (\<lambda>m.
            Inr (ls @ [\<lparr>ol_supply = s, ol_demand = d, ol_cost = c, ol_max = m\<rparr>]))))))))))))"

definition normalize_request :: "pyenv \<Rightarrow> json \<Rightarrow> opt_error + opt_request" where
  "normalize_request E request = (case request of
     JObj m \<Rightarrow>
       rbind (opt_get request ''objective'' (JStr ''MINIMIZE_COST'')) (\<lambda>v.
       let objective = py_upper (py_str E v) in
       require (objective = ''MINIMIZE_COST'') (OptError ''reference adapter supports MINIMIZE_COST only'') (
       rbind (rbind (opt_get request ''supplies'' (JArr [])) opt_rows) (\<lambda>rows. rbind (rfold (add_supply E) rows []) (\<lambda>ss.
       rbind (rbind (opt_get request ''demands'' (JArr [])) opt_rows) (\<lambda>rows. rbind (rfold (add_demand E) rows []) (\<lambda>ds.
       require (ss \<noteq> [] \<and> ds \<noteq> []) (OptError ''at least one supply and demand are required'') (
       rbind (rbind (opt_get request ''lanes'' (JArr [])) opt_rows) (\<lambda>rows. rbind (rfold (add_lane E ss ds) rows []) (\<lambda>ls.
       require (ls \<noteq> []) (OptError ''at least one allocation lane is required'') (
       rbind (opt_get request ''state_bindings'' (JObj [])) (\<lambda>b. (case b of
          JObj bindings \<Rightarrow>
            rbind (opt_key request ''request_id'') (\<lambda>v. rbind (opt_identifier E ''request_id'' v) (\<lambda>i.
            rbind (opt_key request ''tenant_id'') (\<lambda>v. rbind (opt_identifier E ''tenant_id'' v) (\<lambda>t.
            rbind (opt_key request ''scope_id'') (\<lambda>v. rbind (opt_identifier E ''scope_id'' v) (\<lambda>s.
            rbind (opt_get request ''require_full_demand'' (JBool True)) (\<lambda>full.
              Inr \<lparr>rq_id = i, rq_tenant = t, rq_scope = s, rq_objective = objective, rq_supplies = sort_key os_id ss,
                rq_demands = sort_key od_id ds, rq_lanes = sort_key (\<lambda>l. (ol_supply l, ol_demand l)) ls,
                rq_full = truthy full, rq_bindings = bindings\<rparr>)))))))
        | _ \<Rightarrow> Inl (OptError ''state_bindings must be an object'')))))))))))))
   | _ \<Rightarrow> Inl (OptError ''optimization request must be a JSON object''))"

definition enc_request :: "opt_request \<Rightarrow> json" where
  "enc_request r = mk_obj
     [(''schema_version'', JStr ''edon-optimization-request.v1''), (''request_id'', JStr (rq_id r)),
      (''tenant_id'', JStr (rq_tenant r)), (''scope_id'', JStr (rq_scope r)), (''objective'', JStr (rq_objective r)),
      (''supplies'', JArr (map (\<lambda>s. mk_obj [(''supply_id'', JStr (os_id s)), (''capacity'', JFloat (os_capacity s))])
         (rq_supplies r))),
      (''demands'', JArr (map (\<lambda>d. mk_obj [(''demand_id'', JStr (od_id d)), (''quantity'', JFloat (od_quantity d)),
         (''priority'', JInt (od_priority d))]) (rq_demands r))),
      (''lanes'', JArr (map (\<lambda>l. mk_obj [(''supply_id'', JStr (ol_supply l)), (''demand_id'', JStr (ol_demand l)),
         (''unit_cost'', JFloat (ol_cost l)), (''max_quantity'', JFloat (ol_max l))]) (rq_lanes r))),
      (''require_full_demand'', JBool (rq_full r)), (''state_bindings'', JObj (rq_bindings r))]"

section \<open>The reference provider\<close>

record opt_alloc =
  oa_supply :: string
  oa_demand :: string
  oa_quantity :: flt
  oa_cost :: flt

text \<open>
  The lanes of one demand, in order of cost: each gives what the demand lacks, the supply has left
  and the lane allows.
\<close>

fun serve_lanes :: "opt_lane list \<Rightarrow> flt \<Rightarrow> (string, flt) dict \<Rightarrow> opt_error + (opt_alloc list \<times> flt \<times> (string, flt) dict)" where
  "serve_lanes [] remaining supply = Inr ([], remaining, supply)"
| "serve_lanes (l # ls) remaining supply = (case dict_get supply (ol_supply l) of
     None \<Rightarrow> Inl OptMalformed
   | Some available \<Rightarrow>
       (let amount = fmin (fmin remaining available) (ol_max l) in
        if flt_le amount (Fin 0) then serve_lanes ls remaining supply
        else
          (let a = \<lparr>oa_supply = ol_supply l, oa_demand = ol_demand l, oa_quantity = amount, oa_cost = ol_cost l\<rparr>;
               supply' = dict_put (ol_supply l) (fsub available amount) supply; remaining' = fsub remaining amount in
           if flt_le remaining' solve_tolerance then Inr ([a], remaining', supply')
           else rbind (serve_lanes ls remaining' supply') (\<lambda>(as, r, s). Inr (a # as, r, s)))))"

definition flt_key :: "flt \<Rightarrow> int \<times> rat" where
  "flt_key x = (case x of NInf \<Rightarrow> (- 1, 0) | Fin r \<Rightarrow> (0, r) | _ \<Rightarrow> (1, 0))"

definition lanes_of :: "opt_lane list \<Rightarrow> string \<Rightarrow> opt_lane list" where
  "lanes_of lanes d = sort_key (\<lambda>l. (flt_key (ol_cost l), ol_supply l)) (filter (\<lambda>l. ol_demand l = d) lanes)"

text \<open>The demands, one after the other.\<close>

fun serve_demands :: "opt_lane list \<Rightarrow> opt_demand list \<Rightarrow> (string, flt) dict \<Rightarrow> opt_error + (opt_alloc list \<times> (string, flt) dict)" where
  "serve_demands lanes [] supply = Inr ([], [])"
| "serve_demands lanes (d # ds) supply =
     rbind (serve_lanes (lanes_of lanes (od_id d)) (od_quantity d) supply) (\<lambda>(as, remaining, supply').
     rbind (serve_demands lanes ds supply') (\<lambda>(as', unmet).
       Inr (as @ as', if flt_less solve_tolerance remaining then dict_put (od_id d) remaining unmet else unmet)))"

definition enc_alloc :: "opt_alloc \<Rightarrow> json" where
  "enc_alloc a = mk_obj
     [(''supply_id'', JStr (oa_supply a)), (''demand_id'', JStr (oa_demand a)), (''quantity'', JFloat (oa_quantity a)),
      (''unit_cost'', JFloat (oa_cost a))]"

definition enc_unmet :: "(string, flt) dict \<Rightarrow> json" where
  "enc_unmet d = JObj (map (\<lambda>p. (fst p, JFloat (snd p))) d)"

definition solve :: "opt_request \<Rightarrow> opt_error + json" where
  "solve r =
     (let supply = dict_of (map (\<lambda>s. (os_id s, os_capacity s)) (rq_supplies r));
          demands = sort_key (\<lambda>d. (- od_priority d, od_id d)) (rq_demands r) in
      rbind (serve_demands (rq_lanes r) demands supply) (\<lambda>(as, unmet).
        Inr (mk_obj [(''allocations'', JArr (map enc_alloc as)), (''unmet_demand'', enc_unmet unmet),
          (''solver_status'', JStr (if unmet = [] then ''FEASIBLE'' else ''PARTIAL'')), (''optimality_claim'', JBool False)])))"

section \<open>The check of a candidate\<close>

record opt_use =
  us_supply :: "(string, flt) dict"
  us_demand :: "(string, flt) dict"
  us_lane :: "(string \<times> string, flt) dict"
  us_allocs :: "opt_alloc list"
  us_cost :: flt

definition start_use :: "opt_request \<Rightarrow> opt_use" where
  "start_use r = \<lparr>us_supply = dict_of (map (\<lambda>s. (os_id s, Fin 0)) (rq_supplies r)),
     us_demand = dict_of (map (\<lambda>d. (od_id d, Fin 0)) (rq_demands r)),
     us_lane = dict_of (map (\<lambda>l. ((ol_supply l, ol_demand l), Fin 0)) (rq_lanes r)), us_allocs = [], us_cost = Fin 0\<rparr>"

text \<open>\<open>used[key] += quantity\<close>.\<close>

definition add_used :: "'k::linorder \<Rightarrow> flt \<Rightarrow> ('k, flt) dict \<Rightarrow> opt_error + ('k, flt) dict" where
  "add_used k q d = (case dict_get d k of None \<Rightarrow> Inl OptMalformed | Some x \<Rightarrow> Inr (dict_put k (fadd x q) d))"

definition find_lane :: "opt_lane list \<Rightarrow> string \<Rightarrow> string \<Rightarrow> opt_lane option" where
  "find_lane ls s d = List.find (\<lambda>l. ol_supply l = s \<and> ol_demand l = d) ls"

definition exceeds :: "flt \<Rightarrow> flt \<Rightarrow> bool" where
  "exceeds x bound \<longleftrightarrow> flt_less (fadd bound check_tolerance) x"

definition check_row :: "pyenv \<Rightarrow> opt_request \<Rightarrow> json \<Rightarrow> opt_use \<Rightarrow> opt_error + opt_use" where
  "check_row E r row u =
     rbind (opt_key row ''supply_id'') (\<lambda>v. rbind (opt_identifier E ''candidate supply_id'' v) (\<lambda>s.
     rbind (opt_key row ''demand_id'') (\<lambda>v. rbind (opt_identifier E ''candidate demand_id'' v) (\<lambda>d.
     (case find_lane (rq_lanes r) s d of
        None \<Rightarrow> Inl (OptError ''candidate uses an unregistered lane'')
      | Some lane \<Rightarrow>
          rbind (opt_key row ''quantity'') (\<lambda>v. rbind (opt_quantity ''candidate quantity'' v) (\<lambda>q.
          require (\<not> exceeds q (ol_max lane)) (OptError ''candidate exceeds lane capacity'') (
          rbind (opt_get row ''unit_cost'' (JFloat (ol_cost lane))) (\<lambda>v. rbind (opt_quantity ''candidate unit_cost'' v) (\<lambda>c.
          require (\<not> flt_less check_tolerance (fabs (fsub c (ol_cost lane)))) (OptError ''candidate changed a registered lane cost'') (
          rbind (add_used s q (us_supply u)) (\<lambda>us. rbind (add_used d q (us_demand u)) (\<lambda>ud.
          rbind (add_used (s, d) q (us_lane u)) (\<lambda>ul.
            Inr \<lparr>us_supply = us, us_demand = ud, us_lane = ul,
              us_allocs = us_allocs u @ [\<lparr>oa_supply = s, oa_demand = d, oa_quantity = q, oa_cost = ol_cost lane\<rparr>],
              us_cost = fadd (us_cost u) (fmul q (ol_cost lane))\<rparr>))))))))))))))"

record opt_candidate =
  oc_allocs :: "opt_alloc list"
  oc_unmet :: "(string, flt) dict"
  oc_cost :: flt
  oc_status :: string
  oc_feasible :: bool

definition all_within :: "('k, flt) dict \<Rightarrow> ('k \<Rightarrow> flt) \<Rightarrow> bool" where
  "all_within used bound \<longleftrightarrow> list_all (\<lambda>(k, amount). \<not> exceeds amount (bound k)) used"

definition supply_capacity :: "opt_request \<Rightarrow> string \<Rightarrow> flt" where
  "supply_capacity r i = (case dict_get (map (\<lambda>s. (os_id s, os_capacity s)) (rq_supplies r)) i of None \<Rightarrow> NaN | Some q \<Rightarrow> q)"

definition demand_quantity :: "opt_request \<Rightarrow> string \<Rightarrow> flt" where
  "demand_quantity r i = (case dict_get (map (\<lambda>d. (od_id d, od_quantity d)) (rq_demands r)) i of None \<Rightarrow> NaN | Some q \<Rightarrow> q)"

definition lane_capacity :: "opt_request \<Rightarrow> string \<times> string \<Rightarrow> flt" where
  "lane_capacity r k = (case find_lane (rq_lanes r) (fst k) (snd k) of None \<Rightarrow> NaN | Some l \<Rightarrow> ol_max l)"

definition unmet_demand :: "opt_request \<Rightarrow> (string, flt) dict \<Rightarrow> (string, flt) dict" where
  "unmet_demand r served = map (\<lambda>(d, q). (d, fmax0 (fsub (demand_quantity r d) q)))
     (filter (\<lambda>(d, q). flt_less check_tolerance (fsub (demand_quantity r d) q)) served)"

definition validate_candidate :: "pyenv \<Rightarrow> opt_request \<Rightarrow> json \<Rightarrow> opt_error + opt_candidate" where
  "validate_candidate E r candidate = (case candidate of
     JObj m \<Rightarrow>
       rbind (reject_authority candidate ''candidate'') (\<lambda>_.
       rbind (rbind (opt_get candidate ''allocations'' (JArr [])) opt_rows) (\<lambda>rows.
       rbind (rfold (check_row E r) rows (start_use r)) (\<lambda>u.
       require (all_within (us_supply u) (supply_capacity r)) (OptError ''candidate exceeds supply capacity'') (
       require (all_within (us_demand u) (demand_quantity r)) (OptError ''candidate overserves demand'') (
       require (all_within (us_lane u) (lane_capacity r)) (OptError ''candidate exceeds cumulative lane capacity'') (
       let unmet = unmet_demand r (us_demand u); feasible = unmet = [] in
         Inr \<lparr>oc_allocs = us_allocs u, oc_unmet = unmet, oc_cost = us_cost u,
           oc_status = (if rq_full r \<and> \<not> feasible then ''INFEASIBLE'' else if feasible then ''FEASIBLE'' else ''PARTIAL''),
           oc_feasible = feasible\<rparr>))))))
   | _ \<Rightarrow> Inl (OptError ''optimization provider must return an object''))"

section \<open>Proposals\<close>

record opt_proposal =
  op_request :: opt_request
  op_request_sha :: string
  op_lineage :: string
  op_candidate :: opt_candidate
  op_sha :: string

definition proposal_fields :: "opt_proposal \<Rightarrow> (string \<times> json) list" where
  "proposal_fields p = (let r = op_request p; c = op_candidate p in
     [(''schema_version'', JStr ''edon-optimization-candidate.v1''), (''request_id'', JStr (rq_id r)),
      (''tenant_id'', JStr (rq_tenant r)), (''scope_id'', JStr (rq_scope r)), (''objective'', JStr (rq_objective r)),
      (''request_sha256'', JStr (op_request_sha p)), (''provider_lineage'', JStr (op_lineage p)),
      (''allocations'', JArr (map enc_alloc (oc_allocs c))), (''unmet_demand'', enc_unmet (oc_unmet c)),
      (''total_cost'', JFloat (oc_cost c)), (''status'', JStr (oc_status c)), (''feasible'', JBool (oc_feasible c)),
      (''optimality_claim'', JBool False), (''binding_authority'', JBool False),
      (''requires_kernel_authorization'', JBool True)])"

definition new_adapter :: "pyenv \<Rightarrow> json \<Rightarrow> opt_error + string" where
  "new_adapter E provider_lineage = opt_identifier E ''provider_lineage'' provider_lineage"

definition opt_propose :: "pyenv \<Rightarrow> (opt_request \<Rightarrow> opt_error + json) \<Rightarrow> string \<Rightarrow> json \<Rightarrow> opt_error + opt_proposal" where
  "opt_propose E provider lineage request =
     rbind (normalize_request E request) (\<lambda>r.
     rbind (provider r) (\<lambda>raw.
     rbind (validate_candidate E r raw) (\<lambda>c.
       let p = \<lparr>op_request = r, op_request_sha = sha256_json E (enc_request r), op_lineage = lineage, op_candidate = c, op_sha = []\<rparr> in
       Inr (p\<lparr>op_sha := sha256_json E (mk_obj (proposal_fields p))\<rparr>))))"

end
