(* ===== verification/OptimizeProps.thy ===== *)
theory OptimizeProps
  imports Optimize
begin

text \<open>
  What the optimization boundary promises, on requests whose quantities are whole numbers below
  two to the 52, where sums of floats are exact until they exceed a capacity: an accepted allocation
  respects every capacity, and the candidate of the reference provider is accepted and cannot be
  increased on any lane.
\<close>

section \<open>Normalized requests\<close>

definition ident_ok :: "string \<Rightarrow> bool" where
  "ident_ok s \<longleftrightarrow> py_strip s = s \<and> s \<noteq> [] \<and> length s \<le> 200"

lemma opt_identifier_ok: "opt_identifier E label v = Inr i \<Longrightarrow> ident_ok i"
  by (auto simp: opt_identifier_def ident_ok_def dest!: ident_check_Inr_D)

lemma opt_identifier_str: "ident_ok i \<Longrightarrow> opt_identifier E label (JStr i) = Inr i"
  by (simp add: opt_identifier_def ident_ok_def ident_check_def py_str_def)

definition quantity_ok :: "flt \<Rightarrow> bool" where
  "quantity_ok q \<longleftrightarrow> flt_finite q \<and> \<not> flt_less q (Fin 0)"

lemma opt_quantity_ok: "opt_quantity label v = Inr q \<Longrightarrow> quantity_ok q"
  by (auto simp: opt_quantity_def quantity_ok_def result_simps)

lemma opt_quantity_float: "quantity_ok q \<Longrightarrow> opt_quantity label (JFloat q) = Inr q"
  by (simp add: opt_quantity_def quantity_ok_def)

abbreviation lane_key :: "opt_lane \<Rightarrow> string \<times> string" where
  "lane_key l \<equiv> (ol_supply l, ol_demand l)"

definition supplies_ok :: "opt_supply list \<Rightarrow> bool" where
  "supplies_ok ss \<longleftrightarrow> distinct (map os_id ss) \<and> (\<forall>s \<in> set ss. ident_ok (os_id s) \<and> quantity_ok (os_capacity s))"

definition demands_ok :: "opt_demand list \<Rightarrow> bool" where
  "demands_ok ds \<longleftrightarrow> distinct (map od_id ds) \<and> (\<forall>d \<in> set ds. ident_ok (od_id d) \<and> quantity_ok (od_quantity d))"

definition lanes_ok :: "opt_supply list \<Rightarrow> opt_demand list \<Rightarrow> opt_lane list \<Rightarrow> bool" where
  "lanes_ok ss ds ls \<longleftrightarrow> distinct (map lane_key ls) \<and>
     (\<forall>l \<in> set ls. ol_supply l \<in> os_id ` set ss \<and> ol_demand l \<in> od_id ` set ds \<and> quantity_ok (ol_cost l) \<and> quantity_ok (ol_max l))"

definition request_ok :: "opt_request \<Rightarrow> bool" where
  "request_ok r \<longleftrightarrow> supplies_ok (rq_supplies r) \<and> demands_ok (rq_demands r) \<and> lanes_ok (rq_supplies r) (rq_demands r) (rq_lanes r)"

lemma add_supply_ok: "supplies_ok ss \<Longrightarrow> add_supply E row ss = Inr ss' \<Longrightarrow> supplies_ok ss'"
  by (auto simp: add_supply_def rbind_eq_Inr require_eq_Inr supplies_ok_def)
    (erule opt_identifier_ok opt_quantity_ok)+

lemma add_demand_ok: "demands_ok ds \<Longrightarrow> add_demand E row ds = Inr ds' \<Longrightarrow> demands_ok ds'"
  by (auto simp: add_demand_def rbind_eq_Inr require_eq_Inr demands_ok_def)
    (erule opt_identifier_ok opt_quantity_ok)+

lemma add_lane_D:
  assumes "add_lane E ss ds row ls = Inr ls'"
  shows "\<exists>l c m. ls' = ls @ [l] \<and> ol_supply l \<in> os_id ` set ss \<and> ol_demand l \<in> od_id ` set ds \<and>
    \<not> list_ex (\<lambda>x. ol_supply x = ol_supply l \<and> ol_demand x = ol_demand l) ls \<and>
    opt_quantity ''unit_cost'' c = Inr (ol_cost l) \<and> opt_quantity ''max_quantity'' m = Inr (ol_max l)"
  using assms by (auto simp: add_lane_def rbind_eq_Inr require_eq_Inr split: option.splits) blast+

lemma add_lane_ok:
  assumes "lanes_ok ss ds ls" and "add_lane E ss ds row ls = Inr ls'"
  shows "lanes_ok ss ds ls'"
proof -
  obtain l c m where l: "ls' = ls @ [l]" "ol_supply l \<in> os_id ` set ss" "ol_demand l \<in> od_id ` set ds"
      "\<not> list_ex (\<lambda>x. ol_supply x = ol_supply l \<and> ol_demand x = ol_demand l) ls"
      "opt_quantity ''unit_cost'' c = Inr (ol_cost l)" "opt_quantity ''max_quantity'' m = Inr (ol_max l)"
    using add_lane_D [OF assms(2)] by blast
  have "lane_key l \<notin> lane_key ` set ls" using l(4) by (auto simp: list_ex_iff)
  with assms(1) l(1-3) opt_quantity_ok [OF l(5)] opt_quantity_ok [OF l(6)] show ?thesis by (simp add: lanes_ok_def)
qed

lemma case_obj_Inr: "(case v of JObj m \<Rightarrow> f m | _ \<Rightarrow> Inl e) = Inr y \<longleftrightarrow> (\<exists>m. v = JObj m \<and> f m = Inr y)"
  by (cases v) simp_all

lemma distinct_map_sort_key: "distinct (map f (sort_key g xs)) = distinct (map f xs)"
proof -
  have "mset (map f (sort_key g xs)) = mset (map f xs)" by simp
  then show ?thesis by (rule mset_eq_imp_distinct_iff)
qed

lemma normalize_request_ok:
  assumes "normalize_request E request = Inr r"
  shows "request_ok r"
proof -
  obtain m where m: "request = JObj m" using assms by (cases request) (simp_all add: normalize_request_def)
  obtain ss ds ls rows1 rows2 rows3 where
    s: "rfold (add_supply E) rows1 [] = Inr ss" and d: "rfold (add_demand E) rows2 [] = Inr ds"
    and l: "rfold (add_lane E ss ds) rows3 [] = Inr ls"
    and r: "rq_supplies r = sort_key os_id ss" "rq_demands r = sort_key od_id ds" "rq_lanes r = sort_key lane_key ls"
    using assms unfolding normalize_request_def m json.case Let_def
    by (auto simp: rbind_eq_Inr require_eq_Inr case_obj_Inr)
  have "supplies_ok ss" by (rule rfold_invariant [OF _ _ s]) (erule add_supply_ok, assumption, simp add: supplies_ok_def)
  moreover have "demands_ok ds" by (rule rfold_invariant [OF _ _ d]) (erule add_demand_ok, assumption, simp add: demands_ok_def)
  moreover have "lanes_ok ss ds ls" by (rule rfold_invariant [OF _ _ l]) (erule add_lane_ok, assumption, simp add: lanes_ok_def)
  ultimately show ?thesis
    by (simp add: request_ok_def r supplies_ok_def demands_ok_def lanes_ok_def distinct_map_sort_key)
qed

section \<open>Sums of whole quantities\<close>

definition small :: "flt \<Rightarrow> bool" where
  "small x \<longleftrightarrow> whole x \<and> amount x < 2 ^ 52"

lemma small_Fin [simp]: "small (Fin (of_int n)) \<longleftrightarrow> 0 \<le> n \<and> n < 2 ^ 52"
  by (auto simp: small_def)

lemma smallE: "small x \<Longrightarrow> (\<And>n. x = Fin (of_int n) \<Longrightarrow> 0 \<le> n \<Longrightarrow> n < 2 ^ 52 \<Longrightarrow> P) \<Longrightarrow> P"
  by (auto simp: small_def elim: wholeE)

lemma small_quantity: "small x \<Longrightarrow> quantity_ok x"
  by (erule smallE) (simp add: quantity_ok_def)

text \<open>A float sum that is the exact sum, or beyond two to the 53.\<close>

definition tracks :: "flt \<Rightarrow> int \<Rightarrow> bool" where
  "tracks x n \<longleftrightarrow> x = Fin (of_int n) \<and> 0 \<le> n \<and> n \<le> 2 ^ 53 \<or> 2 ^ 53 < n \<and> flt_le (Fin (2 ^ 53)) x"

lemma rnd_2_53: "rnd (2 ^ 53) = Fin (2 ^ 53)"
  using rnd_of_int [of "2 ^ 53"] by simp

lemma tracks_add:
  assumes "tracks x n" and "small q"
  shows "tracks (fadd x q) (n + amount q)"
proof -
  obtain m where m: "q = Fin (of_int m)" "0 \<le> m" "m < 2 ^ 52" using assms(2) by (rule smallE)
  have beyond: "flt_le (Fin (2 ^ 53)) (rnd z)" if "2 ^ 53 \<le> z" for z
    by (rule rnd_ge [OF _ that rnd_2_53]) simp
  from assms(1) consider "x = Fin (of_int n)" "0 \<le> n" "n + m \<le> 2 ^ 53" | "x = Fin (of_int n)" "2 ^ 53 < n + m"
    | "2 ^ 53 < n" "flt_le (Fin (2 ^ 53)) x" unfolding tracks_def by linarith
  then show ?thesis
  proof cases
    case 1
    then have "fadd (Fin (of_int n)) (Fin (of_int m)) = Fin (of_int (n + m))" using m by (intro fadd_of_int) simp
    with 1 m show ?thesis by (simp add: tracks_def)
  next
    case 2
    then have "(of_int (2 ^ 53) :: rat) \<le> of_int (n + m)" by (simp only: of_int_le_iff less_imp_le)
    then have "flt_le (Fin (2 ^ 53)) (rnd (of_int n + of_int m))" by (intro beyond) simp
    with 2 m show ?thesis by (simp add: tracks_def)
  next
    case 3
    have "flt_le (Fin (2 ^ 53)) (fadd x q)"
    proof (cases x)
      case (Fin z)
      then have "2 ^ 53 \<le> z + of_int m" using 3 m(2) by (auto simp: flt_le_def intro: add_increasing2)
      then show ?thesis unfolding m(1) Fin fadd.simps by (rule beyond)
    qed (use 3 m(1) in \<open>simp_all add: flt_le_def\<close>)
    with 3 m show ?thesis by (simp add: tracks_def)
  qed
qed

lemma check_tolerance: "tolerance check_tolerance"
  unfolding check_tolerance_def by (rule rnd_tolerance) simp_all

lemma solve_tolerance: "tolerance solve_tolerance"
  unfolding solve_tolerance_def by (rule rnd_tolerance) simp_all

lemma tolerance_less: "tolerance t \<Longrightarrow> 0 \<le> n \<Longrightarrow> flt_less t (Fin (of_int n)) \<longleftrightarrow> 0 < n"
proof -
  assume "tolerance t" "0 \<le> n"
  then obtain e where e: "t = Fin e" "0 \<le> e" "e \<le> 1 / 2" by (auto simp: tolerance_def)
  show ?thesis
  proof (cases "n = 0")
    case False
    with \<open>0 \<le> n\<close> have "(1::rat) \<le> of_int n" by simp
    with e False \<open>0 \<le> n\<close> show ?thesis by simp
  qed (use e in simp)
qed

lemma exceeds_whole:
  assumes "0 \<le> c" and "c < 2 ^ 52"
  shows "exceeds (Fin (of_int n)) (Fin (of_int c)) \<longleftrightarrow> c < n"
proof -
  obtain y where y: "fadd (Fin (of_int c)) check_tolerance = Fin y" "of_int c \<le> y" "y \<le> of_int c + 1 / 2"
    using add_tolerance [OF check_tolerance assms] by blast
  have "y < of_int n \<longleftrightarrow> c < n"
  proof
    assume "y < of_int n"
    with y(2) have "(of_int c :: rat) < of_int n" by linarith
    then show "c < n" by simp
  next
    assume "c < n"
    then have "(of_int (c + 1) :: rat) \<le> of_int n" by (simp only: of_int_le_iff)
    with y(3) show "y < of_int n" by simp
  qed
  with y(1) show ?thesis by (simp add: exceeds_def)
qed

lemma tracks_bound:
  assumes "tracks x n" and "small c" and "\<not> exceeds x c"
  shows "x = Fin (of_int n) \<and> 0 \<le> n \<and> n \<le> amount c"
proof -
  obtain k where k: "c = Fin (of_int k)" "0 \<le> k" "k < 2 ^ 52" using assms(2) by (rule smallE)
  obtain y where y: "fadd c check_tolerance = Fin y" "y \<le> of_int k + 1 / 2"
    using add_tolerance [OF check_tolerance k(2,3)] k(1) by blast
  have "(of_int (k + 1) :: rat) \<le> of_int (2 ^ 53)" using k(3) unfolding of_int_le_iff by simp
  with y(2) have "y < 2 ^ 53" by simp
  then have "\<not> flt_le (Fin (2 ^ 53)) x" using assms(3) y(1) unfolding exceeds_def by (cases x) (auto simp: flt_le_def)
  with assms(1) have x: "x = Fin (of_int n)" "0 \<le> n" by (auto simp: tracks_def)
  with assms(3) k exceeds_whole [OF k(2,3), of n] show ?thesis by simp
qed

section \<open>The check of a candidate\<close>

text \<open>What the allocations that meet a condition move in all.\<close>

definition moved :: "(opt_alloc \<Rightarrow> bool) \<Rightarrow> opt_alloc list \<Rightarrow> int" where
  "moved P as = sum_list (map (\<lambda>a. amount (oa_quantity a)) (filter P as))"

lemma moved_simps [simp]:
  "moved P [] = 0" "moved P (a # as) = (if P a then amount (oa_quantity a) else 0) + moved P as"
  "moved P (as @ bs) = moved P as + moved P bs"
  by (simp_all add: moved_def)

lemma small_amount: "small x \<Longrightarrow> 0 \<le> amount x \<and> amount x < 2 ^ 52 \<and> x = Fin (of_int (amount x))"
  by (auto elim: smallE)

lemma moved_nonneg: "(\<And>a. a \<in> set as \<Longrightarrow> small (oa_quantity a)) \<Longrightarrow> 0 \<le> moved P as"
  by (induction as) (auto dest: small_amount intro!: add_nonneg_nonneg)

lemma moved_none: "(\<And>a. a \<in> set as \<Longrightarrow> \<not> P a) \<Longrightarrow> moved P as = 0"
  by (induction as) auto

abbreviation alloc_key :: "opt_alloc \<Rightarrow> string \<times> string" where
  "alloc_key a \<equiv> (oa_supply a, oa_demand a)"

definition registered :: "opt_request \<Rightarrow> opt_alloc \<Rightarrow> bool" where
  "registered r a \<longleftrightarrow> (\<exists>l \<in> set (rq_lanes r). lane_key l = alloc_key a \<and> oa_cost a = ol_cost l \<and> \<not> exceeds (oa_quantity a) (ol_max l))"

definition follows :: "('k::linorder, flt) dict \<Rightarrow> (opt_alloc \<Rightarrow> 'k) \<Rightarrow> opt_alloc list \<Rightarrow> bool" where
  "follows d key as \<longleftrightarrow> (\<forall>k x. dict_get d k = Some x \<longrightarrow> tracks x (moved (\<lambda>a. key a = k) as))"

definition used_by :: "('k::linorder, flt) dict \<Rightarrow> 'k set \<Rightarrow> (opt_alloc \<Rightarrow> 'k) \<Rightarrow> opt_alloc list \<Rightarrow> bool" where
  "used_by d K key as \<longleftrightarrow> dict_ok d \<and> fst ` set d = K \<and> ((\<forall>a \<in> set as. small (oa_quantity a)) \<longrightarrow> follows d key as)"

lemma used_by_start:
  assumes "distinct (map f xs)"
  shows "used_by (dict_of (map (\<lambda>x. (f x, Fin 0)) xs)) (f ` set xs) key []"
proof -
  let ?d = "dict_of (map (\<lambda>x. (f x, Fin 0)) xs)"
  have d: "distinct (map fst (map (\<lambda>x. (f x, Fin 0 :: flt)) xs))" using assms by (simp add: o_def)
  have g: "dict_get ?d = dict_get (map (\<lambda>x. (f x, Fin 0)) xs)" by (rule dict_of_get [OF d])
  have "k \<in> fst ` set ?d \<longleftrightarrow> k \<in> f ` set xs" for k
    using dict_get_None_iff [of ?d k] dict_get_None_iff [of "map (\<lambda>x. (f x, Fin 0 :: flt)) xs" k] g
    by (simp add: image_image)
  moreover have "tracks x 0" if "dict_get ?d k = Some x" for k x
    using that unfolding g by (auto dest!: map_of_SomeD simp: tracks_def)
  ultimately show ?thesis by (auto simp: used_by_def follows_def)
qed

lemma add_used_D: "add_used k q d = Inr d' \<Longrightarrow> \<exists>x. dict_get d k = Some x \<and> d' = dict_put k (fadd x q) d"
  by (auto simp: add_used_def split: option.splits)

lemma used_by_add:
  assumes u: "used_by d K key as" and add: "add_used (key a) (oa_quantity a) d = Inr d'"
  shows "used_by d' K key (as @ [a])"
proof -
  obtain x where x: "dict_get d (key a) = Some x" "d' = dict_put (key a) (fadd x (oa_quantity a)) d"
    using add_used_D [OF add] by blast
  then have "key a \<in> fst ` set d" by (force dest: map_of_SomeD)
  moreover have "follows d' key (as @ [a])" if "\<forall>b \<in> set (as @ [a]). small (oa_quantity b)"
    using u that x tracks_add [of _ _ "oa_quantity a"] by (auto simp: used_by_def follows_def)
  ultimately show ?thesis using u x(2) by (auto simp: used_by_def)
qed

lemma used_by_adds: "used_by d K key as \<Longrightarrow> k \<in> K \<Longrightarrow> \<exists>d'. add_used k x d = Inr d'"
  by (cases "dict_get d k") (auto simp: add_used_def used_by_def dict_get_None_iff)

lemma used_by_amount:
  assumes "used_by d K key as" and "\<forall>a \<in> set as. small (oa_quantity a)" and "all_within d bound" and "k \<in> K" and "small (bound k)"
  shows "dict_get d k = Some (Fin (of_int (moved (\<lambda>a. key a = k) as))) \<and> moved (\<lambda>a. key a = k) as \<le> amount (bound k)"
proof -
  obtain x where x: "dict_get d k = Some x" using assms(1,4) by (cases "dict_get d k") (auto simp: used_by_def dict_get_None_iff)
  with assms(1,2) have "tracks x (moved (\<lambda>a. key a = k) as)" by (simp add: used_by_def follows_def)
  moreover have "\<not> exceeds x (bound k)"
    using map_of_SomeD [OF x] assms(3) by (auto simp: all_within_def list_all_iff)
  ultimately show ?thesis using tracks_bound [OF _ assms(5)] x by blast
qed

definition use_ok :: "opt_request \<Rightarrow> opt_use \<Rightarrow> bool" where
  "use_ok r u \<longleftrightarrow> (\<forall>a \<in> set (us_allocs u). registered r a) \<and>
     used_by (us_supply u) (os_id ` set (rq_supplies r)) oa_supply (us_allocs u) \<and>
     used_by (us_demand u) (od_id ` set (rq_demands r)) oa_demand (us_allocs u) \<and>
     used_by (us_lane u) (lane_key ` set (rq_lanes r)) alloc_key (us_allocs u)"

lemma start_use_ok: "request_ok r \<Longrightarrow> use_ok r (start_use r)"
  unfolding use_ok_def start_use_def request_ok_def supplies_ok_def demands_ok_def lanes_ok_def
  by (simp add: used_by_start)

lemma check_row_D:
  assumes "check_row E r row u = Inr u'"
  shows "\<exists>a. registered r a \<and> us_allocs u' = us_allocs u @ [a] \<and>
    add_used (oa_supply a) (oa_quantity a) (us_supply u) = Inr (us_supply u') \<and>
    add_used (oa_demand a) (oa_quantity a) (us_demand u) = Inr (us_demand u') \<and>
    add_used (alloc_key a) (oa_quantity a) (us_lane u) = Inr (us_lane u')"
proof -
  obtain s d q lane where l: "find_lane (rq_lanes r) s d = Some lane" and q: "\<not> exceeds q (ol_max lane)"
    and u: "us_allocs u' = us_allocs u @ [\<lparr>oa_supply = s, oa_demand = d, oa_quantity = q, oa_cost = ol_cost lane\<rparr>]"
      "add_used s q (us_supply u) = Inr (us_supply u')" "add_used d q (us_demand u) = Inr (us_demand u')"
      "add_used (s, d) q (us_lane u) = Inr (us_lane u')"
    using assms unfolding check_row_def by (auto simp: rbind_eq_Inr require_eq_Inr split: option.split_asm)
  have "lane \<in> set (rq_lanes r)" "ol_supply lane = s" "ol_demand lane = d"
    using find_Some_D [OF l [unfolded find_lane_def]] by simp_all
  with q u show ?thesis
    by (intro exI [of _ "\<lparr>oa_supply = s, oa_demand = d, oa_quantity = q, oa_cost = ol_cost lane\<rparr>"]) (auto simp: registered_def)
qed

lemma check_row_ok: "use_ok r u \<Longrightarrow> check_row E r row u = Inr u' \<Longrightarrow> use_ok r u'"
  by (drule check_row_D) (auto simp: use_ok_def intro: used_by_add)

lemma validated_use:
  assumes "validate_candidate E r candidate = Inr c" and "request_ok r"
  shows "\<exists>u. use_ok r u \<and> all_within (us_supply u) (supply_capacity r) \<and> all_within (us_demand u) (demand_quantity r) \<and>
    all_within (us_lane u) (lane_capacity r) \<and> oc_allocs c = us_allocs u \<and> oc_unmet c = unmet_demand r (us_demand u) \<and>
    (oc_feasible c \<longleftrightarrow> oc_unmet c = []) \<and>
    oc_status c = (if rq_full r \<and> oc_unmet c \<noteq> [] then ''INFEASIBLE'' else if oc_unmet c = [] then ''FEASIBLE'' else ''PARTIAL'')"
proof -
  obtain rows u where u: "rfold (check_row E r) rows (start_use r) = Inr u"
    "all_within (us_supply u) (supply_capacity r)" "all_within (us_demand u) (demand_quantity r)" "all_within (us_lane u) (lane_capacity r)"
    and c: "c = \<lparr>oc_allocs = us_allocs u, oc_unmet = unmet_demand r (us_demand u), oc_cost = us_cost u,
      oc_status = (if rq_full r \<and> unmet_demand r (us_demand u) \<noteq> [] then ''INFEASIBLE''
        else if unmet_demand r (us_demand u) = [] then ''FEASIBLE'' else ''PARTIAL''), oc_feasible = (unmet_demand r (us_demand u) = [])\<rparr>"
    using assms(1) unfolding validate_candidate_def Let_def by (auto simp: rbind_eq_Inr require_eq_Inr case_obj_Inr)
  have "use_ok r u" by (rule rfold_invariant [OF _ _ u(1)]) (erule check_row_ok, assumption, rule start_use_ok [OF assms(2)])
  with u c show ?thesis by (intro exI [of _ u]) simp
qed

section \<open>Accepted allocations\<close>

definition small_request :: "opt_request \<Rightarrow> bool" where
  "small_request r \<longleftrightarrow> (\<forall>s \<in> set (rq_supplies r). small (os_capacity s)) \<and> (\<forall>d \<in> set (rq_demands r). small (od_quantity d)) \<and>
     (\<forall>l \<in> set (rq_lanes r). small (ol_max l))"

lemma supply_capacity_of: "request_ok r \<Longrightarrow> s \<in> set (rq_supplies r) \<Longrightarrow> supply_capacity r (os_id s) = os_capacity s"
  unfolding supply_capacity_def request_ok_def supplies_ok_def
  by (subst map_of_is_SomeI [of _ _ "os_capacity s"]) (auto simp: o_def)

lemma demand_quantity_of: "request_ok r \<Longrightarrow> d \<in> set (rq_demands r) \<Longrightarrow> demand_quantity r (od_id d) = od_quantity d"
  unfolding demand_quantity_def request_ok_def demands_ok_def
  by (subst map_of_is_SomeI [of _ _ "od_quantity d"]) (auto simp: o_def)

lemma find_lane_of:
  assumes "distinct (map lane_key ls)" and "l \<in> set ls"
  shows "find_lane ls (ol_supply l) (ol_demand l) = Some l"
proof (cases "find_lane ls (ol_supply l) (ol_demand l)")
  case None
  then show ?thesis using assms(2) by (auto simp: find_lane_def find_None_iff')
next
  case (Some m)
  then have "m \<in> set ls" "lane_key m = lane_key l"
    using find_Some_D [OF Some [unfolded find_lane_def]] by simp_all
  then have "m = l" using assms by (auto simp: distinct_map dest: inj_onD)
  with Some show ?thesis by simp
qed

lemma lane_capacity_of: "request_ok r \<Longrightarrow> l \<in> set (rq_lanes r) \<Longrightarrow> lane_capacity r (lane_key l) = ol_max l"
  by (simp add: lane_capacity_def request_ok_def lanes_ok_def find_lane_of)

lemma dict_get_map_filter:
  "dict_ok d \<Longrightarrow> dict_get (map (\<lambda>(k, q). (k, f k q)) (filter (\<lambda>(k, q). P k q) d)) k =
     (case dict_get d k of None \<Rightarrow> None | Some q \<Rightarrow> if P k q then Some (f k q) else None)"
proof (induction d)
  case (Cons p d)
  obtain l q where p: "p = (l, q)" by force
  have "dict_get (map (\<lambda>(k, q). (k, f k q)) (filter (\<lambda>(k, q). P k q) d)) l = None" if "dict_ok (p # d)"
    using that by (force simp: p dict_ok_Cons map_of_eq_None_iff)
  then show ?case using Cons by (auto simp: p dict_ok_Cons)
qed simp

lemma unmet_demand_get:
  assumes r: "request_ok r" "small_request r" and d: "d \<in> set (rq_demands r)" and ok: "dict_ok used"
    and q: "dict_get used (od_id d) = Some (Fin (of_int n))" "0 \<le> n" "n \<le> amount (od_quantity d)"
  shows "dict_get (unmet_demand r used) (od_id d) =
    (if n < amount (od_quantity d) then Some (Fin (of_int (amount (od_quantity d) - n))) else None)"
proof -
  obtain m where m: "od_quantity d = Fin (of_int m)" "0 \<le> m" "m < 2 ^ 52"
    using r(2) d smallE unfolding small_request_def by metis
  have sub: "fsub (Fin (of_int m)) (Fin (of_int n)) = Fin (of_int (m - n))" using m q by (intro fsub_of_int) simp
  have "0 \<le> m - n" using q(3) m(1) by simp
  note tolerance_less [OF check_tolerance this] fmax0_of_int [OF this]
  then show ?thesis
    unfolding unmet_demand_def dict_get_map_filter [OF ok] q(1) demand_quantity_of [OF r(1) d] m(1)
    using sub by simp
qed

lemma unmet_demand_keys: "fst ` set (unmet_demand r used) \<subseteq> fst ` set used"
  by (force simp: unmet_demand_def)

text \<open>What a check that succeeds says, on whole quantities.\<close>

definition feasible_for :: "opt_request \<Rightarrow> opt_alloc list \<Rightarrow> bool" where
  "feasible_for r as \<longleftrightarrow>
     (\<forall>a \<in> set as. \<exists>l \<in> set (rq_lanes r). ol_supply l = oa_supply a \<and> ol_demand l = oa_demand a \<and> oa_cost a = ol_cost l) \<and>
     (\<forall>s \<in> set (rq_supplies r). moved (\<lambda>a. oa_supply a = os_id s) as \<le> amount (os_capacity s)) \<and>
     (\<forall>d \<in> set (rq_demands r). moved (\<lambda>a. oa_demand a = od_id d) as \<le> amount (od_quantity d)) \<and>
     (\<forall>l \<in> set (rq_lanes r). moved (\<lambda>a. oa_supply a = ol_supply l \<and> oa_demand a = ol_demand l) as \<le> amount (ol_max l))"

lemma validated_feasible:
  assumes val: "validate_candidate E r candidate = Inr c" and r: "request_ok r" "small_request r"
    and whole: "\<forall>a \<in> set (oc_allocs c). whole (oa_quantity a)"
  shows "feasible_for r (oc_allocs c) \<and>
    (\<forall>d \<in> set (rq_demands r). dict_get (oc_unmet c) (od_id d) =
       (let missing = amount (od_quantity d) - moved (\<lambda>a. oa_demand a = od_id d) (oc_allocs c) in
        if 0 < missing then Some (Fin (of_int missing)) else None)) \<and>
    (oc_feasible c \<longleftrightarrow> (\<forall>d \<in> set (rq_demands r). moved (\<lambda>a. oa_demand a = od_id d) (oc_allocs c) = amount (od_quantity d)))"
proof -
  obtain u where ok: "use_ok r u" and within: "all_within (us_supply u) (supply_capacity r)"
      "all_within (us_demand u) (demand_quantity r)" "all_within (us_lane u) (lane_capacity r)"
    and c: "oc_allocs c = us_allocs u" "oc_unmet c = unmet_demand r (us_demand u)" "oc_feasible c \<longleftrightarrow> oc_unmet c = []"
    using validated_use [OF val r(1)] by blast
  have small: "\<forall>a \<in> set (us_allocs u). small (oa_quantity a)"
  proof
    fix a assume a: "a \<in> set (us_allocs u)"
    then obtain l where l: "l \<in> set (rq_lanes r)" "\<not> exceeds (oa_quantity a) (ol_max l)"
      using ok by (auto simp: use_ok_def registered_def)
    then obtain m where m: "ol_max l = Fin (of_int m)" "0 \<le> m" "m < 2 ^ 52"
      using r(2) smallE unfolding small_request_def by metis
    obtain n where n: "oa_quantity a = Fin (of_int n)" "0 \<le> n" using whole a c(1) by (auto elim: wholeE)
    with l(2) m exceeds_whole [OF m(2,3), of n] show "small (oa_quantity a)" by simp
  qed
  note us = ok [unfolded use_ok_def]
  have sup: "moved (\<lambda>a. oa_supply a = os_id s) (us_allocs u) \<le> amount (os_capacity s)" if "s \<in> set (rq_supplies r)" for s
    using used_by_amount [of "us_supply u" "os_id ` set (rq_supplies r)" oa_supply "us_allocs u" "supply_capacity r" "os_id s"]
      us small within(1) that r by (simp add: supply_capacity_of small_request_def)
  have demand: "dict_get (us_demand u) (od_id d) = Some (Fin (of_int (moved (\<lambda>a. oa_demand a = od_id d) (us_allocs u)))) \<and>
      moved (\<lambda>a. oa_demand a = od_id d) (us_allocs u) \<le> amount (od_quantity d)" if "d \<in> set (rq_demands r)" for d
    using used_by_amount [of "us_demand u" "od_id ` set (rq_demands r)" oa_demand "us_allocs u" "demand_quantity r" "od_id d"]
      us small within(2) that r by (simp add: demand_quantity_of small_request_def)
  have lane: "moved (\<lambda>a. alloc_key a = lane_key l) (us_allocs u) \<le> amount (ol_max l)" if "l \<in> set (rq_lanes r)" for l
    using used_by_amount [of "us_lane u" "lane_key ` set (rq_lanes r)" alloc_key "us_allocs u" "lane_capacity r" "lane_key l"]
      us small within(3) that r lane_capacity_of [OF r(1) that] by (simp add: small_request_def)
  have unmet: "dict_get (oc_unmet c) (od_id d) =
      (let missing = amount (od_quantity d) - moved (\<lambda>a. oa_demand a = od_id d) (oc_allocs c) in
       if 0 < missing then Some (Fin (of_int missing)) else None)" if "d \<in> set (rq_demands r)" for d
    using unmet_demand_get [OF r that, of "us_demand u"] demand [OF that] us moved_nonneg [of "us_allocs u"] small
    by (simp add: c used_by_def Let_def)
  have iff: "oc_unmet c = [] \<longleftrightarrow> (\<forall>d \<in> set (rq_demands r). dict_get (oc_unmet c) (od_id d) = None)"
  proof
    assume none: "\<forall>d \<in> set (rq_demands r). dict_get (oc_unmet c) (od_id d) = None"
    have "fst ` set (oc_unmet c) \<subseteq> od_id ` set (rq_demands r)"
      using unmet_demand_keys [of r "us_demand u"] us by (simp add: c(2) used_by_def)
    moreover have "od_id d \<notin> fst ` set (oc_unmet c)" if "d \<in> set (rq_demands r)" for d
      using none that by (simp add: dict_get_None_iff)
    ultimately have "k \<notin> fst ` set (oc_unmet c)" for k by (metis imageE subsetD)
    then show "oc_unmet c = []" by (metis empty_iff image_is_empty list.set_sel(1) set_empty equals0I)
  qed simp
  have "oc_feasible c \<longleftrightarrow> (\<forall>d \<in> set (rq_demands r). moved (\<lambda>a. oa_demand a = od_id d) (oc_allocs c) = amount (od_quantity d))"
  proof -
    have "dict_get (oc_unmet c) (od_id d) = None \<longleftrightarrow> moved (\<lambda>a. oa_demand a = od_id d) (oc_allocs c) = amount (od_quantity d)"
      if "d \<in> set (rq_demands r)" for d
      using unmet [OF that] demand [OF that] by (auto simp: Let_def c(1))
    with iff show ?thesis unfolding c(3) by simp
  qed
  moreover have "feasible_for r (oc_allocs c)"
    unfolding feasible_for_def c(1) using sup demand lane us by (auto simp: registered_def)
  ultimately show ?thesis using unmet by blast
qed

section \<open>The reference provider\<close>

text \<open>What a dictionary of small quantities has left for a key.\<close>

definition left_of :: "(string, flt) dict \<Rightarrow> string \<Rightarrow> int" where
  "left_of d k = (case dict_get d k of None \<Rightarrow> 0 | Some x \<Rightarrow> amount x)"

definition stock_ok :: "string set \<Rightarrow> (string, flt) dict \<Rightarrow> bool" where
  "stock_ok K d \<longleftrightarrow> (\<forall>k x. dict_get d k = Some x \<longrightarrow> small x) \<and> (\<forall>k \<in> K. dict_get d k \<noteq> None)"

lemma stock_get: "stock_ok K d \<Longrightarrow> k \<in> K \<Longrightarrow> dict_get d k = Some (Fin (of_int (left_of d k))) \<and> 0 \<le> left_of d k \<and> left_of d k < 2 ^ 52"
  using small_amount unfolding stock_ok_def left_of_def by (cases "dict_get d k") fastforce+

lemma fmin_whole: "fmin (Fin (of_int a)) (Fin (of_int b)) = Fin (of_int (min a b))"
  by (auto simp: fmin_def min_def)

lemma flt_le_whole: "flt_le (Fin (of_int a)) (Fin 0) \<longleftrightarrow> a \<le> 0"
  by (auto simp: flt_le_def)

lemma flt_le_tolerance: "tolerance t \<Longrightarrow> 0 \<le> n \<Longrightarrow> flt_le (Fin (of_int n)) t \<longleftrightarrow> n = 0"
  using tolerance_less [of t n] by (auto simp: tolerance_def flt_le_def)

text \<open>One lane of a demand, on whole quantities.\<close>

definition lane_amount :: "opt_lane \<Rightarrow> int \<Rightarrow> (string, flt) dict \<Rightarrow> int" where
  "lane_amount l n d = min (min n (left_of d (ol_supply l))) (amount (ol_max l))"

definition lane_alloc :: "opt_lane \<Rightarrow> int \<Rightarrow> opt_alloc" where
  "lane_alloc l n = \<lparr>oa_supply = ol_supply l, oa_demand = ol_demand l, oa_quantity = Fin (of_int n), oa_cost = ol_cost l\<rparr>"

definition take_stock :: "string \<Rightarrow> int \<Rightarrow> (string, flt) dict \<Rightarrow> (string, flt) dict" where
  "take_stock k n d = dict_put k (Fin (of_int (left_of d k - n))) d"

lemma left_of_take: "left_of (take_stock k n d) k' = (if k' = k then left_of d k - n else left_of d k')"
  by (simp add: left_of_def take_stock_def del: of_int_diff)

lemma stock_take: "stock_ok K d \<Longrightarrow> k \<in> K \<Longrightarrow> 0 \<le> n \<Longrightarrow> n \<le> left_of d k \<Longrightarrow> stock_ok K (take_stock k n d)"
  using stock_get [of K d k] by (auto simp: stock_ok_def take_stock_def simp del: of_int_diff)

lemma serve_lanes_whole:
  assumes st: "stock_ok K d" and k: "ol_supply l \<in> K" and n: "0 \<le> n" "n < 2 ^ 52" and m: "small (ol_max l)"
  shows "serve_lanes (l # ls) (Fin (of_int n)) d =
    (let a = lane_amount l n d in
     if a \<le> 0 then serve_lanes ls (Fin (of_int n)) d
     else if n - a = 0 then Inr ([lane_alloc l a], Fin 0, take_stock (ol_supply l) a d)
     else rbind (serve_lanes ls (Fin (of_int (n - a))) (take_stock (ol_supply l) a d)) (\<lambda>(as, r, s). Inr (lane_alloc l a # as, r, s)))"
proof -
  note g = stock_get [OF st k] and sm = small_amount [OF m]
  let ?a = "lane_amount l n d"
  have a: "fmin (fmin (Fin (of_int n)) (Fin (of_int (left_of d (ol_supply l))))) (ol_max l) = Fin (of_int ?a)"
    using sm fmin_whole by (metis lane_amount_def)
  have le: "?a \<le> n" "?a \<le> left_of d (ol_supply l)" by (simp_all add: lane_amount_def)
  have s1: "fsub (Fin (of_int n)) (Fin (of_int ?a)) = Fin (of_int (n - ?a))" if "0 < ?a"
    using n le that by (intro fsub_of_int) simp
  have s2: "fsub (Fin (of_int (left_of d (ol_supply l)))) (Fin (of_int ?a)) = Fin (of_int (left_of d (ol_supply l) - ?a))" if "0 < ?a"
    using g le that by (intro fsub_of_int) simp
  show ?thesis
  proof (cases "?a \<le> 0")
    case True
    then show ?thesis using g by (simp add: a Let_def flt_le_whole)
  next
    case False
    then have "0 < ?a" by simp
    then show ?thesis
      using g s1 s2 le by (simp add: a Let_def flt_le_whole flt_le_tolerance [OF solve_tolerance] lane_alloc_def take_stock_def
        del: of_int_diff)
  qed
qed

text \<open>
  Serving a demand takes from the stocks what it allocates, keeps to the lanes, and leaves something
  undone only if every lane is full or its supply exhausted.
\<close>

definition served :: "opt_lane list \<Rightarrow> string \<Rightarrow> int \<Rightarrow> (string, flt) dict \<Rightarrow> opt_alloc list \<Rightarrow> int \<Rightarrow> (string, flt) dict \<Rightarrow> bool" where
  "served ls i n d as m d' \<longleftrightarrow> 0 \<le> m \<and> m + moved (\<lambda>_. True) as = n \<and>
     (\<forall>k. left_of d' k + moved (\<lambda>a. oa_supply a = k) as = left_of d k) \<and>
     (\<forall>a \<in> set as. small (oa_quantity a) \<and> oa_demand a = i \<and>
        (\<exists>l \<in> set ls. ol_supply l = oa_supply a \<and> oa_cost a = ol_cost l \<and> amount (oa_quantity a) \<le> amount (ol_max l))) \<and>
     (\<forall>l \<in> set ls. moved (\<lambda>a. oa_supply a = ol_supply l) as \<le> amount (ol_max l) \<and>
        (0 < m \<longrightarrow> left_of d' (ol_supply l) = 0 \<or> moved (\<lambda>a. oa_supply a = ol_supply l) as = amount (ol_max l)))"

lemma served_other: "served ls i n d as m d' \<Longrightarrow> k \<notin> ol_supply ` set ls \<Longrightarrow> moved (\<lambda>a. oa_supply a = k) as = 0"
  by (rule moved_none) (force simp: served_def)

lemma served_remaining: "served ls i n d as m d' \<Longrightarrow> m \<le> n"
  using moved_nonneg [of as "\<lambda>_. True"] by (auto simp: served_def)

lemma served_skip:
  assumes "served ls i n d as m d'" and "ol_supply l \<notin> ol_supply ` set ls" and "lane_amount l n d \<le> 0"
    and "0 \<le> left_of d (ol_supply l)" and "0 \<le> amount (ol_max l)"
  shows "served (l # ls) i n d as m d'"
proof -
  have zero: "moved (\<lambda>a. oa_supply a = ol_supply l) as = 0" by (rule served_other [OF assms(1,2)])
  have "left_of d' (ol_supply l) = left_of d (ol_supply l)"
    using assms(1) zero unfolding served_def by (metis add_0_right)
  moreover have "n \<le> 0 \<or> left_of d (ol_supply l) = 0 \<or> amount (ol_max l) = 0"
    using assms(3-5) by (auto simp: lane_amount_def min_def split: if_splits)
  ultimately have "0 < m \<longrightarrow> left_of d' (ol_supply l) = 0 \<or> amount (ol_max l) = 0"
    using served_remaining [OF assms(1)] by linarith
  then show ?thesis using assms(1,5) zero by (auto simp: served_def)
qed

lemma served_take:
  assumes "served ls (ol_demand l) (n - a) (take_stock (ol_supply l) a d) as m d'" and "ol_supply l \<notin> ol_supply ` set ls"
    and "a = lane_amount l n d" and "0 < a" and "a < 2 ^ 52"
  shows "served (l # ls) (ol_demand l) n d (lane_alloc l a # as) m d'"
proof -
  have zero: "moved (\<lambda>a. oa_supply a = ol_supply l) as = 0" by (rule served_other [OF assms(1,2)])
  have full: "a = n \<or> a = left_of d (ol_supply l) \<or> a = amount (ol_max l)" "a \<le> amount (ol_max l)"
    unfolding assms(3) lane_amount_def by linarith+
  have left: "left_of d' k + moved (\<lambda>a. oa_supply a = k) as = (if k = ol_supply l then left_of d k - a else left_of d k)" for k
    using assms(1) by (simp add: served_def left_of_take)
  have "left_of d' (ol_supply l) = left_of d (ol_supply l) - a" using left [of "ol_supply l"] zero by simp
  moreover have "a \<noteq> n" if "0 < m" using served_remaining [OF assms(1)] that by linarith
  ultimately have "0 < m \<longrightarrow> left_of d' (ol_supply l) = 0 \<or> a = amount (ol_max l)" using full(1) by linarith
  moreover have "ol_supply l \<noteq> ol_supply l'" if "l' \<in> set ls" for l' using assms(2) that by auto
  moreover have "left_of d' k + moved (\<lambda>a. oa_supply a = k) (lane_alloc l a # as) = left_of d k" for k
    using left [of k] by (simp add: lane_alloc_def split: if_splits)
  ultimately show ?thesis
    using assms(1,4,5) zero full(2) unfolding served_def
    by (auto simp: lane_alloc_def)
qed

lemma served_done:
  assumes "n = lane_amount l n d" and "0 < n" and "n < 2 ^ 52" and "ol_supply l \<notin> ol_supply ` set ls"
    and "\<forall>l \<in> set ls. 0 \<le> amount (ol_max l)"
  shows "served (l # ls) (ol_demand l) n d [lane_alloc l n] 0 (take_stock (ol_supply l) n d)"
proof -
  have "n \<le> amount (ol_max l)" using assms(1) unfolding lane_amount_def by linarith
  with assms show ?thesis by (auto simp: served_def lane_alloc_def left_of_take)
qed

lemma serve_lanes_served:
  assumes "stock_ok K d" and "\<forall>l \<in> set ls. ol_supply l \<in> K \<and> small (ol_max l) \<and> ol_demand l = i"
    and "distinct (map ol_supply ls)" and "0 \<le> n" and "n < 2 ^ 52"
  shows "\<exists>as m d'. serve_lanes ls (Fin (of_int n)) d = Inr (as, Fin (of_int m), d') \<and> stock_ok K d' \<and> served ls i n d as m d'"
  using assms
proof (induction ls arbitrary: n d)
  case Nil
  then show ?case by (simp add: served_def)
next
  case (Cons l ls)
  from Cons.prems have l: "ol_supply l \<in> K" "small (ol_max l)" "ol_demand l = i" "ol_supply l \<notin> ol_supply ` set ls" by auto
  note step = serve_lanes_whole [OF Cons.prems(1) l(1) Cons.prems(4,5) l(2), of ls]
  note g = stock_get [OF Cons.prems(1) l(1)] and sm = small_amount [OF l(2)]
  have rest: "\<forall>l \<in> set ls. ol_supply l \<in> K \<and> small (ol_max l) \<and> ol_demand l = i" "distinct (map ol_supply ls)"
    using Cons.prems by auto
  define a where "a = lane_amount l n d"
  have a: "a \<le> n" "a \<le> left_of d (ol_supply l)" unfolding a_def lane_amount_def by linarith+
  consider "a \<le> 0" | "0 < a" "n = a" | "0 < a" "n \<noteq> a" by linarith
  then show ?case
  proof cases
    case 1
    obtain as m d' where "serve_lanes ls (Fin (of_int n)) d = Inr (as, Fin (of_int m), d')" "stock_ok K d'" "served ls i n d as m d'"
      using Cons.IH [OF Cons.prems(1) rest Cons.prems(4,5)] by blast
    with 1 step served_skip [of ls i n d as m d' l] l(4) g sm show ?thesis
      by (intro exI [of _ as] exI [of _ m] exI [of _ d']) (simp add: a_def)
  next
    case 2
    then have e: "lane_amount l n d = n" "0 < n" "n \<le> left_of d (ol_supply l)" using a unfolding a_def by simp_all
    have "\<forall>l \<in> set ls. 0 \<le> amount (ol_max l)" using rest(1) by (auto dest: small_amount)
    then have "served (l # ls) i n d [lane_alloc l n] 0 (take_stock (ol_supply l) n d)"
      using served_done [OF e(1) [symmetric] e(2) Cons.prems(5) l(4)] by (simp add: l(3))
    moreover have "stock_ok K (take_stock (ol_supply l) n d)"
      using e by (intro stock_take [OF Cons.prems(1) l(1)]) simp_all
    ultimately show ?thesis
      using step e(2) unfolding e(1)
      by (intro exI [of _ "[lane_alloc l n]"] exI [of _ 0] exI [of _ "take_stock (ol_supply l) n d"]) simp
  next
    case 3
    have st: "stock_ok K (take_stock (ol_supply l) a d)"
      using 3 a by (intro stock_take [OF Cons.prems(1) l(1)]) auto
    obtain as m d' where r: "serve_lanes ls (Fin (of_int (n - a))) (take_stock (ol_supply l) a d) = Inr (as, Fin (of_int m), d')"
        "stock_ok K d'" "served ls i (n - a) (take_stock (ol_supply l) a d) as m d'"
      using Cons.IH [OF st rest, of "n - a"] 3 a Cons.prems(5) by auto
    have "served (l # ls) i n d (lane_alloc l a # as) m d'"
      using served_take [of ls l n a d as m d'] r(3) l(3,4) 3 a Cons.prems(5) by (simp add: a_def)
    with r step 3 show ?thesis
      by (intro exI [of _ "lane_alloc l a # as"] exI [of _ m] exI [of _ d']) (simp add: a_def [symmetric] Let_def)
  qed
qed

text \<open>Serving all demands.\<close>

definition spread :: "opt_lane list \<Rightarrow> opt_demand list \<Rightarrow> (string, flt) dict \<Rightarrow> opt_alloc list \<Rightarrow> (string, flt) dict \<Rightarrow> bool" where
  "spread lanes ds d as d' \<longleftrightarrow>
     (\<forall>k. left_of d' k + moved (\<lambda>a. oa_supply a = k) as = left_of d k) \<and>
     (\<forall>a \<in> set as. small (oa_quantity a) \<and> oa_demand a \<in> od_id ` set ds \<and>
        (\<exists>l \<in> set lanes. lane_key l = alloc_key a \<and> oa_cost a = ol_cost l \<and> amount (oa_quantity a) \<le> amount (ol_max l))) \<and>
     (\<forall>x \<in> set ds. moved (\<lambda>a. oa_demand a = od_id x) as \<le> amount (od_quantity x) \<and>
        (\<forall>l \<in> set lanes. ol_demand l = od_id x \<longrightarrow> moved (\<lambda>a. alloc_key a = lane_key l) as \<le> amount (ol_max l) \<and>
           (moved (\<lambda>a. oa_demand a = od_id x) as = amount (od_quantity x) \<or> left_of d' (ol_supply l) = 0 \<or>
            moved (\<lambda>a. alloc_key a = lane_key l) as = amount (ol_max l))))"

lemma moved_cong: "(\<And>a. a \<in> set as \<Longrightarrow> P a = Q a) \<Longrightarrow> moved P as = moved Q as"
  unfolding moved_def by (metis filter_cong)

lemma spread_step:
  assumes s: "served (lanes_of lanes (od_id x)) (od_id x) (amount (od_quantity x)) d as m d1"
    and t: "spread lanes ds d1 bs d2" and new: "od_id x \<notin> od_id ` set ds" and nonneg: "\<And>l. l \<in> set lanes \<Longrightarrow> 0 \<le> left_of d2 (ol_supply l)"
  shows "spread lanes (x # ds) d (as @ bs) d2"
proof -
  have lanes: "set (lanes_of lanes i) = {l \<in> set lanes. ol_demand l = i}" for i by (auto simp: lanes_of_def)
  have as: "oa_demand a = od_id x" "small (oa_quantity a)" if "a \<in> set as" for a using s that by (auto simp: served_def)
  have bs: "oa_demand b \<in> od_id ` set ds" "small (oa_quantity b)" if "b \<in> set bs" for b using t that by (auto simp: spread_def)
  have all: "moved (\<lambda>a. oa_demand a = od_id x) as = moved (\<lambda>_. True) as" by (rule moved_cong) (simp add: as)
  have b0: "moved (\<lambda>b. oa_demand b = od_id x) bs = 0" by (rule moved_none) (metis bs(1) new)
  have a0: "moved (\<lambda>a. oa_demand a = od_id y) as = 0" if "y \<in> set ds" for y
    by (rule moved_none) (use as(1) new that in auto)
  have key: "moved (\<lambda>a. alloc_key a = lane_key l) as = (if ol_demand l = od_id x then moved (\<lambda>a. oa_supply a = ol_supply l) as else 0)" for l
  proof (cases "ol_demand l = od_id x")
    case True
    then show ?thesis using as by (auto intro!: moved_cong)
  next
    case False
    then have "moved (\<lambda>a. alloc_key a = lane_key l) as = 0" using as by (intro moved_none) auto
    with False show ?thesis by simp
  qed
  have key0: "moved (\<lambda>b. alloc_key b = lane_key l) bs = 0" if "ol_demand l = od_id x" for l
    by (rule moved_none) (metis bs(1) new that prod.inject)
  have left: "left_of d2 k + moved (\<lambda>a. oa_supply a = k) (as @ bs) = left_of d k" for k
  proof -
    have "left_of d1 k + moved (\<lambda>a. oa_supply a = k) as = left_of d k" using s by (simp add: served_def)
    moreover have "left_of d2 k + moved (\<lambda>a. oa_supply a = k) bs = left_of d1 k" using t by (simp add: spread_def)
    ultimately show ?thesis by simp
  qed
  have members: "small (oa_quantity a) \<and> oa_demand a \<in> od_id ` set (x # ds) \<and>
      (\<exists>l \<in> set lanes. lane_key l = alloc_key a \<and> oa_cost a = ol_cost l \<and> amount (oa_quantity a) \<le> amount (ol_max l))"
    if a: "a \<in> set (as @ bs)" for a
  proof (cases "a \<in> set as")
    case True
    then obtain l where "l \<in> set (lanes_of lanes (od_id x))" "ol_supply l = oa_supply a" "oa_cost a = ol_cost l"
        "amount (oa_quantity a) \<le> amount (ol_max l)" using s unfolding served_def by blast
    with as [OF True] show ?thesis unfolding lanes by auto
  next
    case False
    then have "a \<in> set bs" using a by simp
    with t show ?thesis unfolding spread_def by auto
  qed
  have first: "moved (\<lambda>a. oa_demand a = od_id x) (as @ bs) + m = amount (od_quantity x)" "0 \<le> m"
    using s all b0 by (simp_all add: served_def)
  have lane: "moved (\<lambda>a. alloc_key a = lane_key l) (as @ bs) \<le> amount (ol_max l) \<and>
      (0 < m \<longrightarrow> left_of d2 (ol_supply l) = 0 \<or> moved (\<lambda>a. alloc_key a = lane_key l) (as @ bs) = amount (ol_max l))"
    if l: "l \<in> set lanes" "ol_demand l = od_id x" for l
  proof -
    have "l \<in> set (lanes_of lanes (od_id x))" using l by (simp add: lanes)
    then have f: "moved (\<lambda>a. oa_supply a = ol_supply l) as \<le> amount (ol_max l)"
        "0 < m \<longrightarrow> left_of d1 (ol_supply l) = 0 \<or> moved (\<lambda>a. oa_supply a = ol_supply l) as = amount (ol_max l)"
      using s by (auto simp: served_def)
    have "left_of d2 (ol_supply l) + moved (\<lambda>a. oa_supply a = ol_supply l) bs = left_of d1 (ol_supply l)"
      using t by (simp add: spread_def)
    moreover have "0 \<le> moved (\<lambda>a. oa_supply a = ol_supply l) bs" by (rule moved_nonneg) (rule bs(2))
    ultimately have "left_of d2 (ol_supply l) = 0" if "left_of d1 (ol_supply l) = 0" using nonneg [OF l(1)] that by linarith
    moreover have e: "moved (\<lambda>a. alloc_key a = lane_key l) (as @ bs) = moved (\<lambda>a. oa_supply a = ol_supply l) as"
      unfolding moved_simps(3) key key0 [OF l(2)] using l(2) by (simp only: refl if_True add_0_right)
    ultimately show ?thesis unfolding e using f by auto
  qed
  have tight: "moved (\<lambda>a. oa_demand a = od_id y) (as @ bs) \<le> amount (od_quantity y) \<and>
      (\<forall>l \<in> set lanes. ol_demand l = od_id y \<longrightarrow> moved (\<lambda>a. alloc_key a = lane_key l) (as @ bs) \<le> amount (ol_max l) \<and>
        (moved (\<lambda>a. oa_demand a = od_id y) (as @ bs) = amount (od_quantity y) \<or> left_of d2 (ol_supply l) = 0 \<or>
         moved (\<lambda>a. alloc_key a = lane_key l) (as @ bs) = amount (ol_max l)))" if y: "y \<in> set (x # ds)" for y
  proof (cases "y = x")
    case True
    have "moved (\<lambda>a. oa_demand a = od_id x) (as @ bs) \<le> amount (od_quantity x)" using first by linarith
    moreover have "0 < m \<or> moved (\<lambda>a. oa_demand a = od_id x) (as @ bs) = amount (od_quantity x)" using first by linarith
    ultimately show ?thesis using lane unfolding True by blast
  next
    case False
    then have y: "y \<in> set ds" using y by simp
    then have "od_id y \<noteq> od_id x" using new by (metis imageI)
    then have e: "moved (\<lambda>a. alloc_key a = lane_key l) (as @ bs) = moved (\<lambda>a. alloc_key a = lane_key l) bs" if "ol_demand l = od_id y" for l
      unfolding moved_simps(3) key using that by (simp only: if_False add_0_left)
    have m: "moved (\<lambda>a. oa_demand a = od_id y) (as @ bs) = moved (\<lambda>a. oa_demand a = od_id y) bs" using a0 [OF y] by simp
    note ty = t [unfolded spread_def, THEN conjunct2, THEN conjunct2, THEN bspec, OF y]
    show ?thesis
      unfolding m
    proof (rule conjI [OF ty [THEN conjunct1]], intro ballI impI)
      fix l assume l: "l \<in> set lanes" "ol_demand l = od_id y"
      note ty [THEN conjunct2, THEN bspec, OF l(1), THEN mp, OF l(2)]
      then show "moved (\<lambda>a. alloc_key a = lane_key l) (as @ bs) \<le> amount (ol_max l) \<and>
          (moved (\<lambda>a. oa_demand a = od_id y) bs = amount (od_quantity y) \<or> left_of d2 (ol_supply l) = 0 \<or>
           moved (\<lambda>a. alloc_key a = lane_key l) (as @ bs) = amount (ol_max l))"
        unfolding e [OF l(2)] .
    qed
  qed
  show ?thesis unfolding spread_def using left members tight by blast
qed

lemma lanes_of_distinct: "distinct (map lane_key lanes) \<Longrightarrow> distinct (map ol_supply (lanes_of lanes i))"
proof -
  assume d: "distinct (map lane_key lanes)"
  have "inj_on ol_supply (set (filter (\<lambda>l. ol_demand l = i) lanes))"
    using d by (auto simp: distinct_map inj_on_def)
  moreover have "distinct (filter (\<lambda>l. ol_demand l = i) lanes)" using d by (simp add: distinct_map)
  ultimately show ?thesis unfolding lanes_of_def distinct_map_sort_key by (simp add: distinct_map)
qed

lemma serve_demands_spread:
  assumes "stock_ok K d" and "\<forall>l \<in> set lanes. ol_supply l \<in> K \<and> small (ol_max l)" and "distinct (map lane_key lanes)"
    and "distinct (map od_id ds)" and "\<forall>x \<in> set ds. small (od_quantity x)"
  shows "\<exists>as unmet d'. serve_demands lanes ds d = Inr (as, unmet) \<and> stock_ok K d' \<and> spread lanes ds d as d' \<and> fst ` set unmet \<subseteq> od_id ` set ds"
  using assms
proof (induction ds arbitrary: d)
  case Nil
  then show ?case by (auto simp: spread_def)
next
  case (Cons x ds)
  have x: "0 \<le> amount (od_quantity x)" "amount (od_quantity x) < 2 ^ 52" "od_quantity x = Fin (of_int (amount (od_quantity x)))"
    using Cons.prems(5) small_amount [of "od_quantity x"] by simp_all
  have lanes: "\<forall>l \<in> set (lanes_of lanes (od_id x)). ol_supply l \<in> K \<and> small (ol_max l) \<and> ol_demand l = od_id x"
    using Cons.prems(2) by (auto simp: lanes_of_def)
  obtain as m d1 where s: "serve_lanes (lanes_of lanes (od_id x)) (od_quantity x) d = Inr (as, Fin (of_int m), d1)" "stock_ok K d1"
      "served (lanes_of lanes (od_id x)) (od_id x) (amount (od_quantity x)) d as m d1"
    using serve_lanes_served [OF Cons.prems(1) lanes lanes_of_distinct [OF Cons.prems(3)] x(1,2)] x(3) by metis
  obtain bs unmet d2 where t: "serve_demands lanes ds d1 = Inr (bs, unmet)" "stock_ok K d2" "spread lanes ds d1 bs d2"
      "fst ` set unmet \<subseteq> od_id ` set ds"
    using Cons.IH [OF s(2) Cons.prems(2,3)] Cons.prems(4,5) by auto
  have "0 \<le> left_of d2 (ol_supply l)" if "l \<in> set lanes" for l
    using stock_get [OF t(2)] Cons.prems(2) that by blast
  then have "spread lanes (x # ds) d (as @ bs) d2"
    using spread_step [OF s(3) t(3)] Cons.prems(4) by simp
  with s t show ?case by auto
qed

section \<open>The candidate of the reference provider is accepted\<close>

lemma tracks_within: "tracks x n \<Longrightarrow> small c \<Longrightarrow> n \<le> amount c \<Longrightarrow> \<not> exceeds x c"
proof -
  assume t: "tracks x n" and "small c" and n: "n \<le> amount c"
  then obtain k where k: "c = Fin (of_int k)" "0 \<le> k" "k < 2 ^ 52" by (elim smallE)
  then have "n \<le> 2 ^ 53" using n by simp
  then have "x = Fin (of_int n)" using t by (auto simp: tracks_def)
  with exceeds_whole [OF k(2,3), of n] k(1) n show ?thesis by simp
qed

lemma used_by_within:
  assumes "used_by d K key as" and "\<forall>a \<in> set as. small (oa_quantity a)"
    and "\<And>k. k \<in> K \<Longrightarrow> small (bound k) \<and> moved (\<lambda>a. key a = k) as \<le> amount (bound k)"
  shows "all_within d bound"
  unfolding all_within_def list_all_iff
proof (intro ballI, clarify)
  fix k x assume k: "(k, x) \<in> set d"
  then have "k \<in> K" "dict_get d k = Some x"
    using assms(1) dict_ok_get_iff [of d k x] by (force simp: used_by_def)+
  then have "tracks x (moved (\<lambda>a. key a = k) as)" using assms(1,2) by (simp add: used_by_def follows_def)
  then show "exceeds x (bound k) \<Longrightarrow> False" using tracks_within assms(3) [OF \<open>k \<in> K\<close>] by blast
qed

lemma reject_items_ok: "(\<And>x p. x \<in> set xs \<Longrightarrow> reject_authority x p = Inr ()) \<Longrightarrow> reject_items xs i path = Inr ()"
  by (induction xs arbitrary: i) auto

lemma reject_members_ok:
  "(\<And>k v p. (k, v) \<in> set ms \<Longrightarrow> map lower_char k \<notin> set forbidden_authority_keys \<and> reject_authority v p = Inr ()) \<Longrightarrow>
     reject_members ms path = Inr ()"
proof (induction ms)
  case (Cons q ms)
  obtain k v where q: "q = (k, v)" by force
  have "map lower_char k \<notin> set forbidden_authority_keys" "reject_authority v p = Inr ()" for p
    using Cons.prems [of k v] by (simp_all add: q)
  moreover have "reject_members ms path = Inr ()" by (rule Cons.IH) (rule Cons.prems, simp)
  ultimately show ?case unfolding q reject_members.simps by (simp only: require_def if_True rbind_simps not_False_eq_True)
qed simp

lemma safe_keys:
  "map lower_char ''supply_id'' \<notin> set forbidden_authority_keys" "map lower_char ''demand_id'' \<notin> set forbidden_authority_keys"
  "map lower_char ''quantity'' \<notin> set forbidden_authority_keys" "map lower_char ''unit_cost'' \<notin> set forbidden_authority_keys"
  "map lower_char ''allocations'' \<notin> set forbidden_authority_keys" "map lower_char ''unmet_demand'' \<notin> set forbidden_authority_keys"
  "map lower_char ''solver_status'' \<notin> set forbidden_authority_keys" "map lower_char ''optimality_claim'' \<notin> set forbidden_authority_keys"
  by code_simp+

lemma enc_alloc_obj: "enc_alloc a = JObj [(''demand_id'', JStr (oa_demand a)), (''quantity'', JFloat (oa_quantity a)),
    (''supply_id'', JStr (oa_supply a)), (''unit_cost'', JFloat (oa_cost a))]"
  by (simp add: enc_alloc_def mk_obj_def dict_of_def)

lemma reject_alloc: "reject_authority (enc_alloc a) path = Inr ()"
  unfolding enc_alloc_obj by (simp only: reject_authority.simps reject_members.simps require_def safe_keys if_True not_not rbind_simps not_False_eq_True)

definition answer :: "opt_alloc list \<Rightarrow> (string, flt) dict \<Rightarrow> json" where
  "answer as unmet = mk_obj [(''allocations'', JArr (map enc_alloc as)), (''unmet_demand'', enc_unmet unmet),
     (''solver_status'', JStr (if unmet = [] then ''FEASIBLE'' else ''PARTIAL'')), (''optimality_claim'', JBool False)]"

lemma answer_obj: "answer as unmet = JObj [(''allocations'', JArr (map enc_alloc as)), (''optimality_claim'', JBool False),
    (''solver_status'', JStr (if unmet = [] then ''FEASIBLE'' else ''PARTIAL'')), (''unmet_demand'', enc_unmet unmet)]"
  by (simp add: answer_def mk_obj_def dict_of_def)

lemma reject_answer:
  assumes "\<And>k. k \<in> fst ` set unmet \<Longrightarrow> map lower_char k \<notin> set forbidden_authority_keys"
  shows "reject_authority (answer as unmet) path = Inr ()"
proof -
  have "reject_items (map enc_alloc as) 0 p = Inr ()" for p
    by (rule reject_items_ok) (auto simp: reject_alloc)
  moreover have "reject_authority (enc_unmet unmet) p = Inr ()" for p
    unfolding enc_unmet_def reject_authority.simps by (rule reject_members_ok) (use assms in force)
  ultimately show ?thesis
    unfolding answer_obj by (simp only: reject_authority.simps reject_members.simps require_def safe_keys if_True not_False_eq_True rbind_simps)
qed

lemma fsub_self: "quantity_ok c \<Longrightarrow> fabs (fsub c c) = Fin 0"
  by (cases c) (auto simp: quantity_ok_def fsub_def fneg_def fabs_def rnd_def)

text \<open>A row of whole quantity on a lane of the request passes.\<close>

lemma check_row_alloc:
  assumes r: "request_ok r" "small_request r" and u: "use_ok r u"
    and l: "l \<in> set (rq_lanes r)" "lane_key l = alloc_key a" "oa_cost a = ol_cost l"
    and q: "small (oa_quantity a)" "amount (oa_quantity a) \<le> amount (ol_max l)"
  shows "\<exists>u'. check_row E r (enc_alloc a) u = Inr u' \<and> us_allocs u' = us_allocs u @ [a]"
proof -
  have k: "opt_key (enc_alloc a) ''supply_id'' = Inr (JStr (oa_supply a))" "opt_key (enc_alloc a) ''demand_id'' = Inr (JStr (oa_demand a))"
      "opt_key (enc_alloc a) ''quantity'' = Inr (JFloat (oa_quantity a))" "opt_get (enc_alloc a) ''unit_cost'' d = Inr (JFloat (oa_cost a))" for d
    by (simp_all add: enc_alloc_obj opt_key_def opt_get_def)
  have "lanes_ok (rq_supplies r) (rq_demands r) (rq_lanes r)" using r(1) by (simp add: request_ok_def)
  then have "ol_supply l \<in> os_id ` set (rq_supplies r)" "ol_demand l \<in> od_id ` set (rq_demands r)" "quantity_ok (ol_cost l)"
    using l(1) by (simp_all add: lanes_ok_def)
  moreover have "ol_supply l = oa_supply a" "ol_demand l = oa_demand a" using l(2) by simp_all
  moreover have "lane_key l \<in> lane_key ` set (rq_lanes r)" using l(1) by (rule imageI)
  ultimately have ids: "oa_supply a \<in> os_id ` set (rq_supplies r)" "oa_demand a \<in> od_id ` set (rq_demands r)"
      "alloc_key a \<in> lane_key ` set (rq_lanes r)" "quantity_ok (ol_cost l)"
    by (simp_all only:)
  have ok: "ident_ok (oa_supply a)" "ident_ok (oa_demand a)"
    using ids(1,2) r(1) by (auto simp: request_ok_def supplies_ok_def demands_ok_def)
  have lane: "find_lane (rq_lanes r) (oa_supply a) (oa_demand a) = Some l"
    using find_lane_of [of "rq_lanes r" l] r(1) l by (simp add: request_ok_def lanes_ok_def)
  have "small (ol_max l)" using r(2) l(1) by (simp add: small_request_def)
  then obtain m where m: "ol_max l = Fin (of_int m)" "0 \<le> m" "m < 2 ^ 52" by (rule smallE)
  obtain n where n: "oa_quantity a = Fin (of_int n)" using q(1) by (elim smallE)
  have ex: "\<not> exceeds (oa_quantity a) (ol_max l)" using exceeds_whole [OF m(2,3), of n] q(2) by (simp add: m(1) n)
  have cost: "\<not> flt_less check_tolerance (fabs (fsub (ol_cost l) (ol_cost l)))"
    using tolerance_less [OF check_tolerance, of 0] by (simp add: fsub_self [OF ids(4)])
  note us = u [unfolded use_ok_def, THEN conjunct2]
  have "\<exists>d. add_used (oa_supply a) (oa_quantity a) (us_supply u) = Inr d"
    by (rule used_by_adds [OF us [THEN conjunct1] ids(1)])
  moreover have "\<exists>d. add_used (oa_demand a) (oa_quantity a) (us_demand u) = Inr d"
    by (rule used_by_adds [OF us [THEN conjunct2, THEN conjunct1] ids(2)])
  moreover have "\<exists>d. add_used (alloc_key a) (oa_quantity a) (us_lane u) = Inr d"
    by (rule used_by_adds [OF us [THEN conjunct2, THEN conjunct2] ids(3)])
  ultimately obtain us ud ul where "add_used (oa_supply a) (oa_quantity a) (us_supply u) = Inr us"
      "add_used (oa_demand a) (oa_quantity a) (us_demand u) = Inr ud" "add_used (alloc_key a) (oa_quantity a) (us_lane u) = Inr ul"
    by (elim exE)
  then show ?thesis
    using k ok lane ex cost ids(4) l(3) small_quantity [OF q(1)]
    by (simp add: check_row_def opt_identifier_str opt_quantity_float)
qed

lemma check_rows_alloc:
  assumes "request_ok r" and "small_request r" and "use_ok r u"
    and "\<forall>a \<in> set as. small (oa_quantity a) \<and>
      (\<exists>l \<in> set (rq_lanes r). lane_key l = alloc_key a \<and> oa_cost a = ol_cost l \<and> amount (oa_quantity a) \<le> amount (ol_max l))"
  shows "\<exists>u'. rfold (check_row E r) (map enc_alloc as) u = Inr u' \<and> us_allocs u' = us_allocs u @ as \<and> use_ok r u'"
  using assms(3,4)
proof (induction as arbitrary: u)
  case (Cons a as)
  then obtain l where "small (oa_quantity a)" "l \<in> set (rq_lanes r)" "lane_key l = alloc_key a" "oa_cost a = ol_cost l"
      "amount (oa_quantity a) \<le> amount (ol_max l)" by auto
  then obtain u' where u': "check_row E r (enc_alloc a) u = Inr u'" "us_allocs u' = us_allocs u @ [a]"
    using check_row_alloc [OF assms(1,2) Cons.prems(1)] by blast
  have "use_ok r u'" by (rule check_row_ok [OF Cons.prems(1) u'(1)])
  from Cons.IH [OF this] Cons.prems(2) u' show ?case by auto
qed simp

section \<open>The properties\<close>

lemma opt_propose_D:
  assumes "opt_propose E provider lineage request = Inr p"
  shows "request_ok (op_request p) \<and> normalize_request E request = Inr (op_request p) \<and>
    (\<exists>raw. provider (op_request p) = Inr raw \<and> validate_candidate E (op_request p) raw = Inr (op_candidate p))"
  using assms by (auto simp: opt_propose_def rbind_eq_Inr Let_def intro: normalize_request_ok)

text \<open>
  C27. Whatever a provider answers to a request whose capacities, demands and lane limits are whole
  numbers below two to the 52 (larger ones can absorb a quantity in a float sum), an accepted
  allocation of whole quantities is feasible for the normalized request: it uses registered lanes
  at their cost, and no supply, demand or lane carries more than its quantity, although the check
  compares float sums with a tolerance. The unmet demand
  is exactly what is missing, and the candidate is called feasible exactly if nothing is.
\<close>

theorem accepted_allocation_is_feasible:
  assumes "opt_propose E provider lineage request = Inr p" and "small_request (op_request p)"
    and "\<forall>a \<in> set (oc_allocs (op_candidate p)). whole (oa_quantity a)"
  shows "feasible_for (op_request p) (oc_allocs (op_candidate p)) \<and>
    (\<forall>d \<in> set (rq_demands (op_request p)). dict_get (oc_unmet (op_candidate p)) (od_id d) =
       (let missing = amount (od_quantity d) - moved (\<lambda>a. oa_demand a = od_id d) (oc_allocs (op_candidate p)) in
        if 0 < missing then Some (Fin (of_int missing)) else None)) \<and>
    (oc_feasible (op_candidate p) \<longleftrightarrow>
       (\<forall>d \<in> set (rq_demands (op_request p)). moved (\<lambda>a. oa_demand a = od_id d) (oc_allocs (op_candidate p)) = amount (od_quantity d)))"
  using opt_propose_D [OF assms(1)] validated_feasible [OF _ _ assms(2,3)] by blast

text \<open>No lane can carry more: its demand is served, its supply exhausted, or the lane full.\<close>

definition maximal_for :: "opt_request \<Rightarrow> opt_alloc list \<Rightarrow> bool" where
  "maximal_for r as \<longleftrightarrow> (\<forall>l \<in> set (rq_lanes r).
     (\<exists>d \<in> set (rq_demands r). od_id d = ol_demand l \<and> moved (\<lambda>a. oa_demand a = od_id d) as = amount (od_quantity d)) \<or>
     (\<exists>s \<in> set (rq_supplies r). os_id s = ol_supply l \<and> moved (\<lambda>a. oa_supply a = os_id s) as = amount (os_capacity s)) \<or>
     moved (\<lambda>a. oa_supply a = ol_supply l \<and> oa_demand a = ol_demand l) as = amount (ol_max l))"

definition stocks :: "opt_request \<Rightarrow> (string, flt) dict" where
  "stocks r = dict_of (map (\<lambda>s. (os_id s, os_capacity s)) (rq_supplies r))"

lemma stocks_get: "request_ok r \<Longrightarrow> dict_get (stocks r) k = dict_get (map (\<lambda>s. (os_id s, os_capacity s)) (rq_supplies r)) k"
  unfolding stocks_def by (subst dict_of_get) (simp_all add: o_def request_ok_def supplies_ok_def)

lemma stocks_of: "request_ok r \<Longrightarrow> s \<in> set (rq_supplies r) \<Longrightarrow> dict_get (stocks r) (os_id s) = Some (os_capacity s)"
  unfolding stocks_get by (rule map_of_is_SomeI) (auto simp: o_def request_ok_def supplies_ok_def)

lemma stocks_ok: "request_ok r \<Longrightarrow> small_request r \<Longrightarrow> stock_ok (os_id ` set (rq_supplies r)) (stocks r)"
  unfolding stock_ok_def
  by (auto simp: stocks_of) (auto simp: stocks_get small_request_def dest!: map_of_SomeD)

lemma solve_spread:
  assumes r: "request_ok r" "small_request r"
  shows "\<exists>as unmet d. solve r = Inr (answer as unmet) \<and> stock_ok (os_id ` set (rq_supplies r)) d \<and>
    spread (rq_lanes r) (rq_demands r) (stocks r) as d \<and> fst ` set unmet \<subseteq> od_id ` set (rq_demands r)"
proof -
  let ?ds = "sort_key (\<lambda>d. (- od_priority d, od_id d)) (rq_demands r)"
  have "\<forall>l \<in> set (rq_lanes r). ol_supply l \<in> os_id ` set (rq_supplies r) \<and> small (ol_max l)" "distinct (map lane_key (rq_lanes r))"
    using r by (auto simp: request_ok_def lanes_ok_def small_request_def)
  moreover have "distinct (map od_id ?ds)" "\<forall>x \<in> set ?ds. small (od_quantity x)"
    using r by (simp_all add: distinct_map_sort_key request_ok_def demands_ok_def small_request_def)
  ultimately obtain as unmet d where s: "serve_demands (rq_lanes r) ?ds (stocks r) = Inr (as, unmet)"
      "stock_ok (os_id ` set (rq_supplies r)) d" "spread (rq_lanes r) ?ds (stocks r) as d" "fst ` set unmet \<subseteq> od_id ` set ?ds"
    using serve_demands_spread [OF stocks_ok [OF r]] by blast
  have "solve r = Inr (answer as unmet)"
    using s(1) by (simp add: solve_def stocks_def answer_def Let_def)
  with s(2-4) show ?thesis by (auto simp: spread_def)
qed

lemma spread_capacities:
  assumes r: "request_ok r" and sp: "spread (rq_lanes r) (rq_demands r) (stocks r) as d"
    and st: "stock_ok (os_id ` set (rq_supplies r)) d" and s: "s \<in> set (rq_supplies r)"
  shows "moved (\<lambda>a. oa_supply a = os_id s) as = amount (os_capacity s) - left_of d (os_id s) \<and> 0 \<le> left_of d (os_id s)"
proof -
  have "left_of d (os_id s) + moved (\<lambda>a. oa_supply a = os_id s) as = left_of (stocks r) (os_id s)"
    using sp by (simp add: spread_def)
  moreover have "left_of (stocks r) (os_id s) = amount (os_capacity s)"
    by (simp add: left_of_def stocks_of [OF r s])
  moreover have "0 \<le> left_of d (os_id s)" using stock_get [OF st] s by blast
  ultimately show ?thesis by linarith
qed

lemma answer_validates:
  assumes r: "request_ok r" "small_request r"
    and sp: "spread (rq_lanes r) (rq_demands r) (stocks r) as d" and st: "stock_ok (os_id ` set (rq_supplies r)) d"
    and free: "\<And>k. k \<in> fst ` set unmet \<Longrightarrow> map lower_char k \<notin> set forbidden_authority_keys"
  shows "\<exists>c. validate_candidate E r (answer as unmet) = Inr c \<and> oc_allocs c = as"
proof -
  have as: "\<forall>a \<in> set as. small (oa_quantity a) \<and>
      (\<exists>l \<in> set (rq_lanes r). lane_key l = alloc_key a \<and> oa_cost a = ol_cost l \<and> amount (oa_quantity a) \<le> amount (ol_max l))"
    using sp by (simp add: spread_def)
  obtain u where u: "rfold (check_row E r) (map enc_alloc as) (start_use r) = Inr u" "us_allocs u = as" "use_ok r u"
    using check_rows_alloc [OF r start_use_ok [OF r(1)] as] by (auto simp: start_use_def)
  have small: "\<forall>a \<in> set as. small (oa_quantity a)" using as by blast
  note us = u(3) [unfolded use_ok_def u(2), THEN conjunct2]
  have sup: "all_within (us_supply u) (supply_capacity r)"
  proof (rule used_by_within [OF us [THEN conjunct1] small])
    fix k assume "k \<in> os_id ` set (rq_supplies r)"
    then obtain s where s: "s \<in> set (rq_supplies r)" "k = os_id s" by blast
    have "small (os_capacity s)" using r(2) s(1) by (simp add: small_request_def)
    then show "small (supply_capacity r k) \<and> moved (\<lambda>a. oa_supply a = k) as \<le> amount (supply_capacity r k)"
      using spread_capacities [OF r(1) sp st s(1)] unfolding s(2) supply_capacity_of [OF r(1) s(1)] by linarith
  qed
  have demand: "all_within (us_demand u) (demand_quantity r)"
  proof (rule used_by_within [OF us [THEN conjunct2, THEN conjunct1] small])
    fix k assume "k \<in> od_id ` set (rq_demands r)"
    then obtain x where x: "x \<in> set (rq_demands r)" "k = od_id x" by blast
    then show "small (demand_quantity r k) \<and> moved (\<lambda>a. oa_demand a = k) as \<le> amount (demand_quantity r k)"
      using r(2) sp unfolding x(2) demand_quantity_of [OF r(1) x(1)] by (simp add: small_request_def spread_def)
  qed
  have lane: "all_within (us_lane u) (lane_capacity r)"
  proof (rule used_by_within [OF us [THEN conjunct2, THEN conjunct2] small])
    fix k assume "k \<in> lane_key ` set (rq_lanes r)"
    then obtain l where l: "l \<in> set (rq_lanes r)" "k = lane_key l" by blast
    have "ol_demand l \<in> od_id ` set (rq_demands r)" using r(1) l(1) by (simp add: request_ok_def lanes_ok_def)
    then obtain x where x: "x \<in> set (rq_demands r)" "ol_demand l = od_id x" by blast
    have "small (ol_max l)" using r(2) l(1) by (simp add: small_request_def)
    then show "small (lane_capacity r k) \<and> moved (\<lambda>a. alloc_key a = k) as \<le> amount (lane_capacity r k)"
      using sp [unfolded spread_def, THEN conjunct2, THEN conjunct2, THEN bspec, OF x(1), THEN conjunct2, THEN bspec, OF l(1), THEN mp, OF x(2)]
      unfolding l(2) lane_capacity_of [OF r(1) l(1)] by blast
  qed
  obtain m where m: "answer as unmet = JObj m" using answer_obj by blast
  have g: "opt_get (JObj m) ''allocations'' v = Inr (JArr (map enc_alloc as))" for v
    unfolding m [symmetric] by (simp add: answer_obj opt_get_def)
  have "reject_authority (JObj m) ''candidate'' = Inr ()"
    unfolding m [symmetric] by (rule reject_answer) (rule free)
  then show ?thesis
    using sup demand lane u(2)
    by (simp add: validate_candidate_def m g opt_rows_def u(1) Let_def del: reject_authority.simps)
qed

lemma reference_proposal:
  assumes "normalize_request E request = Inr r" and "small_request r"
    and "\<forall>d \<in> set (rq_demands r). map lower_char (od_id d) \<notin> set forbidden_authority_keys"
  shows "\<exists>p. opt_propose E solve lineage request = Inr p \<and> op_request p = r \<and> (\<forall>a \<in> set (oc_allocs (op_candidate p)). whole (oa_quantity a)) \<and>
    feasible_for r (oc_allocs (op_candidate p)) \<and> maximal_for r (oc_allocs (op_candidate p))"
proof -
  have r: "request_ok r" by (rule normalize_request_ok [OF assms(1)])
  obtain as unmet d where s: "solve r = Inr (answer as unmet)" "stock_ok (os_id ` set (rq_supplies r)) d"
      "spread (rq_lanes r) (rq_demands r) (stocks r) as d" "fst ` set unmet \<subseteq> od_id ` set (rq_demands r)"
    using solve_spread [OF r assms(2)] by blast
  have "map lower_char k \<notin> set forbidden_authority_keys" if "k \<in> fst ` set unmet" for k
  proof -
    obtain x where "x \<in> set (rq_demands r)" "k = od_id x" using s(4) \<open>k \<in> fst ` set unmet\<close> by blast
    then show ?thesis using assms(3) by simp
  qed
  then obtain c where c: "validate_candidate E r (answer as unmet) = Inr c" "oc_allocs c = as"
    using answer_validates [OF r assms(2) s(3,2)] by blast
  have whole: "\<forall>a \<in> set as. whole (oa_quantity a)" using s(3) by (simp add: spread_def small_def)
  then have "feasible_for r as" using validated_feasible [OF c(1) r assms(2)] by (simp add: c(2))
  moreover have "maximal_for r as"
    unfolding maximal_for_def
  proof
    fix l assume l: "l \<in> set (rq_lanes r)"
    have "ol_supply l \<in> os_id ` set (rq_supplies r)" "ol_demand l \<in> od_id ` set (rq_demands r)"
      using r l by (simp_all add: request_ok_def lanes_ok_def)
    then obtain q x where q: "q \<in> set (rq_supplies r)" "ol_supply l = os_id q" and x: "x \<in> set (rq_demands r)" "ol_demand l = od_id x"
      by blast
    note tight = s(3) [unfolded spread_def, THEN conjunct2, THEN conjunct2, THEN bspec, OF x(1), THEN conjunct2, THEN bspec, OF l,
        THEN mp, OF x(2), THEN conjunct2]
    have "moved (\<lambda>a. oa_supply a = os_id q) as = amount (os_capacity q)" if "left_of d (ol_supply l) = 0"
      using spread_capacities [OF r s(3,2) q(1)] that by (simp add: q(2))
    with tight q x show "(\<exists>d \<in> set (rq_demands r). od_id d = ol_demand l \<and> moved (\<lambda>a. oa_demand a = od_id d) as = amount (od_quantity d)) \<or>
        (\<exists>s \<in> set (rq_supplies r). os_id s = ol_supply l \<and> moved (\<lambda>a. oa_supply a = os_id s) as = amount (os_capacity s)) \<or>
        moved (\<lambda>a. oa_supply a = ol_supply l \<and> oa_demand a = ol_demand l) as = amount (ol_max l)"
      by (auto simp del: moved_simps)
  qed
  ultimately show ?thesis
    using assms(1) s(1) c whole by (auto simp: opt_propose_def Let_def)
qed

text \<open>
  A demand that is not fully served and is named like an authority field makes the adapter refuse the
  candidate of its own reference provider.
\<close>

lemma reject_members_bad:
  "k \<in> fst ` set ms \<Longrightarrow> map lower_char k \<in> set forbidden_authority_keys \<Longrightarrow> \<exists>e. reject_members ms path = Inl e"
proof (induction ms)
  case (Cons q ms)
  obtain l v where q: "q = (l, v)" by force
  show ?case
  proof (cases "map lower_char l \<in> set forbidden_authority_keys")
    case True
    then show ?thesis unfolding q reject_members.simps require_def by simp
  next
    case False
    then have "k \<in> fst ` set ms" using Cons.prems by (auto simp: q)
    then obtain e where "reject_members ms path = Inl e" using Cons.IH Cons.prems(2) by blast
    then show ?thesis unfolding q reject_members.simps require_def rbind_def by (auto split: sum.splits)
  qed
qed simp

lemma reserved_demand_is_refused:
  assumes "normalize_request E request = Inr r" and "solve r = Inr (answer as unmet)"
    and "k \<in> fst ` set unmet" and "map lower_char k \<in> set forbidden_authority_keys"
  shows "\<exists>e. opt_propose E solve lineage request = Inl e"
proof -
  have "k \<in> fst ` set (map (\<lambda>p. (fst p, JFloat (snd p))) unmet)" using assms(3) by force
  from reject_members_bad [OF this assms(4)]
  obtain e where e: "reject_authority (enc_unmet unmet) (''candidate'' @ ''.'' @ ''unmet_demand'') = Inl e"
    unfolding enc_unmet_def reject_authority.simps by blast
  have "\<exists>e. reject_authority (answer as unmet) ''candidate'' = Inl e"
    unfolding answer_obj reject_authority.simps reject_members.simps require_def rbind_def
    using e by (auto split: sum.splits)
  then obtain e' where "reject_authority (answer as unmet) ''candidate'' = Inl e'" by blast
  moreover obtain m where "answer as unmet = JObj m" using answer_obj by blast
  ultimately have "validate_candidate E r (answer as unmet) = Inl e'"
    by (simp add: validate_candidate_def del: reject_authority.simps)
  with assms(1,2) show ?thesis by (simp add: opt_propose_def)
qed

text \<open>
  C28. On a request whose capacities, demands and lane limits are whole numbers below two to the 52
  and where no demand is named like an authority field (the adapter refuses the unmet demand of
  one that is), the candidate of the reference provider passes the check of its own adapter, and it
  wastes nothing: it is feasible, and every lane whose demand is not fully served is full or its supply is exhausted.
\<close>

theorem reference_allocation_is_maximal:
  assumes "normalize_request E request = Inr r" and "small_request r"
    and "\<forall>d \<in> set (rq_demands r). map lower_char (od_id d) \<notin> set forbidden_authority_keys"
  shows "\<exists>p. opt_propose E solve lineage request = Inr p \<and> op_request p = r \<and> (\<forall>a \<in> set (oc_allocs (op_candidate p)). whole (oa_quantity a)) \<and>
    feasible_for r (oc_allocs (op_candidate p)) \<and> maximal_for r (oc_allocs (op_candidate p))"
  using assms by (rule reference_proposal)

end
