(* ===== verification/OptimizeExamples.thy ===== *)
theory OptimizeExamples
  imports OptimizeProps
begin

text \<open>One supply and two demands, of which the more urgent one is served first.\<close>

definition ox_request :: json where
  "ox_request = JObj
     [(''demands'', JArr [JObj [(''demand_id'', JStr ''x''), (''priority'', JInt 90), (''quantity'', JInt 3)],
        JObj [(''demand_id'', JStr ''y''), (''quantity'', JInt 4)]]),
      (''lanes'', JArr [JObj [(''demand_id'', JStr ''x''), (''supply_id'', JStr ''s''), (''unit_cost'', JInt 1)],
        JObj [(''demand_id'', JStr ''y''), (''max_quantity'', JInt 2), (''supply_id'', JStr ''s''), (''unit_cost'', JInt 2)]]),
      (''request_id'', JStr ''r''), (''scope_id'', JStr ''c''),
      (''supplies'', JArr [JObj [(''capacity'', JInt 5), (''supply_id'', JStr ''s'')]]), (''tenant_id'', JStr ''t'')]"

definition ox_normal :: opt_request where
  "ox_normal = \<lparr>rq_id = ''r'', rq_tenant = ''t'', rq_scope = ''c'', rq_objective = ''MINIMIZE_COST'',
     rq_supplies = [\<lparr>os_id = ''s'', os_capacity = Fin (of_int 5)\<rparr>],
     rq_demands = [\<lparr>od_id = ''x'', od_quantity = Fin (of_int 3), od_priority = 90\<rparr>,
       \<lparr>od_id = ''y'', od_quantity = Fin (of_int 4), od_priority = 50\<rparr>],
     rq_lanes = [\<lparr>ol_supply = ''s'', ol_demand = ''x'', ol_cost = Fin (of_int 1), ol_max = Fin (of_int 5)\<rparr>,
       \<lparr>ol_supply = ''s'', ol_demand = ''y'', ol_cost = Fin (of_int 2), ol_max = Fin (of_int 2)\<rparr>],
     rq_full = True, rq_bindings = []\<rparr>"

lemma ox_words: "py_strip ''r'' = ''r''" "py_strip ''t'' = ''t''" "py_strip ''c'' = ''c''" "py_strip ''s'' = ''s''"
    "py_strip ''x'' = ''x''" "py_strip ''y'' = ''y''" "py_upper ''MINIMIZE_COST'' = ''MINIMIZE_COST''"
  by code_simp+

lemma ox_quantity: "0 \<le> i \<Longrightarrow> i \<le> 2 ^ 53 \<Longrightarrow> opt_quantity label (JInt i) = Inr (Fin (of_int i))"
  by (simp add: opt_quantity_def float_of_int_exact)

lemma ox_ids: "opt_identifier E l (JStr ''r'') = Inr ''r''" "opt_identifier E l (JStr ''t'') = Inr ''t''"
    "opt_identifier E l (JStr ''c'') = Inr ''c''" "opt_identifier E l (JStr ''s'') = Inr ''s''"
    "opt_identifier E l (JStr ''x'') = Inr ''x''" "opt_identifier E l (JStr ''y'') = Inr ''y''"
  by (simp_all add: opt_identifier_def ident_check_def py_str_def ox_words)

lemma ox_normalized: "normalize_request E ox_request = Inr ox_normal"
  by (simp add: normalize_request_def ox_request_def ox_normal_def opt_get_def opt_key_def opt_rows_def add_supply_def
      add_demand_def add_lane_def ox_quantity ox_ids opt_int_def int_of_json_def py_str_def ox_words truthy_def
      opt_quantity_float quantity_ok_def del: of_int_numeral)

lemma ox_small: "small_request ox_normal"
  by (simp add: small_request_def ox_normal_def del: of_int_numeral)

lemma ox_free: "\<forall>d \<in> set (rq_demands ox_normal). map lower_char (od_id d) \<notin> set forbidden_authority_keys"
  by code_simp

lemma ox_some: "maximal_for ox_normal as \<Longrightarrow> as \<noteq> []"
  by (auto simp: maximal_for_def ox_normal_def simp del: of_int_numeral)

theorem reference_allocation_is_maximal_witness:
  "\<exists>p. opt_propose demo_env solve ''reference'' ox_request = Inr p \<and> maximal_for ox_normal (oc_allocs (op_candidate p)) \<and>
     oc_allocs (op_candidate p) \<noteq> []"
  using reference_allocation_is_maximal [OF ox_normalized ox_small ox_free, of demo_env "''reference''"] ox_some by blast

theorem accepted_allocation_is_feasible_witness:
  "\<exists>p. opt_propose demo_env solve ''reference'' ox_request = Inr p \<and> oc_allocs (op_candidate p) \<noteq> [] \<and>
     moved (\<lambda>a. oa_supply a = ''s'') (oc_allocs (op_candidate p)) \<le> 5"
proof -
  obtain p where p: "opt_propose demo_env solve ''reference'' ox_request = Inr p" "op_request p = ox_normal"
      "\<forall>a \<in> set (oc_allocs (op_candidate p)). whole (oa_quantity a)" "maximal_for ox_normal (oc_allocs (op_candidate p))"
    using reference_proposal [OF ox_normalized ox_small ox_free, of demo_env "''reference''"] by blast
  have "feasible_for ox_normal (oc_allocs (op_candidate p))"
    using accepted_allocation_is_feasible [OF p(1)] ox_small p(2,3) by simp
  then have "moved (\<lambda>a. oa_supply a = ''s'') (oc_allocs (op_candidate p)) \<le> 5"
    by (simp add: feasible_for_def ox_normal_def del: of_int_numeral)
  with p(1) ox_some [OF p(4)] show ?thesis by blast
qed

end
