(* ===== verification/Ingest.thy ===== *)
theory Ingest
  imports Runtime
begin

text \<open>
  The compiler's input (\<open>src/src/edon/compiler/ingestion.py\<close>, \<open>models.py\<close>, \<open>candidate.py\<close>,
  \<open>src/src/edon/ir/types.py\<close>): a bundle of source documents with settings. A document's content is
  given in the bundle or in a file beside it; the file system is a function from the relative path,
  a parameter of the definitions.
\<close>

section \<open>Types\<close>

text \<open>A \<open>CompilerInputError\<close> with its message, or another error of the language.\<close>

datatype compile_error = CompileError string | CompileMalformed

datatype truth_layer = NORMATIVE | OPERATIONAL | BEHAVIORAL

datatype source_format = STRUCTURED_JSON | EDON_ANNOTATED_TEXT

datatype primitive_type = ACTOR | ROLE | AUTHORITY | POLICY | EVIDENCE_REQUIREMENT | RESOURCE | WORKFLOW_STEP | APPROVAL
  | DEADLINE | REVOCATION | JURISDICTION | ESCALATION | CONSEQUENCE

datatype risk_class = UNCLASSIFIED | LOW | MODERATE | HIGH | CRITICAL

definition truth_layers :: "(string \<times> truth_layer) list" where
  "truth_layers = [(''NORMATIVE'', NORMATIVE), (''OPERATIONAL'', OPERATIONAL), (''BEHAVIORAL'', BEHAVIORAL)]"

definition source_formats :: "(string \<times> source_format) list" where
  "source_formats = [(''STRUCTURED_JSON'', STRUCTURED_JSON), (''EDON_ANNOTATED_TEXT'', EDON_ANNOTATED_TEXT)]"

definition primitive_types :: "(string \<times> primitive_type) list" where
  "primitive_types =
     [(''ACTOR'', ACTOR), (''ROLE'', ROLE), (''AUTHORITY'', AUTHORITY), (''POLICY'', POLICY),
      (''EVIDENCE_REQUIREMENT'', EVIDENCE_REQUIREMENT), (''RESOURCE'', RESOURCE), (''WORKFLOW_STEP'', WORKFLOW_STEP),
      (''APPROVAL'', APPROVAL), (''DEADLINE'', DEADLINE), (''REVOCATION'', REVOCATION), (''JURISDICTION'', JURISDICTION),
      (''ESCALATION'', ESCALATION), (''CONSEQUENCE'', CONSEQUENCE)]"

definition risk_classes :: "(string \<times> risk_class) list" where
  "risk_classes = [(''UNCLASSIFIED'', UNCLASSIFIED), (''LOW'', LOW), (''MODERATE'', MODERATE), (''HIGH'', HIGH), (''CRITICAL'', CRITICAL)]"

text \<open>\<open>member.value\<close>.\<close>

definition member_value :: "(string \<times> 'a) list \<Rightarrow> 'a \<Rightarrow> string" where
  "member_value table x = (case List.find (\<lambda>p. snd p = x) table of Some p \<Rightarrow> fst p | None \<Rightarrow> [])"

abbreviation layer_value :: "truth_layer \<Rightarrow> string" where "layer_value \<equiv> member_value truth_layers"
abbreviation type_value :: "primitive_type \<Rightarrow> string" where "type_value \<equiv> member_value primitive_types"
abbreviation risk_value :: "risk_class \<Rightarrow> string" where "risk_value \<equiv> member_value risk_classes"
abbreviation format_value :: "source_format \<Rightarrow> string" where "format_value \<equiv> member_value source_formats"

record source_ref =
  sr_id :: string
  sr_version :: string
  sr_sha :: string
  sr_locator :: string

record source_document =
  sd_id :: string
  sd_version :: string
  sd_layer :: truth_layer
  sd_kind :: string
  sd_format :: source_format
  sd_content :: json
  sd_ref :: source_ref
  sd_metadata :: obj

record compiler_input =
  ci_run :: string
  ci_institution :: string
  ci_version :: string
  ci_sources :: "source_document list"
  ci_minimum :: flt
  ci_normative :: bool
  ci_raw :: json

section \<open>Sources\<close>

definition required_string :: "string \<Rightarrow> json \<Rightarrow> compile_error + string" where
  "required_string field v = (case v of
     JStr s \<Rightarrow> require (py_strip s \<noteq> []) (CompileError (field @ '' must be a non-empty string'')) (Inr (py_strip s))
   | _ \<Rightarrow> Inl (CompileError (field @ '' must be a non-empty string'')))"

text \<open>\<open>Enum(value)\<close>: only the text of a member is one.\<close>

definition enum_of :: "(string \<times> 'a) list \<Rightarrow> json \<Rightarrow> 'a option" where
  "enum_of table v = (case v of JStr s \<Rightarrow> map_of table s | _ \<Rightarrow> None)"

text \<open>
  What the file system says about a path below the directory of the bundle: the resolved path
  leaves the directory, it is no file, reading fails, or the file with the hexadecimal digest of its
  bytes, its text if they are UTF-8, and the value if the text is JSON.
\<close>

record source_file =
  sf_hex :: string
  sf_text :: "string option"
  sf_json :: "json option"

datatype file_lookup = Escapes | Missing | Unreadable | Found source_file

text \<open>\<open>Path(text).parts\<close> of a relative path and \<open>as_posix()\<close>.\<close>

fun split_on :: "char \<Rightarrow> string \<Rightarrow> string list" where
  "split_on c [] = [[]]"
| "split_on c (x # xs) = (if x = c then [] # split_on c xs
     else (case split_on c xs of [] \<Rightarrow> [[x]] | y # ys \<Rightarrow> (x # y) # ys))"

definition path_parts :: "string \<Rightarrow> string list" where
  "path_parts s = filter (\<lambda>p. p \<noteq> [] \<and> p \<noteq> ''.'') (split_on CHR ''/'' s)"

definition as_posix :: "string \<Rightarrow> string" where
  "as_posix s = (if path_parts s = [] then ''.'' else join ''/'' (path_parts s))"

definition load_file :: "(string \<Rightarrow> file_lookup) \<Rightarrow> string \<Rightarrow> source_format \<Rightarrow> compile_error + (json \<times> string)" where
  "load_file files relative fmt = (case files relative of
     Escapes \<Rightarrow> Inl (CompileError ''source.path escapes the input bundle directory'')
   | Missing \<Rightarrow> Inl (CompileError (''source file does not exist: '' @ relative))
   | Unreadable \<Rightarrow> Inl CompileMalformed
   | Found f \<Rightarrow> (case fmt of
       STRUCTURED_JSON \<Rightarrow> (case sf_json f of
          None \<Rightarrow> Inl (CompileError (''invalid structured source: '' @ relative))
        | Some v \<Rightarrow> Inr (v, ''sha256:'' @ sf_hex f))
     | EDON_ANNOTATED_TEXT \<Rightarrow> (case sf_text f of
          None \<Rightarrow> Inl (CompileError (''annotated source is not UTF-8: '' @ relative))
        | Some s \<Rightarrow> Inr (JStr s, ''sha256:'' @ sf_hex f))))"

definition load_content :: "pyenv \<Rightarrow> (string \<Rightarrow> file_lookup) \<Rightarrow> obj \<Rightarrow> source_format \<Rightarrow> compile_error + (json \<times> string \<times> string)" where
  "load_content E files row fmt =
     require ((dict_get row ''content'' \<noteq> None) \<noteq> (dict_get row ''path'' \<noteq> None))
       (CompileError ''each source must define exactly one of content or path'')
     (case dict_get row ''content'' of
        Some content \<Rightarrow> Inr (content, py_str E (get_default row ''locator'' (JStr ''inline'')), sha256_json E content)
      | None \<Rightarrow>
          rbind (required_string ''source.path'' (get_default row ''path'' JNull)) (\<lambda>path.
          require (take 1 path \<noteq> ''/'' \<and> ''..'' \<notin> set (path_parts path))
            (CompileError ''source.path must stay within the input bundle directory'') (
          let relative = as_posix path in
          rbind (load_file files relative fmt) (\<lambda>(content, sha).
            Inr (content, py_str E (get_default row ''locator'' (JStr relative)), sha)))))"

definition source_label :: "nat \<Rightarrow> string \<Rightarrow> string" where
  "source_label index field = ''sources['' @ int_text (int index) @ ''].'' @ field"

definition load_source :: "pyenv \<Rightarrow> (string \<Rightarrow> file_lookup) \<Rightarrow> nat \<times> json \<Rightarrow> source_document list \<Rightarrow> compile_error + source_document list" where
  "load_source E files r sources = (let index = fst r in (case snd r of
     JObj row \<Rightarrow>
       rbind (required_string (source_label index ''source_id'') (get_default row ''source_id'' JNull)) (\<lambda>i.
       rbind (required_string (source_label index ''version'') (get_default row ''version'' JNull)) (\<lambda>version.
       require (\<not> list_ex (\<lambda>d. sd_id d = i \<and> sd_version d = version) sources)
         (CompileError (''duplicate source identity: '' @ i @ ''@'' @ version)) (
       (case (enum_of truth_layers (get_default row ''truth_layer'' JNull),
              enum_of source_formats (get_default row ''format'' (JStr ''STRUCTURED_JSON''))) of
          (Some layer, Some fmt) \<Rightarrow>
            rbind (load_content E files row fmt) (\<lambda>(content, locator, digest).
            require (get_default row ''sha256'' JNull = JNull \<or> get_default row ''sha256'' JNull = JStr digest)
              (CompileError (''source hash mismatch: '' @ i @ ''@'' @ version)) (
            (case get_default row ''metadata'' (JObj []) of
               JObj metadata \<Rightarrow>
                 rbind (required_string (source_label index ''kind'') (get_default row ''kind'' (JStr ''UNSPECIFIED''))) (\<lambda>kind.
                   Inr (sources @ [\<lparr>sd_id = i, sd_version = version, sd_layer = layer, sd_kind = kind, sd_format = fmt,
                     sd_content = content, sd_ref = \<lparr>sr_id = i, sr_version = version, sr_sha = digest, sr_locator = locator\<rparr>,
                     sd_metadata = metadata\<rparr>]))
             | _ \<Rightarrow> Inl (CompileError (source_label index ''metadata'' @ '' must be an object'')))))
        | _ \<Rightarrow> Inl (CompileError (''sources['' @ int_text (int index) @ ''] has an unsupported layer or format'')))))) 
   | _ \<Rightarrow> Inl (CompileError (''sources['' @ int_text (int index) @ ''] must be an object''))))"

section \<open>The bundle\<close>

text \<open>\<open>float(v)\<close> of a number, and \<open>CompilerSettings\<close>.\<close>

definition minimum_confidence :: "json \<Rightarrow> compile_error + flt" where
  "minimum_confidence v =
     rbind (case v of
         JInt i \<Rightarrow> (case float_of_int i of None \<Rightarrow> Inl CompileMalformed | Some x \<Rightarrow> Inr x)
       | JFloat x \<Rightarrow> Inr x
       | _ \<Rightarrow> Inl (CompileError ''minimum_review_confidence must be numeric'')) (\<lambda>x.
     require (flt_le (Fin 0) x \<and> flt_le x (Fin 1)) (CompileError ''invalid compiler settings'') (Inr x))"

definition load_settings :: "json \<Rightarrow> compile_error + (flt \<times> bool)" where
  "load_settings v = (case v of
     JObj m \<Rightarrow>
       (case get_default m ''require_normative_layer'' (JBool True) of
          JBool normative \<Rightarrow>
            rbind (minimum_confidence (get_default m ''minimum_review_confidence'' (JFloat (rnd (9 / 10))))) (\<lambda>minimum.
              Inr (minimum, normative))
        | _ \<Rightarrow> Inl (CompileError ''require_normative_layer must be boolean''))
   | _ \<Rightarrow> Inl (CompileError ''settings must be an object''))"

text \<open>The bundle is given as the JSON value of its file.\<close>

definition load_compiler_input :: "pyenv \<Rightarrow> (string \<Rightarrow> file_lookup) \<Rightarrow> json \<Rightarrow> compile_error + compiler_input" where
  "load_compiler_input E files raw = (case raw of
     JObj m \<Rightarrow>
       require (get_default m ''schema_version'' JNull = JStr ''edon-institution-compiler-input.v1'')
         (CompileError ''unsupported compiler input schema_version'') (
       (case get_default m ''sources'' JNull of
          JArr (x # xs) \<Rightarrow>
            rbind (rfold (load_source E files) (List.enumerate 0 (x # xs)) []) (\<lambda>sources.
            rbind (load_settings (get_default m ''settings'' (JObj []))) (\<lambda>(minimum, normative).
            rbind (required_string ''compiler_run_id'' (get_default m ''compiler_run_id'' JNull)) (\<lambda>run.
            rbind (required_string ''institution_id'' (get_default m ''institution_id'' JNull)) (\<lambda>institution.
            rbind (required_string ''institution_version'' (get_default m ''institution_version'' JNull)) (\<lambda>version.
              Inr \<lparr>ci_run = run, ci_institution = institution, ci_version = version, ci_sources = sources,
                ci_minimum = minimum, ci_normative = normative, ci_raw = raw\<rparr>)))))
        | _ \<Rightarrow> Inl (CompileError ''sources must be a non-empty array'')))
   | _ \<Rightarrow> Inl (CompileError ''compiler input must be a JSON object''))"

end
