(* ===== verification/Extract.thy ===== *)
theory Extract
  imports Ingest Memory
begin

text \<open>
  Extraction of institutional statements (\<open>src/src/edon/compiler/extraction.py\<close>) from structured
  sources and from annotated text, with the language's reader of delimited text (\<open>csv.reader\<close> with
  a bar as delimiter) and its reader of decimal floats.
\<close>

section \<open>Decimal floats\<close>

text \<open>\<open>float(text)\<close>: a sign, digits with single underscores between them, a fraction, an exponent.\<close>

definition is_digit :: "char \<Rightarrow> bool" where
  "is_digit c \<longleftrightarrow> CHR ''0'' \<le> c \<and> c \<le> CHR ''9''"

fun drop_underscores :: "bool \<Rightarrow> string \<Rightarrow> string option" where
  "drop_underscores after_digit [] = Some []"
| "drop_underscores after_digit (c # cs) =
     (if c = CHR ''_'' then
        (if after_digit \<and> cs \<noteq> [] \<and> is_digit (hd cs) then drop_underscores False cs else None)
      else map_option ((#) c) (drop_underscores (is_digit c) cs))"

definition digits_value :: "string \<Rightarrow> nat" where
  "digits_value s = foldl (\<lambda>n c. 10 * n + (of_char c - 48)) 0 s"

definition pow10 :: "int \<Rightarrow> rat" where
  "pow10 e = (if 0 \<le> e then 10 ^ nat e else 1 / 10 ^ nat (- e))"

definition exponent_of :: "string \<Rightarrow> int option" where
  "exponent_of s = (case s of
     [] \<Rightarrow> Some 0
   | c # t \<Rightarrow>
       (let sgn = (if take 1 t = ''-'' then - 1 else 1); ds = (if take 1 t = ''-'' \<or> take 1 t = ''+'' then drop 1 t else t) in
        if (c = CHR ''e'' \<or> c = CHR ''E'') \<and> ds \<noteq> [] \<and> list_all is_digit ds then Some (sgn * int (digits_value ds)) else None))"

definition unsigned_float :: "string \<Rightarrow> flt option" where
  "unsigned_float s =
     (if map lower_char s \<in> {''inf'', ''infinity''} then Some PInf
      else if map lower_char s = ''nan'' then Some NaN
      else
        (let whole_part = takeWhile is_digit s; s1 = dropWhile is_digit s;
             s2 = (if take 1 s1 = ''.'' then drop 1 s1 else []);
             frac = takeWhile is_digit s2; rest = (if take 1 s1 = ''.'' then dropWhile is_digit s2 else s1) in
         if whole_part @ frac = [] then None
         else map_option (\<lambda>e. rnd (of_nat (digits_value (whole_part @ frac)) * pow10 (e - int (length frac)))) (exponent_of rest)))"

definition float_of_text :: "string \<Rightarrow> flt option" where
  "float_of_text s = (case drop_underscores False (num_strip s) of
     None \<Rightarrow> None
   | Some t \<Rightarrow>
       (if take 1 t = ''-'' then map_option fneg (unsigned_float (drop 1 t))
        else if take 1 t = ''+'' then unsigned_float (drop 1 t) else unsigned_float t))"

definition float_of_json :: "json \<Rightarrow> compile_error + flt" where
  "float_of_json v = (case v of
     JInt i \<Rightarrow> (case float_of_int i of None \<Rightarrow> Inl CompileMalformed | Some x \<Rightarrow> Inr x)
   | JFloat x \<Rightarrow> Inr x
   | JBool b \<Rightarrow> Inr (Fin (if b then 1 else 0))
   | JStr s \<Rightarrow> (case float_of_text s of None \<Rightarrow> Inl CompileMalformed | Some x \<Rightarrow> Inr x)
   | _ \<Rightarrow> Inl CompileMalformed)"

section \<open>Delimited text\<close>

text \<open>
  The states of \<open>csv.reader\<close>, which reads line by line; a line keeps its newline, and \<open>None\<close> is the
  end of a line. A field in quotation marks may go over several lines. A field longer than 131072
  characters and a carriage return inside a line are errors.
\<close>

datatype csv_state = StartRecord | StartField | InField | InQuoted | QuoteInQuoted | EatNewline

record csv_reader =
  cv_state :: csv_state
  cv_field :: string
  cv_fields :: "string list"

definition csv_start :: csv_reader where
  "csv_start = \<lparr>cv_state = StartRecord, cv_field = [], cv_fields = []\<rparr>"

definition save_field :: "csv_state \<Rightarrow> csv_reader \<Rightarrow> csv_reader" where
  "save_field s r = r\<lparr>cv_state := s, cv_fields := cv_fields r @ [cv_field r], cv_field := []\<rparr>"

definition add_char :: "csv_state \<Rightarrow> char \<Rightarrow> csv_reader \<Rightarrow> compile_error + csv_reader" where
  "add_char s c r = require (length (cv_field r) < 131072) CompileMalformed
     (Inr (r\<lparr>cv_state := s, cv_field := cv_field r @ [c]\<rparr>))"

definition is_newline :: "char \<Rightarrow> bool" where
  "is_newline c \<longleftrightarrow> c = CHR 0x0A \<or> c = CHR 0x0D"

definition csv_char :: "char \<Rightarrow> csv_reader \<Rightarrow> compile_error + csv_reader" where
  "csv_char c r = (case cv_state r of
     EatNewline \<Rightarrow> require (is_newline c) CompileMalformed (Inr r)
   | InQuoted \<Rightarrow> if c = CHR 0x22 then Inr (r\<lparr>cv_state := QuoteInQuoted\<rparr>) else add_char InQuoted c r
   | QuoteInQuoted \<Rightarrow>
       if c = CHR 0x22 then add_char InQuoted c r
       else if c = CHR ''|'' then Inr (save_field StartField r)
       else if is_newline c then Inr (save_field EatNewline r)
       else add_char InField c r
   | InField \<Rightarrow>
       if is_newline c then Inr (save_field EatNewline r)
       else if c = CHR ''|'' then Inr (save_field StartField r)
       else add_char InField c r
   | s \<Rightarrow>
       if is_newline c then Inr (if s = StartRecord then r\<lparr>cv_state := EatNewline\<rparr> else save_field EatNewline r)
       else if c = CHR 0x22 then Inr (r\<lparr>cv_state := InQuoted\<rparr>)
       else if c = CHR ''|'' then Inr (save_field StartField r)
       else add_char InField c r)"

definition csv_end_of_line :: "csv_reader \<Rightarrow> csv_reader" where
  "csv_end_of_line r = (case cv_state r of
     StartRecord \<Rightarrow> r
   | InQuoted \<Rightarrow> r
   | EatNewline \<Rightarrow> r\<lparr>cv_state := StartRecord\<rparr>
   | _ \<Rightarrow> save_field StartRecord r)"

text \<open>The lines of a text, each with its newline.\<close>

fun lines_of :: "string \<Rightarrow> string list" where
  "lines_of [] = []"
| "lines_of (c # cs) =
     (if c = CHR 0x0A then [c] # lines_of cs
      else (case lines_of cs of [] \<Rightarrow> [[c]] | l # ls \<Rightarrow> (c # l) # ls))"

text \<open>The records that the reader yields, and whether it fails after them.\<close>

fun csv_lines :: "string list \<Rightarrow> csv_reader \<Rightarrow> string list list \<times> bool" where
  "csv_lines [] r = (if cv_state r = InQuoted then [cv_fields (save_field StartRecord r)] else [], False)"
| "csv_lines (l # ls) r = (case rfold csv_char l r of
     Inl e \<Rightarrow> ([], True)
   | Inr r \<Rightarrow>
       (let r = csv_end_of_line r in
        if cv_state r = StartRecord then (let (records, failed) = csv_lines ls csv_start in (cv_fields r # records, failed))
        else csv_lines ls r))"

definition csv_records :: "string \<Rightarrow> string list list \<times> bool" where
  "csv_records text = csv_lines (lines_of text) csv_start"

section \<open>Statements\<close>

record primitive =
  pr_statement :: string
  pr_mechanism :: string
  pr_type :: primitive_type
  pr_subject :: string
  pr_predicate :: string
  pr_value :: json
  pr_layer :: truth_layer
  pr_ref :: source_ref
  pr_confidence :: flt
  pr_risk :: risk_class
  pr_span :: string

definition statement_label :: "source_document \<Rightarrow> nat \<Rightarrow> string" where
  "statement_label d index = sd_id d @ '' statement '' @ int_text (int index)"

definition statement_fields :: "string list" where
  "statement_fields = [''mechanism_id'', ''primitive_type'', ''subject'', ''predicate'', ''value'']"

definition primitive_from_row :: "pyenv \<Rightarrow> source_document \<Rightarrow> obj \<Rightarrow> nat \<Rightarrow> string \<Rightarrow> compile_error + primitive" where
  "primitive_from_row E d row index location =
     (let missing = filter (\<lambda>f. dict_get row f = None) statement_fields; label = statement_label d index in
      require (missing = []) (CompileError (label @ '' missing: '' @ join '', '' missing)) (
      (case (map_of primitive_types (py_str E (get_default row ''primitive_type'' JNull)),
             map_of risk_classes (py_str E (get_default row ''risk_class'' (JStr ''UNCLASSIFIED'')))) of
         (Some ty, Some risk) \<Rightarrow>
           rbind (float_of_json (get_default row ''confidence'' (JFloat (Fin 1)))) (\<lambda>confidence.
           require (flt_le (Fin 0) confidence \<and> flt_le confidence (Fin 1))
             (CompileError (label @ '' confidence is out of range'')) (
           let mechanism = py_strip (py_str E (get_default row ''mechanism_id'' JNull));
               subject = py_strip (py_str E (get_default row ''subject'' JNull));
               predicate = py_strip (py_str E (get_default row ''predicate'' JNull));
               value = get_default row ''value'' JNull in
           require (mechanism \<noteq> [] \<and> subject \<noteq> [] \<and> predicate \<noteq> [])
             (CompileError (label @ '' contains an empty key field'')) (
           let normalized = mk_obj
             [(''source_id'', JStr (sd_id d)), (''version'', JStr (sd_version d)), (''index'', JInt (int index)),
              (''mechanism_id'', JStr mechanism), (''primitive_type'', JStr (type_value ty)), (''subject'', JStr subject),
              (''predicate'', JStr predicate), (''value'', value)] in
           Inr \<lparr>pr_statement = ''statement-'' @ take 20 (after_colon (sha256_json E normalized)), pr_mechanism = mechanism,
             pr_type = ty, pr_subject = subject, pr_predicate = predicate, pr_value = value, pr_layer = sd_layer d,
             pr_ref = sd_ref d, pr_confidence = confidence, pr_risk = risk, pr_span = location\<rparr>)))
       | _ \<Rightarrow> Inl (CompileError (label @ '' has an invalid enum'')))))"

definition structured_rows :: "source_document \<Rightarrow> compile_error + obj list" where
  "structured_rows d =
     (let rows = (case sd_content d of JObj m \<Rightarrow> get_default m ''statements'' JNull | v \<Rightarrow> v) in
      (case rows of
         JArr xs \<Rightarrow> traverse (\<lambda>x. case x of JObj m \<Rightarrow> Inr m
           | _ \<Rightarrow> Inl (CompileError (sd_id d @ '' statements must be objects''))) xs
       | _ \<Rightarrow> Inl (CompileError (sd_id d @ '' structured content must contain a statements array''))))"

text \<open>The rows of annotated text, with the number of the record each comes from.\<close>

definition annotated_row :: "source_document \<Rightarrow> nat \<times> string list \<Rightarrow> (obj \<times> nat) list \<Rightarrow> compile_error + (obj \<times> nat) list" where
  "annotated_row d r rows = (let fields = snd r in
     if fields = [] \<or> py_strip (concat fields) = [] \<or> take 1 (dropWhile is_space (hd fields)) = ''#'' then Inr rows
     else require (length fields = 8 \<and> py_strip (hd fields) = ''EDON'')
       (CompileError (sd_id d @ '' line '' @ int_text (int (fst r))
          @ '' must have EDON|mechanism|type|subject|predicate|value|confidence|risk''))
       (let f = (\<lambda>i. JStr (py_strip (fields ! i))) in
        Inr (rows @ [(dict_of
          [(''mechanism_id'', f 1), (''primitive_type'', f 2), (''subject'', f 3), (''predicate'', f 4), (''value'', f 5),
           (''confidence'', f 6), (''risk_class'', if f 7 = JStr [] then JStr ''UNCLASSIFIED'' else f 7),
           (''_line'', JInt (int (fst r)))], fst r)])))"

definition annotated_rows :: "source_document \<Rightarrow> compile_error + (obj \<times> nat) list" where
  "annotated_rows d = (case sd_content d of
     JStr s \<Rightarrow>
       (let (records, failed) = csv_records s in
        rbind (rfold (annotated_row d) (List.enumerate 1 records) []) (\<lambda>rows.
          require (\<not> failed) CompileMalformed (Inr rows)))
   | _ \<Rightarrow> Inl (CompileError (sd_id d @ '' annotated content must be text'')))"

definition extract_source :: "pyenv \<Rightarrow> source_document \<Rightarrow> compile_error + primitive list" where
  "extract_source E d = (case sd_format d of
     STRUCTURED_JSON \<Rightarrow>
       rbind (structured_rows d) (\<lambda>rows.
         traverse (\<lambda>(index, row). primitive_from_row E d row index (''statements/'' @ int_text (int index)))
           (List.enumerate 0 rows))
   | EDON_ANNOTATED_TEXT \<Rightarrow>
       rbind (annotated_rows d) (\<lambda>rows.
         traverse (\<lambda>(index, row, line). primitive_from_row E d row index (''line/'' @ int_text (int line)))
           (List.enumerate 0 rows)))"

definition extract_all :: "pyenv \<Rightarrow> source_document list \<Rightarrow> compile_error + primitive list" where
  "extract_all E sources =
     rbind (traverse (extract_source E) sources) (\<lambda>rows.
     require (concat rows \<noteq> []) (CompileError ''no institutional primitives were extracted'') (Inr (concat rows)))"

end
