(* ===== verification/Reconcile.thy ===== *)
theory Reconcile
  imports Extract
begin

text \<open>
  Reconciliation of the statements of all sources (\<open>src/src/edon/compiler/reconciliation.py\<close>): the
  statements about one fact are compared within and across the three layers of truth, conflicts are
  recorded, and a value is selected by the order of the layers.
\<close>

section \<open>Keys and values\<close>

text \<open>\<open>str.casefold\<close> on the code points of the model.\<close>

definition py_casefold :: "string \<Rightarrow> string" where
  "py_casefold s = concat (map (\<lambda>c. if (of_char c :: nat) = 223 then ''ss'' else [lower_char c]) s)"

type_synonym fact_key = "string \<times> string \<times> string \<times> string"

definition fact_key :: "primitive \<Rightarrow> fact_key" where
  "fact_key p = (pr_mechanism p, type_value (pr_type p), py_casefold (py_strip (pr_subject p)), py_casefold (py_strip (pr_predicate p)))"

definition layer_order :: "truth_layer list" where
  "layer_order = [NORMATIVE, OPERATIONAL, BEHAVIORAL]"

definition sensitive :: "primitive_type \<Rightarrow> bool" where
  "sensitive ty \<longleftrightarrow> ty \<in> {AUTHORITY, APPROVAL, REVOCATION, JURISDICTION, CONSEQUENCE}"

text \<open>The values of the statements once each, in the order of their canonical texts.\<close>

definition unique_values :: "pyenv \<Rightarrow> primitive list \<Rightarrow> json list" where
  "unique_values E records = map snd (fold (\<lambda>r. set_default (canonical_json E (pr_value r)) (pr_value r)) records [])"

section \<open>Conflicts\<close>

datatype conflict_kind = NORMATIVE_CONFLICT | CROSS_LAYER_MISMATCH | MISSING_NORMATIVE

definition conflict_kinds :: "(string \<times> conflict_kind) list" where
  "conflict_kinds = [(''NORMATIVE_CONFLICT'', NORMATIVE_CONFLICT), (''CROSS_LAYER_MISMATCH'', CROSS_LAYER_MISMATCH),
     (''MISSING_NORMATIVE'', MISSING_NORMATIVE)]"

record conflict_record =
  cx_id :: string
  cx_mechanism :: string
  cx_kind :: conflict_kind
  cx_type :: primitive_type
  cx_subject :: string
  cx_predicate :: string
  cx_values :: "(truth_layer \<times> json list) list"
  cx_sources :: "string list"
  cx_severity :: string

definition enc_values :: "(truth_layer \<times> json list) list \<Rightarrow> json" where
  "enc_values vs = mk_obj (map (\<lambda>p. (layer_value (fst p), JArr (snd p))) vs)"

definition make_conflict :: "pyenv \<Rightarrow> primitive list \<Rightarrow> conflict_kind \<Rightarrow> (truth_layer \<times> json list) list \<Rightarrow> conflict_record" where
  "make_conflict E records kind vs =
     (let first = hd records; (m, ty, s, p) = fact_key first;
          identity = mk_obj [(''fact_key'', jstrs [m, ty, s, p]), (''kind'', JStr (member_value conflict_kinds kind)),
            (''values_by_layer'', enc_values vs)] in
      \<lparr>cx_id = ''conflict-'' @ take 20 (after_colon (sha256_json E identity)), cx_mechanism = pr_mechanism first,
        cx_kind = kind, cx_type = pr_type first, cx_subject = pr_subject first, cx_predicate = pr_predicate first,
        cx_values = vs, cx_sources = sorted_set (map (\<lambda>r. sr_id (pr_ref r)) records),
        cx_severity = (if sensitive (pr_type first) then ''HIGH'' else ''MODERATE'')\<rparr>)"

section \<open>Facts\<close>

text \<open>A selected value of \<open>None\<close> is \<open>JNull\<close>, as is a stated null.\<close>

record fact_record =
  fx_mechanism :: string
  fx_type :: primitive_type
  fx_subject :: string
  fx_predicate :: string
  fx_selected :: json
  fx_agreement :: string
  fx_layers :: "truth_layer list"
  fx_confidence :: flt
  fx_statements :: "string list"
  fx_refs :: "source_ref list"
  fx_conflicts :: "string list"

text \<open>
  \<open>statistics.fmean\<close>: the sum is rounded once, then divided by the number; \<open>round(x, 6)\<close> rounds the
  exact value to six decimals, ties to even. Confidences are finite.
\<close>

definition flt_rat :: "flt \<Rightarrow> rat" where
  "flt_rat x = (case x of Fin r \<Rightarrow> r | _ \<Rightarrow> 0)"

definition fmean :: "flt list \<Rightarrow> flt" where
  "fmean xs = fdiv (if list_all flt_finite xs then rnd (sum_list (map flt_rat xs)) else foldl fadd (Fin 0) xs)
     (Fin (of_nat (length xs)))"

definition round6 :: "flt \<Rightarrow> flt" where
  "round6 x = (case x of Fin r \<Rightarrow> rnd (of_int (round_half_even (r * 10 ^ 6)) / 10 ^ 6) | _ \<Rightarrow> x)"

definition fact_score :: "flt \<Rightarrow> nat \<Rightarrow> bool \<Rightarrow> flt" where
  "fact_score extraction layers contested =
     (let coverage = fdiv (Fin (of_nat layers)) (Fin (of_nat (length layer_order)));
          agreement = (if contested then rnd (35 / 100) else Fin 1) in
      fmax0 (fmin (Fin 1)
        (fadd (fadd (fmul (rnd (65 / 100)) extraction) (fmul (rnd (20 / 100)) coverage)) (fmul (rnd (15 / 100)) agreement))))"

definition layer_values :: "pyenv \<Rightarrow> primitive list \<Rightarrow> (truth_layer \<times> json list) list" where
  "layer_values E records = map (\<lambda>layer. (layer, unique_values E (filter (\<lambda>r. pr_layer r = layer) records)))
     (filter (\<lambda>layer. list_ex (\<lambda>r. pr_layer r = layer) records) layer_order)"

definition values_of :: "(truth_layer \<times> json list) list \<Rightarrow> truth_layer \<Rightarrow> json list" where
  "values_of vs layer = (case map_of vs layer of None \<Rightarrow> [] | Some xs \<Rightarrow> xs)"

definition fact_conflicts :: "pyenv \<Rightarrow> bool \<Rightarrow> primitive list \<Rightarrow> conflict_record list" where
  "fact_conflicts E require_normative records =
     (let vs = layer_values E records; normative = values_of vs NORMATIVE;
          all_values = remdups (map (canonical_json E) (concat (map snd vs))) in
      (if 1 < length normative then [make_conflict E records NORMATIVE_CONFLICT vs] else [])
      @ (if 1 < length all_values then [make_conflict E records CROSS_LAYER_MISMATCH vs] else [])
      @ (if require_normative \<and> normative = [] then [make_conflict E records MISSING_NORMATIVE vs] else []))"

text \<open>The value of the first layer that states exactly one.\<close>

fun select_value :: "(truth_layer \<times> json list) list \<Rightarrow> truth_layer list \<Rightarrow> json" where
  "select_value vs [] = JNull"
| "select_value vs (layer # ls) = (case values_of vs layer of [v] \<Rightarrow> v | _ \<Rightarrow> select_value vs ls)"

definition merge_refs :: "source_ref list \<Rightarrow> source_ref list" where
  "merge_refs refs = map snd (fold (\<lambda>r. dict_put (sr_id r, sr_version r) r) refs [])"

definition reconcile_fact :: "pyenv \<Rightarrow> bool \<Rightarrow> primitive list \<Rightarrow> fact_record" where
  "reconcile_fact E require_normative records =
     (let first = hd records; conflicts = fact_conflicts E require_normative records;
          layers = filter (\<lambda>layer. list_ex (\<lambda>r. pr_layer r = layer) records) layer_order in
      \<lparr>fx_mechanism = pr_mechanism first, fx_type = pr_type first, fx_subject = pr_subject first, fx_predicate = pr_predicate first,
        fx_selected = select_value (layer_values E records) layer_order,
        fx_agreement = (if conflicts \<noteq> [] then ''CONTESTED''
          else if length layers = length layer_order then ''AGREED'' else ''PARTIAL_AGREEMENT''),
        fx_layers = layers,
        fx_confidence = round6 (fact_score (fmean (map pr_confidence records)) (length layers) (conflicts \<noteq> [])),
        fx_statements = sort (map pr_statement records), fx_refs = merge_refs (map pr_ref records),
        fx_conflicts = map cx_id conflicts\<rparr>)"

definition group_of :: "primitive list \<Rightarrow> fact_key \<Rightarrow> primitive list" where
  "group_of primitives k = filter (\<lambda>p. fact_key p = k) primitives"

definition reconcile :: "pyenv \<Rightarrow> bool \<Rightarrow> primitive list \<Rightarrow> fact_record list \<times> conflict_record list" where
  "reconcile E require_normative primitives =
     (let keys = sorted_set (map fact_key primitives) in
      (map (\<lambda>k. reconcile_fact E require_normative (group_of primitives k)) keys,
       concat (map (\<lambda>k. fact_conflicts E require_normative (group_of primitives k)) keys)))"

end
