(* ===== verification/Compile.thy ===== *)
theory Compile
  imports Reconcile
begin

text \<open>
  The compiler (\<open>src/src/edon/compiler/pipeline.py\<close>): the reconciled facts of each mechanism become an
  unapproved candidate with its checks, the conflicts are kept, candidates with failed checks are
  queued for review, and the report qualifies itself. The report is what the registry registers.
\<close>

section \<open>Candidates\<close>

definition render_fact :: "pyenv \<Rightarrow> fact_record \<Rightarrow> string" where
  "render_fact E f = fx_subject f @ '':'' @ fx_predicate f @ '':''
     @ (case fx_selected f of JStr s \<Rightarrow> s | v \<Rightarrow> canonical_json E v)"

fun risk_order :: "risk_class \<Rightarrow> nat" where
  "risk_order UNCLASSIFIED = 0"
| "risk_order LOW = 1"
| "risk_order MODERATE = 2"
| "risk_order HIGH = 3"
| "risk_order CRITICAL = 4"

definition highest_risk :: "risk_class list \<Rightarrow> risk_class" where
  "highest_risk rs = fold (\<lambda>r best. if risk_order best < risk_order r then r else best) rs UNCLASSIFIED"

definition risk_for_mechanism :: "string \<Rightarrow> primitive list \<Rightarrow> risk_class" where
  "risk_for_mechanism m primitives =
     (let mine = filter (\<lambda>p. pr_mechanism p = m) primitives; highest = highest_risk (map pr_risk mine) in
      if highest \<noteq> UNCLASSIFIED then highest
      else if list_ex (\<lambda>p. sensitive (pr_type p)) mine then HIGH
      else if mine \<noteq> [] then MODERATE else UNCLASSIFIED)"

definition reviewer_for :: "risk_class \<Rightarrow> string" where
  "reviewer_for risk = (case risk of CRITICAL \<Rightarrow> ''EXECUTIVE_RISK_OWNER'' | HIGH \<Rightarrow> ''DOMAIN_AND_SAFETY_REVIEWER''
     | _ \<Rightarrow> ''INSTITUTIONAL_REVIEWER'')"

definition ir_fields :: "(string \<times> primitive_type) list" where
  "ir_fields =
     [(''actors'', ACTOR), (''roles'', ROLE), (''authority'', AUTHORITY), (''policies'', POLICY),
      (''evidence_requirements'', EVIDENCE_REQUIREMENT), (''resources'', RESOURCE), (''workflow_steps'', WORKFLOW_STEP),
      (''approvals'', APPROVAL), (''deadlines'', DEADLINE), (''revocations'', REVOCATION), (''jurisdictions'', JURISDICTION),
      (''escalations'', ESCALATION), (''consequences'', CONSEQUENCE)]"

text \<open>The texts of the facts of one type, sorted; the buckets of the thirteen fields.\<close>

definition bucket :: "pyenv \<Rightarrow> fact_record list \<Rightarrow> primitive_type \<Rightarrow> string list" where
  "bucket E facts ty = sorted_set (map (render_fact E) (filter (\<lambda>f. fx_type f = ty \<and> fx_selected f \<noteq> JNull) facts))"

record mechanism_ir =
  mi_id :: string
  mi_version :: string
  mi_fields :: "(string \<times> string list) list"
  mi_refs :: "source_ref list"
  mi_risk :: risk_class
  mi_approved :: bool
  mi_metadata :: obj

record compiled =
  cd_id :: string
  cd_mechanism :: mechanism_ir
  cd_facts :: "fact_record list"
  cd_layers :: "truth_layer list"
  cd_confidence :: flt
  cd_conflicts :: "string list"
  cd_reviewer :: string
  cd_failed :: "string list"
  cd_threshold :: flt
  cd_binding :: bool

definition enc_ref :: "source_ref \<Rightarrow> json" where
  "enc_ref r = mk_obj [(''source_id'', JStr (sr_id r)), (''version'', JStr (sr_version r)), (''sha256'', JStr (sr_sha r)),
     (''locator'', JStr (sr_locator r))]"

definition enc_fact :: "fact_record \<Rightarrow> json" where
  "enc_fact f = mk_obj
     [(''primitive_type'', JStr (type_value (fx_type f))), (''subject'', JStr (fx_subject f)), (''predicate'', JStr (fx_predicate f)),
      (''selected_value'', fx_selected f), (''agreement_state'', JStr (fx_agreement f)),
      (''observed_layers'', jstrs (map layer_value (fx_layers f))), (''confidence'', JFloat (fx_confidence f)),
      (''statement_ids'', jstrs (fx_statements f)), (''source_references'', JArr (map enc_ref (fx_refs f))),
      (''conflict_ids'', jstrs (fx_conflicts f))]"

definition enc_mechanism :: "mechanism_ir \<Rightarrow> json" where
  "enc_mechanism m = mk_obj
     ([(''mechanism_id'', JStr (mi_id m)), (''version'', JStr (mi_version m))]
      @ map (\<lambda>p. (fst p, jstrs (snd p))) (mi_fields m)
      @ [(''source_references'', JArr (map enc_ref (mi_refs m))), (''risk_class'', JStr (risk_value (mi_risk m))),
         (''approved'', JBool (mi_approved m)), (''metadata'', JObj (mi_metadata m))])"

definition enc_conflict_record :: "conflict_record \<Rightarrow> json" where
  "enc_conflict_record c = mk_obj
     [(''conflict_id'', JStr (cx_id c)), (''mechanism_id'', JStr (cx_mechanism c)),
      (''kind'', JStr (member_value conflict_kinds (cx_kind c))), (''primitive_type'', JStr (type_value (cx_type c))),
      (''subject'', JStr (cx_subject c)), (''predicate'', JStr (cx_predicate c)), (''values_by_layer'', enc_values (cx_values c)),
      (''source_ids'', jstrs (cx_sources c)), (''severity'', JStr (cx_severity c)), (''requires_review'', JBool True)]"

definition compiler_version :: string where
  "compiler_version = ''0.1.0''"

text \<open>The checks of a candidate that failed.\<close>

definition failed_checks :: "fact_record list \<Rightarrow> truth_layer list \<Rightarrow> string list \<Rightarrow> flt \<Rightarrow> flt \<Rightarrow> risk_class \<Rightarrow> string list" where
  "failed_checks facts layers conflicts confidence threshold risk =
     (if NORMATIVE \<notin> set layers then [''NORMATIVE_SOURCE_MISSING''] else [])
     @ (if conflicts \<noteq> [] then [''CONFLICTS_REQUIRE_RESOLUTION''] else [])
     @ (if flt_less confidence threshold then [''CONFIDENCE_BELOW_REVIEW_THRESHOLD''] else [])
     @ (if risk \<in> {HIGH, CRITICAL} then [''HIGH_RISK_REVIEW_MANDATORY''] else [])
     @ (if list_ex (\<lambda>f. fx_selected f = JNull) facts then [''UNRESOLVED_FACT_VALUE''] else [])"

text \<open>\<open>CompilerCandidate.__post_init__\<close> refuses a score out of range, authority and approval.\<close>

definition check_candidate :: "compiled \<Rightarrow> compile_error + compiled" where
  "check_candidate c =
     require (flt_le (Fin 0) (cd_confidence c) \<and> flt_le (cd_confidence c) (Fin 1)) CompileMalformed (
     require (flt_le (Fin 0) (cd_threshold c) \<and> flt_le (cd_threshold c) (Fin 1)) CompileMalformed (
     require (\<not> cd_binding c) CompileMalformed (
     require (\<not> mi_approved (cd_mechanism c)) CompileMalformed (Inr c))))"

definition human_review_required :: "compiled \<Rightarrow> bool" where
  "human_review_required c \<longleftrightarrow> cd_conflicts c \<noteq> [] \<or> flt_less (cd_confidence c) (cd_threshold c)
     \<or> mi_risk (cd_mechanism c) \<in> {HIGH, CRITICAL}"

definition candidate_for :: "pyenv \<Rightarrow> string \<Rightarrow> primitive list \<Rightarrow> flt \<Rightarrow> string \<Rightarrow> fact_record list \<Rightarrow> compile_error + compiled" where
  "candidate_for E version primitives threshold m facts =
     (let risk = risk_for_mechanism m primitives;
          confidence = round6 (fmean (map fx_confidence facts));
          conflicts = sorted_set (concat (map fx_conflicts facts));
          layers = filter (\<lambda>layer. list_ex (\<lambda>f. layer \<in> set (fx_layers f)) facts) layer_order;
          refs = merge_refs (concat (map fx_refs facts));
          identity = mk_obj [(''mechanism_id'', JStr m), (''version'', JStr version), (''facts'', JArr (map enc_fact facts))] in
      check_candidate \<lparr>cd_id = ''candidate-'' @ take 20 (after_colon (sha256_json E identity)),
        cd_mechanism = \<lparr>mi_id = m, mi_version = version, mi_fields = map (\<lambda>(n, ty). (n, bucket E facts ty)) ir_fields,
          mi_refs = refs, mi_risk = risk, mi_approved = False,
          mi_metadata = dict_of [(''fact_count'', JInt (int (length facts))), (''conflict_count'', JInt (int (length conflicts))),
            (''compiler_version'', JStr compiler_version)]\<rparr>,
        cd_facts = facts, cd_layers = layers, cd_confidence = confidence, cd_conflicts = conflicts,
        cd_reviewer = reviewer_for risk, cd_failed = failed_checks facts layers conflicts confidence threshold risk,
        cd_threshold = threshold, cd_binding = False\<rparr>)"

definition enc_compiled :: "compiled \<Rightarrow> json" where
  "enc_compiled c = mk_obj
     [(''candidate_id'', JStr (cd_id c)), (''mechanism'', enc_mechanism (cd_mechanism c)),
      (''facts'', JArr (map enc_fact (cd_facts c))), (''observed_layers'', jstrs (map layer_value (cd_layers c))),
      (''confidence'', JFloat (cd_confidence c)), (''conflict_ids'', jstrs (cd_conflicts c)),
      (''focused_review_required'', JBool (cd_failed c \<noteq> [])), (''promotion_review_required'', JBool True),
      (''required_reviewer_role'', JStr (cd_reviewer c)), (''failed_checks'', jstrs (cd_failed c)),
      (''binding_authority'', JBool False)]"

section \<open>The report\<close>

record review_item =
  ri_candidate :: string
  ri_mechanism :: string
  ri_role :: string
  ri_reasons :: "string list"
  ri_conflicts :: "string list"

definition review_item_for :: "compiled \<Rightarrow> review_item" where
  "review_item_for c = \<lparr>ri_candidate = cd_id c, ri_mechanism = mi_id (cd_mechanism c), ri_role = cd_reviewer c,
     ri_reasons = cd_failed c, ri_conflicts = cd_conflicts c\<rparr>"

definition enc_review_item :: "review_item \<Rightarrow> json" where
  "enc_review_item i = mk_obj
     [(''candidate_id'', JStr (ri_candidate i)), (''mechanism_id'', JStr (ri_mechanism i)), (''reviewer_role'', JStr (ri_role i)),
      (''reasons'', jstrs (ri_reasons i)), (''conflict_ids'', jstrs (ri_conflicts i)),
      (''status'', JStr ''PENDING_AUTHORIZED_REVIEW'')]"

record compiler_report =
  rp_input :: compiler_input
  rp_primitives :: "primitive list"
  rp_candidates :: "compiled list"
  rp_conflicts :: "conflict_record list"
  rp_queue :: "review_item list"

definition report_checks :: "compiler_report \<Rightarrow> (string \<times> bool) list" where
  "report_checks r =
     [(''sources_present'', ci_sources (rp_input r) \<noteq> []),
      (''source_hashes_valid'', list_all (\<lambda>d. take 7 (sr_sha (sd_ref d)) = ''sha256:'') (ci_sources (rp_input r))),
      (''primitives_extracted'', rp_primitives r \<noteq> []),
      (''candidates_emitted'', rp_candidates r \<noteq> []),
      (''all_candidates_unapproved'', list_all (\<lambda>c. \<not> mi_approved (cd_mechanism c)) (rp_candidates r)),
      (''binding_authority_false'', list_all (\<lambda>c. \<not> cd_binding c) (rp_candidates r)),
      (''conflicts_preserved'', list_all (\<lambda>x. cx_id x \<in> set (concat (map cd_conflicts (rp_candidates r)))) (rp_conflicts r)),
      (''focused_review_items_routed'',
         list_all (\<lambda>c. cd_failed c = [] \<or> cd_id c \<in> ri_candidate ` set (rp_queue r)) (rp_candidates r))]"

definition report_passed :: "compiler_report \<Rightarrow> bool" where
  "report_passed r = list_all snd (report_checks r)"

definition enc_source :: "source_document \<Rightarrow> json" where
  "enc_source d = (let r = sd_ref d in mk_obj
     [(''source_id'', JStr (sr_id r)), (''version'', JStr (sr_version r)), (''sha256'', JStr (sr_sha r)),
      (''locator'', JStr (sr_locator r)), (''truth_layer'', JStr (layer_value (sd_layer d))), (''kind'', JStr (sd_kind d)),
      (''format'', JStr (format_value (sd_format d)))])"

definition report_fields :: "compiler_report \<Rightarrow> (string \<times> json) list" where
  "report_fields r =
     [(''schema_version'', JStr ''edon-institution-compiler-output.v1''), (''compiler_version'', JStr compiler_version),
      (''compiler_run_id'', JStr (ci_run (rp_input r))), (''institution_id'', JStr (ci_institution (rp_input r))),
      (''institution_version'', JStr (ci_version (rp_input r))),
      (''source_manifest'', JArr (map enc_source (ci_sources (rp_input r)))),
      (''extraction_summary'', mk_obj
         [(''source_count'', JInt (int (length (ci_sources (rp_input r))))), (''primitive_count'', JInt (int (length (rp_primitives r)))),
          (''mechanism_count'', JInt (int (length (rp_candidates r)))), (''conflict_count'', JInt (int (length (rp_conflicts r)))),
          (''focused_review_count'', JInt (int (length (rp_queue r))))]),
      (''candidates'', JArr (map enc_compiled (rp_candidates r))), (''conflicts'', JArr (map enc_conflict_record (rp_conflicts r))),
      (''review_queue'', JArr (map enc_review_item (rp_queue r))),
      (''qualification'', mk_obj
         [(''checks'', mk_obj (map (\<lambda>p. (fst p, JBool (snd p))) (report_checks r))), (''passed'', JBool (report_passed r)),
          (''status'', JStr (if report_passed r then ''COMPILER_OUTPUT_QUALIFIED'' else ''COMPILER_OUTPUT_REJECTED''))]),
      (''binding_authority'', JBool False),
      (''claim_boundary'', JStr (''Deterministic compilation of explicitly structured or EDON-annotated sources into ''
         @ ''unapproved candidate IR; not validated natural-document extraction or deployment authority.''))]"

definition report_obj :: "pyenv \<Rightarrow> compiler_report \<Rightarrow> obj" where
  "report_obj E r = dict_put ''compiler_manifest'' (mk_obj
     [(''input_sha256'', JStr (sha256_json E (ci_raw (rp_input r)))),
      (''compiled_payload_sha256'', JStr (sha256_json E (mk_obj (report_fields r)))), (''deterministic'', JBool True)])
     (dict_of (report_fields r))"

definition compile_facts :: "pyenv \<Rightarrow> compiler_input \<Rightarrow> primitive list \<Rightarrow> compile_error + compiler_report" where
  "compile_facts E i primitives =
     (let (facts, conflicts) = reconcile E (ci_normative i) primitives in
      rbind (traverse (\<lambda>m. candidate_for E (ci_version i) primitives (ci_minimum i) m (filter (\<lambda>f. fx_mechanism f = m) facts))
               (sorted_set (map fx_mechanism facts))) (\<lambda>candidates.
        Inr \<lparr>rp_input = i, rp_primitives = primitives, rp_candidates = candidates, rp_conflicts = conflicts,
          rp_queue = map review_item_for (filter (\<lambda>c. cd_failed c \<noteq> []) candidates)\<rparr>))"

definition compile_report :: "pyenv \<Rightarrow> (string \<Rightarrow> file_lookup) \<Rightarrow> json \<Rightarrow> compile_error + compiler_report" where
  "compile_report E files raw =
     rbind (load_compiler_input E files raw) (\<lambda>i.
     rbind (extract_all E (ci_sources i)) (\<lambda>primitives. compile_facts E i primitives))"

definition compile_institution :: "pyenv \<Rightarrow> (string \<Rightarrow> file_lookup) \<Rightarrow> json \<Rightarrow> compile_error + obj" where
  "compile_institution E files raw = rbind (compile_report E files raw) (\<lambda>r. Inr (report_obj E r))"

end
