(* ===== verification/CompileProps.thy ===== *)
theory CompileProps
  imports Compile Registry FloatOrder
begin

text \<open>
  What the compiler promises: reconciliation loses no disagreement between statements, compilation
  always returns a qualified report once the statements are extracted, and the registry accepts every
  report that the compiler writes.
\<close>

section \<open>Unique values\<close>

definition value_dict :: "pyenv \<Rightarrow> primitive list \<Rightarrow> (string, json) dict" where
  "value_dict E records = fold (\<lambda>r. set_default (canonical_json E (pr_value r)) (pr_value r)) records []"

lemma value_dict_snoc: "value_dict E (rs @ [r]) = set_default (canonical_json E (pr_value r)) (pr_value r) (value_dict E rs)"
  by (simp add: value_dict_def)

lemma value_dict_ok: "dict_ok (value_dict E records)"
  by (induction records rule: rev_induct) (simp_all add: value_dict_snoc set_default_ok, simp add: value_dict_def)

lemma value_dict_get:
  "(dict_get (value_dict E records) k = Some v \<longrightarrow> canonical_json E v = k \<and> (\<exists>r \<in> set records. pr_value r = v)) \<and>
   (dict_get (value_dict E records) k = None \<longleftrightarrow> (\<forall>r \<in> set records. canonical_json E (pr_value r) \<noteq> k))"
proof (induction records rule: rev_induct)
  case Nil
  then show ?case by (simp add: value_dict_def)
next
  case (snoc r rs)
  then show ?case by (auto simp: value_dict_snoc set_default_get)
qed

abbreviation text_of :: "pyenv \<Rightarrow> primitive \<Rightarrow> string" where
  "text_of E r \<equiv> canonical_json E (pr_value r)"

lemma value_dict_keys: "fst ` set (value_dict E records) = text_of E ` set records"
proof -
  have "k \<in> fst ` set (value_dict E records) \<longleftrightarrow> k \<in> text_of E ` set records" for k
  proof -
    have "k \<notin> fst ` set (value_dict E records) \<longleftrightarrow> (\<forall>r \<in> set records. text_of E r \<noteq> k)"
      using value_dict_get [of E records k, THEN conjunct2] unfolding dict_get_None_iff .
    then show ?thesis by (metis (no_types, lifting) image_iff)
  qed
  then show ?thesis by (rule set_eqI)
qed

lemma unique_values_texts: "map (canonical_json E) (unique_values E records) = map fst (value_dict E records)"
proof -
  have "canonical_json E (snd p) = fst p" if "p \<in> set (value_dict E records)" for p
    using that value_dict_get [of E records "fst p" "snd p"] dict_ok_get_iff [OF value_dict_ok] by (metis prod.collapse)
  then show ?thesis by (simp add: unique_values_def value_dict_def [symmetric])
qed

lemma unique_values_set: "canonical_json E ` set (unique_values E records) = text_of E ` set records"
  by (metis list.set_map unique_values_texts value_dict_keys)

lemma unique_values_distinct: "distinct (map (canonical_json E) (unique_values E records))"
  unfolding unique_values_texts by (rule dict_ok_distinct [OF value_dict_ok])

lemma unique_values_length: "length (unique_values E records) = card (text_of E ` set records)"
  using distinct_card [OF unique_values_distinct, of E records] unique_values_set [of E records] by simp

lemma card_gt_1: "finite S \<Longrightarrow> 1 < card S \<longleftrightarrow> (\<exists>x \<in> S. \<exists>y \<in> S. x \<noteq> y)"
  using card_le_Suc0_iff_eq [of S] by (auto simp: not_le [symmetric])

definition differ :: "pyenv \<Rightarrow> primitive set \<Rightarrow> bool" where
  "differ E S \<longleftrightarrow> (\<exists>p \<in> S. \<exists>q \<in> S. text_of E p \<noteq> text_of E q)"

lemma unique_values_differ: "1 < length (unique_values E records) \<longleftrightarrow> differ E (set records)"
  unfolding unique_values_length using card_gt_1 [of "text_of E ` set records"] by (simp add: differ_def)

section \<open>Layers\<close>

definition in_layer :: "truth_layer \<Rightarrow> primitive list \<Rightarrow> primitive list" where
  "in_layer layer records = filter (\<lambda>r. pr_layer r = layer) records"

lemma layer_order_all: "layer \<in> set layer_order"
  by (cases layer) (simp_all add: layer_order_def)

lemma layer_order_distinct: "distinct layer_order"
  by (simp add: layer_order_def)

lemma values_of_layer: "values_of (layer_values E records) layer = unique_values E (in_layer layer records)"
proof (cases "in_layer layer records = []")
  case True
  then have "map_of (layer_values E records) layer = None"
    by (auto simp: layer_values_def in_layer_def map_of_eq_None_iff list_ex_iff filter_empty_conv)
  with True show ?thesis by (simp add: values_of_def unique_values_def)
next
  case False
  then have "list_ex (\<lambda>r. pr_layer r = layer) records"
    by (auto simp: in_layer_def list_ex_iff filter_empty_conv)
  then have "map_of (layer_values E records) layer = Some (unique_values E (in_layer layer records))"
    by (simp add: layer_values_def in_layer_def map_of_map_restrict layer_order_all)
  then show ?thesis by (simp add: values_of_def)
qed

lemma layer_texts: "canonical_json E ` set (concat (map snd (layer_values E records))) = text_of E ` set records"
proof -
  have "set (concat (map snd (layer_values E records))) =
      (\<Union>layer \<in> {l. \<exists>r \<in> set records. pr_layer r = l}. set (unique_values E (in_layer layer records)))"
    using layer_order_all by (auto simp: layer_values_def in_layer_def list_ex_iff)
  then have "canonical_json E ` set (concat (map snd (layer_values E records))) =
      (\<Union>layer \<in> {l. \<exists>r \<in> set records. pr_layer r = l}. text_of E ` set (in_layer layer records))"
    by (simp only: image_UN unique_values_set)
  also have "\<dots> = text_of E ` set records" by (auto simp: in_layer_def)
  finally show ?thesis .
qed

lemma all_values_differ:
  "1 < length (remdups (map (canonical_json E) (concat (map snd (layer_values E records))))) \<longleftrightarrow> differ E (set records)"
proof -
  have "length (remdups (map (canonical_json E) (concat (map snd (layer_values E records))))) = card (text_of E ` set records)"
    unfolding length_remdups_card_conv set_map layer_texts ..
  then show ?thesis using card_gt_1 [of "text_of E ` set records"] by (simp add: differ_def)
qed

section \<open>Reconciliation\<close>

definition conflict_key :: "conflict_record \<Rightarrow> fact_key" where
  "conflict_key c = (cx_mechanism c, type_value (cx_type c), py_casefold (py_strip (cx_subject c)), py_casefold (py_strip (cx_predicate c)))"

definition fact_key_of :: "fact_record \<Rightarrow> fact_key" where
  "fact_key_of f = (fx_mechanism f, type_value (fx_type f), py_casefold (py_strip (fx_subject f)), py_casefold (py_strip (fx_predicate f)))"

definition reported :: "conflict_record list \<Rightarrow> conflict_kind \<Rightarrow> fact_key \<Rightarrow> bool" where
  "reported conflicts kind k \<longleftrightarrow> (\<exists>c \<in> set conflicts. cx_kind c = kind \<and> conflict_key c = k)"

lemma make_conflict_simps [simp]:
  "conflict_key (make_conflict E records kind vs) = fact_key (hd records)" "cx_kind (make_conflict E records kind vs) = kind"
  "cx_mechanism (make_conflict E records kind vs) = pr_mechanism (hd records)"
  by (simp_all add: make_conflict_def conflict_key_def fact_key_def Let_def)

lemma reconcile_fact_key [simp]: "fact_key_of (reconcile_fact E req records) = fact_key (hd records)"
  by (simp add: reconcile_fact_def fact_key_of_def fact_key_def Let_def)

lemma group_of_set: "set (group_of ps k) = {p \<in> set ps. fact_key p = k}"
  by (simp add: group_of_def)

lemma group_of_hd:
  assumes "k \<in> fact_key ` set ps"
  shows "group_of ps k \<noteq> [] \<and> hd (group_of ps k) \<in> set ps \<and> fact_key (hd (group_of ps k)) = k"
proof -
  obtain p where p: "p \<in> set ps" "fact_key p = k" using assms by blast
  then have ne: "group_of ps k \<noteq> []" by (auto simp: group_of_def filter_empty_conv)
  then have "hd (group_of ps k) \<in> set (group_of ps k)" by (rule hd_in_set)
  with ne show ?thesis unfolding group_of_set by simp
qed

text \<open>The statements about a fact that are in the normative layer, and which kinds of conflict they give.\<close>

definition statements_of :: "primitive list \<Rightarrow> fact_key \<Rightarrow> primitive set" where
  "statements_of ps k = {p \<in> set ps. fact_key p = k}"

definition normative_of :: "primitive list \<Rightarrow> fact_key \<Rightarrow> primitive set" where
  "normative_of ps k = {p \<in> set ps. fact_key p = k \<and> pr_layer p = NORMATIVE}"

lemma in_layer_group: "set (in_layer NORMATIVE (group_of ps k)) = normative_of ps k"
  by (auto simp: in_layer_def group_of_def normative_of_def)

definition conflicting :: "pyenv \<Rightarrow> bool \<Rightarrow> primitive list \<Rightarrow> fact_key \<Rightarrow> conflict_kind \<Rightarrow> bool" where
  "conflicting E req ps k kind \<longleftrightarrow> (case kind of
     NORMATIVE_CONFLICT \<Rightarrow> differ E (normative_of ps k)
   | CROSS_LAYER_MISMATCH \<Rightarrow> differ E (statements_of ps k)
   | MISSING_NORMATIVE \<Rightarrow> req \<and> normative_of ps k = {})"

lemma unique_values_Nil: "unique_values E records = [] \<longleftrightarrow> records = []"
  using unique_values_set [of E records] by (cases records) (auto simp: unique_values_def)

lemma fact_conflicts_set:
  "set (fact_conflicts E req (group_of ps k)) =
     (\<lambda>kind. make_conflict E (group_of ps k) kind (layer_values E (group_of ps k))) ` {kind. conflicting E req ps k kind}"
proof -
  let ?g = "group_of ps k"
  let ?m = "\<lambda>kind. make_conflict E ?g kind (layer_values E ?g)"
  have n: "1 < length (values_of (layer_values E ?g) NORMATIVE) \<longleftrightarrow> conflicting E req ps k NORMATIVE_CONFLICT"
    unfolding values_of_layer unique_values_differ in_layer_group by (simp add: conflicting_def)
  have x: "1 < length (remdups (map (canonical_json E) (concat (map snd (layer_values E ?g))))) \<longleftrightarrow>
      conflicting E req ps k CROSS_LAYER_MISMATCH"
    unfolding all_values_differ group_of_set by (simp add: conflicting_def statements_of_def)
  have m: "req \<and> values_of (layer_values E ?g) NORMATIVE = [] \<longleftrightarrow> conflicting E req ps k MISSING_NORMATIVE"
    unfolding values_of_layer unique_values_Nil using in_layer_group [of ps k] by (simp add: conflicting_def flip: set_empty)
  have "set (fact_conflicts E req ?g) = (if conflicting E req ps k NORMATIVE_CONFLICT then {?m NORMATIVE_CONFLICT} else {})
      \<union> (if conflicting E req ps k CROSS_LAYER_MISMATCH then {?m CROSS_LAYER_MISMATCH} else {})
      \<union> (if conflicting E req ps k MISSING_NORMATIVE then {?m MISSING_NORMATIVE} else {})"
    unfolding fact_conflicts_def Let_def set_append n x m by (simp only: if_distrib [of set] list.set Un_assoc)
  also have "\<dots> = (\<Union>kind \<in> {NORMATIVE_CONFLICT, CROSS_LAYER_MISMATCH, MISSING_NORMATIVE}.
      if conflicting E req ps k kind then {?m kind} else {})"
    by (simp only: UN_insert UN_empty Un_empty_right Un_assoc)
  also have "{NORMATIVE_CONFLICT, CROSS_LAYER_MISMATCH, MISSING_NORMATIVE} = UNIV" by (auto intro: conflict_kind.exhaust)
  finally show ?thesis by auto
qed

lemma reconcile_conflicts:
  "set (snd (reconcile E req ps)) = (\<Union>k \<in> fact_key ` set ps. set (fact_conflicts E req (group_of ps k)))"
  by (simp add: reconcile_def Let_def)

lemma reconcile_reported:
  "reported (snd (reconcile E req ps)) kind k \<longleftrightarrow> k \<in> fact_key ` set ps \<and> conflicting E req ps k kind"
proof -
  have key: "conflict_key c = k' \<and> conflicting E req ps k' (cx_kind c)"
    if "k' \<in> fact_key ` set ps" "c \<in> set (fact_conflicts E req (group_of ps k'))" for k' c
    using that(2) group_of_hd [OF that(1)] unfolding fact_conflicts_set by auto
  have made: "\<exists>c \<in> set (fact_conflicts E req (group_of ps k)). cx_kind c = kind \<and> conflict_key c = k"
    if "k \<in> fact_key ` set ps" "conflicting E req ps k kind"
    using that(2) group_of_hd [OF that(1)] unfolding fact_conflicts_set by force
  show ?thesis
  proof
    assume "reported (snd (reconcile E req ps)) kind k"
    then obtain c where c: "c \<in> (\<Union>k \<in> fact_key ` set ps. set (fact_conflicts E req (group_of ps k)))" "cx_kind c = kind" "conflict_key c = k"
      unfolding reported_def reconcile_conflicts by blast
    from c(1) obtain k' where "k' \<in> fact_key ` set ps" "c \<in> set (fact_conflicts E req (group_of ps k'))" by (rule UN_E)
    with key c(2,3) show "k \<in> fact_key ` set ps \<and> conflicting E req ps k kind" by metis
  next
    assume k: "k \<in> fact_key ` set ps \<and> conflicting E req ps k kind"
    then obtain c where c: "c \<in> set (fact_conflicts E req (group_of ps k))" "cx_kind c = kind" "conflict_key c = k"
      using made by blast
    from k c(1) have "c \<in> (\<Union>k \<in> fact_key ` set ps. set (fact_conflicts E req (group_of ps k)))" by (intro UN_I) simp_all
    with c(2,3) show "reported (snd (reconcile E req ps)) kind k" unfolding reported_def reconcile_conflicts by blast
  qed
qed

lemma reconcile_facts: "map fact_key_of (fst (reconcile E req ps)) = sorted_set (map fact_key ps)"
proof -
  have "map fact_key_of (fst (reconcile E req ps)) = map (\<lambda>k. fact_key (hd (group_of ps k))) (sorted_set (map fact_key ps))"
    by (simp add: reconcile_def Let_def)
  also have "\<dots> = sorted_set (map fact_key ps)"
    by (rule map_idI) (use group_of_hd [of _ ps] in simp)
  finally show ?thesis .
qed

text \<open>The first layer whose statements about a fact exist and agree.\<close>

definition agreed :: "pyenv \<Rightarrow> primitive list \<Rightarrow> truth_layer \<Rightarrow> bool" where
  "agreed E records layer \<longleftrightarrow> in_layer layer records \<noteq> [] \<and> \<not> differ E (set (in_layer layer records))"

lemma unique_values_agreed:
  "(\<exists>v. unique_values E (in_layer layer records) = [v] \<and> (\<exists>r \<in> set (in_layer layer records). pr_value r = v) \<and>
      (\<forall>r \<in> set (in_layer layer records). text_of E r = canonical_json E v)) \<or> \<not> agreed E records layer \<and> length (unique_values E (in_layer layer records)) \<noteq> 1"
proof (cases "agreed E records layer")
  case True
  let ?rs = "in_layer layer records"
  have "length (unique_values E ?rs) \<noteq> 0" "\<not> 1 < length (unique_values E ?rs)"
    using True unique_values_Nil unique_values_differ by (auto simp: agreed_def)
  then have "length (unique_values E ?rs) = 1" by linarith
  then obtain v where v: "unique_values E ?rs = [v]" by (auto simp: length_Suc_conv)
  have "canonical_json E ` set (unique_values E ?rs) = text_of E ` set ?rs" by (rule unique_values_set)
  then have texts: "{canonical_json E v} = text_of E ` set ?rs" by (simp add: v)
  have "map snd (value_dict E ?rs) = [v]" using v by (simp add: unique_values_def value_dict_def)
  then obtain k where "value_dict E ?rs = [(k, v)]" by (cases "value_dict E ?rs") auto
  then have "\<exists>r \<in> set ?rs. pr_value r = v" using value_dict_get [of E ?rs k v] by simp
  with v texts show ?thesis by blast
next
  case False
  then have "length (unique_values E (in_layer layer records)) \<noteq> 1"
    using unique_values_Nil [of E "in_layer layer records"] unique_values_differ [of E "in_layer layer records"] by (auto simp: agreed_def)
  with False show ?thesis by blast
qed

lemma select_value_find:
  "(case List.find (agreed E records) ls of
      None \<Rightarrow> select_value (layer_values E records) ls = JNull
    | Some layer \<Rightarrow> (\<exists>r \<in> set (in_layer layer records). pr_value r = select_value (layer_values E records) ls) \<and>
        (\<forall>r \<in> set (in_layer layer records). text_of E r = canonical_json E (select_value (layer_values E records) ls)))"
proof (induction ls)
  case (Cons layer ls)
  from unique_values_agreed [of E layer records] show ?case
  proof
    assume "\<exists>v. unique_values E (in_layer layer records) = [v] \<and> (\<exists>r \<in> set (in_layer layer records). pr_value r = v) \<and>
      (\<forall>r \<in> set (in_layer layer records). text_of E r = canonical_json E v)"
    then obtain v where v: "unique_values E (in_layer layer records) = [v]" "\<exists>r \<in> set (in_layer layer records). pr_value r = v"
      "\<forall>r \<in> set (in_layer layer records). text_of E r = canonical_json E v" by blast
    then have "agreed E records layer" using unique_values_differ [of E "in_layer layer records"] by (auto simp: agreed_def)
    with v show ?thesis by (simp add: values_of_layer)
  next
    assume a: "\<not> agreed E records layer \<and> length (unique_values E (in_layer layer records)) \<noteq> 1"
    then have e: "select_value (layer_values E records) (layer # ls) = select_value (layer_values E records) ls"
      by (auto simp: values_of_layer split: list.split)
    show ?thesis unfolding e using Cons a by simp
  qed
qed simp

text \<open>
  C29. Reconciliation loses no disagreement. It makes exactly one fact for every key that the
  statements have. For a key it reports a normative conflict exactly if two normative statements
  differ in value, a mismatch exactly if any two statements differ, and a missing normative layer
  exactly if that is required and no statement is normative; nothing else is reported. The value of
  a fact is stated by the first layer, in the order normative, operational, behavioral, that has
  statements which all agree, and is null if there is none.
\<close>

theorem reconcile_loses_no_disagreement:
  assumes "reconcile E req ps = (facts, conflicts)"
  shows "map fact_key_of facts = sorted_set (map fact_key ps) \<and>
    (\<forall>kind k. reported conflicts kind k \<longleftrightarrow> k \<in> fact_key ` set ps \<and> conflicting E req ps k kind) \<and>
    (\<forall>f \<in> set facts. case List.find (agreed E (group_of ps (fact_key_of f))) layer_order of
       None \<Rightarrow> fx_selected f = JNull
     | Some layer \<Rightarrow> \<exists>r \<in> set (in_layer layer (group_of ps (fact_key_of f))). pr_value r = fx_selected f)"
proof -
  have f: "facts = fst (reconcile E req ps)" and c: "conflicts = snd (reconcile E req ps)" using assms by simp_all
  have "case List.find (agreed E (group_of ps (fact_key_of x))) layer_order of
       None \<Rightarrow> fx_selected x = JNull
     | Some layer \<Rightarrow> \<exists>r \<in> set (in_layer layer (group_of ps (fact_key_of x))). pr_value r = fx_selected x" if "x \<in> set facts" for x
  proof -
    have "x \<in> (\<lambda>k. reconcile_fact E req (group_of ps k)) ` (fact_key ` set ps)"
      using that unfolding f by (simp add: reconcile_def Let_def)
    then obtain k where k: "x = reconcile_fact E req (group_of ps k)" "k \<in> fact_key ` set ps" by (rule imageE)
    then have "fact_key_of x = k" using group_of_hd [OF k(2)] by simp
    moreover have "fx_selected x = select_value (layer_values E (group_of ps k)) layer_order"
      unfolding k(1) by (simp add: reconcile_fact_def Let_def)
    ultimately show ?thesis using select_value_find [of E "group_of ps k" layer_order] by (auto split: option.splits)
  qed
  then show ?thesis using reconcile_facts [of E req ps] reconcile_reported [of E req ps] unfolding f c by blast
qed

section \<open>Scores\<close>

definition unit_score :: "flt \<Rightarrow> bool" where
  "unit_score x \<longleftrightarrow> (\<exists>r. x = Fin r \<and> 0 \<le> r \<and> r \<le> 1)"

lemma unit_score_iff: "unit_score x \<longleftrightarrow> flt_le (Fin 0) x \<and> flt_le x (Fin 1)"
  by (cases x) (auto simp: unit_score_def flt_le_def)

lemma rnd_unit: "0 \<le> r \<Longrightarrow> r \<le> 1 \<Longrightarrow> unit_score (rnd r)"
  using rnd_mono [of r 1 1] rnd_of_int [of 1] by (auto simp: unit_score_def)

lemma sum_unit:
  "\<forall>x \<in> set xs. unit_score x \<Longrightarrow> 0 \<le> sum_list (map flt_rat xs) \<and> sum_list (map flt_rat xs) \<le> of_nat (length xs)"
  by (induction xs) (auto simp: unit_score_def flt_rat_def)

lemma fmean_unit:
  assumes "\<forall>x \<in> set xs. unit_score x" and "xs \<noteq> []" and "length xs < 2 ^ 53"
  shows "unit_score (fmean xs)"
proof -
  let ?n = "int (length xs)"
  have fin: "list_all flt_finite xs" using assms(1) by (auto simp: list_all_iff unit_score_def)
  have "length xs \<le> 2 ^ 53" using assms(3) by simp
  then have "?n \<le> int (2 ^ 53)" by (simp only: of_nat_le_iff)
  then have n: "rnd (of_nat (length xs)) = Fin (of_nat (length xs))" using rnd_of_int [of ?n] by simp
  obtain s where s: "rnd (sum_list (map flt_rat xs)) = Fin s" "0 \<le> s" "s \<le> of_nat (length xs)"
    using rnd_mono [OF _ _ n] sum_unit [OF assms(1)] by blast
  have "(0::rat) < of_nat (length xs)" using assms(2) by simp
  then have "0 \<le> s / of_nat (length xs)" "s / of_nat (length xs) \<le> 1" using s by (simp_all add: divide_le_eq)
  then show ?thesis unfolding fmean_def using fin s(1) by (simp add: rnd_unit)
qed

lemma round6_unit: "unit_score x \<Longrightarrow> unit_score (round6 x)"
proof -
  assume "unit_score x"
  then obtain r where r: "x = Fin r" "0 \<le> r" "r \<le> 1" by (auto simp: unit_score_def)
  let ?i = "round_half_even (r * 10 ^ 6)"
  have "0 \<le> ?i" using r by (intro round_half_even_nonneg) simp
  moreover have "r * 10 ^ 6 \<le> of_int (10 ^ 6)" using r by simp
  then have "?i \<le> 10 ^ 6" using round_half_even_mono round_half_even_of_int [of "10 ^ 6"] by metis
  ultimately have "(0::rat) \<le> of_int ?i" "(of_int ?i :: rat) \<le> of_int (10 ^ 6)" unfolding of_int_le_iff of_int_0_le_iff by simp_all
  then have "0 \<le> (of_int ?i :: rat) / 10 ^ 6" "(of_int ?i :: rat) / 10 ^ 6 \<le> 1" by simp_all
  then show ?thesis unfolding r(1) round6_def by (simp only: flt.case rnd_unit)
qed

lemma clamp_unit: "unit_score (fmax0 (fmin (Fin 1) x))"
  by (cases x) (auto simp: fmin_def fmax0_def unit_score_def)

lemma fact_confidence_unit: "unit_score (fx_confidence (reconcile_fact E req records))"
  unfolding reconcile_fact_def Let_def fact_record.simps fact_score_def by (rule round6_unit) (rule clamp_unit)

section \<open>Candidates and reports\<close>

lemma check_candidate_ok: "flt_le (Fin 0) (cd_confidence c) \<and> flt_le (cd_confidence c) (Fin 1) \<Longrightarrow>
    flt_le (Fin 0) (cd_threshold c) \<and> flt_le (cd_threshold c) (Fin 1) \<Longrightarrow> \<not> cd_binding c \<Longrightarrow> \<not> mi_approved (cd_mechanism c) \<Longrightarrow>
    check_candidate c = Inr c"
  by (simp add: check_candidate_def)

text \<open>What a candidate says about the facts it was made from.\<close>

definition candidate_of :: "string \<Rightarrow> fact_record list \<Rightarrow> compiled \<Rightarrow> bool" where
  "candidate_of m facts c \<longleftrightarrow> mi_id (cd_mechanism c) = m \<and> cd_facts c = facts \<and> \<not> mi_approved (cd_mechanism c) \<and> \<not> cd_binding c \<and>
     set (cd_conflicts c) = set (concat (map fx_conflicts facts)) \<and>
     (cd_conflicts c \<noteq> [] \<longrightarrow> ''CONFLICTS_REQUIRE_RESOLUTION'' \<in> set (cd_failed c)) \<and>
     (\<exists>s. cd_id c = ''candidate-'' @ s) \<and> map fst (mi_fields (cd_mechanism c)) = map fst ir_fields"

lemma check_candidate_D: "check_candidate c = Inr c' \<Longrightarrow> c' = c"
  by (simp add: check_candidate_def require_eq_Inr)

lemma failed_checks_conflict: "conflicts \<noteq> [] \<Longrightarrow> ''CONFLICTS_REQUIRE_RESOLUTION'' \<in> set (failed_checks facts layers conflicts confidence threshold risk)"
  unfolding failed_checks_def set_append by simp

lemma candidate_for_D:
  assumes "candidate_for E version ps threshold m facts = Inr c"
  shows "candidate_of m facts c"
  using assms unfolding candidate_for_def Let_def
  by (drule_tac check_candidate_D) (simp add: candidate_of_def failed_checks_conflict case_prod_unfold)

text \<open>A candidate that needs human review has failed a check, so it is queued.\<close>

lemma human_review_fails_check:
  assumes "candidate_for E version ps threshold m facts = Inr c" and "human_review_required c"
  shows "cd_failed c \<noteq> []"
  using assms(1) unfolding candidate_for_def Let_def
  by (drule_tac check_candidate_D) (use assms(2) in \<open>auto simp: human_review_required_def failed_checks_def\<close>)

lemma candidate_for_total:
  assumes "\<forall>f \<in> set facts. unit_score (fx_confidence f)" and "facts \<noteq> []" and "length facts < 2 ^ 53" and "unit_score threshold"
  shows "\<exists>c. candidate_for E version ps threshold m facts = Inr c"
proof -
  have "unit_score (round6 (fmean (map fx_confidence facts)))"
    using assms(1-3) by (intro round6_unit fmean_unit) simp_all
  with assms(4) show ?thesis
    unfolding candidate_for_def Let_def unit_score_iff
    by - (rule exI, rule check_candidate_ok, simp_all)
qed

lemma traverse_total: "(\<And>x. x \<in> set xs \<Longrightarrow> \<exists>y. f x = Inr y) \<Longrightarrow> \<exists>ys. traverse f xs = Inr ys"
proof (induction xs)
  case (Cons x xs)
  obtain y where "f x = Inr y" using Cons.prems [of x] by auto
  moreover obtain ys where "traverse f xs = Inr ys" using Cons by auto
  ultimately show ?case by simp
qed simp

lemma traverse_D: "traverse f xs = Inr ys \<Longrightarrow> length ys = length xs \<and> (\<forall>i < length xs. f (xs ! i) = Inr (ys ! i))"
  by (auto simp: traverse_Inr_iff list_all2_conv_all_nth)

definition mine :: "fact_record list \<Rightarrow> string \<Rightarrow> fact_record list" where
  "mine facts m = filter (\<lambda>f. fx_mechanism f = m) facts"

text \<open>The candidates of a report: one per mechanism, in order, each made from the facts of its mechanism.\<close>

definition report_of :: "pyenv \<Rightarrow> compiler_input \<Rightarrow> primitive list \<Rightarrow> compiler_report \<Rightarrow> bool" where
  "report_of E i ps r \<longleftrightarrow> rp_input r = i \<and> rp_primitives r = ps \<and> rp_conflicts r = snd (reconcile E (ci_normative i) ps) \<and>
     map (mi_id \<circ> cd_mechanism) (rp_candidates r) = sorted_set (map fx_mechanism (fst (reconcile E (ci_normative i) ps))) \<and>
     (\<forall>c \<in> set (rp_candidates r). candidate_of (mi_id (cd_mechanism c)) (mine (fst (reconcile E (ci_normative i) ps)) (mi_id (cd_mechanism c))) c) \<and>
     rp_queue r = map review_item_for (filter (\<lambda>c. cd_failed c \<noteq> []) (rp_candidates r))"

lemma compile_facts_D:
  assumes "compile_facts E i ps = Inr r"
  shows "report_of E i ps r"
proof -
  let ?facts = "fst (reconcile E (ci_normative i) ps)"
  let ?ms = "sorted_set (map fx_mechanism ?facts)"
  obtain cs where cs: "traverse (\<lambda>m. candidate_for E (ci_version i) ps (ci_minimum i) m (mine ?facts m)) ?ms = Inr cs"
    and r: "r = \<lparr>rp_input = i, rp_primitives = ps, rp_candidates = cs, rp_conflicts = snd (reconcile E (ci_normative i) ps),
      rp_queue = map review_item_for (filter (\<lambda>c. cd_failed c \<noteq> []) cs)\<rparr>"
    using assms by (auto simp: compile_facts_def mine_def rbind_eq_Inr case_prod_unfold Let_def)
  define ms where "ms = ?ms"
  note cs = cs [folded ms_def]
  have n: "length cs = length ms" using traverse_D [OF cs] by (rule conjunct1)
  have c: "candidate_of (ms ! j) (mine ?facts (ms ! j)) (cs ! j)" if "j < length ms" for j
    using traverse_D [OF cs, THEN conjunct2, rule_format, OF that] by (rule candidate_for_D)
  have id: "mi_id (cd_mechanism (cs ! j)) = ms ! j" if "j < length ms" for j
    using c [OF that] unfolding candidate_of_def by (rule conjunct1)
  have ids: "map (mi_id \<circ> cd_mechanism) cs = ms"
  proof (rule nth_equalityI)
    fix j assume "j < length (map (mi_id \<circ> cd_mechanism) cs)"
    then have "j < length ms" "j < length cs" by (simp_all add: n)
    then show "map (mi_id \<circ> cd_mechanism) cs ! j = ms ! j" using id by simp
  qed (simp add: n)
  have "candidate_of (mi_id (cd_mechanism x)) (mine ?facts (mi_id (cd_mechanism x))) x" if "x \<in> set cs" for x
  proof -
    from that obtain j where "j < length cs" "cs ! j = x" unfolding in_set_conv_nth by blast
    then have j: "j < length ms" "x = cs ! j" using n by simp_all
    show ?thesis unfolding j(2) id [OF j(1)] by (rule c [OF j(1)])
  qed
  then show ?thesis unfolding report_of_def r compiler_report.simps using ids unfolding ms_def by (intro conjI ballI) simp_all
qed

lemma reconcile_fact_of_conflict:
  assumes "x \<in> set (snd (reconcile E req ps))"
  shows "\<exists>f \<in> set (fst (reconcile E req ps)). fx_mechanism f = cx_mechanism x \<and> cx_id x \<in> set (fx_conflicts f)"
proof -
  from assms have "x \<in> (\<Union>k \<in> fact_key ` set ps. set (fact_conflicts E req (group_of ps k)))" unfolding reconcile_conflicts .
  then obtain k where k: "k \<in> fact_key ` set ps" "x \<in> set (fact_conflicts E req (group_of ps k))" by (rule UN_E)
  let ?f = "reconcile_fact E req (group_of ps k)"
  have "?f \<in> (\<lambda>k. reconcile_fact E req (group_of ps k)) ` (fact_key ` set ps)" using k(1) by (rule imageI)
  then have "?f \<in> set (fst (reconcile E req ps))" by (simp add: reconcile_def Let_def)
  moreover have "cx_id x \<in> set (fx_conflicts ?f)" using k(2) by (simp add: reconcile_fact_def Let_def)
  moreover have "fx_mechanism ?f = cx_mechanism x"
    using k(2) unfolding fact_conflicts_set by (auto simp: reconcile_fact_def Let_def)
  ultimately show ?thesis by blast
qed

lemma report_conflicts:
  assumes "report_of E i ps r" and "x \<in> set (rp_conflicts r)"
  shows "\<exists>c \<in> set (rp_candidates r). mi_id (cd_mechanism c) = cx_mechanism x \<and> cx_id x \<in> set (cd_conflicts c) \<and>
    ''CONFLICTS_REQUIRE_RESOLUTION'' \<in> set (cd_failed c) \<and> review_item_for c \<in> set (rp_queue r)"
proof -
  let ?facts = "fst (reconcile E (ci_normative i) ps)"
  obtain f where f: "f \<in> set ?facts" "fx_mechanism f = cx_mechanism x" "cx_id x \<in> set (fx_conflicts f)"
    using reconcile_fact_of_conflict [of x E "ci_normative i" ps] assms by (auto simp: report_of_def)
  have "set (map (mi_id \<circ> cd_mechanism) (rp_candidates r)) = fx_mechanism ` set ?facts"
    using assms(1) by (simp add: report_of_def del: map_map)
  then have "cx_mechanism x \<in> (mi_id \<circ> cd_mechanism) ` set (rp_candidates r)" using f(1,2) by force
  then obtain c where c: "c \<in> set (rp_candidates r)" "mi_id (cd_mechanism c) = cx_mechanism x" by auto
  then have co: "candidate_of (cx_mechanism x) (mine ?facts (cx_mechanism x)) c"
    using assms(1) by (auto simp: report_of_def)
  have "f \<in> set (mine ?facts (cx_mechanism x))" using f by (simp add: mine_def)
  then have "cx_id x \<in> set (concat (map fx_conflicts (mine ?facts (cx_mechanism x))))" using f(3) by auto
  then have i: "cx_id x \<in> set (cd_conflicts c)" using co by (simp only: candidate_of_def)
  then have "''CONFLICTS_REQUIRE_RESOLUTION'' \<in> set (cd_failed c)" using co by (auto simp: candidate_of_def)
  moreover from this have "review_item_for c \<in> set (rp_queue r)"
    using assms(1) c(1) by (auto simp: report_of_def)
  ultimately show ?thesis using c i by blast
qed

end
