(* ===== verification/CompileReport.thy ===== *)
theory CompileReport
  imports CompileProps
begin

text \<open>
  The compiler as a whole: once a bundle is read and its statements are extracted, a qualified report
  comes out that keeps every conflict, and the registry takes in every report the compiler writes.
\<close>

section \<open>The input\<close>

definition hashed :: "source_document \<Rightarrow> bool" where
  "hashed d \<longleftrightarrow> take 7 (sr_sha (sd_ref d)) = ''sha256:''"

lemma sha_prefix: "take 7 (sha256_json E v) = ''sha256:''" "take 7 (''sha256:'' @ s) = ''sha256:''"
  by (simp_all add: sha256_json_def sha256_text_def)

lemma load_file_sha: "load_file files relative fmt = Inr (content, sha) \<Longrightarrow> take 7 sha = ''sha256:''"
  by (auto simp: load_file_def split: file_lookup.splits source_format.splits option.splits)

lemma load_content_sha: "load_content E files row fmt = Inr (content, locator, sha) \<Longrightarrow> take 7 sha = ''sha256:''"
  by (auto simp: load_content_def require_eq_Inr rbind_eq_Inr sha_prefix Let_def split: option.splits dest: load_file_sha)

lemma load_source_D:
  assumes "load_source E files r sources = Inr sources'"
  shows "\<exists>d. sources' = sources @ [d] \<and> hashed d"
proof -
  obtain row where row: "snd r = JObj row" using assms by (cases "snd r") (simp_all add: load_source_def Let_def)
  obtain layer fmt where e: "enum_of truth_layers (get_default row ''truth_layer'' JNull) = Some layer"
      "enum_of source_formats (get_default row ''format'' (JStr ''STRUCTURED_JSON'')) = Some fmt"
    using assms by (auto simp: load_source_def row rbind_eq_Inr require_eq_Inr Let_def split: option.splits)
  obtain metadata where m: "get_default row ''metadata'' (JObj []) = JObj metadata"
    using assms by (cases "get_default row ''metadata'' (JObj [])") (auto simp: load_source_def row e rbind_eq_Inr require_eq_Inr Let_def)
  show ?thesis using assms
    by (auto simp: load_source_def row e m rbind_eq_Inr require_eq_Inr Let_def hashed_def dest: load_content_sha)
qed

lemma load_sources_D:
  "rfold (load_source E files) rs sources = Inr sources' \<Longrightarrow> list_all hashed sources \<Longrightarrow>
     list_all hashed sources' \<and> length sources' = length sources + length rs"
proof (induction rs arbitrary: sources)
  case (Cons r rs)
  obtain s where s: "load_source E files r sources = Inr s" "rfold (load_source E files) rs s = Inr sources'"
    using Cons.prems(1) by (auto simp: rbind_eq_Inr)
  obtain d where "s = sources @ [d]" "hashed d" using load_source_D [OF s(1)] by blast
  with Cons.IH [OF s(2)] Cons.prems(2) show ?case by simp
qed simp

lemma load_settings_D: "load_settings v = Inr (minimum, normative) \<Longrightarrow> unit_score minimum"
  unfolding load_settings_def minimum_confidence_def
  by (auto simp: rbind_eq_Inr require_eq_Inr unit_score_iff split: json.splits)

lemma required_string_D: "required_string field v = Inr s \<Longrightarrow> s \<noteq> []"
  by (auto simp: required_string_def require_eq_Inr split: json.splits)

lemma load_input_D:
  assumes "load_compiler_input E files raw = Inr i"
  shows "ci_sources i \<noteq> [] \<and> list_all hashed (ci_sources i) \<and> unit_score (ci_minimum i) \<and> ci_run i \<noteq> [] \<and> ci_raw i = raw"
proof -
  obtain m x xs sources minimum normative run institution version where
    "rfold (load_source E files) (List.enumerate 0 (x # xs)) [] = Inr sources"
    "load_settings (get_default m ''settings'' (JObj [])) = Inr (minimum, normative)"
    "required_string ''compiler_run_id'' (get_default m ''compiler_run_id'' JNull) = Inr run"
    "i = \<lparr>ci_run = run, ci_institution = institution, ci_version = version, ci_sources = sources,
       ci_minimum = minimum, ci_normative = normative, ci_raw = raw\<rparr>"
    using assms unfolding load_compiler_input_def
    by (auto simp: rbind_eq_Inr require_eq_Inr simp del: rfold.simps enumerate_simps split: json.splits list.splits)
  then show ?thesis
    using load_sources_D [of E files "List.enumerate 0 (x # xs)" "[]" sources] load_settings_D required_string_D by fastforce
qed

lemma extract_all_nonempty: "extract_all E sources = Inr ps \<Longrightarrow> ps \<noteq> []"
  by (auto simp: extract_all_def rbind_eq_Inr require_eq_Inr)

section \<open>Facts of a mechanism\<close>

lemma facts_mechanisms: "fx_mechanism ` set (fst (reconcile E req ps)) = pr_mechanism ` set ps"
proof -
  have "fx_mechanism f = fst (fact_key_of f)" for f by (simp add: fact_key_of_def)
  then have "fx_mechanism ` set (fst (reconcile E req ps)) = fst ` set (map fact_key_of (fst (reconcile E req ps)))"
    by (simp add: image_image)
  also have "\<dots> = fst ` set (map fact_key ps)" unfolding reconcile_facts by simp
  also have "\<dots> = pr_mechanism ` set ps" by (simp add: image_image fact_key_def)
  finally show ?thesis .
qed

lemma facts_number: "length (fst (reconcile E req ps)) \<le> length ps"
proof -
  have "length (fst (reconcile E req ps)) = length (sorted_set (map fact_key ps))"
    using reconcile_facts [of E req ps] by (metis length_map)
  also have "\<dots> \<le> length (map fact_key ps)" unfolding sorted_set_def length_sort by (rule length_remdups_leq)
  finally show ?thesis by simp
qed

lemma facts_scores: "f \<in> set (fst (reconcile E req ps)) \<Longrightarrow> unit_score (fx_confidence f)"
  by (auto simp: reconcile_def Let_def fact_confidence_unit)

lemma mine_nonempty: "m \<in> set (map fx_mechanism facts) \<Longrightarrow> mine facts m \<noteq> []"
  by (auto simp: mine_def filter_empty_conv)

lemma compile_facts_total:
  assumes "unit_score (ci_minimum i)" and "length ps < 2 ^ 53"
  shows "\<exists>r. compile_facts E i ps = Inr r"
proof -
  let ?facts = "fst (reconcile E (ci_normative i) ps)"
  have "\<exists>c. candidate_for E (ci_version i) ps (ci_minimum i) m (mine ?facts m) = Inr c"
    if m: "m \<in> set (sorted_set (map fx_mechanism ?facts))" for m
  proof (rule candidate_for_total)
    show "\<forall>f \<in> set (mine ?facts m). unit_score (fx_confidence f)" unfolding mine_def by (auto intro: facts_scores)
    show "mine ?facts m \<noteq> []" by (rule mine_nonempty) (use m in \<open>simp only: sorted_set_simps\<close>)
    have "length (mine ?facts m) \<le> length ?facts" unfolding mine_def by (rule length_filter_le)
    then show "length (mine ?facts m) < 2 ^ 53" using facts_number [of E "ci_normative i" ps] assms(2) by linarith
  qed (rule assms(1))
  then have "\<exists>cs. traverse (\<lambda>m. candidate_for E (ci_version i) ps (ci_minimum i) m (mine ?facts m))
      (sorted_set (map fx_mechanism ?facts)) = Inr cs"
    by (rule traverse_total)
  then obtain cs where "traverse (\<lambda>m. candidate_for E (ci_version i) ps (ci_minimum i) m (mine ?facts m))
      (sorted_set (map fx_mechanism ?facts)) = Inr cs" ..
  then show ?thesis unfolding compile_facts_def Let_def case_prod_unfold mine_def [symmetric] by (simp only: rbind_simps) blast
qed

section \<open>Qualification\<close>

lemma report_qualifies:
  assumes "report_of E i ps r" and "ci_sources i \<noteq> []" and "list_all hashed (ci_sources i)" and "ps \<noteq> []"
  shows "report_passed r"
proof -
  have "set (map (mi_id \<circ> cd_mechanism) (rp_candidates r)) = pr_mechanism ` set ps"
    using assms(1) facts_mechanisms [of E "ci_normative i" ps] by (simp add: report_of_def del: map_map)
  then have c: "rp_candidates r \<noteq> []" using assms(4) by auto
  have u: "\<forall>c \<in> set (rp_candidates r). \<not> mi_approved (cd_mechanism c) \<and> \<not> cd_binding c"
    using assms(1) by (auto simp: report_of_def candidate_of_def)
  have k: "\<forall>x \<in> set (rp_conflicts r). cx_id x \<in> set (concat (map cd_conflicts (rp_candidates r)))"
    using report_conflicts [OF assms(1)] by fastforce
  have q: "\<forall>c \<in> set (rp_candidates r). cd_failed c = [] \<or> cd_id c \<in> ri_candidate ` set (rp_queue r)"
    using assms(1) by (force simp: report_of_def review_item_for_def)
  have "rp_input r = i" "rp_primitives r = ps" using assms(1) by (simp_all add: report_of_def)
  with c u k q assms(2-4) show ?thesis
    unfolding report_passed_def report_checks_def by (simp only: list_all_iff hashed_def list.set ball_simps snd_conv) (simp add: hashed_def)
qed

lemma compile_report_D:
  assumes "compile_report E files raw = Inr r"
  shows "\<exists>i ps. load_compiler_input E files raw = Inr i \<and> extract_all E (ci_sources i) = Inr ps \<and> report_of E i ps r \<and> report_passed r"
proof -
  obtain i ps where i: "load_compiler_input E files raw = Inr i" "extract_all E (ci_sources i) = Inr ps" "compile_facts E i ps = Inr r"
    using assms by (auto simp: compile_report_def rbind_eq_Inr)
  with report_qualifies [OF compile_facts_D [OF i(3)]] load_input_D [OF i(1)] extract_all_nonempty [OF i(2)] compile_facts_D [OF i(3)]
  show ?thesis by blast
qed

text \<open>
  C30. Once a bundle is read and its statements are extracted (fewer than 2^53 of them), compilation
  returns a report, and the report qualifies. It has one candidate for each mechanism that the
  statements name and no other; none is approved or binding. Every conflict of the report is in the
  candidate of its mechanism, which fails CONFLICTS_REQUIRE_RESOLUTION and is queued for review.
\<close>

theorem compilation_always_reports:
  assumes "load_compiler_input E files raw = Inr i" and "extract_all E (ci_sources i) = Inr ps" and "length ps < 2 ^ 53"
  shows "\<exists>r. compile_report E files raw = Inr r \<and> report_passed r \<and>
    map (mi_id \<circ> cd_mechanism) (rp_candidates r) = sorted_set (map pr_mechanism ps) \<and>
    (\<forall>c \<in> set (rp_candidates r). \<not> mi_approved (cd_mechanism c) \<and> \<not> cd_binding c) \<and>
    (\<forall>x \<in> set (rp_conflicts r). \<exists>c \<in> set (rp_candidates r). mi_id (cd_mechanism c) = cx_mechanism x \<and>
       cx_id x \<in> set (cd_conflicts c) \<and> ''CONFLICTS_REQUIRE_RESOLUTION'' \<in> set (cd_failed c) \<and> review_item_for c \<in> set (rp_queue r))"
proof -
  note i = load_input_D [OF assms(1)]
  obtain r where r: "compile_facts E i ps = Inr r" using compile_facts_total [OF _ assms(3)] i by blast
  note o = compile_facts_D [OF r]
  have "sorted_set (map fx_mechanism (fst (reconcile E (ci_normative i) ps))) = sorted_set (map pr_mechanism ps)"
    unfolding sorted_set_eq_iff set_map by (rule facts_mechanisms)
  then have m: "map (mi_id \<circ> cd_mechanism) (rp_candidates r) = sorted_set (map pr_mechanism ps)" using o by (simp add: report_of_def)
  have u: "\<forall>c \<in> set (rp_candidates r). \<not> mi_approved (cd_mechanism c) \<and> \<not> cd_binding c"
    using o by (auto simp: report_of_def candidate_of_def)
  have q: "report_passed r" using report_qualifies [OF o] i extract_all_nonempty [OF assms(2)] by blast
  have c: "compile_report E files raw = Inr r" by (simp add: compile_report_def assms(1,2) r)
  show ?thesis by (intro exI [of _ r] conjI ballI c q m u [rule_format, THEN conjunct1] u [rule_format, THEN conjunct2] report_conflicts [OF o])
qed

section \<open>Registration\<close>

lemma report_fields_get:
  "k \<noteq> ''compiler_manifest'' \<Longrightarrow> dict_get (report_obj E r) k = map_of (report_fields r) k"
proof -
  have "distinct (map fst (report_fields r))" by (simp add: report_fields_def)
  then show "k \<noteq> ''compiler_manifest'' \<Longrightarrow> ?thesis" by (simp add: report_obj_def dict_of_get)
qed

lemma report_get:
  "get_default (report_obj E r) ''binding_authority'' v = JBool False"
  "get_default (report_obj E r) ''compiler_run_id'' v = JStr (ci_run (rp_input r))"
  "get_default (report_obj E r) ''institution_id'' v = JStr (ci_institution (rp_input r))"
  "get_default (report_obj E r) ''candidates'' v = JArr (map enc_compiled (rp_candidates r))"
  by (simp_all add: get_default_def report_fields_get report_fields_def)

lemma report_qualification:
  "\<exists>q. get_obj (report_obj E r) ''qualification'' = Inr q \<and> get_default q ''passed'' JNull = JBool (report_passed r)"
  by (simp add: get_obj_def get_default_def report_fields_get report_fields_def mk_obj_def dict_of_get)

lemma report_manifest:
  "\<exists>m. get_obj (report_obj E r) ''compiler_manifest'' = Inr m \<and>
     get_default m ''input_sha256'' JNull = JStr (sha256_json E (ci_raw (rp_input r))) \<and>
     get_default m ''compiled_payload_sha256'' JNull = JStr (sha256_json E (mk_obj (report_fields r)))"
  by (simp add: get_obj_def get_default_def report_obj_def mk_obj_def dict_of_get)

text \<open>A candidate's document and its row in the registry.\<close>

definition sound_candidate :: "compiled \<Rightarrow> bool" where
  "sound_candidate c \<longleftrightarrow> cd_id c \<noteq> [] \<and> \<not> mi_approved (cd_mechanism c) \<and> map fst (mi_fields (cd_mechanism c)) = map fst ir_fields"

text \<open>The row that registration enters for a candidate of a run.\<close>

definition entered :: "pyenv \<Rightarrow> string \<Rightarrow> string \<Rightarrow> compiled \<Rightarrow> cand_row" where
  "entered E run created c = \<lparr>cr_id = cd_id c, cr_run = run, cr_mechanism = mi_id (cd_mechanism c),
     cr_version = mi_version (cd_mechanism c), cr_risk = risk_value (mi_risk (cd_mechanism c)),
     cr_sha = sha256_json E (enc_compiled c), cr_payload = (case enc_compiled c of JObj m \<Rightarrow> m | _ \<Rightarrow> []),
     cr_status = ''REGISTERED'', cr_created = created\<rparr>"

text \<open>The audit rows that registration appends: one for the run and one for each candidate, chained.\<close>

definition audit_entry :: "string \<Rightarrow> string \<Rightarrow> json \<Rightarrow> string \<Rightarrow> raudit_row" where
  "audit_entry ty entity payload created = \<lparr>ra_type = ty, ra_entity = entity, ra_payload = payload, ra_prev = [],
     ra_hash = [], ra_created = created\<rparr>"

definition run_entry :: "pyenv \<Rightarrow> string \<Rightarrow> compiler_report \<Rightarrow> raudit_row" where
  "run_entry E created r = audit_entry ''COMPILER_RUN_REGISTERED'' (ci_run (rp_input r))
     (mk_obj [(''input_sha256'', JStr (sha256_json E (ci_raw (rp_input r)))),
        (''output_sha256'', JStr (sha256_json E (mk_obj (report_fields r))))]) created"

definition cand_entry :: "pyenv \<Rightarrow> string \<Rightarrow> string \<Rightarrow> compiled \<Rightarrow> raudit_row" where
  "cand_entry E run created c = audit_entry ''CANDIDATE_REGISTERED'' (cd_id c)
     (mk_obj [(''candidate_sha256'', JStr (sha256_json E (enc_compiled c))), (''run_id'', JStr run)]) created"

fun linked :: "pyenv \<Rightarrow> string \<Rightarrow> raudit_row list \<Rightarrow> raudit_row list" where
  "linked E p [] = []"
| "linked E p (e # es) = raudit_link E e p # linked E (ra_hash (raudit_link E e p)) es"

text \<open>The keys of the tables: new rows have keys of their own.\<close>

definition fresh_keys :: "('r \<Rightarrow> string) \<Rightarrow> 'r list \<Rightarrow> 'r list \<Rightarrow> bool" where
  "fresh_keys key old new \<longleftrightarrow> distinct (map key new) \<and> key ` set new \<inter> key ` set old = {}"

lemma fresh_keys_Cons:
  "fresh_keys key old (r # rs) \<longleftrightarrow> key r \<notin> key ` set old \<and> fresh_keys key (old @ [r]) rs"
  by (auto simp: fresh_keys_def)

lemma fresh_keys_Nil [simp]: "fresh_keys key old []"
  by (simp add: fresh_keys_def)

lemma candidate_get:
  assumes "sound_candidate c"
  shows "\<exists>m mech. enc_compiled c = JObj m \<and> get_default m ''candidate_id'' (JStr []) = JStr (cd_id c) \<and>
    get_default m ''binding_authority'' JNull = JBool False \<and> get_obj m ''mechanism'' = Inr mech \<and>
    get_default mech ''approved'' JNull = JBool False \<and> get_default mech ''mechanism_id'' (JStr []) = JStr (mi_id (cd_mechanism c)) \<and>
    get_default mech ''version'' (JStr []) = JStr (mi_version (cd_mechanism c)) \<and>
    get_default mech ''risk_class'' (JStr ''UNCLASSIFIED'') = JStr (risk_value (mi_risk (cd_mechanism c)))"
proof -
  let ?M = "cd_mechanism c"
  let ?ps = "[(''mechanism_id'', JStr (mi_id ?M)), (''version'', JStr (mi_version ?M))] @ map (\<lambda>p. (fst p, jstrs (snd p))) (mi_fields ?M)
      @ [(''source_references'', JArr (map enc_ref (mi_refs ?M))), (''risk_class'', JStr (risk_value (mi_risk ?M))),
         (''approved'', JBool (mi_approved ?M)), (''metadata'', JObj (mi_metadata ?M))]"
  have names: "map fst (mi_fields ?M) = map fst ir_fields" and u: "\<not> mi_approved ?M" using assms by (simp_all add: sound_candidate_def)
  have keys: "map fst ?ps = [''mechanism_id'', ''version''] @ map fst ir_fields @ [''source_references'', ''risk_class'', ''approved'', ''metadata'']"
    using names by (simp add: comp_def)
  have d: "distinct (map fst ?ps)" unfolding keys by (simp add: ir_fields_def)
  have members: "dict_get (dict_of ?ps) k = Some v" if "(k, v) \<in> set ?ps" for k v
    unfolding dict_of_get [OF d] using d that by (rule map_of_is_SomeI)
  have "dict_get (dict_of ?ps) ''approved'' = Some (JBool (mi_approved ?M))" "dict_get (dict_of ?ps) ''mechanism_id'' = Some (JStr (mi_id ?M))"
    "dict_get (dict_of ?ps) ''version'' = Some (JStr (mi_version ?M))"
    "dict_get (dict_of ?ps) ''risk_class'' = Some (JStr (risk_value (mi_risk ?M)))"
    by (rule members, simp)+
  then have "get_default (dict_of ?ps) ''approved'' JNull = JBool False" "get_default (dict_of ?ps) ''mechanism_id'' (JStr []) = JStr (mi_id ?M)"
    "get_default (dict_of ?ps) ''version'' (JStr []) = JStr (mi_version ?M)"
    "get_default (dict_of ?ps) ''risk_class'' (JStr ''UNCLASSIFIED'') = JStr (risk_value (mi_risk ?M))"
    unfolding get_default_def using u by (simp_all del: append.simps)
  moreover have "enc_mechanism ?M = JObj (dict_of ?ps)" by (simp only: enc_mechanism_def mk_obj_def)
  ultimately show ?thesis
    unfolding enc_compiled_def mk_obj_def by (simp add: get_obj_def get_default_def dict_of_get)
qed

lemma list_ex_key: "list_ex (\<lambda>x. key x = v) xs \<longleftrightarrow> v \<in> key ` set xs"
  by (induction xs) auto

lemma append_audit_exact: "append_reg_audit E ty entity payload created db =
    (let r = raudit_link E (audit_entry ty entity payload created) (last_hash ra_hash ''GENESIS'' (raudit db)) in
     if ra_hash r \<in> ra_hash ` set (raudit db) then Inl RegIntegrity else Inr (db\<lparr>raudit := raudit db @ [r]\<rparr>))"
  by (simp add: append_reg_audit_def audit_entry_def Let_def require_def list_ex_key)

lemma enlist_candidate:
  assumes "sound_candidate c"
  shows "register_candidate E run created (enc_compiled c) (db, ids) =
    (let r = raudit_link E (cand_entry E run created c) (last_hash ra_hash ''GENESIS'' (raudit db)) in
     if cd_id c \<in> cr_id ` set (cands db) \<or> ra_hash r \<in> ra_hash ` set (raudit db) then Inl RegIntegrity
     else Inr (db\<lparr>cands := cands db @ [entered E run created c], raudit := raudit db @ [r]\<rparr>, ids @ [cd_id c]))"
proof -
  obtain m mech where m: "enc_compiled c = JObj m" "get_default m ''candidate_id'' (JStr []) = JStr (cd_id c)"
    "get_default m ''binding_authority'' JNull = JBool False" "get_obj m ''mechanism'' = Inr mech"
    "get_default mech ''approved'' JNull = JBool False" "get_default mech ''mechanism_id'' (JStr []) = JStr (mi_id (cd_mechanism c))"
    "get_default mech ''version'' (JStr []) = JStr (mi_version (cd_mechanism c))"
    "get_default mech ''risk_class'' (JStr ''UNCLASSIFIED'') = JStr (risk_value (mi_risk (cd_mechanism c)))"
    using candidate_get [OF assms(1)] by blast
  have "cd_id c \<noteq> []" using assms(1) by (simp add: sound_candidate_def)
  moreover have "find_cand db (cd_id c) = None \<longleftrightarrow> cd_id c \<notin> cr_id ` set (cands db)"
    unfolding find_cand_def find_None_iff' by (metis image_iff)
  ultimately show ?thesis unfolding m(1) register_candidate_def append_audit_exact
    by (simp add: m py_str_def Let_def require_def entered_def cand_entry_def)
qed

text \<open>The candidates of a report are entered all together or not at all, exactly on the keys.\<close>

lemma enlist_candidates:
  "list_all sound_candidate cs \<Longrightarrow> rfold (register_candidate E run created) (map enc_compiled cs) (db, ids) =
     (let rows = map (entered E run created) cs;
          log = linked E (last_hash ra_hash ''GENESIS'' (raudit db)) (map (cand_entry E run created) cs) in
      if fresh_keys cr_id (cands db) rows \<and> fresh_keys ra_hash (raudit db) log
      then Inr (db\<lparr>cands := cands db @ rows, raudit := raudit db @ log\<rparr>, ids @ map cd_id cs) else Inl RegIntegrity)"
proof (induction cs arbitrary: db ids)
  case (Cons c cs)
  let ?r = "raudit_link E (cand_entry E run created c) (last_hash ra_hash ''GENESIS'' (raudit db))"
  have id: "cr_id (entered E run created c) = cd_id c" by (simp add: entered_def)
  have s: "sound_candidate c" "list_all sound_candidate cs" using Cons.prems by simp_all
  show ?case
  proof (cases "cd_id c \<in> cr_id ` set (cands db) \<or> ra_hash ?r \<in> ra_hash ` set (raudit db)")
    case True
    then show ?thesis by (auto simp: enlist_candidate [OF s(1)] Let_def fresh_keys_Cons id)
  next
    case False
    then show ?thesis
      using Cons.IH [OF s(2), of "db\<lparr>cands := cands db @ [entered E run created c], raudit := raudit db @ [?r]\<rparr>" "ids @ [cd_id c]"]
      by (simp add: enlist_candidate [OF s(1)] Let_def fresh_keys_Cons id)
  qed
qed (simp add: Let_def)

lemma register_report:
  assumes "report_passed r" and "ci_run (rp_input r) \<noteq> []" and "\<forall>x \<in> set (runs db). rr_id x \<noteq> ci_run (rp_input r)"
  shows "\<exists>row. rr_id row = ci_run (rp_input r) \<and> rr_payload row = report_obj E r \<and>
    register_compiler_run E now (report_obj E r) ts db =
      rbind (append_reg_audit E ''COMPILER_RUN_REGISTERED'' (ci_run (rp_input r)) (ra_payload (run_entry E (or_now ts now) r))
          (or_now ts now) (db\<lparr>runs := runs db @ [row]\<rparr>))
        (\<lambda>d. rfold (register_candidate E (ci_run (rp_input r)) (or_now ts now)) (map enc_compiled (rp_candidates r)) (d, []))"
proof -
  have new: "List.find (\<lambda>x. rr_id x = ci_run (rp_input r)) (runs db) = None" using assms(3) by (simp add: find_None_iff')
  have "rp_candidates r \<noteq> []" using assms(1) by (simp add: report_passed_def report_checks_def)
  then obtain c cs where cs: "map enc_compiled (rp_candidates r) = c # cs" by (cases "rp_candidates r") simp_all
  obtain q where q: "get_obj (report_obj E r) ''qualification'' = Inr q" "get_default q ''passed'' JNull = JBool True"
    using report_qualification [of E r] assms(1) by auto
  obtain m where m: "get_obj (report_obj E r) ''compiler_manifest'' = Inr m"
    "get_default m ''input_sha256'' JNull = JStr (sha256_json E (ci_raw (rp_input r)))"
    "get_default m ''compiled_payload_sha256'' JNull = JStr (sha256_json E (mk_obj (report_fields r)))"
    using report_manifest [of E r] by blast
  show ?thesis unfolding register_compiler_run_def
    by (simp add: report_get q m cs assms(2) new truthy_def py_str_def Let_def run_entry_def audit_entry_def del: rfold.simps)
      (intro exI conjI, rule_tac [3] refl, simp_all)
qed

text \<open>
  C31. The registry takes in every report that the compiler writes, under a run it has not seen,
  exactly when the keys of its tables allow it: the report's candidates have identities of their
  own that no registered candidate has, and the audit rows to be appended have hashes of their own.
  Then exactly the report's candidates are entered, in order, each with the mechanism, version and
  risk of the compiled one, its document as payload and the status REGISTERED, and the run and one
  audit row for the run and for each candidate are added. Otherwise the transaction is undone with
  an integrity error; in particular, a second run over the same sources, whose candidates have the
  identities of the first run's, is not taken in.
\<close>

theorem compiled_report_registers:
  assumes "compile_institution E files raw = Inr report" and "compile_report E files raw = Inr r"
    and "\<forall>x \<in> set (runs db). rr_id x \<noteq> ci_run (rp_input r)"
    and "rows = map (entered E (ci_run (rp_input r)) (or_now ts now)) (rp_candidates r)"
    and "audits = linked E (last_hash ra_hash ''GENESIS'' (raudit db))
      (run_entry E (or_now ts now) r # map (cand_entry E (ci_run (rp_input r)) (or_now ts now)) (rp_candidates r))"
  shows "if fresh_keys cr_id (cands db) rows \<and> fresh_keys ra_hash (raudit db) audits
    then \<exists>row. rr_id row = ci_run (rp_input r) \<and> rr_payload row = report \<and>
      register_compiler_run E now report ts db =
        Inr (db\<lparr>runs := runs db @ [row], cands := cands db @ rows, raudit := raudit db @ audits\<rparr>, map cd_id (rp_candidates r))
    else register_compiler_run E now report ts db = Inl RegIntegrity"
proof -
  have report: "report = report_obj E r" using assms(1,2) by (simp add: compile_institution_def)
  obtain i ps where i: "load_compiler_input E files raw = Inr i" "report_of E i ps r" "report_passed r"
    using compile_report_D [OF assms(2)] by blast
  have run: "ci_run (rp_input r) \<noteq> []" using load_input_D [OF i(1)] i(2) by (simp add: report_of_def)
  have sound: "list_all sound_candidate (rp_candidates r)"
    using i(2) by (auto simp: report_of_def candidate_of_def sound_candidate_def list_all_iff)
  let ?run = "ci_run (rp_input r)" and ?c = "or_now ts now"
  let ?e = "raudit_link E (run_entry E ?c r) (last_hash ra_hash ''GENESIS'' (raudit db))"
  obtain row where row: "rr_id row = ?run" "rr_payload row = report" and g: "register_compiler_run E now report ts db =
      rbind (append_reg_audit E ''COMPILER_RUN_REGISTERED'' ?run (ra_payload (run_entry E ?c r)) ?c (db\<lparr>runs := runs db @ [row]\<rparr>))
        (\<lambda>d. rfold (register_candidate E ?run ?c) (map enc_compiled (rp_candidates r)) (d, []))"
    using register_report [OF i(3) run assms(3), of E now ts] report by blast
  have e: "audit_entry ''COMPILER_RUN_REGISTERED'' ?run (ra_payload (run_entry E ?c r)) ?c = run_entry E ?c r"
    by (simp add: run_entry_def audit_entry_def)
  show ?thesis
  proof (cases "ra_hash ?e \<in> ra_hash ` set (raudit db)")
    case True
    then show ?thesis unfolding g assms(5) by (simp add: append_audit_exact e fresh_keys_Cons Let_def)
  next
    case False
    then have "register_compiler_run E now report ts db = rfold (register_candidate E ?run ?c) (map enc_compiled (rp_candidates r))
        (db\<lparr>runs := runs db @ [row], raudit := raudit db @ [?e]\<rparr>, [])"
      unfolding g by (simp add: append_audit_exact e Let_def)
    then show ?thesis
      using False row unfolding assms(4,5) by (auto simp: enlist_candidates [OF sound] fresh_keys_Cons Let_def)
  qed
qed

end
