(* ===== verification/CompileExamples.thy ===== *)
theory CompileExamples
  imports CompileReport MemoryExamples
begin

text \<open>
  A bundle of two sources that disagree on one fact: the policy says three, the observed practice five.
\<close>

definition cx_statement :: "string \<Rightarrow> string \<Rightarrow> json \<Rightarrow> json" where
  "cx_statement ty s v = mk_obj [(''mechanism_id'', JStr ''m''), (''primitive_type'', JStr ty), (''subject'', JStr s),
     (''predicate'', JStr ''limit''), (''value'', v)]"

definition cx_source :: "string \<Rightarrow> string \<Rightarrow> json list \<Rightarrow> json" where
  "cx_source i layer statements = mk_obj [(''source_id'', JStr i), (''version'', JStr ''1''), (''truth_layer'', JStr layer),
     (''content'', JArr statements)]"

definition cx_raw :: json where
  "cx_raw = mk_obj
     [(''schema_version'', JStr ''edon-institution-compiler-input.v1''), (''compiler_run_id'', JStr ''run''),
      (''institution_id'', JStr ''i''), (''institution_version'', JStr ''1''),
      (''sources'', JArr
         [cx_source ''p'' ''NORMATIVE'' [cx_statement ''AUTHORITY'' ''Signing'' (JInt 3), cx_statement ''ROLE'' ''clerk'' (JInt 1)],
          cx_source ''q'' ''BEHAVIORAL'' [cx_statement ''AUTHORITY'' ''signing'' (JInt 5)]])]"

definition cx_document :: "pyenv \<Rightarrow> string \<Rightarrow> truth_layer \<Rightarrow> json list \<Rightarrow> source_document" where
  "cx_document E i layer statements = \<lparr>sd_id = i, sd_version = ''1'', sd_layer = layer, sd_kind = ''UNSPECIFIED'',
     sd_format = STRUCTURED_JSON, sd_content = JArr statements,
     sd_ref = \<lparr>sr_id = i, sr_version = ''1'', sr_sha = sha256_json E (JArr statements), sr_locator = ''inline''\<rparr>, sd_metadata = []\<rparr>"

definition cx_policy :: "pyenv \<Rightarrow> source_document" where
  "cx_policy E = cx_document E ''p'' NORMATIVE [cx_statement ''AUTHORITY'' ''Signing'' (JInt 3), cx_statement ''ROLE'' ''clerk'' (JInt 1)]"

definition cx_practice :: "pyenv \<Rightarrow> source_document" where
  "cx_practice E = cx_document E ''q'' BEHAVIORAL [cx_statement ''AUTHORITY'' ''signing'' (JInt 5)]"

definition cx_input :: "pyenv \<Rightarrow> compiler_input" where
  "cx_input E = \<lparr>ci_run = ''run'', ci_institution = ''i'', ci_version = ''1'', ci_sources = [cx_policy E, cx_practice E],
     ci_minimum = rnd (9 / 10), ci_normative = True, ci_raw = cx_raw\<rparr>"

lemma cx_statement_obj: "cx_statement ty s v = JObj [(''mechanism_id'', JStr ''m''), (''predicate'', JStr ''limit''),
     (''primitive_type'', JStr ty), (''subject'', JStr s), (''value'', v)]"
  by (simp add: cx_statement_def mk_obj_def dict_of_def)

lemma cx_source_obj: "cx_source i layer statements = JObj [(''content'', JArr statements), (''source_id'', JStr i),
     (''truth_layer'', JStr layer), (''version'', JStr ''1'')]"
  by (simp add: cx_source_def mk_obj_def dict_of_def)

lemma cx_strip: "py_strip ''p'' = ''p''" "py_strip ''q'' = ''q''" "py_strip ''1'' = ''1''" "py_strip ''UNSPECIFIED'' = ''UNSPECIFIED''"
    "py_strip ''run'' = ''run''" "py_strip ''i'' = ''i''" "py_strip ''m'' = ''m''" "py_strip ''limit'' = ''limit''"
    "py_strip ''Signing'' = ''Signing''" "py_strip ''signing'' = ''signing''" "py_strip ''clerk'' = ''clerk''"
  by code_simp+

lemma cx_loads:
  assumes "\<not> list_ex (\<lambda>d. sd_id d = i \<and> sd_version d = ''1'') sources" and "map_of truth_layers layer_name = Some layer"
    and "py_strip i = i" and "i \<noteq> []"
  shows "load_source E files (n, cx_source i layer_name statements) sources = Inr (sources @ [cx_document E i layer statements])"
  using assms by (simp add: load_source_def cx_source_obj cx_document_def get_default_def required_string_def enum_of_def source_formats_def
      load_content_def py_str_def cx_strip Let_def)

lemma cx_minimum: "minimum_confidence (JFloat (rnd (9 / 10))) = Inr (rnd (9 / 10))"
  using rnd_unit [of "9 / 10"] by (simp add: minimum_confidence_def unit_score_iff)

lemma cx_sources: "rfold (load_source E files) (List.enumerate 0
    [cx_source ''p'' ''NORMATIVE'' [cx_statement ''AUTHORITY'' ''Signing'' (JInt 3), cx_statement ''ROLE'' ''clerk'' (JInt 1)],
     cx_source ''q'' ''BEHAVIORAL'' [cx_statement ''AUTHORITY'' ''signing'' (JInt 5)]]) [] = Inr [cx_policy E, cx_practice E]"
  using cx_loads [of "''p''" "[]" "''NORMATIVE''" NORMATIVE E files 0]
    cx_loads [of "''q''" "[cx_policy E]" "''BEHAVIORAL''" BEHAVIORAL E files 1]
  by (simp add: truth_layers_def cx_strip cx_policy_def cx_practice_def cx_document_def)

lemma cx_loaded: "load_compiler_input E files cx_raw = Inr (cx_input E)"
  unfolding load_compiler_input_def cx_raw_def mk_obj_def dict_of_def
  by (simp add: get_default_def cx_sources [simplified] load_settings_def cx_minimum required_string_def cx_strip,
      simp add: cx_input_def cx_raw_def mk_obj_def dict_of_def)

definition cx_states :: "source_document \<Rightarrow> primitive_type \<Rightarrow> string \<Rightarrow> json \<Rightarrow> primitive \<Rightarrow> bool" where
  "cx_states d ty s v p \<longleftrightarrow> pr_mechanism p = ''m'' \<and> pr_type p = ty \<and> pr_subject p = s \<and> pr_predicate p = ''limit'' \<and> pr_value p = v \<and>
     pr_layer p = sd_layer d"

lemma cx_row:
  assumes "cx_statement ty_name s v = JObj row" and "py_strip s = s" and "s \<noteq> []" and "map_of primitive_types ty_name = Some ty"
  shows "\<exists>p. primitive_from_row E d row n location = Inr p \<and> cx_states d ty s v p"
proof -
  have row: "row = [(''mechanism_id'', JStr ''m''), (''predicate'', JStr ''limit''), (''primitive_type'', JStr ty_name), (''subject'', JStr s), (''value'', v)]"
    using assms(1) by (simp add: cx_statement_obj)
  have missing: "filter (\<lambda>f. dict_get row f = None) statement_fields = []" by (simp add: row statement_fields_def)
  have get: "get_default row ''primitive_type'' JNull = JStr ty_name" "get_default row ''risk_class'' (JStr ''UNCLASSIFIED'') = JStr ''UNCLASSIFIED''"
    "get_default row ''confidence'' (JFloat (Fin 1)) = JFloat (Fin 1)" "get_default row ''mechanism_id'' JNull = JStr ''m''"
    "get_default row ''subject'' JNull = JStr s" "get_default row ''predicate'' JNull = JStr ''limit''" "get_default row ''value'' JNull = v"
    by (simp_all add: row get_default_def)
  have risk: "map_of risk_classes ''UNCLASSIFIED'' = Some UNCLASSIFIED" by (simp add: risk_classes_def)
  show ?thesis unfolding primitive_from_row_def Let_def missing get
    by (simp add: py_str_def assms(2-4) risk cx_strip float_of_json_def flt_le_def cx_states_def)
qed

lemma cx_extracts: "\<exists>p1 p2 p3. extract_all E (ci_sources (cx_input E)) = Inr [p1, p2, p3] \<and> cx_states (cx_policy E) AUTHORITY ''Signing'' (JInt 3) p1 \<and>
    cx_states (cx_policy E) ROLE ''clerk'' (JInt 1) p2 \<and> cx_states (cx_practice E) AUTHORITY ''signing'' (JInt 5) p3"
proof -
  have ty: "map_of primitive_types ''AUTHORITY'' = Some AUTHORITY" "map_of primitive_types ''ROLE'' = Some ROLE"
    by (simp_all add: primitive_types_def)
  obtain p1 where p1: "primitive_from_row E (cx_policy E) (case cx_statement ''AUTHORITY'' ''Signing'' (JInt 3) of JObj m \<Rightarrow> m) 0
      (''statements/'' @ int_text 0) = Inr p1" "cx_states (cx_policy E) AUTHORITY ''Signing'' (JInt 3) p1"
    using cx_row [OF _ _ _ ty(1), of "''Signing''" "JInt 3" _ E "cx_policy E" 0] by (auto simp: cx_statement_obj cx_strip)
  obtain p2 where p2: "primitive_from_row E (cx_policy E) (case cx_statement ''ROLE'' ''clerk'' (JInt 1) of JObj m \<Rightarrow> m) 1
      (''statements/'' @ int_text 1) = Inr p2" "cx_states (cx_policy E) ROLE ''clerk'' (JInt 1) p2"
    using cx_row [OF _ _ _ ty(2), of "''clerk''" "JInt 1" _ E "cx_policy E" 1] by (auto simp: cx_statement_obj cx_strip)
  obtain p3 where p3: "primitive_from_row E (cx_practice E) (case cx_statement ''AUTHORITY'' ''signing'' (JInt 5) of JObj m \<Rightarrow> m) 0
      (''statements/'' @ int_text 0) = Inr p3" "cx_states (cx_practice E) AUTHORITY ''signing'' (JInt 5) p3"
    using cx_row [OF _ _ _ ty(1), of "''signing''" "JInt 5" _ E "cx_practice E" 0] by (auto simp: cx_statement_obj cx_strip)
  have d: "sd_format (cx_policy E) = STRUCTURED_JSON" "sd_format (cx_practice E) = STRUCTURED_JSON"
    "sd_content (cx_policy E) = JArr [cx_statement ''AUTHORITY'' ''Signing'' (JInt 3), cx_statement ''ROLE'' ''clerk'' (JInt 1)]"
    "sd_content (cx_practice E) = JArr [cx_statement ''AUTHORITY'' ''signing'' (JInt 5)]"
    by (simp_all add: cx_policy_def cx_practice_def cx_document_def)
  have "extract_source E (cx_policy E) = Inr [p1, p2]" "extract_source E (cx_practice E) = Inr [p3]"
    using p1(1) p2(1) p3(1) by (simp_all add: extract_source_def structured_rows_def d cx_statement_obj)
  then have "extract_all E (ci_sources (cx_input E)) = Inr [p1, p2, p3]" by (simp add: extract_all_def cx_input_def)
  with p1(2) p2(2) p3(2) show ?thesis by blast
qed

text \<open>The two statements about signing have one key and differ.\<close>

lemma cx_keys: "type_value AUTHORITY = ''AUTHORITY''" "py_casefold ''Signing'' = ''signing''" "py_casefold ''signing'' = ''signing''"
    "py_casefold ''limit'' = ''limit''"
  by code_simp+

lemma cx_conflict:
  assumes "cx_states (cx_policy E) AUTHORITY ''Signing'' (JInt 3) p" and "cx_states (cx_practice E) AUTHORITY ''signing'' (JInt 5) q"
    and "p \<in> set ps" and "q \<in> set ps"
  shows "conflicting E req ps (''m'', ''AUTHORITY'', ''signing'', ''limit'') CROSS_LAYER_MISMATCH"
proof -
  have k: "fact_key p = (''m'', ''AUTHORITY'', ''signing'', ''limit'')" "fact_key q = (''m'', ''AUTHORITY'', ''signing'', ''limit'')"
    using assms(1,2) by (simp_all add: cx_states_def fact_key_def cx_keys cx_strip)
  have "text_of E p = ''3''" "text_of E q = ''5''"
    using assms(1,2) by (simp_all add: cx_states_def int_text_def nat_digits.simps digit_def, code_simp+)
  then have "text_of E p \<noteq> text_of E q" by simp
  with assms(3,4) k show ?thesis by (auto simp: conflicting_def differ_def statements_of_def)
qed

theorem reconcile_loses_no_disagreement_witness:
  "\<exists>ps. extract_all demo_env (ci_sources (cx_input demo_env)) = Inr ps \<and>
     reported (snd (reconcile demo_env True ps)) CROSS_LAYER_MISMATCH (''m'', ''AUTHORITY'', ''signing'', ''limit'')"
proof -
  obtain p1 p2 p3 where p: "extract_all demo_env (ci_sources (cx_input demo_env)) = Inr [p1, p2, p3]"
    "cx_states (cx_policy demo_env) AUTHORITY ''Signing'' (JInt 3) p1" "cx_states (cx_practice demo_env) AUTHORITY ''signing'' (JInt 5) p3"
    using cx_extracts [of demo_env] by blast
  have "fact_key p1 = (''m'', ''AUTHORITY'', ''signing'', ''limit'')" using p(2) by (simp add: cx_states_def fact_key_def cx_keys cx_strip)
  then have "(''m'', ''AUTHORITY'', ''signing'', ''limit'') \<in> fact_key ` set [p1, p2, p3]" by force
  moreover have "conflicting demo_env True [p1, p2, p3] (''m'', ''AUTHORITY'', ''signing'', ''limit'') CROSS_LAYER_MISMATCH"
    using p(2,3) by (rule cx_conflict) simp_all
  ultimately have "reported (snd (reconcile demo_env True [p1, p2, p3])) CROSS_LAYER_MISMATCH (''m'', ''AUTHORITY'', ''signing'', ''limit'')"
    using reconcile_loses_no_disagreement [OF prod.collapse [symmetric], of demo_env True "[p1, p2, p3]"] by blast
  with p(1) show ?thesis by blast
qed

theorem compilation_always_reports_witness:
  "\<exists>r. compile_report demo_env (\<lambda>_. Missing) cx_raw = Inr r \<and> report_passed r \<and> map (mi_id \<circ> cd_mechanism) (rp_candidates r) = [''m'']"
proof -
  obtain p1 p2 p3 where p: "extract_all demo_env (ci_sources (cx_input demo_env)) = Inr [p1, p2, p3]"
    "pr_mechanism p1 = ''m''" "pr_mechanism p2 = ''m''" "pr_mechanism p3 = ''m''"
    using cx_extracts [of demo_env] unfolding cx_states_def by blast
  then have "sorted_set (map pr_mechanism [p1, p2, p3]) = [''m'']" by (simp add: sorted_set_def)
  with compilation_always_reports [OF cx_loaded p(1), of "\<lambda>_. Missing"] show ?thesis by force
qed

section \<open>Registration\<close>

text \<open>A library whose digest of a text is its colons, so that a digest of a digest is longer.\<close>

definition cx_env :: pyenv where
  "cx_env = demo_env\<lparr>sha256_hex := (\<lambda>s. filter (\<lambda>c. c = CHR '':'') s)\<rparr>"

lemma canonical_cx_env: "canonical_json cx_env j = canonical_json demo_env j"
proof (induction j)
  case (JObj ms)
  then have "canonical_json cx_env (snd p) = canonical_json demo_env (snd p)" if "p \<in> set ms" for p
    using that by (cases p) (auto simp: snds.simps)
  then show ?case by (simp cong: map_cong)
qed (simp_all add: cx_env_def cong: map_cong flt.case_cong)

lemma cx_env_colons: "colons (sha256_json cx_env v) = Suc (json_colons v)"
proof -
  have "sha256_json cx_env v = ''sha256:'' @ filter (\<lambda>c. c = CHR '':'') (canonical_json demo_env v)"
    unfolding sha256_json_def sha256_text_def canonical_cx_env by (simp add: cx_env_def)
  moreover have "colons (filter (\<lambda>c. c = CHR '':'') s) = colons s" for s by (simp add: colons_def)
  ultimately show ?thesis by (simp add: colons_canonical)
qed

lemma cx_env_link: "colons (ra_hash (raudit_link cx_env r p)) > colons p"
  by (simp add: raudit_link_def Let_def raudit_sha_def cx_env_colons mk_obj_def dict_of_def)

lemma cx_env_new: "ra_hash x \<noteq> ra_hash (raudit_link cx_env r (ra_hash x))"
  using cx_env_link [of "ra_hash x" r] by auto

text \<open>So every hash of a chain is new in it.\<close>

lemma cx_linked: "x \<in> set (linked cx_env p es) \<Longrightarrow> colons p < colons (ra_hash x)"
  by (induction es arbitrary: p) (auto intro: cx_env_link less_trans [OF cx_env_link])

lemma cx_fresh: "fresh_keys ra_hash [] (linked cx_env p es)"
proof (induction es arbitrary: p)
  case (Cons e es)
  have "ra_hash (raudit_link cx_env e p) \<notin> ra_hash ` set (linked cx_env (ra_hash (raudit_link cx_env e p)) es)"
    using cx_linked by fastforce
  with Cons.IH show ?case by (simp add: fresh_keys_def)
qed (simp add: fresh_keys_def)

theorem compiled_report_registers_witness:
  "\<exists>report r db ids. compile_institution cx_env (\<lambda>_. Missing) cx_raw = Inr report \<and>
     compile_report cx_env (\<lambda>_. Missing) cx_raw = Inr r \<and> register_compiler_run cx_env t00 report None init_rdb = Inr (db, ids) \<and>
     length ids = 1 \<and> length (raudit db) = 2 \<and> map cr_mechanism (cands db) = [''m''] \<and> map cr_status (cands db) = [''REGISTERED'']"
proof -
  obtain p1 p2 p3 where p: "extract_all cx_env (ci_sources (cx_input cx_env)) = Inr [p1, p2, p3]"
    "pr_mechanism p1 = ''m''" "pr_mechanism p2 = ''m''" "pr_mechanism p3 = ''m''"
    using cx_extracts [of cx_env] unfolding cx_states_def by blast
  then have m: "sorted_set (map pr_mechanism [p1, p2, p3]) = [''m'']" by (simp add: sorted_set_def)
  obtain r where r: "compile_report cx_env (\<lambda>_. Missing) cx_raw = Inr r" using compile_facts_total [of "cx_input cx_env" "[p1, p2, p3]" cx_env]
      load_input_D [OF cx_loaded, of cx_env]
    by (auto simp: compile_report_def cx_loaded p(1))
  have o: "report_of cx_env (cx_input cx_env) [p1, p2, p3] r" "report_passed r"
    using compile_report_D [OF r] cx_loaded p(1) by auto
  have "sorted_set (map fx_mechanism (fst (reconcile cx_env (ci_normative (cx_input cx_env)) [p1, p2, p3]))) = [''m'']"
    unfolding m [symmetric] sorted_set_eq_iff set_map by (rule facts_mechanisms)
  then have "map (mi_id \<circ> cd_mechanism) (rp_candidates r) = [''m'']" using o(1) by (simp add: report_of_def)
  then obtain c where c: "rp_candidates r = [c]" "mi_id (cd_mechanism c) = ''m''" by auto
  have run: "ci_run (rp_input r) = ''run''" using o(1) by (simp add: report_of_def cx_input_def)
  let ?report = "report_obj cx_env r"
  have i: "compile_institution cx_env (\<lambda>_. Missing) cx_raw = Inr ?report" by (simp add: compile_institution_def r)
  have n: "\<forall>x \<in> set (runs init_rdb). rr_id x \<noteq> ci_run (rp_input r)" by (simp add: init_rdb_def)
  have k: "fresh_keys cr_id (cands init_rdb) (map (entered cx_env (ci_run (rp_input r)) (or_now None t00)) (rp_candidates r))"
    by (simp add: c(1) fresh_keys_def init_rdb_def)
  have f: "fresh_keys ra_hash (raudit init_rdb) (linked cx_env p es)" for p es
    using cx_fresh by (simp add: init_rdb_def)
  obtain row where "register_compiler_run cx_env t00 ?report None init_rdb = Inr (init_rdb\<lparr>runs := runs init_rdb @ [row],
      cands := cands init_rdb @ map (entered cx_env (ci_run (rp_input r)) (or_now None t00)) (rp_candidates r),
      raudit := raudit init_rdb @ linked cx_env (last_hash ra_hash ''GENESIS'' (raudit init_rdb)) (run_entry cx_env (or_now None t00) r
        # map (cand_entry cx_env (ci_run (rp_input r)) (or_now None t00)) (rp_candidates r))\<rparr>, map cd_id (rp_candidates r))"
    using compiled_report_registers [OF i r n refl refl, of None t00] k f by (simp only: simp_thms if_True) blast
  then obtain db where db: "register_compiler_run cx_env t00 ?report None init_rdb = Inr (db, map cd_id (rp_candidates r))"
      "cands db = map (entered cx_env (ci_run (rp_input r)) (or_now None t00)) (rp_candidates r)" "length (raudit db) = 2"
    by (simp add: c(1) init_rdb_def)
  then have "map cr_mechanism (cands db) = [''m'']" "map cr_status (cands db) = [''REGISTERED'']"
    by (simp_all add: c entered_def)
  with i r db(1,3) show ?thesis by (auto simp: c(1))
qed

end
