(* ===== verification/Shadow.thy ===== *)
theory Shadow
  imports Reconcile
begin

text \<open>
  The comparison of decisions (\<open>src/src/edon/shadow/harness.py\<close>) and the discovery of gaps from
  repeated disagreement (\<open>src/src/edon/gaps/discovery.py\<close>), which reads the report of the comparison.
\<close>

text \<open>A \<open>ValueError\<close> with its message, or another error of the language on a malformed record.\<close>

datatype shadow_error = ShadowError string | ShadowMalformed

text \<open>\<open>list(v)\<close>, with the error for a value that is no collection.\<close>

definition iter_json :: "'e \<Rightarrow> json \<Rightarrow> 'e + json list" where
  "iter_json e v = (case v of
     JArr xs \<Rightarrow> Inr xs
   | JStr s \<Rightarrow> Inr (map (\<lambda>c. JStr [c]) s)
   | JObj m \<Rightarrow> Inr (map (\<lambda>p. JStr (fst p)) m)
   | _ \<Rightarrow> Inl e)"

section \<open>The comparison\<close>

definition valid_decisions :: "string list" where
  "valid_decisions = [''ALLOW'', ''DENY'', ''ABSTAIN'', ''CONTESTED'', ''INVALID'']"

definition decisions_of :: "pyenv \<Rightarrow> obj \<Rightarrow> (string \<times> string) list" where
  "decisions_of E m = map (\<lambda>(who, key). (who, py_str E (get_default m key JNull)))
     [(''human'', ''human_decision''), (''existing_system'', ''system_decision''), (''cerebrum'', ''cerebrum_decision''),
      (''runtime'', ''runtime_decision'')]"

definition unanimous :: "(string \<times> string) list \<Rightarrow> bool" where
  "unanimous ds \<longleftrightarrow> length (remdups (map snd ds)) = 1"

definition signature_of :: "(string \<times> string) list \<Rightarrow> string" where
  "signature_of ds = join ''|'' (map (\<lambda>(who, d). who @ ''='' @ d) ds)"

record shadow_row =
  sw_id :: json
  sw_mechanism :: json
  sw_context :: json
  sw_decisions :: "(string \<times> string) list"
  sw_failed :: "json list"

definition shadow_id :: "pyenv \<Rightarrow> nat \<Rightarrow> obj \<Rightarrow> json" where
  "shadow_id E index m =
     (if truthy (get_default m ''shadow_id'' JNull) then get_default m ''shadow_id'' JNull
      else JStr (''shadow-'' @ take 20 (after_colon (sha256_json E
        (mk_obj [(''index'', JInt (int index)), (''context'', get_default m ''context'' (JObj []))])))))"

definition compare_record :: "pyenv \<Rightarrow> nat \<times> json \<Rightarrow> shadow_error + shadow_row" where
  "compare_record E r = (case r of (index, JObj m) \<Rightarrow>
       (let ds = decisions_of E m in
        require (list_all (\<lambda>d. snd d \<in> set valid_decisions) ds)
          (ShadowError (''shadow record '' @ int_text (int index) @ '' contains an invalid decision'')) (
        rbind (iter_json ShadowMalformed (get_default m ''runtime_failed_conditions'' (JArr []))) (\<lambda>failed.
          Inr \<lparr>sw_id = shadow_id E index m, sw_mechanism = get_default m ''mechanism_id'' JNull,
            sw_context = get_default m ''context'' (JObj []), sw_decisions = ds, sw_failed = failed\<rparr>)))
   | _ \<Rightarrow> Inl ShadowMalformed)"

definition enc_shadow_row :: "pyenv \<Rightarrow> shadow_row \<Rightarrow> json" where
  "enc_shadow_row E r = mk_obj
     [(''shadow_id'', sw_id r), (''mechanism_id'', sw_mechanism r), (''context_sha256'', JStr (sha256_json E (sw_context r))),
      (''context'', sw_context r), (''decisions'', mk_obj (map (\<lambda>(who, d). (who, JStr d)) (sw_decisions r))),
      (''runtime_failed_conditions'', JArr (sw_failed r)), (''unanimous'', JBool (unanimous (sw_decisions r)))]"

text \<open>How often the human decision is that of another, and the share of all.\<close>

definition human_agrees :: "string \<Rightarrow> shadow_row list \<Rightarrow> nat" where
  "human_agrees who rows = length (filter (\<lambda>r. map_of (sw_decisions r) ''human'' = map_of (sw_decisions r) who) rows)"

definition share_of :: "nat \<Rightarrow> nat \<Rightarrow> json" where
  "share_of k number = JFloat (if number = 0 then Fin 0 else rnd (of_nat k / of_nat number))"

definition count_signature :: "shadow_row \<Rightarrow> (string, int) dict \<Rightarrow> (string, int) dict" where
  "count_signature r d = (if unanimous (sw_decisions r) then d
     else dict_put (signature_of (sw_decisions r)) (get_default d (signature_of (sw_decisions r)) 0 + 1) d)"

definition shadow_summary :: "shadow_row list \<Rightarrow> json" where
  "shadow_summary rows =
     (let number = length rows; disagreements = filter (\<lambda>r. \<not> unanimous (sw_decisions r)) rows in mk_obj
      [(''record_count'', JInt (int number)), (''unanimous_count'', JInt (int number - int (length disagreements))),
       (''disagreement_count'', JInt (int (length disagreements))),
       (''human_system_agreement'', share_of (human_agrees ''existing_system'' rows) number),
       (''human_cerebrum_agreement'', share_of (human_agrees ''cerebrum'' rows) number),
       (''human_runtime_agreement'', share_of (human_agrees ''runtime'' rows) number),
       (''disagreement_signatures'', JObj (map (\<lambda>p. (fst p, JInt (snd p))) (fold count_signature rows [])))])"

definition run_shadow_comparison :: "pyenv \<Rightarrow> json list \<Rightarrow> shadow_error + obj" where
  "run_shadow_comparison E records =
     rbind (traverse (compare_record E) (List.enumerate 0 records)) (\<lambda>rows.
       let normalized = JArr (map (enc_shadow_row E) rows) in
       Inr (dict_of
         [(''schema_version'', JStr ''edon-shadow-report.v1''), (''records'', normalized), (''summary'', shadow_summary rows),
          (''report_sha256'', JStr (sha256_json E normalized)), (''binding_authority'', JBool False),
          (''claim_boundary'', JStr ''Shadow comparison only; no decisions are committed by this harness.'')]))"

section \<open>Gaps\<close>

fun contains :: "string \<Rightarrow> string \<Rightarrow> bool" where
  "contains p [] = (p = [])"
| "contains p (c # s) = (take (length p) (c # s) = p \<or> contains p s)"

text \<open>The kind of gap by the failed conditions and by whether the human differs from the system and from the model.\<close>

definition gap_kind :: "string \<Rightarrow> bool \<Rightarrow> bool \<Rightarrow> string" where
  "gap_kind failed system cerebrum =
     (if contains ''author'' failed \<or> contains ''role'' failed then ''MISSING_AUTHORITY_RELATIONSHIP''
      else if contains ''evidence'' failed \<or> contains ''requires'' failed \<or> contains ''check'' failed
        then ''MISSING_EVIDENCE_OR_VALIDITY_RULE''
      else if contains ''deadline'' failed \<or> contains ''window'' failed \<or> contains ''time'' failed then ''TEMPORAL_RULE_MISMATCH''
      else if system then ''NORMATIVE_OPERATIONAL_DIVERGENCE''
      else if cerebrum then ''MODEL_REASONING_GAP'' else ''UNDOCUMENTED_EXCEPTION'')"

definition json_text :: "json \<Rightarrow> shadow_error + string" where
  "json_text v = (case v of JStr s \<Rightarrow> Inr s | _ \<Rightarrow> Inl ShadowMalformed)"

definition member_of :: "obj \<Rightarrow> string \<Rightarrow> shadow_error + json" where
  "member_of m k = (case dict_get m k of None \<Rightarrow> Inl ShadowMalformed | Some v \<Rightarrow> Inr v)"

text \<open>A decision is read only when the branches before it have not returned.\<close>

definition gap_type :: "obj \<Rightarrow> shadow_error + string" where
  "gap_type m =
     rbind (iter_json ShadowMalformed (get_default m ''runtime_failed_conditions'' (JArr []))) (\<lambda>conditions.
     rbind (traverse json_text conditions) (\<lambda>texts.
     let failed = py_casefold (join '' '' texts) in
     rbind (member_of m ''decisions'') (\<lambda>decisions.
     if gap_kind failed True True \<noteq> ''NORMATIVE_OPERATIONAL_DIVERGENCE'' then Inr (gap_kind failed True True)
     else (case decisions of JObj d \<Rightarrow>
         rbind (member_of d ''human'') (\<lambda>human.
         rbind (member_of d ''existing_system'') (\<lambda>system.
         if \<not> jeq human system then Inr (gap_kind failed True True)
         else rbind (member_of d ''cerebrum'') (\<lambda>cerebrum. Inr (gap_kind failed False (\<not> jeq human cerebrum)))))
       | _ \<Rightarrow> Inl ShadowMalformed))))"

type_synonym gap_key = "string \<times> string"

definition gap_record :: "pyenv \<Rightarrow> json \<Rightarrow> (gap_key \<times> obj) list \<Rightarrow> shadow_error + (gap_key \<times> obj) list" where
  "gap_record E v rows = (case v of
     JObj m \<Rightarrow> if truthy (get_default m ''unanimous'' JNull) then Inr rows
       else rbind (gap_type m) (\<lambda>ty. Inr (rows @ [((py_str E (get_default m ''mechanism_id'' JNull), ty), m)]))
   | _ \<Rightarrow> Inl ShadowMalformed)"

text \<open>
  \<open>sorted\<close> of the identities: a single value of any kind, texts, or numbers, which are compared by
  value and keep their order where they are equal. Other values cannot be compared with each
  other; lists of identities and floats that are not finite are left out and count as such.
\<close>

fun number_value :: "json \<Rightarrow> rat option" where
  "number_value (JInt i) = Some (of_int i)"
| "number_value (JBool b) = Some (if b then 1 else 0)"
| "number_value (JFloat (Fin x)) = Some x"
| "number_value _ = None"

definition sorted_ids :: "json list \<Rightarrow> shadow_error + json list" where
  "sorted_ids vs = (case vs of
     [v] \<Rightarrow> Inr [v]
   | _ \<Rightarrow> (case traverse json_text vs of
         Inr texts \<Rightarrow> Inr (map JStr (sort texts))
       | Inl e \<Rightarrow> if list_all (\<lambda>v. number_value v \<noteq> None) vs
                  then Inr (sort_key (\<lambda>v. the (number_value v)) vs) else Inl e))"

definition gap_proposal :: "pyenv \<Rightarrow> json \<Rightarrow> gap_key \<Rightarrow> obj list \<Rightarrow> shadow_error + json" where
  "gap_proposal E sha k records =
     rbind (traverse (\<lambda>m. member_of m ''shadow_id'') records) (\<lambda>ids.
     rbind (sorted_ids ids) (\<lambda>evidence.
       let identity = mk_obj [(''mechanism_id'', JStr (fst k)), (''gap_type'', JStr (snd k)), (''evidence_ids'', JArr evidence),
         (''shadow_report_sha256'', sha)] in
       Inr (mk_obj
         [(''proposal_id'', JStr (''gap-'' @ take 20 (after_colon (sha256_json E identity)))), (''mechanism_id'', JStr (fst k)),
          (''gap_type'', JStr (snd k)), (''evidence_shadow_ids'', JArr evidence), (''occurrences'', JInt (int (length records))),
          (''recommended_action'', JStr ''REVIEW_AND_PROPOSE_IR_AMENDMENT''), (''approved'', JBool False),
          (''binding_authority'', JBool False)])))"

definition in_group :: "(gap_key \<times> obj) list \<Rightarrow> gap_key \<Rightarrow> obj list" where
  "in_group rows k = map snd (filter (\<lambda>r. fst r = k) rows)"

definition discover_gaps :: "pyenv \<Rightarrow> obj \<Rightarrow> int \<Rightarrow> shadow_error + obj" where
  "discover_gaps E report minimum =
     rbind (iter_json ShadowMalformed (get_default report ''records'' (JArr []))) (\<lambda>records.
     rbind (rfold (gap_record E) records []) (\<lambda>rows.
     let sha = get_default report ''report_sha256'' JNull in
     rbind (traverse (\<lambda>k. gap_proposal E sha k (in_group rows k))
         (filter (\<lambda>k. minimum \<le> int (length (in_group rows k))) (sorted_set (map fst rows)))) (\<lambda>proposals.
     Inr (dict_of
       [(''schema_version'', JStr ''edon-gap-discovery.v1''), (''source_shadow_sha256'', sha),
        (''minimum_repetitions'', JInt minimum), (''proposal_count'', JInt (int (length proposals))),
        (''proposals'', JArr proposals), (''binding_authority'', JBool False),
        (''claim_boundary'', JStr ''Heuristic amendment proposals requiring source review and authorized approval.'')]))))"

end
