(* ===== verification/ShadowProps.thy ===== *)
theory ShadowProps
  imports Shadow
begin

text \<open>
  Gap discovery on the report of a comparison proposes exactly the repeated disagreements of its input.
\<close>

section \<open>What the records say\<close>

definition disagrees :: "pyenv \<Rightarrow> obj \<Rightarrow> bool" where
  "disagrees E m \<longleftrightarrow> \<not> unanimous (decisions_of E m)"

definition failed_texts :: "obj \<Rightarrow> string list \<Rightarrow> bool" where
  "failed_texts m ts \<longleftrightarrow> get_default m ''runtime_failed_conditions'' (JArr []) = JArr (map JStr ts)"

text \<open>A record whose failed conditions are a list of texts and whose identity, if it has one, is a text.\<close>

definition plain_record :: "obj \<Rightarrow> bool" where
  "plain_record m \<longleftrightarrow> (\<exists>ts. failed_texts m ts) \<and> (\<exists>s. get_default m ''shadow_id'' (JStr []) = JStr s)"

definition failed_of :: "obj \<Rightarrow> string list" where
  "failed_of m = (case get_default m ''runtime_failed_conditions'' (JArr []) of
     JArr xs \<Rightarrow> map (\<lambda>x. case x of JStr s \<Rightarrow> s | _ \<Rightarrow> []) xs | _ \<Rightarrow> [])"

definition decision :: "pyenv \<Rightarrow> string \<Rightarrow> obj \<Rightarrow> string" where
  "decision E key m = py_str E (get_default m key JNull)"

definition key_of :: "pyenv \<Rightarrow> obj \<Rightarrow> gap_key" where
  "key_of E m = (py_str E (get_default m ''mechanism_id'' JNull),
     gap_kind (py_casefold (join '' '' (failed_of m)))
       (decision E ''human_decision'' m \<noteq> decision E ''system_decision'' m)
       (decision E ''human_decision'' m \<noteq> decision E ''cerebrum_decision'' m))"

definition id_text :: "pyenv \<Rightarrow> nat \<times> obj \<Rightarrow> string" where
  "id_text E r = (case shadow_id E (fst r) (snd r) of JStr s \<Rightarrow> s | _ \<Rightarrow> [])"

lemma shadow_id_text: "plain_record m \<Longrightarrow> shadow_id E i m = JStr (id_text E (i, m))"
  by (auto simp: plain_record_def id_text_def shadow_id_def get_default_def truthy_def split: option.splits)

lemma failed_of_texts: "plain_record m \<Longrightarrow> get_default m ''runtime_failed_conditions'' (JArr []) = JArr (map JStr (failed_of m))"
  by (auto simp: plain_record_def failed_texts_def failed_of_def comp_def)

section \<open>Rows of the report\<close>

definition shown_row :: "pyenv \<Rightarrow> nat \<times> obj \<Rightarrow> shadow_row" where
  "shown_row E r = \<lparr>sw_id = shadow_id E (fst r) (snd r), sw_mechanism = get_default (snd r) ''mechanism_id'' JNull,
     sw_context = get_default (snd r) ''context'' (JObj []), sw_decisions = decisions_of E (snd r),
     sw_failed = map JStr (failed_of (snd r))\<rparr>"

lemma compare_record_D:
  assumes "plain_record m" and "compare_record E (i, JObj m) = Inr r"
  shows "r = shown_row E (i, m)"
  using assms(2) by (simp add: compare_record_def Let_def require_eq_Inr rbind_eq_Inr failed_of_texts [OF assms(1)] iter_json_def shown_row_def)

lemma compare_records_D:
  "\<forall>m \<in> set ms. plain_record m \<Longrightarrow> traverse (compare_record E) (List.enumerate i (map JObj ms)) = Inr rows \<Longrightarrow>
     rows = map (shown_row E) (List.enumerate i ms)"
proof (induction ms arbitrary: i rows)
  case (Cons m ms)
  then obtain r rs where r: "compare_record E (i, JObj m) = Inr r" "traverse (compare_record E) (List.enumerate (Suc i) (map JObj ms)) = Inr rs"
      "rows = r # rs"
    by (auto simp: rbind_eq_Inr)
  with Cons.IH [OF _ r(2)] Cons.prems(1) compare_record_D [OF _ r(1)] show ?case by simp
qed simp

lemma report_members:
  assumes "run_shadow_comparison E (map JObj ms) = Inr report" and "\<forall>m \<in> set ms. plain_record m"
  shows "get_default report ''records'' (JArr []) = JArr (map (enc_shadow_row E \<circ> shown_row E) (List.enumerate 0 ms))"
proof -
  obtain rows where rows: "traverse (compare_record E) (List.enumerate 0 (map JObj ms)) = Inr rows"
    "get_default report ''records'' (JArr []) = JArr (map (enc_shadow_row E) rows)"
    using assms(1) by (auto simp: run_shadow_comparison_def rbind_eq_Inr Let_def get_default_def dict_of_get)
  show ?thesis using rows(2) unfolding compare_records_D [OF assms(2) rows(1)] by simp
qed

definition row_obj :: "pyenv \<Rightarrow> nat \<times> obj \<Rightarrow> obj" where
  "row_obj E r = (case enc_shadow_row E (shown_row E r) of JObj m \<Rightarrow> m | _ \<Rightarrow> [])"

lemma row_obj: "enc_shadow_row E (shown_row E r) = JObj (row_obj E r)"
  by (simp add: row_obj_def enc_shadow_row_def mk_obj_def)

lemma row_get:
  "dict_get (row_obj E r) ''shadow_id'' = Some (shadow_id E (fst r) (snd r))"
  "dict_get (row_obj E r) ''mechanism_id'' = Some (get_default (snd r) ''mechanism_id'' JNull)"
  "dict_get (row_obj E r) ''runtime_failed_conditions'' = Some (JArr (map JStr (failed_of (snd r))))"
  "dict_get (row_obj E r) ''unanimous'' = Some (JBool (\<not> disagrees E (snd r)))"
  "dict_get (row_obj E r) ''decisions'' = Some (mk_obj (map (\<lambda>(who, d). (who, JStr d)) (decisions_of E (snd r))))"
  by (simp_all add: row_obj_def enc_shadow_row_def mk_obj_def dict_of_get shown_row_def disagrees_def)

lemma decisions_get:
  "\<exists>d. mk_obj (map (\<lambda>(who, d). (who, JStr d)) (decisions_of E m)) = JObj d \<and>
     dict_get d ''human'' = Some (JStr (decision E ''human_decision'' m)) \<and>
     dict_get d ''existing_system'' = Some (JStr (decision E ''system_decision'' m)) \<and>
     dict_get d ''cerebrum'' = Some (JStr (decision E ''cerebrum_decision'' m))"
  by (simp add: mk_obj_def decisions_of_def dict_of_get decision_def)

lemma traverse_texts: "traverse json_text (map JStr ts) = Inr ts"
  by (induction ts) (simp_all add: json_text_def)

lemma gap_kind_early:
  "gap_kind f True True \<noteq> ''NORMATIVE_OPERATIONAL_DIVERGENCE'' \<Longrightarrow> gap_kind f s c = gap_kind f True True"
  by (auto simp: gap_kind_def split: if_splits)

lemma gap_kind_True: "gap_kind f True c = gap_kind f True True"
  by (simp add: gap_kind_def)

lemma gap_kind_branches:
  "(if gap_kind f True True \<noteq> ''NORMATIVE_OPERATIONAL_DIVERGENCE'' then Inr (gap_kind f True True)
    else if s then Inr (gap_kind f True True) else Inr (gap_kind f False c)) = Inr (gap_kind f s c)"
proof (cases s)
  case True
  then show ?thesis using gap_kind_True [of f c] by simp
next
  case False
  then show ?thesis using gap_kind_early [of f False c] by (cases "gap_kind f True True = ''NORMATIVE_OPERATIONAL_DIVERGENCE''") simp_all
qed

lemma jeq_text: "jeq (JStr a) (JStr b) \<longleftrightarrow> a = b"
  by auto

lemma gap_type_row: "gap_type (row_obj E r) = Inr (snd (key_of E (snd r)))"
proof -
  let ?m = "snd r"
  obtain d where d: "mk_obj (map (\<lambda>(who, d). (who, JStr d)) (decisions_of E ?m)) = JObj d"
     "dict_get d ''human'' = Some (JStr (decision E ''human_decision'' ?m))"
     "dict_get d ''existing_system'' = Some (JStr (decision E ''system_decision'' ?m))"
     "dict_get d ''cerebrum'' = Some (JStr (decision E ''cerebrum_decision'' ?m))"
    using decisions_get [of E ?m] by blast
  define f where "f = py_casefold (join '' '' (failed_of ?m))"
  have "gap_type (row_obj E r) =
     (if gap_kind f True True \<noteq> ''NORMATIVE_OPERATIONAL_DIVERGENCE'' then Inr (gap_kind f True True)
      else if decision E ''human_decision'' ?m \<noteq> decision E ''system_decision'' ?m then Inr (gap_kind f True True)
      else Inr (gap_kind f False (decision E ''human_decision'' ?m \<noteq> decision E ''cerebrum_decision'' ?m)))"
  proof -
    have "get_default (row_obj E r) ''runtime_failed_conditions'' (JArr []) = JArr (map JStr (failed_of ?m))"
      by (simp add: get_default_def row_get)
    moreover have "member_of (row_obj E r) ''decisions'' = Inr (JObj d)" by (simp add: member_of_def row_get d(1))
    moreover have "member_of d ''human'' = Inr (JStr (decision E ''human_decision'' ?m))"
      "member_of d ''existing_system'' = Inr (JStr (decision E ''system_decision'' ?m))"
      "member_of d ''cerebrum'' = Inr (JStr (decision E ''cerebrum_decision'' ?m))"
      by (simp_all add: member_of_def d)
    ultimately show ?thesis
      by (simp only: gap_type_def iter_json_def json.case rbind_simps traverse_texts Let_def f_def [symmetric] jeq_text)
  qed
  moreover have "snd (key_of E ?m) = gap_kind f (decision E ''human_decision'' ?m \<noteq> decision E ''system_decision'' ?m)
       (decision E ''human_decision'' ?m \<noteq> decision E ''cerebrum_decision'' ?m)"
    by (simp add: key_of_def f_def)
  ultimately show ?thesis by (simp only: gap_kind_branches)
qed

lemma gap_record_row: "gap_record E (JObj (row_obj E r)) rows =
    Inr (if disagrees E (snd r) then rows @ [(key_of E (snd r), row_obj E r)] else rows)"
  by (simp add: gap_record_def get_default_def row_get gap_type_row truthy_def key_of_def)

lemma gap_records_rows: "rfold (gap_record E) (map (JObj \<circ> row_obj E) rs) rows =
    Inr (rows @ map (\<lambda>r. (key_of E (snd r), row_obj E r)) (filter (\<lambda>r. disagrees E (snd r)) rs))"
  by (induction rs arbitrary: rows) (simp_all add: gap_record_row)

section \<open>Proposals\<close>

lemma gap_proposal_rows:
  assumes "\<forall>r \<in> set rs. plain_record (snd r)"
  shows "\<exists>p. gap_proposal E sha k (map (row_obj E) rs) = Inr (JObj p) \<and> dict_get p ''mechanism_id'' = Some (JStr (fst k)) \<and>
    dict_get p ''gap_type'' = Some (JStr (snd k)) \<and> dict_get p ''evidence_shadow_ids'' = Some (jstrs (sort (map (id_text E) rs))) \<and>
    dict_get p ''occurrences'' = Some (JInt (int (length rs))) \<and> dict_get p ''approved'' = Some (JBool False)"
proof -
  define ts where "ts = map (id_text E) rs"
  have t: "traverse (\<lambda>m. member_of m ''shadow_id'') (map (row_obj E) rs) = Inr (map JStr ts)"
    unfolding ts_def using assms by (induction rs) (simp_all add: member_of_def row_get shadow_id_text)
  have "sorted_ids (map JStr ts) = Inr (map JStr (sort ts))"
    using traverse_texts [of ts] by (cases ts rule: remdups_adj.cases) (simp_all add: sorted_ids_def)
  with t show ?thesis unfolding ts_def [symmetric] gap_proposal_def Let_def jstrs_def mk_obj_def
    by (simp add: dict_of_get)
qed

text \<open>What a proposal says about the disagreeing records of its group.\<close>

definition proposes :: "pyenv \<Rightarrow> (nat \<times> obj) list \<Rightarrow> gap_key \<Rightarrow> json \<Rightarrow> bool" where
  "proposes E rs k v \<longleftrightarrow> (\<exists>p. v = JObj p \<and> dict_get p ''mechanism_id'' = Some (JStr (fst k)) \<and>
    dict_get p ''gap_type'' = Some (JStr (snd k)) \<and> dict_get p ''evidence_shadow_ids'' = Some (jstrs (sort (map (id_text E) rs))) \<and>
    dict_get p ''occurrences'' = Some (JInt (int (length rs))) \<and> dict_get p ''approved'' = Some (JBool False))"

definition group_rows :: "pyenv \<Rightarrow> obj list \<Rightarrow> gap_key \<Rightarrow> (nat \<times> obj) list" where
  "group_rows E ms k = filter (\<lambda>r. disagrees E (snd r) \<and> key_of E (snd r) = k) (List.enumerate 0 ms)"

lemma in_group_rows:
  "in_group (map (\<lambda>r. (key_of E (snd r), row_obj E r)) (filter (\<lambda>r. disagrees E (snd r)) (List.enumerate 0 ms))) k =
     map (row_obj E) (group_rows E ms k)"
  by (simp add: in_group_def group_rows_def filter_map comp_def conj_commute)

lemma traverse_related: "(\<And>x. x \<in> set xs \<Longrightarrow> \<exists>y. f x = Inr y \<and> R x y) \<Longrightarrow> \<exists>ys. traverse f xs = Inr ys \<and> list_all2 R xs ys"
proof (induction xs)
  case (Cons x xs)
  obtain y where "f x = Inr y" "R x y" using Cons.prems [of x] by auto
  moreover obtain ys where "traverse f xs = Inr ys" "list_all2 R xs ys" using Cons by auto
  ultimately show ?case by auto
qed simp

text \<open>
  C33. Gap discovery proposes exactly the repeated disagreements. On the report of a comparison of
  records whose failed conditions are lists of texts and whose identities, where they have one,
  are texts (other values can make the discovery fail for the whole report), it succeeds and has
  one proposal, in order, for each pair of mechanism and kind of gap
  that at least the minimum number of disagreeing records have, and no other; the proposal names
  all of these records as its evidence, counts them, and is not approved.
\<close>

theorem gaps_are_the_repeated_disagreements:
  assumes "run_shadow_comparison E (map JObj ms) = Inr report" and "\<forall>m \<in> set ms. plain_record m"
  shows "\<exists>gaps ps. discover_gaps E report n = Inr gaps \<and> dict_get gaps ''proposals'' = Some (JArr ps) \<and>
    list_all2 (\<lambda>k. proposes E (group_rows E ms k) k)
      (filter (\<lambda>k. n \<le> int (length (group_rows E ms k))) (sorted_set (map (key_of E) (filter (disagrees E) ms)))) ps"
proof -
  let ?rows = "map (\<lambda>r. (key_of E (snd r), row_obj E r)) (filter (\<lambda>r. disagrees E (snd r)) (List.enumerate 0 ms))"
  let ?sha = "get_default report ''report_sha256'' JNull"
  let ?ks = "filter (\<lambda>k. n \<le> int (length (group_rows E ms k))) (sorted_set (map (key_of E) (filter (disagrees E) ms)))"
  have records: "get_default report ''records'' (JArr []) = JArr (map (JObj \<circ> row_obj E) (List.enumerate 0 ms))"
    unfolding report_members [OF assms] by (simp add: row_obj comp_def)
  have rows: "rfold (gap_record E) (map (JObj \<circ> row_obj E) (List.enumerate 0 ms)) [] = Inr ?rows"
    unfolding gap_records_rows by simp
  have "map (key_of E \<circ> snd) (filter (disagrees E \<circ> snd) (List.enumerate 0 ms)) = map (key_of E) (filter (disagrees E) (map snd (List.enumerate 0 ms)))"
    by (simp only: filter_map map_map)
  then have keys: "map fst ?rows = map (key_of E) (filter (disagrees E) ms)" by (simp add: comp_def)
  have plain: "\<forall>r \<in> set (group_rows E ms k). plain_record (snd r)" for k
    using assms(2) by (auto simp: group_rows_def in_set_enumerate_eq)
  have "\<exists>ps. traverse (\<lambda>k. gap_proposal E ?sha k (map (row_obj E) (group_rows E ms k))) ?ks = Inr ps \<and>
      list_all2 (\<lambda>k. proposes E (group_rows E ms k) k) ?ks ps"
    by (rule traverse_related) (use gap_proposal_rows [OF plain] in \<open>simp only: proposes_def\<close>, blast)
  then obtain ps where ps: "traverse (\<lambda>k. gap_proposal E ?sha k (map (row_obj E) (group_rows E ms k))) ?ks = Inr ps"
    "list_all2 (\<lambda>k. proposes E (group_rows E ms k) k) ?ks ps" by blast
  have "\<exists>gaps. discover_gaps E report n = Inr gaps \<and> dict_get gaps ''proposals'' = Some (JArr ps)"
    unfolding discover_gaps_def records iter_json_def
    by (simp add: rows keys in_group_rows ps(1) Let_def dict_of_get del: map_map)
  with ps(2) show ?thesis by blast
qed

end
