(* ===== verification/ShadowExamples.thy ===== *)
theory ShadowExamples
  imports ShadowProps
begin

text \<open>Three records of one mechanism: in two the human allows what the system denies.\<close>

definition sx_record :: "string \<Rightarrow> obj" where
  "sx_record system = [(''cerebrum_decision'', JStr ''ALLOW''), (''human_decision'', JStr ''ALLOW''), (''mechanism_id'', JStr ''m''),
     (''runtime_decision'', JStr ''ALLOW''), (''system_decision'', JStr system)]"

definition sx_records :: "obj list" where
  "sx_records = [sx_record ''DENY'', sx_record ''ALLOW'', sx_record ''DENY'']"

lemma sx_get: "get_default (sx_record s) ''runtime_failed_conditions'' (JArr []) = JArr []" "get_default (sx_record s) ''shadow_id'' (JStr []) = JStr []"
    "get_default (sx_record s) ''mechanism_id'' JNull = JStr ''m''"
  by (simp_all add: sx_record_def get_default_def)

lemma sx_decisions: "decisions_of E (sx_record s) = [(''human'', ''ALLOW''), (''existing_system'', s), (''cerebrum'', ''ALLOW''), (''runtime'', ''ALLOW'')]"
  by (simp add: decisions_of_def sx_record_def get_default_def py_str_def)

lemma sx_compares: "s \<in> set valid_decisions \<Longrightarrow> \<exists>r. compare_record E (i, JObj (sx_record s)) = Inr r"
  by (simp add: compare_record_def sx_decisions sx_get iter_json_def Let_def, simp add: valid_decisions_def)

lemma sx_reported: "\<exists>report. run_shadow_comparison E (map JObj sx_records) = Inr report"
proof -
  have "''DENY'' \<in> set valid_decisions" "''ALLOW'' \<in> set valid_decisions" by (simp_all add: valid_decisions_def)
  then have "\<exists>r. compare_record E (i, JObj (sx_record ''DENY'')) = Inr r" "\<exists>r. compare_record E (i, JObj (sx_record ''ALLOW'')) = Inr r" for i
    using sx_compares by blast+
  then obtain r0 r1 r2 where "compare_record E (0, JObj (sx_record ''DENY'')) = Inr r0" "compare_record E (1, JObj (sx_record ''ALLOW'')) = Inr r1"
      "compare_record E (2, JObj (sx_record ''DENY'')) = Inr r2"
    by metis
  then show ?thesis by (simp add: run_shadow_comparison_def sx_records_def Let_def numeral_2_eq_2)
qed

lemma sx_plain: "\<forall>m \<in> set sx_records. plain_record m"
  by (simp add: sx_records_def plain_record_def failed_texts_def sx_get)

lemma sx_disagrees: "disagrees E (sx_record ''DENY'')" "\<not> disagrees E (sx_record ''ALLOW'')"
  by (simp_all add: disagrees_def sx_decisions unanimous_def)

lemma sx_key: "key_of E (sx_record ''DENY'') = (''m'', ''NORMATIVE_OPERATIONAL_DIVERGENCE'')"
proof -
  have "gap_kind (py_casefold (join '' '' [])) True c = ''NORMATIVE_OPERATIONAL_DIVERGENCE''" for c
    by (simp add: gap_kind_def py_casefold_def)
  moreover have "failed_of (sx_record ''DENY'') = []" by (simp add: failed_of_def sx_get)
  moreover have "decision E ''human_decision'' (sx_record ''DENY'') \<noteq> decision E ''system_decision'' (sx_record ''DENY'')"
    by (simp add: decision_def sx_record_def get_default_def py_str_def)
  ultimately show ?thesis by (simp add: key_of_def sx_get py_str_def)
qed

theorem gaps_are_the_repeated_disagreements_witness:
  "\<exists>report gaps p. run_shadow_comparison demo_env (map JObj sx_records) = Inr report \<and> discover_gaps demo_env report 2 = Inr gaps \<and>
     dict_get gaps ''proposals'' = Some (JArr [JObj p]) \<and> dict_get p ''mechanism_id'' = Some (JStr ''m'') \<and>
     dict_get p ''gap_type'' = Some (JStr ''NORMATIVE_OPERATIONAL_DIVERGENCE'') \<and> dict_get p ''occurrences'' = Some (JInt 2)"
proof -
  obtain report where r: "run_shadow_comparison demo_env (map JObj sx_records) = Inr report" using sx_reported by blast
  let ?k = "(''m'', ''NORMATIVE_OPERATIONAL_DIVERGENCE'')"
  have ks: "sorted_set (map (key_of demo_env) (filter (disagrees demo_env) sx_records)) = [?k]"
    by (simp add: sx_records_def sx_disagrees sx_key sorted_set_def)
  have n: "length (group_rows demo_env sx_records ?k) = 2"
    by (simp add: group_rows_def sx_records_def sx_disagrees sx_key)
  obtain gaps ps where g: "discover_gaps demo_env report 2 = Inr gaps" "dict_get gaps ''proposals'' = Some (JArr ps)"
    "list_all2 (\<lambda>k. proposes demo_env (group_rows demo_env sx_records k) k) [?k] ps"
    using gaps_are_the_repeated_disagreements [OF r sx_plain, of 2] unfolding ks by (auto simp: n)
  then obtain p where "ps = [JObj p]" "dict_get p ''mechanism_id'' = Some (JStr ''m'')"
    "dict_get p ''gap_type'' = Some (JStr ''NORMATIVE_OPERATIONAL_DIVERGENCE'')" "dict_get p ''occurrences'' = Some (JInt 2)"
    by (auto simp: list_all2_Cons1 proposes_def n)
  with r g(1,2) show ?thesis by blast
qed

end
