(* ===== verification/Qualify.thy ===== *)
theory Qualify
  imports Shadow
begin

text \<open>
  The qualification of a bundle of cases for a mechanism (\<open>src/src/edon/qualification/engine.py\<close>): the
  public cases and the protected labels are checked for leakage, contradictions and coverage. A value
  of the wrong kind raises an error of the language, \<open>RunMalformed\<close>; the paths of leaked keys are
  listed in the order of the keys.
\<close>

section \<open>Leakage\<close>

definition forbidden_public_keys :: "string list" where
  "forbidden_public_keys = [''target'', ''label'', ''labels'', ''expected'', ''oracle'', ''completion'']"

fun leaked_paths :: "string \<Rightarrow> json \<Rightarrow> string list"
and leaked_members :: "string \<Rightarrow> (string \<times> json) list \<Rightarrow> string list"
and leaked_items :: "string \<Rightarrow> nat \<Rightarrow> json list \<Rightarrow> string list" where
  "leaked_paths path (JObj ms) = leaked_members path ms"
| "leaked_paths path (JArr xs) = leaked_items path 0 xs"
| "leaked_paths path _ = []"
| "leaked_members path [] = []"
| "leaked_members path ((k, v) # ms) =
     (if py_casefold k \<in> set forbidden_public_keys then [path @ ''.'' @ k] else [])
     @ leaked_paths (path @ ''.'' @ k) v @ leaked_members path ms"
| "leaked_items path i [] = []"
| "leaked_items path i (x # xs) =
     leaked_paths (path @ ''['' @ int_text (int i) @ '']'') x @ leaked_items path (Suc i) xs"

section \<open>Cases and labels\<close>

definition json_obj :: "json \<Rightarrow> run_error + obj" where
  "json_obj v = (case v of JObj m \<Rightarrow> Inr m | _ \<Rightarrow> Inl RunMalformed)"

text \<open>A value used as an element of a set or a key must be hashable.\<close>

definition hashable :: "json \<Rightarrow> run_error + json" where
  "hashable v = (case v of JArr _ \<Rightarrow> Inl RunMalformed | JObj _ \<Rightarrow> Inl RunMalformed | _ \<Rightarrow> Inr v)"

text \<open>The elements of a set of values that are not containers, in the order they were added.\<close>

definition distinct_values :: "json list \<Rightarrow> json list" where
  "distinct_values vs = fold (\<lambda>v s. if jmem v s then s else s @ [v]) vs []"

definition oracle_decision :: "obj \<Rightarrow> string option" where
  "oracle_decision label = (case obj_get label ''decision'' JNull of
     JStr s \<Rightarrow> Some s
   | _ \<Rightarrow> (case obj_get label ''certificate'' JNull of
       JObj certificate \<Rightarrow> (case obj_get certificate ''decision'' JNull of JStr s \<Rightarrow> Some s | _ \<Rightarrow> None)
     | _ \<Rightarrow> None))"

text \<open>\<open>labels.get(case_id)\<close>.\<close>

definition label_of :: "json \<Rightarrow> obj \<Rightarrow> run_error + json" where
  "label_of labels case' =
     rbind (json_obj labels) (\<lambda>ls.
     rbind (hashable (obj_get case' ''case_id'' JNull)) (\<lambda>i.
       Inr (case i of JStr s \<Rightarrow> obj_get ls s JNull | _ \<Rightarrow> JNull)))"

definition input_of :: "obj \<Rightarrow> json" where
  "input_of case' = mk_obj [(''observation'', obj_get case' ''observation'' JNull), (''query'', obj_get case' ''query'' JNull),
     (''task_type'', obj_get case' ''task_type'' JNull)]"

text \<open>What the loop over the cases collects.\<close>

record findings =
  fi_targets :: "(string \<times> string) list"
  fi_unsafe :: "string list"
  fi_unreachable :: "string list"
  fi_pairs :: "string list"

definition no_findings :: findings where
  "no_findings = \<lparr>fi_targets = [], fi_unsafe = [], fi_unreachable = [], fi_pairs = []\<rparr>"

definition unsafe_case :: "json \<Rightarrow> obj \<Rightarrow> bool" where
  "unsafe_case scenario label \<longleftrightarrow> scenario \<in> {JStr ''FAILURE'', JStr ''EDGE''} \<and> oracle_decision label = Some ''ALLOW''"

definition pivotal_case :: "obj \<Rightarrow> obj \<Rightarrow> bool" where
  "pivotal_case case' label \<longleftrightarrow> obj_get case' ''task_type'' JNull = JStr ''PAIR_CONTRAST''
     \<and> obj_get label ''decision_changed'' JNull = JBool True"

definition check_case :: "pyenv \<Rightarrow> json \<Rightarrow> obj \<Rightarrow> findings \<Rightarrow> run_error + findings" where
  "check_case E labels case' fi =
     (let case_id = py_str E (obj_get case' ''case_id'' JNull) in
      rbind (label_of labels case') (\<lambda>l. case l of
        JObj label \<Rightarrow>
          rbind (json_obj (obj_get case' ''observation'' (JObj []))) (\<lambda>observation.
          rbind (hashable (obj_get observation ''scenario_class'' JNull)) (\<lambda>scenario.
            Inr (fi\<lparr>fi_targets := fi_targets fi @ [(sha256_json E (input_of case'), canonical_json E l)],
              fi_unsafe := fi_unsafe fi @ (if unsafe_case scenario label then [case_id] else []),
              fi_pairs := fi_pairs fi @ (if pivotal_case case' label
                then [py_str E (obj_get label ''causal_path'' JNull)] else [])\<rparr>)))
      | _ \<Rightarrow> Inr (fi\<lparr>fi_unreachable := fi_unreachable fi @ [case_id]\<rparr>)))"

text \<open>The inputs with more than one target.\<close>

definition conflicting_inputs :: "(string \<times> string) list \<Rightarrow> string list" where
  "conflicting_inputs targets =
     filter (\<lambda>d. 1 < length (remdups (map snd (filter (\<lambda>p. fst p = d) targets)))) (sorted_set (map fst targets))"

section \<open>The report\<close>

definition required_tasks :: "string list" where
  "required_tasks = [''CERTIFICATE'', ''TRANSITION'', ''QUEUE_TRACE'', ''PAIR_CONTRAST'']"

definition public_cases :: "obj \<Rightarrow> run_error + obj list" where
  "public_cases bundle =
     rbind (json_obj (obj_get bundle ''public'' (JObj []))) (\<lambda>public.
     rbind (iter_json RunMalformed (obj_get public ''cases'' (JArr []))) (traverse json_obj))"

definition protected_labels :: "obj \<Rightarrow> run_error + json" where
  "protected_labels bundle =
     rbind (json_obj (obj_get bundle ''protected'' (JObj []))) (\<lambda>protected.
       Inr (obj_get protected ''labels'' (JObj [])))"

definition expected_paths :: "pyenv \<Rightarrow> obj \<Rightarrow> run_error + string list" where
  "expected_paths E mechanism =
     rbind (iter_json RunMalformed (obj_get mechanism ''facts'' (JArr [])))
       (traverse (\<lambda>f. rbind (json_obj f) (fact_path E)))"

definition qualify_checks :: "obj \<Rightarrow> checks \<Rightarrow> obj \<Rightarrow> obj list \<Rightarrow> json \<Rightarrow> nat \<Rightarrow> json list \<Rightarrow> json list \<Rightarrow> findings \<Rightarrow> string list
    \<Rightarrow> (string \<times> bool) list" where
  "qualify_checks bundle ck manifest cases labels label_count ids tasks fi paths =
     [(''mechanism_runtime_valid'', all_pass ck), (''public_cases_present'', cases \<noteq> []), (''oracle_labels_present'', truthy labels),
      (''case_ids_unique'', length ids = length (distinct_values ids)), (''case_label_counts_match'', length cases = label_count),
      (''no_public_label_leakage'', leaked_paths ''$'' (obj_get bundle ''public'' (JObj [])) = []),
      (''no_conflicting_targets_for_identical_inputs'', conflicting_inputs (fi_targets fi) = []),
      (''all_cases_reachable'', fi_unreachable fi = []),
      (''all_required_tasks_present'', list_all (\<lambda>t. JStr t \<in> set tasks) required_tasks),
      (''all_constraints_have_pivotal_pairs'', set paths \<subseteq> set (fi_pairs fi)), (''zero_unsafe_failure_allows'', fi_unsafe fi = []),
      (''public_and_protected_hashes_distinct'',
         \<not> jeq (obj_get manifest ''public_sha256'' JNull) (obj_get manifest ''protected_sha256'' JNull)),
      (''labels_separated'', obj_get manifest ''labels_separated'' JNull = JBool True)]"

definition qualify_actionnet :: "pyenv \<Rightarrow> obj \<Rightarrow> obj \<Rightarrow> run_error + obj" where
  "qualify_actionnet E mechanism bundle =
     rbind (public_cases bundle) (\<lambda>cases.
     rbind (protected_labels bundle) (\<lambda>labels.
     rbind (traverse (\<lambda>c. hashable (obj_get c ''task_type'' JNull)) cases) (\<lambda>tasks.
     rbind (rfold (check_case E labels) cases no_findings) (\<lambda>fi.
     rbind (expected_paths E mechanism) (\<lambda>paths.
     rbind (validate_approved_mechanism E mechanism) (\<lambda>ck.
     rbind (traverse (\<lambda>c. hashable (obj_get c ''case_id'' JNull)) cases) (\<lambda>ids.
     rbind (len_of_json labels) (\<lambda>label_count.
     rbind (json_obj (obj_get bundle ''manifest'' (JObj []))) (\<lambda>manifest.
     let checks = qualify_checks bundle ck manifest cases labels label_count ids tasks fi paths;
         passed = list_all snd checks in
     Inr (dict_of
       [(''schema_version'', JStr ''edon-actionnet-qualification.v1''), (''mechanism_id'', obj_get mechanism ''mechanism_id'' JNull),
        (''checks'', mk_obj (map (\<lambda>p. (fst p, JBool (snd p))) checks)),
        (''checks_passed'', JInt (int (length (filter snd checks)))), (''check_count'', JInt (int (length checks))),
        (''passed'', JBool passed), (''status'', JStr (if passed then ''ACTIONNET_QUALIFIED'' else ''ACTIONNET_REJECTED'')),
        (''diagnostics'', mk_obj
           [(''leakage_paths'', jstrs (leaked_paths ''$'' (obj_get bundle ''public'' (JObj [])))),
            (''conflicting_input_hashes'', jstrs (conflicting_inputs (fi_targets fi))),
            (''unreachable_case_ids'', jstrs (fi_unreachable fi)), (''unsafe_case_ids'', jstrs (fi_unsafe fi)),
            (''missing_pivotal_paths'', jstrs (sorted_set (filter (\<lambda>p. p \<notin> set (fi_pairs fi)) paths))),
            (''task_types'', jstrs (sort (map (py_str E) (distinct_values tasks))))]),
        (''bundle_public_sha256'', obj_get manifest ''public_sha256'' JNull), (''binding_authority'', JBool False)]))))))))))"

end
