(* ===== verification/QualifyProps.thy ===== *)
theory QualifyProps
  imports Qualify
begin

text \<open>What a bundle that passes the qualification guarantees to those who train and test on it.\<close>

section \<open>Keys at any depth\<close>

inductive has_key :: "string \<Rightarrow> json \<Rightarrow> bool" for k where
  key_here: "(k, v) \<in> set ms \<Longrightarrow> has_key k (JObj ms)"
| key_member: "(l, v) \<in> set ms \<Longrightarrow> has_key k v \<Longrightarrow> has_key k (JObj ms)"
| key_item: "x \<in> set xs \<Longrightarrow> has_key k x \<Longrightarrow> has_key k (JArr xs)"

lemma leaked_members_empty:
  "leaked_members path ms = [] \<Longrightarrow> (k, v) \<in> set ms \<Longrightarrow>
     py_casefold k \<notin> set forbidden_public_keys \<and> (\<exists>path'. leaked_paths path' v = [])"
proof (induction ms)
  case (Cons m ms)
  obtain l w where m: "m = (l, w)" by force
  from Cons show ?case unfolding m by (auto split: if_splits)
qed simp

lemma leaked_items_empty: "leaked_items path i xs = [] \<Longrightarrow> x \<in> set xs \<Longrightarrow> \<exists>path'. leaked_paths path' x = []"
  by (induction xs arbitrary: i) auto

lemma leaked_paths_key: "has_key k v \<Longrightarrow> leaked_paths path v = [] \<Longrightarrow> py_casefold k \<notin> set forbidden_public_keys"
proof (induction arbitrary: path rule: has_key.induct)
  case (key_here v ms)
  then show ?case using leaked_members_empty [of path ms k v] by simp
next
  case (key_member l v ms)
  then show ?case using leaked_members_empty [of path ms l v] by auto
next
  case (key_item x xs)
  then show ?case using leaked_items_empty [of path 0 xs x] by auto
qed

section \<open>The loop over the cases\<close>

definition scenario_of :: "obj \<Rightarrow> json" where
  "scenario_of c = (case obj_get c ''observation'' (JObj []) of JObj m \<Rightarrow> obj_get m ''scenario_class'' JNull | _ \<Rightarrow> JNull)"

text \<open>A case with its label is recorded: its target, whether it is unsafe, the path it is pivotal for.\<close>

definition recorded :: "pyenv \<Rightarrow> json \<Rightarrow> findings \<Rightarrow> obj \<Rightarrow> bool" where
  "recorded E labels fi c \<longleftrightarrow> (\<exists>l. label_of labels c = Inr (JObj l) \<and>
     (sha256_json E (input_of c), canonical_json E (JObj l)) \<in> set (fi_targets fi) \<and> (unsafe_case (scenario_of c) l \<longrightarrow> fi_unsafe fi \<noteq> []))"

definition pivotal_for :: "pyenv \<Rightarrow> json \<Rightarrow> string \<Rightarrow> obj \<Rightarrow> bool" where
  "pivotal_for E labels p c \<longleftrightarrow> (\<exists>l. label_of labels c = Inr (JObj l) \<and> pivotal_case c l \<and> py_str E (obj_get l ''causal_path'' JNull) = p)"

lemma check_case_D:
  assumes "check_case E labels c fi = Inr fi'" and "fi_unreachable fi' = []"
  shows "fi_unreachable fi = [] \<and> set (fi_targets fi) \<subseteq> set (fi_targets fi') \<and> (fi_unsafe fi' = [] \<longrightarrow> fi_unsafe fi = []) \<and>
    set (fi_pairs fi') \<subseteq> set (fi_pairs fi) \<union> {p. pivotal_for E labels p c} \<and> recorded E labels fi' c"
proof -
  obtain l where l: "label_of labels c = Inr l" using assms(1) by (auto simp: check_case_def Let_def rbind_eq_Inr)
  then obtain label where label: "l = JObj label" using assms by (cases l) (auto simp: check_case_def Let_def)
  obtain observation scenario where o: "json_obj (obj_get c ''observation'' (JObj [])) = Inr observation"
      "hashable (obj_get observation ''scenario_class'' JNull) = Inr scenario"
    and fi': "fi' = fi\<lparr>fi_targets := fi_targets fi @ [(sha256_json E (input_of c), canonical_json E l)],
              fi_unsafe := fi_unsafe fi @ (if unsafe_case scenario label then [py_str E (obj_get c ''case_id'' JNull)] else []),
              fi_pairs := fi_pairs fi @ (if pivotal_case c label then [py_str E (obj_get label ''causal_path'' JNull)] else [])\<rparr>"
    using assms(1) by (auto simp: check_case_def Let_def l label rbind_eq_Inr)
  have "scenario = scenario_of c"
    using o by (auto simp: json_obj_def hashable_def scenario_of_def split: json.splits)
  with l label assms(2) show ?thesis unfolding fi' by (auto simp: recorded_def pivotal_for_def)
qed

lemma recorded_mono: "recorded E labels fi c \<Longrightarrow> set (fi_targets fi) \<subseteq> set (fi_targets fi') \<Longrightarrow> (fi_unsafe fi' = [] \<longrightarrow> fi_unsafe fi = []) \<Longrightarrow>
    recorded E labels fi' c"
  by (auto simp: recorded_def)

lemma check_cases_D:
  "rfold (check_case E labels) cases fi = Inr fi' \<Longrightarrow> fi_unreachable fi' = [] \<Longrightarrow>
     fi_unreachable fi = [] \<and> set (fi_targets fi) \<subseteq> set (fi_targets fi') \<and> (fi_unsafe fi' = [] \<longrightarrow> fi_unsafe fi = []) \<and>
     set (fi_pairs fi') \<subseteq> set (fi_pairs fi) \<union> {p. \<exists>c \<in> set cases. pivotal_for E labels p c} \<and> (\<forall>c \<in> set cases. recorded E labels fi' c)"
proof (induction cases arbitrary: fi)
  case (Cons c cases)
  obtain f where f: "check_case E labels c fi = Inr f" "rfold (check_case E labels) cases f = Inr fi'"
    using Cons.prems(1) by (auto simp: rbind_eq_Inr)
  note IH = Cons.IH [OF f(2) Cons.prems(2)]
  note s = check_case_D [OF f(1) IH [THEN conjunct1]]
  have "recorded E labels fi' c" using s IH by (intro recorded_mono [of E labels f c fi']) blast+
  with s IH show ?case by fastforce
qed simp

lemma conflicting_inputs_empty:
  assumes "conflicting_inputs targets = []" and "(d, a) \<in> set targets" and "(d, b) \<in> set targets"
  shows "a = b"
proof -
  let ?T = "snd ` {p \<in> set targets. fst p = d}"
  have "d \<in> set (sorted_set (map fst targets))" using assms(2) by force
  then have "\<not> 1 < length (remdups (map snd (filter (\<lambda>p. fst p = d) targets)))"
    using assms(1) unfolding conflicting_inputs_def filter_empty_conv by blast
  then have "card ?T \<le> Suc 0" by (simp add: length_remdups_card_conv not_less)
  moreover have "a \<in> ?T" "b \<in> ?T" using assms(2,3) by force+
  ultimately show ?thesis using card_le_Suc0_iff_eq [of ?T] by auto
qed

section \<open>Qualification\<close>

lemma qualify_D:
  assumes "qualify_actionnet E mechanism bundle = Inr q" and "dict_get q ''passed'' = Some (JBool True)"
  shows "\<exists>cases labels fi paths ck. public_cases bundle = Inr cases \<and> protected_labels bundle = Inr labels \<and>
    rfold (check_case E labels) cases no_findings = Inr fi \<and> expected_paths E mechanism = Inr paths \<and>
    validate_approved_mechanism E mechanism = Inr ck \<and> all_pass ck \<and> cases \<noteq> [] \<and>
    leaked_paths ''$'' (obj_get bundle ''public'' (JObj [])) = [] \<and> conflicting_inputs (fi_targets fi) = [] \<and>
    fi_unreachable fi = [] \<and> fi_unsafe fi = [] \<and> set paths \<subseteq> set (fi_pairs fi)"
proof -
  obtain cases labels tasks fi paths ck ids n manifest where
    "public_cases bundle = Inr cases" "protected_labels bundle = Inr labels" "rfold (check_case E labels) cases no_findings = Inr fi"
    "expected_paths E mechanism = Inr paths" "validate_approved_mechanism E mechanism = Inr ck"
    and q: "dict_get q ''passed'' = Some (JBool (list_all snd (qualify_checks bundle ck manifest cases labels n ids tasks fi paths)))"
    using assms(1) unfolding qualify_actionnet_def Let_def by (elim rbindE) (auto simp: dict_of_get)
  moreover have "list_all snd (qualify_checks bundle ck manifest cases labels n ids tasks fi paths)" using q assms(2) by simp
  then have "all_pass ck" "cases \<noteq> []" "leaked_paths ''$'' (obj_get bundle ''public'' (JObj [])) = []"
    "conflicting_inputs (fi_targets fi) = []" "fi_unreachable fi = []" "fi_unsafe fi = []" "set paths \<subseteq> set (fi_pairs fi)"
    by (simp_all add: qualify_checks_def)
  ultimately show ?thesis by blast
qed

text \<open>
  C32. A bundle that passes the qualification is sound. The runtime accepts its mechanism; no key
  at any depth of the public part is one of the reserved ones, in any case of letters; every public
  case has a label, and no failure or edge case is labelled ALLOW; cases with the same observation,
  query and task have labels of the same canonical text; and every fact of the mechanism has a
  contrast pair whose decision changes for it.
\<close>

theorem qualified_bundle_is_sound:
  assumes "qualify_actionnet E mechanism bundle = Inr q" and "dict_get q ''passed'' = Some (JBool True)"
  shows "\<exists>cases labels paths ck. public_cases bundle = Inr cases \<and> protected_labels bundle = Inr labels \<and>
    expected_paths E mechanism = Inr paths \<and> validate_approved_mechanism E mechanism = Inr ck \<and> all_pass ck \<and>
    (\<forall>k. has_key k (obj_get bundle ''public'' (JObj [])) \<longrightarrow> py_casefold k \<notin> set forbidden_public_keys) \<and>
    (\<forall>c \<in> set cases. \<exists>l. label_of labels c = Inr (JObj l) \<and> \<not> unsafe_case (scenario_of c) l) \<and>
    (\<forall>c \<in> set cases. \<forall>d \<in> set cases. \<forall>l m. input_of c = input_of d \<and> label_of labels c = Inr l \<and> label_of labels d = Inr m \<longrightarrow>
       canonical_json E l = canonical_json E m) \<and>
    (\<forall>p \<in> set paths. \<exists>c \<in> set cases. pivotal_for E labels p c)"
proof -
  obtain cases labels fi paths ck where q: "public_cases bundle = Inr cases" "protected_labels bundle = Inr labels"
    "rfold (check_case E labels) cases no_findings = Inr fi" "expected_paths E mechanism = Inr paths"
    "validate_approved_mechanism E mechanism = Inr ck" "all_pass ck"
    "leaked_paths ''$'' (obj_get bundle ''public'' (JObj [])) = []" "conflicting_inputs (fi_targets fi) = []"
    "fi_unreachable fi = []" "fi_unsafe fi = []" "set paths \<subseteq> set (fi_pairs fi)"
    using qualify_D [OF assms] by blast
  note r = check_cases_D [OF q(3,9)]
  have safe: "\<exists>l. label_of labels c = Inr (JObj l) \<and> \<not> unsafe_case (scenario_of c) l" if "c \<in> set cases" for c
    using r that q(10) unfolding recorded_def by blast
  have same: "canonical_json E l = canonical_json E m"
    if "c \<in> set cases" "d \<in> set cases" "input_of c = input_of d" "label_of labels c = Inr l" "label_of labels d = Inr m" for c d l m
  proof -
    have "recorded E labels fi c" "recorded E labels fi d" using r that(1,2) by blast+
    then have "(sha256_json E (input_of c), canonical_json E l) \<in> set (fi_targets fi)"
      "(sha256_json E (input_of c), canonical_json E m) \<in> set (fi_targets fi)"
      unfolding recorded_def that(3-5) by (metis sum.inject(2))+
    then show ?thesis by (rule conflicting_inputs_empty [OF q(8)])
  qed
  have "\<forall>p \<in> set paths. \<exists>c \<in> set cases. pivotal_for E labels p c" using r q(11) by (auto simp: no_findings_def)
  moreover have "\<forall>k. has_key k (obj_get bundle ''public'' (JObj [])) \<longrightarrow> py_casefold k \<notin> set forbidden_public_keys"
    using leaked_paths_key q(7) by blast
  ultimately show ?thesis using q(1,2,4-6) safe same by blast
qed

end
