(* ===== verification/QualifyExamples.thy ===== *)
theory QualifyExamples
  imports QualifyProps
begin

text \<open>A mechanism with one fact and a bundle with one failure case of every task.\<close>

definition qx_mechanism :: obj where
  "qx_mechanism = [(''approved'', JBool True), (''binding_authority'', JBool False),
     (''facts'', JArr [JObj [(''predicate'', JStr ''p''), (''selected_value'', JInt 1), (''subject'', JStr ''s'')]]),
     (''source_references'', JArr [JStr ''r''])]"

definition qx_case :: "string \<times> string \<Rightarrow> obj" where
  "qx_case c = [(''case_id'', JStr (fst c)), (''observation'', JObj [(''scenario_class'', JStr ''FAILURE'')]), (''task_type'', JStr (snd c))]"

definition qx_cases :: "(string \<times> string) list" where
  "qx_cases = [(''a'', ''CERTIFICATE''), (''b'', ''TRANSITION''), (''c'', ''QUEUE_TRACE''), (''d'', ''PAIR_CONTRAST'')]"

definition qx_label :: obj where
  "qx_label = [(''causal_path'', JStr ''s.p''), (''decision'', JStr ''DENY''), (''decision_changed'', JBool True)]"

definition qx_labels :: json where
  "qx_labels = JObj (map (\<lambda>c. (fst c, JObj qx_label)) qx_cases)"

definition qx_bundle :: obj where
  "qx_bundle = [(''manifest'', JObj [(''labels_separated'', JBool True), (''protected_sha256'', JStr ''y''), (''public_sha256'', JStr ''x'')]),
     (''protected'', JObj [(''labels'', qx_labels)]), (''public'', JObj [(''cases'', JArr (map (JObj \<circ> qx_case) qx_cases))])]"

lemma qx_parts: "public_cases qx_bundle = Inr (map qx_case qx_cases)" "protected_labels qx_bundle = Inr qx_labels"
    "json_obj (obj_get qx_bundle ''manifest'' (JObj [])) = Inr [(''labels_separated'', JBool True), (''protected_sha256'', JStr ''y''), (''public_sha256'', JStr ''x'')]"
  by (simp_all add: public_cases_def protected_labels_def qx_bundle_def obj_get_def json_obj_def iter_json_def qx_cases_def)

lemma qx_valid: "\<exists>ck. validate_approved_mechanism E qx_mechanism = Inr ck \<and> all_pass ck"
proof -
  have "\<exists>m. expected_facts E qx_mechanism = Inr m"
    by (simp add: expected_facts_def qx_mechanism_def obj_get_def add_fact_def fact_path_def obj_key_def Let_def)
  then have "facts_consistent E qx_mechanism = Inr True"
    by (auto simp: facts_consistent_def, simp add: qx_mechanism_def obj_get_def truthy_def)
  then show ?thesis
    by (simp add: validate_approved_mechanism_def all_pass_def, simp add: qx_mechanism_def obj_get_def int_of_json_def truthy_def)
qed

lemma qx_paths: "expected_paths E qx_mechanism = Inr [''s.p'']"
  by (simp add: expected_paths_def qx_mechanism_def obj_get_def iter_json_def json_obj_def fact_path_def obj_key_def py_str_def)

lemma qx_label_of: "c \<in> set qx_cases \<Longrightarrow> label_of qx_labels (qx_case c) = Inr (JObj qx_label)"
  by (auto simp: label_of_def qx_labels_def json_obj_def qx_case_def obj_get_def hashable_def qx_cases_def)

lemma qx_check: "c \<in> set qx_cases \<Longrightarrow> check_case E qx_labels (qx_case c) fi =
    Inr (fi\<lparr>fi_targets := fi_targets fi @ [(sha256_json E (input_of (qx_case c)), canonical_json E (JObj qx_label))],
      fi_pairs := fi_pairs fi @ (if snd c = ''PAIR_CONTRAST'' then [''s.p''] else [])\<rparr>)"
  by (simp add: check_case_def qx_label_of Let_def)
    (simp add: qx_case_def obj_get_def json_obj_def hashable_def unsafe_case_def oracle_decision_def pivotal_case_def qx_label_def py_str_def)

lemma qx_checked: "\<exists>fi. rfold (check_case E qx_labels) (map qx_case qx_cases) no_findings = Inr fi \<and> fi_unsafe fi = [] \<and>
    fi_unreachable fi = [] \<and> fi_pairs fi = [''s.p''] \<and> (\<forall>p \<in> set (fi_targets fi). snd p = canonical_json E (JObj qx_label))"
proof -
  have "\<forall>c \<in> set qx_cases. c \<in> set qx_cases" by simp
  then show ?thesis unfolding qx_cases_def
    by (simp add: qx_check [unfolded qx_cases_def] no_findings_def del: canonical_json.simps)
qed

lemma conflicting_inputs_same:
  assumes "\<forall>p \<in> set targets. snd p = x"
  shows "conflicting_inputs targets = []"
proof -
  have "length (remdups (map snd (filter (\<lambda>p. fst p = d) targets))) \<le> 1" for d
  proof -
    have "snd ` {p \<in> set targets. fst p = d} \<subseteq> {x}" using assms by auto
    then have "card (snd ` {p \<in> set targets. fst p = d}) \<le> card {x}" by (intro card_mono) simp_all
    then show ?thesis by (simp add: length_remdups_card_conv)
  qed
  then show ?thesis by (simp add: conflicting_inputs_def filter_empty_conv not_less)
qed

lemma qx_clean: "leaked_paths ''$'' (obj_get qx_bundle ''public'' (JObj [])) = []"
  by code_simp

lemma qx_qualified: "\<exists>q. qualify_actionnet E qx_mechanism qx_bundle = Inr q \<and> dict_get q ''passed'' = Some (JBool True)"
proof -
  obtain fi where fi: "rfold (check_case E qx_labels) (map qx_case qx_cases) no_findings = Inr fi" "fi_unsafe fi = []"
    "fi_unreachable fi = []" "fi_pairs fi = [''s.p'']" "conflicting_inputs (fi_targets fi) = []"
    using qx_checked [of E] conflicting_inputs_same by blast
  obtain ck where ck: "validate_approved_mechanism E qx_mechanism = Inr ck" "all_pass ck" using qx_valid by blast
  have tasks: "traverse (\<lambda>c. hashable (obj_get c ''task_type'' JNull)) (map qx_case qx_cases) = Inr (map (JStr \<circ> snd) qx_cases)"
    and ids: "traverse (\<lambda>c. hashable (obj_get c ''case_id'' JNull)) (map qx_case qx_cases) = Inr (map (JStr \<circ> fst) qx_cases)"
    by (simp_all add: qx_cases_def qx_case_def obj_get_def hashable_def)
  have count: "len_of_json qx_labels = Inr 4" by (simp add: qx_labels_def qx_cases_def len_of_json_def)
  have set: "distinct_values (map (JStr \<circ> fst) qx_cases) = map (JStr \<circ> fst) qx_cases"
    by (simp add: qx_cases_def distinct_values_def jmem_def)
  have labels: "truthy qx_labels" by (simp add: qx_labels_def qx_cases_def truthy_def)
  have "list_all snd (qualify_checks qx_bundle ck [(''labels_separated'', JBool True), (''protected_sha256'', JStr ''y''), (''public_sha256'', JStr ''x'')]
      (map qx_case qx_cases) qx_labels 4 (map (JStr \<circ> fst) qx_cases) (map (JStr \<circ> snd) qx_cases) fi [''s.p''])"
    unfolding qualify_checks_def by (simp add: ck(2) labels set qx_clean fi(2-5), simp add: qx_cases_def required_tasks_def obj_get_def)
  then show ?thesis unfolding qualify_actionnet_def Let_def
    by (simp only: qx_parts rbind_simps tasks fi(1) qx_paths ck(1) ids count) (simp add: dict_of_get)
qed

theorem qualified_bundle_is_sound_witness:
  "\<exists>q. qualify_actionnet demo_env qx_mechanism qx_bundle = Inr q \<and> (\<exists>c \<in> set (map qx_case qx_cases). pivotal_for demo_env qx_labels ''s.p'' c) \<and>
     (\<forall>c \<in> set (map qx_case qx_cases). \<exists>l. label_of qx_labels c = Inr (JObj l) \<and> \<not> unsafe_case (scenario_of c) l)"
proof -
  obtain q where q: "qualify_actionnet demo_env qx_mechanism qx_bundle = Inr q" "dict_get q ''passed'' = Some (JBool True)"
    using qx_qualified by blast
  show ?thesis using qualified_bundle_is_sound [OF q] q(1) unfolding qx_parts qx_paths by auto
qed

end
