(* ===== verification/Spec2Isabelle.thy ===== *)
theory Spec2Isabelle
  imports WorldExamples OutboxExamples KernelExamples MemoryExamples ControlExamples ControlDispatch
    ProvenanceExamples RegistryExamples RuntimeExamples FederationExamples SupervisorExamples StateEngineExamples
    OptimizeExamples CompileExamples ShadowExamples QualifyExamples
begin

text \<open>
  A model of the core of the EDON platform (\<open>src/src/edon\<close>), an event-sourced control plane:
  agents and services propose changes, a kernel authorizes exact requests with signed tokens, a
  world store commits them as events, and workers deliver the events. This theory collects the
  development; nothing is proved here.

  \<^bold>\<open>The parts and how they interact.\<close>
  A world (\<open>world/store.py\<close>) is a JSON state with a version; \<open>append_event\<close> applies SET, DELETE and
  INCREMENT mutations at a version, and stores the event in a hash chain, a snapshot, and a
  message in the outbox, in one transaction. Workers (\<open>outbox/store.py\<close>) lease the messages,
  acknowledge them or let them fail. The kernel (\<open>kernel/tokens.py\<close>, \<open>kernel/commit.py\<close>) signs a token
  for one request and lets an append through only with a token for it, once. The control plane
  (\<open>operations/control.py\<close>) keeps agents, pools, goals, plans and learned notes in the state of a
  world, through \<open>append_event\<close>, and records outcomes in the episodic memory (\<open>memory/store.py\<close>).
  Beside this stand the provenance graph (\<open>provenance/graph.py\<close>) and the way of a mechanism: the
  compiler (\<open>compiler/\<close>) makes unapproved candidates from statements of sources, the review registry
  (\<open>registry/store.py\<close>) turns reviewed candidates into approved mechanisms, and the runtime
  (\<open>runtime/engine.py\<close>) evaluates approved mechanisms. Bundles of training cases for a mechanism are
  qualified (\<open>qualification/engine.py\<close>); decisions of people, systems and models are compared
  (\<open>shadow/harness.py\<close>), and repeated disagreement becomes a proposal of amendment
  (\<open>gaps/discovery.py\<close>). The supervisor
  (\<open>supervisor/loop.py\<close>, \<open>supervisor/store.py\<close>) shows the state of the control plane to a model, checks
  its proposal (\<open>cerebrum/operations.py\<close>) and stores it without executing it; the state engine
  (\<open>cerebrum/state_engine.py\<close>) keeps assertions about a world by class and time; the federation
  (\<open>federation/store.py\<close>) aggregates summaries of worlds up a tree of scopes. The optimization
  adapter (\<open>optimization/adapter.py\<close>) normalizes allocation requests and checks the candidates of a
  provider.

  \<^bold>\<open>Conventions.\<close>
  A raised exception is the left side of a sum, \<open>rbind\<close> and \<open>require\<close> (Prelude) sequence the
  operations as the code does. A SQLite database is a record of tables, each a list of rows in the
  order of insertion; an operation returns the new database, and a raised exception leaves the
  old one, as the rollback of a transaction does. The triggers that forbid updates and deletes
  are the absence of such operations. A dictionary is an association list with sorted keys, which
  is what canonical JSON writes. Time is an argument of every operation that reads the clock.
  The run-time library's results that the code uses as opaque values are the fields of \<open>pyenv\<close>:
  SHA-256, the text of a float, the text of a container, the parser of timestamps. Floats are
  binary64 with rounding (PyFloat); integers are unbounded, and bounded where SQLite bounds them.

  \<^bold>\<open>Theories and what their lemmas show.\<close>
  \<^item> Prelude, PyFloat, PyTime, Json: results, strings, dictionaries with the interface \<open>dict_spec\<close>,
    floats, ISO timestamps, JSON values with the language's equality, canonical text and hashes
    (\<open>common/hashing.py\<close>).
  \<^item> HashChain: the interface \<open>hash_chain\<close> of an append-only log whose rows carry the hash of the row
    before; interpreted on the world's events, the memory's audit and the registry's audit.
  \<^item> World, WorldStore: mutations of a state; \<open>create_world\<close>, \<open>append_event\<close>, \<open>restore_version\<close>, readers and
    \<open>verify_world\<close>. WorldInv, WorldProps: the log of every reachable world replays to its state;
    append is versioned, idempotent and exact; history is immutable; two verified logs with one
    head are the same log, or two documents that were hashed again collide.
  \<^item> Outbox, OutboxProps: \<open>claim\<close>, \<open>acknowledge\<close>, \<open>fail\<close>; leases are exclusive, settled messages stay, the
    outbox holds exactly the committed events.
  \<^item> Base64, Kernel, KernelProps: token text, \<open>issue\<close>, \<open>verify\<close>, \<open>consume\<close>, the authorized append; a token
    commits at most one event, that of its request, in every reachable world database.
  \<^item> Memory, MemoryProps: \<open>record_episode\<close>, \<open>tombstone\<close>, \<open>query\<close>; queries are exact, episodes immutable.
  \<^item> Topo, ControlTypes, ControlOps, ControlWork, ControlPlane: the operational state as records, one
    definition per proposal, and the operations on top of store and memory. \<open>control_refines_world\<close>
    relates the JSON state in the world to the records. ControlInv, ControlProps, ControlPools,
    ControlDispatch: invariants of every run, by one relation \<open>effect\<close> with a case per change.
  \<^item> Provenance, ProvenanceProps: recording, the cycle check and traces; acyclic, traces complete.
  \<^item> Registry, RegistryProps: registration, review, promotion, rollback; promoted means approved.
  \<^item> Runtime, RuntimeProps: validation, evaluation and replay; the verdict and its determinism.
  \<^item> Federation, FederationProps: scopes, projections of worlds, aggregates, routes and escalations;
    ancestors exist and the loops over them end; summaries and decisions only flow upwards, and a
    summary has room for counts and figures only (\<open>summary_member\<close>).
  \<^item> Supervisor, SupervisorProps: the adapter's check of a proposal, shadow cycles; what is stored
    carries no authority.
  \<^item> StateEngine, StateEngineProps: assertions and projections; a projection is exact at its time.
  \<^item> FloatOrder: rounding respects the order, whole amounts. Optimize, OptimizeProps: requests, the
    reference provider, the check of candidates; on whole quantities below two to the 52, accepted
    allocations are feasible, and the reference allocation is accepted (unless a demand is named
    like an authority field) and maximal.
  \<^item> Ingest, Extract, Reconcile, Compile: the compiler's four stages, from a bundle of sources to a
    report. CompileProps: reconciliation reports exactly the conflicts that the statements have.
    CompileReport: a report always comes out and qualifies, and the registry takes it in exactly
    when its keys are new, which those of a second run over the same sources are not.
  \<^item> Shadow, ShadowProps: comparison of decisions and discovery of gaps, which proposes exactly the
    repeated disagreements. Qualify, QualifyProps: the checks of a bundle; a bundle that passes has
    no leaked key, no contradiction and a contrast pair for every fact.
  \<^item> The theories named Examples run each component on concrete input and apply the properties.

  \<^bold>\<open>Termination and bounds.\<close>
  The loops of the code (ordering, cycle search, traces, years) are recursive functions with a
  measure. Only the loop over the ancestors of a scope has fuel, the number of scopes and one, since
  it follows stored references; running out of it is a value of its own, \<open>FedLoop\<close>, which
  \<open>least_common_ancestor_exact\<close> excludes in every reachable state. Traces and searches in the code are recursive too, and
  Python's recursion limit is not modelled. Resource accounting (ControlPools) is exact only on
  whole amounts up to two to the 53, where float addition does not round; elsewhere rounding can
  let the books drift, and no claim is made. Task lists and books name a step by its task key, plan
  and step joined by a colon; what is proved of them is about states where the keys of any two
  steps differ (\<open>keys_apart\<close>), since two steps with one key do get in each other's way.

  \<^bold>\<open>Deviations.\<close>
  Strings are lists of code points up to 255. A NaN is compared with the language's operator, not
  by identity as list membership would. Event identifiers of the runtime that are no text are
  malformed input, and so is a text where the federation reads a number from the state of a world.
  The compiler reads its files through a function from the relative path to what the file system
  says; \<open>str.casefold\<close> and \<open>csv.reader\<close> are those of the language on the code points of the model.
  Gap discovery sorts the identities of its evidence as texts or as numbers; several identities of
  other kinds are malformed. The members of a dictionary are visited in the order of the keys: in
  the requests of a step, two names that agree once stripped could meet in another order in the
  code, and leaked keys are listed in that order. Floats have one zero, so the texts and the hashes
  of the two zeros are not told apart. The runs of the control plane (\<open>control_run\<close>) hand each
  operation the records that the last one left, instead of decoding them from the world's JSON;
  \<open>control_refines_world\<close> says that the world holds their encoding.
  Facts about hash collisions are stated as the alternative of a collision.

  \<^bold>\<open>Not modelled.\<close>
  The HTTP and command-line layers, the gateway, ActionNet's dataset tooling, evaluation
  harnesses and experiments: they are input, output and reporting around the parts above. The
  prompts and transport of learned models (\<open>cerebrum/qwen.py\<close>, \<open>cerebrum/c1.py\<close>,
  \<open>cerebrum/orchestrator.py\<close>), since the model is a service.
\<close>

end
